(* ===== verification/Json_Text.thy ===== *)
theory Json_Text
  imports Py_Base
begin

text \<open>
  The JSON text that \<open>json.dumps\<close> prints for a value. Every digest, every stored column and every
  size limit of the write path is computed from this text. The four parameters are the keyword
  arguments the code passes: \<open>ensure_ascii\<close>, \<open>sort_keys\<close> and the two separators.
\<close>

definition hex4 :: "nat \<Rightarrow> string" where
  "hex4 n = ''00'' @ hex2 n"

definition json_char :: "bool \<Rightarrow> char \<Rightarrow> string" where
  "json_char ascii c =
     (if code c = 34 then [CHR 0x5C, CHR 0x22]
      else if code c = 92 then [CHR 0x5C, CHR 0x5C]
      else if code c = 10 then [CHR 0x5C, CHR ''n'']
      else if code c = 13 then [CHR 0x5C, CHR ''r'']
      else if code c = 9 then [CHR 0x5C, CHR ''t'']
      else if code c = 12 then [CHR 0x5C, CHR ''f'']
      else if code c = 8 then [CHR 0x5C, CHR ''b'']
      else if code c < 32 \<or> (ascii \<and> 127 \<le> code c) then CHR 0x5C # CHR ''u'' # hex4 (code c)
      else [c])"

definition json_str :: "bool \<Rightarrow> string \<Rightarrow> string" where
  "json_str ascii s = [CHR 0x22] @ concat (map (json_char ascii) s) @ [CHR 0x22]"

fun json_float :: "py_float \<Rightarrow> string" where
  "json_float (Fin q t) = t"
| "json_float (Inf neg) = (if neg then ''-Infinity'' else ''Infinity'')"
| "json_float NaN = ''NaN''"

fun json_dump :: "bool \<Rightarrow> bool \<Rightarrow> string \<Rightarrow> string \<Rightarrow> py \<Rightarrow> string" where
  "json_dump ascii srt isep ksep PNone = ''null''"
| "json_dump ascii srt isep ksep (PBool b) = (if b then ''true'' else ''false'')"
| "json_dump ascii srt isep ksep (PInt i) = int_str i"
| "json_dump ascii srt isep ksep (PFloat f) = json_float f"
| "json_dump ascii srt isep ksep (PStr s) = json_str ascii s"
| "json_dump ascii srt isep ksep (PList xs) =
     ''['' @ join isep (map (json_dump ascii srt isep ksep) xs) @ '']''"
| "json_dump ascii srt isep ksep (PTuple xs) =
     ''['' @ join isep (map (json_dump ascii srt isep ksep) xs) @ '']''"
| "json_dump ascii srt isep ksep (PDict d) =
     (let items = map (\<lambda>kv. (fst kv, json_dump ascii srt isep ksep (snd kv))) d;
          items = (if srt then sort_key fst items else items)
      in ''{'' @ join isep (map (\<lambda>kv. json_str ascii (fst kv) @ ksep @ snd kv) items) @ ''}'')"

text \<open>
  The three settings in use: \<open>ensure_ascii=False, separators=(",", ":"), sort_keys=True\<close> (canonical
  plans), \<open>sort_keys=True\<close> (context and payload digests, value identities) and
  \<open>sort_keys=True, separators=(",", ":")\<close> (idempotency keys), and \<open>ensure_ascii=False\<close> (sizes).
\<close>

definition canonical_json :: "py \<Rightarrow> string" where
  "canonical_json v = json_dump False True '','' '':'' v"

definition sorted_json :: "py \<Rightarrow> string" where
  "sorted_json v = json_dump True True '', '' '': '' v"

definition compact_json :: "py \<Rightarrow> string" where
  "compact_json v = json_dump True True '','' '':'' v"

definition plain_json :: "py \<Rightarrow> string" where
  "plain_json v = json_dump False False '', '' '': '' v"

text \<open>\<open>len(text.encode("utf-8"))\<close>: one byte for ASCII, two for the rest of the modelled range.\<close>

definition utf8_len :: "string \<Rightarrow> nat" where
  "utf8_len s = sum_list (map (\<lambda>c. if is_ascii c then 1 else 2) s)"

lemma utf8_len_bounds: "length s \<le> utf8_len s \<and> utf8_len s \<le> 2 * length s"
  by (induction s) (auto simp: utf8_len_def)

lemma utf8_len_append [simp]: "utf8_len (s @ t) = utf8_len s + utf8_len t"
  by (simp add: utf8_len_def)

end
