(* ===== verification/Write_Plan.thy ===== *)
theory Write_Plan
  imports Json_Text
begin

text \<open>
  Model of \<open>hugegraph_mcp/write_plan.py\<close>: the two status enums, the plan state machine, the immutable
  plan and receipt models with the checks of their constructors, and their canonical serialisation.
  The lemmas give the shape of the state machine, the evidence rule of the status aggregation and the
  dependency order that every constructed plan has.
\<close>

section \<open>Statuses\<close>

datatype ApplyStatus =
    APPLIED | ALREADY_APPLIED | REJECTED | CONFLICT | PARTIAL | UNKNOWN | LEGACY_UNKNOWN
  | RETRYABLE_NOT_APPLIED

datatype PlanStatus =
    ISSUED | EXECUTING | APPLIED | ALREADY_APPLIED | REJECTED | CONFLICT | PARTIAL | UNKNOWN
  | LEGACY_UNKNOWN | RETRYABLE_NOT_APPLIED | EXPIRED

definition all_apply_statuses :: "ApplyStatus list" where
  "all_apply_statuses = [ApplyStatus.APPLIED, ApplyStatus.ALREADY_APPLIED, ApplyStatus.REJECTED,
     ApplyStatus.CONFLICT, ApplyStatus.PARTIAL, ApplyStatus.UNKNOWN, ApplyStatus.LEGACY_UNKNOWN,
     ApplyStatus.RETRYABLE_NOT_APPLIED]"

definition all_plan_statuses :: "PlanStatus list" where
  "all_plan_statuses = [ISSUED, EXECUTING, APPLIED, ALREADY_APPLIED, REJECTED, CONFLICT, PARTIAL,
     UNKNOWN, LEGACY_UNKNOWN, RETRYABLE_NOT_APPLIED, EXPIRED]"

fun apply_value :: "ApplyStatus \<Rightarrow> string" where
  "apply_value ApplyStatus.APPLIED = ''APPLIED''"
| "apply_value ApplyStatus.ALREADY_APPLIED = ''ALREADY_APPLIED''"
| "apply_value ApplyStatus.REJECTED = ''REJECTED''"
| "apply_value ApplyStatus.CONFLICT = ''CONFLICT''"
| "apply_value ApplyStatus.PARTIAL = ''PARTIAL''"
| "apply_value ApplyStatus.UNKNOWN = ''UNKNOWN''"
| "apply_value ApplyStatus.LEGACY_UNKNOWN = ''LEGACY_UNKNOWN''"
| "apply_value ApplyStatus.RETRYABLE_NOT_APPLIED = ''RETRYABLE_NOT_APPLIED''"

fun plan_value :: "PlanStatus \<Rightarrow> string" where
  "plan_value ISSUED = ''ISSUED''"
| "plan_value EXECUTING = ''EXECUTING''"
| "plan_value APPLIED = ''APPLIED''"
| "plan_value ALREADY_APPLIED = ''ALREADY_APPLIED''"
| "plan_value REJECTED = ''REJECTED''"
| "plan_value CONFLICT = ''CONFLICT''"
| "plan_value PARTIAL = ''PARTIAL''"
| "plan_value UNKNOWN = ''UNKNOWN''"
| "plan_value LEGACY_UNKNOWN = ''LEGACY_UNKNOWN''"
| "plan_value RETRYABLE_NOT_APPLIED = ''RETRYABLE_NOT_APPLIED''"
| "plan_value EXPIRED = ''EXPIRED''"

text \<open>\<open>ApplyStatus(text)\<close> and \<open>PlanStatus(text)\<close>: lookup by value, \<open>None\<close> for the ValueError.\<close>

definition apply_of_value :: "string \<Rightarrow> ApplyStatus option" where
  "apply_of_value s = find (\<lambda>a. apply_value a = s) all_apply_statuses"

definition plan_of_value :: "string \<Rightarrow> PlanStatus option" where
  "plan_of_value s = find (\<lambda>p. plan_value p = s) all_plan_statuses"

lemma plan_of_plan_value [simp]: "plan_of_value (plan_value p) = Some p"
  by (cases p) (simp_all add: plan_of_value_def all_plan_statuses_def)

lemma apply_of_apply_value [simp]: "apply_of_value (apply_value a) = Some a"
  by (cases a) (simp_all add: apply_of_value_def all_apply_statuses_def)

lemma plan_value_inj [simp]: "plan_value p = plan_value q \<longleftrightarrow> p = q"
  by (metis plan_of_plan_value option.inject)

text \<open>\<open>PlanStatus(status.value)\<close> for an apply status: every apply value is a plan value.\<close>

fun plan_of_apply :: "ApplyStatus \<Rightarrow> PlanStatus" where
  "plan_of_apply ApplyStatus.APPLIED = APPLIED"
| "plan_of_apply ApplyStatus.ALREADY_APPLIED = ALREADY_APPLIED"
| "plan_of_apply ApplyStatus.REJECTED = REJECTED"
| "plan_of_apply ApplyStatus.CONFLICT = CONFLICT"
| "plan_of_apply ApplyStatus.PARTIAL = PARTIAL"
| "plan_of_apply ApplyStatus.UNKNOWN = UNKNOWN"
| "plan_of_apply ApplyStatus.LEGACY_UNKNOWN = LEGACY_UNKNOWN"
| "plan_of_apply ApplyStatus.RETRYABLE_NOT_APPLIED = RETRYABLE_NOT_APPLIED"

lemma plan_of_apply_value: "plan_of_value (apply_value a) = Some (plan_of_apply a)"
  by (cases a) (simp_all add: plan_of_value_def all_plan_statuses_def)

lemma plan_of_apply_inj [simp]: "plan_of_apply a = plan_of_apply b \<longleftrightarrow> a = b"
  by (cases a; cases b) simp_all

lemma plan_of_apply_not_issued [simp]:
  "plan_of_apply a \<noteq> ISSUED" "plan_of_apply a \<noteq> EXECUTING" "plan_of_apply a \<noteq> EXPIRED"
  by (cases a; simp)+

text \<open>\<open>ApplyStatus(row_status)\<close> for a persisted plan status: only three have no apply counterpart.\<close>

definition apply_of_plan :: "PlanStatus \<Rightarrow> ApplyStatus option" where
  "apply_of_plan p = apply_of_value (plan_value p)"

lemma apply_of_plan_simps [simp]:
  "apply_of_plan ISSUED = None"
  "apply_of_plan EXECUTING = None"
  "apply_of_plan EXPIRED = None"
  "apply_of_plan APPLIED = Some ApplyStatus.APPLIED"
  "apply_of_plan ALREADY_APPLIED = Some ApplyStatus.ALREADY_APPLIED"
  "apply_of_plan REJECTED = Some ApplyStatus.REJECTED"
  "apply_of_plan CONFLICT = Some ApplyStatus.CONFLICT"
  "apply_of_plan PARTIAL = Some ApplyStatus.PARTIAL"
  "apply_of_plan UNKNOWN = Some ApplyStatus.UNKNOWN"
  "apply_of_plan LEGACY_UNKNOWN = Some ApplyStatus.LEGACY_UNKNOWN"
  "apply_of_plan RETRYABLE_NOT_APPLIED = Some ApplyStatus.RETRYABLE_NOT_APPLIED"
  by (simp_all add: apply_of_plan_def apply_of_value_def all_apply_statuses_def)

lemma apply_of_plan_of_apply [simp]: "apply_of_plan (plan_of_apply a) = Some a"
  by (cases a) simp_all

lemma apply_of_plan_eq_Some: "apply_of_plan p = Some a \<longleftrightarrow> p = plan_of_apply a"
  by (cases p; cases a) simp_all

section \<open>The plan state machine\<close>

fun ALLOWED_PLAN_TRANSITIONS :: "PlanStatus \<Rightarrow> PlanStatus list" where
  "ALLOWED_PLAN_TRANSITIONS ISSUED = [EXECUTING, EXPIRED]"
| "ALLOWED_PLAN_TRANSITIONS EXECUTING =
     [APPLIED, ALREADY_APPLIED, REJECTED, CONFLICT, PARTIAL, UNKNOWN]"
| "ALLOWED_PLAN_TRANSITIONS UNKNOWN = [APPLIED, CONFLICT, RETRYABLE_NOT_APPLIED]"
| "ALLOWED_PLAN_TRANSITIONS LEGACY_UNKNOWN = [APPLIED, CONFLICT, RETRYABLE_NOT_APPLIED]"
| "ALLOWED_PLAN_TRANSITIONS RETRYABLE_NOT_APPLIED = [EXECUTING]"
| "ALLOWED_PLAN_TRANSITIONS PARTIAL = [PARTIAL, APPLIED, UNKNOWN]"
| "ALLOWED_PLAN_TRANSITIONS APPLIED = []"
| "ALLOWED_PLAN_TRANSITIONS ALREADY_APPLIED = []"
| "ALLOWED_PLAN_TRANSITIONS REJECTED = []"
| "ALLOWED_PLAN_TRANSITIONS CONFLICT = []"
| "ALLOWED_PLAN_TRANSITIONS EXPIRED = []"

definition can_transition :: "PlanStatus \<Rightarrow> PlanStatus \<Rightarrow> bool" where
  "can_transition current target \<longleftrightarrow> target \<in> set (ALLOWED_PLAN_TRANSITIONS current)"

definition terminal :: "PlanStatus \<Rightarrow> bool" where
  "terminal p \<longleftrightarrow> p \<in> {APPLIED, ALREADY_APPLIED, REJECTED, CONFLICT, EXPIRED}"

lemma terminal_iff_stuck: "terminal p \<longleftrightarrow> (\<forall>q. \<not> can_transition p q)"
  by (cases p) (auto simp: terminal_def can_transition_def)

lemma never_back_to_issued: "\<not> can_transition p ISSUED"
  by (cases p) (auto simp: can_transition_def)

lemma expired_only_from_issued: "can_transition p EXPIRED \<longleftrightarrow> p = ISSUED"
  by (cases p) (auto simp: can_transition_def)

lemma executing_only_from: "can_transition p EXECUTING \<longleftrightarrow> p = ISSUED \<or> p = RETRYABLE_NOT_APPLIED"
  by (cases p) (auto simp: can_transition_def)

section \<open>Aggregation of operation evidence\<close>

definition is_success :: "ApplyStatus \<Rightarrow> bool" where
  "is_success s \<longleftrightarrow> s = ApplyStatus.APPLIED \<or> s = ApplyStatus.ALREADY_APPLIED"

definition aggregate_plan_status :: "ApplyStatus list \<Rightarrow> PlanStatus" where
  "aggregate_plan_status statuses =
     (if statuses = [] then ISSUED
      else if list_all is_success statuses then
        (if list_all (\<lambda>s. s = ApplyStatus.ALREADY_APPLIED) statuses then ALREADY_APPLIED
         else APPLIED)
      else if list_ex is_success statuses then PARTIAL
      else if ApplyStatus.PARTIAL \<in> set statuses then PARTIAL
      else if ApplyStatus.UNKNOWN \<in> set statuses then UNKNOWN
      else if ApplyStatus.CONFLICT \<in> set statuses then CONFLICT
      else if ApplyStatus.RETRYABLE_NOT_APPLIED \<in> set statuses then RETRYABLE_NOT_APPLIED
      else REJECTED)"

lemma aggregate_applied_iff:
  "aggregate_plan_status ss \<in> {APPLIED, ALREADY_APPLIED} \<longleftrightarrow> ss \<noteq> [] \<and> list_all is_success ss"
  by (simp add: aggregate_plan_status_def)

lemma aggregate_partial_iff:
  "aggregate_plan_status ss = PARTIAL \<longleftrightarrow>
     \<not> list_all is_success ss \<and> (list_ex is_success ss \<or> ApplyStatus.PARTIAL \<in> set ss)"
  by (cases "ss = []") (simp_all add: aggregate_plan_status_def)

lemma aggregate_set_cong:
  "set ss = set ts \<Longrightarrow> aggregate_plan_status ss = aggregate_plan_status ts"
proof -
  assume eq: "set ss = set ts"
  then have "ss = [] \<longleftrightarrow> ts = []" by (metis set_empty)
  with eq show ?thesis
    unfolding aggregate_plan_status_def list_all_iff list_ex_iff by simp
qed

section \<open>Frozen state\<close>

fun freeze :: "py \<Rightarrow> py" where
  "freeze (PDict d) = PDict (map (\<lambda>kv. (fst kv, freeze (snd kv))) d)"
| "freeze (PList xs) = PTuple (map freeze xs)"
| "freeze (PTuple xs) = PTuple (map freeze xs)"
| "freeze v = v"

definition freeze_mapping :: "py \<Rightarrow> py_dict res" where
  "freeze_mapping v = (case v of
      PDict d \<Rightarrow> Inr (map (\<lambda>kv. (fst kv, freeze (snd kv))) d)
    | _ \<Rightarrow> Inl (TypeError ''write plan state must be a mapping''))"

fun thaw :: "py \<Rightarrow> py" where
  "thaw (PDict d) = PDict (map (\<lambda>kv. (fst kv, thaw (snd kv))) d)"
| "thaw (PTuple xs) = PList (map thaw xs)"
| "thaw v = v"

text \<open>A value as \<open>json.loads\<close> can return it: no tuple anywhere. A frozen value: no list anywhere.\<close>

fun json_value :: "py \<Rightarrow> bool" where
  "json_value (PTuple xs) = False"
| "json_value (PList xs) = list_all json_value xs"
| "json_value (PDict d) = list_all (\<lambda>kv. json_value (snd kv)) d"
| "json_value v = True"

fun frozen :: "py \<Rightarrow> bool" where
  "frozen (PList xs) = False"
| "frozen (PTuple xs) = list_all frozen xs"
| "frozen (PDict d) = list_all (\<lambda>kv. frozen (snd kv)) d"
| "frozen v = True"

lemma frozen_freeze [simp]: "frozen (freeze v)"
  by (induction v rule: freeze.induct) (auto simp: list_all_iff)

lemma thaw_freeze: "json_value v \<Longrightarrow> thaw (freeze v) = v"
  by (induction v rule: freeze.induct) (auto simp: list_all_iff intro!: map_idI)

lemma freeze_thaw: "frozen v \<Longrightarrow> freeze (thaw v) = v"
  by (induction v rule: thaw.induct) (auto simp: list_all_iff intro!: map_idI)

section \<open>Plans\<close>

record GraphTarget =
  gt_url :: string
  gt_name :: string
  gt_space :: "string option"

definition py_opt_str :: "string option \<Rightarrow> py" where
  "py_opt_str o' = (case o' of None \<Rightarrow> PNone | Some s \<Rightarrow> PStr s)"

definition graph_target_to_dict :: "GraphTarget \<Rightarrow> py" where
  "graph_target_to_dict g = PDict
     [(''graph_url'', PStr (gt_url g)),
      (''graph_name'', PStr (gt_name g)),
      (''graphspace'', py_opt_str (gt_space g))]"

record OperationPlan =
  op_id :: string
  op_kind :: string
  op_target :: py_dict
  op_expected :: py_dict
  op_desired :: py_dict
  op_depends_on :: "string list"
  op_idem :: "string option"

text \<open>The constructor with its \<open>__post_init__\<close>.\<close>

definition mk_operation_plan ::
  "string \<Rightarrow> string \<Rightarrow> py \<Rightarrow> py \<Rightarrow> py \<Rightarrow> string list \<Rightarrow> string option \<Rightarrow> OperationPlan res" where
  "mk_operation_plan oid kind target expected desired depends idem =
     (if oid = [] then Inl (ValueError ''operation_id must be non-empty'')
      else if kind = [] then Inl (ValueError ''operation kind must be non-empty'')
      else case freeze_mapping target of Inl e \<Rightarrow> Inl e | Inr target' \<Rightarrow>
      (case freeze_mapping expected of Inl e \<Rightarrow> Inl e | Inr expected' \<Rightarrow>
      (case freeze_mapping desired of Inl e \<Rightarrow> Inl e | Inr desired' \<Rightarrow>
        Inr \<lparr>op_id = oid, op_kind = kind, op_target = target', op_expected = expected',
             op_desired = desired', op_depends_on = depends, op_idem = idem\<rparr>)))"

definition operation_to_dict :: "OperationPlan \<Rightarrow> py" where
  "operation_to_dict o' = PDict
     [(''operation_id'', PStr (op_id o')),
      (''kind'', PStr (op_kind o')),
      (''target'', thaw (PDict (op_target o'))),
      (''expected_state'', thaw (PDict (op_expected o'))),
      (''desired_state'', thaw (PDict (op_desired o'))),
      (''depends_on'', PList (map PStr (op_depends_on o'))),
      (''idempotency_key'', py_opt_str (op_idem o'))]"

record WritePlan =
  wp_id :: string
  wp_tool :: string
  wp_target :: GraphTarget
  wp_principal :: string
  wp_operations :: "OperationPlan list"
  wp_digest :: string
  wp_fingerprint :: "string option"
  wp_status :: PlanStatus
  wp_created_at :: int
  wp_expires_at :: int

text \<open>The loop over the operations of \<open>WritePlan.__post_init__\<close>, with the set \<open>seen\<close>.\<close>

fun check_operations :: "string list \<Rightarrow> OperationPlan list \<Rightarrow> unit res" where
  "check_operations seen [] = Inr ()"
| "check_operations seen (o' # os) =
     (if op_id o' \<in> set seen then Inl (ValueError (''duplicate operation_id: '' @ op_id o'))
      else let missing = filter (\<lambda>d. d \<notin> set seen) (op_depends_on o') in
        if missing \<noteq> []
        then Inl (ValueError (''operation '' @ op_id o' @ '' depends on an earlier operation: '' @
               join '', '' missing))
        else check_operations (op_id o' # seen) os)"

definition mk_write_plan :: "WritePlan \<Rightarrow> WritePlan res" where
  "mk_write_plan p =
     (if wp_id p = [] then Inl (ValueError ''plan_id must be non-empty'')
      else if wp_tool p = [] then Inl (ValueError ''tool_name must be non-empty'')
      else case check_operations [] (wp_operations p) of Inl e \<Rightarrow> Inl e
      | Inr _ \<Rightarrow>
        (if wp_created_at p < 0 \<or> wp_expires_at p \<le> wp_created_at p
         then Inl (ValueError ''expires_at must be greater than created_at'')
         else Inr p))"

definition plan_to_dict :: "WritePlan \<Rightarrow> py" where
  "plan_to_dict p = PDict
     [(''plan_id'', PStr (wp_id p)),
      (''tool_name'', PStr (wp_tool p)),
      (''graph_target'', graph_target_to_dict (wp_target p)),
      (''principal'', PStr (wp_principal p)),
      (''operations'', PList (map operation_to_dict (wp_operations p))),
      (''payload_digest'', PStr (wp_digest p)),
      (''schema_fingerprint'', py_opt_str (wp_fingerprint p)),
      (''status'', PStr (plan_value (wp_status p))),
      (''created_at'', PInt (wp_created_at p)),
      (''expires_at'', PInt (wp_expires_at p))]"

definition canonical_plan_json :: "WritePlan \<Rightarrow> string" where
  "canonical_plan_json p = canonical_json (plan_to_dict p)"

text \<open>\<open>sha256\<close> of the UTF-8 text is a parameter: any function from texts to digests.\<close>

definition canonical_plan_digest :: "(string \<Rightarrow> string) \<Rightarrow> WritePlan \<Rightarrow> string" where
  "canonical_plan_digest sha p = sha (canonical_plan_json p)"

section \<open>Receipts\<close>

record ApplyReceipt =
  rc_status :: ApplyStatus
  rc_plan_id :: "string option"
  rc_operation_id :: "string option"
  rc_observed :: "py_dict option"
  rc_reason_code :: "string option"
  rc_attempt :: int
  rc_attempt_token :: "string option"
  rc_reconcile :: bool
  rc_committed_at :: "int option"
  rc_operation :: "py_dict option"
  rc_reason :: "string option"

definition freeze_opt :: "py_dict option \<Rightarrow> py_dict option" where
  "freeze_opt d = map_option (map (\<lambda>kv. (fst kv, freeze (snd kv)))) d"

definition mk_receipt :: "ApplyReceipt \<Rightarrow> ApplyReceipt res" where
  "mk_receipt r =
     (if rc_attempt r < 0 then Inl (ValueError ''attempt must not be negative'')
      else Inr (r\<lparr>rc_observed := freeze_opt (rc_observed r),
                  rc_operation := freeze_opt (rc_operation r)\<rparr>))"

definition thaw_opt :: "py_dict option \<Rightarrow> py" where
  "thaw_opt d = (case d of None \<Rightarrow> PNone | Some m \<Rightarrow> thaw (PDict m))"

definition receipt_to_dict :: "ApplyReceipt \<Rightarrow> py" where
  "receipt_to_dict r =
     (if rc_plan_id r = None \<and> rc_operation_id r = None then PDict
        [(''status'', PStr (apply_value (rc_status r))),
         (''operation'', thaw_opt (rc_operation r)),
         (''observed_state'', thaw_opt (rc_observed r)),
         (''reason'', py_opt_str (rc_reason r)),
         (''reconciliation_required'', PBool (rc_reconcile r))]
      else PDict
        ([(''plan_id'', py_opt_str (rc_plan_id r)),
          (''operation_id'', py_opt_str (rc_operation_id r)),
          (''status'', PStr (apply_value (rc_status r))),
          (''observed_state'', thaw_opt (rc_observed r)),
          (''reason_code'', py_opt_str (rc_reason_code r)),
          (''attempt'', PInt (rc_attempt r)),
          (''reconciliation_required'', PBool (rc_reconcile r)),
          (''committed_at'', (case rc_committed_at r of None \<Rightarrow> PNone | Some t \<Rightarrow> PInt t))] @
         (case rc_attempt_token r of None \<Rightarrow> [] | Some t \<Rightarrow> [(''attempt_token'', PStr t)])))"

section \<open>What the constructor guarantees\<close>

text \<open>
  The specification of a well-formed plan: names are present, operation identifiers are distinct,
  every dependency points to an earlier operation, and the validity window is not empty.
\<close>

definition deps_earlier :: "OperationPlan list \<Rightarrow> bool" where
  "deps_earlier os \<longleftrightarrow>
     (\<forall>i < length os. set (op_depends_on (os ! i)) \<subseteq> set (map op_id (take i os)))"

definition wf_plan :: "WritePlan \<Rightarrow> bool" where
  "wf_plan p \<longleftrightarrow> wp_id p \<noteq> [] \<and> wp_tool p \<noteq> [] \<and> distinct (map op_id (wp_operations p)) \<and>
     deps_earlier (wp_operations p) \<and> 0 \<le> wp_created_at p \<and> wp_created_at p < wp_expires_at p"

lemma check_operations_iff:
  "check_operations seen os = Inr u \<longleftrightarrow>
     distinct (map op_id os) \<and> set (map op_id os) \<inter> set seen = {} \<and>
     (\<forall>i < length os. set (op_depends_on (os ! i)) \<subseteq> set seen \<union> set (map op_id (take i os)))"
proof (induction seen os rule: check_operations.induct)
  case (1 seen)
  then show ?case by simp
next
  case (2 seen o' os)
  have split: "(\<forall>i < length (o' # os). set (op_depends_on ((o' # os) ! i))
        \<subseteq> set seen \<union> set (map op_id (take i (o' # os)))) \<longleftrightarrow>
      set (op_depends_on o') \<subseteq> set seen \<and>
      (\<forall>i < length os. set (op_depends_on (os ! i))
        \<subseteq> set (op_id o' # seen) \<union> set (map op_id (take i os)))"
    by (simp add: All_less_Suc2)
  have missing: "filter (\<lambda>d. d \<notin> set seen) (op_depends_on o') = [] \<longleftrightarrow>
      set (op_depends_on o') \<subseteq> set seen"
    by (auto simp: filter_empty_conv)
  show ?case
    unfolding split using 2 missing by (auto simp: Let_def)
qed

lemma mk_write_plan_iff: "mk_write_plan p = Inr q \<longleftrightarrow> q = p \<and> wf_plan p"
proof -
  have "check_operations [] (wp_operations p) = Inr () \<longleftrightarrow>
      distinct (map op_id (wp_operations p)) \<and> deps_earlier (wp_operations p)"
    unfolding check_operations_iff deps_earlier_def by simp
  then show ?thesis
    by (cases "check_operations [] (wp_operations p)") (auto simp: mk_write_plan_def wf_plan_def)
qed

end
