(* ===== verification/Plan_Store.thy ===== *)
theory Plan_Store
  imports Write_Plan
begin

text \<open>
  Model of \<open>hugegraph_mcp/plan_store.py\<close>: the two SQLite tables of the durable plan store and one
  function per transaction. A table is the list of its rows, an UPDATE is \<open>update_plans\<close> or
  \<open>update_ops\<close> with its WHERE clause as a predicate, and \<open>rowcount\<close> is the number of rows that
  satisfy it. A transaction that raises after \<open>rollback\<close> returns the database unchanged; the few
  that raise after \<open>commit\<close> return the committed one. A JSON column holds the value whose canonical
  text the code stores. \<open>time.time()\<close> and \<open>uuid4\<close> readings are arguments (\<open>now\<close>, \<open>fresh\<close>).
  The call of \<open>prepare\<close> that opens every operation is a committed transaction of its own and is the
  separate operation \<open>migrate_legacy\<close>.
\<close>

section \<open>Tables\<close>

record plan_row =
  pl_id :: string
  pl_tool :: string
  pl_target :: py
  pl_principal :: string
  pl_payload :: py
  pl_digest :: string
  pl_fingerprint :: "string option"
  pl_status :: PlanStatus
  pl_created :: int
  pl_expires :: int
  pl_confirmed :: "int option"
  pl_owner :: "string option"
  pl_lease :: "int option"

record op_row =
  or_id :: string
  or_plan :: string
  or_ordinal :: nat
  or_kind :: string
  or_payload :: py
  or_status :: PlanStatus
  or_attempt :: int
  or_token :: "string option"
  or_reconciled :: bool
  or_receipt :: "py option"
  or_updated :: int

record plan_db =
  plans :: "plan_row list"
  ops :: "op_row list"

definition empty_db :: plan_db where
  "empty_db = \<lparr>plans = [], ops = []\<rparr>"

definition find_plan :: "plan_db \<Rightarrow> string \<Rightarrow> plan_row option" where
  "find_plan db pid = find (\<lambda>r. pl_id r = pid) (plans db)"

definition find_op :: "plan_db \<Rightarrow> string \<Rightarrow> string \<Rightarrow> op_row option" where
  "find_op db pid oid = find (\<lambda>r. or_plan r = pid \<and> or_id r = oid) (ops db)"

definition ops_of :: "plan_db \<Rightarrow> string \<Rightarrow> op_row list" where
  "ops_of db pid = sort_key or_ordinal (filter (\<lambda>r. or_plan r = pid) (ops db))"

definition update_plans :: "(plan_row \<Rightarrow> bool) \<Rightarrow> (plan_row \<Rightarrow> plan_row) \<Rightarrow> plan_db \<Rightarrow> plan_db" where
  "update_plans P f db = db\<lparr>plans := map (\<lambda>r. if P r then f r else r) (plans db)\<rparr>"

definition update_ops :: "(op_row \<Rightarrow> bool) \<Rightarrow> (op_row \<Rightarrow> op_row) \<Rightarrow> plan_db \<Rightarrow> plan_db" where
  "update_ops P f db = db\<lparr>ops := map (\<lambda>r. if P r then f r else r) (ops db)\<rparr>"

definition plan_count :: "(plan_row \<Rightarrow> bool) \<Rightarrow> plan_db \<Rightarrow> nat" where
  "plan_count P db = length (filter P (plans db))"

definition op_count :: "(op_row \<Rightarrow> bool) \<Rightarrow> plan_db \<Rightarrow> nat" where
  "op_count P db = length (filter P (ops db))"

text \<open>\<open>a or b\<close> for an optional text: an empty text counts as missing.\<close>

definition or_str :: "string option \<Rightarrow> string \<Rightarrow> string" where
  "or_str a b = (case a of None \<Rightarrow> b | Some s \<Rightarrow> if s = [] then b else s)"

definition or_opt :: "string option \<Rightarrow> string option \<Rightarrow> string option" where
  "or_opt a b = (case a of None \<Rightarrow> b | Some s \<Rightarrow> if s = [] then b else Some s)"

definition lease_free :: "int \<Rightarrow> int option \<Rightarrow> bool" where
  "lease_free now l = (case l of None \<Rightarrow> True | Some t \<Rightarrow> t \<le> now)"

section \<open>Reading a plan\<close>

record PlanRecord =
  rec_plan :: plan_row
  rec_ops :: "op_row list"

definition get_plan_record :: "plan_db \<Rightarrow> string \<Rightarrow> PlanRecord option" where
  "get_plan_record db pid = (case find_plan db pid of None \<Rightarrow> None
     | Some r \<Rightarrow> Some \<lparr>rec_plan = r, rec_ops = ops_of db pid\<rparr>)"

text \<open>A stored text field; the columns only ever hold what \<open>to_dict\<close> wrote.\<close>

definition key_str :: "py_dict \<Rightarrow> string \<Rightarrow> string res" where
  "key_str d k = (case map_of d k of None \<Rightarrow> Inl (KeyError k) | Some (PStr s) \<Rightarrow> Inr s
     | Some _ \<Rightarrow> Inl (TypeError k))"

definition key_opt_str :: "py_dict \<Rightarrow> string \<Rightarrow> string option res" where
  "key_opt_str d k = (case dget d k of PNone \<Rightarrow> Inr None | PStr s \<Rightarrow> Inr (Some s)
     | _ \<Rightarrow> Inl (TypeError k))"

fun str_items :: "py list \<Rightarrow> string list res" where
  "str_items [] = Inr []"
| "str_items (PStr s # vs) = (case str_items vs of Inl e \<Rightarrow> Inl e | Inr ss \<Rightarrow> Inr (s # ss))"
| "str_items (v # vs) = Inl (TypeError ''depends_on'')"

definition key_strs :: "py_dict \<Rightarrow> string \<Rightarrow> string list res" where
  "key_strs d k = (case dget d k of PNone \<Rightarrow> Inr [] | PList vs \<Rightarrow> str_items vs
     | _ \<Rightarrow> Inl (TypeError k))"

definition load_operation :: "py \<Rightarrow> OperationPlan res" where
  "load_operation payload = (case payload of PDict d \<Rightarrow>
      (case key_str d ''operation_id'' of Inl e \<Rightarrow> Inl e | Inr oid \<Rightarrow>
      (case key_str d ''kind'' of Inl e \<Rightarrow> Inl e | Inr kind \<Rightarrow>
      (case key_val d ''target'' of Inl e \<Rightarrow> Inl e | Inr target \<Rightarrow>
      (case key_val d ''expected_state'' of Inl e \<Rightarrow> Inl e | Inr expected \<Rightarrow>
      (case key_val d ''desired_state'' of Inl e \<Rightarrow> Inl e | Inr desired \<Rightarrow>
      (case key_strs d ''depends_on'' of Inl e \<Rightarrow> Inl e | Inr depends \<Rightarrow>
      (case key_opt_str d ''idempotency_key'' of Inl e \<Rightarrow> Inl e | Inr idem \<Rightarrow>
        mk_operation_plan oid kind target expected desired depends idem)))))))
    | _ \<Rightarrow> Inl (TypeError ''payload''))"

fun load_operations :: "op_row list \<Rightarrow> OperationPlan list res" where
  "load_operations [] = Inr []"
| "load_operations (r # rs) = (case load_operation (or_payload r) of Inl e \<Rightarrow> Inl e | Inr o' \<Rightarrow>
     (case load_operations rs of Inl e \<Rightarrow> Inl e | Inr os \<Rightarrow> Inr (o' # os)))"

definition load_target :: "py \<Rightarrow> GraphTarget res" where
  "load_target t = (case t of PDict d \<Rightarrow>
      (case key_str d ''graph_url'' of Inl e \<Rightarrow> Inl e | Inr url \<Rightarrow>
      (case key_str d ''graph_name'' of Inl e \<Rightarrow> Inl e | Inr name \<Rightarrow>
      (case key_opt_str d ''graphspace'' of Inl e \<Rightarrow> Inl e | Inr space \<Rightarrow>
        Inr \<lparr>gt_url = url, gt_name = name, gt_space = space\<rparr>)))
    | _ \<Rightarrow> Inl (TypeError ''graph_target''))"

definition get_plan :: "plan_db \<Rightarrow> string \<Rightarrow> WritePlan option res" where
  "get_plan db pid = (case get_plan_record db pid of None \<Rightarrow> Inr None
    | Some rec \<Rightarrow> let r = rec_plan rec in
      if pl_tool r = ''legacy'' then Inr None
      else case load_operations (rec_ops rec) of Inl e \<Rightarrow> Inl e | Inr os \<Rightarrow>
      (case load_target (pl_target r) of Inl e \<Rightarrow> Inl e | Inr gt \<Rightarrow>
        map_sum id Some (mk_write_plan
          \<lparr>wp_id = pl_id r, wp_tool = pl_tool r, wp_target = gt, wp_principal = pl_principal r,
           wp_operations = os, wp_digest = pl_digest r, wp_fingerprint = pl_fingerprint r,
           wp_status = pl_status r, wp_created_at = pl_created r, wp_expires_at = pl_expires r\<rparr>)))"

section \<open>Saving a plan\<close>

definition plan_to_row :: "WritePlan \<Rightarrow> plan_row" where
  "plan_to_row p = \<lparr>pl_id = wp_id p, pl_tool = wp_tool p,
     pl_target = graph_target_to_dict (wp_target p), pl_principal = wp_principal p,
     pl_payload = plan_to_dict p, pl_digest = wp_digest p, pl_fingerprint = wp_fingerprint p,
     pl_status = wp_status p, pl_created = wp_created_at p, pl_expires = wp_expires_at p,
     pl_confirmed = None, pl_owner = None, pl_lease = None\<rparr>"

definition operation_to_row :: "WritePlan \<Rightarrow> nat \<Rightarrow> OperationPlan \<Rightarrow> op_row" where
  "operation_to_row p n o' = \<lparr>or_id = op_id o', or_plan = wp_id p, or_ordinal = n,
     or_kind = op_kind o', or_payload = operation_to_dict o', or_status = ISSUED,
     or_attempt = 0, or_token = None, or_reconciled = False, or_receipt = None,
     or_updated = wp_created_at p\<rparr>"

definition insert_plan_row :: "plan_row \<Rightarrow> plan_db \<Rightarrow> plan_db res" where
  "insert_plan_row r db = (if list_ex (\<lambda>x. pl_id x = pl_id r) (plans db) then Inl IntegrityError
     else Inr (db\<lparr>plans := plans db @ [r]\<rparr>))"

definition insert_op_row :: "op_row \<Rightarrow> plan_db \<Rightarrow> plan_db res" where
  "insert_op_row r db =
     (if list_ex (\<lambda>x. or_id x = or_id r \<or> (or_plan x = or_plan r \<and> or_ordinal x = or_ordinal r)) (ops db)
      then Inl IntegrityError else Inr (db\<lparr>ops := ops db @ [r]\<rparr>))"

fun insert_operations :: "WritePlan \<Rightarrow> nat \<Rightarrow> OperationPlan list \<Rightarrow> plan_db \<Rightarrow> plan_db res" where
  "insert_operations p n [] db = Inr db"
| "insert_operations p n (o' # os) db =
     (case insert_op_row (operation_to_row p n o') db of Inl e \<Rightarrow> Inl e
      | Inr db' \<Rightarrow> insert_operations p (Suc n) os db')"

definition save_plan :: "WritePlan \<Rightarrow> plan_db \<Rightarrow> unit res \<times> plan_db" where
  "save_plan p db = (case insert_plan_row (plan_to_row p) db of Inl e \<Rightarrow> (Inl e, db)
     | Inr db1 \<Rightarrow> (case insert_operations p 0 (wp_operations p) db1 of Inl e \<Rightarrow> (Inl e, db)
     | Inr db2 \<Rightarrow> (Inr (), db2)))"

section \<open>Plan transitions\<close>

text \<open>What follows a commit: the plan is read back, and a missing plan raises.\<close>

definition reread :: "string \<Rightarrow> (WritePlan \<Rightarrow> 'a) \<Rightarrow> string \<Rightarrow> plan_db \<Rightarrow> 'a res \<times> plan_db" where
  "reread pid f msg db = (case get_plan db pid of Inl e \<Rightarrow> (Inl e, db)
     | Inr None \<Rightarrow> (Inl (PlanTransitionError msg), db)
     | Inr (Some p) \<Rightarrow> (Inr (f p), db))"

text \<open>The text of a status in an f-string: \<open>str\<close> of the member, whose name is its value.\<close>

definition plan_str :: "PlanStatus \<Rightarrow> string" where
  "plan_str p = ''PlanStatus.'' @ plan_value p"

definition transition_plan ::
  "int \<Rightarrow> string \<Rightarrow> PlanStatus \<Rightarrow> PlanStatus \<Rightarrow> plan_db \<Rightarrow> WritePlan res \<times> plan_db" where
  "transition_plan now pid expected target db =
     (if \<not> can_transition expected target
      then (Inl (PlanTransitionError (''illegal transition: '' @ plan_str expected @ '' -> '' @ plan_str target)), db)
      else
        let P = (\<lambda>r. pl_id r = pid \<and> pl_status r = expected);
            f = (\<lambda>r. r\<lparr>pl_status := target,
                      pl_confirmed := (if target = EXECUTING
                        then (case pl_confirmed r of None \<Rightarrow> Some now | Some t \<Rightarrow> Some t)
                        else pl_confirmed r)\<rparr>)
        in if plan_count P db \<noteq> 1
           then (Inl (PlanTransitionError ''durable plan state did not match the expected state''), db)
           else reread pid id ''plan disappeared after transition'' (update_plans P f db))"

definition claimable_statuses :: "bool \<Rightarrow> PlanStatus list" where
  "claimable_statuses resume = ISSUED # (if resume then [RETRYABLE_NOT_APPLIED, PARTIAL] else [])"

definition claim_plan ::
  "int \<Rightarrow> string \<Rightarrow> string \<Rightarrow> string option \<Rightarrow> int \<Rightarrow> bool \<Rightarrow> plan_db \<Rightarrow> (WritePlan \<times> bool) res \<times> plan_db"
where
  "claim_plan now fresh pid owner_token lease_seconds resume db =
     (if lease_seconds \<le> 0 then (Inl (ValueError ''lease_seconds must be positive''), db)
      else let owner = or_str owner_token fresh in
      (case find_plan db pid of None \<Rightarrow> (Inl (PlanTransitionError ''plan was not found''), db)
       | Some row \<Rightarrow>
         let current = pl_status row;
             P = (\<lambda>r. pl_id r = pid \<and> pl_status r = current \<and> lease_free now (pl_lease r));
             f = (\<lambda>r. r\<lparr>pl_status := (if current \<noteq> PARTIAL then EXECUTING else current),
                       pl_confirmed := (case pl_confirmed r of None \<Rightarrow> Some now | Some t \<Rightarrow> Some t),
                       pl_owner := Some owner, pl_lease := Some (now + lease_seconds)\<rparr>);
             go = current \<in> set (claimable_statuses resume) \<and> lease_free now (pl_lease row);
             claimed = (go \<and> plan_count P db = 1);
             db' = (if go then update_plans P f db else db)
         in reread pid (\<lambda>p. (p, claimed)) ''plan disappeared after claim'' db'))"

section \<open>Operation claims and receipts\<close>

definition claim_operation ::
  "int \<Rightarrow> string \<Rightarrow> string \<Rightarrow> string \<Rightarrow> string option \<Rightarrow> string option \<Rightarrow> int \<Rightarrow> plan_db \<Rightarrow> int res \<times> plan_db"
where
  "claim_operation now fresh pid oid owner_token attempt_token lease_seconds db =
     (if lease_seconds \<le> 0 then (Inl (ValueError ''lease_seconds must be positive''), db)
      else case find_plan db pid of
        None \<Rightarrow> (Inl (PlanTransitionError ''executor lease is absent or expired''), db)
      | Some prow \<Rightarrow>
        if lease_free now (pl_lease prow)
        then (Inl (PlanTransitionError ''executor lease is absent or expired''), db)
        else
        let owner = or_str owner_token (case pl_owner prow of None \<Rightarrow> ''None'' | Some s \<Rightarrow> s) in
        if pl_owner prow \<noteq> Some owner
        then (Inl (PlanTransitionError ''executor lease owner did not match''), db)
        else
        (case find_op db pid oid of
           None \<Rightarrow> (Inl (PlanTransitionError ''operation is not claimable''), db)
         | Some row \<Rightarrow>
           if or_status row \<noteq> ISSUED \<and> or_status row \<noteq> RETRYABLE_NOT_APPLIED
           then (Inl (PlanTransitionError ''operation is not claimable''), db)
           else
           let attempt = or_attempt row + 1;
               token = or_str attempt_token fresh;
               db1 = update_ops (\<lambda>r. or_plan r = pid \<and> or_id r = oid)
                 (\<lambda>r. r\<lparr>or_status := EXECUTING, or_attempt := attempt, or_token := Some token,
                       or_reconciled := False, or_updated := now\<rparr>) db;
               P = (\<lambda>r. pl_id r = pid \<and> pl_owner r = Some owner \<and> \<not> lease_free now (pl_lease r))
           in if plan_count P db1 \<noteq> 1
              then (Inl (PlanTransitionError ''executor lease could not be renewed''), db)
              else (Inr attempt,
                update_plans P (\<lambda>r. r\<lparr>pl_lease := Some (now + lease_seconds)\<rparr>) db1)))"

definition persisted_apply :: "PlanStatus list \<Rightarrow> ApplyStatus list" where
  "persisted_apply statuses = List.map_filter apply_of_plan statuses"

definition aggregate_persisted_statuses :: "PlanStatus list \<Rightarrow> PlanStatus" where
  "aggregate_persisted_statuses statuses =
     (let completed = persisted_apply statuses;
          pending = list_ex (\<lambda>s. apply_of_plan s = None) statuses
      in if pending then
           (if list_ex is_success completed then PARTIAL
            else if ApplyStatus.UNKNOWN \<in> set completed then UNKNOWN
            else if ApplyStatus.CONFLICT \<in> set completed then CONFLICT
            else if ApplyStatus.RETRYABLE_NOT_APPLIED \<in> set completed then RETRYABLE_NOT_APPLIED
            else if completed \<noteq> [] \<and> list_all (\<lambda>s. s = ApplyStatus.REJECTED) completed then REJECTED
            else EXECUTING)
         else aggregate_plan_status completed)"

definition op_statuses :: "plan_db \<Rightarrow> string \<Rightarrow> PlanStatus list" where
  "op_statuses db pid = map or_status (ops_of db pid)"

text \<open>The two locator checks at the start of both receipt operations.\<close>

definition receipt_locator :: "ApplyReceipt \<Rightarrow> (string \<times> string) option" where
  "receipt_locator rc = (case (rc_plan_id rc, rc_operation_id rc) of
      (Some p, Some o') \<Rightarrow> if p = [] \<or> o' = [] then None else Some (p, o')
    | _ \<Rightarrow> None)"

definition record_receipt ::
  "int \<Rightarrow> ApplyReceipt \<Rightarrow> string option \<Rightarrow> string option \<Rightarrow> plan_db \<Rightarrow> unit res \<times> plan_db" where
  "record_receipt now rc owner_token attempt_token db =
     (case receipt_locator rc of
        None \<Rightarrow> (Inl (ValueError ''canonical receipt requires plan_id and operation_id''), db)
      | Some (pid, oid) \<Rightarrow>
        (case (find_op db pid oid, find_plan db pid) of
           (Some row, Some prow) \<Rightarrow>
             let owner = or_opt owner_token (pl_owner prow);
                 token = or_opt (or_opt attempt_token (rc_attempt_token rc)) (or_token row)
             in if or_status row \<noteq> EXECUTING \<or> or_attempt row \<noteq> rc_attempt rc
                   \<or> token = None \<or> token = Some [] \<or> or_token row \<noteq> token
                   \<or> pl_owner prow \<noteq> owner \<or> lease_free now (pl_lease prow)
                then (Inl (PlanTransitionError ''stale or unfenced operation receipt''), db)
                else
                let P = (\<lambda>r. or_plan r = pid \<and> or_id r = oid \<and> or_status r = EXECUTING
                           \<and> or_attempt r = rc_attempt rc \<and> or_token r = token);
                    f = (\<lambda>r. r\<lparr>or_status := plan_of_apply (rc_status rc), or_attempt := rc_attempt rc,
                              or_receipt := Some (receipt_to_dict rc),
                              or_updated := (case rc_committed_at rc of None \<Rightarrow> 0 | Some t \<Rightarrow> t)\<rparr>);
                    db1 = update_ops P f db
                in if op_count P db \<noteq> 1
                   then (Inl (PlanTransitionError ''operation receipt target was not found''), db)
                   else
                   let agg = aggregate_persisted_statuses (op_statuses db1 pid);
                       current = pl_status prow
                   in if current \<noteq> agg \<and> \<not> can_transition current agg
                      then (Inl (PlanTransitionError (''illegal receipt transition: '' @
                             plan_str current @ '' -> '' @ plan_str agg)), db)
                      else
                      let keep = (is_success (rc_status rc) \<and> (agg = EXECUTING \<or> agg = PARTIAL)) in
                      (Inr (), update_plans (\<lambda>r. pl_id r = pid)
                        (\<lambda>r. r\<lparr>pl_status := agg, pl_owner := (if keep then pl_owner r else None),
                              pl_lease := (if keep then pl_lease r else None)\<rparr>) db1)
         | _ \<Rightarrow> (Inl (PlanTransitionError ''operation receipt target was not found''), db)))"

section \<open>Reconciliation\<close>

definition begin_reconcile :: "int \<Rightarrow> string \<Rightarrow> plan_db \<Rightarrow> WritePlan res \<times> plan_db" where
  "begin_reconcile now pid db =
     (case find_plan db pid of None \<Rightarrow> (Inl (PlanTransitionError ''plan was not found''), db)
      | Some row \<Rightarrow>
        if \<not> lease_free now (pl_lease row)
        then (Inl (PlanTransitionError ''execution lease is still active''), db)
        else
        let db' =
          (if pl_status row = EXECUTING then
             update_plans (\<lambda>r. pl_id r = pid \<and> pl_status r = EXECUTING \<and> lease_free now (pl_lease r))
               (\<lambda>r. r\<lparr>pl_status := UNKNOWN, pl_owner := None, pl_lease := None\<rparr>) db
           else if pl_status row \<in> {UNKNOWN, LEGACY_UNKNOWN, PARTIAL} then
             update_plans (\<lambda>r. pl_id r = pid) (\<lambda>r. r\<lparr>pl_owner := None, pl_lease := None\<rparr>) db
           else db)
        in reread pid id ''plan is not canonically rehydratable'' db')"

definition reconcilable :: "PlanStatus \<Rightarrow> bool" where
  "reconcilable s \<longleftrightarrow> s \<in> {ISSUED, EXECUTING, UNKNOWN, LEGACY_UNKNOWN}"

definition record_reconciliation_receipt :: "int \<Rightarrow> ApplyReceipt \<Rightarrow> plan_db \<Rightarrow> unit res \<times> plan_db" where
  "record_reconciliation_receipt now rc db =
     (case receipt_locator rc of
        None \<Rightarrow> (Inl (ValueError ''canonical receipt requires plan_id and operation_id''), db)
      | Some (pid, oid) \<Rightarrow>
        (case find_plan db pid of
           None \<Rightarrow> (Inl (PlanTransitionError ''reconciliation requires a fenced executor''), db)
         | Some prow \<Rightarrow>
           if pl_owner prow \<noteq> None
           then (Inl (PlanTransitionError ''reconciliation requires a fenced executor''), db)
           else
           let P = (\<lambda>r. or_plan r = pid \<and> or_id r = oid \<and> reconcilable (or_status r));
               f = (\<lambda>r. r\<lparr>or_status := plan_of_apply (rc_status rc),
                         or_receipt := Some (receipt_to_dict rc),
                         or_updated := (case rc_committed_at rc of None \<Rightarrow> now
                                        | Some t \<Rightarrow> if t = 0 then now else t),
                         or_reconciled := True\<rparr>);
               db1 = update_ops P f db
           in if op_count P db \<noteq> 1
              then (Inl (PlanTransitionError ''operation is not reconcilable''), db)
              else (Inr (), update_plans (\<lambda>r. pl_id r = pid)
                (\<lambda>r. r\<lparr>pl_status := aggregate_persisted_statuses (op_statuses db1 pid)\<rparr>) db1)))"

end
