(* ===== verification/Store_Facts.thy ===== *)
theory Store_Facts
  imports Plan_Store
begin

text \<open>
  How rows and statuses change under the transactions of the plan store. \<open>wf_db\<close> is what the primary
  keys of the schema guarantee; \<open>view\<close> is the part of the database the protocol arguments talk about,
  the status and attempt counter of every operation. Each transaction is characterised once here by
  its effect on the plan rows and on the view.
\<close>

section \<open>Tables as keyed lists\<close>

lemma find_map_update:
  assumes "\<And>r. key (f r) = key r"
  shows "find (\<lambda>r. key r = k) (map (\<lambda>r. if P r then f r else r) xs) =
         map_option (\<lambda>r. if P r then f r else r) (find (\<lambda>r. key r = k) xs)"
  using assms by (induction xs) auto

lemma filter_key_distinct:
  assumes "distinct (map key xs)"
  shows "filter (\<lambda>r. key r = k \<and> Q r) xs =
    (case find (\<lambda>r. key r = k) xs of None \<Rightarrow> [] | Some r \<Rightarrow> if Q r then [r] else [])"
  using assms
proof (induction xs)
  case (Cons x xs)
  have none: "filter (\<lambda>r. key r = key x \<and> Q r) xs = []"
    using Cons.prems by (auto simp: filter_empty_conv image_iff)
  show ?case
    using Cons none by (cases "key x = k") auto
qed simp

lemma find_SomeD: "find P xs = Some x \<Longrightarrow> x \<in> set xs \<and> P x"
  by (auto simp: find_Some_iff)

lemma find_distinct_key:
  "distinct (map key xs) \<Longrightarrow> x \<in> set xs \<Longrightarrow> find (\<lambda>r. key r = key x) xs = Some x"
  by (induction xs) auto

lemma map_key_update:
  "(\<And>r. key (f r) = key r) \<Longrightarrow> map (key \<circ> (\<lambda>r. if P r then f r else r)) xs = map key xs"
  by (induction xs) auto

section \<open>Well-formed databases\<close>

definition wf_db :: "plan_db \<Rightarrow> bool" where
  "wf_db db \<longleftrightarrow> distinct (map pl_id (plans db)) \<and> distinct (map or_id (ops db))"

lemma wf_empty [simp]: "wf_db empty_db"
  by (simp add: wf_db_def empty_db_def)

text \<open>
  Updates as the transactions write them: a row keeps its identity (\<open>keeps_plan\<close>, \<open>keeps_op\<close>).
\<close>

definition keeps_plan :: "(plan_row \<Rightarrow> plan_row) \<Rightarrow> bool" where
  "keeps_plan f \<longleftrightarrow> (\<forall>r. pl_id (f r) = pl_id r \<and> pl_tool (f r) = pl_tool r)"

definition keeps_op :: "(op_row \<Rightarrow> op_row) \<Rightarrow> bool" where
  "keeps_op f \<longleftrightarrow> (\<forall>r. or_id (f r) = or_id r \<and> or_plan (f r) = or_plan r \<and> or_ordinal (f r) = or_ordinal r
     \<and> or_kind (f r) = or_kind r \<and> or_payload (f r) = or_payload r)"

lemma plans_update_ops [simp]: "plans (update_ops P f db) = plans db"
  by (simp add: update_ops_def)

lemma ops_update_plans [simp]: "ops (update_plans P f db) = ops db"
  by (simp add: update_plans_def)

lemma find_op_update_plans [simp]: "find_op (update_plans P f db) = find_op db"
  by (simp add: find_op_def fun_eq_iff)

lemma ops_of_update_plans [simp]: "ops_of (update_plans P f db) = ops_of db"
  by (simp add: ops_of_def fun_eq_iff)

lemma find_plan_update_ops [simp]: "find_plan (update_ops P f db) = find_plan db"
  by (simp add: find_plan_def fun_eq_iff)

lemma find_plan_update:
  assumes "keeps_plan f"
  shows "find_plan (update_plans P f db) pid =
    map_option (\<lambda>r. if P r then f r else r) (find_plan db pid)"
  using assms find_map_update [of pl_id f pid P "plans db"]
  by (simp add: find_plan_def update_plans_def keeps_plan_def)

lemma find_op_update:
  assumes "keeps_op f"
  shows "find_op (update_ops P f db) pid oid =
    map_option (\<lambda>r. if P r then f r else r) (find_op db pid oid)"
  using assms find_map_update [of "\<lambda>r. (or_plan r, or_id r)" f "(pid, oid)" P "ops db"]
  by (simp add: find_op_def update_ops_def keeps_op_def)

lemma ops_of_update:
  assumes "keeps_op f"
  shows "ops_of (update_ops P f db) pid = map (\<lambda>r. if P r then f r else r) (ops_of db pid)"
proof -
  let ?g = "\<lambda>r. if P r then f r else r"
  have g: "or_plan (?g r) = or_plan r" "or_ordinal (?g r) = or_ordinal r" for r
    using assms by (auto simp: keeps_op_def)
  have "filter (\<lambda>r. or_plan r = pid) (map ?g rs) = map ?g (filter (\<lambda>r. or_plan r = pid) rs)" for rs
    by (induction rs) (auto simp: g)
  moreover have "sort_key or_ordinal (map ?g rs) = map ?g (sort_key or_ordinal rs)" for rs
  proof (induction rs)
    case (Cons r rs)
    have "insort_key or_ordinal (?g r) (map ?g ss) = map ?g (insort_key or_ordinal r ss)" for ss
      by (induction ss) (auto simp: g simp del: if_splits)
    with Cons show ?case by simp
  qed simp
  ultimately show ?thesis
    by (simp add: ops_of_def update_ops_def)
qed

lemma wf_update_plans [intro]: "wf_db db \<Longrightarrow> keeps_plan f \<Longrightarrow> wf_db (update_plans P f db)"
proof -
  assume wf: "wf_db db" and f: "keeps_plan f"
  have "map (pl_id \<circ> (\<lambda>r. if P r then f r else r)) (plans db) = map pl_id (plans db)"
    using f by (intro map_key_update) (simp add: keeps_plan_def)
  with wf show ?thesis by (simp add: wf_db_def update_plans_def del: map_eq_conv)
qed

lemma wf_update_ops [intro]: "wf_db db \<Longrightarrow> keeps_op f \<Longrightarrow> wf_db (update_ops P f db)"
proof -
  assume wf: "wf_db db" and f: "keeps_op f"
  have "map (or_id \<circ> (\<lambda>r. if P r then f r else r)) (ops db) = map or_id (ops db)"
    using f by (intro map_key_update) (simp add: keeps_op_def)
  with wf show ?thesis by (simp add: wf_db_def update_ops_def del: map_eq_conv)
qed

lemma find_plan_id: "find_plan db pid = Some r \<Longrightarrow> pl_id r = pid"
  by (auto simp: find_plan_def dest: find_SomeD)

lemma find_op_key: "find_op db pid oid = Some r \<Longrightarrow> or_plan r = pid \<and> or_id r = oid \<and> r \<in> set (ops db)"
  by (auto simp: find_op_def dest: find_SomeD)

lemma set_ops_of: "set (ops_of db pid) = {r \<in> set (ops db). or_plan r = pid}"
  by (auto simp: ops_of_def)

lemma find_op_mem:
  assumes "wf_db db" "r \<in> set (ops db)"
  shows "find_op db (or_plan r) (or_id r) = Some r"
proof -
  have "distinct (map (\<lambda>r. (or_plan r, or_id r)) (ops db))"
    using assms(1) by (auto simp: wf_db_def distinct_map inj_on_def)
  from find_distinct_key [OF this assms(2)] show ?thesis
    by (simp add: find_op_def)
qed

lemma plan_count_key:
  assumes "wf_db db"
  shows "plan_count (\<lambda>r. pl_id r = pid \<and> Q r) db =
    (case find_plan db pid of None \<Rightarrow> 0 | Some r \<Rightarrow> if Q r then 1 else 0)"
  using assms filter_key_distinct [of pl_id "plans db" pid Q]
  by (auto simp: plan_count_def find_plan_def wf_db_def split: option.splits)

lemma op_count_key:
  assumes "wf_db db"
  shows "op_count (\<lambda>r. or_plan r = pid \<and> or_id r = oid \<and> Q r) db =
    (case find_op db pid oid of None \<Rightarrow> 0 | Some r \<Rightarrow> if Q r then 1 else 0)"
proof -
  have "distinct (map (\<lambda>r. (or_plan r, or_id r)) (ops db))"
    using assms by (auto simp: wf_db_def distinct_map inj_on_def)
  from filter_key_distinct [OF this, of "(pid, oid)" Q] show ?thesis
    by (auto simp: op_count_def find_op_def split: option.splits)
qed

section \<open>The view of a database\<close>

text \<open>Status and attempt counter of the operations, and the row of a plan.\<close>

definition view :: "plan_db \<Rightarrow> (string \<times> string) \<Rightarrow> (PlanStatus \<times> int) option" where
  "view db k = map_option (\<lambda>r. (or_status r, or_attempt r)) (find_op db (fst k) (snd k))"

lemma view_update_plans [simp]: "view (update_plans P f db) = view db"
  by (simp add: view_def fun_eq_iff)

lemma view_update_ops_key:
  assumes "wf_db db" "keeps_op f" "find_op db pid oid = Some row" "Q row"
  shows "view (update_ops (\<lambda>r. or_plan r = pid \<and> or_id r = oid \<and> Q r) f db) =
    (view db)((pid, oid) \<mapsto> (or_status (f row), or_attempt (f row)))"
proof
  fix k :: "string \<times> string"
  show "view (update_ops (\<lambda>r. or_plan r = pid \<and> or_id r = oid \<and> Q r) f db) k =
    ((view db)((pid, oid) \<mapsto> (or_status (f row), or_attempt (f row)))) k"
    using assms find_op_key [of db "fst k" "snd k"]
    by (cases k; cases "find_op db (fst k) (snd k)") (auto simp: view_def find_op_update)
qed

lemma op_statuses_view:
  assumes "wf_db db" "s \<in> set (op_statuses db pid)"
  shows "\<exists>oid n. view db (pid, oid) = Some (s, n)"
proof -
  obtain r where r: "r \<in> set (ops db)" "or_plan r = pid" "or_status r = s"
    using assms(2) by (auto simp: op_statuses_def set_ops_of)
  then show ?thesis
    using find_op_mem [OF assms(1) r(1)] by (auto simp: view_def)
qed

lemma view_op_statuses: "view db (pid, oid) = Some (s, n) \<Longrightarrow> s \<in> set (op_statuses db pid)"
  by (auto simp: view_def op_statuses_def set_ops_of dest!: find_op_key)

lemma op_statuses_update_plans [simp]: "op_statuses (update_plans P f db) = op_statuses db"
  by (simp add: op_statuses_def fun_eq_iff)

lemma set_op_statuses:
  assumes "wf_db db"
  shows "set (op_statuses db pid) = {s. \<exists>oid n. view db (pid, oid) = Some (s, n)}"
  using op_statuses_view [OF assms] view_op_statuses by blast

section \<open>Effects of the transactions\<close>

lemma reread_db [simp]: "snd (reread pid f msg db) = db"
  by (simp add: reread_def split: sum.splits option.splits)

lemma reread_pair: "reread pid f msg db = (r, db') \<Longrightarrow> db' = db"
  using reread_db [of pid f msg db] by simp

lemma find_plan_update_key:
  assumes "keeps_plan f"
  shows "find_plan (update_plans (\<lambda>r. pl_id r = pid \<and> Q r) f db) pid' =
    (if pid' = pid then map_option (\<lambda>r. if Q r then f r else r) (find_plan db pid)
     else find_plan db pid')"
  using find_plan_update [OF assms, of _ db pid'] find_plan_id [of db pid']
  by (cases "find_plan db pid'") auto

lemma find_plan_update_all:
  assumes "keeps_plan f"
  shows "find_plan (update_plans (\<lambda>r. pl_id r = pid) f db) pid' =
    (if pid' = pid then map_option f (find_plan db pid) else find_plan db pid')"
  using find_plan_update_key [OF assms, of pid "\<lambda>_. True" db pid'] by simp

text \<open>A rejected claim or receipt leaves the database as it was.\<close>

lemma claim_operation_fail: "claim_operation now fr pid oid ow tk ls db = (Inl e, db') \<Longrightarrow> db' = db"
  by (auto simp: claim_operation_def Let_def split: option.splits if_splits)

lemma record_receipt_fail: "record_receipt now rc ow tk db = (Inl e, db') \<Longrightarrow> db' = db"
  by (auto simp: record_receipt_def Let_def split: option.splits if_splits prod.splits)

lemma record_reconciliation_fail: "record_reconciliation_receipt now rc db = (Inl e, db') \<Longrightarrow> db' = db"
  by (auto simp: record_reconciliation_receipt_def Let_def split: option.splits if_splits prod.splits)

lemma save_plan_fail: "save_plan p db = (Inl e, db') \<Longrightarrow> db' = db"
  by (auto simp: save_plan_def split: sum.splits)

text \<open>What a successful operation claim needed and did.\<close>

lemma claim_operation_ok:
  assumes "claim_operation now fr pid oid ow tk ls db = (Inr n, db')" "wf_db db"
  obtains prow row where
    "find_plan db pid = Some prow" "find_op db pid oid = Some row"
    "or_status row = ISSUED \<or> or_status row = RETRYABLE_NOT_APPLIED"
    "n = or_attempt row + 1" "\<not> lease_free now (pl_lease prow)"
    "\<exists>w. pl_owner prow = Some w \<and> w = or_str ow w"
    "wf_db db'" "view db' = (view db)((pid, oid) \<mapsto> (EXECUTING, n))"
    "find_plan db' = (find_plan db)(pid \<mapsto> prow\<lparr>pl_lease := Some (now + ls)\<rparr>)"
proof -
  obtain prow where prow: "find_plan db pid = Some prow" "\<not> lease_free now (pl_lease prow)"
    using assms(1) by (auto simp: claim_operation_def split: option.splits if_splits)
  let ?o = "or_str ow (case pl_owner prow of None \<Rightarrow> ''None'' | Some s \<Rightarrow> s)"
  have owner: "pl_owner prow = Some ?o"
    using assms(1) prow by (auto simp: claim_operation_def Let_def split: if_splits)
  obtain row where row: "find_op db pid oid = Some row"
    "or_status row = ISSUED \<or> or_status row = RETRYABLE_NOT_APPLIED"
    using assms(1) prow owner
    by (auto simp: claim_operation_def Let_def split: option.splits if_splits)
  let ?f = "\<lambda>r. r\<lparr>or_status := EXECUTING, or_attempt := or_attempt row + 1,
    or_token := Some (or_str tk fr), or_reconciled := False, or_updated := now\<rparr>"
  let ?db1 = "update_ops (\<lambda>r. or_plan r = pid \<and> or_id r = oid) ?f db"
  let ?g = "\<lambda>r. r\<lparr>pl_lease := Some (now + ls)\<rparr>"
  let ?P = "\<lambda>r. pl_id r = pid \<and> pl_owner r = Some ?o \<and> \<not> lease_free now (pl_lease r)"
  have f: "keeps_op ?f" and g: "keeps_plan ?g" by (simp_all add: keeps_op_def keeps_plan_def)
  have res: "n = or_attempt row + 1" "db' = update_plans ?P ?g ?db1"
    using assms(1) prow owner row
    by (auto simp: claim_operation_def Let_def split: if_splits)
  have view': "view db' = (view db)((pid, oid) \<mapsto> (EXECUTING, n))"
    using view_update_ops_key [OF assms(2) f row(1), of "\<lambda>_. True"] res by simp
  have fp: "find_plan db' = (find_plan db)(pid \<mapsto> ?g prow)"
    unfolding res(2) using prow owner find_plan_update_key [OF g, of pid _ ?db1]
    by (auto simp: fun_eq_iff)
  have wf': "wf_db db'" unfolding res(2) using assms(2) f g by blast
  have own: "\<exists>w. pl_owner prow = Some w \<and> w = or_str ow w"
    using owner by (auto simp: or_str_def split: option.splits if_splits)
  from that [OF prow(1) row(1) row(2) res(1) prow(2) own wf' view' fp] show thesis .
qed

lemma record_receipt_ok:
  assumes "record_receipt now rc ow tk db = (Inr u, db')" "wf_db db"
  obtains pid oid prow row t where
    "receipt_locator rc = Some (pid, oid)" "find_plan db pid = Some prow"
    "find_op db pid oid = Some row" "or_status row = EXECUTING" "or_attempt row = rc_attempt rc"
    "or_token row = Some t" "or_opt (or_opt tk (rc_attempt_token rc)) (or_token row) = Some t"
    "pl_owner prow = or_opt ow (pl_owner prow)" "\<not> lease_free now (pl_lease prow)"
    "wf_db db'" "view db' = (view db)((pid, oid) \<mapsto> (plan_of_apply (rc_status rc), or_attempt row))"
    "\<And>p. p \<noteq> pid \<Longrightarrow> find_plan db' p = find_plan db p"
    "\<exists>prow'. find_plan db' pid = Some prow' \<and>
       pl_status prow' = aggregate_persisted_statuses (op_statuses db' pid) \<and>
       (pl_status prow = pl_status prow' \<or> can_transition (pl_status prow) (pl_status prow')) \<and>
       (\<not> is_success (rc_status rc) \<longrightarrow> pl_owner prow' = None \<and> pl_lease prow' = None) \<and>
       (pl_owner prow' = None \<and> pl_lease prow' = None \<or>
        pl_owner prow' = pl_owner prow \<and> pl_lease prow' = pl_lease prow \<and>
        pl_status prow' \<in> {EXECUTING, PARTIAL})"
proof -
  obtain pid oid where loc: "receipt_locator rc = Some (pid, oid)"
    using assms(1) by (auto simp: record_receipt_def split: option.splits)
  have "find_op db pid oid \<noteq> None"
    using assms(1) loc by (intro notI) (simp add: record_receipt_def)
  moreover have "find_plan db pid \<noteq> None"
    using assms(1) loc calculation by (intro notI) (auto simp: record_receipt_def)
  ultimately obtain prow row where rows: "find_plan db pid = Some prow" "find_op db pid oid = Some row"
    by blast
  let ?o = "or_opt ow (pl_owner prow)"
  let ?t = "or_opt (or_opt tk (rc_attempt_token rc)) (or_token row)"
  have checks: "or_status row = EXECUTING" "or_attempt row = rc_attempt rc" "?t \<noteq> None"
    "or_token row = ?t" "pl_owner prow = ?o" "\<not> lease_free now (pl_lease prow)"
    using assms(1) loc rows by (auto simp: record_receipt_def Let_def split: if_splits)
  let ?Q = "\<lambda>r. or_status r = EXECUTING \<and> or_attempt r = rc_attempt rc \<and> or_token r = ?t"
  let ?f = "\<lambda>r. r\<lparr>or_status := plan_of_apply (rc_status rc), or_attempt := rc_attempt rc,
    or_receipt := Some (receipt_to_dict rc),
    or_updated := (case rc_committed_at rc of None \<Rightarrow> 0 | Some t \<Rightarrow> t)\<rparr>"
  let ?db1 = "update_ops (\<lambda>r. or_plan r = pid \<and> or_id r = oid \<and> ?Q r) ?f db"
  let ?agg = "aggregate_persisted_statuses (op_statuses ?db1 pid)"
  let ?keep = "is_success (rc_status rc) \<and> (?agg = EXECUTING \<or> ?agg = PARTIAL)"
  let ?g = "\<lambda>r. r\<lparr>pl_status := ?agg, pl_owner := (if ?keep then pl_owner r else None),
    pl_lease := (if ?keep then pl_lease r else None)\<rparr>"
  have f: "keeps_op ?f" and g: "keeps_plan ?g" by (simp_all add: keeps_op_def keeps_plan_def)
  have db': "db' = update_plans (\<lambda>r. pl_id r = pid) ?g ?db1"
    and tr: "pl_status prow = ?agg \<or> can_transition (pl_status prow) ?agg"
    using assms(1) loc rows checks
    by (auto simp: record_receipt_def Let_def split: if_splits)
  have view': "view db' = (view db)((pid, oid) \<mapsto> (plan_of_apply (rc_status rc), or_attempt row))"
    unfolding db' view_update_plans
    using view_update_ops_key [OF assms(2) f rows(2), of ?Q] checks by simp
  have wf': "wf_db db'" unfolding db' using assms(2) f g by blast
  have fp: "find_plan db' p = (if p = pid then Some (?g prow) else find_plan db p)" for p
    unfolding db' find_plan_update_all [OF g] using rows by simp
  have st': "op_statuses db' pid = op_statuses ?db1 pid" unfolding db' by simp
  obtain t where t: "or_token row = Some t" "?t = Some t" using checks by auto
  have last: "\<exists>prow'. find_plan db' pid = Some prow' \<and>
       pl_status prow' = aggregate_persisted_statuses (op_statuses db' pid) \<and>
       (pl_status prow = pl_status prow' \<or> can_transition (pl_status prow) (pl_status prow')) \<and>
       (\<not> is_success (rc_status rc) \<longrightarrow> pl_owner prow' = None \<and> pl_lease prow' = None) \<and>
       (pl_owner prow' = None \<and> pl_lease prow' = None \<or>
        pl_owner prow' = pl_owner prow \<and> pl_lease prow' = pl_lease prow \<and>
        pl_status prow' \<in> {EXECUTING, PARTIAL})"
    unfolding fp st' using tr by auto
  show thesis
    using that [OF loc rows(1) rows(2) checks(1) checks(2) t(1) t(2) checks(5) checks(6) wf' view' _ last]
    by (simp add: fp)
qed

lemma record_reconciliation_ok:
  assumes "record_reconciliation_receipt now rc db = (Inr u, db')" "wf_db db"
  obtains pid oid prow row where
    "receipt_locator rc = Some (pid, oid)" "find_plan db pid = Some prow"
    "find_op db pid oid = Some row" "reconcilable (or_status row)" "pl_owner prow = None"
    "wf_db db'" "view db' = (view db)((pid, oid) \<mapsto> (plan_of_apply (rc_status rc), or_attempt row))"
    "find_plan db' = (find_plan db)(pid \<mapsto>
       prow\<lparr>pl_status := aggregate_persisted_statuses (op_statuses db' pid)\<rparr>)"
proof -
  obtain pid oid where loc: "receipt_locator rc = Some (pid, oid)"
    using assms(1) by (auto simp: record_reconciliation_receipt_def split: option.splits)
  obtain prow where prow: "find_plan db pid = Some prow" "pl_owner prow = None"
    using assms(1) loc by (auto simp: record_reconciliation_receipt_def split: option.splits if_splits)
  let ?f = "\<lambda>r. r\<lparr>or_status := plan_of_apply (rc_status rc), or_receipt := Some (receipt_to_dict rc),
    or_updated := (case rc_committed_at rc of None \<Rightarrow> now | Some t \<Rightarrow> if t = 0 then now else t),
    or_reconciled := True\<rparr>"
  let ?P = "\<lambda>r. or_plan r = pid \<and> or_id r = oid \<and> reconcilable (or_status r)"
  let ?db1 = "update_ops ?P ?f db"
  let ?g = "\<lambda>r. r\<lparr>pl_status := aggregate_persisted_statuses (op_statuses ?db1 pid)\<rparr>"
  have f: "keeps_op ?f" and g: "keeps_plan ?g" by (simp_all add: keeps_op_def keeps_plan_def)
  have cnt: "op_count ?P db = 1" and db': "db' = update_plans (\<lambda>r. pl_id r = pid) ?g ?db1"
    using assms(1) loc prow
    by (auto simp: record_reconciliation_receipt_def Let_def split: if_splits)
  have cnt': "(case find_op db pid oid of None \<Rightarrow> 0 | Some r \<Rightarrow>
      if reconcilable (or_status r) then 1 else 0) = (1 :: nat)"
    using cnt op_count_key [OF assms(2), of pid oid "\<lambda>r. reconcilable (or_status r)"] by simp
  obtain row where row: "find_op db pid oid = Some row" "reconcilable (or_status row)"
    using cnt' by (cases "find_op db pid oid") (auto split: if_splits)
  have view': "view db' = (view db)((pid, oid) \<mapsto> (plan_of_apply (rc_status rc), or_attempt row))"
    unfolding db' view_update_plans
    using view_update_ops_key [OF assms(2) f row(1), of "\<lambda>r. reconcilable (or_status r)"] row by simp
  have wf': "wf_db db'" unfolding db' using assms(2) f g by blast
  have fp: "find_plan db' = (find_plan db)(pid \<mapsto>
      prow\<lparr>pl_status := aggregate_persisted_statuses (op_statuses db' pid)\<rparr>)"
    unfolding db' fun_eq_iff find_plan_update_all [OF g] using prow by simp
  from that [OF loc prow(1) row(1) row(2) prow(2) wf' view' fp] show thesis .
qed

text \<open>The operations on plan rows never touch an operation row.\<close>

lemma claim_plan_cases:
  assumes "claim_plan now fr pid ow ls resume db = (r, db')" "wf_db db"
  shows "(db' = db \<and> (\<forall>p. r \<noteq> Inr (p, True))) \<or>
    (\<exists>row. find_plan db pid = Some row \<and> pl_status row \<in> set (claimable_statuses resume) \<and>
      lease_free now (pl_lease row) \<and> 0 < ls \<and> ops db' = ops db \<and> wf_db db' \<and>
      (\<forall>p. r \<noteq> Inr (p, False)) \<and>
      find_plan db' = (find_plan db)(pid \<mapsto> row\<lparr>
        pl_status := (if pl_status row \<noteq> PARTIAL then EXECUTING else PARTIAL),
        pl_confirmed := (case pl_confirmed row of None \<Rightarrow> Some now | Some t \<Rightarrow> Some t),
        pl_owner := Some (or_str ow fr), pl_lease := Some (now + ls)\<rparr>))"
proof (cases "ls \<le> 0 \<or> find_plan db pid = None")
  case True
  then show ?thesis using assms(1) by (cases "ls \<le> 0") (auto simp: claim_plan_def Let_def)
next
  case False
  then obtain row where row: "find_plan db pid = Some row" and ls: "0 < ls" by auto
  let ?Q = "\<lambda>r. pl_status r = pl_status row \<and> lease_free now (pl_lease r)"
  let ?f = "\<lambda>r. r\<lparr>pl_status := (if pl_status row \<noteq> PARTIAL then EXECUTING else pl_status row),
    pl_confirmed := (case pl_confirmed r of None \<Rightarrow> Some now | Some t \<Rightarrow> Some t),
    pl_owner := Some (or_str ow fr), pl_lease := Some (now + ls)\<rparr>"
  let ?go = "pl_status row \<in> set (claimable_statuses resume) \<and> lease_free now (pl_lease row)"
  let ?db1 = "update_plans (\<lambda>r. pl_id r = pid \<and> ?Q r) ?f db"
  have f: "keeps_plan ?f" by (simp add: keeps_plan_def)
  have cnt: "plan_count (\<lambda>r. pl_id r = pid \<and> ?Q r) db = (if ?Q row then 1 else 0)"
    using plan_count_key [OF assms(2), of pid ?Q] row by simp
  have nl: "(ls \<le> 0) = False" using ls by simp
  have res0: "reread pid (\<lambda>p. (p, ?go \<and> plan_count (\<lambda>r. pl_id r = pid \<and> ?Q r) db = 1))
      ''plan disappeared after claim'' (if ?go then ?db1 else db) = (r, db')"
    using assms(1) by (simp only: claim_plan_def Let_def row option.case nl if_False)
  have go: "(?go \<and> plan_count (\<lambda>r. pl_id r = pid \<and> ?Q r) db = 1) = ?go"
    unfolding cnt by auto
  have res: "(r, db') = reread pid (\<lambda>p. (p, ?go)) ''plan disappeared after claim'' (if ?go then ?db1 else db)"
    using res0 unfolding go by (rule sym)
  have db': "db' = (if ?go then ?db1 else db)"
    by (rule reread_pair [OF res0])
  show ?thesis
  proof (cases ?go)
    case True
    have "find_plan db' = (find_plan db)(pid \<mapsto> ?f row)"
      unfolding db' fun_eq_iff using True row find_plan_update_key [OF f, of pid ?Q db] by auto
    moreover have "?f row = row\<lparr>
        pl_status := (if pl_status row \<noteq> PARTIAL then EXECUTING else PARTIAL),
        pl_confirmed := (case pl_confirmed row of None \<Rightarrow> Some now | Some t \<Rightarrow> Some t),
        pl_owner := Some (or_str ow fr), pl_lease := Some (now + ls)\<rparr>"
      by simp
    moreover have "wf_db db'" unfolding db' using True assms(2) f by auto
    moreover have "ops db' = ops db" unfolding db' using True by simp
    moreover have "\<forall>p. r \<noteq> Inr (p, False)"
      using res True by (auto simp: reread_def split: sum.splits option.splits)
    ultimately show ?thesis using True row ls by metis
  next
    case False
    then have "\<forall>p. r \<noteq> Inr (p, True)"
      using res by (auto simp: reread_def split: sum.splits option.splits)
    then show ?thesis using db' False by simp
  qed
qed

lemma begin_reconcile_cases:
  assumes "begin_reconcile now pid db = (r, db')" "wf_db db"
  shows "(db' = db \<and> ((\<exists>e. r = Inl e) \<or> (\<exists>row. find_plan db pid = Some row \<and>
      pl_status row \<notin> {EXECUTING, UNKNOWN, LEGACY_UNKNOWN, PARTIAL}))) \<or> (\<exists>row row'. find_plan db pid = Some row \<and> lease_free now (pl_lease row) \<and>
      ops db' = ops db \<and> wf_db db' \<and> find_plan db' = (find_plan db)(pid \<mapsto> row') \<and>
      row' = row\<lparr>pl_status := (if pl_status row = EXECUTING then UNKNOWN else pl_status row),
                 pl_owner := None, pl_lease := None\<rparr> \<and>
      pl_status row \<in> {EXECUTING, UNKNOWN, LEGACY_UNKNOWN, PARTIAL})"
proof (cases "find_plan db pid")
  case None
  then show ?thesis using assms(1) by (auto simp: begin_reconcile_def)
next
  case (Some row)
  let ?f1 = "\<lambda>r. r\<lparr>pl_status := UNKNOWN, pl_owner := None, pl_lease := None\<rparr>"
  let ?f2 = "\<lambda>r. r\<lparr>pl_owner := None, pl_lease := None\<rparr>"
  have f: "keeps_plan ?f1" "keeps_plan ?f2" by (simp_all add: keeps_plan_def)
  consider "\<not> lease_free now (pl_lease row)" | "lease_free now (pl_lease row)" "pl_status row = EXECUTING"
    | "lease_free now (pl_lease row)" "pl_status row \<in> {UNKNOWN, LEGACY_UNKNOWN, PARTIAL}"
    | "lease_free now (pl_lease row)" "pl_status row \<notin> {EXECUTING, UNKNOWN, LEGACY_UNKNOWN, PARTIAL}"
    by blast
  then show ?thesis
  proof cases
    case 1
    then show ?thesis using assms(1) Some by (auto simp: begin_reconcile_def)
  next
    case 2
    let ?P = "\<lambda>r. pl_id r = pid \<and> pl_status r = EXECUTING \<and> lease_free now (pl_lease r)"
    have db': "db' = update_plans ?P ?f1 db"
      using assms(1) Some 2 by (auto simp: begin_reconcile_def dest: reread_pair)
    have "find_plan db' = (find_plan db)(pid \<mapsto> ?f1 row)"
      unfolding db' fun_eq_iff
      using 2 Some find_plan_update_key [OF f(1), of pid "\<lambda>r. pl_status r = EXECUTING \<and> lease_free now (pl_lease r)" db]
      by auto
    then show ?thesis using 2 Some assms(2) f unfolding db' by (auto intro!: exI [of _ row])
  next
    case 3
    have db': "db' = update_plans (\<lambda>r. pl_id r = pid) ?f2 db"
      using assms(1) Some 3 by (auto simp: begin_reconcile_def dest: reread_pair)
    have "find_plan db' = (find_plan db)(pid \<mapsto> ?f2 row)"
      unfolding db' fun_eq_iff using Some find_plan_update_all [OF f(2), of pid db] by auto
    then show ?thesis using 3 Some assms(2) f unfolding db' by (auto intro!: exI [of _ row])
  next
    case 4
    then show ?thesis using assms(1) Some by (auto simp: begin_reconcile_def dest: reread_pair)
  qed
qed

lemma transition_plan_cases:
  assumes "transition_plan now pid expected target db = (r, db')" "wf_db db"
  shows "db' = db \<or> (\<exists>row row'. find_plan db pid = Some row \<and> pl_status row = expected \<and>
      can_transition expected target \<and> ops db' = ops db \<and> wf_db db' \<and>
      find_plan db' = (find_plan db)(pid \<mapsto> row') \<and> pl_status row' = target \<and> pl_id row' = pid \<and>
      pl_owner row' = pl_owner row \<and> pl_lease row' = pl_lease row)"
proof -
  let ?P = "\<lambda>r. pl_id r = pid \<and> pl_status r = expected"
  let ?f = "\<lambda>r. r\<lparr>pl_status := target, pl_confirmed := (if target = EXECUTING
    then (case pl_confirmed r of None \<Rightarrow> Some now | Some t \<Rightarrow> Some t) else pl_confirmed r)\<rparr>"
  have f: "keeps_plan ?f" by (simp add: keeps_plan_def)
  show ?thesis
  proof (cases "can_transition expected target \<and> plan_count ?P db = 1")
    case False
    then show ?thesis using assms(1) by (auto simp: transition_plan_def Let_def split: if_splits)
  next
    case True
    have cnt: "(case find_plan db pid of None \<Rightarrow> 0 | Some r \<Rightarrow> if pl_status r = expected then 1 else 0) = (1 :: nat)"
      using True plan_count_key [OF assms(2), of pid "\<lambda>r. pl_status r = expected"] by simp
    then obtain row where row: "find_plan db pid = Some row" "pl_status row = expected"
      by (cases "find_plan db pid") (auto split: if_splits)
    have db': "db' = update_plans ?P ?f db"
      using assms(1) True by (auto simp: transition_plan_def Let_def dest: reread_pair)
    have "find_plan db' = (find_plan db)(pid \<mapsto> ?f row)"
      unfolding db' fun_eq_iff
      using row find_plan_update_key [OF f, of pid "\<lambda>r. pl_status r = expected" db] by auto
    moreover have "wf_db db'" unfolding db' using assms(2) f by blast
    moreover have "ops db' = ops db" unfolding db' by simp
    ultimately show ?thesis using True row find_plan_id [OF row(1)] by auto
  qed
qed

text \<open>Saving inserts a row per operation, all \<open>ISSUED\<close> with attempt 0.\<close>

lemma insert_operations_ok:
  assumes "insert_operations p n os db = Inr db'"
  shows "plans db' = plans db \<and> (wf_db db \<longrightarrow> wf_db db') \<and>
    ops db' = ops db @ map (\<lambda>(i, o'). operation_to_row p (n + i) o') (enumerate 0 os)"
  using assms
proof (induction p n os db rule: insert_operations.induct)
  case (1 p n db)
  then show ?case by simp
next
  case (2 p n o' os db)
  let ?r = "operation_to_row p n o'"
  let ?db1 = "db\<lparr>ops := ops db @ [?r]\<rparr>"
  have ins: "insert_op_row ?r db = Inr ?db1" "\<not> list_ex (\<lambda>x. or_id x = or_id ?r) (ops db)"
    and rest: "insert_operations p (Suc n) os ?db1 = Inr db'"
    using 2(2) by (auto simp: insert_op_row_def list_ex_iff split: if_splits)
  have wf1: "wf_db db \<longrightarrow> wf_db ?db1"
    using ins(2) by (auto simp: wf_db_def list_ex_iff image_iff)
  have enum: "enumerate 0 (o' # os) = (0, o') # map (\<lambda>(i, x). (Suc i, x)) (enumerate 0 os)"
    by (simp add: enumerate_Suc_eq case_prod_unfold apfst_def map_prod_def)
  show ?case
    using 2(1) [OF ins(1) rest] wf1 unfolding enum by (auto simp: o_def case_prod_unfold)
qed

lemma save_plan_ok:
  assumes "save_plan p db = (Inr u, db')" "wf_db db"
  shows "wf_db db' \<and> find_plan db (wp_id p) = None \<and>
    find_plan db' = (find_plan db)(wp_id p \<mapsto> plan_to_row p) \<and>
    ops db' = ops db @ map (\<lambda>(i, o'). operation_to_row p i o') (enumerate 0 (wp_operations p))"
proof -
  let ?db1 = "db\<lparr>plans := plans db @ [plan_to_row p]\<rparr>"
  have new: "\<not> list_ex (\<lambda>x. pl_id x = wp_id p) (plans db)"
    and ins: "insert_operations p 0 (wp_operations p) ?db1 = Inr db'"
    using assms(1) by (auto simp: save_plan_def insert_plan_row_def plan_to_row_def split: if_splits sum.splits)
  have wf1: "wf_db ?db1"
    using assms(2) new by (auto simp: wf_db_def list_ex_iff image_iff plan_to_row_def)
  have none: "find_plan db (wp_id p) = None"
    using new by (auto simp: find_plan_def find_None_iff list_ex_iff)
  have fapp: "find Q (xs @ ys) = (case find Q xs of None \<Rightarrow> find Q ys | Some x \<Rightarrow> Some x)"
    for Q :: "plan_row \<Rightarrow> bool" and xs ys by (induction xs) auto
  have "find_plan ?db1 = (find_plan db)(wp_id p \<mapsto> plan_to_row p)"
    using none by (auto simp: fun_eq_iff find_plan_def fapp plan_to_row_def split: option.splits)
  then show ?thesis
    using insert_operations_ok [OF ins] wf1 none by (simp add: find_plan_def fun_eq_iff)
qed

end
