(* ===== verification/Response.thy ===== *)
theory Response
  imports Py_Base
begin

text \<open>
  The error taxonomy of \<open>hugegraph_mcp/envelope.py\<close> and the shape in which the modelled tools answer.
  A response records the call of \<open>envelope_ok\<close> or \<open>envelope_err\<close> with its arguments; the redaction of
  secrets and the \<open>meta\<close> block that the two functions add are not part of the model.
\<close>

datatype ErrorType =
    CONNECTION_FAILED | AUTHENTICATION_FAILED | AUTHORIZATION_FAILED | VALIDATION_ERROR
  | READONLY_VIOLATION | CONFIRM_REQUIRED | PLAN_HASH_MISMATCH | PLAN_EXPIRED | PLAN_ALREADY_USED
  | TARGET_CHANGED | WRITE_CONFLICT | WRITE_OUTCOME_UNKNOWN | PARTIAL_APPLY | NOT_FOUND | NO_INDEX
  | UNSAFE_GREMLIN | QUERY_SYNTAX_ERROR | SERVER_ERROR | SCHEMA_MISMATCH | INVALID_GRAPH_DATA
  | HUGEGRAPH_AI_UNAVAILABLE | FEATURE_DISABLED | FLOW_EXECUTION_FAILED | LLM_FAILED
  | EMBEDDING_FAILED | TIMEOUT

text \<open>\<open>error_type.value\<close> and the members of the enum in their order.\<close>

fun error_value :: "ErrorType \<Rightarrow> string" where
  "error_value CONNECTION_FAILED = ''CONNECTION_FAILED''"
| "error_value AUTHENTICATION_FAILED = ''AUTHENTICATION_FAILED''"
| "error_value AUTHORIZATION_FAILED = ''AUTHORIZATION_FAILED''"
| "error_value VALIDATION_ERROR = ''VALIDATION_ERROR''"
| "error_value READONLY_VIOLATION = ''READONLY_VIOLATION''"
| "error_value CONFIRM_REQUIRED = ''CONFIRM_REQUIRED''"
| "error_value PLAN_HASH_MISMATCH = ''PLAN_HASH_MISMATCH''"
| "error_value PLAN_EXPIRED = ''PLAN_EXPIRED''"
| "error_value PLAN_ALREADY_USED = ''PLAN_ALREADY_USED''"
| "error_value TARGET_CHANGED = ''TARGET_CHANGED''"
| "error_value WRITE_CONFLICT = ''WRITE_CONFLICT''"
| "error_value WRITE_OUTCOME_UNKNOWN = ''WRITE_OUTCOME_UNKNOWN''"
| "error_value PARTIAL_APPLY = ''PARTIAL_APPLY''"
| "error_value NOT_FOUND = ''NOT_FOUND''"
| "error_value NO_INDEX = ''NO_INDEX''"
| "error_value UNSAFE_GREMLIN = ''UNSAFE_GREMLIN''"
| "error_value QUERY_SYNTAX_ERROR = ''QUERY_SYNTAX_ERROR''"
| "error_value SERVER_ERROR = ''SERVER_ERROR''"
| "error_value SCHEMA_MISMATCH = ''SCHEMA_MISMATCH''"
| "error_value INVALID_GRAPH_DATA = ''INVALID_GRAPH_DATA''"
| "error_value HUGEGRAPH_AI_UNAVAILABLE = ''HUGEGRAPH_AI_UNAVAILABLE''"
| "error_value FEATURE_DISABLED = ''FEATURE_DISABLED''"
| "error_value FLOW_EXECUTION_FAILED = ''FLOW_EXECUTION_FAILED''"
| "error_value LLM_FAILED = ''LLM_FAILED''"
| "error_value EMBEDDING_FAILED = ''EMBEDDING_FAILED''"
| "error_value TIMEOUT = ''TIMEOUT''"

definition error_types :: "ErrorType list" where
  "error_types = [CONNECTION_FAILED, AUTHENTICATION_FAILED, AUTHORIZATION_FAILED, VALIDATION_ERROR,
     READONLY_VIOLATION, CONFIRM_REQUIRED, PLAN_HASH_MISMATCH, PLAN_EXPIRED,
     PLAN_ALREADY_USED, TARGET_CHANGED, WRITE_CONFLICT, WRITE_OUTCOME_UNKNOWN,
     PARTIAL_APPLY, NOT_FOUND, NO_INDEX, UNSAFE_GREMLIN,
     QUERY_SYNTAX_ERROR, SERVER_ERROR, SCHEMA_MISMATCH, INVALID_GRAPH_DATA,
     HUGEGRAPH_AI_UNAVAILABLE, FEATURE_DISABLED, FLOW_EXECUTION_FAILED, LLM_FAILED,
     EMBEDDING_FAILED, TIMEOUT]"

lemma error_types_all: "t \<in> set error_types"
  by (cases t) (simp_all add: error_types_def)

text \<open>\<open>envelope_err(type, message, suggestion=..., retryable=False, details=...)\<close>.\<close>

datatype response =
    envelope_ok (ok_data: py)
  | envelope_err (err_type: ErrorType) (err_message: string) (err_suggestion: "string option")
      (err_details: py)

fun is_ok :: "response \<Rightarrow> bool" where
  "is_ok (envelope_ok _) = True"
| "is_ok (envelope_err _ _ _ _) = False"

end
