(* ===== verification/Executor.thy ===== *)
theory Executor
  imports Plan_Store Response
begin

text \<open>
  Model of \<open>hugegraph_mcp/write_executor.py\<close>: confirmation, resumption and status of a durable plan.
  As in the code, the executor talks to its store through the \<open>PlanStore\<close> protocol, here a record of
  operations over a store state \<open>'s\<close>, and to the graph through an adapter per operation kind, which
  may change the backend state \<open>'w\<close>. The clock and the token generator are sequences of readings:
  reading number \<open>n\<close> is \<open>am_clock n\<close> or \<open>am_uuid n\<close>.
\<close>

section \<open>The store protocol and the surroundings of an executor\<close>

record 's PlanStore =
  ps_get_plan :: "'s \<Rightarrow> string \<Rightarrow> WritePlan option res"
  ps_record :: "'s \<Rightarrow> string \<Rightarrow> PlanRecord option"
  ps_transition :: "int \<Rightarrow> string \<Rightarrow> PlanStatus \<Rightarrow> PlanStatus \<Rightarrow> 's \<Rightarrow> WritePlan res \<times> 's"
  ps_claim_plan :: "int \<Rightarrow> string \<Rightarrow> string \<Rightarrow> string option \<Rightarrow> int \<Rightarrow> bool \<Rightarrow> 's
     \<Rightarrow> (WritePlan \<times> bool) res \<times> 's"
  ps_claim_operation :: "int \<Rightarrow> string \<Rightarrow> string \<Rightarrow> string \<Rightarrow> string option \<Rightarrow> string option \<Rightarrow> int
     \<Rightarrow> 's \<Rightarrow> int res \<times> 's"
  ps_record_receipt :: "int \<Rightarrow> ApplyReceipt \<Rightarrow> string option \<Rightarrow> string option \<Rightarrow> 's \<Rightarrow> unit res \<times> 's"
  ps_begin_reconcile :: "int \<Rightarrow> string \<Rightarrow> 's \<Rightarrow> WritePlan res \<times> 's"
  ps_record_reconciliation :: "int \<Rightarrow> ApplyReceipt \<Rightarrow> 's \<Rightarrow> unit res \<times> 's"

definition sqlite_store :: "plan_db PlanStore" where
  "sqlite_store = \<lparr>ps_get_plan = get_plan, ps_record = get_plan_record,
     ps_transition = transition_plan, ps_claim_plan = claim_plan,
     ps_claim_operation = claim_operation, ps_record_receipt = record_receipt,
     ps_begin_reconcile = begin_reconcile,
     ps_record_reconciliation = record_reconciliation_receipt\<rparr>"

text \<open>An adapter raises (\<open>Inl\<close> the exception's type name) or returns a receipt.\<close>

type_synonym 'w adapter = "WritePlan \<Rightarrow> OperationPlan \<Rightarrow> int \<Rightarrow> 'w \<Rightarrow> (string + ApplyReceipt) \<times> 'w"

type_synonym 'w registry = "string \<Rightarrow> 'w adapter option"

text \<open>\<open>WriteExecutorRegistry.register\<close>; \<open>adapter_for\<close> is the application of the registry.\<close>

definition register_adapter :: "string \<Rightarrow> 'w adapter \<Rightarrow> 'w registry \<Rightarrow> 'w registry res" where
  "register_adapter kind adapter reg =
     (if kind = [] then Inl (ValueError ''adapter kind must be non-empty'')
      else Inr (reg(kind \<mapsto> adapter)))"

record ambient =
  am_clock :: "nat \<Rightarrow> int"
  am_uuid :: "nat \<Rightarrow> string"

record ('s, 'w) world =
  w_store :: 's
  w_backend :: 'w
  w_tick :: nat
  w_fresh :: nat

definition now_of :: "ambient \<Rightarrow> ('s, 'w) world \<Rightarrow> int" where
  "now_of am w = am_clock am (w_tick w)"

definition uuid_of :: "ambient \<Rightarrow> ('s, 'w) world \<Rightarrow> string" where
  "uuid_of am w = am_uuid am (w_fresh w)"

text \<open>The world after a store call that read the clock once.\<close>

definition put_store :: "'s \<Rightarrow> ('s, 'w) world \<Rightarrow> ('s, 'w) world" where
  "put_store s w = w\<lparr>w_store := s, w_tick := Suc (w_tick w)\<rparr>"

section \<open>Status\<close>

definition opt_int :: "int option \<Rightarrow> py" where
  "opt_int t = (case t of None \<Rightarrow> PNone | Some i \<Rightarrow> PInt i)"

definition operation_record_dict :: "op_row \<Rightarrow> py_dict" where
  "operation_record_dict r =
     [(''operation_id'', PStr (or_id r)), (''ordinal'', PInt (int (or_ordinal r))),
      (''kind'', PStr (or_kind r)), (''payload'', or_payload r),
      (''status'', PStr (plan_value (or_status r))), (''attempt'', PInt (or_attempt r)),
      (''attempt_token'', py_opt_str (or_token r)), (''reconciled'', PBool (or_reconciled r)),
      (''receipt'', (case or_receipt r of None \<Rightarrow> PNone | Some v \<Rightarrow> v)),
      (''updated_at'', PInt (or_updated r))]"

definition plan_record_dict :: "PlanRecord \<Rightarrow> py_dict" where
  "plan_record_dict rec = (let p = rec_plan rec in
     [(''plan_id'', PStr (pl_id p)), (''tool_name'', PStr (pl_tool p)),
      (''graph_target'', pl_target p), (''principal'', PStr (pl_principal p)),
      (''payload'', pl_payload p), (''payload_digest'', PStr (pl_digest p)),
      (''schema_fingerprint'', py_opt_str (pl_fingerprint p)),
      (''status'', PStr (plan_value (pl_status p))),
      (''created_at'', PInt (pl_created p)), (''expires_at'', PInt (pl_expires p)),
      (''confirmed_at'', opt_int (pl_confirmed p)), (''lease_owner'', py_opt_str (pl_owner p)),
      (''lease_expires_at'', opt_int (pl_lease p)),
      (''operations'', PList (map (\<lambda>r. PDict (operation_record_dict r)) (rec_ops rec)))])"

definition public_operation :: "py_dict \<Rightarrow> py_dict" where
  "public_operation d =
     map (\<lambda>(k, v). (k, (case v of
            PDict rd \<Rightarrow> if k = ''receipt'' then PDict (dpop ''attempt_token'' rd) else v
          | _ \<Rightarrow> v)))
       (filter (\<lambda>(k, v). k \<notin> {''payload'', ''attempt_token'', ''reconciled''}) d)"

definition status_public :: "int \<Rightarrow> PlanRecord \<Rightarrow> py_dict" where
  "status_public now rec =
     (let pub = dpop ''payload'' (plan_record_dict rec);
          pub = dset ''operations''
            (PList (map (\<lambda>r. PDict (public_operation (operation_record_dict r))) (rec_ops rec))) pub;
          st = pl_status (rec_plan rec);
          pub = (if st = LEGACY_UNKNOWN then
                   dset ''reconciliation_required'' (PBool True)
                     (dset ''status'' (PStr (plan_value UNKNOWN)) pub)
                 else if st = EXECUTING then
                   (if lease_free now (pl_lease (rec_plan rec)) then
                      dset ''reconciliation_required'' (PBool True)
                        (dset ''status'' (PStr (plan_value UNKNOWN)) pub)
                    else dset ''reconciliation_required'' (PBool False) pub)
                 else pub)
      in dpop ''lease_owner'' pub)"

definition executor_status :: "'s PlanStore \<Rightarrow> int \<Rightarrow> string \<Rightarrow> 's \<Rightarrow> response" where
  "executor_status S now pid s = (case ps_record S s pid of
     None \<Rightarrow> envelope_err NOT_FOUND ''No persisted write plan matches this plan_id.'' None PNone
   | Some rec \<Rightarrow> envelope_ok (PDict (status_public now rec)))"

definition result_error_type :: "PlanStatus \<Rightarrow> ErrorType" where
  "result_error_type st = (case st of PARTIAL \<Rightarrow> PARTIAL_APPLY | CONFLICT \<Rightarrow> WRITE_CONFLICT
     | REJECTED \<Rightarrow> FLOW_EXECUTION_FAILED | EXPIRED \<Rightarrow> PLAN_EXPIRED | _ \<Rightarrow> WRITE_OUTCOME_UNKNOWN)"

text \<open>\<open>data["status"]\<close> as a plan status.\<close>

definition data_status :: "py \<Rightarrow> PlanStatus option" where
  "data_status data = (case data of
      PDict d \<Rightarrow> (case map_of d ''status'' of Some (PStr s) \<Rightarrow> plan_of_value s | _ \<Rightarrow> None)
    | _ \<Rightarrow> None)"

definition confirmation_result :: "'s PlanStore \<Rightarrow> int \<Rightarrow> string \<Rightarrow> 's \<Rightarrow> response res" where
  "confirmation_result S now pid s = (case executor_status S now pid s of
     envelope_err t m sg d \<Rightarrow> Inr (envelope_err t m sg d)
   | envelope_ok data \<Rightarrow> (case data_status data of
       None \<Rightarrow> Inl (ValueError ''status'')
     | Some st \<Rightarrow> if st = APPLIED \<or> st = ALREADY_APPLIED then Inr (envelope_ok data)
         else Inr (envelope_err (result_error_type st)
           ''The confirmed write plan did not reach an applied final state.'' None data)))"

text \<open>\<open>return self._confirmation_result(plan_id)\<close>: one more clock reading.\<close>

definition finish :: "'s PlanStore \<Rightarrow> ambient \<Rightarrow> string \<Rightarrow> ('s, 'w) world \<Rightarrow> response res \<times> ('s, 'w) world" where
  "finish S am pid w =
     (confirmation_result S (now_of am w) pid (w_store w), put_store (w_store w) w)"

section \<open>Execution of a claimed plan\<close>

definition crash_receipt :: "string \<Rightarrow> OperationPlan \<Rightarrow> string \<Rightarrow> int \<Rightarrow> ApplyReceipt" where
  "crash_receipt pid o' exc attempt =
     \<lparr>rc_status = ApplyStatus.UNKNOWN, rc_plan_id = Some pid, rc_operation_id = Some (op_id o'),
      rc_observed = None, rc_reason_code = Some exc, rc_attempt = attempt, rc_attempt_token = None,
      rc_reconcile = True, rc_committed_at = None, rc_operation = None, rc_reason = None\<rparr>"

definition status_map :: "PlanRecord \<Rightarrow> string \<Rightarrow> PlanStatus option" where
  "status_map rec oid = map_option or_status (find (\<lambda>r. or_id r = oid) (rec_ops rec))"

text \<open>The \<open>for\<close> loop of \<open>_execute_claimed\<close>; \<open>sts\<close> is the dict \<open>operation_statuses\<close> read before it.\<close>

fun run_operations ::
  "'s PlanStore \<Rightarrow> 'w registry \<Rightarrow> ambient \<Rightarrow> int \<Rightarrow> WritePlan \<Rightarrow> PlanStatus list \<Rightarrow> string
   \<Rightarrow> (string \<Rightarrow> PlanStatus option) \<Rightarrow> OperationPlan list \<Rightarrow> ('s, 'w) world
   \<Rightarrow> unit res \<times> ('s, 'w) world" where
  "run_operations S reg am lease plan claimable owner sts [] w = (Inr (), w)"
| "run_operations S reg am lease plan claimable owner sts (o' # os) w =
     (case sts (op_id o') of
        None \<Rightarrow> (Inl (KeyError (op_id o')), w)
      | Some st \<Rightarrow>
        if st \<notin> set claimable
        then run_operations S reg am lease plan claimable owner sts os w
        else case reg (op_kind o') of
          None \<Rightarrow> (Inl (AssertionError ''adapter is not None''), w)
        | Some adapter \<Rightarrow>
          let token = uuid_of am w;
              w1 = w\<lparr>w_fresh := Suc (w_fresh w)\<rparr>
          in case ps_claim_operation S (now_of am w1) token (wp_id plan) (op_id o') (Some owner)
                    (Some token) lease (w_store w1) of
            (Inl e, s) \<Rightarrow> (Inl e, put_store s w1)
          | (Inr attempt, s) \<Rightarrow>
            let w2 = put_store s w1;
                (out, b) = adapter plan o' attempt (w_backend w2);
                w3 = w2\<lparr>w_backend := b\<rparr>;
                receipt = (case out of Inl exc \<Rightarrow> crash_receipt (wp_id plan) o' exc attempt | Inr r \<Rightarrow> r);
                receipt = receipt\<lparr>rc_attempt_token := Some token\<rparr>
            in case ps_record_receipt S (now_of am w3) receipt (Some owner) (Some token) (w_store w3) of
              (Inl e, s') \<Rightarrow> (Inl e, put_store s' w3)
            | (Inr _, s') \<Rightarrow>
              if is_success (rc_status receipt)
              then run_operations S reg am lease plan claimable owner sts os (put_store s' w3)
              else (Inr (), put_store s' w3))"

definition execute_claimed ::
  "'s PlanStore \<Rightarrow> 'w registry \<Rightarrow> ambient \<Rightarrow> int \<Rightarrow> WritePlan \<Rightarrow> PlanStatus list \<Rightarrow> string
   \<Rightarrow> ('s, 'w) world \<Rightarrow> response res \<times> ('s, 'w) world" where
  "execute_claimed S reg am lease plan claimable owner w =
     (case ps_record S (w_store w) (wp_id plan) of
        None \<Rightarrow> (Inl (PlanTransitionError ''claimed plan disappeared before execution''), w)
      | Some rec \<Rightarrow>
        (case run_operations S reg am lease plan claimable owner (status_map rec) (wp_operations plan) w of
           (Inl e, w') \<Rightarrow> (Inl e, w')
         | (Inr _, w') \<Rightarrow> finish S am (wp_id plan) w'))"

section \<open>Confirm and resume\<close>

definition missing_kinds :: "string list \<Rightarrow> py" where
  "missing_kinds kinds = PDict [(''missing_operation_kinds'', PList (map PStr (sort (remdups kinds))))]"

definition confirm ::
  "'s PlanStore \<Rightarrow> 'w registry \<Rightarrow> ambient \<Rightarrow> int \<Rightarrow> string \<Rightarrow> ('s, 'w) world
   \<Rightarrow> response res \<times> ('s, 'w) world" where
  "confirm S reg am lease pid w =
     (case ps_get_plan S (w_store w) pid of
        Inl e \<Rightarrow> (Inl e, w)
      | Inr None \<Rightarrow> (Inr (envelope_err NOT_FOUND
          ''No server-issued write plan matches this plan_id.'' None PNone), w)
      | Inr (Some plan) \<Rightarrow>
        let w0 = put_store (w_store w) w in
        if now_of am w > wp_expires_at plan \<and> wp_status plan = ISSUED then
          (case ps_transition S (now_of am w0) pid ISSUED EXPIRED (w_store w0) of
             (Inl e, s) \<Rightarrow> (Inl e, put_store s w0)
           | (Inr _, s) \<Rightarrow> finish S am pid (put_store s w0))
        else
        let missing = filter (\<lambda>k. reg k = None) (map op_kind (wp_operations plan)) in
        if missing \<noteq> [] then
          (Inr (envelope_err FEATURE_DISABLED
             ''The confirmed plan requires an unavailable atomic write adapter.'' None
             (missing_kinds missing)), w0)
        else
        let owner = uuid_of am w0;
            w1 = w0\<lparr>w_fresh := Suc (w_fresh w0)\<rparr>
        in case ps_claim_plan S (now_of am w1) owner pid (Some owner) lease False (w_store w1) of
             (Inl (PlanTransitionError m), s) \<Rightarrow> finish S am pid (put_store s w1)
           | (Inl e, s) \<Rightarrow> (Inl e, put_store s w1)
           | (Inr (claimed_plan, claimed), s) \<Rightarrow>
             if \<not> claimed then finish S am pid (put_store s w1)
             else execute_claimed S reg am lease claimed_plan [ISSUED] owner (put_store s w1))"

definition resume_requires :: py_exc where
  "resume_requires = PlanTransitionError
     ''resume requires reconciled operations whose remaining state is RETRYABLE_NOT_APPLIED''"

definition resumable :: "WritePlan \<Rightarrow> PlanRecord \<Rightarrow> bool" where
  "resumable plan rec \<longleftrightarrow>
     (let sts = map or_status (rec_ops rec) in
      wp_status plan \<in> {RETRYABLE_NOT_APPLIED, PARTIAL} \<and>
      RETRYABLE_NOT_APPLIED \<in> set sts \<and>
      set sts \<subseteq> {APPLIED, ALREADY_APPLIED, RETRYABLE_NOT_APPLIED} \<and>
      list_all (\<lambda>r. or_status r = RETRYABLE_NOT_APPLIED \<longrightarrow> or_reconciled r) (rec_ops rec))"

fun retry_missing :: "'w registry \<Rightarrow> (string \<Rightarrow> PlanStatus option) \<Rightarrow> OperationPlan list \<Rightarrow> string list res" where
  "retry_missing reg sts [] = Inr []"
| "retry_missing reg sts (o' # os) = (case sts (op_id o') of None \<Rightarrow> Inl (KeyError (op_id o'))
     | Some st \<Rightarrow> (case retry_missing reg sts os of Inl e \<Rightarrow> Inl e
       | Inr ks \<Rightarrow> Inr (if st = RETRYABLE_NOT_APPLIED \<and> reg (op_kind o') = None
                        then op_kind o' # ks else ks)))"

definition resume ::
  "'s PlanStore \<Rightarrow> 'w registry \<Rightarrow> ambient \<Rightarrow> int \<Rightarrow> string \<Rightarrow> ('s, 'w) world
   \<Rightarrow> response res \<times> ('s, 'w) world" where
  "resume S reg am lease pid w =
     (case ps_get_plan S (w_store w) pid of
        Inl e \<Rightarrow> (Inl e, w)
      | Inr plan' \<Rightarrow>
        (case (plan', ps_record S (w_store w) pid) of
           (Some plan, Some rec) \<Rightarrow>
             if \<not> resumable plan rec then (Inl resume_requires, w)
             else (case retry_missing reg (status_map rec) (wp_operations plan) of
               Inl e \<Rightarrow> (Inl e, w)
             | Inr missing \<Rightarrow>
               if missing \<noteq> [] then
                 (Inr (envelope_err FEATURE_DISABLED
                    ''The reconciled plan requires an unavailable atomic write adapter.'' None
                    (missing_kinds missing)), w)
               else
               let owner = uuid_of am w;
                   w1 = w\<lparr>w_fresh := Suc (w_fresh w)\<rparr>
               in case ps_claim_plan S (now_of am w1) owner pid (Some owner) lease True (w_store w1) of
                    (Inl e, s) \<Rightarrow> (Inl e, put_store s w1)
                  | (Inr (claimed_plan, claimed), s) \<Rightarrow>
                    if \<not> claimed then
                      (Inl (PlanTransitionError ''resumable plan could not be exclusively leased''),
                       put_store s w1)
                    else execute_claimed S reg am lease claimed_plan [RETRYABLE_NOT_APPLIED] owner
                           (put_store s w1))
         | _ \<Rightarrow> (Inl (PlanTransitionError ''resume requires a reconciled RETRYABLE_NOT_APPLIED plan''), w)))"

end
