(* ===== verification/Reconciler.thy ===== *)
theory Reconciler
  imports Executor
begin

text \<open>
  Model of \<open>hugegraph_mcp/reconciler.py\<close>: classification of an observed state and the reconciliation
  pass over the operations of a plan whose outcome is ambiguous. A reader looks at the graph for one
  operation and may raise.
\<close>

section \<open>Classification\<close>

definition reconcile_operation_state ::
  "string \<Rightarrow> py_dict \<Rightarrow> py_dict \<Rightarrow> py_dict \<Rightarrow> ApplyStatus" where
  "reconcile_operation_state kind expected desired observed =
     (if dict_eq observed desired then ApplyStatus.APPLIED
      else if dict_eq observed expected then ApplyStatus.RETRYABLE_NOT_APPLIED
      else if starts_with kind ''DELETE_'' \<and> map_of observed ''exists'' = Some (PBool False)
        then ApplyStatus.APPLIED
      else ApplyStatus.CONFLICT)"

section \<open>The reconciliation pass\<close>

type_synonym 'w reader = "WritePlan \<Rightarrow> OperationPlan \<Rightarrow> 'w \<Rightarrow> py_dict res \<times> 'w"

type_synonym 'w readers = "string \<Rightarrow> 'w reader option"

definition register_reader :: "string \<Rightarrow> 'w reader \<Rightarrow> 'w readers \<Rightarrow> 'w readers res" where
  "register_reader kind reader rs =
     (if kind = [] then Inl (ValueError ''reader kind must be non-empty'')
      else Inr (rs(kind \<mapsto> reader)))"

text \<open>The receipt for an operation that no executor ever claimed.\<close>

definition unclaimed_receipt :: "string \<Rightarrow> OperationPlan \<Rightarrow> int \<Rightarrow> ApplyReceipt" where
  "unclaimed_receipt pid o' attempt =
     \<lparr>rc_status = ApplyStatus.RETRYABLE_NOT_APPLIED, rc_plan_id = Some pid,
      rc_operation_id = Some (op_id o'), rc_observed = None,
      rc_reason_code = Some ''RECONCILED_OPERATION_NOT_CLAIMED'', rc_attempt = attempt,
      rc_attempt_token = None, rc_reconcile = False, rc_committed_at = None,
      rc_operation = None, rc_reason = None\<rparr>"

text \<open>The receipt for an observed state; \<open>attempt\<close> is the attempt counter of the record that was read.\<close>

definition observed_receipt :: "int \<Rightarrow> string \<Rightarrow> OperationPlan \<Rightarrow> int \<Rightarrow> py_dict \<Rightarrow> ApplyReceipt" where
  "observed_receipt now pid o' attempt observed =
     (let st = reconcile_operation_state (op_kind o') (op_expected o') (op_desired o') observed;
          in_flight = (st = ApplyStatus.RETRYABLE_NOT_APPLIED \<and> attempt > 0);
          st = (if in_flight then ApplyStatus.UNKNOWN else st)
      in \<lparr>rc_status = st, rc_plan_id = Some pid, rc_operation_id = Some (op_id o'),
          rc_observed = freeze_opt (Some observed),
          rc_reason_code = Some (if in_flight then ''IN_FLIGHT_COMMIT_NOT_EXCLUDED''
                                 else ''RECONCILED_CURRENT_STATE''),
          rc_attempt = attempt, rc_attempt_token = None, rc_reconcile = in_flight,
          rc_committed_at = (if st = ApplyStatus.APPLIED then Some now else None),
          rc_operation = None, rc_reason = None\<rparr>)"

definition unresolved :: "PlanStatus \<Rightarrow> bool" where
  "unresolved s \<longleftrightarrow> s \<in> {EXECUTING, UNKNOWN, LEGACY_UNKNOWN}"

text \<open>
  The loop. Its result is \<open>Some response\<close> for the early return on a missing reader, \<open>None\<close> when it
  ran to the end; \<open>recs\<close> are the operation records read once before the loop.
\<close>

fun reconcile_operations ::
  "'s PlanStore \<Rightarrow> 'w readers \<Rightarrow> ambient \<Rightarrow> WritePlan \<Rightarrow> op_row list \<Rightarrow> OperationPlan list
   \<Rightarrow> ('s, 'w) world \<Rightarrow> response option res \<times> ('s, 'w) world" where
  "reconcile_operations S readers am plan recs [] w = (Inr None, w)"
| "reconcile_operations S readers am plan recs (o' # os) w =
     (case find (\<lambda>r. or_id r = op_id o') recs of
        None \<Rightarrow> (Inl (KeyError (op_id o')), w)
      | Some row \<Rightarrow>
        if or_status row = ISSUED then
          (case ps_record_reconciliation S (now_of am w)
                  (unclaimed_receipt (wp_id plan) o' (or_attempt row)) (w_store w) of
             (Inl e, s) \<Rightarrow> (Inl e, put_store s w)
           | (Inr _, s) \<Rightarrow> reconcile_operations S readers am plan recs os (put_store s w))
        else if \<not> unresolved (or_status row)
        then reconcile_operations S readers am plan recs os w
        else case readers (op_kind o') of
          None \<Rightarrow> (Inr (Some (envelope_err FEATURE_DISABLED
            ''The write plan requires an unavailable reconciliation reader.'' None
            (PDict [(''missing_operation_kind'', PStr (op_kind o'))]))), w)
        | Some reader \<Rightarrow>
          (case reader plan o' (w_backend w) of
             (Inl e, b) \<Rightarrow> (Inl e, w\<lparr>w_backend := b\<rparr>)
           | (Inr observed, b) \<Rightarrow>
             let w1 = w\<lparr>w_backend := b\<rparr>;
                 rc = observed_receipt (now_of am w1) (wp_id plan) o' (or_attempt row) observed;
                 w2 = put_store (w_store w1) w1
             in case ps_record_reconciliation S (now_of am w2) rc (w_store w2) of
                  (Inl e, s) \<Rightarrow> (Inl e, put_store s w2)
                | (Inr _, s) \<Rightarrow> reconcile_operations S readers am plan recs os (put_store s w2)))"

definition reconcile_status ::
  "'s PlanStore \<Rightarrow> ambient \<Rightarrow> string \<Rightarrow> ('s, 'w) world \<Rightarrow> response res \<times> ('s, 'w) world" where
  "reconcile_status S am pid w =
     (Inr (executor_status S (now_of am w) pid (w_store w)), put_store (w_store w) w)"

definition reconcile ::
  "'s PlanStore \<Rightarrow> 'w readers \<Rightarrow> ambient \<Rightarrow> string \<Rightarrow> ('s, 'w) world
   \<Rightarrow> response res \<times> ('s, 'w) world" where
  "reconcile S readers am pid w =
     (case ps_record S (w_store w) pid of
        None \<Rightarrow> (Inr (envelope_err NOT_FOUND ''No persisted write plan matches this plan_id.'' None PNone), w)
      | Some rec0 \<Rightarrow>
        if pl_tool (rec_plan rec0) = ''legacy'' then
          (Inr (envelope_err FEATURE_DISABLED
             ''Legacy confirmation state cannot be safely reconciled.'' None
             (PDict [(''reason_code'', PStr ''LEGACY_PLAN_NOT_RECONCILABLE'')])), w)
        else case ps_begin_reconcile S (now_of am w) pid (w_store w) of
          (Inl (PlanTransitionError m), s) \<Rightarrow>
            (Inr (envelope_err WRITE_CONFLICT ''The write plan still has an active execution lease.'' None
               (PDict [(''reason_code'', PStr ''EXECUTION_LEASE_ACTIVE''), (''reason'', PStr m)])),
             put_store s w)
        | (Inl e, s) \<Rightarrow> (Inl e, put_store s w)
        | (Inr plan, s) \<Rightarrow>
          let w1 = put_store s w in
          if wp_status plan \<notin> {UNKNOWN, LEGACY_UNKNOWN, PARTIAL} then reconcile_status S am pid w1
          else (case ps_record S (w_store w1) pid of
            None \<Rightarrow> (Inl (AssertionError ''record is not None''), w1)
          | Some rec \<Rightarrow>
            (case reconcile_operations S readers am plan (rec_ops rec) (wp_operations plan) w1 of
               (Inl e, w2) \<Rightarrow> (Inl e, w2)
             | (Inr (Some resp), w2) \<Rightarrow> (Inr resp, w2)
             | (Inr None, w2) \<Rightarrow> reconcile_status S am pid w2)))"

text \<open>\<open>reconcile_write\<close> once the store is available.\<close>

definition reconcile_write ::
  "'s PlanStore \<Rightarrow> 'w readers \<Rightarrow> ambient \<Rightarrow> string \<Rightarrow> ('s, 'w) world
   \<Rightarrow> response res \<times> ('s, 'w) world" where
  "reconcile_write S readers am pid w =
     (case reconcile S readers am pid w of
        (Inl (PlanTransitionError m), w') \<Rightarrow>
          (Inr (envelope_err WRITE_CONFLICT
             ''The persisted plan state changed during reconciliation.'' None
             (PDict [(''reason'', PStr m)])), w')
      | r \<Rightarrow> r)"

section \<open>Facts about the classification\<close>

lemma observed_receipt_retryable:
  "rc_status (observed_receipt now pid o' attempt obs) = ApplyStatus.RETRYABLE_NOT_APPLIED \<Longrightarrow>
     attempt \<le> 0 \<and> dict_eq obs (op_expected o')"
  by (auto simp: observed_receipt_def reconcile_operation_state_def Let_def split: if_splits)

lemma observed_receipt_locator [simp]:
  "receipt_locator (observed_receipt now pid o' attempt obs) =
     (if pid = [] \<or> op_id o' = [] then None else Some (pid, op_id o'))"
  by (simp add: observed_receipt_def receipt_locator_def Let_def)

lemma unclaimed_receipt_locator [simp]:
  "receipt_locator (unclaimed_receipt pid o' attempt) =
     (if pid = [] \<or> op_id o' = [] then None else Some (pid, op_id o'))"
  by (simp add: unclaimed_receipt_def receipt_locator_def)

lemma observed_receipt_fields [simp]:
  "rc_attempt (observed_receipt now pid o' attempt obs) = attempt"
  "rc_attempt (unclaimed_receipt pid o' attempt) = attempt"
  "rc_status (unclaimed_receipt pid o' attempt) = ApplyStatus.RETRYABLE_NOT_APPLIED"
  by (simp_all add: observed_receipt_def unclaimed_receipt_def Let_def)

end
