(* ===== verification/Protocol.thy ===== *)
theory Protocol
  imports Store_Facts Reconciler
begin

text \<open>
  The plan store as a shared object. Several executors and reconcilers, in several processes, issue
  transactions in any order; \<open>store_step\<close> is one transaction of the kinds the executor and the
  reconciler issue, with arbitrary times, tokens and owners, and \<open>run\<close> a sequence of them. A step
  that lets an adapter write to the graph carries the label \<open>Dispatch\<close>. A receipt of an executor is
  any receipt except one that claims the write certainly did not happen, which no adapter of the
  repository produces, and a reconciliation receipt is computed from the current row.
\<close>

section \<open>Steps\<close>

datatype label = Tau | Dispatch "string \<times> string"

definition reconciler_receipt :: "int \<Rightarrow> string \<Rightarrow> OperationPlan \<Rightarrow> op_row \<Rightarrow> py_dict \<Rightarrow> ApplyReceipt" where
  "reconciler_receipt now pid o' row observed =
     (if or_status row = ISSUED then unclaimed_receipt pid o' (or_attempt row)
      else observed_receipt now pid o' (or_attempt row) observed)"

inductive store_step :: "plan_db \<Rightarrow> label \<Rightarrow> plan_db \<Rightarrow> bool" where
  step_save: "save_plan p db = (r, db') \<Longrightarrow> wf_plan p \<Longrightarrow> wp_status p = ISSUED \<Longrightarrow>
    store_step db Tau db'"
| step_expire: "transition_plan now pid ISSUED EXPIRED db = (r, db') \<Longrightarrow> store_step db Tau db'"
| step_claim_plan: "claim_plan now fr pid ow ls rs db = (r, db') \<Longrightarrow> store_step db Tau db'"
| step_claim_operation: "claim_operation now fr pid oid ow tk ls db = (Inr n, db') \<Longrightarrow>
    store_step db (Dispatch (pid, oid)) db'"
| step_claim_refused: "claim_operation now fr pid oid ow tk ls db = (Inl e, db') \<Longrightarrow>
    store_step db Tau db'"
| step_receipt: "record_receipt now rc ow tk db = (r, db') \<Longrightarrow>
    rc_status rc \<noteq> ApplyStatus.RETRYABLE_NOT_APPLIED \<Longrightarrow> store_step db Tau db'"
| step_begin_reconcile: "begin_reconcile now pid db = (r, db') \<Longrightarrow> store_step db Tau db'"
| step_reconcile: "find_op db pid (op_id o') = Some row \<Longrightarrow>
    or_status row = ISSUED \<or> unresolved (or_status row) \<Longrightarrow>
    record_reconciliation_receipt now (reconciler_receipt now' pid o' row observed) db = (r, db') \<Longrightarrow>
    store_step db Tau db'"

inductive run :: "plan_db \<Rightarrow> label list \<Rightarrow> plan_db \<Rightarrow> bool" where
  run_nil: "run db [] db"
| run_step: "run db ls db1 \<Longrightarrow> store_step db1 l db2 \<Longrightarrow> run db (ls @ [l]) db2"

inductive_cases run_snocE: "run db (ls @ [l]) db'"

lemma run_induct_from_empty [consumes 1, case_names init step]:
  assumes "run empty_db ls db" "I [] empty_db"
    and "\<And>ls db l db'. run empty_db ls db \<Longrightarrow> I ls db \<Longrightarrow> store_step db l db' \<Longrightarrow> I (ls @ [l]) db'"
  shows "I ls db"
proof -
  have "db0 = empty_db \<Longrightarrow> I ls db" if "run db0 ls db" for db0
    using that by (induction rule: run.induct) (use assms in auto)
  with assms(1) show ?thesis by simp
qed

section \<open>Effect of a step on the view\<close>

definition dispatches :: "string \<times> string \<Rightarrow> label list \<Rightarrow> nat" where
  "dispatches k ls = count_list ls (Dispatch k)"

lemma dispatches_simps [simp]:
  "dispatches k [] = 0"
  "dispatches k (ls @ [l]) = dispatches k ls + (if l = Dispatch k then 1 else 0)"
  by (simp_all add: dispatches_def)

lemma find_append_some: "find P (xs @ ys) = (case find P xs of None \<Rightarrow> find P ys | Some x \<Rightarrow> Some x)"
  by (induction xs) auto

lemma save_plan_view:
  assumes "save_plan p db = (r, db')" "wf_db db"
  shows "wf_db db' \<and> (\<forall>k. view db' k = view db k \<or> (view db k = None \<and> view db' k = Some (ISSUED, 0)))"
proof (cases r)
  case (Inl e)
  then show ?thesis using assms save_plan_fail by blast
next
  case (Inr u)
  let ?new = "map (\<lambda>(i, o'). operation_to_row p i o') (enumerate 0 (wp_operations p))"
  have ok: "wf_db db'" "ops db' = ops db @ ?new"
    using save_plan_ok [OF assms(1) [unfolded Inr] assms(2)] by auto
  have "view db' k = view db k \<or> (view db k = None \<and> view db' k = Some (ISSUED, 0))" for k
  proof -
    have new: "or_status x = ISSUED \<and> or_attempt x = 0" if "x \<in> set ?new" for x
      using that by (auto simp: operation_to_row_def)
    have new': "find P ?new = Some x \<Longrightarrow> or_status x = ISSUED \<and> or_attempt x = 0" for P x
      using new by (auto dest!: find_SomeD)
    show ?thesis
      unfolding view_def find_op_def ok(2) find_append_some
      by (cases "find (\<lambda>r. or_plan r = fst k \<and> or_id r = snd k) (ops db)";
          cases "find (\<lambda>r. or_plan r = fst k \<and> or_id r = snd k) ?new")
         (auto dest: new')
  qed
  with ok(1) show ?thesis by blast
qed

lemma view_ops_cong: "ops db' = ops db \<Longrightarrow> view db' = view db"
  by (simp add: view_def find_op_def fun_eq_iff)

text \<open>
  Every step leaves an entry of the view alone or moves it along one of four arrows; the arrow of a
  dispatch is the only one that raises the attempt counter.
\<close>

definition view_arrow :: "label \<Rightarrow> string \<times> string \<Rightarrow> (PlanStatus \<times> int) option \<Rightarrow> (PlanStatus \<times> int) option \<Rightarrow> bool" where
  "view_arrow l k v v' \<longleftrightarrow>
     (v' = v \<and> l \<noteq> Dispatch k)
   \<or> (v = None \<and> v' = Some (ISSUED, 0) \<and> l \<noteq> Dispatch k)
   \<or> (\<exists>s n. v = Some (s, n) \<and> (s = ISSUED \<or> s = RETRYABLE_NOT_APPLIED) \<and>
        v' = Some (EXECUTING, n + 1) \<and> l = Dispatch k)
   \<or> (\<exists>s n s'. v = Some (s, n) \<and> v' = Some (s', n) \<and> l \<noteq> Dispatch k \<and>
        (s = ISSUED \<or> s = EXECUTING \<or> unresolved s) \<and> s' \<noteq> ISSUED \<and> s' \<noteq> EXECUTING \<and>
        (s' = RETRYABLE_NOT_APPLIED \<longrightarrow> s = ISSUED \<or> n \<le> 0))"

lemma reconciler_receipt_locator:
  "receipt_locator (reconciler_receipt now pid o' row obs) = Some k \<Longrightarrow> k = (pid, op_id o')"
  by (simp add: reconciler_receipt_def split: if_splits)

lemma step_view:
  assumes "store_step db l db'" "wf_db db"
  shows "wf_db db' \<and> (\<forall>k. view_arrow l k (view db k) (view db' k))"
  using assms
proof (induction rule: store_step.induct)
  case (step_save p db r db')
  then show ?case using save_plan_view [OF step_save(1)] by (auto simp: view_arrow_def)
next
  case (step_expire now pid db r db')
  have "wf_db db' \<and> view db' = view db"
    using transition_plan_cases [OF step_expire] step_expire(2) view_ops_cong [of db' db] by blast
  then show ?case by (simp add: view_arrow_def)
next
  case (step_claim_plan now fr pid ow ls rs db r db')
  have "wf_db db' \<and> view db' = view db"
    using claim_plan_cases [OF step_claim_plan] step_claim_plan(2) view_ops_cong [of db' db] by blast
  then show ?case by (simp add: view_arrow_def)
next
  case (step_claim_operation now fr pid oid ow tk ls db n db')
  show ?case
    by (rule claim_operation_ok [OF step_claim_operation]) (auto simp: view_arrow_def view_def)
next
  case (step_claim_refused now fr pid oid ow tk ls db e db')
  show ?case
    using step_claim_refused claim_operation_fail [OF step_claim_refused(1)] by (simp add: view_arrow_def)
next
  case (step_receipt now rc ow tk db r db')
  show ?case
  proof (cases r)
    case (Inl e)
    then have "db' = db" using step_receipt record_receipt_fail by blast
    then show ?thesis using step_receipt by (simp add: view_arrow_def)
  next
    case (Inr u)
    have nr: "plan_of_apply (rc_status rc) \<noteq> RETRYABLE_NOT_APPLIED"
      using step_receipt(2) by (cases "rc_status rc") auto
    show ?thesis
      by (rule record_receipt_ok [OF step_receipt(1) [unfolded Inr] step_receipt(3)])
         (use nr in \<open>auto simp: view_arrow_def view_def\<close>)
  qed
next
  case (step_begin_reconcile now pid db r db')
  have "wf_db db' \<and> view db' = view db"
    using begin_reconcile_cases [OF step_begin_reconcile] step_begin_reconcile(2) view_ops_cong [of db' db]
    by blast
  then show ?case by (simp add: view_arrow_def)
next
  case (step_reconcile db pid o' row now now' observed r db')
  let ?rc = "reconciler_receipt now' pid o' row observed"
  show ?case
  proof (cases r)
    case (Inl e)
    then have "db' = db" using step_reconcile record_reconciliation_fail by blast
    then show ?thesis using step_reconcile by (simp add: view_arrow_def)
  next
    case (Inr u)
    obtain pid' oid prow row' where ok: "receipt_locator ?rc = Some (pid', oid)"
      "find_op db pid' oid = Some row'" "wf_db db'"
      "view db' = (view db)((pid', oid) \<mapsto> (plan_of_apply (rc_status ?rc), or_attempt row'))"
      using record_reconciliation_ok [OF step_reconcile(3) [unfolded Inr] step_reconcile(4)] by metis
    have key: "pid' = pid" "oid = op_id o'" "row' = row"
      using reconciler_receipt_locator [OF ok(1)] ok(2) step_reconcile(1) by auto
    have "plan_of_apply (rc_status ?rc) = RETRYABLE_NOT_APPLIED \<Longrightarrow>
        or_status row = ISSUED \<or> or_attempt row \<le> 0"
      using observed_receipt_retryable [of now' pid o' "or_attempt row" observed]
      by (cases "rc_status ?rc") (auto simp: reconciler_receipt_def split: if_splits)
    then show ?thesis
      using ok step_reconcile(1,2) unfolding key by (auto simp: view_arrow_def view_def)
  qed
qed

section \<open>At most one dispatch\<close>

definition dispatch_inv :: "label list \<Rightarrow> plan_db \<Rightarrow> bool" where
  "dispatch_inv ls db \<longleftrightarrow> wf_db db \<and>
     (\<forall>k. case view db k of None \<Rightarrow> dispatches k ls = 0
        | Some (s, n) \<Rightarrow> n = int (dispatches k ls) \<and> dispatches k ls \<le> 1 \<and>
            (s = ISSUED \<or> s = RETRYABLE_NOT_APPLIED \<longrightarrow> dispatches k ls = 0))"

lemma dispatch_inv_step:
  assumes "dispatch_inv ls db" "store_step db l db'"
  shows "dispatch_inv (ls @ [l]) db'"
proof -
  have sv: "wf_db db'" "view_arrow l k (view db k) (view db' k)" for k
    using step_view [OF assms(2)] assms(1) unfolding dispatch_inv_def by blast+
  have "case view db' k of None \<Rightarrow> dispatches k (ls @ [l]) = 0
        | Some (s, n) \<Rightarrow> n = int (dispatches k (ls @ [l])) \<and> dispatches k (ls @ [l]) \<le> 1 \<and>
            (s = ISSUED \<or> s = RETRYABLE_NOT_APPLIED \<longrightarrow> dispatches k (ls @ [l]) = 0)" for k
  proof -
    have old: "case view db k of None \<Rightarrow> dispatches k ls = 0
        | Some (s, n) \<Rightarrow> n = int (dispatches k ls) \<and> dispatches k ls \<le> 1 \<and>
            (s = ISSUED \<or> s = RETRYABLE_NOT_APPLIED \<longrightarrow> dispatches k ls = 0)"
      using assms(1) unfolding dispatch_inv_def by blast
    show ?thesis
      using sv(2) [of k] old unfolding view_arrow_def
      by (elim disjE exE conjE) (auto split: option.splits)
  qed
  with sv(1) show ?thesis unfolding dispatch_inv_def by blast
qed

lemma run_dispatch_inv: "run empty_db ls db \<Longrightarrow> dispatch_inv ls db"
proof (induction rule: run_induct_from_empty)
  case init
  then show ?case by (simp add: dispatch_inv_def view_def find_op_def empty_db_def wf_db_def)
qed (rule dispatch_inv_step)

section \<open>The plan row agrees with its operations\<close>

text \<open>
  \<open>complete\<close> is the specification of a finished plan: it has operations and each of them is applied
  or was found applied. \<open>row_ok\<close> ties the status and the lease of a plan row to it.
\<close>

definition success_status :: "PlanStatus \<Rightarrow> bool" where
  "success_status s \<longleftrightarrow> s = APPLIED \<or> s = ALREADY_APPLIED"

definition complete :: "plan_db \<Rightarrow> string \<Rightarrow> bool" where
  "complete db pid \<longleftrightarrow> op_statuses db pid \<noteq> [] \<and> list_all success_status (op_statuses db pid)"

lemma complete_view:
  assumes "wf_db db"
  shows "complete db pid \<longleftrightarrow> (\<exists>oid. view db (pid, oid) \<noteq> None) \<and>
    (\<forall>oid s n. view db (pid, oid) = Some (s, n) \<longrightarrow> success_status s)"
proof -
  have "op_statuses db pid \<noteq> [] \<longleftrightarrow> (\<exists>s. s \<in> set (op_statuses db pid))"
    by (cases "op_statuses db pid") auto
  then show ?thesis
    unfolding complete_def list_all_iff using set_op_statuses [OF assms, of pid] by auto
qed

lemma success_status_apply: "success_status s \<longleftrightarrow> (\<exists>a. apply_of_plan s = Some a \<and> is_success a)"
  by (cases s) (auto simp: success_status_def is_success_def)

lemma map_filter_apply:
  "list_all (\<lambda>s. apply_of_plan s \<noteq> None) ss \<Longrightarrow> map plan_of_apply (persisted_apply ss) = ss"
  by (induction ss) (auto simp: persisted_apply_def List.map_filter_simps apply_of_plan_eq_Some)

lemma aggregate_persisted_success_iff:
  "success_status (aggregate_persisted_statuses ss) \<longleftrightarrow> ss \<noteq> [] \<and> list_all success_status ss"
proof (cases "list_ex (\<lambda>s. apply_of_plan s = None) ss")
  case True
  then have "\<not> list_all success_status ss"
    by (force simp: list_ex_iff list_all_iff success_status_apply)
  moreover have "\<not> success_status (aggregate_persisted_statuses ss)"
    using True by (simp add: aggregate_persisted_statuses_def success_status_def Let_def)
  ultimately show ?thesis by simp
next
  case False
  let ?cs = "persisted_apply ss"
  have all: "list_all (\<lambda>s. apply_of_plan s \<noteq> None) ss"
    using False by (auto simp: list_ex_iff list_all_iff)
  have succ: "success_status (plan_of_apply a) = is_success a" for a
    by (simp add: success_status_apply)
  have "list_all success_status (map plan_of_apply ?cs) = list_all is_success ?cs"
    by (simp add: list_all_iff succ)
  moreover have "success_status (aggregate_plan_status ?cs) \<longleftrightarrow> ?cs \<noteq> [] \<and> list_all is_success ?cs"
    using aggregate_applied_iff [of ?cs] by (simp add: success_status_def)
  moreover have "(?cs = []) = (ss = [])"
    using map_filter_apply [OF all] by (metis map_is_Nil_conv)
  ultimately show ?thesis
    using False map_filter_apply [OF all] by (simp add: aggregate_persisted_statuses_def)
qed

definition row_ok :: "plan_db \<Rightarrow> string \<Rightarrow> plan_row \<Rightarrow> bool" where
  "row_ok db pid row \<longleftrightarrow> (pl_owner row = None \<longrightarrow> pl_lease row = None) \<and>
     (pl_owner row \<noteq> None \<longrightarrow> pl_status row \<in> {EXECUTING, PARTIAL}) \<and>
     (success_status (pl_status row) \<longleftrightarrow> complete db pid)"

definition plan_inv :: "plan_db \<Rightarrow> bool" where
  "plan_inv db \<longleftrightarrow> wf_db db \<and> (\<forall>pid row. find_plan db pid = Some row \<longrightarrow> row_ok db pid row) \<and>
     (\<forall>pid oid. view db (pid, oid) \<noteq> None \<longrightarrow> find_plan db pid \<noteq> None)"

lemma plan_inv_update:
  assumes "plan_inv db" "wf_db db'" "\<And>p. p \<noteq> pid \<Longrightarrow> find_plan db' p = find_plan db p"
    and "\<And>p oid. p \<noteq> pid \<Longrightarrow> view db' (p, oid) = view db (p, oid)"
    and "find_plan db' pid = Some row'" "row_ok db' pid row'"
  shows "plan_inv db'"
proof -
  have "row_ok db' p row" if "find_plan db' p = Some row" for p row
  proof (cases "p = pid")
    case False
    then have "complete db' p = complete db p"
      using assms(1,2,4) by (simp add: complete_view plan_inv_def)
    then show ?thesis
      using assms(1,3) that False by (simp add: plan_inv_def row_ok_def)
  qed (use assms(5,6) that in simp)
  then show ?thesis
    using assms unfolding plan_inv_def by (metis option.distinct(1))
qed

lemma plan_inv_row: "plan_inv db \<Longrightarrow> find_plan db pid = Some row \<Longrightarrow> row_ok db pid row"
  by (simp add: plan_inv_def)

lemma not_complete: "view db (pid, oid) = Some (s, n) \<Longrightarrow> \<not> success_status s \<Longrightarrow> \<not> complete db pid"
  using view_op_statuses [of db pid oid s n] by (auto simp: complete_def list_all_iff)

lemma complete_ops_cong: "ops db' = ops db \<Longrightarrow> complete db' pid = complete db pid"
  by (simp add: complete_def op_statuses_def ops_of_def)

text \<open>A step that only rewrites one plan row.\<close>

lemma plan_inv_row_update:
  assumes "plan_inv db" "ops db' = ops db" "wf_db db'" "find_plan db pid = Some row"
    and "find_plan db' = (find_plan db)(pid \<mapsto> row')"
    and "pl_owner row' = None \<longrightarrow> pl_lease row' = None"
    and "pl_owner row' \<noteq> None \<longrightarrow> pl_status row' \<in> {EXECUTING, PARTIAL}"
    and "success_status (pl_status row') = success_status (pl_status row)"
  shows "plan_inv db'"
  using assms plan_inv_row [OF assms(1,4)] complete_ops_cong [OF assms(2), of pid]
    view_ops_cong [OF assms(2)]
  by (intro plan_inv_update [OF assms(1,3), of pid row']) (simp_all add: row_ok_def)

lemma save_plan_inv:
  assumes "save_plan p db = (r, db')" "plan_inv db" "wp_status p = ISSUED"
  shows "plan_inv db'"
proof (cases r)
  case (Inl e)
  then show ?thesis using assms save_plan_fail by blast
next
  case (Inr u)
  have wf: "wf_db db" using assms(2) by (simp add: plan_inv_def)
  note ok = save_plan_ok [OF assms(1) [unfolded Inr] wf]
  have new: "view db (wp_id p, oid) = None" for oid
    using ok assms(2) unfolding plan_inv_def by metis
  have other: "view db' (q, oid) = view db (q, oid)" if "q \<noteq> wp_id p" for q oid
  proof -
    have "find (\<lambda>r. or_plan r = q \<and> or_id r = oid)
      (map (\<lambda>(i, o'). operation_to_row p i o') (enumerate 0 (wp_operations p))) = None"
      using that by (auto simp: find_None_iff operation_to_row_def)
    then show ?thesis
      using ok by (simp add: view_def find_op_def find_append_some split: option.splits)
  qed
  have "view db' (wp_id p, oid) = None \<or> view db' (wp_id p, oid) = Some (ISSUED, 0)" for oid
    using save_plan_view [OF assms(1) wf] new by metis
  then have "\<not> complete db' (wp_id p)"
    using ok complete_view [of db' "wp_id p"] by (metis PlanStatus.distinct(3) PlanStatus.distinct(5) option.distinct(1) option.inject prod.inject success_status_def)
  then have "row_ok db' (wp_id p) (plan_to_row p)"
    using assms(3) by (simp add: row_ok_def plan_to_row_def success_status_def)
  then show ?thesis
    using ok other by (intro plan_inv_update [OF assms(2), of _ "wp_id p" "plan_to_row p"]) simp_all
qed

lemma claim_operation_inv:
  assumes "claim_operation now fr pid oid ow tk ls db = (Inr n, db')" "plan_inv db"
  shows "plan_inv db'"
proof -
  have wf: "wf_db db" using assms(2) by (simp add: plan_inv_def)
  obtain prow where ok: "find_plan db pid = Some prow" "\<not> lease_free now (pl_lease prow)"
    "wf_db db'" "view db' = (view db)((pid, oid) \<mapsto> (EXECUTING, n))"
    "find_plan db' = (find_plan db)(pid \<mapsto> prow\<lparr>pl_lease := Some (now + ls)\<rparr>)" "pl_owner prow \<noteq> None"
    using claim_operation_ok [OF assms(1) wf] by (metis option.distinct(1))
  have "\<not> complete db' pid"
    using not_complete [of db' pid oid EXECUTING n] ok by (simp add: success_status_def)
  then have "row_ok db' pid (prow\<lparr>pl_lease := Some (now + ls)\<rparr>)"
    using plan_inv_row [OF assms(2) ok(1)] ok by (auto simp: row_ok_def success_status_def)
  then show ?thesis
    using ok by (intro plan_inv_update [OF assms(2) ok(3), of pid]) simp_all
qed

lemma record_receipt_inv:
  assumes "record_receipt now rc ow tk db = (Inr u, db')" "plan_inv db"
  shows "plan_inv db'"
proof -
  have wf: "wf_db db" using assms(2) by (simp add: plan_inv_def)
  show ?thesis
  proof (rule record_receipt_ok [OF assms(1) wf], elim exE conjE)
    fix pid oid prow row prow'
    assume ok: "find_plan db pid = Some prow" "wf_db db'"
      "view db' = (view db)((pid, oid) \<mapsto> (plan_of_apply (rc_status rc), or_attempt row))"
      "\<And>p. p \<noteq> pid \<Longrightarrow> find_plan db' p = find_plan db p" "find_plan db' pid = Some prow'"
      "pl_status prow' = aggregate_persisted_statuses (op_statuses db' pid)"
      "pl_owner prow' = None \<and> pl_lease prow' = None \<or> pl_owner prow' = pl_owner prow \<and>
         pl_lease prow' = pl_lease prow \<and> pl_status prow' \<in> {EXECUTING, PARTIAL}"
    have "row_ok db' pid prow'"
      unfolding row_ok_def
      using ok(6,7) plan_inv_row [OF assms(2) ok(1)]
      by (auto simp: row_ok_def aggregate_persisted_success_iff complete_def)
    then show ?thesis
      using ok by (intro plan_inv_update [OF assms(2) ok(2), of pid]) simp_all
  qed
qed

lemma reconciliation_inv:
  assumes "record_reconciliation_receipt now rc db = (Inr u, db')" "plan_inv db"
  shows "plan_inv db'"
proof -
  have wf: "wf_db db" using assms(2) by (simp add: plan_inv_def)
  obtain pid oid prow v where ok: "find_plan db pid = Some prow" "pl_owner prow = None" "wf_db db'"
    "view db' = (view db)((pid, oid) \<mapsto> v)"
    "find_plan db' = (find_plan db)(pid \<mapsto>
       prow\<lparr>pl_status := aggregate_persisted_statuses (op_statuses db' pid)\<rparr>)"
    using record_reconciliation_ok [OF assms(1) wf] by metis
  have "row_ok db' pid (prow\<lparr>pl_status := aggregate_persisted_statuses (op_statuses db' pid)\<rparr>)"
    using plan_inv_row [OF assms(2) ok(1)] ok(2)
    by (simp add: row_ok_def aggregate_persisted_success_iff complete_def)
  then show ?thesis
    using ok by (intro plan_inv_update [OF assms(2) ok(3), of pid]) simp_all
qed

lemma plan_inv_step: "store_step db l db' \<Longrightarrow> plan_inv db \<Longrightarrow> plan_inv db'"
proof (induction rule: store_step.induct)
  case (step_save p db r db')
  then show ?case using save_plan_inv by blast
next
  case (step_expire now pid db r db')
  then have wf: "wf_db db" by (simp add: plan_inv_def)
  from transition_plan_cases [OF step_expire(1) wf] show ?case
  proof (elim disjE exE conjE)
    fix row row'
    assume r: "find_plan db pid = Some row" "pl_status row = ISSUED" "ops db' = ops db" "wf_db db'"
      "find_plan db' = (find_plan db)(pid \<mapsto> row')" "pl_status row' = EXPIRED"
      "pl_owner row' = pl_owner row" "pl_lease row' = pl_lease row"
    show ?thesis
      using r plan_inv_row [OF step_expire(2) r(1)]
      by (intro plan_inv_row_update [OF step_expire(2) r(3,4,1,5)])
         (auto simp: row_ok_def success_status_def)
  qed (use step_expire in simp)
next
  case (step_claim_plan now fr pid ow ls rs db r db')
  then have wf: "wf_db db" by (simp add: plan_inv_def)
  from claim_plan_cases [OF step_claim_plan(1) wf] show ?case
  proof (elim disjE exE conjE)
    fix row
    assume r: "find_plan db pid = Some row" "pl_status row \<in> set (claimable_statuses rs)"
      "ops db' = ops db" "wf_db db'"
      "find_plan db' = (find_plan db)(pid \<mapsto> row\<lparr>
        pl_status := (if pl_status row \<noteq> PARTIAL then EXECUTING else PARTIAL),
        pl_confirmed := (case pl_confirmed row of None \<Rightarrow> Some now | Some t \<Rightarrow> Some t),
        pl_owner := Some (or_str ow fr), pl_lease := Some (now + ls)\<rparr>)"
    show ?thesis
      using r(2) by (intro plan_inv_row_update [OF step_claim_plan(2) r(3,4,1,5)])
         (auto simp: success_status_def claimable_statuses_def split: if_splits)
  qed (use step_claim_plan in simp)
next
  case (step_claim_operation now fr pid oid ow tk ls db n db')
  then show ?case using claim_operation_inv by blast
next
  case (step_claim_refused now fr pid oid ow tk ls db e db')
  then show ?case using claim_operation_fail by blast
next
  case (step_receipt now rc ow tk db r db')
  then show ?case using record_receipt_inv record_receipt_fail by (cases r) blast+
next
  case (step_begin_reconcile now pid db r db')
  then have wf: "wf_db db" by (simp add: plan_inv_def)
  from begin_reconcile_cases [OF step_begin_reconcile(1) wf] show ?case
  proof (elim disjE exE conjE)
    fix row row'
    assume r: "find_plan db pid = Some row" "ops db' = ops db" "wf_db db'"
      "find_plan db' = (find_plan db)(pid \<mapsto> row')"
      "row' = row\<lparr>pl_status := (if pl_status row = EXECUTING then UNKNOWN else pl_status row),
                 pl_owner := None, pl_lease := None\<rparr>"
    show ?thesis
      by (rule plan_inv_row_update [OF step_begin_reconcile(2) r(2,3,1,4)])
         (auto simp: r(5) success_status_def)
  qed (use step_begin_reconcile in auto)
next
  case (step_reconcile db pid o' row now now' observed r db')
  then show ?case using reconciliation_inv record_reconciliation_fail by (cases r) blast+
qed

lemma run_plan_inv: "run empty_db ls db \<Longrightarrow> plan_inv db"
proof (induction rule: run_induct_from_empty)
  case init
  then show ?case
    by (simp add: plan_inv_def view_def find_plan_def find_op_def empty_db_def wf_db_def)
qed (rule plan_inv_step)

end
