(* ===== verification/Plan_Contract.thy ===== *)
theory Plan_Contract
  imports Protocol
begin

text \<open>
  The contract between the plan store and its clients. \<open>plan_store\<close> lists what the executor and the
  reconciler rely on: every call keeps the store invariant, and the status of a stored plan says
  whether the plan is finished. The client lemmas are proved once in the locale, and the SQLite store
  of \<open>Plan_Store\<close> is shown to be an instance.
\<close>

section \<open>One iteration of the executor loop\<close>

definition claim_call :: "'s PlanStore \<Rightarrow> ambient \<Rightarrow> int \<Rightarrow> string \<Rightarrow> string \<Rightarrow> OperationPlan
    \<Rightarrow> ('s, 'w) world \<Rightarrow> int res \<times> ('s, 'w) world" where
  "claim_call S am ls pid ow o' w =
     (let w1 = w\<lparr>w_fresh := Suc (w_fresh w)\<rparr>;
          (rc, s) = ps_claim_operation S (now_of am w1) (uuid_of am w) pid (op_id o') (Some ow)
                      (Some (uuid_of am w)) ls (w_store w1)
      in (rc, put_store s w1))"

definition attempt_receipt :: "string \<Rightarrow> OperationPlan \<Rightarrow> int \<Rightarrow> string \<Rightarrow> string + ApplyReceipt \<Rightarrow> ApplyReceipt" where
  "attempt_receipt pid o' n token out =
     (case out of Inl exc \<Rightarrow> crash_receipt pid o' exc n | Inr r \<Rightarrow> r)\<lparr>rc_attempt_token := Some token\<rparr>"

definition receipt_call :: "'s PlanStore \<Rightarrow> ambient \<Rightarrow> string \<Rightarrow> string \<Rightarrow> ApplyReceipt
    \<Rightarrow> ('s, 'w) world \<Rightarrow> unit res \<times> ('s, 'w) world" where
  "receipt_call S am ow token rc w =
     (let (q, s) = ps_record_receipt S (now_of am w) rc (Some ow) (Some token) (w_store w)
      in (q, put_store s w))"

lemma run_operations_iteration:
  assumes "sts (op_id o') = Some st" "st \<in> set cl" "reg (op_kind o') = Some ad"
  shows "run_operations S reg am ls plan cl ow sts (o' # os) w =
    (case claim_call S am ls (wp_id plan) ow o' w of
       (Inl e, w1) \<Rightarrow> (Inl e, w1)
     | (Inr n, w1) \<Rightarrow>
       let (out, b) = ad plan o' n (w_backend w1);
           rc = attempt_receipt (wp_id plan) o' n (uuid_of am w) out
       in case receipt_call S am ow (uuid_of am w) rc (w1\<lparr>w_backend := b\<rparr>) of
            (Inl e, w2) \<Rightarrow> (Inl e, w2)
          | (Inr _, w2) \<Rightarrow> if is_success (rc_status rc)
              then run_operations S reg am ls plan cl ow sts os w2 else (Inr (), w2))"
  using assms
  by (simp add: claim_call_def attempt_receipt_def receipt_call_def Let_def uuid_of_def
        split: prod.split sum.split)

lemma run_operations_induct [consumes 1, case_names nil skip err refused last more]:
  assumes "run_operations S reg am ls plan cl ow sts os w = (r, w')"
    and "\<And>w. P [] w (Inr ()) w"
    and "\<And>o' os st w r w'. sts (op_id o') = Some st \<Longrightarrow> st \<notin> set cl \<Longrightarrow> P os w r w' \<Longrightarrow> P (o' # os) w r w'"
    and "\<And>o' os w e. P (o' # os) w (Inl e) w"
    and "\<And>o' os w e w1 st. sts (op_id o') = Some st \<Longrightarrow> st \<in> set cl \<Longrightarrow>
      claim_call S am ls (wp_id plan) ow o' w = (Inl e, w1) \<Longrightarrow> P (o' # os) w (Inl e) w1"
    and "\<And>o' os w n w1 ad out b rc q w2 st. sts (op_id o') = Some st \<Longrightarrow> st \<in> set cl \<Longrightarrow>
      reg (op_kind o') = Some ad \<Longrightarrow>
      claim_call S am ls (wp_id plan) ow o' w = (Inr n, w1) \<Longrightarrow> ad plan o' n (w_backend w1) = (out, b) \<Longrightarrow>
      rc = attempt_receipt (wp_id plan) o' n (uuid_of am w) out \<Longrightarrow>
      receipt_call S am ow (uuid_of am w) rc (w1\<lparr>w_backend := b\<rparr>) = (q, w2) \<Longrightarrow>
      (\<And>u. q = Inr u \<Longrightarrow> \<not> is_success (rc_status rc)) \<Longrightarrow> P (o' # os) w q w2"
    and "\<And>o' os w n w1 ad out b rc q w2 st r w'. sts (op_id o') = Some st \<Longrightarrow> st \<in> set cl \<Longrightarrow>
      reg (op_kind o') = Some ad \<Longrightarrow>
      claim_call S am ls (wp_id plan) ow o' w = (Inr n, w1) \<Longrightarrow> ad plan o' n (w_backend w1) = (out, b) \<Longrightarrow>
      rc = attempt_receipt (wp_id plan) o' n (uuid_of am w) out \<Longrightarrow>
      receipt_call S am ow (uuid_of am w) rc (w1\<lparr>w_backend := b\<rparr>) = (Inr q, w2) \<Longrightarrow>
      is_success (rc_status rc) \<Longrightarrow> P os w2 r w' \<Longrightarrow> P (o' # os) w r w'"
  shows "P os w r w'"
  using assms(1)
proof (induction os arbitrary: w)
  case Nil
  then show ?case using assms(2) by simp
next
  case (Cons o' os)
  note IH = Cons.IH and run = Cons.prems
  show ?case
  proof (cases "\<exists>st. sts (op_id o') = Some st")
    case False
    then show ?thesis using run assms(4) by auto
  next
    case True
    then obtain st where st: "sts (op_id o') = Some st" by blast
    show ?thesis
    proof (cases "st \<in> set cl \<and> reg (op_kind o') \<noteq> None")
      case False
      then show ?thesis
        using run st assms(3) [OF st _ IH] assms(4) by (auto split: if_splits option.splits)
    next
      case True
      then obtain ad where ad: "st \<in> set cl" "reg (op_kind o') = Some ad" by blast
      obtain c w1 where claim: "claim_call S am ls (wp_id plan) ow o' w = (c, w1)" by fastforce
      show ?thesis
      proof (cases c)
        case (Inl e)
        then have "r = Inl e" "w' = w1"
          using run run_operations_iteration [where S = S and sts = sts and reg = reg and w = w, OF st ad] claim Inl by (simp_all del: run_operations.simps)
        then show ?thesis using assms(5) [OF st ad(1)] claim Inl by simp
      next
        case (Inr n)
        obtain out b where out: "ad plan o' n (w_backend w1) = (out, b)" by fastforce
        let ?rc = "attempt_receipt (wp_id plan) o' n (uuid_of am w) out"
        obtain q w2 where rec: "receipt_call S am ow (uuid_of am w) ?rc (w1\<lparr>w_backend := b\<rparr>) = (q, w2)"
          by fastforce
        note claim' = claim [unfolded Inr]
        have eq: "(case q of Inl e \<Rightarrow> (Inl e, w2) | Inr _ \<Rightarrow> if is_success (rc_status ?rc)
              then run_operations S reg am ls plan cl ow sts os w2 else (Inr (), w2)) = (r, w')"
          using run run_operations_iteration [where S = S and sts = sts and reg = reg and w = w, OF st ad] claim' out rec by (simp del: run_operations.simps)
        show ?thesis
        proof (cases "(\<exists>u. q = Inr u) \<and> is_success (rc_status ?rc)")
          case True
          then obtain u where u: "q = Inr u" "is_success (rc_status ?rc)" by blast
          have "run_operations S reg am ls plan cl ow sts os w2 = (r, w')" using eq u by simp
          from assms(7) [OF st ad claim' out refl rec [unfolded u(1)] u(2) IH [OF this]]
          show ?thesis .
        next
          case False
          then have "r = q" "w' = w2" using eq by (cases q; simp)+
          then show ?thesis using assms(6) [OF st ad claim' out refl rec] False by blast
        qed
      qed
    qed
  qed
qed

lemma data_status_status_public:
  "data_status (PDict (status_public now rec)) = Some
     (let st = pl_status (rec_plan rec) in
      if st = LEGACY_UNKNOWN \<or> (st = EXECUTING \<and> lease_free now (pl_lease (rec_plan rec)))
      then UNKNOWN else st)"
  using plan_of_plan_value [of UNKNOWN] plan_of_plan_value [of EXECUTING]
  by (simp add: data_status_def status_public_def plan_record_dict_def Let_def)

section \<open>The contract\<close>

locale plan_store =
  fixes S :: "'s PlanStore" and inv :: "'s \<Rightarrow> bool" and finished :: "'s \<Rightarrow> string \<Rightarrow> bool"
  assumes expire_inv: "inv s \<Longrightarrow> ps_transition S now pid ISSUED EXPIRED s = (r1, s') \<Longrightarrow> inv s'"
    and claim_plan_inv: "inv s \<Longrightarrow> ps_claim_plan S now fr pid ow ls rs s = (r2, s') \<Longrightarrow> inv s'"
    and claim_op_inv: "inv s \<Longrightarrow> ps_claim_operation S now fr pid oid ow tk ls s = (r3, s') \<Longrightarrow> inv s'"
    and receipt_inv: "inv s \<Longrightarrow> ps_record_receipt S now rc ow tk s = (r4, s') \<Longrightarrow> inv s'"
    and begin_inv: "inv s \<Longrightarrow> ps_begin_reconcile S now pid s = (r5, s') \<Longrightarrow> inv s'"
    and reconciliation_inv: "inv s \<Longrightarrow> ps_record_reconciliation S now rc s = (r6, s') \<Longrightarrow> inv s'"
    and finished_status: "inv s \<Longrightarrow> ps_record S s pid = Some rec \<Longrightarrow>
      success_status (pl_status (rec_plan rec)) \<longleftrightarrow> finished s pid"
    and claimed_id: "ps_claim_plan S now fr pid ow ls rs s = (Inr (p, c), s') \<Longrightarrow> wp_id p = pid"
begin

lemma claim_call_inv: "claim_call S am ls pid ow o' w = (c, w1) \<Longrightarrow> inv (w_store w) \<Longrightarrow> inv (w_store w1)"
  using claim_op_inv by (auto simp: claim_call_def Let_def put_store_def split: prod.splits)

lemma receipt_call_inv: "receipt_call S am ow tk rc w = (q, w1) \<Longrightarrow> inv (w_store w) \<Longrightarrow> inv (w_store w1)"
  using receipt_inv by (auto simp: receipt_call_def put_store_def split: prod.splits)

lemma run_operations_inv:
  "run_operations S reg am ls plan cl ow sts os w = (r, w') \<Longrightarrow> inv (w_store w) \<Longrightarrow> inv (w_store w')"
  by (induction rule: run_operations_induct) (auto dest!: claim_call_inv receipt_call_inv)

lemma finish_inv: "finish S am pid w = (r, w') \<Longrightarrow> w_store w' = w_store w"
  by (auto simp: finish_def put_store_def)

lemma finish_ok:
  assumes "finish S am pid w = (Inr (envelope_ok data), w')" "inv (w_store w)"
  shows "finished (w_store w') pid"
proof -
  obtain rec where rec: "ps_record S (w_store w) pid = Some rec"
    using assms(1) by (auto simp: finish_def confirmation_result_def executor_status_def split: option.splits)
  have "success_status (pl_status (rec_plan rec))"
    using assms(1) rec
    by (auto simp: finish_def confirmation_result_def executor_status_def data_status_status_public
          success_status_def Let_def split: option.splits if_splits)
  then show ?thesis
    using finished_status [OF assms(2) rec] finish_inv [OF assms(1)] by simp
qed

lemma execute_claimed_inv:
  "execute_claimed S reg am ls plan cl ow w = (r, w') \<Longrightarrow> inv (w_store w) \<Longrightarrow> inv (w_store w')"
  using run_operations_inv finish_inv
  by (fastforce simp: execute_claimed_def split: option.splits prod.splits sum.splits)

lemma execute_claimed_ok:
  "execute_claimed S reg am ls plan cl ow w = (Inr (envelope_ok data), w') \<Longrightarrow> inv (w_store w) \<Longrightarrow>
    finished (w_store w') (wp_id plan)"
  using run_operations_inv finish_ok
  by (fastforce simp: execute_claimed_def split: option.splits prod.splits sum.splits)

lemma put_store_store [simp]: "w_store (put_store s w) = s"
  by (simp add: put_store_def)

text \<open>Every exit of \<open>confirm\<close> is a failure without a finish, a finish, or an execution.\<close>

lemma confirm_cases:
  assumes "confirm S reg am ls pid w = (r, w')" "inv (w_store w)"
  shows "(inv (w_store w') \<and> (\<forall>d. r \<noteq> Inr (envelope_ok d)))
    \<or> (\<exists>w1. inv (w_store w1) \<and> finish S am pid w1 = (r, w'))
    \<or> (\<exists>w1 p cl ow. inv (w_store w1) \<and> wp_id p = pid \<and> execute_claimed S reg am ls p cl ow w1 = (r, w'))"
proof (cases "ps_get_plan S (w_store w) pid")
  case (Inl e)
  then show ?thesis using assms by (auto simp: confirm_def)
next
  case (Inr po)
  show ?thesis
  proof (cases po)
    case None
    then show ?thesis using Inr assms by (auto simp: confirm_def)
  next
    case (Some plan)
    note got = Inr [unfolded Some]
    let ?w0 = "put_store (w_store w) w"
    let ?w1 = "?w0\<lparr>w_fresh := Suc (w_fresh ?w0)\<rparr>"
    let ?missing = "filter (\<lambda>k. reg k = None) (map op_kind (wp_operations plan))"
    consider "now_of am w > wp_expires_at plan \<and> wp_status plan = ISSUED"
      | "\<not> (now_of am w > wp_expires_at plan \<and> wp_status plan = ISSUED)" "?missing \<noteq> []"
      | "\<not> (now_of am w > wp_expires_at plan \<and> wp_status plan = ISSUED)" "?missing = []"
      by blast
    then show ?thesis
    proof cases
      case 1
      obtain q s where t: "ps_transition S (now_of am ?w0) pid ISSUED EXPIRED (w_store ?w0) = (q, s)"
        by fastforce
      have "inv s" using expire_inv [OF _ t] assms(2) by simp
      then show ?thesis
        using assms(1) got 1 t by (cases q) (auto simp: confirm_def Let_def)
    next
      case 2
      then show ?thesis using assms got by (auto simp: confirm_def Let_def)
    next
      case 3
      obtain q s where c: "ps_claim_plan S (now_of am ?w1) (uuid_of am ?w0) pid (Some (uuid_of am ?w0))
          ls False (w_store ?w1) = (q, s)" by fastforce
      have s: "inv s" using claim_plan_inv [OF _ c] assms(2) by simp
      have eq: "(case (q, s) of
             (Inl (PlanTransitionError m), s) \<Rightarrow> finish S am pid (put_store s ?w1)
           | (Inl e, s) \<Rightarrow> (Inl e, put_store s ?w1)
           | (Inr (claimed_plan, claimed), s) \<Rightarrow>
             if \<not> claimed then finish S am pid (put_store s ?w1)
             else execute_claimed S reg am ls claimed_plan [ISSUED] (uuid_of am ?w0) (put_store s ?w1)) = (r, w')"
        using assms(1) got 3 c by (simp add: confirm_def Let_def)
      show ?thesis
      proof (cases q)
        case (Inl e)
        then show ?thesis using eq s by (cases e) auto
      next
        case (Inr pc)
        obtain cp b where pc: "pc = (cp, b)" by fastforce
        have "wp_id cp = pid" using claimed_id c Inr pc by blast
        then show ?thesis using eq s Inr pc by (cases b) auto
      qed
    qed
  qed
qed

lemma confirm_inv: "confirm S reg am ls pid w = (r, w') \<Longrightarrow> inv (w_store w) \<Longrightarrow> inv (w_store w')"
  using confirm_cases [of reg am ls pid w r w'] finish_inv execute_claimed_inv by metis

lemma confirm_ok:
  "confirm S reg am ls pid w = (Inr (envelope_ok d), w') \<Longrightarrow> inv (w_store w) \<Longrightarrow> finished (w_store w') pid"
  using confirm_cases [of reg am ls pid w "Inr (envelope_ok d)" w'] finish_ok execute_claimed_ok by blast

lemma resume_cases:
  assumes "resume S reg am ls pid w = (r, w')" "inv (w_store w)"
  shows "(inv (w_store w') \<and> (\<forall>d. r \<noteq> Inr (envelope_ok d)))
    \<or> (\<exists>w1 p cl ow. inv (w_store w1) \<and> wp_id p = pid \<and> execute_claimed S reg am ls p cl ow w1 = (r, w'))"
proof (cases "\<exists>plan rec. ps_get_plan S (w_store w) pid = Inr (Some plan) \<and>
    ps_record S (w_store w) pid = Some rec \<and> resumable plan rec \<and>
    retry_missing reg (status_map rec) (wp_operations plan) = Inr []")
  case False
  then show ?thesis
    using assms by (auto simp: resume_def split: sum.splits option.splits if_splits)
next
  case True
  let ?w1 = "w\<lparr>w_fresh := Suc (w_fresh w)\<rparr>"
  obtain q s where c: "ps_claim_plan S (now_of am ?w1) (uuid_of am w) pid (Some (uuid_of am w))
      ls True (w_store ?w1) = (q, s)" by fastforce
  have s: "inv s" using claim_plan_inv [OF _ c] assms(2) by simp
  have eq: "(case (q, s) of
        (Inl e, s) \<Rightarrow> (Inl e, put_store s ?w1)
      | (Inr (claimed_plan, claimed), s) \<Rightarrow>
        if \<not> claimed then
          (Inl (PlanTransitionError ''resumable plan could not be exclusively leased''), put_store s ?w1)
        else execute_claimed S reg am ls claimed_plan [RETRYABLE_NOT_APPLIED] (uuid_of am w)
          (put_store s ?w1)) = (r, w')"
    using assms(1) True c by (auto simp: resume_def Let_def)
  show ?thesis
  proof (cases q)
    case (Inr pc)
    obtain cp b where pc: "pc = (cp, b)" by fastforce
    have "wp_id cp = pid" using claimed_id c Inr pc by blast
    then show ?thesis using eq s Inr pc by (cases b) auto
  qed (use eq s in auto)
qed

lemma resume_inv: "resume S reg am ls pid w = (r, w') \<Longrightarrow> inv (w_store w) \<Longrightarrow> inv (w_store w')"
  using resume_cases [of reg am ls pid w r w'] execute_claimed_inv by metis

lemma resume_ok:
  "resume S reg am ls pid w = (Inr (envelope_ok d), w') \<Longrightarrow> inv (w_store w) \<Longrightarrow> finished (w_store w') pid"
  using resume_cases [of reg am ls pid w "Inr (envelope_ok d)" w'] execute_claimed_ok by blast

lemma reconcile_operations_inv:
  "reconcile_operations S readers am plan recs os w = (r, w') \<Longrightarrow> inv (w_store w) \<Longrightarrow> inv (w_store w')"
proof (induction os arbitrary: w)
  case (Cons o' os)
  note IH = Cons.IH and run = Cons.prems(1) and inv = Cons.prems(2)
  show ?case
  proof (cases "find (\<lambda>r. or_id r = op_id o') recs")
    case (Some row)
    consider "or_status row = ISSUED" | "or_status row \<noteq> ISSUED" "\<not> unresolved (or_status row)"
      | "or_status row \<noteq> ISSUED" "unresolved (or_status row)" by blast
    then show ?thesis
    proof cases
      case 1
      obtain q s where rec: "ps_record_reconciliation S (now_of am w)
          (unclaimed_receipt (wp_id plan) o' (or_attempt row)) (w_store w) = (q, s)" by fastforce
      have "inv s" using reconciliation_inv [OF inv rec] .
      then show ?thesis using run Some 1 rec IH [of "put_store s w"] by (cases q) auto
    next
      case 2
      then show ?thesis using run Some inv IH by simp
    next
      case 3
      show ?thesis
      proof (cases "readers (op_kind o')")
        case None
        then show ?thesis using run Some 3 inv by auto
      next
        case rd: (Some reader)
        obtain ob b where ob: "reader plan o' (w_backend w) = (ob, b)" by fastforce
        let ?w1 = "w\<lparr>w_backend := b\<rparr>"
        let ?w2 = "put_store (w_store ?w1) ?w1"
        show ?thesis
        proof (cases ob)
          case (Inl e)
          then show ?thesis using run Some 3 rd ob inv by auto
        next
          case (Inr observed)
          obtain q s where rec: "ps_record_reconciliation S (now_of am ?w2)
              (observed_receipt (now_of am ?w1) (wp_id plan) o' (or_attempt row) observed)
              (w_store ?w2) = (q, s)" by fastforce
          have "inv s" using reconciliation_inv [OF _ rec] inv by simp
          then show ?thesis
            using run Some 3 rd ob Inr rec IH [of "put_store s ?w2"]
            by (cases q) (auto simp: Let_def)
        qed
      qed
    qed
  qed (use run inv in simp)
qed simp

lemma reconcile_status_inv: "reconcile_status S am pid w = (r, w') \<Longrightarrow> w_store w' = w_store w"
  by (auto simp: reconcile_status_def)

lemma reconcile_inv:
  assumes "reconcile S readers am pid w = (r, w')" "inv (w_store w)"
  shows "inv (w_store w')"
proof -
  obtain q s where beg: "ps_begin_reconcile S (now_of am w) pid (w_store w) = (q, s)" by fastforce
  have s: "inv s" using begin_inv [OF assms(2) beg] .
  let ?w1 = "put_store s w"
  consider (none) "ps_record S (w_store w) pid = None"
    | (legacy) rec0 where "ps_record S (w_store w) pid = Some rec0" "pl_tool (rec_plan rec0) = ''legacy''"
    | (go) rec0 where "ps_record S (w_store w) pid = Some rec0" "pl_tool (rec_plan rec0) \<noteq> ''legacy''"
    by (cases "ps_record S (w_store w) pid") blast+
  then show ?thesis
  proof cases
    case none
    then show ?thesis using assms by (auto simp: reconcile_def)
  next
    case legacy
    then show ?thesis using assms by (auto simp: reconcile_def)
  next
    case go
    show ?thesis
    proof (cases q)
      case (Inl e)
      then show ?thesis using assms(1) go beg s by (cases e) (auto simp: reconcile_def)
    next
      case (Inr plan)
      have eq: "(if wp_status plan \<notin> {UNKNOWN, LEGACY_UNKNOWN, PARTIAL} then reconcile_status S am pid ?w1
          else (case ps_record S (w_store ?w1) pid of
            None \<Rightarrow> (Inl (AssertionError ''record is not None''), ?w1)
          | Some rec \<Rightarrow>
            (case reconcile_operations S readers am plan (rec_ops rec) (wp_operations plan) ?w1 of
               (Inl e, w2) \<Rightarrow> (Inl e, w2)
             | (Inr (Some resp), w2) \<Rightarrow> (Inr resp, w2)
             | (Inr None, w2) \<Rightarrow> reconcile_status S am pid w2))) = (r, w')"
        using assms(1) go beg Inr by (simp add: reconcile_def Let_def)
      obtain q2 w2 where ro: "reconcile_operations S readers am plan
          (rec_ops (the (ps_record S s pid))) (wp_operations plan) ?w1 = (q2, w2)" by fastforce
      have "inv (w_store w2)" using reconcile_operations_inv [OF ro] s by simp
      then show ?thesis
        using eq s ro reconcile_status_inv
        by (fastforce split: if_splits option.splits sum.splits)
    qed
  qed
qed

lemma reconcile_write_inv:
  assumes "reconcile_write S readers am pid w = (r, w')" "inv (w_store w)"
  shows "inv (w_store w')"
proof -
  obtain q w2 where rc: "reconcile S readers am pid w = (q, w2)" by fastforce
  have "w' = w2" using assms(1) rc by (auto simp: reconcile_write_def split: sum.splits py_exc.splits)
  with reconcile_inv [OF rc assms(2)] show ?thesis by simp
qed

end

section \<open>The SQLite store meets the contract\<close>

lemma wf_plan_inv: "plan_inv db \<Longrightarrow> wf_db db"
  by (simp add: plan_inv_def)

lemma claim_operation_keeps: "plan_inv db \<Longrightarrow> claim_operation now fr pid oid ow tk ls db = (r, db') \<Longrightarrow> plan_inv db'"
  using claim_operation_inv claim_operation_fail by (cases r) blast+

lemma record_receipt_keeps: "plan_inv db \<Longrightarrow> record_receipt now rc ow tk db = (r, db') \<Longrightarrow> plan_inv db'"
  using record_receipt_inv record_receipt_fail by (cases r) blast+

lemma record_reconciliation_keeps:
  "plan_inv db \<Longrightarrow> record_reconciliation_receipt now rc db = (r, db') \<Longrightarrow> plan_inv db'"
  using reconciliation_inv record_reconciliation_fail by (cases r) blast+

lemma get_plan_id: "get_plan db pid = Inr (Some p) \<Longrightarrow> wp_id p = pid"
  by (auto simp: get_plan_def get_plan_record_def Let_def map_sum_def mk_write_plan_iff
        split: option.splits sum.splits if_splits dest: find_plan_id)

lemma claim_plan_id: "claim_plan now fr pid ow ls rs db = (Inr (p, c), db') \<Longrightarrow> wp_id p = pid"
  by (auto simp: claim_plan_def Let_def reread_def dest!: get_plan_id
        split: if_splits option.splits sum.splits)

interpretation sq: plan_store sqlite_store plan_inv complete
proof unfold_locales
  fix s s' :: plan_db and pid r now fr ow ls rs oid tk rc rec p c
  note simps = sqlite_store_def
  show "plan_inv s'" if "plan_inv s" "ps_transition sqlite_store now pid ISSUED EXPIRED s = (r, s')" for r
    using plan_inv_step [OF step_expire] that by (simp add: simps)
  show "plan_inv s'" if "plan_inv s" "ps_claim_plan sqlite_store now fr pid ow ls rs s = (r, s')" for r
    using plan_inv_step [OF step_claim_plan] that by (simp add: simps)
  show "plan_inv s'" if "plan_inv s" "ps_claim_operation sqlite_store now fr pid oid ow tk ls s = (r, s')" for r
    using claim_operation_keeps that by (simp add: simps)
  show "plan_inv s'" if "plan_inv s" "ps_record_receipt sqlite_store now rc ow tk s = (r, s')" for r
    using record_receipt_keeps that by (simp add: simps)
  show "plan_inv s'" if "plan_inv s" "ps_begin_reconcile sqlite_store now pid s = (r, s')" for r
    using plan_inv_step [OF step_begin_reconcile] that by (simp add: simps)
  show "plan_inv s'" if "plan_inv s" "ps_record_reconciliation sqlite_store now rc s = (r, s')" for r
    using record_reconciliation_keeps that by (simp add: simps)
  show "success_status (pl_status (rec_plan rec)) = complete s pid"
    if "plan_inv s" "ps_record sqlite_store s pid = Some rec"
    using that by (auto simp: simps get_plan_record_def plan_inv_def row_ok_def split: option.splits)
  show "wp_id p = pid" if "ps_claim_plan sqlite_store now fr pid ow ls rs s = (Inr (p, c), s')"
    using claim_plan_id that by (simp add: simps)
qed

section \<open>Order of the writes\<close>

text \<open>
  To state which adapters run and in which order, a registry is wrapped so that every adapter call
  leaves an entry (operation, whether its receipt reports success) in a log next to the backend.
\<close>

definition logged :: "'w adapter \<Rightarrow> ((string \<times> bool) list \<times> 'w) adapter" where
  "logged ad plan o' n lw =
     (let (out, b) = ad plan o' n (snd lw);
          ok = (case out of Inl _ \<Rightarrow> False | Inr rc \<Rightarrow> is_success (rc_status rc))
      in (out, (fst lw @ [(op_id o', ok)], b)))"

definition logged_registry :: "'w registry \<Rightarrow> ((string \<times> bool) list \<times> 'w) registry" where
  "logged_registry reg k = map_option logged (reg k)"

definition claimable_in :: "(string \<Rightarrow> PlanStatus option) \<Rightarrow> PlanStatus list \<Rightarrow> OperationPlan \<Rightarrow> bool" where
  "claimable_in sts cl o' = (case sts (op_id o') of None \<Rightarrow> False | Some st \<Rightarrow> st \<in> set cl)"

lemma claim_call_backend: "claim_call S am ls pid ow o' w = (c, w1) \<Longrightarrow> w_backend w1 = w_backend w"
  by (auto simp: claim_call_def Let_def put_store_def split: prod.splits)

lemma receipt_call_backend: "receipt_call S am ow tk rc w = (q, w1) \<Longrightarrow> w_backend w1 = w_backend w"
  by (auto simp: receipt_call_def put_store_def split: prod.splits)

lemma logged_result:
  assumes "logged_registry reg k = Some ad" "ad plan o' n b0 = (out, b)"
  shows "fst b = fst b0 @ [(op_id o', is_success (rc_status (attempt_receipt pid o' n tk out)))]"
  using assms
  by (auto simp: logged_registry_def logged_def attempt_receipt_def crash_receipt_def is_success_def Let_def
        split: prod.splits sum.splits)

lemma run_operations_log:
  assumes "run_operations S (logged_registry reg) am ls plan cl ow sts os w = (r, w')"
  shows "\<exists>new. fst (w_backend w') = fst (w_backend w) @ new \<and>
    (let todo = map op_id (filter (claimable_in sts cl) os) in
      map fst new = take (length new) todo \<and> length new \<le> length todo \<and> list_all snd (butlast new) \<and>
      (r = Inr () \<and> list_all snd new \<longrightarrow> length new = length todo))"
  using assms
proof (induction rule: run_operations_induct)
  case (nil w)
  show ?case by simp
next
  case (skip o' os st w r w')
  then show ?case by (simp add: claimable_in_def)
next
  case (err o' os w e)
  show ?case by (intro exI [of _ "[]"]) simp
next
  case (refused o' os w e w1 st)
  then show ?case by (intro exI [of _ "[]"]) (simp add: claim_call_backend)
next
  case (last o' os w n w1 ad out b rc q w2 st)
  let ?e = "(op_id o', is_success (rc_status rc))"
  have "fst (w_backend w2) = fst (w_backend w) @ [?e]"
    using receipt_call_backend [OF last(7)] logged_result [where pid = "wp_id plan" and tk = "uuid_of am w", OF last(3,5)] claim_call_backend [OF last(4)] last(6)
    by simp
  moreover have "claimable_in sts cl o'" using last(1,2) by (simp add: claimable_in_def)
  ultimately show ?case using last(8) by (intro exI [of _ "[?e]"]) auto
next
  case (more o' os w n w1 ad out b rc q w2 st r w')
  let ?e = "(op_id o', True)"
  have one: "fst (w_backend w2) = fst (w_backend w) @ [?e]"
    using receipt_call_backend [OF more(7)] logged_result [where pid = "wp_id plan" and tk = "uuid_of am w", OF more(3,5)] claim_call_backend [OF more(4)] more(6,8)
    by simp
  have "claimable_in sts cl o'" using more(1,2) by (simp add: claimable_in_def)
  moreover obtain new where "fst (w_backend w') = fst (w_backend w2) @ new"
      "map fst new = take (length new) (map op_id (filter (claimable_in sts cl) os))"
      "length new \<le> length (map op_id (filter (claimable_in sts cl) os))" "list_all snd (butlast new)"
      "r = Inr () \<and> list_all snd new \<longrightarrow> length new = length (map op_id (filter (claimable_in sts cl) os))"
    using more(9) by (auto simp: Let_def)
  ultimately show ?case using one by (intro exI [of _ "?e # new"]) auto
qed

end
