(* ===== verification/Write_Lifecycle.thy ===== *)
theory Write_Lifecycle
  imports Plan_Contract
begin

text \<open>
  The life of a durable plan from \<open>save\<close> to its final state: the properties of the write protocol,
  each with an application to a concrete plan. The first section holds the plans, adapters and
  schedules the applications run on.
\<close>

section \<open>A concrete plan\<close>

definition demo_operation :: "string \<Rightarrow> string list \<Rightarrow> OperationPlan" where
  "demo_operation oid deps = \<lparr>op_id = oid, op_kind = ''k'', op_target = [(''name'', PStr oid)],
     op_expected = [(''exists'', PBool False)], op_desired = [(''exists'', PBool True)],
     op_depends_on = deps, op_idem = None\<rparr>"

definition demo_plan :: WritePlan where
  "demo_plan = \<lparr>wp_id = ''p'', wp_tool = ''t'',
     wp_target = \<lparr>gt_url = ''u'', gt_name = ''g'', gt_space = None\<rparr>, wp_principal = ''me'',
     wp_operations = [demo_operation ''a'' [], demo_operation ''b'' [''a'']], wp_digest = ''d'',
     wp_fingerprint = None, wp_status = ISSUED, wp_created_at = 0, wp_expires_at = 100\<rparr>"

definition demo_receipt :: "string \<Rightarrow> ApplyStatus \<Rightarrow> ApplyReceipt" where
  "demo_receipt oid st = \<lparr>rc_status = st, rc_plan_id = Some ''p'', rc_operation_id = Some oid,
     rc_observed = None, rc_reason_code = None, rc_attempt = 1, rc_attempt_token = None,
     rc_reconcile = False, rc_committed_at = None, rc_operation = None, rc_reason = None\<rparr>"

definition demo_saved :: plan_db where
  "demo_saved = snd (save_plan demo_plan empty_db)"

definition demo_claimed :: plan_db where
  "demo_claimed = snd (claim_plan 1 ''o'' ''p'' None 30 False demo_saved)"

definition demo_dispatched :: plan_db where
  "demo_dispatched = snd (claim_operation 2 ''x'' ''p'' ''a'' (Some ''o'') None 30 demo_claimed)"

definition demo_half :: plan_db where
  "demo_half = snd (record_receipt 3 (demo_receipt ''a'' ApplyStatus.APPLIED) (Some ''o'') (Some ''x'') demo_dispatched)"

definition demo_ambient :: ambient where
  "demo_ambient = \<lparr>am_clock = (\<lambda>n. int n), am_uuid = (\<lambda>n. ''u'' @ nat_str n)\<rparr>"

text \<open>An adapter that applies every operation, and one that commits but loses the answer.\<close>

definition applying :: "(string list) adapter" where
  "applying plan o' n b =
     (Inr \<lparr>rc_status = ApplyStatus.APPLIED, rc_plan_id = Some (wp_id plan), rc_operation_id = Some (op_id o'),
        rc_observed = None, rc_reason_code = None, rc_attempt = n, rc_attempt_token = None,
        rc_reconcile = False, rc_committed_at = None, rc_operation = None, rc_reason = None\<rparr>, b @ [op_id o'])"

definition timing_out :: "(string list) adapter" where
  "timing_out plan o' n b = (Inl ''TimeoutError'', b @ [op_id o'])"

definition demo_world :: "plan_db \<Rightarrow> 'w \<Rightarrow> (plan_db, 'w) world" where
  "demo_world db b = \<lparr>w_store = db, w_backend = b, w_tick = 0, w_fresh = 0\<rparr>"

lemma wf_demo_plan [simp]: "wf_plan demo_plan"
proof -
  have "mk_write_plan demo_plan = Inr demo_plan" by code_simp
  then show ?thesis by (simp add: mk_write_plan_iff)
qed

lemma demo_fields [simp]: "wp_id demo_plan = ''p''" "wp_status demo_plan = ISSUED"
  by (simp_all add: demo_plan_def)

lemma demo_receipt_status [simp]: "rc_status (demo_receipt oid st) = st"
  by (simp add: demo_receipt_def)

lemma demo_saved_step: "store_step empty_db Tau demo_saved"
proof -
  have "save_plan demo_plan empty_db = (Inr (), demo_saved)" by code_simp
  then show ?thesis by (rule step_save) simp_all
qed

lemma demo_claimed_step: "store_step demo_saved Tau demo_claimed"
  unfolding demo_claimed_def
  by (rule step_claim_plan [where r = "fst (claim_plan 1 ''o'' ''p'' None 30 False demo_saved)"]) simp

lemma demo_dispatched_step: "store_step demo_claimed (Dispatch (''p'', ''a'')) demo_dispatched"
proof -
  have "claim_operation 2 ''x'' ''p'' ''a'' (Some ''o'') None 30 demo_claimed = (Inr 1, demo_dispatched)"
    by code_simp
  then show ?thesis by (rule step_claim_operation)
qed

lemma demo_half_step: "store_step demo_dispatched Tau demo_half"
proof -
  have "record_receipt 3 (demo_receipt ''a'' ApplyStatus.APPLIED) (Some ''o'') (Some ''x'') demo_dispatched
      = (Inr (), demo_half)" by code_simp
  then show ?thesis by (rule step_receipt) simp
qed

lemma demo_run_saved: "run empty_db [Tau] demo_saved"
  using run_step [OF run_nil demo_saved_step] by simp

lemma demo_run: "run empty_db [Tau, Tau, Dispatch (''p'', ''a''), Tau] demo_half"
  using run_step [OF run_step [OF run_step [OF demo_run_saved demo_claimed_step] demo_dispatched_step] demo_half_step]
  by simp

section \<open>At most one write per operation\<close>



text \<open>C2. A stored plan says it is applied exactly when it has operations and every one of them is
  recorded as applied or already applied.\<close>

theorem plan_success_iff_complete:
  assumes "run empty_db ls db" "find_plan db pid = Some row"
  shows "pl_status row \<in> {APPLIED, ALREADY_APPLIED} \<longleftrightarrow>
    op_statuses db pid \<noteq> [] \<and> set (op_statuses db pid) \<subseteq> {APPLIED, ALREADY_APPLIED}"
  using run_plan_inv [OF assms(1)] assms(2)
  by (auto simp: plan_inv_def row_ok_def complete_def success_status_def list_all_iff)

theorem plan_success_iff_complete_witness:
  "map_option pl_status (find_plan demo_half ''p'') = Some PARTIAL \<and>
   \<not> set (op_statuses demo_half ''p'') \<subseteq> {APPLIED, ALREADY_APPLIED}"
proof -
  obtain row where row: "find_plan demo_half ''p'' = Some row" "pl_status row = PARTIAL"
  proof -
    have "map_option pl_status (find_plan demo_half ''p'') = Some PARTIAL" by code_simp
    then show ?thesis using that by auto
  qed
  have "op_statuses demo_half ''p'' \<noteq> []" by code_simp
  then show ?thesis
    using plan_success_iff_complete [OF demo_run row(1)] row by simp
qed

section \<open>The executor\<close>

text \<open>C6. When \<open>confirm\<close> or \<open>resume\<close> answers with success, every operation of the plan is recorded as
  applied or already applied, and the store keeps its invariant whatever the answer is.\<close>

theorem executor_success_means_complete:
  assumes "run empty_db ls (w_store w)"
    and "confirm sqlite_store reg am lease pid w = (r, w') \<or> resume sqlite_store reg am lease pid w = (r, w')"
  shows "plan_inv (w_store w') \<and> (\<forall>data. r = Inr (envelope_ok data) \<longrightarrow> complete (w_store w') pid)"
proof -
  have inv: "plan_inv (w_store w)" using run_plan_inv [OF assms(1)] .
  from assms(2) show ?thesis
  proof
    assume c: "confirm sqlite_store reg am lease pid w = (r, w')"
    show ?thesis using sq.confirm_inv [OF c inv] sq.confirm_ok c inv by blast
  next
    assume c: "resume sqlite_store reg am lease pid w = (r, w')"
    show ?thesis using sq.resume_inv [OF c inv] sq.resume_ok c inv by blast
  qed
qed

definition demo_confirm :: "(response res) \<times> (plan_db, string list) world" where
  "demo_confirm = confirm sqlite_store [''k'' \<mapsto> applying] demo_ambient 30 ''p'' (demo_world demo_saved [])"

lemma demo_confirm_ok: "(case fst demo_confirm of Inr (envelope_ok d) \<Rightarrow> True | _ \<Rightarrow> False)"
  "w_backend (snd demo_confirm) = [''a'', ''b'']"
  by code_simp+

theorem executor_success_means_complete_witness:
  "complete (w_store (snd demo_confirm)) ''p''"
proof -
  obtain d where d: "fst demo_confirm = Inr (envelope_ok d)"
    using demo_confirm_ok(1) by (auto split: sum.splits response.splits)
  have reach: "run empty_db [Tau] (w_store (demo_world demo_saved []))"
    using demo_run_saved by (simp add: demo_world_def)
  have "confirm sqlite_store [''k'' \<mapsto> applying] demo_ambient 30 ''p'' (demo_world demo_saved [])
      = (fst demo_confirm, snd demo_confirm)"
    by (simp add: demo_confirm_def)
  then show ?thesis
    using executor_success_means_complete [OF reach disjI1] d by blast
qed

lemma filter_nth_take:
  "i < length (filter P xs) \<Longrightarrow>
    \<exists>j < length xs. filter P xs ! i = xs ! j \<and> P (xs ! j) \<and> filter P (take j xs) = take i (filter P xs)"
proof (induction xs arbitrary: i)
  case (Cons x xs)
  show ?case
  proof (cases "P x")
    case False
    then show ?thesis using Cons by fastforce
  next
    case True
    show ?thesis
    proof (cases i)
      case 0
      then show ?thesis using True by auto
    next
      case (Suc k)
      then obtain j where "j < length xs" "filter P xs ! k = xs ! j" "P (xs ! j)"
          "filter P (take j xs) = take k (filter P xs)"
        using Cons True by auto
      then show ?thesis using True Suc by (intro exI [of _ "Suc j"]) simp
    qed
  qed
qed simp


definition demo_logged :: "unit res \<times> (plan_db, (string \<times> bool) list \<times> string list) world" where
  "demo_logged = run_operations sqlite_store (logged_registry [''k'' \<mapsto> applying]) demo_ambient 30 demo_plan
     [ISSUED] ''o'' (\<lambda>_. Some ISSUED) (wp_operations demo_plan) (demo_world demo_claimed ([], []))"


section \<open>Leases and fencing\<close>



lemma begin_reconcile_frees:
  assumes "begin_reconcile now pid db = (Inr p, db1)" "plan_inv db"
  shows "wf_db db1 \<and> (\<exists>row. find_plan db1 pid = Some row \<and> pl_lease row = None)"
  using begin_reconcile_cases [OF assms(1) wf_plan_inv [OF assms(2)]] plan_inv_row [OF assms(2)] assms(2)
  by (fastforce simp: row_ok_def plan_inv_def)


definition demo_reconciling :: plan_db where
  "demo_reconciling = snd (begin_reconcile 40 ''p'' demo_dispatched)"

lemma demo_run_dispatched: "run empty_db [Tau, Tau, Dispatch (''p'', ''a'')] demo_dispatched"
  using run_step [OF run_step [OF demo_run_saved demo_claimed_step] demo_dispatched_step] by simp




section \<open>Saving and loading\<close>

text \<open>What every plan built through the constructors satisfies: frozen state and non-empty names.\<close>

definition built_operation :: "OperationPlan \<Rightarrow> bool" where
  "built_operation o' \<longleftrightarrow> op_id o' \<noteq> [] \<and> op_kind o' \<noteq> [] \<and> frozen (PDict (op_target o')) \<and>
     frozen (PDict (op_expected o')) \<and> frozen (PDict (op_desired o'))"

lemma mk_operation_plan_built: "mk_operation_plan oid k t e d ds i = Inr o' \<Longrightarrow> built_operation o'"
  by (auto simp: mk_operation_plan_def freeze_mapping_def built_operation_def list_all_iff
        split: if_splits py.splits)

lemma freeze_thaw_dict:
  "frozen (PDict d) \<Longrightarrow> freeze_mapping (thaw (PDict d)) = Inr d"
  using freeze_thaw [of "PDict d"] by (simp add: freeze_mapping_def)

lemma str_items_map [simp]: "str_items (map PStr ss) = Inr ss"
  by (induction ss) simp_all

lemma load_operation_to_dict:
  "built_operation o' \<Longrightarrow> load_operation (operation_to_dict o') = Inr o'"
  using freeze_thaw_dict [of "op_target o'"] freeze_thaw_dict [of "op_expected o'"]
    freeze_thaw_dict [of "op_desired o'"]
  by (simp add: load_operation_def operation_to_dict_def key_str_def key_val_def key_strs_def
        key_opt_str_def dget_def py_opt_str_def mk_operation_plan_def built_operation_def
        split: option.split)

lemma load_operations_rows:
  "list_all built_operation os \<Longrightarrow>
     load_operations (map (\<lambda>(i, o'). operation_to_row p i o') (enumerate n os)) = Inr os"
proof (induction os arbitrary: n)
  case (Cons o' os)
  then show ?case by (simp add: load_operation_to_dict operation_to_row_def)
qed simp

lemma load_target_to_dict: "load_target (graph_target_to_dict g) = Inr g"
  by (simp add: load_target_def graph_target_to_dict_def key_str_def key_opt_str_def dget_def
        py_opt_str_def split: option.split)

lemma ops_of_saved:
  assumes "save_plan p db = (Inr u, db')" "plan_inv db"
  shows "ops_of db' (wp_id p) = map (\<lambda>(i, o'). operation_to_row p i o') (enumerate 0 (wp_operations p))"
proof -
  let ?new = "map (\<lambda>(i, o'). operation_to_row p i o') (enumerate 0 (wp_operations p))"
  have ok: "find_plan db (wp_id p) = None" "ops db' = ops db @ ?new"
    using save_plan_ok [OF assms(1) wf_plan_inv [OF assms(2)]] by auto
  have "view db (wp_id p, oid) = None" for oid
    using ok(1) assms(2) unfolding plan_inv_def by metis
  then have "or_plan r \<noteq> wp_id p" if "r \<in> set (ops db)" for r
    using find_op_mem [OF wf_plan_inv [OF assms(2)] that] by (auto simp: view_def)
  then have "filter (\<lambda>r. or_plan r = wp_id p) (ops db) = []" by (simp add: filter_empty_conv)
  moreover have "filter (\<lambda>r. or_plan r = wp_id p) ?new = ?new"
    by (auto simp: filter_id_conv operation_to_row_def)
  moreover have "map or_ordinal ?new = [0..<length (wp_operations p)]"
    by (simp add: operation_to_row_def case_prod_unfold comp_def)
  then have "sort_key or_ordinal ?new = ?new"
    by (intro sort_key_id_if_sorted) simp
  ultimately show ?thesis by (simp add: ops_of_def ok(2))
qed

lemma get_plan_of_rows:
  assumes "find_plan db (wp_id p) = Some row" "ops_of db (wp_id p) = map (\<lambda>(i, o'). operation_to_row p0 i o') (enumerate 0 (wp_operations p))"
    and "row = (plan_to_row p)\<lparr>pl_payload := y, pl_confirmed := c, pl_owner := ow, pl_lease := le\<rparr>"
    and "wf_plan p" "list_all built_operation (wp_operations p)" "wp_tool p \<noteq> ''legacy''"
  shows "get_plan db (wp_id p) = Inr (Some p)"
proof -
  have "load_operations (ops_of db (wp_id p)) = Inr (wp_operations p)"
    using assms(2) load_operations_rows [OF assms(5)] by simp
  moreover have "mk_write_plan p = Inr p" using assms(4) by (simp add: mk_write_plan_iff)
  moreover have eta: "\<lparr>wp_id = wp_id p, wp_tool = wp_tool p, wp_target = wp_target p,
      wp_principal = wp_principal p, wp_operations = wp_operations p, wp_digest = wp_digest p,
      wp_fingerprint = wp_fingerprint p, wp_status = wp_status p, wp_created_at = wp_created_at p,
      wp_expires_at = wp_expires_at p\<rparr> = p" by simp
  ultimately show ?thesis
    using assms(1,3,6)
    by (simp add: get_plan_def get_plan_record_def plan_to_row_def load_target_to_dict eta)
qed



end
