(* ===== verification/Write_Races.thy ===== *)
theory Write_Races
  imports Write_Lifecycle
begin

text \<open>
  Schedules on which the protocol does less than it promises. The receipt of the reconciler is
  computed from the operation records read once at its start, and \<open>record_reconciliation_receipt\<close> does
  not compare the attempt or the status it was computed from with the row it overwrites; the theorem of
  \<open>Write_Lifecycle\<close> on dispatches assumes that comparison.
\<close>

section \<open>Two reconcilers and a resume\<close>

definition demo_reader :: "(string list) reader" where
  "demo_reader plan o' b = (Inr [(''exists'', PBool (op_id o' \<in> set b))], b)"

definition race_crashed :: "(plan_db, string list) world" where
  "race_crashed = snd (confirm sqlite_store [''k'' \<mapsto> timing_out] demo_ambient 30 ''p''
     (demo_world demo_saved []))"

text \<open>The first reconciler is admitted, reads its records and settles operation \<open>a\<close>.\<close>

definition race_records :: "op_row list" where
  "race_records = ops_of (snd (begin_reconcile 5 ''p'' (w_store race_crashed))) ''p''"

definition race_first :: "(plan_db, string list) world" where
  "race_first = snd (reconcile_operations sqlite_store [''k'' \<mapsto> demo_reader] demo_ambient demo_plan
     race_records [demo_operation ''a'' []]
     (put_store (snd (begin_reconcile 5 ''p'' (w_store race_crashed))) race_crashed))"

text \<open>A second reconciler runs to its end and the plan is resumed: operation \<open>b\<close> is written.\<close>

definition race_second :: "(plan_db, string list) world" where
  "race_second = snd (reconcile_write sqlite_store [''k'' \<mapsto> demo_reader] demo_ambient ''p'' race_first)"

definition race_resumed :: "(plan_db, string list) world" where
  "race_resumed = snd (resume sqlite_store [''k'' \<mapsto> timing_out] demo_ambient 30 ''p'' race_second)"

text \<open>The first reconciler continues with the record of \<open>b\<close> it read before; the plan is resumed again.\<close>

definition race_stale :: "(plan_db, string list) world" where
  "race_stale = snd (reconcile_operations sqlite_store [''k'' \<mapsto> demo_reader] demo_ambient demo_plan
     race_records [demo_operation ''b'' [''a'']] race_resumed)"

definition race_again :: "(plan_db, string list) world" where
  "race_again = snd (resume sqlite_store [''k'' \<mapsto> timing_out] demo_ambient 30 ''p'' race_stale)"


section \<open>Frozen state against observed state\<close>

text \<open>
  The constructor of \<open>OperationPlan\<close> turns every list of the desired state into a tuple, a reader
  returns lists as JSON has them, and Python never finds a tuple equal to a list: an operation whose
  desired state holds a list is never recognised as applied.
\<close>

text \<open>An operation whose desired state holds a list is classified as a conflict when the reader observes
  exactly that state.\<close>

theorem list_valued_state_never_applied:
  "(case mk_operation_plan ''a'' ''CREATE_VERTEX'' (PDict []) (PDict [(''exists'', PBool False)])
        (PDict [(''tags'', PList [PStr ''x''])]) [] None of
      Inr o' \<Rightarrow> reconcile_operation_state (op_kind o') (op_expected o') (op_desired o')
        [(''tags'', PList [PStr ''x''])]
    | Inl _ \<Rightarrow> ApplyStatus.UNKNOWN) = ApplyStatus.CONFLICT"
  by code_simp

section \<open>Known partial results\<close>

text \<open>A known partial result is hidden while any other operation of the plan is still pending.\<close>

theorem partial_hidden_by_pending: "aggregate_persisted_statuses [PARTIAL, ISSUED] = EXECUTING"
  by code_simp

end
