(* ===== verification/Write_Liveness.thy ===== *)
theory Write_Liveness
  imports Write_Lifecycle
begin

text \<open>
  Progress of the canonical protocol: what an executor reaches when nothing goes wrong. The lemmas say when
  the transactions of the store succeed; with them a confirmation of a freshly saved plan is followed
  operation by operation to its final state.
\<close>

lemma sqlite_store_sel:
  "ps_get_plan sqlite_store = get_plan" "ps_record sqlite_store = get_plan_record"
  "ps_claim_plan sqlite_store = claim_plan" "ps_claim_operation sqlite_store = claim_operation"
  "ps_record_receipt sqlite_store = record_receipt"
  by (simp_all add: sqlite_store_def)

section \<open>Transactions that succeed\<close>

lemma or_str_nonempty: "ow \<noteq> [] \<Longrightarrow> or_str (Some ow) d = ow"
  by (simp add: or_str_def)

lemma claim_operation_enabled:
  assumes wf: "wf_db db" and prow: "find_plan db pid = Some prow" "pl_owner prow = Some ow" "ow \<noteq> []"
    and lease: "\<not> lease_free now (pl_lease prow)" "0 < ls"
    and row: "find_op db pid oid = Some row" "or_status row = ISSUED" and tk: "tk \<noteq> []"
  shows "\<exists>db' row'. claim_operation now fr pid oid (Some ow) (Some tk) ls db = (Inr (or_attempt row + 1), db') \<and>
    find_op db' pid oid = Some row' \<and> or_status row' = EXECUTING \<and> or_attempt row' = or_attempt row + 1 \<and>
    or_token row' = Some tk"
proof -
  let ?f = "\<lambda>r. r\<lparr>or_status := EXECUTING, or_attempt := or_attempt row + 1, or_token := Some tk,
    or_reconciled := False, or_updated := now\<rparr>"
  let ?db1 = "update_ops (\<lambda>r. or_plan r = pid \<and> or_id r = oid) ?f db"
  let ?P = "\<lambda>r. pl_id r = pid \<and> pl_owner r = Some ow \<and> \<not> lease_free now (pl_lease r)"
  have f: "keeps_op ?f" by (simp add: keeps_op_def)
  have "plan_count ?P ?db1 = 1"
    using plan_count_key [of ?db1 pid "\<lambda>r. pl_owner r = Some ow \<and> \<not> lease_free now (pl_lease r)"]
      wf_update_ops [OF wf f, of "\<lambda>r. or_plan r = pid \<and> or_id r = oid"] prow lease by simp
  then have "claim_operation now fr pid oid (Some ow) (Some tk) ls db =
      (Inr (or_attempt row + 1), update_plans ?P (\<lambda>r. r\<lparr>pl_lease := Some (now + ls)\<rparr>) ?db1)"
    using prow lease row tk by (simp add: claim_operation_def or_str_nonempty Let_def)
  moreover have "find_op ?db1 pid oid = Some (?f row)"
    using find_op_key [OF row(1)] row(1) by (simp add: find_op_update [OF f])
  ultimately show ?thesis by simp
qed

text \<open>A fenced receipt is refused only for its transition: the rows after it decide.\<close>

lemma record_receipt_fenced:
  assumes wf: "wf_db db" and prow: "find_plan db pid = Some prow" "pl_owner prow = Some ow" "ow \<noteq> []"
    and lease: "\<not> lease_free now (pl_lease prow)"
    and row: "find_op db pid oid = Some row" "or_status row = EXECUTING" "or_token row = Some tk" "tk \<noteq> []"
    and rc: "rc_plan_id rc = Some pid" "rc_operation_id rc = Some oid" "pid \<noteq> []" "oid \<noteq> []"
      "rc_attempt rc = or_attempt row"
  obtains db1 db' prow' where "wf_db db1"
    "view db1 = (view db)((pid, oid) \<mapsto> (plan_of_apply (rc_status rc), or_attempt row))"
    "record_receipt now rc (Some ow) (Some tk) db =
      (let agg = aggregate_persisted_statuses (op_statuses db1 pid)
       in if pl_status prow \<noteq> agg \<and> \<not> can_transition (pl_status prow) agg
          then (Inl (PlanTransitionError (''illegal receipt transition: '' @ plan_str (pl_status prow) @ '' -> '' @ plan_str agg)), db)
          else (Inr (), db'))"
    "find_plan db' pid = Some prow'"
    "is_success (rc_status rc) \<Longrightarrow> pl_status prow' \<in> {EXECUTING, PARTIAL} \<Longrightarrow>
       pl_owner prow' = pl_owner prow \<and> pl_lease prow' = pl_lease prow"
proof -
  let ?Q = "\<lambda>r. or_status r = EXECUTING \<and> or_attempt r = rc_attempt rc \<and> or_token r = Some tk"
  let ?f = "\<lambda>r. r\<lparr>or_status := plan_of_apply (rc_status rc), or_attempt := rc_attempt rc,
    or_receipt := Some (receipt_to_dict rc),
    or_updated := (case rc_committed_at rc of None \<Rightarrow> 0 | Some t \<Rightarrow> t)\<rparr>"
  let ?db1 = "update_ops (\<lambda>r. or_plan r = pid \<and> or_id r = oid \<and> ?Q r) ?f db"
  let ?agg = "aggregate_persisted_statuses (op_statuses ?db1 pid)"
  let ?keep = "is_success (rc_status rc) \<and> (?agg = EXECUTING \<or> ?agg = PARTIAL)"
  let ?g = "\<lambda>r. r\<lparr>pl_status := ?agg, pl_owner := (if ?keep then pl_owner r else None),
    pl_lease := (if ?keep then pl_lease r else None)\<rparr>"
  have f: "keeps_op ?f" and g: "keeps_plan ?g" by (simp_all add: keeps_op_def keeps_plan_def)
  have cnt: "op_count (\<lambda>r. or_plan r = pid \<and> or_id r = oid \<and> ?Q r) db = 1"
    using op_count_key [OF wf, of pid oid ?Q] row rc by simp
  have loc: "receipt_locator rc = Some (pid, oid)" using rc by (simp add: receipt_locator_def)
  show thesis
  proof (rule that [of ?db1 "update_plans (\<lambda>r. pl_id r = pid) ?g ?db1" "?g prow"])
    show "wf_db ?db1" using wf_update_ops [OF wf f] by blast
    show "view ?db1 = (view db)((pid, oid) \<mapsto> (plan_of_apply (rc_status rc), or_attempt row))"
      using view_update_ops_key [OF wf f row(1), of ?Q] row rc by simp
    show "record_receipt now rc (Some ow) (Some tk) db =
      (let agg = ?agg in if pl_status prow \<noteq> agg \<and> \<not> can_transition (pl_status prow) agg
        then (Inl (PlanTransitionError (''illegal receipt transition: '' @ plan_str (pl_status prow) @ '' -> '' @ plan_str agg)), db)
        else (Inr (), update_plans (\<lambda>r. pl_id r = pid) ?g ?db1))"
      using prow lease row rc cnt by (simp add: record_receipt_def loc or_opt_def Let_def)
    show "find_plan (update_plans (\<lambda>r. pl_id r = pid) ?g ?db1) pid = Some (?g prow)"
      unfolding find_plan_update_all [OF g] using prow by simp
  qed auto
qed

lemma success_plan_of_apply: "success_status (plan_of_apply a) = is_success a"
  by (cases a) (simp_all add: success_status_def is_success_def)

lemma aggregate_pending:
  assumes "ISSUED \<in> set ss" "s \<in> set ss" "success_status s"
  shows "aggregate_persisted_statuses ss = PARTIAL"
proof -
  obtain a where "apply_of_plan s = Some a" "is_success a" using assms(3) success_status_apply by blast
  then have "a \<in> set (persisted_apply ss)"
    using assms(2) by (force simp: persisted_apply_def List.map_filter_def)
  then have "list_ex is_success (persisted_apply ss)" using \<open>is_success a\<close> by (auto simp: list_ex_iff)
  moreover have "list_ex (\<lambda>s. apply_of_plan s = None) ss" using assms(1) by (force simp: list_ex_iff)
  ultimately show ?thesis by (simp add: aggregate_persisted_statuses_def Let_def)
qed

lemma aggregate_complete:
  assumes "ss \<noteq> []" "list_all success_status ss"
  shows "aggregate_persisted_statuses ss = (if set ss \<subseteq> {ALREADY_APPLIED} then ALREADY_APPLIED else APPLIED)"
proof -
  have some: "list_all (\<lambda>s. apply_of_plan s \<noteq> None) ss"
    using assms(2) by (auto simp: list_all_iff success_status_apply)
  then have no: "\<not> list_ex (\<lambda>s. apply_of_plan s = None) ss" by (auto simp: list_all_iff list_ex_iff)
  note eq = map_filter_apply [OF some]
  have "persisted_apply ss \<noteq> []" using assms(1) eq by (metis list.map(1))
  moreover have "list_all is_success (persisted_apply ss)"
  proof -
    have "list_all success_status (map plan_of_apply (persisted_apply ss))" using assms(2) eq by simp
    then show ?thesis by (simp add: list_all_iff success_plan_of_apply)
  qed
  moreover have "list_all (\<lambda>s. s = ApplyStatus.ALREADY_APPLIED) (persisted_apply ss) \<longleftrightarrow> set ss \<subseteq> {ALREADY_APPLIED}"
  proof -
    have "plan_of_apply a = ALREADY_APPLIED \<longleftrightarrow> a = ApplyStatus.ALREADY_APPLIED" for a by (cases a) simp_all
    then have "list_all (\<lambda>s. s = ApplyStatus.ALREADY_APPLIED) (persisted_apply ss)
        \<longleftrightarrow> list_all (\<lambda>s. s = ALREADY_APPLIED) (map plan_of_apply (persisted_apply ss))"
      by (simp add: list_all_iff)
    also have "\<dots> \<longleftrightarrow> set ss \<subseteq> {ALREADY_APPLIED}" unfolding eq by (auto simp: list_all_iff)
    finally show ?thesis .
  qed
  ultimately show ?thesis
    using no by (simp add: aggregate_persisted_statuses_def aggregate_plan_status_def)
qed

section \<open>The executor loop reaches the end\<close>

text \<open>
  The clock may advance between readings, but not by a lease within three consecutive ones: an executor reads it
  once per claim and once per receipt, and a claim renews the lease.
\<close>

definition lease_outlives :: "ambient \<Rightarrow> int \<Rightarrow> bool" where
  "lease_outlives am ls \<longleftrightarrow> (\<forall>m k. k \<le> 2 \<longrightarrow> am_clock am (m + k) < am_clock am m + ls)"

lemma lease_outlives_pos: "lease_outlives am ls \<Longrightarrow> 0 < ls"
  unfolding lease_outlives_def by (metis add_0_right less_add_same_cancel1 zero_le)

text \<open>Every operation has an adapter that answers with a receipt of its own attempt; \<open>outcome\<close> says which.\<close>

definition cooperates :: "'w registry \<Rightarrow> string \<Rightarrow> (string \<Rightarrow> ApplyStatus) \<Rightarrow> OperationPlan \<Rightarrow> bool" where
  "cooperates reg pid outcome o' \<longleftrightarrow> is_success (outcome (op_id o')) \<and>
     (\<exists>ad. reg (op_kind o') = Some ad \<and>
       (\<forall>plan n b. wp_id plan = pid \<longrightarrow> (\<exists>rc b'. ad plan o' n b = (Inr rc, b') \<and> rc_status rc = outcome (op_id o') \<and>
          rc_plan_id rc = Some pid \<and> rc_operation_id rc = Some (op_id o') \<and> rc_attempt rc = n)))"

text \<open>The state between two iterations: \<open>past\<close> has been written, \<open>todo\<close> has not.\<close>

definition progress ::
  "string \<Rightarrow> (string \<Rightarrow> ApplyStatus) \<Rightarrow> ambient \<Rightarrow> int \<Rightarrow> string \<Rightarrow> string list \<Rightarrow> string list
   \<Rightarrow> plan_db \<Rightarrow> nat \<Rightarrow> bool" where
  "progress pid outcome am ls ow past todo db tick \<longleftrightarrow> wf_db db \<and>
     (\<forall>oid. view db (pid, oid) = (if oid \<in> set past then Some (plan_of_apply (outcome oid), 1)
        else if oid \<in> set todo then Some (ISSUED, 0) else None)) \<and>
     (\<exists>prow. find_plan db pid = Some prow \<and>
       (if todo = [] then success_status (pl_status prow)
        else pl_status prow = (if past = [] then EXECUTING else PARTIAL) \<and> pl_owner prow = Some ow \<and>
          (\<exists>m. pl_lease prow = Some (am_clock am m + ls) \<and> m \<le> tick \<and> tick \<le> m + 2)))"

text \<open>The status the plan gets with the receipt of the next operation.\<close>

lemma progress_aggregate:
  assumes "wf_db db" "\<And>x. x \<in> set past \<union> {oid} \<Longrightarrow> is_success (outcome x)" "oid \<notin> set todo" "set past \<inter> set todo = {}"
    and view: "\<And>x. view db (pid, x) = (if x \<in> set past \<union> {oid} then Some (plan_of_apply (outcome x), 1)
      else if x \<in> set todo then Some (ISSUED, 0) else None)"
  shows "aggregate_persisted_statuses (op_statuses db pid) =
    (if todo \<noteq> [] then PARTIAL
     else if \<forall>x \<in> set past \<union> {oid}. outcome x = ApplyStatus.ALREADY_APPLIED then ALREADY_APPLIED else APPLIED)"
proof -
  have sts: "set (op_statuses db pid) = plan_of_apply ` outcome ` (set past \<union> {oid}) \<union> (if todo = [] then {} else {ISSUED})"
  proof -
    let ?P = "set past \<union> {oid}"
    have "(\<exists>x n. view db (pid, x) = Some (st, n)) \<longleftrightarrow> (\<exists>x \<in> ?P. st = plan_of_apply (outcome x)) \<or> (st = ISSUED \<and> (\<exists>x. x \<in> set todo))" for st
    proof
      assume "\<exists>x n. view db (pid, x) = Some (st, n)"
      then obtain x n where "view db (pid, x) = Some (st, n)" by blast
      then show "(\<exists>x \<in> ?P. st = plan_of_apply (outcome x)) \<or> (st = ISSUED \<and> (\<exists>x. x \<in> set todo))"
        unfolding view by (cases "x \<in> ?P"; cases "x \<in> set todo") auto
    next
      assume "(\<exists>x \<in> ?P. st = plan_of_apply (outcome x)) \<or> (st = ISSUED \<and> (\<exists>x. x \<in> set todo))"
      then consider x where "x \<in> ?P" "st = plan_of_apply (outcome x)" | x where "st = ISSUED" "x \<in> set todo" by blast
      then show "\<exists>x n. view db (pid, x) = Some (st, n)"
      proof cases
        case 1
        then show ?thesis unfolding view by (intro exI [of _ x] exI [of _ 1]) simp
      next
        case 2
        then have "x \<notin> ?P" using assms(3,4) by auto
        with 2 show ?thesis unfolding view by (intro exI [of _ x] exI [of _ 0]) simp
      qed
    qed
    then show ?thesis unfolding set_op_statuses [OF assms(1)] by (cases todo) (auto simp del: insert_iff Un_insert_right)
  qed
  show ?thesis
  proof (cases "todo = []")
    case False
    then have "aggregate_persisted_statuses (op_statuses db pid) = PARTIAL"
      using sts assms(2) by (intro aggregate_pending [of _ "plan_of_apply (outcome oid)"]) (auto simp: success_plan_of_apply)
    with False show ?thesis by simp
  next
    case True
    have "plan_of_apply a = ALREADY_APPLIED \<longleftrightarrow> a = ApplyStatus.ALREADY_APPLIED" for a by (cases a) simp_all
    then have "set (op_statuses db pid) \<subseteq> {ALREADY_APPLIED}
        \<longleftrightarrow> (\<forall>x \<in> set past \<union> {oid}. outcome x = ApplyStatus.ALREADY_APPLIED)"
      unfolding sts using True by auto
    moreover have "op_statuses db pid \<noteq> []" using sts by auto
    moreover have "list_all success_status (op_statuses db pid)"
      using sts True assms(2) by (auto simp: list_all_iff success_plan_of_apply)
    ultimately show ?thesis using True by (simp only: aggregate_complete simp_thms if_False)
  qed
qed

text \<open>The claim of the next operation succeeds and renews the lease.\<close>

lemma progress_claim:
  assumes prog: "progress pid outcome am ls ow past (oid # todo) (w_store w) (w_tick w)"
    and ids: "distinct (past @ oid # todo)" "ow \<noteq> []" "\<And>n. am_uuid am n \<noteq> []" and am: "lease_outlives am ls"
  obtains prow db1 row1 where
    "claim_operation (am_clock am (w_tick w)) (am_uuid am (w_fresh w)) pid oid (Some ow)
       (Some (am_uuid am (w_fresh w))) ls (w_store w) = (Inr 1, db1)"
    "find_op db1 pid oid = Some row1" "or_status row1 = EXECUTING" "or_attempt row1 = 1"
    "or_token row1 = Some (am_uuid am (w_fresh w))" "wf_db db1"
    "view db1 = (view (w_store w))((pid, oid) \<mapsto> (EXECUTING, 1))"
    "find_plan db1 pid = Some prow" "pl_owner prow = Some ow" "pl_lease prow = Some (am_clock am (w_tick w) + ls)"
    "pl_status prow = (if past = [] then EXECUTING else PARTIAL)"
proof -
  let ?t = "w_tick w" and ?tk = "am_uuid am (w_fresh w)"
  obtain prow m where prow: "find_plan (w_store w) pid = Some prow" "pl_owner prow = Some ow"
      "pl_status prow = (if past = [] then EXECUTING else PARTIAL)"
      "pl_lease prow = Some (am_clock am m + ls)" "m \<le> ?t" "?t \<le> m + 2"
    using prog by (auto simp: progress_def)
  obtain k where k: "?t = m + k" "k \<le> 2" using prow(5,6) by (metis add_le_cancel_left le_Suc_ex)
  have "am_clock am (m + k) < am_clock am m + ls" using am k(2) by (simp add: lease_outlives_def)
  then have free: "\<not> lease_free (am_clock am ?t) (pl_lease prow)" using prow(4) k by (simp add: lease_free_def)
  have wf: "wf_db (w_store w)" and "view (w_store w) (pid, oid) = Some (ISSUED, 0)"
    using prog ids(1) by (auto simp: progress_def)
  then obtain row where row: "find_op (w_store w) pid oid = Some row" "or_status row = ISSUED" "or_attempt row = 0"
    by (auto simp: view_def)
  obtain db1 row1 where c: "claim_operation (am_clock am ?t) ?tk pid oid (Some ow) (Some ?tk) ls (w_store w) = (Inr 1, db1)"
      "find_op db1 pid oid = Some row1" "or_status row1 = EXECUTING" "or_attempt row1 = 1" "or_token row1 = Some ?tk"
    using claim_operation_enabled [OF wf prow(1,2) ids(2) free lease_outlives_pos [OF am] row(1,2) ids(3) [of "w_fresh w"],
      where fr = ?tk] row(3) by auto
  have db1: "wf_db db1" "view db1 = (view (w_store w))((pid, oid) \<mapsto> (EXECUTING, 1))"
      "find_plan db1 pid = Some (prow\<lparr>pl_lease := Some (am_clock am ?t + ls)\<rparr>)"
    using c(1) wf prow(1) by (auto elim!: claim_operation_ok)
  show thesis by (rule that [OF c db1]) (simp_all add: prow)
qed

text \<open>
  One iteration: the claim and the receipt succeed and the next state is in progress again, unless the last
  receipt would make the plan \<open>ALREADY_APPLIED\<close>, which the state machine does not allow after \<open>PARTIAL\<close>.
\<close>

definition stuck_at_end :: "(string \<Rightarrow> ApplyStatus) \<Rightarrow> string list \<Rightarrow> string \<Rightarrow> string list \<Rightarrow> bool" where
  "stuck_at_end outcome past oid todo \<longleftrightarrow>
     past \<noteq> [] \<and> todo = [] \<and> (\<forall>x \<in> set past \<union> {oid}. outcome x = ApplyStatus.ALREADY_APPLIED)"

definition illegal_receipt :: py_exc where
  "illegal_receipt = PlanTransitionError ''illegal receipt transition: PlanStatus.PARTIAL -> PlanStatus.ALREADY_APPLIED''"

lemma progress_step:
  assumes prog: "progress pid outcome am ls ow past (op_id o' # todo) (w_store w) (w_tick w)"
    and ids: "distinct (past @ op_id o' # todo)" "pid \<noteq> []" "op_id o' \<noteq> []" "ow \<noteq> []" "\<And>n. am_uuid am n \<noteq> []"
    and am: "lease_outlives am ls"
    and good: "cooperates reg pid outcome o'" "\<forall>x \<in> set past. is_success (outcome x)" "wp_id plan = pid"
    and sts: "sts (op_id o') = Some ISSUED"
  shows "\<exists>w'. if stuck_at_end outcome past (op_id o') todo
    then run_operations sqlite_store reg am ls plan [ISSUED] ow sts (o' # os) w = (Inl illegal_receipt, w') \<and>
      view (w_store w') (pid, op_id o') = Some (EXECUTING, 1)
    else run_operations sqlite_store reg am ls plan [ISSUED] ow sts (o' # os) w
      = run_operations sqlite_store reg am ls plan [ISSUED] ow sts os w' \<and>
    progress pid outcome am ls ow (past @ [op_id o']) todo (w_store w') (w_tick w')"
proof (rule progress_claim [OF prog ids(1,4,5) am])
  let ?oid = "op_id o'" and ?t = "w_tick w" and ?tk = "am_uuid am (w_fresh w)"
  let ?agg = "if todo \<noteq> [] then PARTIAL
     else if \<forall>x \<in> set past \<union> {?oid}. outcome x = ApplyStatus.ALREADY_APPLIED then ALREADY_APPLIED else APPLIED"
  fix prow db1 row1
  assume c: "claim_operation (am_clock am ?t) ?tk pid ?oid (Some ow) (Some ?tk) ls (w_store w) = (Inr 1, db1)"
      "find_op db1 pid ?oid = Some row1" "or_status row1 = EXECUTING" "or_attempt row1 = 1" "or_token row1 = Some ?tk"
    and db1: "wf_db db1" "view db1 = (view (w_store w))((pid, ?oid) \<mapsto> (EXECUTING, 1))" "find_plan db1 pid = Some prow"
    and prow: "pl_owner prow = Some ow" "pl_lease prow = Some (am_clock am ?t + ls)"
      "pl_status prow = (if past = [] then EXECUTING else PARTIAL)"
  obtain ad where ad0: "reg (op_kind o') = Some ad" and ad1: "\<And>n b. \<exists>rc b'. ad plan o' n b = (Inr rc, b') \<and>
      rc_status rc = outcome ?oid \<and> rc_plan_id rc = Some pid \<and> rc_operation_id rc = Some ?oid \<and> rc_attempt rc = n"
    and succ: "is_success (outcome ?oid)"
    using good(1,3) by (auto simp: cooperates_def)
  obtain rc b' where ad: "ad plan o' 1 (w_backend w) = (Inr rc, b')" "rc_status rc = outcome ?oid"
      "rc_plan_id rc = Some pid" "rc_operation_id rc = Some ?oid" "rc_attempt rc = 1"
    using ad1 [of 1 "w_backend w"] by blast
  let ?rc = "rc\<lparr>rc_attempt_token := Some ?tk\<rparr>"
  let ?w = "\<lambda>db. w\<lparr>w_fresh := Suc (w_fresh w), w_backend := b', w_store := db, w_tick := Suc (Suc ?t)\<rparr>"
  have iter: "run_operations sqlite_store reg am ls plan [ISSUED] ow sts (o' # os) w =
      (case q of Inl e \<Rightarrow> (Inl e, ?w db2) | Inr _ \<Rightarrow> run_operations sqlite_store reg am ls plan [ISSUED] ow sts os (?w db2))"
    if "record_receipt (am_clock am (Suc ?t)) ?rc (Some ow) (Some ?tk) db1 = (q, db2)" for q db2
    using sts ad0 ad c(1) that succ good(3)
    by (simp add: sqlite_store_sel now_of_def uuid_of_def put_store_def Let_def split: sum.split)
  have "am_clock am (?t + 1) < am_clock am ?t + ls" using am unfolding lease_outlives_def by (metis one_le_numeral)
  then have free: "\<not> lease_free (am_clock am (Suc ?t)) (pl_lease prow)" by (simp add: prow lease_free_def)
  have agg: "aggregate_persisted_statuses (op_statuses db pid) = ?agg"
    if "wf_db db" "view db = (view db1)((pid, ?oid) \<mapsto> (plan_of_apply (outcome ?oid), 1))" for db
    by (rule progress_aggregate [OF that(1)])
      (use ids(1) good(2) succ that(2) db1(2) prog in \<open>auto simp: progress_def split: if_splits\<close>)
  show ?thesis
  proof (rule record_receipt_fenced [OF db1(1,3) prow(1) ids(4) free c(2,3,5) ids(5), where rc = ?rc])
    fix dbx db2 prow2
    assume x: "wf_db dbx" "view dbx = (view db1)((pid, ?oid) \<mapsto> (plan_of_apply (rc_status ?rc), or_attempt row1))"
      and r: "record_receipt (am_clock am (Suc ?t)) ?rc (Some ow) (Some ?tk) db1 =
        (let agg = aggregate_persisted_statuses (op_statuses dbx pid)
         in if pl_status prow \<noteq> agg \<and> \<not> can_transition (pl_status prow) agg
            then (Inl (PlanTransitionError (''illegal receipt transition: '' @ plan_str (pl_status prow) @ '' -> '' @ plan_str agg)), db1)
            else (Inr (), db2))"
      and p2: "find_plan db2 pid = Some prow2" "is_success (rc_status ?rc) \<Longrightarrow> pl_status prow2 \<in> {EXECUTING, PARTIAL} \<Longrightarrow>
          pl_owner prow2 = pl_owner prow \<and> pl_lease prow2 = pl_lease prow"
    have aggx: "aggregate_persisted_statuses (op_statuses dbx pid) = ?agg" using agg [OF x(1)] x(2) ad c(4) by simp
    show ?thesis
    proof (cases "stuck_at_end outcome past ?oid todo")
      case True
      then have "record_receipt (am_clock am (Suc ?t)) ?rc (Some ow) (Some ?tk) db1 = (Inl illegal_receipt, db1)"
        unfolding r aggx prow by (simp add: stuck_at_end_def can_transition_def illegal_receipt_def plan_str_def)
      from iter [OF this] True db1(2) show ?thesis by (intro exI [of _ "?w db1"]) simp
    next
      case False
      then have ok: "record_receipt (am_clock am (Suc ?t)) ?rc (Some ow) (Some ?tk) db1 = (Inr (), db2)"
        unfolding r aggx prow using prog by (auto simp: stuck_at_end_def can_transition_def Let_def)
      have db2: "wf_db db2" "view db2 = (view db1)((pid, ?oid) \<mapsto> (plan_of_apply (outcome ?oid), 1))"
          "pl_status prow2 = aggregate_persisted_statuses (op_statuses db2 pid)"
        using ok p2(1) db1(1) c(2,4) ad by (auto elim!: record_receipt_ok simp: receipt_locator_def split: if_splits)
      have "progress pid outcome am ls ow (past @ [?oid]) todo db2 (Suc (Suc ?t))"
        unfolding progress_def using db2 p2 prog db1(2) agg [OF db2(1,2)] ad succ prow
        by (auto simp: progress_def success_status_def intro!: exI [of _ ?t])
      then show ?thesis using iter [OF ok] False by (intro exI [of _ "?w db2"]) simp
    qed
  qed (use ad ids(2,3) c(4) in auto)
qed

text \<open>The loop advances over any prefix \<open>os\<close> of what is left, except into the state in which it gets stuck.\<close>

lemma run_operations_advance:
  assumes "progress pid outcome am ls ow past (map op_id (os @ rest)) (w_store w) (w_tick w)"
    and "distinct (past @ map op_id (os @ rest))" "pid \<noteq> []" "\<forall>o' \<in> set os. op_id o' \<noteq> []" "ow \<noteq> []" "\<And>n. am_uuid am n \<noteq> []"
    and "lease_outlives am ls" "\<forall>o' \<in> set os. cooperates reg pid outcome o'" "\<forall>x \<in> set past. is_success (outcome x)"
    and "wp_id plan = pid" "\<forall>o' \<in> set os. sts (op_id o') = Some ISSUED"
    and "rest \<noteq> [] \<or> length past + length os = 1 \<or> (\<exists>x \<in> set past \<union> op_id ` set os. outcome x = ApplyStatus.APPLIED)"
  shows "\<exists>w'. run_operations sqlite_store reg am ls plan [ISSUED] ow sts (os @ rest) w
      = run_operations sqlite_store reg am ls plan [ISSUED] ow sts rest w' \<and>
    progress pid outcome am ls ow (past @ map op_id os) (map op_id rest) (w_store w') (w_tick w')"
  using assms(1,2,4,8,9,11,12)
proof (induction os arbitrary: past w)
  case Nil
  then show ?case by auto
next
  case (Cons o' os)
  let ?todo = "map op_id (os @ rest)"
  have go: "\<not> stuck_at_end outcome past (op_id o') ?todo"
    using Cons.prems(7) by (auto simp: stuck_at_end_def)
  have "\<exists>w'. if stuck_at_end outcome past (op_id o') ?todo
    then run_operations sqlite_store reg am ls plan [ISSUED] ow sts (o' # os @ rest) w = (Inl illegal_receipt, w') \<and>
      view (w_store w') (pid, op_id o') = Some (EXECUTING, 1)
    else run_operations sqlite_store reg am ls plan [ISSUED] ow sts (o' # os @ rest) w
      = run_operations sqlite_store reg am ls plan [ISSUED] ow sts (os @ rest) w' \<and>
    progress pid outcome am ls ow (past @ [op_id o']) ?todo (w_store w') (w_tick w')"
    by (rule progress_step [OF _ _ assms(3) _ assms(5,6,7) _ _ assms(10)]) (use Cons.prems in auto)
  then obtain w' where w': "run_operations sqlite_store reg am ls plan [ISSUED] ow sts (o' # os @ rest) w
        = run_operations sqlite_store reg am ls plan [ISSUED] ow sts (os @ rest) w'"
      "progress pid outcome am ls ow (past @ [op_id o']) ?todo (w_store w') (w_tick w')"
    using go by (auto simp del: run_operations.simps)
  have "\<exists>w''. run_operations sqlite_store reg am ls plan [ISSUED] ow sts (os @ rest) w'
        = run_operations sqlite_store reg am ls plan [ISSUED] ow sts rest w'' \<and>
      progress pid outcome am ls ow ((past @ [op_id o']) @ map op_id os) (map op_id rest) (w_store w'') (w_tick w'')"
    by (rule Cons.IH [OF w'(2)]) (use Cons.prems in \<open>auto simp: cooperates_def\<close>)
  then show ?case using w'(1) by (simp del: run_operations.simps)
qed

section \<open>A confirmation that nothing disturbs\<close>

lemma view_saved:
  assumes "save_plan p db = (Inr u, db')" "plan_inv db"
  shows "view db' (wp_id p, oid) = (if oid \<in> set (map op_id (wp_operations p)) then Some (ISSUED, 0) else None)"
proof -
  have wf: "wf_db db'" using save_plan_ok [OF assms(1) wf_plan_inv [OF assms(2)]] by simp
  have rows: "set (ops_of db' (wp_id p)) = (\<lambda>(i, o'). operation_to_row p i o') ` set (enumerate 0 (wp_operations p))"
    unfolding ops_of_saved [OF assms] by simp
  have fields: "or_plan r = wp_id p \<and> or_id r \<in> set (map op_id (wp_operations p)) \<and> or_status r = ISSUED \<and> or_attempt r = 0"
    if "r \<in> set (ops_of db' (wp_id p))" for r
    using that unfolding rows by (auto simp: operation_to_row_def in_set_enumerate_eq)
  show ?thesis
  proof (cases "find_op db' (wp_id p) oid")
    case None
    have "oid \<notin> set (map op_id (wp_operations p))"
    proof
      assume "oid \<in> set (map op_id (wp_operations p))"
      then obtain i where "i < length (wp_operations p)" "oid = op_id (wp_operations p ! i)"
        by (auto simp: in_set_conv_nth)
      then have r: "operation_to_row p i (wp_operations p ! i) \<in> set (ops_of db' (wp_id p))"
        unfolding rows by (force simp: in_set_enumerate_eq)
      then have "operation_to_row p i (wp_operations p ! i) \<in> set (ops db')" by (simp add: set_ops_of)
      from find_op_mem [OF wf this] None \<open>oid = _\<close> show False by (simp add: operation_to_row_def)
    qed
    then show ?thesis using None by (simp add: view_def)
  next
    case (Some r)
    then have "r \<in> set (ops_of db' (wp_id p))" "or_id r = oid" using find_op_key [OF Some] by (auto simp: set_ops_of)
    then show ?thesis using fields Some by (auto simp: view_def)
  qed
qed

lemma status_map_saved:
  assumes "save_plan p db = (Inr u, db')" "plan_inv db" "o' \<in> set (wp_operations p)"
  shows "map_option or_status (find (\<lambda>r. or_id r = op_id o') (ops_of db' (wp_id p))) = Some ISSUED"
proof -
  obtain i where i: "i < length (wp_operations p)" "o' = wp_operations p ! i" using assms(3) by (metis in_set_conv_nth)
  then have mem: "operation_to_row p i o' \<in> set (ops_of db' (wp_id p))"
    unfolding ops_of_saved [OF assms(1,2)] by (force simp: in_set_enumerate_eq)
  then have "find (\<lambda>r. or_id r = op_id o') (ops_of db' (wp_id p)) \<noteq> None"
    by (auto simp: find_None_iff operation_to_row_def)
  then obtain r where r: "find (\<lambda>r. or_id r = op_id o') (ops_of db' (wp_id p)) = Some r" by blast
  then have "r \<in> set (ops_of db' (wp_id p))" by (auto dest: find_SomeD)
  then have "or_status r = ISSUED" unfolding ops_of_saved [OF assms(1,2)] by (auto simp: operation_to_row_def)
  with r show ?thesis by simp
qed

text \<open>The claim of a saved plan.\<close>

lemma claim_saved_plan:
  assumes save: "save_plan p db0 = (Inr u, db)" "plan_inv db0"
    and p: "wf_plan p" "wp_status p = ISSUED" "list_all built_operation (wp_operations p)" "wp_tool p \<noteq> ''legacy''"
    and "0 < ls" "ow \<noteq> []"
  shows "\<exists>db1. claim_plan now fr (wp_id p) (Some ow) ls False db = (Inr (p\<lparr>wp_status := EXECUTING\<rparr>, True), db1) \<and>
    wf_db db1 \<and> ops db1 = ops db \<and> find_plan db1 (wp_id p) = Some ((plan_to_row p)\<lparr>pl_status := EXECUTING,
       pl_confirmed := Some now, pl_owner := Some ow, pl_lease := Some (now + ls)\<rparr>)"
proof -
  let ?f = "\<lambda>r. r\<lparr>pl_status := EXECUTING, pl_confirmed := (case pl_confirmed r of None \<Rightarrow> Some now | Some t \<Rightarrow> Some t),
     pl_owner := Some ow, pl_lease := Some (now + ls)\<rparr>"
  let ?Q = "\<lambda>r. pl_status r = ISSUED \<and> lease_free now (pl_lease r)"
  let ?db1 = "update_plans (\<lambda>r. pl_id r = wp_id p \<and> ?Q r) ?f db"
  let ?p = "p\<lparr>wp_status := EXECUTING\<rparr>"
  note ok = save_plan_ok [OF save(1) wf_plan_inv [OF save(2)]]
  have row: "find_plan db (wp_id p) = Some (plan_to_row p)" "?Q (plan_to_row p)"
    using ok p(2) by (simp_all add: plan_to_row_def lease_free_def)
  have f: "keeps_plan ?f" by (simp add: keeps_plan_def)
  have cnt: "plan_count (\<lambda>r. pl_id r = wp_id p \<and> ?Q r) db = 1"
    using plan_count_key [of db "wp_id p" ?Q] ok row by simp
  have row1: "find_plan ?db1 (wp_id p) = Some (?f (plan_to_row p))"
    using find_plan_update_key [OF f, of "wp_id p" ?Q db "wp_id p"] row by simp
  have "ops_of ?db1 (wp_id p) = map (\<lambda>(i, o'). operation_to_row p i o') (enumerate 0 (wp_operations p))"
    using ops_of_saved [OF save] by simp
  then have "get_plan ?db1 (wp_id ?p) = Inr (Some ?p)"
    by (intro get_plan_of_rows [where p = ?p and row = "?f (plan_to_row p)" and y = "plan_to_dict p" and c = "Some now"
          and ow = "Some ow" and le = "Some (now + ls)"])
      (use row1 p in \<open>auto simp: plan_to_row_def wf_plan_def\<close>)
  then have "claim_plan now fr (wp_id p) (Some ow) ls False db = (Inr (?p, True), ?db1)"
    using assms(7,8) row cnt p(2)
    by (simp add: claim_plan_def claimable_statuses_def or_str_nonempty reread_def Let_def plan_to_row_def)
  moreover have "wf_db ?db1" using ok f by blast
  ultimately show ?thesis using row1 by (intro exI [of _ ?db1]) (simp add: plan_to_row_def)
qed

text \<open>Up to the loop, a confirmation of a saved plan does not depend on the outcomes.\<close>

definition issued_plan :: "WritePlan \<Rightarrow> plan_db \<Rightarrow> bool" where
  "issued_plan p db \<longleftrightarrow> wf_plan p \<and> wp_status p = ISSUED \<and> list_all built_operation (wp_operations p) \<and>
     wp_tool p \<noteq> ''legacy'' \<and> wp_operations p \<noteq> [] \<and> (\<exists>ls db0 u. run empty_db ls db0 \<and> save_plan p db0 = (Inr u, db))"

definition undisturbed :: "ambient \<Rightarrow> int \<Rightarrow> bool" where
  "undisturbed am ls \<longleftrightarrow> lease_outlives am ls \<and> (\<forall>n. am_uuid am n \<noteq> [])"

lemma confirm_saved_plan:
  assumes "issued_plan p (w_store w)" "now_of am w \<le> wp_expires_at p" "undisturbed am ls"
    and "\<forall>o' \<in> set (wp_operations p). cooperates reg (wp_id p) outcome o'"
  obtains sts ow w2 where "confirm sqlite_store reg am ls (wp_id p) w =
      (case run_operations sqlite_store reg am ls (p\<lparr>wp_status := EXECUTING\<rparr>) [ISSUED] ow sts (wp_operations p) w2 of
         (Inl e, w') \<Rightarrow> (Inl e, w') | (Inr _, w') \<Rightarrow> finish sqlite_store am (wp_id p) w')"
    "progress (wp_id p) outcome am ls ow [] (map op_id (wp_operations p)) (w_store w2) (w_tick w2)"
    "\<forall>o' \<in> set (wp_operations p). sts (op_id o') = Some ISSUED" "ow \<noteq> []"
proof -
  let ?pid = "wp_id p" and ?p = "p\<lparr>wp_status := EXECUTING\<rparr>"
  let ?w1 = "(put_store (w_store w) w)\<lparr>w_fresh := Suc (w_fresh w)\<rparr>"
  let ?ow = "am_uuid am (w_fresh w)" and ?now = "am_clock am (Suc (w_tick w))"
  have p: "wf_plan p" "wp_status p = ISSUED" "list_all built_operation (wp_operations p)" "wp_tool p \<noteq> ''legacy''"
      "wp_operations p \<noteq> []"
    and am: "lease_outlives am ls" "?ow \<noteq> []"
    using assms(1,3) by (simp_all add: issued_plan_def undisturbed_def)
  obtain ls0 db0 u where save: "run empty_db ls0 db0" "save_plan p db0 = (Inr u, w_store w)"
    using assms(1) by (auto simp: issued_plan_def)
  note inv = run_plan_inv [OF save(1)]
  obtain db1 where c: "claim_plan ?now ?ow ?pid (Some ?ow) ls False (w_store w) = (Inr (?p, True), db1)"
      "wf_db db1" "ops db1 = ops (w_store w)" "find_plan db1 ?pid = Some ((plan_to_row p)\<lparr>pl_status := EXECUTING,
       pl_confirmed := Some ?now, pl_owner := Some ?ow, pl_lease := Some (?now + ls)\<rparr>)"
    using claim_saved_plan [OF save(2) inv p(1-4) lease_outlives_pos [OF am(1)] am(2)] by blast
  let ?rec = "\<lparr>rec_plan = (plan_to_row p)\<lparr>pl_status := EXECUTING, pl_confirmed := Some ?now,
     pl_owner := Some ?ow, pl_lease := Some (?now + ls)\<rparr>, rec_ops = ops_of (w_store w) ?pid\<rparr>"
  let ?w2 = "put_store db1 ?w1"
  have rec: "get_plan_record db1 ?pid = Some ?rec"
    using c(3,4) by (simp add: get_plan_record_def ops_of_def)
  have got: "get_plan (w_store w) ?pid = Inr (Some p)"
    by (rule get_plan_of_rows [OF _ ops_of_saved [OF save(2) inv] _ p(1,3,4)])
      (use save_plan_ok [OF save(2) wf_plan_inv [OF inv]] in \<open>auto simp: plan_to_row_def\<close>)
  have missing: "filter (\<lambda>k. reg k = None) (map op_kind (wp_operations p)) = []"
    using assms(4) by (auto simp: cooperates_def filter_empty_conv)
  show thesis
  proof (rule that [of ?ow "status_map ?rec" ?w2])
    show "confirm sqlite_store reg am ls ?pid w =
      (case run_operations sqlite_store reg am ls ?p [ISSUED] ?ow (status_map ?rec) (wp_operations p) ?w2 of
         (Inl e, w') \<Rightarrow> (Inl e, w') | (Inr _, w') \<Rightarrow> finish sqlite_store am ?pid w')"
      using got assms(2) missing c(1) rec
      by (simp add: confirm_def sqlite_store_sel now_of_def uuid_of_def execute_claimed_def Let_def put_store_def
          split: prod.split sum.split)
    show "progress ?pid outcome am ls ?ow [] (map op_id (wp_operations p)) (w_store ?w2) (w_tick ?w2)"
      unfolding progress_def using c(2,4) view_saved [OF save(2) inv] view_ops_cong [OF c(3)] p(5)
      by (auto simp: put_store_def intro!: exI [of _ "Suc (w_tick w)"])
    show "\<forall>o' \<in> set (wp_operations p). status_map ?rec (op_id o') = Some ISSUED"
      using status_map_saved [OF save(2) inv] by (simp add: status_map_def)
  qed (rule am(2))
qed

lemma issued_plan_ids:
  assumes "issued_plan p db"
  shows "distinct (map op_id (wp_operations p))" "wp_id p \<noteq> []" "\<forall>o' \<in> set (wp_operations p). op_id o' \<noteq> []"
  using assms by (auto simp: issued_plan_def wf_plan_def list_all_iff built_operation_def)


lemma demo_undisturbed: "undisturbed demo_ambient 30"
  by (auto simp: undisturbed_def lease_outlives_def demo_ambient_def)

lemma demo_issued: "issued_plan demo_plan demo_saved"
proof -
  have "save_plan demo_plan empty_db = (Inr (), demo_saved)" "list_all built_operation (wp_operations demo_plan)"
    "wp_tool demo_plan \<noteq> ''legacy''" "wp_operations demo_plan \<noteq> []" by code_simp+
  then show ?thesis using run_nil by (auto simp: issued_plan_def)
qed

lemma applying_cooperates: "o' \<in> set (wp_operations demo_plan) \<Longrightarrow> cooperates [''k'' \<mapsto> applying] ''p'' (\<lambda>_. ApplyStatus.APPLIED) o'"
  by (auto simp: demo_plan_def demo_operation_def cooperates_def applying_def is_success_def)


text \<open>C30. When a plan of several operations finds the state of every one already there, the receipt of the last one
  raises: \<open>ALREADY_APPLIED\<close> does not follow \<open>PARTIAL\<close> in the state machine, and the first receipt has made the plan
  \<open>PARTIAL\<close>. The exception leaves the confirmation, and the last operation stays \<open>EXECUTING\<close>.\<close>

theorem all_already_applied_raises:
  assumes "issued_plan p (w_store w)" "now_of am w \<le> wp_expires_at p" "undisturbed am ls"
    and "\<forall>o' \<in> set (wp_operations p). cooperates reg (wp_id p) (\<lambda>_. ApplyStatus.ALREADY_APPLIED) o'"
    and "2 \<le> length (wp_operations p)"
  shows "\<exists>w'. confirm sqlite_store reg am ls (wp_id p) w = (Inl illegal_receipt, w') \<and>
    view (w_store w') (wp_id p, op_id (last (wp_operations p))) = Some (EXECUTING, 1)"
proof (rule confirm_saved_plan [OF assms(1-4)])
  let ?pid = "wp_id p" and ?p = "p\<lparr>wp_status := EXECUTING\<rparr>" and ?already = "\<lambda>_. ApplyStatus.ALREADY_APPLIED"
  let ?init = "butlast (wp_operations p)" and ?o = "last (wp_operations p)"
  fix sts ow w2
  assume run: "confirm sqlite_store reg am ls ?pid w =
      (case run_operations sqlite_store reg am ls ?p [ISSUED] ow sts (wp_operations p) w2 of
         (Inl e, w') \<Rightarrow> (Inl e, w') | (Inr _, w') \<Rightarrow> finish sqlite_store am ?pid w')"
    and prog: "progress ?pid ?already am ls ow [] (map op_id (wp_operations p)) (w_store w2) (w_tick w2)"
    and sts: "\<forall>o' \<in> set (wp_operations p). sts (op_id o') = Some ISSUED" and ow: "ow \<noteq> []"
  have am: "lease_outlives am ls" "\<And>n. am_uuid am n \<noteq> []" using assms(3) by (simp_all add: undisturbed_def)
  have ne: "wp_operations p \<noteq> []" using assms(5) by auto
  then have eq: "wp_operations p = ?init @ [?o]" and last: "?o \<in> set (wp_operations p)" by simp_all
  have init: "set ?init \<subseteq> set (wp_operations p)" by (auto dest: in_set_butlastD)
  note ids = issued_plan_ids [OF assms(1)]
  have dist: "distinct (map op_id (?init @ [?o]))" using ids(1) eq by simp
  have "\<exists>w3. run_operations sqlite_store reg am ls ?p [ISSUED] ow sts (?init @ [?o]) w2
        = run_operations sqlite_store reg am ls ?p [ISSUED] ow sts [?o] w3 \<and>
      progress ?pid ?already am ls ow ([] @ map op_id ?init) (map op_id [?o]) (w_store w3) (w_tick w3)"
    by (rule run_operations_advance [OF _ _ ids(2) _ ow am(2,1)])
      (use prog sts assms(4) dist init ids(3) eq in auto)
  then obtain w3 where w3: "run_operations sqlite_store reg am ls ?p [ISSUED] ow sts (wp_operations p) w2
        = run_operations sqlite_store reg am ls ?p [ISSUED] ow sts [?o] w3"
      "progress ?pid ?already am ls ow (map op_id ?init) [op_id ?o] (w_store w3) (w_tick w3)" using eq by auto
  have "map op_id ?init \<noteq> []" using assms(5) by (cases "wp_operations p" rule: rev_cases) auto
  then have stuck: "stuck_at_end ?already (map op_id ?init) (op_id ?o) []" by (simp add: stuck_at_end_def)
  have "\<exists>w'. if stuck_at_end ?already (map op_id ?init) (op_id ?o) []
    then run_operations sqlite_store reg am ls ?p [ISSUED] ow sts [?o] w3 = (Inl illegal_receipt, w') \<and>
      view (w_store w') (?pid, op_id ?o) = Some (EXECUTING, 1)
    else run_operations sqlite_store reg am ls ?p [ISSUED] ow sts [?o] w3
      = run_operations sqlite_store reg am ls ?p [ISSUED] ow sts [] w' \<and>
    progress ?pid ?already am ls ow (map op_id ?init @ [op_id ?o]) [] (w_store w') (w_tick w')"
    by (rule progress_step [OF w3(2) _ ids(2) _ ow am(2,1)])
      (use dist ids(3) last assms(4) sts in \<open>auto simp: is_success_def\<close>)
  then show ?thesis using stuck run w3(1) by auto
qed

definition finding :: "(string list) adapter" where
  "finding plan o' n b = (case applying plan o' n b of
     (Inr rc, _) \<Rightarrow> (Inr (rc\<lparr>rc_status := ApplyStatus.ALREADY_APPLIED\<rparr>), b) | q \<Rightarrow> q)"

theorem all_already_applied_raises_witness:
  "\<exists>w'. confirm sqlite_store [''k'' \<mapsto> finding] demo_ambient 30 ''p'' (demo_world demo_saved []) = (Inl illegal_receipt, w')"
proof -
  have "issued_plan demo_plan (w_store (demo_world demo_saved []))" using demo_issued by (simp add: demo_world_def)
  moreover have "now_of demo_ambient (demo_world demo_saved []) \<le> wp_expires_at demo_plan" by code_simp
  moreover have "\<forall>o' \<in> set (wp_operations demo_plan).
      cooperates [''k'' \<mapsto> finding] (wp_id demo_plan) (\<lambda>_. ApplyStatus.ALREADY_APPLIED) o'"
    by (auto simp: demo_plan_def demo_operation_def cooperates_def finding_def applying_def is_success_def)
  moreover have "2 \<le> length (wp_operations demo_plan)" by (simp add: demo_plan_def)
  ultimately show ?thesis
    using all_already_applied_raises [where p = demo_plan and w = "demo_world demo_saved []" and am = demo_ambient
        and ls = 30 and reg = "[''k'' \<mapsto> finding]"] demo_undisturbed by auto
qed

end
