(* ===== verification/Gremlin_Policy.thy ===== *)
theory Gremlin_Policy
  imports Py_Base
begin

text \<open>
  Model of \<open>hugegraph_mcp/gremlin_policy.py\<close>: the scanner, the token analysis, the classification of a
  query and the policy decision. The scanner works on the rest of the query and the offset at which it
  starts, where the code keeps an index into the whole query. A token keeps its kind, text and span.
  The lemmas say what the classification \<open>safe\<close> guarantees about the tokens of a query and that the
  scanner neither drops nor moves a character.
\<close>

section \<open>Constants and tokens\<close>

definition DYNAMIC_MARKERS :: "string list" where
  "DYNAMIC_MARKERS = [[CHR 0x24, CHR 0x7B], [CHR 0x23, CHR 0x7B], ''->'']"

definition ALLOWED_ARG_TOKENS :: "string list" where
  "ALLOWED_ARG_TOKENS = [''true'', ''false'', ''null'']"

definition WRITE_METHODS :: "string list" where
  "WRITE_METHODS = [''addv'', ''adde'', ''drop'', ''dropv'', ''drope'', ''remove'', ''clear'',
     ''sideeffect'', ''io'', ''call'', ''program'']"

definition READ_METHODS :: "string list" where
  "READ_METHODS = [''v'', ''e'', ''count'', ''limit'', ''range'', ''has'', ''haslabel'', ''hasid'',
     ''values'', ''valuemap'', ''id'', ''label'', ''keys'', ''elementmap'', ''properties'', ''out'',
     ''in'', ''both'', ''oute'', ''ine'', ''bothe'', ''outv'', ''inv'', ''bothv'', ''otherv'', ''path'',
     ''order'', ''group'', ''groupcount'', ''by'', ''dedup'', ''sample'', ''where'', ''not'', ''and'',
     ''or'', ''as'', ''select'', ''unfold'', ''coalesce'', ''optional'', ''repeat'', ''times'',
     ''until'', ''emit'', ''simplepath'', ''cyclicpath'', ''skip'', ''tail'', ''tolist'', ''toset'',
     ''explain'', ''profile'']"

definition ANONYMOUS_READ_METHODS :: "string list" where
  "ANONYMOUS_READ_METHODS = [''outv'', ''inv'', ''bothv'', ''otherv'']"

datatype token_kind = Identifier | Number | String | Punctuation | Unknown

record GremlinToken =
  tk_kind :: token_kind
  tk_value :: string
  tk_start :: nat
  tk_end :: nat

record GremlinLexResult =
  lx_tokens :: "GremlinToken list"
  lx_valid :: bool
  lx_normalized :: string

definition SAFE_PUNCTUATION :: string where
  "SAFE_PUNCTUATION = ''.(),[]:-''"

fun close_of :: "string \<Rightarrow> string option" where
  "close_of s = (if s = ''('' then Some '')'' else if s = ''['' then Some '']''
     else if s = [CHR 0x7B] then Some [CHR 0x7D] else None)"

fun open_of :: "string \<Rightarrow> string option" where
  "open_of s = (if s = '')'' then Some ''('' else if s = '']'' then Some ''[''
     else if s = [CHR 0x7D] then Some [CHR 0x7B] else None)"

declare close_of.simps [simp del] open_of.simps [simp del]

definition is_identifier_start :: "char \<Rightarrow> bool" where
  "is_identifier_start c \<longleftrightarrow> c = CHR ''_'' \<or> is_alpha_ascii c"

definition is_identifier_part :: "char \<Rightarrow> bool" where
  "is_identifier_part c \<longleftrightarrow> is_identifier_start c \<or> is_digit c"

definition LF :: char where "LF = CHR 0x0A"
definition CR :: char where "CR = CHR 0x0D"

definition append_masked :: "string \<Rightarrow> string" where
  "append_masked src = map (\<lambda>c. if c = LF then LF else CHR '' '') src"

section \<open>The scanner\<close>

text \<open>
  \<open>consume_quoted q triple s\<close>: how many characters of \<open>s\<close>, the text after the opening delimiter, the
  literal takes up to and including its closing delimiter.
\<close>

fun consume_quoted :: "char \<Rightarrow> bool \<Rightarrow> string \<Rightarrow> nat option" where
  "consume_quoted q triple [] = None"
| "consume_quoted q triple (c # cs) =
     (if c = CHR 0x5C then (case cs of [] \<Rightarrow> None | x # xs \<Rightarrow> map_option (\<lambda>n. n + 2) (consume_quoted q triple xs))
      else if triple then
        (if starts_with (c # cs) [q, q, q] then Some 3 else map_option Suc (consume_quoted q triple cs))
      else if c = q then Some 1
      else if c = CR \<or> c = LF then None
      else map_option Suc (consume_quoted q triple cs))"

text \<open>\<open>s.find(pat)\<close>.\<close>

fun find_sub :: "string \<Rightarrow> string \<Rightarrow> nat option" where
  "find_sub pat [] = (if pat = [] then Some 0 else None)"
| "find_sub pat (c # cs) = (if starts_with (c # cs) pat then Some 0 else map_option Suc (find_sub pat cs))"

text \<open>Length of the rest of a number after its first digit.\<close>

fun number_rest :: "bool \<Rightarrow> string \<Rightarrow> nat" where
  "number_rest seen_dot [] = 0"
| "number_rest seen_dot (c # cs) =
     (if is_digit c then Suc (number_rest seen_dot cs)
      else if c = CHR ''.'' \<and> \<not> seen_dot then Suc (number_rest True cs)
      else 0)"

text \<open>
  What the scanner finds at the start of a non-empty text: a stretch of \<open>n + 1\<close> characters without a
  token (with its normalised form), a token of \<open>n + 1\<close> characters, or an incomplete structure.
\<close>

datatype lexeme = Skip nat string | Token token_kind nat string | Broken

definition line_comment :: "char \<Rightarrow> string \<Rightarrow> lexeme" where
  "line_comment c cs =
     (let n = 1 + length (takeWhile (\<lambda>x. x \<noteq> CR \<and> x \<noteq> LF) (drop 1 cs))
      in Skip n (append_masked (c # take n cs)))"

definition block_comment :: "char \<Rightarrow> string \<Rightarrow> lexeme" where
  "block_comment c cs =
     (case find_sub ''*/'' (drop 1 cs) of
        None \<Rightarrow> Broken
      | Some k \<Rightarrow> if contains (take k (drop 1 cs)) ''/*'' then Broken
          else Skip (k + 3) (append_masked (c # take (k + 3) cs)))"

definition quoted_literal :: "char \<Rightarrow> string \<Rightarrow> lexeme" where
  "quoted_literal c cs =
     (let triple = starts_with (c # cs) [c, c, c];
          d = (if triple then 3 else 1)
      in case consume_quoted c triple (drop (d - 1) cs) of
           None \<Rightarrow> Broken
         | Some n \<Rightarrow>
           let lit = c # take (d - 1 + n) cs
           in Token String (d - 1 + n)
                (take d lit @ append_masked (take (length lit - d - d) (drop d lit)) @ drop (length lit - d) lit))"

definition next_lexeme :: "char \<Rightarrow> string \<Rightarrow> lexeme" where
  "next_lexeme c cs =
     (if is_space c then Skip 0 [c]
      else if c = CHR ''/'' \<and> starts_with cs ''/'' then line_comment c cs
      else if c = CHR ''/'' \<and> starts_with cs ''*'' then block_comment c cs
      else if c = CHR 0x27 \<or> c = CHR 0x22 then quoted_literal c cs
      else if is_identifier_start c then
        (let n = length (takeWhile is_identifier_part cs) in Token Identifier n (c # take n cs))
      else if is_digit c then
        (let n = number_rest False cs in Token Number n (c # take n cs))
      else if c \<in> set SAFE_PUNCTUATION then Token Punctuation 0 [c]
      else Token Unknown 0 [c])"

definition skip_text :: "string \<Rightarrow> GremlinLexResult \<Rightarrow> GremlinLexResult" where
  "skip_text nm r = r\<lparr>lx_normalized := nm @ lx_normalized r\<rparr>"

definition add_token :: "GremlinToken \<Rightarrow> string \<Rightarrow> GremlinLexResult \<Rightarrow> GremlinLexResult" where
  "add_token t nm r = r\<lparr>lx_tokens := t # lx_tokens r, lx_normalized := nm @ lx_normalized r\<rparr>"

text \<open>Evaluation takes a result apart only once it has been computed.\<close>

lemma add_token_code [code]:
  "add_token t nm \<lparr>lx_tokens = ts, lx_valid = v, lx_normalized = m\<rparr> =
     \<lparr>lx_tokens = t # ts, lx_valid = v, lx_normalized = nm @ m\<rparr>"
  by (simp add: add_token_def)

lemma skip_text_code [code]:
  "skip_text nm \<lparr>lx_tokens = ts, lx_valid = v, lx_normalized = m\<rparr> =
     \<lparr>lx_tokens = ts, lx_valid = v, lx_normalized = nm @ m\<rparr>"
  by (simp add: skip_text_def)

function lex :: "nat \<Rightarrow> string \<Rightarrow> GremlinLexResult" where
  "lex i [] = \<lparr>lx_tokens = [], lx_valid = True, lx_normalized = []\<rparr>"
| "lex i (c # cs) =
     (case next_lexeme c cs of
        Broken \<Rightarrow> \<lparr>lx_tokens = [], lx_valid = False, lx_normalized = append_masked (c # cs)\<rparr>
      | Skip n nm \<Rightarrow> skip_text nm (lex (i + Suc n) (drop n cs))
      | Token k n nm \<Rightarrow>
          add_token \<lparr>tk_kind = k, tk_value = c # take n cs, tk_start = i, tk_end = i + Suc n\<rparr> nm
            (lex (i + Suc n) (drop n cs)))"
  by pat_completeness auto
termination
  by (relation "measure (\<lambda>(i, s). length s)") auto

lemma lex_result_simps [simp]:
  "lx_tokens (skip_text nm r) = lx_tokens r" "lx_tokens (add_token t nm r) = t # lx_tokens r"
  "lx_normalized (skip_text nm r) = nm @ lx_normalized r"
  "lx_normalized (add_token t nm r) = nm @ lx_normalized r"
  by (simp_all add: skip_text_def add_token_def)

definition lex_gremlin_query :: "string \<Rightarrow> GremlinLexResult" where
  "lex_gremlin_query query = lex 0 query"

section \<open>Token adjacency\<close>

definition value_kind :: "token_kind \<Rightarrow> bool" where
  "value_kind k \<longleftrightarrow> k \<in> {Identifier, Number, String}"

definition opener :: "string \<Rightarrow> bool" where
  "opener s \<longleftrightarrow> close_of s \<noteq> None"

definition closer :: "string \<Rightarrow> bool" where
  "closer s \<longleftrightarrow> open_of s \<noteq> None"

text \<open>The test on two neighbours that does not look at the stack.\<close>

definition bad_neighbours :: "GremlinToken \<Rightarrow> GremlinToken \<Rightarrow> bool" where
  "bad_neighbours p c \<longleftrightarrow>
     (closer (tk_value p) \<and> tk_value c \<notin> {''.'', '','', '')'', '']'', [CHR 0x7D]})
   \<or> (tk_kind p \<in> {Number, String} \<and> (value_kind (tk_kind c) \<or> opener (tk_value c)))
   \<or> (tk_kind p = Identifier \<and> value_kind (tk_kind c))
   \<or> (tk_kind p = Identifier \<and> lower (tk_value p) \<in> set ALLOWED_ARG_TOKENS \<and> opener (tk_value c))"

text \<open>The body of the loop over the tokens after the first; \<open>rest\<close> are the tokens after \<open>c\<close>.\<close>

fun adjacency_loop :: "string list \<Rightarrow> GremlinToken \<Rightarrow> GremlinToken list \<Rightarrow> bool" where
  "adjacency_loop stack p [] = False"
| "adjacency_loop stack p (c # rest) =
     (let pv = tk_value p; cv = tk_value c;
          nv = (case rest of [] \<Rightarrow> None | n # _ \<Rightarrow> Some (tk_value n));
          go = (\<lambda>_::unit. adjacency_loop
            (if opener cv then cv # stack else if closer cv then tl stack else stack) c rest)
      in if bad_neighbours p c then True
         else if cv = '','' \<and> (stack = [] \<or> pv \<in> {''('', ''['', [CHR 0x7B], '','', '':''}) then True
         else if cv = '','' \<and> (nv = None \<or> the nv \<in> {'','', '':'', '')'', '']'', [CHR 0x7D]}) then True
         else if cv = '':'' \<and> (stack = [] \<or> hd stack \<noteq> ''['') then True
         else if cv = '':'' \<and> pv \<in> {'','', '':'', ''('', [CHR 0x7B]} then True
         else if cv = '':'' \<and> nv = None then True
         else if cv = '':'' \<and> pv = ''['' then the nv \<noteq> '']''
         else if cv = '':'' \<and> the nv \<in> {'','', '':'', '')'', [CHR 0x7D], '']''} then True
         else if cv = ''-'' \<and> (case rest of [] \<Rightarrow> True | n # _ \<Rightarrow> tk_kind n \<noteq> Number) then True
         else go ())"

definition has_invalid_token_adjacency :: "GremlinToken list \<Rightarrow> bool" where
  "has_invalid_token_adjacency tokens =
     (case tokens of [] \<Rightarrow> False | t # ts \<Rightarrow> adjacency_loop [] t ts)"

section \<open>Token analysis\<close>

record GremlinTokenAnalysis =
  an_methods :: "string list"
  an_write :: bool
  an_uncertain :: bool

text \<open>The state of the loop of \<open>_analyze_tokens\<close>.\<close>

record analysis_state =
  st_methods :: "string list"
  st_write :: bool
  st_uncertain :: bool
  st_stack :: "string list"

definition write_name :: "string \<Rightarrow> bool" where
  "write_name s \<longleftrightarrow> s \<in> set WRITE_METHODS \<or> s = ''property'' \<or> s = ''iterate''"

definition has_marker :: "string \<Rightarrow> bool" where
  "has_marker s \<longleftrightarrow> list_ex (contains s) DYNAMIC_MARKERS"

definition REJECTED_PUNCTUATION :: "string list" where
  "REJECTED_PUNCTUATION = ['';'', ''+'', ''='', ''?'', ''!'', ''*'', ''%'', ''/'']"

text \<open>One iteration: \<open>prev\<close> and \<open>next\<close> are the neighbours of the token.\<close>

definition analyze_token ::
  "GremlinToken option \<Rightarrow> GremlinToken \<Rightarrow> GremlinToken option \<Rightarrow> analysis_state \<Rightarrow> analysis_state" where
  "analyze_token prev t nxt s =
     (let v = tk_value t; low = lower v;
          doubt = s\<lparr>st_uncertain := True\<rparr>;
          is_member = (case prev of None \<Rightarrow> False | Some p \<Rightarrow> tk_value p = ''.'');
          is_call = (case nxt of None \<Rightarrow> False | Some n \<Rightarrow> tk_value n = ''('')
      in if tk_kind t = Unknown then doubt
         else if tk_kind t = String \<and> has_marker v then doubt
         else if tk_kind t = Punctuation then
           (if opener v then s\<lparr>st_stack := v # st_stack s\<rparr>
            else if closer v then
              (case st_stack s of [] \<Rightarrow> doubt
               | o' # st \<Rightarrow> s\<lparr>st_stack := st, st_uncertain := st_uncertain s \<or> Some o' \<noteq> open_of v\<rparr>)
            else if v \<in> set REJECTED_PUNCTUATION then doubt
            else s)
         else if tk_kind t \<noteq> Identifier then s
         else if is_member then
           (if \<not> is_call then doubt\<lparr>st_write := st_write s \<or> write_name low\<rparr>
            else s\<lparr>st_methods := st_methods s @ [low], st_write := st_write s \<or> write_name low\<rparr>)
         else if is_call then
           (if low \<in> set ANONYMOUS_READ_METHODS then s\<lparr>st_methods := st_methods s @ [low]\<rparr>
            else if write_name low then s\<lparr>st_write := True\<rparr>
            else doubt)
         else if prev = None \<and> low = ''g'' then s
         else if low \<in> set ALLOWED_ARG_TOKENS then s
         else doubt)"

fun analyze_loop :: "GremlinToken option \<Rightarrow> GremlinToken list \<Rightarrow> analysis_state \<Rightarrow> analysis_state" where
  "analyze_loop prev [] s = s"
| "analyze_loop prev (t # ts) s =
     analyze_loop (Some t) ts (analyze_token prev t (case ts of [] \<Rightarrow> None | n # _ \<Rightarrow> Some n) s)"

text \<open>The read contract: the query starts with \<open>g.V(\<close> or \<open>g.E(\<close>.\<close>

definition rooted :: "GremlinToken list \<Rightarrow> bool" where
  "rooted tokens = (case tokens of
      a # b # c # d # _ \<Rightarrow> tk_kind a = Identifier \<and> lower (tk_value a) = ''g'' \<and> tk_value b = ''.'' \<and>
        tk_kind c = Identifier \<and> lower (tk_value c) \<in> {''v'', ''e''} \<and> tk_value d = ''(''
    | _ \<Rightarrow> False)"

fun members_named :: "GremlinToken list \<Rightarrow> bool" where
  "members_named [] = True"
| "members_named (t # ts) =
     ((tk_value t = ''.'' \<longrightarrow> (case ts of [] \<Rightarrow> False | n # _ \<Rightarrow> tk_kind n = Identifier)) \<and> members_named ts)"

definition finish_analysis :: "GremlinLexResult \<Rightarrow> analysis_state \<Rightarrow> GremlinTokenAnalysis" where
  "finish_analysis lexed s =
     \<lparr>an_methods = st_methods s, an_write = st_write s,
      an_uncertain = st_uncertain s \<or> st_stack s \<noteq> [] \<or> \<not> rooted (lx_tokens lexed)
        \<or> \<not> members_named (lx_tokens lexed) \<or> has_marker (lx_normalized lexed)
        \<or> list_ex (\<lambda>t. tk_value t = [CHR 0x7B] \<or> tk_value t = [CHR 0x7D]) (lx_tokens lexed)\<rparr>"

definition analyze_tokens :: "GremlinLexResult \<Rightarrow> GremlinTokenAnalysis" where
  "analyze_tokens lexed =
     finish_analysis lexed (analyze_loop None (lx_tokens lexed) \<lparr>st_methods = [], st_write = False,
        st_uncertain = (\<not> lx_valid lexed \<or> lx_tokens lexed = [] \<or> has_invalid_token_adjacency (lx_tokens lexed)),
        st_stack = []\<rparr>)"

section \<open>Classification and decision\<close>

datatype GremlinSafety = safe | unsafe | uncertain

definition classify_analysis :: "GremlinTokenAnalysis \<Rightarrow> GremlinSafety" where
  "classify_analysis a =
     (if an_write a then unsafe
      else if an_uncertain a then uncertain
      else if list_ex (\<lambda>m. m \<notin> set READ_METHODS) (an_methods a) then uncertain
      else safe)"

definition classify_gremlin_read_safety :: "string \<Rightarrow> GremlinSafety" where
  "classify_gremlin_read_safety query =
     (if strip query = [] then uncertain
      else classify_analysis (analyze_tokens (lex_gremlin_query query)))"

definition is_safe_gremlin_read :: "string \<Rightarrow> bool" where
  "is_safe_gremlin_read query \<longleftrightarrow> classify_gremlin_read_safety query = safe"

record GremlinDecision =
  gd_allowed :: bool
  gd_classification :: GremlinSafety
  gd_reason :: string
  gd_error_type :: "string option"
  gd_suggestion :: "string option"

definition check_read :: "string \<Rightarrow> GremlinDecision" where
  "check_read query = (case classify_gremlin_read_safety query of
      safe \<Rightarrow> \<lparr>gd_allowed = True, gd_classification = safe,
        gd_reason = ''Query is a known read-only traversal.'', gd_error_type = None, gd_suggestion = None\<rparr>
    | unsafe \<Rightarrow> \<lparr>gd_allowed = False, gd_classification = unsafe,
        gd_reason = ''Query contains write or mutate operations.'', gd_error_type = Some ''UNSAFE_GREMLIN'',
        gd_suggestion = Some ''Use execute_gremlin_write for write operations when write access is enabled.''\<rparr>
    | uncertain \<Rightarrow> \<lparr>gd_allowed = False, gd_classification = uncertain,
        gd_reason = ''Query contains unknown or ambiguous steps; cannot confirm read-only safety.'',
        gd_error_type = Some ''UNSAFE_GREMLIN'',
        gd_suggestion = Some ''Use a clearly read-only Gremlin traversal starting with g.V() or g.E().''\<rparr>)"

section \<open>What the scanner preserves\<close>

lemma consume_quoted_bounds: "consume_quoted q triple s = Some n \<Longrightarrow> (if triple then 3 else 1) \<le> n \<and> n \<le> length s"
proof (induction q triple s arbitrary: n rule: consume_quoted.induct)
  case (2 q triple c cs)
  show ?case
  proof (cases "triple \<and> c \<noteq> CHR 0x5C \<and> starts_with (c # cs) [q, q, q]")
    case True
    then show ?thesis using 2(4) starts_with_length [of "c # cs" "[q, q, q]"] by auto
  next
    case False
    then show ?thesis using 2 by (fastforce split: if_splits list.splits)
  qed
qed simp

lemma find_sub_bound: "find_sub pat s = Some k \<Longrightarrow> k + length pat \<le> length s"
  by (induction s arbitrary: k) (fastforce dest: starts_with_length split: if_splits)+

lemma number_rest_bound: "number_rest d s \<le> length s"
  by (induction d s rule: number_rest.induct) auto

text \<open>A stretch and its normalised form have the same length, inside the text, and the same lines.\<close>

definition same_shape :: "string \<Rightarrow> string \<Rightarrow> bool" where
  "same_shape s t \<longleftrightarrow> length s = length t \<and> (\<forall>i < length s. s ! i = LF \<longleftrightarrow> t ! i = LF)"

lemma same_shape_refl [simp]: "same_shape s s"
  by (simp add: same_shape_def)

lemma same_shape_masked [simp]: "same_shape s (append_masked s)"
  by (simp add: same_shape_def append_masked_def LF_def)

lemma same_shape_append: "same_shape s s' \<Longrightarrow> same_shape t t' \<Longrightarrow> same_shape (s @ t) (s' @ t')"
  by (auto simp: same_shape_def nth_append)

lemma masked_literal:
  assumes "2 * d \<le> length lit"
  shows "same_shape lit (take d lit @ append_masked (take (length lit - d - d) (drop d lit)) @ drop (length lit - d) lit)"
proof -
  let ?m = "take (length lit - d - d) (drop d lit)"
  have "drop (length lit - d - d) (drop d lit) = drop (length lit - d) lit"
    using assms by (simp add: drop_drop)
  then have "lit = take d lit @ ?m @ drop (length lit - d) lit"
    using append_take_drop_id [of d lit] append_take_drop_id [of "length lit - d - d" "drop d lit"] by metis
  moreover have "same_shape (take d lit @ ?m @ drop (length lit - d) lit)
     (take d lit @ append_masked ?m @ drop (length lit - d) lit)"
    by (intro same_shape_append) simp_all
  ultimately show ?thesis by simp
qed

lemma takeWhile_bound: "length (takeWhile P xs) \<le> length xs"
  by (rule length_takeWhile_le)

text \<open>What a lexeme at the start of \<open>c # cs\<close> has to satisfy.\<close>

fun lexeme_ok :: "char \<Rightarrow> string \<Rightarrow> lexeme \<Rightarrow> bool" where
  "lexeme_ok c cs (Skip n nm) = (n \<le> length cs \<and> same_shape (c # take n cs) nm)"
| "lexeme_ok c cs (Token k n nm) = (n \<le> length cs \<and> same_shape (c # take n cs) nm)"
| "lexeme_ok c cs Broken = True"

lemma line_comment_ok: "starts_with cs ''/'' \<Longrightarrow> lexeme_ok c cs (line_comment c cs)"
  using takeWhile_bound [of "\<lambda>x. x \<noteq> CR \<and> x \<noteq> LF" "drop 1 cs"] starts_with_length [of cs "''/''"]
  by (simp add: line_comment_def Let_def)

lemma block_comment_ok: "starts_with cs ''*'' \<Longrightarrow> lexeme_ok c cs (block_comment c cs)"
  using find_sub_bound [of "''*/''" "drop 1 cs"] starts_with_length [of cs "''*''"]
  by (auto simp: block_comment_def split: option.split)

lemma quoted_literal_ok: "lexeme_ok c cs (quoted_literal c cs)"
proof -
  let ?triple = "starts_with (c # cs) [c, c, c]"
  let ?d = "if ?triple then 3 else 1 :: nat"
  have two: "?d - 1 \<le> length cs" using starts_with_length [of "c # cs" "[c, c, c]"] by auto
  have "?d - 1 + m \<le> length cs \<and> same_shape (c # take (?d - 1 + m) cs)
      (let lit = c # take (?d - 1 + m) cs in
        take ?d lit @ append_masked (take (length lit - ?d - ?d) (drop ?d lit)) @ drop (length lit - ?d) lit)"
    if "consume_quoted c ?triple (drop (?d - 1) cs) = Some m" for m
  proof -
    have m: "?d \<le> m" "m \<le> length cs - (?d - 1)"
      using consume_quoted_bounds [OF that] by (auto split: if_splits)
    have len: "?d - 1 + m \<le> length cs" using m two by linarith
    have "2 * ?d \<le> length (c # take (?d - 1 + m) cs)" using m len by simp
    then show ?thesis
      using masked_literal [of ?d "c # take (?d - 1 + m) cs"] len unfolding Let_def by blast
  qed
  then show ?thesis
    unfolding quoted_literal_def Let_def by (auto split: option.split simp del: length_take take_Suc_Cons)
qed

lemma next_lexeme_ok: "lexeme_ok c cs (next_lexeme c cs)"
  by (simp add: next_lexeme_def Let_def line_comment_ok block_comment_ok quoted_literal_ok
        length_takeWhile_le number_rest_bound)

lemma lex_shape: "same_shape s (lx_normalized (lex i s))"
proof (induction i s rule: lex.induct)
  case (2 i c cs)
  have split: "same_shape (c # cs) (nm @ t)" if "same_shape (c # take n cs) nm" "same_shape (drop n cs) t" for n nm t
    using same_shape_append [OF that] by simp
  show ?case
    using 2 next_lexeme_ok [of c cs] split by (cases "next_lexeme c cs") (auto simp: Let_def intro: split)
qed simp

section \<open>What a safe query looks like\<close>

text \<open>
  The specification of a read traversal. Every identifier has one of four roles: a member that is
  called and is a read method, one of the four anonymous steps, the source \<open>g\<close> at the very start, or
  a literal \<open>true\<close>, \<open>false\<close>, \<open>null\<close>. Brackets nest.
\<close>

definition explained :: "GremlinToken option \<Rightarrow> GremlinToken \<Rightarrow> GremlinToken option \<Rightarrow> bool" where
  "explained prev t nxt \<longleftrightarrow>
     (let low = lower (tk_value t);
          called = (case nxt of None \<Rightarrow> False | Some n \<Rightarrow> tk_value n = ''('')
      in tk_kind t \<noteq> Unknown \<and> (tk_kind t = String \<longrightarrow> \<not> has_marker (tk_value t)) \<and>
         (tk_kind t = Identifier \<longrightarrow>
            (if (case prev of None \<Rightarrow> False | Some p \<Rightarrow> tk_value p = ''.'')
             then called \<and> low \<in> set READ_METHODS
             else if called then low \<in> set ANONYMOUS_READ_METHODS
             else (prev = None \<and> low = ''g'') \<or> low \<in> set ALLOWED_ARG_TOKENS)))"

fun read_tokens :: "GremlinToken option \<Rightarrow> GremlinToken list \<Rightarrow> bool" where
  "read_tokens prev [] = True"
| "read_tokens prev (t # ts) =
     (explained prev t (case ts of [] \<Rightarrow> None | n # _ \<Rightarrow> Some n) \<and> read_tokens (Some t) ts)"

fun nested :: "string list \<Rightarrow> GremlinToken list \<Rightarrow> bool" where
  "nested st [] = (st = [])"
| "nested st (t # ts) =
     (if tk_kind t = Punctuation \<and> opener (tk_value t) then nested (tk_value t # st) ts
      else if tk_kind t = Punctuation \<and> closer (tk_value t) then
        (case st of [] \<Rightarrow> False | o' # st' \<Rightarrow> Some o' = open_of (tk_value t) \<and> nested st' ts)
      else nested st ts)"

definition read_traversal :: "GremlinToken list \<Rightarrow> bool" where
  "read_traversal ts \<longleftrightarrow> rooted ts \<and> read_tokens None ts \<and> nested [] ts \<and> members_named ts"

lemma analyze_token_doubt: "st_uncertain s \<Longrightarrow> st_uncertain (analyze_token p t n s)"
  by (cases "st_stack s"; cases "tk_kind t") (simp_all add: analyze_token_def Let_def)

lemma analyze_token_write: "st_write s \<Longrightarrow> st_write (analyze_token p t n s)"
  by (cases "st_stack s"; cases "tk_kind t") (simp_all add: analyze_token_def Let_def)

lemma analyze_token_methods: "set (st_methods s) \<subseteq> set (st_methods (analyze_token p t n s))"
  by (cases "st_stack s"; cases "tk_kind t") (simp_all add: analyze_token_def Let_def subset_insertI2 subset_iff)

lemma analyze_loop_mono:
  "st_uncertain s \<Longrightarrow> st_uncertain (analyze_loop p ts s)"
  "st_write s \<Longrightarrow> st_write (analyze_loop p ts s)"
  "set (st_methods s) \<subseteq> set (st_methods (analyze_loop p ts s))"
  by (induction p ts s rule: analyze_loop.induct)
    (use analyze_token_doubt analyze_token_write analyze_token_methods in fastforce)+

lemma analyze_token_sound:
  assumes "s' = analyze_token p t n s" "\<not> st_uncertain s'" "set (st_methods s') \<subseteq> set READ_METHODS" "\<not> st_write s'"
  shows "explained p t n \<and> st_uncertain s = False \<and>
    (if tk_kind t = Punctuation \<and> opener (tk_value t) then st_stack s' = tk_value t # st_stack s
     else if tk_kind t = Punctuation \<and> closer (tk_value t)
       then \<exists>o'. st_stack s = o' # st_stack s' \<and> Some o' = open_of (tk_value t)
     else st_stack s' = st_stack s)"
proof (cases "tk_kind t")
  case Punctuation
  then show ?thesis
    using assms by (cases "st_stack s")
      (auto simp: analyze_token_def explained_def Let_def split: if_splits)
next
  case Identifier
  then show ?thesis
    using assms by (auto simp: analyze_token_def explained_def Let_def split: if_splits)
qed (use assms in \<open>auto simp: analyze_token_def explained_def Let_def split: if_splits\<close>)

lemma analyze_loop_sound:
  assumes "\<not> st_uncertain (analyze_loop p ts s)" "set (st_methods (analyze_loop p ts s)) \<subseteq> set READ_METHODS"
    and "\<not> st_write (analyze_loop p ts s)" "st_stack (analyze_loop p ts s) = []"
  shows "read_tokens p ts \<and> nested (st_stack s) ts \<and> \<not> st_uncertain s"
  using assms
proof (induction p ts s rule: analyze_loop.induct)
  case (1 p s)
  then show ?case by simp
next
  case (2 p t ts s)
  let ?n = "case ts of [] \<Rightarrow> None | n # _ \<Rightarrow> Some n"
  let ?s' = "analyze_token p t ?n s"
  have rest: "read_tokens (Some t) ts \<and> nested (st_stack ?s') ts \<and> \<not> st_uncertain ?s'"
    using 2 by simp
  have "set (st_methods ?s') \<subseteq> set READ_METHODS" "\<not> st_write ?s'"
    using analyze_loop_mono [of ?s' "Some t" ts] 2(3,4) by auto
  from analyze_token_sound [OF refl conjunct2 [OF conjunct2 [OF rest]] this] rest show ?case
    by (auto split: if_splits)
qed

lemma safe_read_traversal:
  assumes "classify_gremlin_read_safety q = safe"
  shows "lx_valid (lex_gremlin_query q) \<and> read_traversal (lx_tokens (lex_gremlin_query q)) \<and>
    \<not> has_marker (lx_normalized (lex_gremlin_query q))"
proof -
  let ?l = "lex_gremlin_query q" and ?a = "analyze_tokens (lex_gremlin_query q)"
  let ?s0 = "\<lparr>st_methods = [], st_write = False,
      st_uncertain = (\<not> lx_valid ?l \<or> lx_tokens ?l = [] \<or> has_invalid_token_adjacency (lx_tokens ?l)),
      st_stack = []\<rparr>"
  let ?s = "analyze_loop None (lx_tokens ?l) ?s0"
  have a: "\<not> an_write ?a" "\<not> an_uncertain ?a" "set (an_methods ?a) \<subseteq> set READ_METHODS"
    using assms by (auto simp: classify_gremlin_read_safety_def classify_analysis_def list_ex_iff split: if_splits)
  have s: "\<not> st_write ?s" "\<not> st_uncertain ?s" "set (st_methods ?s) \<subseteq> set READ_METHODS" "st_stack ?s = []"
    using a by (simp_all add: analyze_tokens_def finish_analysis_def)
  have "rooted (lx_tokens ?l)" "members_named (lx_tokens ?l)" "\<not> has_marker (lx_normalized ?l)"
    using a by (simp_all add: analyze_tokens_def finish_analysis_def)
  with analyze_loop_sound [OF s(2,3,1,4)] show ?thesis
    by (simp add: read_traversal_def)
qed

text \<open>A write method that is called, as a member or on its own, always shows.\<close>

lemma write_not_anonymous: "write_name m \<Longrightarrow> m \<notin> set ANONYMOUS_READ_METHODS"
  by (auto simp: write_name_def WRITE_METHODS_def ANONYMOUS_READ_METHODS_def)

lemma analyze_token_write_call:
  assumes "tk_kind t = Identifier" "write_name (lower (tk_value t))" "tk_value n = ''(''"
  shows "st_write (analyze_token p t (Some n) s)"
  using assms write_not_anonymous by (simp add: analyze_token_def Let_def)

lemma analyze_loop_write_call:
  assumes "tk_kind t = Identifier" "write_name (lower (tk_value t))" "tk_value n = ''(''"
  shows "st_write (analyze_loop p (pre @ t # n # post) s)"
proof (induction pre arbitrary: p s)
  case Nil
  show ?case
    using analyze_loop_mono(2) analyze_token_write analyze_token_write_call [OF assms] by simp
qed simp

lemma strip_nil: "strip s = [] \<longleftrightarrow> list_all is_space s"
proof -
  have "strip s = [] \<longleftrightarrow> list_all is_space (rev (dropWhile is_space s))"
    by (simp add: strip_def dropWhile_eq_Nil_conv list_all_iff)
  also have "\<dots> \<longleftrightarrow> dropWhile is_space s = []"
  proof
    assume a: "list_all is_space (rev (dropWhile is_space s))"
    show "dropWhile is_space s = []"
    proof (rule ccontr)
      assume "dropWhile is_space s \<noteq> []"
      then show False using hd_dropWhile [of is_space s] a by (auto simp: list_all_iff)
    qed
  qed (auto simp: list_all_iff dest: set_dropWhileD)
  also have "\<dots> \<longleftrightarrow> list_all is_space s" by (simp add: dropWhile_eq_Nil_conv list_all_iff)
  finally show ?thesis .
qed

lemma lex_blank: "list_all is_space s \<Longrightarrow> lx_tokens (lex i s) = []"
  by (induction s arbitrary: i) (simp_all add: next_lexeme_def Let_def)

section \<open>Tokens are slices of the query\<close>

lemma next_lexeme_length: "next_lexeme c cs = Skip n nm \<Longrightarrow> n \<le> length cs"
  "next_lexeme c cs = Token k n nm \<Longrightarrow> n \<le> length cs"
  using next_lexeme_ok [of c cs] by simp_all

lemma lex_tokens_slices:
  "t \<in> set (lx_tokens (lex i s)) \<Longrightarrow>
     i \<le> tk_start t \<and> tk_start t < tk_end t \<and> tk_end t \<le> i + length s \<and>
     tk_value t = take (tk_end t - tk_start t) (drop (tk_start t - i) s)"
proof (induction i s rule: lex.induct)
  case (2 i c cs)
  have later: "i \<le> tk_start t \<and> tk_start t < tk_end t \<and> tk_end t \<le> i + length (c # cs) \<and>
     tk_value t = take (tk_end t - tk_start t) (drop (tk_start t - i) (c # cs))"
    if "n \<le> length cs" "i + Suc n \<le> tk_start t \<and> tk_start t < tk_end t \<and> tk_end t \<le> i + Suc n + length (drop n cs) \<and>
      tk_value t = take (tk_end t - tk_start t) (drop (tk_start t - (i + Suc n)) (drop n cs))" for n
  proof -
    have "drop (tk_start t - (i + Suc n)) (drop n cs) = drop (tk_start t - i) (c # cs)"
    proof -
      have "tk_start t - i = Suc (tk_start t - (i + Suc n) + n)" using that by linarith
      then show ?thesis by (simp add: drop_drop)
    qed
    then show ?thesis using that by simp
  qed
  show ?case
  proof (cases "next_lexeme c cs")
    case (Skip n nm)
    then show ?thesis
      using 2(1) [OF Skip] 2(3) next_lexeme_length(1) [OF Skip] later [of n] by (simp add: Let_def)
  next
    case (Token k n nm)
    then show ?thesis
      using 2(2) [OF Token] 2(3) next_lexeme_length(2) [OF Token] later [of n]
      by (auto simp: Let_def)
  next
    case Broken
    then show ?thesis using 2(3) by simp
  qed
qed simp

lemma lex_tokens_ordered:
  "sorted_wrt (\<lambda>a b. tk_end a \<le> tk_start b) (lx_tokens (lex i s))"
proof (induction i s rule: lex.induct)
  case (2 i c cs)
  show ?case
  proof (cases "next_lexeme c cs")
    case (Token k n nm)
    then show ?thesis
      using 2(2) [OF Token] lex_tokens_slices [of _ "i + Suc n" "drop n cs"] by (auto simp: Let_def)
  qed (use 2 in \<open>auto simp: Let_def\<close>)
qed simp

section \<open>Cost warnings\<close>

definition MAX_REPEAT_TIMES :: int where "MAX_REPEAT_TIMES = 10"

text \<open>The environment variable, \<open>None\<close> when it is not set.\<close>

definition parse_repeat_threshold :: "string option \<Rightarrow> int" where
  "parse_repeat_threshold value = (case value of None \<Rightarrow> MAX_REPEAT_TIMES
     | Some v \<Rightarrow> if strip v = [] then MAX_REPEAT_TIMES
         else (case py_int_of_str v of None \<Rightarrow> MAX_REPEAT_TIMES
           | Some n \<Rightarrow> if n \<le> 0 then MAX_REPEAT_TIMES else n))"

text \<open>\<open>re.search(r"times\\(\\s*(\\d+)\\s*\\)", text)\<close>: the digits of the first match.\<close>

definition times_here :: "string \<Rightarrow> string option" where
  "times_here s =
     (if \<not> starts_with s ''times('' then None
      else let r = dropWhile is_space (drop 6 s); ds = takeWhile is_digit r;
               r' = dropWhile is_space (dropWhile is_digit r)
        in if ds \<noteq> [] \<and> starts_with r' '')'' then Some ds else None)"

fun search_times :: "string \<Rightarrow> string option" where
  "search_times [] = None"
| "search_times (c # cs) = (case times_here (c # cs) of Some ds \<Rightarrow> Some ds | None \<Rightarrow> search_times cs)"

definition unbounded_warning :: string where
  "unbounded_warning = ''Unbounded traversal: result set is not limited; consider adding .limit() or .range().''"

definition repeat_warning :: string where
  "repeat_warning = ''repeat() without times() may recurse without an explicit depth bound.''"

definition depth_warning :: "int \<Rightarrow> int \<Rightarrow> string" where
  "depth_warning depth m = ''repeat().times(n) depth '' @ int_str depth @ '' exceeds recommended maximum ''
     @ int_str m @ ''.''"

definition heavy_warning :: string where
  "heavy_warning = ''Heavy step (path/group/profile) without limit/range may be expensive.''"

text \<open>The list holds no text twice, so \<open>dict.fromkeys\<close> keeps it as it is.\<close>

definition gremlin_cost_warnings :: "string option \<Rightarrow> string \<Rightarrow> string list" where
  "gremlin_cost_warnings threshold query =
     (let plain = lx_normalized (lex_gremlin_query query);
          methods = map lower (an_methods (analyze_tokens (lex_gremlin_query plain)));
          limit = parse_repeat_threshold threshold
      in (if set methods \<inter> {''limit'', ''range'', ''count''} = {} then [unbounded_warning] else []) @
         (if ''repeat'' \<in> set methods then
            (if ''times'' \<notin> set methods then [repeat_warning]
             else case search_times plain of None \<Rightarrow> []
               | Some ds \<Rightarrow> if digits_value ds > limit then [depth_warning (digits_value ds) limit] else [])
          else []) @
         (if set methods \<inter> {''path'', ''group'', ''profile''} \<noteq> {} \<and> set methods \<inter> {''limit'', ''range''} = {}
          then [heavy_warning] else []))"

section \<open>Properties\<close>

text \<open>C24. A query that is classified as safe is a read traversal: it scans completely, starts with
  \<open>g.V(\<close> or \<open>g.E(\<close>, its brackets nest, every member is a call of a known read method, every other
  call is one of the four anonymous steps, and every other name is a literal.\<close>

theorem safe_query_is_read_traversal:
  assumes "classify_gremlin_read_safety q = safe"
  shows "lx_valid (lex_gremlin_query q) \<and> read_traversal (lx_tokens (lex_gremlin_query q)) \<and>
    \<not> has_marker (lx_normalized (lex_gremlin_query q))"
  by (rule safe_read_traversal [OF assms])

definition demo_query :: string where
  "demo_query = ''g.V().hasLabel('' @ [CHR 0x27] @ ''drop()'' @ [CHR 0x27] @ '').where(inV()).limit(10)''"

theorem safe_query_is_read_traversal_witness: "read_traversal (lx_tokens (lex_gremlin_query demo_query))"
proof -
  have "classify_gremlin_read_safety demo_query = safe" by code_simp
  then show ?thesis by (rule conjunct1 [OF conjunct2 [OF safe_query_is_read_traversal]])
qed

text \<open>A call of a write method anywhere in the code of a query, in any letter case, as a member
  or on its own, makes the query unsafe, whatever else the query contains.\<close>

theorem write_call_is_unsafe:
  assumes "lx_tokens (lex_gremlin_query q) = pre @ t # n # post"
    and "tk_kind t = Identifier" "write_name (lower (tk_value t))" "tk_value n = ''(''"
  shows "classify_gremlin_read_safety q = unsafe \<and> \<not> gd_allowed (check_read q)"
proof -
  have "strip q \<noteq> []"
    using assms(1) lex_blank [of q 0] by (auto simp: strip_nil lex_gremlin_query_def)
  moreover have "an_write (analyze_tokens (lex_gremlin_query q))"
    using analyze_loop_write_call [OF assms(2-4)] by (simp add: analyze_tokens_def finish_analysis_def assms(1))
  ultimately have "classify_gremlin_read_safety q = unsafe"
    by (simp add: classify_gremlin_read_safety_def classify_analysis_def)
  then show ?thesis by (simp add: check_read_def)
qed

theorem write_call_is_unsafe_witness: "\<not> gd_allowed (check_read ''g.V().Drop()'')"
proof -
  let ?ts = "lx_tokens (lex_gremlin_query ''g.V().Drop()'')"
  have "?ts = take 6 ?ts @ ?ts ! 6 # ?ts ! 7 # drop 8 ?ts" by code_simp
  moreover have "tk_kind (?ts ! 6) = Identifier" by code_simp
  moreover have "write_name (lower (tk_value (?ts ! 6)))" by code_simp
  moreover have "tk_value (?ts ! 7) = ''(''" by code_simp
  ultimately show ?thesis using write_call_is_unsafe by blast
qed

text \<open>The scanner neither drops nor moves a character: the normalised text has the length and the
  line breaks of the query, and the tokens are non-empty slices of the query in their order.\<close>

theorem scanner_keeps_positions:
  "same_shape q (lx_normalized (lex_gremlin_query q)) \<and>
   sorted_wrt (\<lambda>a b. tk_end a \<le> tk_start b) (lx_tokens (lex_gremlin_query q)) \<and>
   list_all (\<lambda>t. tk_start t < tk_end t \<and> tk_end t \<le> length q \<and>
     tk_value t = take (tk_end t - tk_start t) (drop (tk_start t) q)) (lx_tokens (lex_gremlin_query q))"
  using lex_shape [of q 0] lex_tokens_ordered [of 0 q] lex_tokens_slices [of _ 0 q]
  by (simp add: lex_gremlin_query_def list_all_iff)

end
