(* ===== verification/Gremlin_Scanner.thy ===== *)
theory Gremlin_Scanner
  imports Gremlin_Policy "HOL-Library.Monad_Syntax"
begin

text \<open>
  The scanner of \<open>hugegraph_mcp/gremlin_policy.py\<close> with the loops the code has: an index into the whole
  query that every iteration moves, the two lists that grow, and the \<open>break\<close>s. A loop is a
  \<open>partial_function\<close>, whose value is \<open>None\<close> as long as nothing shows that it ends. The lemmas show that every loop ends
  and leaves the index where the structural functions of \<open>Gremlin_Policy\<close> say.
\<close>

section \<open>Scanning by index\<close>

text \<open>\<open>query[i:j]\<close> and \<open>query.startswith(p, i)\<close> with indices that are not negative.\<close>

definition slice :: "string \<Rightarrow> nat \<Rightarrow> nat \<Rightarrow> string" where
  "slice query i j = take (j - i) (drop i query)"

definition startswith_at :: "string \<Rightarrow> string \<Rightarrow> nat \<Rightarrow> bool" where
  "startswith_at query p i \<longleftrightarrow> starts_with (drop i query) p"

text \<open>\<open>query.find(pat, i)\<close> for an index within the query; the code tests the result for being negative.\<close>

definition find_from :: "string \<Rightarrow> string \<Rightarrow> nat \<Rightarrow> nat option" where
  "find_from query pat i = map_option (\<lambda>k. i + k) (find_sub pat (drop i query))"

text \<open>\<open>while index < length and P(query[index]): index += 1\<close>.\<close>

partial_function (option) advance_while :: "(char \<Rightarrow> bool) \<Rightarrow> string \<Rightarrow> nat \<Rightarrow> nat option" where
  "advance_while P query index =
     (if index < length query \<and> P (query ! index) then advance_while P query (index + 1) else Some index)"

text \<open>The loop of \<open>_consume_quoted\<close>: the inner option is the code's result.\<close>

partial_function (option) consume_quoted_loop ::
  "string \<Rightarrow> char \<Rightarrow> bool \<Rightarrow> nat \<Rightarrow> nat option option" where
  "consume_quoted_loop query quote triple index =
     (if index < length query then
        (let c = query ! index in
         if c = CHR 0x5C then
           (if length query \<le> index + 1 then Some None else consume_quoted_loop query quote triple (index + 2))
         else if triple then
           (if startswith_at query [quote, quote, quote] index then Some (Some (index + 3))
            else consume_quoted_loop query quote triple (index + 1))
         else if c = quote then Some (Some (index + 1))
         else if c = CR \<or> c = LF then Some None
         else consume_quoted_loop query quote triple (index + 1))
      else Some None)"

definition consume_quoted_at :: "string \<Rightarrow> nat \<Rightarrow> nat option option" where
  "consume_quoted_at query start =
     (let quote = query ! start;
          triple = startswith_at query [quote, quote, quote] start
      in consume_quoted_loop query quote triple (start + (if triple then 3 else 1)))"

text \<open>The loop over a number after its first digit.\<close>

partial_function (option) number_loop :: "string \<Rightarrow> bool \<Rightarrow> nat \<Rightarrow> nat option" where
  "number_loop query seen_dot index =
     (if index < length query then
        (let current = query ! index in
         if is_digit current then number_loop query seen_dot (index + 1)
         else if current = CHR ''.'' \<and> \<not> seen_dot then number_loop query True (index + 1)
         else Some index)
      else Some index)"

section \<open>The main loop\<close>

text \<open>The variables that an iteration changes; \<open>sc_valid\<close> only changes at a \<open>break\<close>.\<close>

record scan_state =
  sc_index :: nat
  sc_tokens :: "GremlinToken list"
  sc_normalized :: string
  sc_valid :: bool

text \<open>\<open>valid = False; break\<close> after the rest has been masked.\<close>

definition scan_broken :: "string \<Rightarrow> scan_state \<Rightarrow> scan_state" where
  "scan_broken query s =
     s\<lparr>sc_normalized := sc_normalized s @ append_masked (drop (sc_index s) query), sc_valid := False\<rparr>"

text \<open>A comment up to \<open>j\<close>; a token up to \<open>j\<close> with its normalised form.\<close>

definition scan_masked :: "string \<Rightarrow> nat \<Rightarrow> scan_state \<Rightarrow> scan_state" where
  "scan_masked query j s =
     s\<lparr>sc_index := j, sc_normalized := sc_normalized s @ append_masked (slice query (sc_index s) j)\<rparr>"

definition scan_token :: "string \<Rightarrow> token_kind \<Rightarrow> nat \<Rightarrow> string \<Rightarrow> scan_state \<Rightarrow> scan_state" where
  "scan_token query k j nm s =
     s\<lparr>sc_index := j, sc_normalized := sc_normalized s @ nm,
       sc_tokens := sc_tokens s @ [\<lparr>tk_kind = k, tk_value = slice query (sc_index s) j,
          tk_start = sc_index s, tk_end = j\<rparr>]\<rparr>"

definition literal_normalized :: "string \<Rightarrow> nat \<Rightarrow> nat \<Rightarrow> string" where
  "literal_normalized query start stop =
     (let c = query ! start; d = (if startswith_at query [c, c, c] start then 3 else 1)
      in slice query start (start + d) @ append_masked (slice query (start + d) (stop - d))
         @ slice query (stop - d) stop)"

text \<open>One iteration: how the loop goes on (\<open>Inr\<close>) or where it breaks (\<open>Inl\<close>).\<close>

definition scan_step :: "string \<Rightarrow> scan_state \<Rightarrow> (scan_state + scan_state) option" where
  "scan_step query s =
     (let i = sc_index s; c = query ! i;
          following = (\<lambda>x. i + 1 < length query \<and> query ! (i + 1) = x)
      in if is_space c then Some (Inr (s\<lparr>sc_index := i + 1, sc_normalized := sc_normalized s @ [c]\<rparr>))
         else if c = CHR ''/'' \<and> following (CHR ''/'') then
           do { j \<leftarrow> advance_while (\<lambda>x. x \<noteq> CR \<and> x \<noteq> LF) query (i + 2);
                Some (Inr (scan_masked query j s)) }
         else if c = CHR ''/'' \<and> following (CHR ''*'') then
           (case find_from query ''*/'' (i + 2) of
              None \<Rightarrow> Some (Inl (scan_broken query s))
            | Some e \<Rightarrow> if contains (slice query (i + 2) e) ''/*'' then Some (Inl (scan_broken query s))
                else Some (Inr (scan_masked query (e + 2) s)))
         else if c = CHR 0x27 \<or> c = CHR 0x22 then
           do { r \<leftarrow> consume_quoted_at query i;
                Some (case r of None \<Rightarrow> Inl (scan_broken query s)
                      | Some e \<Rightarrow> Inr (scan_token query String e (literal_normalized query i e) s)) }
         else if is_identifier_start c then
           do { j \<leftarrow> advance_while is_identifier_part query (i + 1);
                Some (Inr (scan_token query Identifier j (slice query i j) s)) }
         else if is_digit c then
           do { j \<leftarrow> number_loop query False (i + 1);
                Some (Inr (scan_token query Number j (slice query i j) s)) }
         else if c \<in> set SAFE_PUNCTUATION then Some (Inr (scan_token query Punctuation (i + 1) [c] s))
         else Some (Inr (scan_token query Unknown (i + 1) [c] s)))"

partial_function (option) scan_loop :: "string \<Rightarrow> scan_state \<Rightarrow> scan_state option" where
  "scan_loop query s =
     (if sc_index s < length query then
        do { r \<leftarrow> scan_step query s; case r of Inl s' \<Rightarrow> Some s' | Inr s' \<Rightarrow> scan_loop query s' }
      else Some s)"

definition lex_gremlin_query_loop :: "string \<Rightarrow> GremlinLexResult option" where
  "lex_gremlin_query_loop query =
     map_option (\<lambda>s. \<lparr>lx_tokens = sc_tokens s, lx_valid = sc_valid s, lx_normalized = sc_normalized s\<rparr>)
       (scan_loop query \<lparr>sc_index = 0, sc_tokens = [], sc_normalized = [], sc_valid = True\<rparr>)"

section \<open>The inner loops end\<close>

lemma drop_at: "i < length xs \<Longrightarrow> drop i xs = xs ! i # drop (Suc i) xs"
  by (simp add: Cons_nth_drop_Suc)

lemma drop_past: "drop i xs = c # cs \<Longrightarrow> drop (i + Suc n) xs = drop n cs"
  by (metis add.commute drop_Suc_Cons drop_drop)

lemma slice_from: "drop i query = c # cs \<Longrightarrow> slice query i (i + Suc n) = c # take n cs"
  by (simp add: slice_def)

lemma advance_while_returns: "advance_while P query i = Some (i + length (takeWhile P (drop i query)))"
proof (induction "length query - i" arbitrary: i rule: less_induct)
  case less
  show ?case
  proof (cases "i < length query \<and> P (query ! i)")
    case True
    then have "advance_while P query (i + 1) = Some (i + 1 + length (takeWhile P (drop (i + 1) query)))"
      by (intro less.hyps) auto
    with True show ?thesis by (simp add: advance_while.simps [of P query i] drop_at)
  next
    case False
    then show ?thesis by (cases "i < length query") (auto simp: advance_while.simps [of P query i] drop_at)
  qed
qed

lemma number_loop_returns: "number_loop query sd i = Some (i + number_rest sd (drop i query))"
proof (induction "length query - i" arbitrary: sd i rule: less_induct)
  case less
  then have "i < length query \<Longrightarrow> number_loop query sd' (i + 1) = Some (i + 1 + number_rest sd' (drop (i + 1) query))"
    for sd' by simp
  then show ?case
    by (cases "i < length query") (auto simp: number_loop.simps [of query sd i] drop_at Let_def)
qed

lemma consume_quoted_returns:
  "consume_quoted_loop query q triple i = Some (map_option (\<lambda>n. i + n) (consume_quoted q triple (drop i query)))"
proof (induction "length query - i" arbitrary: i rule: less_induct)
  case less
  show ?case
  proof (cases "i < length query")
    case True
    have next1: "consume_quoted_loop query q triple (i + 1)
        = Some (map_option (\<lambda>n. i + 1 + n) (consume_quoted q triple (drop (i + 1) query)))"
      and next2: "consume_quoted_loop query q triple (i + 2)
        = Some (map_option (\<lambda>n. i + 2 + n) (consume_quoted q triple (drop (i + 2) query)))"
      by (rule less.hyps, use True in simp)+
    have d1: "drop i query = query ! i # drop (i + 1) query" using True by (simp add: drop_at)
    show ?thesis
    proof (cases "query ! i = CHR 0x5C")
      case False
      with True d1 next1 show ?thesis
        by (subst consume_quoted_loop.simps; cases triple; cases "consume_quoted q triple (drop (i + 1) query)")
          (simp_all add: startswith_at_def)
    next
      case True
      show ?thesis
      proof (cases "i + 1 < length query")
        case two: True
        then have d2: "drop (i + 1) query = query ! (i + 1) # drop (i + 2) query" by (simp add: drop_at)
        show ?thesis unfolding d1 d2
          using two True next2 by (subst consume_quoted_loop.simps;
              cases triple; cases "consume_quoted q triple (drop (i + 2) query)") simp_all
      next
        case False
        with True show ?thesis
          by (simp add: d1 consume_quoted_loop.simps [of query q triple i])
      qed
    qed
  qed (simp add: consume_quoted_loop.simps [of query q triple i])
qed

section \<open>One iteration and the whole scan\<close>

lemma literal_normalized_eq:
  assumes d: "drop i query = c # cs" and t: "triple = starts_with (c # cs) [c, c, c]"
    and k: "k = (if triple then 3 else 1)" and lit: "lit = c # take (k - 1 + n) cs"
    and le: "k - 1 + n \<le> length cs" "k \<le> Suc (k - 1 + n)" "k \<le> n"
  shows "literal_normalized query i (i + Suc (k - 1 + n)) =
    take k lit @ append_masked (take (length lit - k - k) (drop k lit)) @ drop (length lit - k) lit"
proof -
  have q: "query ! i = c" using d by (metis drop_eq_Nil hd_drop_conv_nth leI list.distinct(1) list.sel(1))
  have lit': "lit = take (Suc (k - 1 + n)) (drop i query)" and len: "length lit = Suc (k - 1 + n)"
    using d lit le by auto
  have ql: "length query - i = Suc (length cs)" using d by (metis length_Cons length_drop)
  have st: "startswith_at query [c, c, c] i = triple" by (simp add: startswith_at_def d t)
  have s1: "slice query i (i + k) = take k lit"
    using le by (simp add: slice_def lit' min_def)
  have s2: "slice query (i + k) (i + Suc (k - 1 + n) - k) = take (length lit - k - k) (drop k lit)"
    unfolding len slice_def lit' drop_take take_take drop_drop using le
    by (intro arg_cong2 [where f = take]) (use ql in \<open>auto simp: add.commute\<close>)
  have s3: "slice query (i + Suc (k - 1 + n) - k) (i + Suc (k - 1 + n)) = drop (length lit - k) lit"
    using le ql by (simp add: slice_def lit' drop_take add.commute)
  show ?thesis
    unfolding literal_normalized_def q st Let_def k [symmetric] s1 s2 s3 ..
qed

definition lexeme_step :: "string \<Rightarrow> scan_state \<Rightarrow> char \<Rightarrow> string \<Rightarrow> lexeme \<Rightarrow> scan_state + scan_state" where
  "lexeme_step query s c cs lx =
     (case lx of
        Broken \<Rightarrow> Inl (scan_broken query s)
      | Skip n nm \<Rightarrow> Inr (s\<lparr>sc_index := sc_index s + Suc n, sc_normalized := sc_normalized s @ nm\<rparr>)
      | Token k n nm \<Rightarrow> Inr (s\<lparr>sc_index := sc_index s + Suc n, sc_normalized := sc_normalized s @ nm,
          sc_tokens := sc_tokens s @ [\<lparr>tk_kind = k, tk_value = c # take n cs,
             tk_start = sc_index s, tk_end = sc_index s + Suc n\<rparr>]\<rparr>))"

lemma lexeme_step_simps [simp]:
  "lexeme_step query s c cs Broken = Inl (scan_broken query s)"
  "lexeme_step query s c cs (Skip n nm)
    = Inr (s\<lparr>sc_index := sc_index s + Suc n, sc_normalized := sc_normalized s @ nm\<rparr>)"
  "lexeme_step query s c cs (Token k n nm)
    = Inr (s\<lparr>sc_index := sc_index s + Suc n, sc_normalized := sc_normalized s @ nm,
        sc_tokens := sc_tokens s @ [\<lparr>tk_kind = k, tk_value = c # take n cs,
           tk_start = sc_index s, tk_end = sc_index s + Suc n\<rparr>]\<rparr>)"
  by (simp_all add: lexeme_step_def)

lemma scan_quoted:
  assumes d: "drop (sc_index s) query = c # cs"
  shows "consume_quoted_at query (sc_index s) \<bind> (\<lambda>r. Some (case r of None \<Rightarrow> Inl (scan_broken query s)
      | Some e \<Rightarrow> Inr (scan_token query String e (literal_normalized query (sc_index s) e) s)))
    = Some (lexeme_step query s c cs (quoted_literal c cs))"
proof -
  define i where "i = sc_index s"
  define triple where "triple = starts_with (c # cs) [c, c, c]"
  define k where "k = (if triple then 3 else (1::nat))"
  have d': "drop i query = c # cs" using d by (simp add: i_def)
  then have i: "i < length query" and q: "query ! i = c"
    by (metis drop_eq_Nil leI list.distinct(1), metis drop_eq_Nil hd_drop_conv_nth leI list.distinct(1) list.sel(1))
  have tail: "drop (i + k) query = drop (k - 1) cs"
    using drop_past [OF d', of "k - 1"] by (simp add: k_def)
  have at: "consume_quoted_at query i = Some (map_option (\<lambda>n. i + k + n) (consume_quoted c triple (drop (k - 1) cs)))"
    unfolding consume_quoted_at_def startswith_at_def q d' triple_def [symmetric] k_def [symmetric] Let_def
      consume_quoted_returns tail ..
  show ?thesis
  proof (cases "consume_quoted c triple (drop (k - 1) cs)")
    case None
    show ?thesis
      unfolding i_def [symmetric] at None option.map quoted_literal_def Let_def triple_def [symmetric]
        k_def [symmetric] option.case bind.bind_lunit lexeme_step_def lexeme.case ..
  next
    case (Some n)
    then have n: "k \<le> n" "n \<le> length cs - (k - 1)"
      using consume_quoted_bounds [OF Some] by (auto simp: k_def split: if_splits)
    have le: "k - 1 + n \<le> length cs" "k \<le> Suc (k - 1 + n)"
      using n by (auto simp: k_def split: if_splits)
    have e: "i + k + n = i + Suc (k - 1 + n)" by (simp add: k_def)
    show ?thesis
      unfolding i_def [symmetric] at Some option.map quoted_literal_def Let_def triple_def [symmetric]
        k_def [symmetric] option.case bind.bind_lunit e scan_token_def lexeme_step_def lexeme.case
        slice_from [OF d'] literal_normalized_eq [OF d' triple_def k_def refl le n(1)] ..
  qed
qed

lemma scan_step_lexeme:
  assumes d: "drop (sc_index s) query = c # cs"
  shows "scan_step query s = Some (lexeme_step query s c cs (next_lexeme c cs))"
proof -
  define i where "i = sc_index s"
  have i: "i < length query" and q: "query ! i = c" and cs: "drop (Suc i) query = cs"
    using d by (metis i_def drop_eq_Nil leI list.distinct(1) drop_at list.inject)+
  have fo: "(i + 1 < length query \<and> query ! (i + 1) = x) = starts_with cs [x]" for x
    using cs by (cases "i + 1 < length query") (auto simp: drop_at)
  have d': "drop i query = c # cs" using d by (simp add: i_def)
  have cs2: "drop (i + 2) query = drop 1 cs" using drop_past [OF d', of 1] by simp
  have si: "sc_index s = i" by (simp add: i_def)
  have line: "advance_while (\<lambda>x. x \<noteq> CR \<and> x \<noteq> LF) query (i + 2) \<bind> (\<lambda>j. Some (Inr (scan_masked query j s)))
      = Some (lexeme_step query s c cs (line_comment c cs))"
  proof -
    define n where "n = 1 + length (takeWhile (\<lambda>x. x \<noteq> CR \<and> x \<noteq> LF) (drop 1 cs))"
    have "advance_while (\<lambda>x. x \<noteq> CR \<and> x \<noteq> LF) query (i + 2) = Some (i + Suc n)"
      by (simp only: advance_while_returns cs2) (simp add: n_def)
    then show ?thesis
      by (simp only: bind.bind_lunit scan_masked_def si slice_from [OF d'] line_comment_def n_def [symmetric] Let_def
          lexeme_step_def lexeme.case)
  qed
  have block: "(case find_from query ''*/'' (i + 2) of None \<Rightarrow> Some (Inl (scan_broken query s))
      | Some e \<Rightarrow> if contains (slice query (i + 2) e) ''/*'' then Some (Inl (scan_broken query s))
          else Some (Inr (scan_masked query (e + 2) s))) = Some (lexeme_step query s c cs (block_comment c cs))"
  proof (cases "find_sub ''*/'' (drop 1 cs)")
    case None
    then show ?thesis by (simp add: find_from_def cs2 [simplified] block_comment_def lexeme_step_def)
  next
    case (Some k)
    have "slice query (i + 2) (i + 2 + k) = take k (drop 1 cs)" by (simp only: slice_def cs2) simp
    moreover have "i + 2 + k + 2 = i + Suc (k + 3)" by simp
    ultimately show ?thesis
      by (simp only: find_from_def cs2 Some option.map option.case block_comment_def scan_masked_def si
          slice_from [OF d'] lexeme_step_def lexeme.case split: if_split) simp
  qed
  have ident: "advance_while is_identifier_part query (i + 1) = Some (i + Suc (length (takeWhile is_identifier_part cs)))"
    and number: "number_loop query False (i + 1) = Some (i + Suc (number_rest False cs))"
    using cs by (simp_all add: advance_while_returns number_loop_returns)
  have one: "slice query i (Suc i) = [c]" using slice_from [OF d', of 0] by simp
  show ?thesis
    unfolding scan_step_def next_lexeme_def si q fo line block ident number scan_quoted [OF d, unfolded si] Let_def
    by (simp add: scan_token_def si slice_from [OF d', simplified] one)
qed

lemma lex_valid_simps [simp]:
  "lx_valid (skip_text nm r) = lx_valid r" "lx_valid (add_token t nm r) = lx_valid r"
  by (simp_all add: skip_text_def add_token_def)

lemma scan_loop_returns:
  "map_option (\<lambda>s. \<lparr>lx_tokens = sc_tokens s, lx_valid = sc_valid s, lx_normalized = sc_normalized s\<rparr>) (scan_loop query s)
   = (let r = lex (sc_index s) (drop (sc_index s) query)
      in Some \<lparr>lx_tokens = sc_tokens s @ lx_tokens r, lx_valid = (sc_valid s \<and> lx_valid r),
           lx_normalized = sc_normalized s @ lx_normalized r\<rparr>)"
proof (induction "length query - sc_index s" arbitrary: s rule: less_induct)
  case less
  show ?case
  proof (cases "drop (sc_index s) query")
    case Nil
    then show ?thesis by (subst scan_loop.simps) simp
  next
    case (Cons c cs)
    then have lt: "sc_index s < length query" by (metis drop_eq_Nil leI list.distinct(1))
    note past = drop_past [OF Cons]
    show ?thesis
    proof (cases "next_lexeme c cs")
      case (Skip n nm)
      let ?s = "s\<lparr>sc_index := sc_index s + Suc n, sc_normalized := sc_normalized s @ nm\<rparr>"
      have "length query - sc_index ?s < length query - sc_index s" using lt by simp
      from less.hyps [OF this] show ?thesis
        by (subst scan_loop.simps) (simp add: lt scan_step_lexeme [OF Cons] Skip Cons past [simplified] Let_def)
    next
      case (Token k n nm)
      let ?s = "s\<lparr>sc_index := sc_index s + Suc n, sc_normalized := sc_normalized s @ nm,
        sc_tokens := sc_tokens s @ [\<lparr>tk_kind = k, tk_value = c # take n cs,
           tk_start = sc_index s, tk_end = sc_index s + Suc n\<rparr>]\<rparr>"
      have "length query - sc_index ?s < length query - sc_index s" using lt by simp
      from less.hyps [OF this] show ?thesis
        by (subst scan_loop.simps) (simp add: lt scan_step_lexeme [OF Cons] Token Cons past [simplified] Let_def)
    next
      case Broken
      then show ?thesis
        by (subst scan_loop.simps) (simp add: lt scan_step_lexeme [OF Cons] Cons scan_broken_def)
    qed
  qed
qed

text \<open>C31. The scanner returns on every query, and what its loops compute is the result of the structural scanner
  on which the policy rests.\<close>

theorem scanner_returns: "lex_gremlin_query_loop query = Some (lex_gremlin_query query)"
  by (cases "lex 0 query") (simp add: lex_gremlin_query_loop_def scan_loop_returns lex_gremlin_query_def Let_def)

end
