(* ===== verification/Confirmation_Store.thy ===== *)
theory Confirmation_Store
  imports Store_Facts
begin

text \<open>
  Model of \<open>hugegraph_mcp/confirmation_store.py\<close>: the ledger of single-use confirmations of the legacy
  protocol. The three tables are lists of rows; \<open>sha\<close> is the digest of a nonce (SHA-256 of its UTF-8
  text, a parameter); a missing database file is an empty one. Failures of SQLite or of the file
  system (\<open>ConfirmationStoreUnavailableError\<close>) are not modelled. A JSON column holds its value.
\<close>

section \<open>Tables and errors\<close>

datatype confirm_exc = ConfirmationAlreadyUsed | ConfirmationNotIssued | ConfirmationPlanMismatch
  | ConfirmationPlanExpired

record issued_row =
  is_digest :: string
  is_hash :: string
  is_expires :: int
  is_issued_at :: int
  is_payload :: "py option"

record consumed_row =
  cs_digest :: string
  cs_hash :: string
  cs_expires :: int
  cs_consumed_at :: int

record write_row =
  wr_hash :: string
  wr_digest :: string
  wr_payload :: "py option"
  wr_status :: PlanStatus
  wr_receipt :: "py option"
  wr_updated :: int

record confirm_db =
  consumed_confirmations :: "consumed_row list"
  issued_confirmations :: "issued_row list"
  write_operations :: "write_row list"

definition empty_confirm_db :: confirm_db where
  "empty_confirm_db = \<lparr>consumed_confirmations = [], issued_confirmations = [], write_operations = []\<rparr>"

definition DEFAULT_PLAN_TTL_SECONDS :: int where "DEFAULT_PLAN_TTL_SECONDS = 600"

section \<open>Operations\<close>

definition find_issued :: "confirm_db \<Rightarrow> string \<Rightarrow> issued_row option" where
  "find_issued db d = find (\<lambda>r. is_digest r = d) (issued_confirmations db)"

definition has_consumed :: "(string \<Rightarrow> string) \<Rightarrow> string option \<Rightarrow> confirm_db \<Rightarrow> bool" where
  "has_consumed sha nonce db = (case nonce of None \<Rightarrow> False
     | Some n \<Rightarrow> n \<noteq> [] \<and> list_ex (\<lambda>r. cs_digest r = sha n) (consumed_confirmations db))"

definition operation_for_nonce :: "(string \<Rightarrow> string) \<Rightarrow> string option \<Rightarrow> confirm_db \<Rightarrow> write_row option" where
  "operation_for_nonce sha nonce db = (case nonce of None \<Rightarrow> None
     | Some n \<Rightarrow> if n = [] then None else find (\<lambda>r. wr_digest r = sha n) (write_operations db))"

definition operation_for_plan :: "string option \<Rightarrow> confirm_db \<Rightarrow> write_row option" where
  "operation_for_plan h db = (case h of None \<Rightarrow> None
     | Some s \<Rightarrow> if s = [] then None else find (\<lambda>r. wr_hash r = s) (write_operations db))"

definition record_outcome ::
  "int \<Rightarrow> string \<Rightarrow> PlanStatus \<Rightarrow> py \<Rightarrow> confirm_db \<Rightarrow> (confirm_exc + unit) \<times> confirm_db" where
  "record_outcome now h status receipt db =
     (if length (filter (\<lambda>r. wr_hash r = h) (write_operations db)) \<noteq> 1 then (Inl ConfirmationNotIssued, db)
      else (Inr (), db\<lparr>write_operations := map (\<lambda>r. if wr_hash r = h
             then r\<lparr>wr_status := status, wr_receipt := Some receipt, wr_updated := now\<rparr> else r)
             (write_operations db)\<rparr>))"

definition cleanup_expired :: "int \<Rightarrow> confirm_db \<Rightarrow> confirm_db" where
  "cleanup_expired now db = db
     \<lparr>consumed_confirmations := filter (\<lambda>r. \<not> cs_expires r < now) (consumed_confirmations db),
      issued_confirmations := filter (\<lambda>r. \<not> is_expires r < now) (issued_confirmations db)\<rparr>"

text \<open>\<open>INSERT ... ON CONFLICT(nonce_digest) DO UPDATE ... WHERE plan_hash = excluded.plan_hash\<close>.\<close>

definition upsert_issued :: "issued_row \<Rightarrow> issued_row list \<Rightarrow> issued_row list" where
  "upsert_issued r rs = (if list_ex (\<lambda>x. is_digest x = is_digest r) rs
     then map (\<lambda>x. if is_digest x = is_digest r \<and> is_hash x = is_hash r then r else x) rs
     else rs @ [r])"

definition issue ::
  "(string \<Rightarrow> string) \<Rightarrow> int \<Rightarrow> string \<Rightarrow> string \<Rightarrow> int \<Rightarrow> py option \<Rightarrow> confirm_db
   \<Rightarrow> (confirm_exc + unit) \<times> confirm_db" where
  "issue sha now nonce h expires payload db =
     (if expires \<le> now \<or> expires > now + DEFAULT_PLAN_TTL_SECONDS then (Inl ConfirmationPlanExpired, db)
      else
      let db1 = cleanup_expired now db;
          r = \<lparr>is_digest = sha nonce, is_hash = h, is_expires = expires, is_issued_at = now, is_payload = payload\<rparr>;
          db2 = db1\<lparr>issued_confirmations := upsert_issued r (issued_confirmations db1)\<rparr>
      in case find_issued db2 (sha nonce) of
           None \<Rightarrow> (Inl ConfirmationPlanMismatch, db1)
         | Some x \<Rightarrow> if (is_hash x, is_expires x, is_payload x) \<noteq> (h, expires, payload)
             then (Inl ConfirmationPlanMismatch, db1) else (Inr (), db2))"

definition issued_payload ::
  "(string \<Rightarrow> string) \<Rightarrow> int \<Rightarrow> string \<Rightarrow> string \<Rightarrow> int \<Rightarrow> confirm_db \<Rightarrow> confirm_exc + py option" where
  "issued_payload sha now nonce h expires db =
     (case find_issued db (sha nonce) of None \<Rightarrow> Inl ConfirmationNotIssued
      | Some r \<Rightarrow> if is_hash r \<noteq> h \<or> is_expires r \<noteq> expires then Inl ConfirmationPlanMismatch
          else if now > is_expires r \<or> is_expires r > is_issued_at r + DEFAULT_PLAN_TTL_SECONDS
          then Inl ConfirmationPlanExpired
          else Inr (is_payload r))"

definition consume ::
  "(string \<Rightarrow> string) \<Rightarrow> int \<Rightarrow> string \<Rightarrow> string \<Rightarrow> int \<Rightarrow> confirm_db
   \<Rightarrow> (confirm_exc + py option) \<times> confirm_db" where
  "consume sha now nonce h expires db =
     (let db1 = cleanup_expired now db; d = sha nonce in
      if list_ex (\<lambda>r. cs_digest r = d) (consumed_confirmations db1) then (Inl ConfirmationAlreadyUsed, db1)
      else case find_issued db1 d of None \<Rightarrow> (Inl ConfirmationNotIssued, db1)
      | Some r \<Rightarrow>
        if is_hash r \<noteq> h \<or> is_expires r \<noteq> expires then (Inl ConfirmationPlanMismatch, db1)
        else if now > is_expires r \<or> is_expires r > is_issued_at r + DEFAULT_PLAN_TTL_SECONDS
        then (Inl ConfirmationPlanExpired, db1)
        else if list_ex (\<lambda>w. wr_hash w = h \<or> wr_digest w = d) (write_operations db1)
        then (Inl ConfirmationAlreadyUsed, db1)
        else (Inr (is_payload r), db1
          \<lparr>consumed_confirmations := consumed_confirmations db1 @
             [\<lparr>cs_digest = d, cs_hash = h, cs_expires = expires, cs_consumed_at = now\<rparr>],
           write_operations := write_operations db1 @
             [\<lparr>wr_hash = h, wr_digest = d, wr_payload = is_payload r, wr_status = EXECUTING,
               wr_receipt = None, wr_updated = now\<rparr>],
           issued_confirmations := filter (\<lambda>x. is_digest x \<noteq> d) (issued_confirmations db1)\<rparr>))"

section \<open>Sequences of calls\<close>

datatype confirm_call =
    Issue int string string int "py option"
  | Consume int string string int
  | Outcome int string PlanStatus py

fun exec_call :: "(string \<Rightarrow> string) \<Rightarrow> confirm_call \<Rightarrow> confirm_db \<Rightarrow> confirm_db" where
  "exec_call sha (Issue now n h e p) db = snd (issue sha now n h e p db)"
| "exec_call sha (Consume now n h e) db = snd (consume sha now n h e db)"
| "exec_call sha (Outcome now h s r) db = snd (record_outcome now h s r db)"

text \<open>The nonce and the plan hash of a call that authorises a write.\<close>

fun authorises :: "(string \<Rightarrow> string) \<Rightarrow> confirm_call \<Rightarrow> confirm_db \<Rightarrow> (string \<times> string) option" where
  "authorises sha (Consume now n h e) db =
     (case fst (consume sha now n h e db) of Inr _ \<Rightarrow> Some (sha n, h) | Inl _ \<Rightarrow> None)"
| "authorises sha _ db = None"

fun authorised :: "(string \<Rightarrow> string) \<Rightarrow> confirm_call list \<Rightarrow> confirm_db \<Rightarrow> (string \<times> string) list" where
  "authorised sha [] db = []"
| "authorised sha (c # cs) db =
     (case authorises sha c db of None \<Rightarrow> [] | Some a \<Rightarrow> [a]) @ authorised sha cs (exec_call sha c db)"

section \<open>Single use\<close>

definition recorded :: "confirm_db \<Rightarrow> (string \<times> string) list" where
  "recorded db = map (\<lambda>w. (wr_digest w, wr_hash w)) (write_operations db)"

lemma recorded_cleanup [simp]: "recorded (cleanup_expired now db) = recorded db"
  by (simp add: recorded_def cleanup_expired_def)

lemma recorded_issue: "recorded (snd (issue sha now n h e p db)) = recorded db"
  by (simp add: issue_def Let_def recorded_def cleanup_expired_def split: option.split)

lemma recorded_outcome: "recorded (snd (record_outcome now h s r db)) = recorded db"
  by (auto simp: record_outcome_def recorded_def)

lemma recorded_consume:
  "recorded (snd (consume sha now n h e db)) =
     recorded db @ (case fst (consume sha now n h e db) of Inr _ \<Rightarrow> [(sha n, h)] | Inl _ \<Rightarrow> [])"
  by (simp add: consume_def Let_def recorded_def cleanup_expired_def split: option.split)

lemma consume_new:
  assumes "fst (consume sha now n h e db) = Inr p"
  shows "sha n \<notin> set (map fst (recorded db)) \<and> h \<notin> set (map snd (recorded db))"
  using assms
  by (auto simp: consume_def Let_def recorded_def cleanup_expired_def list_ex_iff split: option.splits if_splits)

lemma exec_call_recorded:
  "recorded (exec_call sha c db) = recorded db @ (case authorises sha c db of None \<Rightarrow> [] | Some a \<Rightarrow> [a])"
  by (cases c) (simp_all add: recorded_issue recorded_outcome recorded_consume split: sum.split)

definition single_use :: "confirm_db \<Rightarrow> bool" where
  "single_use db \<longleftrightarrow> distinct (map fst (recorded db)) \<and> distinct (map snd (recorded db))"

lemma single_use_step: "single_use db \<Longrightarrow> single_use (exec_call sha c db)"
proof (cases "authorises sha c db")
  case None
  then show "single_use db \<Longrightarrow> ?thesis" by (simp add: single_use_def exec_call_recorded)
next
  case (Some a)
  then obtain now n h e p where c: "c = Consume now n h e" "a = (sha n, h)"
    "fst (consume sha now n h e db) = Inr p"
    by (cases c) (auto split: sum.splits)
  show "single_use db \<Longrightarrow> ?thesis"
    using c consume_new [OF c(3)] by (simp add: single_use_def recorded_consume)
qed

lemma authorised_recorded:
  "single_use db \<Longrightarrow> distinct (map fst (recorded db @ authorised sha cs db)) \<and>
     distinct (map snd (recorded db @ authorised sha cs db))"
proof (induction cs arbitrary: db)
  case Nil
  then show ?case by (simp add: single_use_def)
next
  case (Cons c cs)
  have eq: "recorded db @ authorised sha (c # cs) db =
      recorded (exec_call sha c db) @ authorised sha cs (exec_call sha c db)"
    by (simp add: exec_call_recorded)
  show ?case unfolding eq by (rule Cons.IH [OF single_use_step [OF Cons.prems]])
qed

section \<open>Properties\<close>

definition demo_sha :: "string \<Rightarrow> string" where "demo_sha s = CHR ''#'' # s"

definition demo_calls :: "confirm_call list" where
  "demo_calls = [Issue 0 ''n'' ''h'' 10 None, Consume 5 ''n'' ''h'' 10, Consume 6 ''n'' ''h'' 10,
     Issue 50 ''n'' ''h'' 60 None, Consume 55 ''n'' ''h'' 60, Issue 55 ''m'' ''g'' 70 None,
     Consume 56 ''m'' ''g'' 70]"

text \<open>C26. A confirmation is single-use for ever: in any sequence of calls, at any times, no nonce and
  no plan hash authorises a second write, although expired rows are deleted and the same nonce and
  hash may be issued again.\<close>

theorem confirmations_single_use:
  "distinct (map fst (authorised sha calls empty_confirm_db)) \<and>
   distinct (map snd (authorised sha calls empty_confirm_db))"
  using authorised_recorded [of empty_confirm_db sha calls]
  by (simp add: single_use_def recorded_def empty_confirm_db_def)

theorem confirmations_single_use_witness:
  "authorised demo_sha demo_calls empty_confirm_db = [(demo_sha ''n'', ''h''), (demo_sha ''m'', ''g'')] \<and>
   distinct (map fst (authorised demo_sha demo_calls empty_confirm_db))"
proof -
  have "authorised demo_sha demo_calls empty_confirm_db = [(demo_sha ''n'', ''h''), (demo_sha ''m'', ''g'')]"
    by (simp add: demo_calls_def demo_sha_def empty_confirm_db_def issue_def consume_def cleanup_expired_def
          upsert_issued_def find_issued_def DEFAULT_PLAN_TTL_SECONDS_def Let_def)
  then show ?thesis using confirmations_single_use [of demo_sha demo_calls] by simp
qed

text \<open>Consuming returns the payload that was issued under the nonce, for the issued hash and
  expiry only, at most ten minutes after it was issued and not after its expiry; whatever the outcome,
  rows of other nonces that have not expired stay as they are.\<close>

theorem consume_returns_issued_payload:
  assumes "distinct (map is_digest (issued_confirmations db))" "consume sha now nonce h expires db = (r, db')"
  shows "(\<forall>p. r = Inr p \<longrightarrow> (\<exists>row. find_issued db (sha nonce) = Some row \<and> is_hash row = h \<and>
       is_expires row = expires \<and> is_payload row = p \<and> now \<le> expires \<and>
       expires \<le> is_issued_at row + DEFAULT_PLAN_TTL_SECONDS \<and> find_issued db' (sha nonce) = None)) \<and>
    (\<forall>row \<in> set (issued_confirmations db). is_digest row \<noteq> sha nonce \<and> now \<le> is_expires row \<longrightarrow>
       row \<in> set (issued_confirmations db'))"
proof -
  have "find (\<lambda>r. is_digest r = d) (filter P rs) = Some x \<Longrightarrow> distinct (map is_digest rs) \<Longrightarrow>
      find (\<lambda>r. is_digest r = d) rs = Some x" for d rs x P
    by (induction rs) (auto split: if_splits dest!: find_SomeD)
  then have clean: "find_issued (cleanup_expired now db) (sha nonce) = Some x \<Longrightarrow>
      find_issued db (sha nonce) = Some x" for x
    using assms(1) by (simp add: find_issued_def cleanup_expired_def)
  have gone: "find (\<lambda>r. is_digest r = d) (filter (\<lambda>x. is_digest x \<noteq> d) rs) = None" for d and rs :: "issued_row list"
    by (auto simp: find_None_iff)
  show ?thesis
  proof (intro conjI allI impI ballI)
    fix p assume "r = Inr p"
    then have "fst (consume sha now nonce h expires db) = Inr p"
      "snd (consume sha now nonce h expires db) = db'" using assms(2) by simp_all
    then obtain row where row: "find_issued (cleanup_expired now db) (sha nonce) = Some row" "is_hash row = h"
      "is_expires row = expires" "is_payload row = p" "now \<le> expires"
      "expires \<le> is_issued_at row + DEFAULT_PLAN_TTL_SECONDS"
      "issued_confirmations db' = filter (\<lambda>x. is_digest x \<noteq> sha nonce) (issued_confirmations (cleanup_expired now db))"
      by (auto simp: consume_def Let_def split: option.splits if_splits)
    then show "\<exists>row. find_issued db (sha nonce) = Some row \<and> is_hash row = h \<and>
       is_expires row = expires \<and> is_payload row = p \<and> now \<le> expires \<and>
       expires \<le> is_issued_at row + DEFAULT_PLAN_TTL_SECONDS \<and> find_issued db' (sha nonce) = None"
      using clean gone by (auto simp: find_issued_def)
  next
    fix row assume row: "row \<in> set (issued_confirmations db)" "is_digest row \<noteq> sha nonce \<and> now \<le> is_expires row"
    have "set (filter (\<lambda>x. is_digest x \<noteq> sha nonce) (issued_confirmations (cleanup_expired now db)))
        \<subseteq> set (issued_confirmations db')"
      using assms(2) by (auto simp: consume_def Let_def split: option.splits if_splits)
    then show "row \<in> set (issued_confirmations db')" using row by (auto simp: cleanup_expired_def)
  qed
qed

definition demo_issued :: confirm_db where
  "demo_issued = snd (issue demo_sha 0 ''n'' ''h'' 10 (Some (PInt 7)) empty_confirm_db)"

theorem consume_returns_issued_payload_witness:
  "fst (consume demo_sha 5 ''n'' ''h'' 10 demo_issued) = Inr (Some (PInt 7)) \<and>
   find_issued (snd (consume demo_sha 5 ''n'' ''h'' 10 demo_issued)) (demo_sha ''n'') = None"
proof -
  have d: "distinct (map is_digest (issued_confirmations demo_issued))" by code_simp
  have r: "fst (consume demo_sha 5 ''n'' ''h'' 10 demo_issued) = Inr (Some (PInt 7))" by code_simp
  show ?thesis
    using consume_returns_issued_payload [OF d prod.collapse [symmetric], of demo_sha 5 "''n''" "''h''" 10] r by blast
qed

end
