(* ===== verification/Config.thy ===== *)
theory Config
  imports Py_Base
begin

text \<open>
  Model of \<open>hugegraph_mcp/config.py\<close> and \<open>hugegraph_mcp/toolsets.py\<close>: parsing of the environment into
  an \<open>MCPConfig\<close>, with the process-wide cache. An environment is a function from names to texts;
  \<open>float(text)\<close> rounds to binary floating point and is the parameter \<open>to_float\<close> (\<open>None\<close> for the
  ValueError). Log records are not modelled; the warnings a configuration carries are.
\<close>

section \<open>Settings\<close>

type_synonym env = "string \<Rightarrow> string option"

definition TRUE_VALUES :: "string list" where
  "TRUE_VALUES = [''1'', ''true'', ''yes'', ''on'']"

definition FALSE_VALUES :: "string list" where
  "FALSE_VALUES = [''0'', ''false'', ''no'', ''off'']"

definition CONFIG_ENV_NAMES :: "string list" where
  "CONFIG_ENV_NAMES = [''HUGEGRAPH_URL'', ''HUGEGRAPH_GRAPH_PATH'', ''HUGEGRAPH_GRAPH'',
     ''HUGEGRAPH_GRAPHSPACE'', ''HUGEGRAPH_USER'', ''HUGEGRAPH_PASSWORD'', ''HUGEGRAPH_MCP_READONLY'',
     ''HUGEGRAPH_AI_URL'', ''HUGEGRAPH_AI_TOKEN'', ''HUGEGRAPH_AI_GRAPH_URL'', ''HUGEGRAPH_MCP_ALLOW_AI'',
     ''HUGEGRAPH_MCP_ADMIN_MODE'', ''HUGEGRAPH_MCP_TIMEOUT_SECONDS'', ''HUGEGRAPH_AI_TIMEOUT_SECONDS'',
     ''HUGEGRAPH_CONNECT_TIMEOUT_SECONDS'', ''HUGEGRAPH_READ_TIMEOUT_SECONDS'',
     ''HUGEGRAPH_WRITE_TIMEOUT_SECONDS'', ''HUGEGRAPH_MCP_MAX_RESULT_ITEMS'',
     ''HUGEGRAPH_MCP_MAX_RESULT_BYTES'', ''HUGEGRAPH_MCP_PLAN_STORE'',
     ''HUGEGRAPH_MCP_WRITE_INSTANCE_COUNT'', ''HUGEGRAPH_MCP_STATE_DIR'', ''XDG_STATE_HOME'']"

text \<open>The numeric fields with their defaults and bounds.\<close>

record 'n field_spec =
  fs_default :: 'n
  fs_minimum :: 'n
  fs_maximum :: 'n

definition connect_timeout_spec :: "rat field_spec" where
  "connect_timeout_spec = \<lparr>fs_default = 1/2, fs_minimum = 1/1000, fs_maximum = 86400\<rparr>"

definition io_timeout_spec :: "rat field_spec" where
  "io_timeout_spec = \<lparr>fs_default = 15, fs_minimum = 1/1000, fs_maximum = 86400\<rparr>"

definition timeout_spec :: "int field_spec" where
  "timeout_spec = \<lparr>fs_default = 30, fs_minimum = 1, fs_maximum = 86400\<rparr>"

definition max_result_items_spec :: "int field_spec" where
  "max_result_items_spec = \<lparr>fs_default = 100, fs_minimum = 1, fs_maximum = 1000000\<rparr>"

definition max_result_bytes_spec :: "int field_spec" where
  "max_result_bytes_spec = \<lparr>fs_default = 1048576, fs_minimum = 1, fs_maximum = 1073741824\<rparr>"

definition write_instance_spec :: "int field_spec" where
  "write_instance_spec = \<lparr>fs_default = 1, fs_minimum = 1, fs_maximum = 1024\<rparr>"

text \<open>Where the state directory comes from; \<open>expanduser\<close> and the home directory are the system's.\<close>

datatype state_dir = Explicit_Dir string | Xdg_Dir string | Home_Dir

record MCPConfig =
  cfg_url :: string
  cfg_graph :: string
  cfg_graphspace :: "string option"
  cfg_user :: string
  cfg_password :: string
  cfg_readonly :: bool
  cfg_ai_url :: string
  cfg_ai_token :: "string option"
  cfg_ai_graph_url :: "string option"
  cfg_allow_ai :: bool
  cfg_admin_mode :: bool
  cfg_connect_timeout :: rat
  cfg_read_timeout :: rat
  cfg_write_timeout :: rat
  cfg_timeout :: int
  cfg_max_result_items :: int
  cfg_max_result_bytes :: int
  cfg_plan_store_backend :: string
  cfg_write_instance_count :: int
  cfg_state_dir :: state_dir
  cfg_warnings :: "string list"

section \<open>Parsing\<close>

definition env_get :: "env \<Rightarrow> string \<Rightarrow> string \<Rightarrow> string" where
  "env_get env k d = (case env k of None \<Rightarrow> d | Some v \<Rightarrow> v)"

definition non_empty :: "string \<Rightarrow> string \<Rightarrow> string" where
  "non_empty v d = (if strip v = [] then d else strip v)"

definition optional_non_empty :: "string option \<Rightarrow> string option" where
  "optional_non_empty v = (case v of None \<Rightarrow> None | Some s \<Rightarrow> if strip s = [] then None else Some (strip s))"

definition parse_graph_path :: "string \<Rightarrow> string \<times> string" where
  "parse_graph_path p =
     (let (space, graph) = (if CHR ''/'' \<in> set p then split_once (CHR ''/'') p else (''DEFAULT'', p))
      in (non_empty space ''DEFAULT'', non_empty graph ''hugegraph''))"

text \<open>The parsed value and the warnings added.\<close>

definition parse_bool :: "string option \<Rightarrow> string \<Rightarrow> bool \<Rightarrow> bool \<times> string list" where
  "parse_bool v name safe_default = (case v of None \<Rightarrow> (safe_default, [])
     | Some s \<Rightarrow> let n = lower (strip s) in
         if n \<in> set TRUE_VALUES then (True, [])
         else if n \<in> set FALSE_VALUES then (False, [])
         else (safe_default, [''Invalid boolean configuration: '' @ name @ ''; using safe default'']))"

definition parse_integer_field :: "string option \<Rightarrow> int field_spec \<Rightarrow> int" where
  "parse_integer_field v spec = (case v of None \<Rightarrow> fs_default spec
     | Some s \<Rightarrow> if strip s = [] then fs_default spec
         else (case py_int_of_str s of None \<Rightarrow> fs_default spec
           | Some n \<Rightarrow> if n < fs_minimum spec \<or> n > fs_maximum spec then fs_default spec else n))"

definition parse_numeric_field :: "(string \<Rightarrow> py_float option) \<Rightarrow> string option \<Rightarrow> rat field_spec \<Rightarrow> rat" where
  "parse_numeric_field to_float v spec = (case v of None \<Rightarrow> fs_default spec
     | Some s \<Rightarrow> if strip s = [] then fs_default spec
         else (case to_float s of
             Some (Fin q t) \<Rightarrow> if q < fs_minimum spec \<or> q > fs_maximum spec then fs_default spec else q
           | _ \<Rightarrow> fs_default spec))"

definition parse_state_dir :: "env \<Rightarrow> state_dir" where
  "parse_state_dir env =
     (case env ''HUGEGRAPH_MCP_STATE_DIR'' of
        Some s \<Rightarrow> if strip s \<noteq> [] then Explicit_Dir s
          else (case env ''XDG_STATE_HOME'' of None \<Rightarrow> Home_Dir
            | Some x \<Rightarrow> if strip x \<noteq> [] then Xdg_Dir x else Home_Dir)
      | None \<Rightarrow> (case env ''XDG_STATE_HOME'' of None \<Rightarrow> Home_Dir
            | Some x \<Rightarrow> if strip x \<noteq> [] then Xdg_Dir x else Home_Dir))"

definition deprecation_warning :: string where
  "deprecation_warning = ''HUGEGRAPH_AI_GRAPH_URL is deprecated and has no effect; configure GRAPH_URL on the AI service.''"

definition override_warning :: string where
  "override_warning = ''HUGEGRAPH_GRAPHSPACE/HUGEGRAPH_GRAPH override HUGEGRAPH_GRAPH_PATH''"

text \<open>\<open>a or b\<close> for two settings: an empty text counts as missing.\<close>

definition env_or :: "string option \<Rightarrow> string option \<Rightarrow> string option" where
  "env_or a b = (case a of None \<Rightarrow> b | Some s \<Rightarrow> if s = [] then b else Some s)"

definition parse_env :: "(string \<Rightarrow> py_float option) \<Rightarrow> env \<Rightarrow> MCPConfig" where
  "parse_env to_float env =
     (let w1 = (if env ''HUGEGRAPH_AI_GRAPH_URL'' \<noteq> None then [deprecation_warning] else []);
          (path_space, path_graph) = parse_graph_path (env_get env ''HUGEGRAPH_GRAPH_PATH'' ''DEFAULT/hugegraph'');
          split_space = env ''HUGEGRAPH_GRAPHSPACE'';
          split_graph = env ''HUGEGRAPH_GRAPH'';
          w2 = (if env ''HUGEGRAPH_GRAPH_PATH'' \<noteq> None \<and> (split_space \<noteq> None \<or> split_graph \<noteq> None)
                then [override_warning] else []);
          space = (case split_space of None \<Rightarrow> path_space | Some s \<Rightarrow> non_empty s ''DEFAULT'');
          graph = (case split_graph of None \<Rightarrow> path_graph | Some s \<Rightarrow> non_empty s ''hugegraph'');
          (ro, w3) = parse_bool (env ''HUGEGRAPH_MCP_READONLY'') ''HUGEGRAPH_MCP_READONLY'' True;
          (ai, w4) = parse_bool (env ''HUGEGRAPH_MCP_ALLOW_AI'') ''HUGEGRAPH_MCP_ALLOW_AI'' False;
          (adm, w5) = parse_bool (env ''HUGEGRAPH_MCP_ADMIN_MODE'') ''HUGEGRAPH_MCP_ADMIN_MODE'' False
      in \<lparr>cfg_url = env_get env ''HUGEGRAPH_URL'' ''http://127.0.0.1:8080'',
          cfg_graph = graph, cfg_graphspace = Some space,
          cfg_user = env_get env ''HUGEGRAPH_USER'' ''admin'',
          cfg_password = env_get env ''HUGEGRAPH_PASSWORD'' [],
          cfg_readonly = ro,
          cfg_ai_url = env_get env ''HUGEGRAPH_AI_URL'' ''http://127.0.0.1:8001'',
          cfg_ai_token = optional_non_empty (env ''HUGEGRAPH_AI_TOKEN''),
          cfg_ai_graph_url = optional_non_empty (env ''HUGEGRAPH_AI_GRAPH_URL''),
          cfg_allow_ai = ai, cfg_admin_mode = adm,
          cfg_connect_timeout = parse_numeric_field to_float (env ''HUGEGRAPH_CONNECT_TIMEOUT_SECONDS'') connect_timeout_spec,
          cfg_read_timeout = parse_numeric_field to_float (env ''HUGEGRAPH_READ_TIMEOUT_SECONDS'') io_timeout_spec,
          cfg_write_timeout = parse_numeric_field to_float (env ''HUGEGRAPH_WRITE_TIMEOUT_SECONDS'') io_timeout_spec,
          cfg_timeout = parse_integer_field
            (env_or (env ''HUGEGRAPH_AI_TIMEOUT_SECONDS'') (env ''HUGEGRAPH_MCP_TIMEOUT_SECONDS'')) timeout_spec,
          cfg_max_result_items = parse_integer_field (env ''HUGEGRAPH_MCP_MAX_RESULT_ITEMS'') max_result_items_spec,
          cfg_max_result_bytes = parse_integer_field (env ''HUGEGRAPH_MCP_MAX_RESULT_BYTES'') max_result_bytes_spec,
          cfg_plan_store_backend =
            (let b = lower (strip (env_get env ''HUGEGRAPH_MCP_PLAN_STORE'' ''sqlite''))
             in if b = [] then ''invalid'' else b),
          cfg_write_instance_count = parse_integer_field (env ''HUGEGRAPH_MCP_WRITE_INSTANCE_COUNT'') write_instance_spec,
          cfg_state_dir = parse_state_dir env,
          cfg_warnings = w1 @ w2 @ w3 @ w4 @ w5\<rparr>)"

section \<open>The cache\<close>

definition env_cache_key :: "env \<Rightarrow> (string \<times> string option) list" where
  "env_cache_key env = map (\<lambda>n. (n, env n)) CONFIG_ENV_NAMES"

definition environment_snapshot :: "env \<Rightarrow> env" where
  "environment_snapshot env n = (if n \<in> set CONFIG_ENV_NAMES then env n else None)"

type_synonym config_cache = "((string \<times> string option) list \<times> MCPConfig) option"

text \<open>\<open>MCPConfig.from_env()\<close> without an argument; the result and the new cache.\<close>

definition from_env :: "(string \<Rightarrow> py_float option) \<Rightarrow> env \<Rightarrow> config_cache \<Rightarrow> MCPConfig \<times> config_cache" where
  "from_env to_float os_environ cache =
     (let env = environment_snapshot os_environ; key = env_cache_key env
      in case cache of
           Some (k, c) \<Rightarrow> if key = k then (c, cache)
             else let c' = parse_env to_float env in (c', Some (key, c'))
         | None \<Rightarrow> let c' = parse_env to_float env in (c', Some (key, c')))"

definition is_readonly :: "MCPConfig \<Rightarrow> bool" where
  "is_readonly c = cfg_readonly c"

definition has_safe_write_store :: "MCPConfig \<Rightarrow> bool" where
  "has_safe_write_store c \<longleftrightarrow> cfg_plan_store_backend c = ''sqlite'' \<and> cfg_write_instance_count c = 1"

section \<open>Toolsets\<close>

definition resolve_toolset :: "string option \<Rightarrow> string res" where
  "resolve_toolset value = (case value of None \<Rightarrow> Inr ''core''
     | Some v \<Rightarrow> let s = strip v in
         if s = ''core'' \<or> s = ''legacy'' then Inr s
         else if s = ''v2_core'' then Inr ''core''
         else if s = ''v1'' then Inr ''legacy''
         else Inl (ValueError (''Invalid HUGEGRAPH_MCP_TOOLSET value '' @ repr_str s @
           ''; expected core or legacy (deprecated aliases: v2_core, v1). Unset the variable to use core.'')))"

section \<open>Facts\<close>

lemma non_empty_nonempty: "d \<noteq> [] \<Longrightarrow> non_empty v d \<noteq> []"
  by (simp add: non_empty_def)

lemma parse_integer_field_bounds:
  "fs_minimum spec \<le> fs_default spec \<Longrightarrow> fs_default spec \<le> fs_maximum spec \<Longrightarrow>
     fs_minimum spec \<le> parse_integer_field v spec \<and> parse_integer_field v spec \<le> fs_maximum spec"
  by (auto simp: parse_integer_field_def split: option.split)

lemma parse_numeric_field_bounds:
  "fs_minimum spec \<le> fs_default spec \<Longrightarrow> fs_default spec \<le> fs_maximum spec \<Longrightarrow>
     fs_minimum spec \<le> parse_numeric_field f v spec \<and> parse_numeric_field f v spec \<le> fs_maximum spec"
  by (auto simp: parse_numeric_field_def split: option.split py_float.split)

text \<open>Only the listed names matter.\<close>

lemma parse_env_snapshot: "parse_env f (environment_snapshot env) = parse_env f env"
proof -
  have same: "environment_snapshot env n = env n" if "n \<in> set CONFIG_ENV_NAMES" for n
    using that by (simp add: environment_snapshot_def)
  have names: "environment_snapshot env ''HUGEGRAPH_URL'' = env ''HUGEGRAPH_URL''"
    "environment_snapshot env ''HUGEGRAPH_GRAPH_PATH'' = env ''HUGEGRAPH_GRAPH_PATH''"
    "environment_snapshot env ''HUGEGRAPH_GRAPH'' = env ''HUGEGRAPH_GRAPH''"
    "environment_snapshot env ''HUGEGRAPH_GRAPHSPACE'' = env ''HUGEGRAPH_GRAPHSPACE''"
    "environment_snapshot env ''HUGEGRAPH_USER'' = env ''HUGEGRAPH_USER''"
    "environment_snapshot env ''HUGEGRAPH_PASSWORD'' = env ''HUGEGRAPH_PASSWORD''"
    "environment_snapshot env ''HUGEGRAPH_MCP_READONLY'' = env ''HUGEGRAPH_MCP_READONLY''"
    "environment_snapshot env ''HUGEGRAPH_AI_URL'' = env ''HUGEGRAPH_AI_URL''"
    "environment_snapshot env ''HUGEGRAPH_AI_TOKEN'' = env ''HUGEGRAPH_AI_TOKEN''"
    "environment_snapshot env ''HUGEGRAPH_AI_GRAPH_URL'' = env ''HUGEGRAPH_AI_GRAPH_URL''"
    "environment_snapshot env ''HUGEGRAPH_MCP_ALLOW_AI'' = env ''HUGEGRAPH_MCP_ALLOW_AI''"
    "environment_snapshot env ''HUGEGRAPH_MCP_ADMIN_MODE'' = env ''HUGEGRAPH_MCP_ADMIN_MODE''"
    "environment_snapshot env ''HUGEGRAPH_MCP_TIMEOUT_SECONDS'' = env ''HUGEGRAPH_MCP_TIMEOUT_SECONDS''"
    "environment_snapshot env ''HUGEGRAPH_AI_TIMEOUT_SECONDS'' = env ''HUGEGRAPH_AI_TIMEOUT_SECONDS''"
    "environment_snapshot env ''HUGEGRAPH_CONNECT_TIMEOUT_SECONDS'' = env ''HUGEGRAPH_CONNECT_TIMEOUT_SECONDS''"
    "environment_snapshot env ''HUGEGRAPH_READ_TIMEOUT_SECONDS'' = env ''HUGEGRAPH_READ_TIMEOUT_SECONDS''"
    "environment_snapshot env ''HUGEGRAPH_WRITE_TIMEOUT_SECONDS'' = env ''HUGEGRAPH_WRITE_TIMEOUT_SECONDS''"
    "environment_snapshot env ''HUGEGRAPH_MCP_MAX_RESULT_ITEMS'' = env ''HUGEGRAPH_MCP_MAX_RESULT_ITEMS''"
    "environment_snapshot env ''HUGEGRAPH_MCP_MAX_RESULT_BYTES'' = env ''HUGEGRAPH_MCP_MAX_RESULT_BYTES''"
    "environment_snapshot env ''HUGEGRAPH_MCP_PLAN_STORE'' = env ''HUGEGRAPH_MCP_PLAN_STORE''"
    "environment_snapshot env ''HUGEGRAPH_MCP_WRITE_INSTANCE_COUNT'' = env ''HUGEGRAPH_MCP_WRITE_INSTANCE_COUNT''"
    "environment_snapshot env ''HUGEGRAPH_MCP_STATE_DIR'' = env ''HUGEGRAPH_MCP_STATE_DIR''"
    "environment_snapshot env ''XDG_STATE_HOME'' = env ''XDG_STATE_HOME''"
    by (simp_all only: same CONFIG_ENV_NAMES_def list.set insert_iff simp_thms)
  show ?thesis
    unfolding parse_env_def parse_state_dir_def env_get_def names ..
qed

text \<open>A cache that only ever was filled by \<open>from_env\<close>.\<close>

definition coherent :: "(string \<Rightarrow> py_float option) \<Rightarrow> config_cache \<Rightarrow> bool" where
  "coherent f cache \<longleftrightarrow> (\<forall>k c. cache = Some (k, c) \<longrightarrow>
     (\<forall>env. env_cache_key (environment_snapshot env) = k \<longrightarrow> c = parse_env f env))"

lemma key_determines:
  assumes "env_cache_key (environment_snapshot e1) = env_cache_key (environment_snapshot e2)"
  shows "parse_env f e1 = parse_env f e2"
proof -
  have "environment_snapshot e1 = environment_snapshot e2"
  proof
    fix n
    show "environment_snapshot e1 n = environment_snapshot e2 n"
      using assms by (cases "n \<in> set CONFIG_ENV_NAMES")
        (auto simp: env_cache_key_def environment_snapshot_def)
  qed
  then show ?thesis by (metis parse_env_snapshot)
qed

lemma from_env_coherent:
  assumes "coherent f cache" "from_env f env cache = (c, cache')"
  shows "c = parse_env f env \<and> coherent f cache'"
proof (cases "\<exists>c0. cache = Some (env_cache_key (environment_snapshot env), c0)")
  case True
  then obtain c0 where c0: "cache = Some (env_cache_key (environment_snapshot env), c0)" by blast
  then have "c = c0" "cache' = cache" using assms(2) by (auto simp: from_env_def Let_def)
  moreover have "c0 = parse_env f env" using assms(1) c0 unfolding coherent_def by blast
  ultimately show ?thesis using assms(1) by simp
next
  case False
  then have res: "c = parse_env f env" "cache' = Some (env_cache_key (environment_snapshot env), parse_env f env)"
    using assms(2) by (auto simp: from_env_def Let_def parse_env_snapshot split: option.splits if_splits)
  have "coherent f cache'"
    unfolding coherent_def res option.inject prod.inject by (metis key_determines)
  with res(1) show ?thesis by simp
qed

section \<open>Properties\<close>

definition demo_env :: env where
  "demo_env = [''HUGEGRAPH_MCP_READONLY'' \<mapsto> '' False '', ''HUGEGRAPH_MCP_MAX_RESULT_ITEMS'' \<mapsto> ''0'',
     ''HUGEGRAPH_GRAPH_PATH'' \<mapsto> ''/g'']"

text \<open>The cache of the configuration is invisible: whatever environments were read before, a
  call returns what parsing the current environment returns, and the cache stays of that kind.\<close>

theorem config_cache_transparent:
  assumes "from_env f e1 None = (c1, cache1)" "from_env f e2 cache1 = (c2, cache2)"
    and "from_env f e3 cache2 = (c3, cache3)"
  shows "c1 = parse_env f e1 \<and> c2 = parse_env f e2 \<and> c3 = parse_env f e3 \<and> coherent f cache3"
proof -
  have "coherent f None" by (simp add: coherent_def)
  from from_env_coherent [OF this assms(1)] from_env_coherent [OF _ assms(2)] from_env_coherent [OF _ assms(3)]
  show ?thesis by blast
qed

theorem config_cache_transparent_witness:
  "fst (from_env (\<lambda>_. None) demo_env (snd (from_env (\<lambda>_. None) Map.empty (snd (from_env (\<lambda>_. None) demo_env None)))))
     = parse_env (\<lambda>_. None) demo_env"
  using config_cache_transparent [OF prod.collapse [symmetric] prod.collapse [symmetric] prod.collapse [symmetric],
      of "\<lambda>_. None" demo_env Map.empty demo_env] by blast

text \<open>C25. The configuration fails closed: it is writable only if the environment says so with one of
  the four false words, an administrator or an AI client only with one of the four true words, and
  every numeric field lies within its bounds whatever the environment holds.\<close>

theorem config_fails_closed:
  "(\<not> cfg_readonly (parse_env f env) \<longrightarrow>
      (\<exists>v. env ''HUGEGRAPH_MCP_READONLY'' = Some v \<and> lower (strip v) \<in> set FALSE_VALUES)) \<and>
   (cfg_admin_mode (parse_env f env) \<longrightarrow>
      (\<exists>v. env ''HUGEGRAPH_MCP_ADMIN_MODE'' = Some v \<and> lower (strip v) \<in> set TRUE_VALUES)) \<and>
   (cfg_allow_ai (parse_env f env) \<longrightarrow>
      (\<exists>v. env ''HUGEGRAPH_MCP_ALLOW_AI'' = Some v \<and> lower (strip v) \<in> set TRUE_VALUES)) \<and>
   cfg_connect_timeout (parse_env f env) \<in> {1/1000..86400} \<and>
   cfg_read_timeout (parse_env f env) \<in> {1/1000..86400} \<and>
   cfg_write_timeout (parse_env f env) \<in> {1/1000..86400} \<and>
   cfg_timeout (parse_env f env) \<in> {1..86400} \<and>
   cfg_max_result_items (parse_env f env) \<in> {1..1000000} \<and>
   cfg_max_result_bytes (parse_env f env) \<in> {1..1073741824} \<and>
   cfg_write_instance_count (parse_env f env) \<in> {1..1024} \<and>
   cfg_graph (parse_env f env) \<noteq> [] \<and> cfg_graphspace (parse_env f env) \<notin> {None, Some []}"
proof -
  have bool_true: "fst (parse_bool v n False) \<Longrightarrow> \<exists>s. v = Some s \<and> lower (strip s) \<in> set TRUE_VALUES" for v n
    by (auto simp: parse_bool_def Let_def split: option.splits if_splits)
  have bool_false: "\<not> fst (parse_bool v n True) \<Longrightarrow> \<exists>s. v = Some s \<and> lower (strip s) \<in> set FALSE_VALUES" for v n
    by (auto simp: parse_bool_def Let_def split: option.splits if_splits)
  note num = parse_numeric_field_bounds [of connect_timeout_spec] parse_numeric_field_bounds [of io_timeout_spec]
    parse_integer_field_bounds [of timeout_spec] parse_integer_field_bounds [of max_result_items_spec]
    parse_integer_field_bounds [of max_result_bytes_spec] parse_integer_field_bounds [of write_instance_spec]
  have path: "fst (parse_graph_path p) \<noteq> []" "snd (parse_graph_path p) \<noteq> []" for p
    by (simp_all add: parse_graph_path_def Let_def split_def non_empty_nonempty)
  show ?thesis
    using bool_true bool_false path num
    by (simp add: parse_env_def Let_def split_def connect_timeout_spec_def io_timeout_spec_def timeout_spec_def
          max_result_items_spec_def max_result_bytes_spec_def write_instance_spec_def non_empty_nonempty
          split: option.split)
qed

theorem config_fails_closed_witness:
  "\<not> cfg_readonly (parse_env (\<lambda>_. None) demo_env) \<and> cfg_max_result_items (parse_env (\<lambda>_. None) demo_env) = 100 \<and>
   (\<exists>v. demo_env ''HUGEGRAPH_MCP_READONLY'' = Some v \<and> lower (strip v) \<in> set FALSE_VALUES)"
proof -
  have "\<not> cfg_readonly (parse_env (\<lambda>_. None) demo_env)" "cfg_max_result_items (parse_env (\<lambda>_. None) demo_env) = 100"
    by code_simp+
  then show ?thesis using config_fails_closed [of "\<lambda>_. None" demo_env] by blast
qed

end
