(* ===== verification/Json_Unique.thy ===== *)
theory Json_Unique
  imports Json_Text
begin

text \<open>
  The JSON text of a value determines the value. This is what makes the digests of the write path
  bind: two payloads or two plan contexts with the same text are the same. The values are those the
  digests are computed from: dicts with sorted distinct keys, lists, texts, integers, booleans and
  null; floats are left out because the text of a float is that of \<open>repr\<close>, which the model does not fix.
\<close>

section \<open>Numbers\<close>

lemma digits_value_append: "digits_value (s @ [c]) = 10 * digits_value s + (int (code c) - 48)"
  by (simp add: digits_value_def)

lemma code_digit_char: "n < 10 \<Longrightarrow> code (digit_char n) = 48 + n"
  by (simp add: digit_char_def code_def)

lemma digits_value_nat_str: "digits_value (nat_str n) = int n"
proof (induction n rule: nat_str.induct)
  case (1 n)
  show ?case
  proof (cases "n < 10")
    case True
    then show ?thesis by (subst nat_str.simps) (simp add: digits_value_def code_digit_char)
  next
    case False
    have "digits_value (nat_str (n div 10)) = int (n div 10)" using 1 False by simp
    moreover have "10 * int (n div 10) + int (n mod 10) = int n" by presburger
    ultimately show ?thesis
      using False by (subst nat_str.simps) (simp add: digits_value_append code_digit_char)
  qed
qed

lemma nat_str_inj: "nat_str m = nat_str n \<Longrightarrow> m = n"
  by (metis digits_value_nat_str of_nat_eq_iff)

lemma minus_not_digit: "\<not> is_digit (CHR ''-'')"
  by (simp add: is_digit_def code_def)

lemma nat_str_no_minus: "nat_str n \<noteq> CHR ''-'' # s"
  using nat_str_digits [of n] minus_not_digit by (auto simp: list_all_iff)

lemma int_str_inj: "int_str i = int_str j \<Longrightarrow> i = j"
proof -
  assume eq: "int_str i = int_str j"
  show "i = j"
  proof (cases "i < 0"; cases "j < 0")
    assume "i < 0" "j < 0"
    then have "nat_str (nat (- i)) = nat_str (nat (- j))" using eq by (simp add: int_str_def)
    then show ?thesis using nat_str_inj \<open>i < 0\<close> \<open>j < 0\<close> by fastforce
  next
    assume "i < 0" "\<not> j < 0"
    then show ?thesis using eq nat_str_no_minus [of "nat j"] by (simp add: int_str_def) metis
  next
    assume "\<not> i < 0" "j < 0"
    then show ?thesis using eq nat_str_no_minus [of "nat i"] by (simp add: int_str_def)
  next
    assume "\<not> i < 0" "\<not> j < 0"
    then have "nat_str (nat i) = nat_str (nat j)" using eq by (simp add: int_str_def)
    then show ?thesis using nat_str_inj \<open>\<not> i < 0\<close> \<open>\<not> j < 0\<close> by fastforce
  qed
qed

definition number_char :: "char \<Rightarrow> bool" where
  "number_char c \<longleftrightarrow> is_digit c \<or> c = CHR ''-''"

lemma int_str_number: "list_all number_char (int_str i)" "int_str i \<noteq> []"
  using nat_str_digits nat_str_nonempty
  by (auto simp: int_str_def number_char_def list_all_iff)

section \<open>Delimited texts\<close>

text \<open>A rest of the text that cannot continue a number: the end, a comma or a closing bracket.\<close>

definition delimited :: "string \<Rightarrow> bool" where
  "delimited r \<longleftrightarrow> r = [] \<or> hd r \<in> {CHR '','', CHR '']'', CHR 0x7D}"

lemma delimited_simps [simp]:
  "delimited []" "delimited (CHR '','' # r)" "delimited (CHR '']'' # r)" "delimited (CHR 0x7D # r)"
  by (simp_all add: delimited_def)

lemma delimited_not_number: "delimited r \<Longrightarrow> takeWhile number_char r = []"
  by (cases r) (auto simp: delimited_def number_char_def is_digit_def code_def)

lemma int_str_prefix:
  assumes "int_str i @ r = int_str j @ r'" "delimited r" "delimited r'"
  shows "i = j \<and> r = r'"
proof -
  have tw: "takeWhile number_char (int_str k @ s) = int_str k" if "delimited s" for k s
    using int_str_number(1) [of k] delimited_not_number [OF that]
    by (simp add: takeWhile_append2 list_all_iff)
  have "int_str i = int_str j" using tw assms by metis
  with assms(1) show ?thesis using int_str_inj by simp
qed

section \<open>Texts\<close>

lemma digit_char_inj: "m < 16 \<Longrightarrow> n < 16 \<Longrightarrow> digit_char m = digit_char n \<Longrightarrow> m = n"
proof -
  assume mn: "m < 16" "n < 16" "digit_char m = digit_char n"
  have "of_char (digit_char k) = (if k < 10 then 48 + k else 87 + k)" if "k < 16" for k :: nat
    using that by (simp add: digit_char_def)
  then have "(if m < 10 then 48 + m else 87 + m) = (if n < 10 then 48 + n else 87 + n)"
    using mn by metis
  then show ?thesis using mn by (auto split: if_splits)
qed

lemma hex4_inj: "m < 256 \<Longrightarrow> n < 256 \<Longrightarrow> hex4 m = hex4 n \<Longrightarrow> m = n"
proof -
  assume mn: "m < 256" "n < 256" "hex4 m = hex4 n"
  then have "m div 16 mod 16 = n div 16 mod 16" "m mod 16 = n mod 16"
    using digit_char_inj by (auto simp: hex4_def hex2_def)
  moreover have "m div 16 < 16" "n div 16 < 16" using mn by auto
  ultimately show ?thesis by (metis div_mult_mod_eq mod_less)
qed

lemma code_less: "code c < 256"
  by (simp add: code_def)

lemma code_inj [simp]: "code c = code d \<longleftrightarrow> c = d"
  by (simp add: code_def)

text \<open>Reading one character back.\<close>

definition read_length :: "string \<Rightarrow> nat" where
  "read_length s = (case s of CHR 0x5C # CHR ''u'' # _ \<Rightarrow> 6 | CHR 0x5C # _ \<Rightarrow> 2 | _ \<Rightarrow> 1)"

lemma json_char_length: "length (json_char ascii c) = read_length (json_char ascii c @ s)"
  by (simp add: json_char_def read_length_def hex4_def hex2_def code_def split: char.splits)

lemma json_char_inj: "json_char ascii c = json_char ascii d \<Longrightarrow> c = d"
proof -
  assume eq: "json_char ascii c = json_char ascii d"
  have bs: "code (CHR 0x5C) = 92" by (simp add: code_def)
  have "code c = code d"
    using eq hex4_inj [OF code_less code_less, of c d] bs
    by (auto simp: json_char_def split: if_splits)
  then show "c = d" by simp
qed

lemma json_char_prefix: "json_char ascii c @ s = json_char ascii d @ t \<Longrightarrow> c = d \<and> s = t"
proof -
  assume eq: "json_char ascii c @ s = json_char ascii d @ t"
  then have "length (json_char ascii c) = length (json_char ascii d)"
    by (metis json_char_length)
  with eq show ?thesis by (auto dest: json_char_inj)
qed

lemma json_char_not_quote: "json_char ascii c @ s \<noteq> CHR 0x22 # t"
proof
  assume eq: "json_char ascii c @ s = CHR 0x22 # t"
  have "code (CHR 0x22) = 34" by (simp add: code_def)
  with eq show False by (auto simp: json_char_def split: if_splits)
qed

lemma json_text_prefix:
  "concat (map (json_char ascii) s) @ CHR 0x22 # r = concat (map (json_char ascii) t) @ CHR 0x22 # r' \<Longrightarrow>
     s = t \<and> r = r'"
proof (induction s arbitrary: t)
  case Nil
  then show ?case using json_char_not_quote by (cases t) (auto, metis)
next
  case (Cons c s)
  then show ?case
  proof (cases t)
    case Nil
    then show ?thesis
      using Cons.prems json_char_not_quote [of ascii c "concat (map (json_char ascii) s) @ CHR 0x22 # r" r'] by simp
  next
    case t: (Cons d t')
    let ?A = "concat (map (json_char ascii) s) @ CHR 0x22 # r"
    let ?B = "concat (map (json_char ascii) t') @ CHR 0x22 # r'"
    have "json_char ascii c @ ?A = json_char ascii d @ ?B" using Cons.prems t by simp
    from json_char_prefix [OF this] Cons.IH [of t'] t show ?thesis by simp
  qed
qed

lemma json_str_prefix: "json_str ascii s @ r = json_str ascii t @ r' \<Longrightarrow> s = t \<and> r = r'"
  using json_text_prefix [of ascii s r t r'] by (simp add: json_str_def)

section \<open>Values\<close>

text \<open>The values the digests are computed from.\<close>

fun canonical :: "py \<Rightarrow> bool" where
  "canonical (PDict d) = (sorted_wrt (<) (map fst d) \<and> list_all (\<lambda>kv. canonical (snd kv)) d)"
| "canonical (PList xs) = list_all canonical xs"
| "canonical (PTuple xs) = False"
| "canonical (PFloat f) = False"
| "canonical v = True"

definition dump_item :: "bool \<Rightarrow> string \<Rightarrow> string \<Rightarrow> string \<times> py \<Rightarrow> string" where
  "dump_item ascii isep ksep kv = json_str ascii (fst kv) @ ksep @ json_dump ascii True isep ksep (snd kv)"

lemma sort_key_strict: "sorted_wrt (<) (map fst d) \<Longrightarrow> sort_key fst d = (d :: (string \<times> 'a) list)"
  by (intro sort_key_id_if_sorted) (simp add: strict_sorted_iff)

lemma json_dump_dict:
  assumes "sorted_wrt (<) (map fst d)"
  shows "json_dump ascii True isep ksep (PDict d) =
    CHR 0x7B # join isep (map (dump_item ascii isep ksep) d) @ [CHR 0x7D]"
proof -
  let ?items = "map (\<lambda>kv. (fst kv, json_dump ascii True isep ksep (snd kv))) d"
  have "map fst ?items = map fst d" by simp
  then have "sort_key fst ?items = ?items" using sort_key_strict [of ?items] assms by (simp add: comp_def)
  moreover have "map (\<lambda>kv. json_str ascii (fst kv) @ ksep @ snd kv) ?items = map (dump_item ascii isep ksep) d"
    by (simp add: dump_item_def)
  ultimately show ?thesis by (simp only: json_dump.simps Let_def if_True append_Cons append_Nil)
qed

text \<open>Separators that start with a comma and a colon, as every caller passes them.\<close>

lemma join_prefix:
  assumes "\<And>x y r r'. x \<in> set xs \<Longrightarrow> y \<in> set ys \<Longrightarrow> f x @ r = f y @ r' \<Longrightarrow> delimited r \<Longrightarrow> delimited r' \<Longrightarrow>
      x = y \<and> r = r'"
    and "\<And>x s. x \<in> set xs \<union> set ys \<Longrightarrow> f x @ s \<noteq> e # t \<and> f x @ s \<noteq> e # t'"
    and "e = CHR '']'' \<or> e = CHR 0x7D"
    and "join (CHR '','' # sp) (map f xs) @ e # t = join (CHR '','' # sp) (map f ys) @ e # t'"
  shows "xs = ys \<and> t = t'"
  using assms
proof (induction xs arbitrary: ys)
  case Nil
  show ?case
  proof (cases ys)
    case (Cons y ys')
    then obtain s where "join (CHR '','' # sp) (map f ys) @ e # t' = f y @ s" by (cases ys') auto
    then show ?thesis using Nil(4) Nil(2) [of y s] Cons by auto
  qed (use Nil in simp)
next
  case (Cons x xs)
  show ?case
  proof (cases ys)
    case Nil
    then obtain s where "join (CHR '','' # sp) (map f (x # xs)) @ e # t = f x @ s" by (cases xs) auto
    then show ?thesis using Cons.prems(2) [of x s] Cons.prems(4) Nil by auto
  next
    case ys: (Cons y ys')
    let ?rest = "\<lambda>zs u. (if zs = [] then e # u else CHR '','' # sp @ join (CHR '','' # sp) (map f zs) @ e # u)"
    have step: "join (CHR '','' # sp) (map f (z # zs)) @ e # u = f z @ ?rest zs u" for z zs u
      by (cases zs) auto
    have del: "delimited (?rest zs u)" for zs u using Cons.prems(3) by auto
    have "x = y \<and> ?rest xs t = ?rest ys' t'"
      using Cons.prems(1) [of x y "?rest xs t" "?rest ys' t'"] Cons.prems(4) del step ys by auto
    then have xy: "x = y" "?rest xs t = ?rest ys' t'" by auto
    show ?thesis
    proof (cases "xs = [] \<or> ys' = []")
      case True
      then show ?thesis using xy Cons.prems(3) ys by (auto split: if_splits)
    next
      case False
      then have "join (CHR '','' # sp) (map f xs) @ e # t = join (CHR '','' # sp) (map f ys') @ e # t'"
        using xy(2) by simp
      then have "xs = ys' \<and> t = t'"
        using Cons.IH [of ys'] Cons.prems(1,2,3) ys by auto
      then show ?thesis using xy ys by simp
    qed
  qed
qed

text \<open>The first character tells the kind of a value.\<close>

definition kind_of :: "char \<Rightarrow> nat" where
  "kind_of c = (if number_char c then 3 else if c = CHR ''n'' then 0 else if c = CHR ''t'' then 1
     else if c = CHR ''f'' then 2 else if c = CHR 0x22 then 4 else if c = CHR ''['' then 5
     else if c = CHR 0x7B then 6 else 7)"

fun tag :: "py \<Rightarrow> nat" where
  "tag PNone = 0"
| "tag (PBool b) = (if b then 1 else 2)"
| "tag (PInt i) = 3"
| "tag (PStr s) = 4"
| "tag (PList xs) = 5"
| "tag (PDict d) = 6"
| "tag _ = 7"

lemma number_char_letters [simp]:
  "\<not> number_char (CHR ''n'')" "\<not> number_char (CHR ''t'')" "\<not> number_char (CHR ''f'')"
  "\<not> number_char (CHR 0x22)" "\<not> number_char (CHR ''['')" "\<not> number_char (CHR '']'')"
  "\<not> number_char (CHR 0x7B)" "\<not> number_char (CHR 0x7D)"
  by (simp_all add: number_char_def is_digit_def code_def)

lemma json_head: "canonical v \<Longrightarrow> \<exists>c s. json_dump ascii True isep ksep v = c # s \<and> kind_of c = tag v"
proof (cases v)
  case (PInt i)
  then show ?thesis using int_str_number [of i] by (cases "int_str i") (auto simp: kind_of_def)
qed (simp_all add: kind_of_def json_str_def Let_def)

lemma json_same_tag:
  assumes "canonical v" "canonical w" "json_dump ascii True isep ksep v @ r = json_dump ascii True isep ksep w @ r'"
  shows "tag v = tag w"
  using json_head [OF assms(1), of ascii isep ksep] json_head [OF assms(2), of ascii isep ksep] assms(3) by auto

lemma json_dump_not_bracket: "canonical v \<Longrightarrow> json_dump ascii True isep ksep v @ s \<noteq> CHR '']'' # t"
proof
  assume v: "canonical v" "json_dump ascii True isep ksep v @ s = CHR '']'' # t"
  then have "tag v = kind_of (CHR '']'')" using json_head [OF v(1), of ascii isep ksep] by auto
  then show False using v(1) by (cases v) (auto simp: kind_of_def split: if_splits)
qed

lemma dump_item_not_brace: "dump_item ascii isep ksep kv @ s \<noteq> CHR 0x7D # t"
  by (simp add: dump_item_def json_str_def)

lemma json_dump_prefix:
  assumes "canonical v" "canonical w" "delimited r" "delimited r'"
    and "isep = CHR '','' # sp" "json_dump ascii True isep ksep v @ r = json_dump ascii True isep ksep w @ r'"
  shows "v = w \<and> r = r'"
  using assms
proof (induction v arbitrary: w r r')
  case PNone
  then show ?case using json_same_tag [OF PNone.prems(1,2,6)] by (cases w) (auto split: if_splits)
next
  case (PBool b)
  then show ?case using json_same_tag [OF PBool.prems(1,2,6)] by (cases w) (auto split: if_splits)
next
  case (PInt i)
  then show ?case using json_same_tag [OF PInt.prems(1,2,6)]
    by (cases w) (auto split: if_splits dest: int_str_prefix)
next
  case (PFloat f)
  then show ?case by simp
next
  case (PStr s)
  then show ?case using json_same_tag [OF PStr.prems(1,2,6)]
    by (cases w) (auto split: if_splits dest: json_str_prefix)
next
  case (PList xs)
  obtain ys where w: "w = PList ys"
    using json_same_tag [OF PList.prems(1,2,6)] PList.prems(2) by (cases w) (auto split: if_splits)
  let ?f = "json_dump ascii True isep ksep"
  have eq: "join (CHR '','' # sp) (map ?f xs) @ CHR '']'' # r = join (CHR '','' # sp) (map ?f ys) @ CHR '']'' # r'"
    using PList.prems w by simp
  have "xs = ys \<and> r = r'"
  proof (rule join_prefix [OF _ _ disjI1 [OF refl] eq])
    show "x = y \<and> s = s'" if "x \<in> set xs" "y \<in> set ys" "?f x @ s = ?f y @ s'" "delimited s" "delimited s'" for x y s s'
      using that PList.IH [of x y s s'] PList.prems(1,2,5) w by (auto simp: list_all_iff)
    show "?f x @ s \<noteq> CHR '']'' # r \<and> ?f x @ s \<noteq> CHR '']'' # r'" if "x \<in> set xs \<union> set ys" for x s
      using that json_dump_not_bracket [of x] PList.prems(1,2) w by (auto simp: list_all_iff)
  qed
  then show ?case using w by simp
next
  case (PTuple xs)
  then show ?case by simp
next
  case (PDict d)
  obtain e where w: "w = PDict e"
    using json_same_tag [OF PDict.prems(1,2,6)] PDict.prems(2) by (cases w) (auto split: if_splits)
  let ?f = "dump_item ascii isep ksep"
  have srt: "sorted_wrt (<) (map fst d)" "sorted_wrt (<) (map fst e)"
    using PDict.prems(1,2) w by simp_all
  have eq: "join (CHR '','' # sp) (map ?f d) @ CHR 0x7D # r = join (CHR '','' # sp) (map ?f e) @ CHR 0x7D # r'"
    using PDict.prems(5,6) unfolding w json_dump_dict [OF srt(1)] json_dump_dict [OF srt(2)] by simp
  have "d = e \<and> r = r'"
  proof (rule join_prefix [OF _ _ disjI2 [OF refl] eq])
    show "x = y \<and> s = s'" if x: "x \<in> set d" and y: "y \<in> set e" and "?f x @ s = ?f y @ s'" "delimited s" "delimited s'"
      for x y s s'
    proof -
      obtain k a k' b where xy: "x = (k, a)" "y = (k', b)" by fastforce
      have "k = k' \<and> ksep @ json_dump ascii True isep ksep a @ s = ksep @ json_dump ascii True isep ksep b @ s'"
        using that(3) xy by (intro json_str_prefix [of ascii]) (simp add: dump_item_def)
      moreover have "canonical a" "canonical b"
        using PDict.prems(1,2) w x y xy by (auto simp: list_all_iff)
      ultimately show ?thesis
        using PDict.IH [of x a b s s'] x xy that(4,5) PDict.prems(5) by simp
    qed
    show "?f x @ s \<noteq> CHR 0x7D # r \<and> ?f x @ s \<noteq> CHR 0x7D # r'" if "x \<in> set d \<union> set e" for x s
      using dump_item_not_brace by blast
  qed
  then show ?case using w by simp
qed

lemma json_dump_inj:
  assumes "canonical v" "canonical w" "json_dump ascii True (CHR '','' # sp) ksep v = json_dump ascii True (CHR '','' # sp) ksep w"
  shows "v = w"
  using json_dump_prefix [OF assms(1,2), of "[]" "[]"] assms(3) by simp

end
