(* ===== verification/Plan_Hash.thy ===== *)
theory Plan_Hash
  imports Config Response Json_Unique
begin

text \<open>
  Model of \<open>hugegraph_mcp/plan_hash.py\<close>: the plan context, its target-bound hash, and the check of a
  submitted hash against the current configuration. \<open>sha\<close> is the hexadecimal SHA-256 of a text, a
  parameter; the clock readings are arguments.
\<close>

section \<open>Contexts and hashes\<close>

record PlanContext =
  pc_tool :: string
  pc_mode :: string
  pc_url :: string
  pc_graph :: string
  pc_space :: string
  pc_principal :: string
  pc_readonly :: bool
  pc_digest :: string
  pc_schema :: "string option"
  pc_nonce :: string
  pc_expires :: int
  pc_extra :: py_dict

definition opt_py :: "string option \<Rightarrow> py" where
  "opt_py o' = (case o' of None \<Rightarrow> PNone | Some s \<Rightarrow> PStr s)"

text \<open>\<open>asdict(context)\<close>.\<close>

definition asdict :: "PlanContext \<Rightarrow> py" where
  "asdict c = PDict
     [(''tool_name'', PStr (pc_tool c)), (''mode'', PStr (pc_mode c)),
      (''graph_url'', PStr (pc_url c)), (''graph_name'', PStr (pc_graph c)),
      (''graphspace'', PStr (pc_space c)), (''principal'', PStr (pc_principal c)),
      (''readonly'', PBool (pc_readonly c)), (''payload_digest'', PStr (pc_digest c)),
      (''schema_hash'', opt_py (pc_schema c)), (''nonce'', PStr (pc_nonce c)),
      (''expires_at'', PInt (pc_expires c)), (''extra_context'', PDict (pc_extra c))]"

fun canonicalize :: "py \<Rightarrow> py" where
  "canonicalize (PDict d) = PDict (map (\<lambda>kv. (fst kv, canonicalize (snd kv))) (sort_key fst d))"
| "canonicalize (PList xs) = PList (map canonicalize xs)"
| "canonicalize (PTuple xs) = PList (map canonicalize xs)"
| "canonicalize v = v"

definition context_text :: "PlanContext \<Rightarrow> string" where
  "context_text c = sorted_json (canonicalize (asdict c))"

definition compute_plan_hash :: "(string \<Rightarrow> string) \<Rightarrow> PlanContext \<Rightarrow> string" where
  "compute_plan_hash sha c = take 32 (sha (context_text c))"

definition compute_payload_digest :: "(string \<Rightarrow> string) \<Rightarrow> py \<Rightarrow> string" where
  "compute_payload_digest sha payload = take 32 (sha (sorted_json (canonicalize payload)))"

text \<open>The context of a call under a configuration.\<close>

definition context_of ::
  "MCPConfig \<Rightarrow> string \<Rightarrow> string \<Rightarrow> string \<Rightarrow> string option \<Rightarrow> string \<Rightarrow> int \<Rightarrow> py_dict \<Rightarrow> PlanContext" where
  "context_of cfg tool mode digest schema nonce expires extra =
     \<lparr>pc_tool = tool, pc_mode = mode, pc_url = cfg_url cfg, pc_graph = cfg_graph cfg,
      pc_space = (case cfg_graphspace cfg of None \<Rightarrow> ''DEFAULT'' | Some s \<Rightarrow> if s = [] then ''DEFAULT'' else s),
      pc_principal = cfg_user cfg, pc_readonly = is_readonly cfg, pc_digest = digest, pc_schema = schema,
      pc_nonce = nonce, pc_expires = expires, pc_extra = extra\<rparr>"

definition build_plan_context ::
  "(string \<Rightarrow> string) \<Rightarrow> MCPConfig \<Rightarrow> int \<Rightarrow> string \<Rightarrow> string \<Rightarrow> string \<Rightarrow> string \<Rightarrow> string option
   \<Rightarrow> string option \<Rightarrow> int \<Rightarrow> py_dict \<Rightarrow> PlanContext \<times> string" where
  "build_plan_context sha cfg now fresh tool mode digest schema nonce ttl extra =
     (let n = (case nonce of None \<Rightarrow> fresh | Some x \<Rightarrow> x);
          c = context_of cfg tool mode digest schema n (now + ttl) extra
      in (c, compute_plan_hash sha c))"

section \<open>Verification\<close>

text \<open>
  \<open>_coerce_expires_at\<close> catches TypeError and ValueError; \<open>int(inf)\<close> raises OverflowError, which it does
  not catch.
\<close>

definition coerce_expires_at :: "py \<Rightarrow> int option res" where
  "coerce_expires_at v = (if v = PNone then Inr None else case py_int v of
      Inr i \<Rightarrow> Inr (Some i)
    | Inl (TypeError m) \<Rightarrow> Inr None
    | Inl (ValueError m) \<Rightarrow> Inr None
    | Inl e \<Rightarrow> Inl e)"

datatype verification = Valid | Invalid ErrorType py

definition verify_plan_hash ::
  "(string \<Rightarrow> string) \<Rightarrow> MCPConfig \<Rightarrow> int \<Rightarrow> string \<Rightarrow> string \<Rightarrow> string \<Rightarrow> string \<Rightarrow> string option
   \<Rightarrow> string option \<Rightarrow> py \<Rightarrow> py_dict \<Rightarrow> verification res" where
  "verify_plan_hash sha cfg now submitted tool mode digest schema nonce expires extra =
     (case nonce of
        None \<Rightarrow> Inr (Invalid PLAN_HASH_MISMATCH (PDict [(''reason'', PStr ''Missing nonce in plan context.'')]))
      | Some n \<Rightarrow>
        (case coerce_expires_at expires of Inl e \<Rightarrow> Inl e
         | Inr secs \<Rightarrow>
           if secs = None \<or> now > the secs then
             Inr (Invalid PLAN_EXPIRED (PDict [(''expires_at'', expires), (''current_time'', PInt now),
               (''reason'', PStr ''Plan has expired. Run dry_run again.'')]))
           else if submitted \<noteq> compute_plan_hash sha (context_of cfg tool mode digest schema n (the secs) extra)
           then Inr (Invalid PLAN_HASH_MISMATCH (PDict [(''provided_hash'', PStr submitted),
               (''reason'', PStr ''Plan context has changed since dry_run.'')]))
           else Inr Valid))"

section \<open>The text of a context determines the context\<close>

text \<open>Values whose digests are modelled: dicts have distinct keys, and there is no float.\<close>

fun digestible :: "py \<Rightarrow> bool" where
  "digestible (PDict d) = (distinct (map fst d) \<and> list_all (\<lambda>kv. digestible (snd kv)) d)"
| "digestible (PList xs) = list_all digestible xs"
| "digestible (PTuple xs) = list_all digestible xs"
| "digestible (PFloat f) = False"
| "digestible v = True"

lemma distinct_sort_key: "distinct (map fst d) \<Longrightarrow> distinct (map fst (sort_key fst d))"
  by (simp add: distinct_map)

lemma canonical_canonicalize: "digestible v \<Longrightarrow> canonical (canonicalize v)"
proof (induction v rule: canonicalize.induct)
  case (1 d)
  have "sorted_wrt (<) (map fst (sort_key fst d))"
    using 1(2) distinct_sort_key [of d] by (simp add: strict_sorted_iff)
  then show ?case using 1 by (auto simp: comp_def list_all_iff)
qed (auto simp: list_all_iff)

lemma map_of_sort_key:
  assumes "distinct (map fst d)"
  shows "map_of (sort_key fst d) = map_of d"
  using map_of_inject_set [OF distinct_sort_key [OF assms] assms] by simp

lemma canonicalize_lookup:
  assumes "distinct (map fst d)" "distinct (map fst e)" "canonicalize (PDict d) = canonicalize (PDict e)"
  shows "map_option canonicalize (map_of d k) = map_option canonicalize (map_of e k)"
proof -
  have lookup: "map_of (map (\<lambda>kv. (fst kv, canonicalize (snd kv))) (sort_key fst c)) k =
      map_option canonicalize (map_of c k)" if "distinct (map fst c)" for c :: py_dict
    using map_of_map [of canonicalize "sort_key fst c"] map_of_sort_key [OF that]
    by (simp add: case_prod_unfold)
  from assms(3) have "map (\<lambda>kv. (fst kv, canonicalize (snd kv))) (sort_key fst d) =
      map (\<lambda>kv. (fst kv, canonicalize (snd kv))) (sort_key fst e)" by simp
  then show ?thesis using lookup [OF assms(1)] lookup [OF assms(2)] by metis
qed

definition same_context :: "PlanContext \<Rightarrow> PlanContext \<Rightarrow> bool" where
  "same_context c c' \<longleftrightarrow> pc_tool c = pc_tool c' \<and> pc_mode c = pc_mode c' \<and> pc_url c = pc_url c' \<and>
     pc_graph c = pc_graph c' \<and> pc_space c = pc_space c' \<and> pc_principal c = pc_principal c' \<and>
     pc_readonly c = pc_readonly c' \<and> pc_digest c = pc_digest c' \<and> pc_schema c = pc_schema c' \<and>
     pc_nonce c = pc_nonce c' \<and> pc_expires c = pc_expires c' \<and>
     canonicalize (PDict (pc_extra c)) = canonicalize (PDict (pc_extra c'))"

fun dict_items :: "py \<Rightarrow> py_dict" where
  "dict_items (PDict d) = d"
| "dict_items _ = []"

lemma asdict_keys: "asdict c = PDict (dict_items (asdict c))" "distinct (map fst (dict_items (asdict c)))"
  by (simp_all add: asdict_def)

lemma opt_py_inj: "canonicalize (opt_py a) = canonicalize (opt_py b) \<Longrightarrow> a = b"
  by (auto simp: opt_py_def split: option.splits)

lemma context_text_inj:
  assumes "digestible (PDict (pc_extra c))" "digestible (PDict (pc_extra c'))" "context_text c = context_text c'"
  shows "same_context c c'"
proof -
  have dig: "digestible (asdict x)" if "digestible (PDict (pc_extra x))" for x
    using that by (auto simp: asdict_def opt_py_def split: option.split)
  have "canonicalize (asdict c) = canonicalize (asdict c')"
    using json_dump_inj [OF canonical_canonicalize [OF dig [OF assms(1)]] canonical_canonicalize [OF dig [OF assms(2)]],
        of True "'' ''" "'': ''"] assms(3)
    by (simp add: context_text_def sorted_json_def)
  then have look: "map_option canonicalize (map_of (dict_items (asdict c)) k) =
      map_option canonicalize (map_of (dict_items (asdict c')) k)" for k
    using canonicalize_lookup [OF asdict_keys(2) [of c] asdict_keys(2) [of c'], of k] asdict_keys(1) by metis
  note look [unfolded asdict_def, simplified]
  show ?thesis
    unfolding same_context_def
    using look [of "''tool_name''"] look [of "''mode''"] look [of "''graph_url''"] look [of "''graph_name''"]
      look [of "''graphspace''"] look [of "''principal''"] look [of "''readonly''"] look [of "''payload_digest''"]
      look [of "''schema_hash''"] look [of "''nonce''"] look [of "''expires_at''"] look [of "''extra_context''"]
    by (simp add: asdict_def opt_py_inj)
qed

section \<open>Properties\<close>

lemma verify_valid_iff:
  "verify_plan_hash sha cfg now submitted tool mode digest schema nonce expires extra = Inr Valid \<longleftrightarrow>
     (\<exists>n e. nonce = Some n \<and> coerce_expires_at expires = Inr (Some e) \<and> now \<le> e \<and>
        submitted = compute_plan_hash sha (context_of cfg tool mode digest schema n e extra))"
  by (auto simp: verify_plan_hash_def split: option.split sum.split)

definition demo_config :: MCPConfig where "demo_config = parse_env (\<lambda>_. None) demo_env"

definition demo_context :: PlanContext where
  "demo_context = fst (build_plan_context (\<lambda>t. t) demo_config 100 ''f'' ''tool'' ''apply'' ''digest'' None (Some ''n'') 600 [])"

text \<open>A plan hash is accepted under the configuration it was built for until it expires.\<close>

theorem built_hash_verifies:
  assumes "build_plan_context sha cfg t0 fresh tool mode digest schema (Some n) ttl extra = (c, h)" "now \<le> t0 + ttl"
  shows "verify_plan_hash sha cfg now h tool mode digest schema (Some n) (PInt (pc_expires c)) extra = Inr Valid"
  using assms
  by (auto simp: build_plan_context_def context_of_def verify_valid_iff coerce_expires_at_def Let_def)

theorem built_hash_verifies_witness:
  "verify_plan_hash (\<lambda>t. t) demo_config 300 (compute_plan_hash (\<lambda>t. t) demo_context) ''tool'' ''apply'' ''digest''
     None (Some ''n'') (PInt (pc_expires demo_context)) [] = Inr Valid"
proof -
  have "build_plan_context (\<lambda>t. t) demo_config 100 ''f'' ''tool'' ''apply'' ''digest'' None (Some ''n'') 600 []
      = (demo_context, compute_plan_hash (\<lambda>t. t) demo_context)"
    by (simp add: demo_context_def build_plan_context_def Let_def)
  from built_hash_verifies [OF this] show ?thesis by simp
qed

text \<open>C27. The hash of a plan binds it: if the hash of a context is accepted later, then either every
  field of that context, the target, the principal, the readonly flag, the payload digest, the nonce
  and the expiry included, is that of the call and of the current configuration, and the plan has not
  expired, or the digest function collides on two different texts.\<close>

theorem plan_hash_binds_target:
  assumes "verify_plan_hash sha cfg now (compute_plan_hash sha c) tool mode digest schema nonce expires extra = Inr Valid"
    and "digestible (PDict (pc_extra c))" "digestible (PDict extra)"
  shows "\<exists>n e. nonce = Some n \<and> now \<le> e \<and>
    (let c' = context_of cfg tool mode digest schema n e extra in
       same_context c c' \<or>
       (context_text c \<noteq> context_text c' \<and> take 32 (sha (context_text c)) = take 32 (sha (context_text c'))))"
proof -
  obtain n e where ne: "nonce = Some n" "now \<le> e"
    "compute_plan_hash sha c = compute_plan_hash sha (context_of cfg tool mode digest schema n e extra)"
    using assms(1) unfolding verify_valid_iff by blast
  have "digestible (PDict (pc_extra (context_of cfg tool mode digest schema n e extra)))"
    using assms(3) by (simp add: context_of_def)
  from context_text_inj [OF assms(2) this] ne show ?thesis
    by (auto simp: compute_plan_hash_def Let_def)
qed

theorem plan_hash_binds_target_witness:
  "\<exists>n e. Some ''n'' = Some n \<and> 300 \<le> e \<and>
    (let c' = context_of demo_config ''tool'' ''apply'' ''digest'' None n e [] in
       same_context demo_context c' \<or>
       (context_text demo_context \<noteq> context_text c' \<and> take 32 (context_text demo_context) = take 32 (context_text c')))"
proof -
  have "pc_extra demo_context = []" by (simp add: demo_context_def build_plan_context_def context_of_def Let_def)
  then have d: "digestible (PDict (pc_extra demo_context))" "digestible (PDict [])" by simp_all
  have "verify_plan_hash (\<lambda>t. t) demo_config 300 (compute_plan_hash (\<lambda>t. t) demo_context) ''tool'' ''apply'' ''digest''
     None (Some ''n'') (PInt 700) [] = Inr Valid"
    by (auto simp: verify_valid_iff coerce_expires_at_def demo_context_def build_plan_context_def context_of_def Let_def)
  from plan_hash_binds_target [OF this d] show ?thesis .
qed

text \<open>An infinite expiry is not treated as expired: verification raises an overflow error.\<close>

theorem infinite_expiry_raises:
  "verify_plan_hash (\<lambda>t. t) demo_config 0 ''h'' ''tool'' ''apply'' ''d'' None (Some ''n'') (PFloat (Inf False)) []
     = Inl (OverflowError ''cannot convert float infinity to integer'')"
  by (simp add: verify_plan_hash_def coerce_expires_at_def)

end
