(* ===== verification/Confirmable.thy ===== *)
theory Confirmable
  imports Confirmation_Store Plan_Hash
begin

text \<open>
  Model of \<open>hugegraph_mcp/confirmable_workflow.py\<close> and \<open>write_contract.py\<close>: issuing a dry-run plan,
  loading it, verifying and consuming a confirmation, the outcome record, and the rules that keep the
  canonical and the legacy confirmation apart. The confirmation store is the ledger of
  \<open>Confirmation_Store\<close>; that it may be unavailable is not modelled.
\<close>

section \<open>Confirmation locators\<close>

datatype ConfirmationProtocol = CANONICAL | LEGACY

record ConfirmationResolution =
  rs_protocol :: ConfirmationProtocol
  rs_plan_id :: "string option"
  rs_plan_hash :: "string option"
  rs_nonce :: "string option"
  rs_expires :: py
  rs_warnings :: "string list"

definition legacy_warning :: string where
  "legacy_warning = ''LEGACY_CONFIRMATION_DEPRECATED: use plan_id with confirm_write_tool; '' @
     ''legacy confirmation fields will be removed after one release.''"

definition protocol_error :: "string \<Rightarrow> response" where
  "protocol_error reason = envelope_err VALIDATION_ERROR ''Invalid write confirmation protocol.'' None
     (PDict [(''reason'', PStr reason)])"

definition resolve_confirmation_protocol ::
  "string option \<Rightarrow> string option \<Rightarrow> string option \<Rightarrow> py \<Rightarrow> response + ConfirmationResolution" where
  "resolve_confirmation_protocol plan_id plan_hash nonce expires =
     (let canonical_present = (plan_id \<noteq> None \<and> plan_id \<noteq> Some []);
          legacy_present = (plan_hash \<noteq> None \<or> nonce \<noteq> None \<or> expires \<noteq> PNone);
          legacy_complete = (plan_hash \<noteq> None \<and> nonce \<noteq> None \<and> expires \<noteq> PNone)
      in if canonical_present \<and> legacy_present
         then Inl (protocol_error ''plan_id cannot be combined with plan_hash, nonce, or expires_at.'')
         else if canonical_present then
           Inr \<lparr>rs_protocol = CANONICAL, rs_plan_id = plan_id, rs_plan_hash = None, rs_nonce = None,
                rs_expires = PNone, rs_warnings = []\<rparr>
         else if legacy_present \<and> \<not> legacy_complete
         then Inl (protocol_error ''plan_hash, nonce, and expires_at must be supplied together.'')
         else if legacy_complete then
           Inr \<lparr>rs_protocol = LEGACY, rs_plan_id = None, rs_plan_hash = plan_hash, rs_nonce = nonce,
                rs_expires = expires, rs_warnings = [legacy_warning]\<rparr>
         else Inl (protocol_error ''A plan_id or complete legacy locator is required.''))"

text \<open>\<open>None\<close> for the answer \<open>(None, None)\<close> of a call without any legacy field.\<close>

definition resolve_optional_legacy_locator ::
  "string option \<Rightarrow> string option \<Rightarrow> py \<Rightarrow> (response + ConfirmationResolution) option" where
  "resolve_optional_legacy_locator plan_hash nonce expires =
     (if plan_hash = None \<and> nonce = None \<and> expires = PNone then None
      else Some (resolve_confirmation_protocol None plan_hash nonce expires))"

section \<open>Errors of the workflow\<close>

definition plan_hash_error :: "ErrorType \<Rightarrow> py \<Rightarrow> string \<Rightarrow> string option \<Rightarrow> string \<Rightarrow> response" where
  "plan_hash_error t details mismatch expired suggestion =
     (if t = PLAN_EXPIRED \<and> expired \<noteq> None \<and> expired \<noteq> Some [] then
        envelope_err t (the expired) (Some suggestion) details
      else if t = PLAN_ALREADY_USED then
        envelope_err t ''This confirmation plan has already been used.''
          (Some ''Inspect the current target state, then run dry_run again and use the new confirmation plan.'') details
      else if t = SERVER_ERROR then
        envelope_err t ''Confirmation state could not be recorded safely.''
          (Some ''Restore writable persistent confirmation state, then run dry_run again.'') details
      else envelope_err t mismatch (Some suggestion) details)"

definition reason :: "string \<Rightarrow> py" where
  "reason s = PDict [(''reason'', PStr s)]"

definition confirm_required_error :: "string \<Rightarrow> string \<Rightarrow> response" where
  "confirm_required_error message suggestion = envelope_err CONFIRM_REQUIRED message (Some suggestion) (PDict [])"

definition mark_readonly_preview :: "py_dict \<Rightarrow> string \<Rightarrow> string \<Rightarrow> py_dict \<times> string list \<times> string list" where
  "mark_readonly_preview payload warning action =
     (dset ''readonly_preview_only'' (PBool True) (dset ''confirmable'' (PBool False) payload), [warning], [action])"

section \<open>Issuing and loading\<close>

text \<open>The error, \<open>None\<close> for success, and the new ledger.\<close>

definition issue_plan ::
  "(string \<Rightarrow> string) \<Rightarrow> int \<Rightarrow> PlanContext \<Rightarrow> string \<Rightarrow> py option \<Rightarrow> confirm_db \<Rightarrow> response option \<times> confirm_db" where
  "issue_plan sha now c h payload db =
     (case issue sha now (pc_nonce c) h (pc_expires c) payload db of
        (Inl ConfirmationPlanExpired, db') \<Rightarrow> (Some (plan_hash_error PLAN_EXPIRED
          (reason ''The generated plan TTL is outside the allowed window.'')
          ''The generated confirmation plan is invalid.'' (Some ''The generated confirmation plan is invalid.'')
          ''Run dry_run again.''), db')
      | (Inl _, db') \<Rightarrow> (Some (plan_hash_error PLAN_HASH_MISMATCH
          (reason ''The nonce is already bound to another issued plan.'')
          ''The confirmation nonce conflicts with another plan.'' None
          ''Run dry_run again without supplying a nonce.''), db')
      | (Inr _, db') \<Rightarrow> (None, db'))"

definition no_plan_matches :: string where
  "no_plan_matches = ''No server-issued dry-run plan matches this confirmation.''"

definition load_issued_plan ::
  "(string \<Rightarrow> string) \<Rightarrow> int \<Rightarrow> string option \<Rightarrow> string option \<Rightarrow> py \<Rightarrow> confirm_db \<Rightarrow> response + py option" where
  "load_issued_plan sha now nonce plan_hash expires db =
     (case (nonce, plan_hash) of
        (Some n, Some h) \<Rightarrow>
          if n = [] \<or> h = [] \<or> expires = PNone then
            Inl (plan_hash_error PLAN_HASH_MISMATCH (reason ''Plan confirmation fields are incomplete.'')
              no_plan_matches None ''Run dry_run again and use all returned confirmation fields.'')
          else (case py_int expires of
            Inl e \<Rightarrow> Inl (plan_hash_error PLAN_HASH_MISMATCH (reason ''Plan expiry is invalid.'')
              ''The confirmation plan expiry is invalid.'' None
              ''Run dry_run again and use the returned confirmation plan.'')
          | Inr secs \<Rightarrow>
            if secs < now then
              Inl (plan_hash_error PLAN_EXPIRED (reason ''The server-issued plan has expired.'')
                ''The server-issued plan has expired.'' (Some ''The server-issued plan has expired.'')
                ''Run dry_run again and use the returned confirmation plan.'')
            else
            let err = (\<lambda>t r. Inl (plan_hash_error t (reason r) no_plan_matches
                  (Some ''The server-issued plan has expired.'')
                  ''Run dry_run again and use the returned confirmation plan.''))
            in (case issued_payload sha now n h secs db of
                 Inr payload \<Rightarrow> Inr payload
               | Inl ConfirmationPlanMismatch \<Rightarrow> err PLAN_HASH_MISMATCH
                   ''The confirmation does not match the server-issued plan.''
               | Inl ConfirmationPlanExpired \<Rightarrow> err PLAN_EXPIRED ''The server-issued plan has expired.''
               | Inl _ \<Rightarrow> err PLAN_HASH_MISMATCH no_plan_matches))
      | _ \<Rightarrow> Inl (plan_hash_error PLAN_HASH_MISMATCH (reason ''Plan confirmation fields are incomplete.'')
              no_plan_matches None ''Run dry_run again and use all returned confirmation fields.''))"

section \<open>Replay, outcome and status\<close>

definition replayed_plan_error :: "(string \<Rightarrow> string) \<Rightarrow> string option \<Rightarrow> confirm_db \<Rightarrow> response option" where
  "replayed_plan_error sha nonce db =
     (if \<not> has_consumed sha nonce db then None
      else case operation_for_nonce sha nonce db of
        Some w \<Rightarrow>
          if wr_status w = EXECUTING \<or> wr_status w = UNKNOWN then
            Some (envelope_err WRITE_OUTCOME_UNKNOWN
              ''The prior write attempt has no confirmed outcome; reconcile before retrying.''
              (Some ''Inspect the target state and query the persisted write status.'')
              (PDict [(''status'', PStr ''UNKNOWN''), (''plan_hash'', PStr (wr_hash w)),
                (''reconciliation_required'', PBool True)]))
          else Some (plan_hash_error PLAN_ALREADY_USED
            (reason ''This confirmation has already been used. Inspect the target state and run dry_run again.'')
            ''This confirmation plan has already been used.'' None
            ''Inspect the current target state, then run dry_run again.'')
      | None \<Rightarrow> Some (plan_hash_error PLAN_ALREADY_USED
            (reason ''This confirmation has already been used. Inspect the target state and run dry_run again.'')
            ''This confirmation plan has already been used.'' None
            ''Inspect the current target state, then run dry_run again.''))"

definition record_write_outcome :: "int \<Rightarrow> string \<Rightarrow> PlanStatus \<Rightarrow> py \<Rightarrow> confirm_db \<Rightarrow> bool \<times> confirm_db" where
  "record_write_outcome now h status receipt db =
     (case record_outcome now h status receipt db of (Inl _, db') \<Rightarrow> (False, db') | (Inr _, db') \<Rightarrow> (True, db'))"

definition get_write_status :: "string \<Rightarrow> confirm_db \<Rightarrow> response" where
  "get_write_status h db = (case operation_for_plan (Some h) db of
      None \<Rightarrow> envelope_err NOT_FOUND ''No persisted write operation matches this plan hash.'' None PNone
    | Some w \<Rightarrow>
      let public = [(''plan_hash'', PStr (wr_hash w)), (''status'', PStr (plan_value (wr_status w))),
            (''receipt'', (case wr_receipt w of None \<Rightarrow> PNone | Some r \<Rightarrow> r)), (''updated_at'', PInt (wr_updated w))]
      in envelope_ok (PDict (if wr_status w = EXECUTING
           then dset ''reconciliation_required'' (PBool True) (dset ''status'' (PStr ''UNKNOWN'') public)
           else public)))"

section \<open>Verify and consume\<close>

datatype consumption = Authorised "py option" | Refused ErrorType py

definition verify_and_consume_issued_plan ::
  "(string \<Rightarrow> string) \<Rightarrow> (string \<Rightarrow> string) \<Rightarrow> MCPConfig \<Rightarrow> int \<Rightarrow> string \<Rightarrow> string \<Rightarrow> string \<Rightarrow> string \<Rightarrow> string option
   \<Rightarrow> string option \<Rightarrow> py \<Rightarrow> py_dict \<Rightarrow> confirm_db \<Rightarrow> consumption res \<times> confirm_db" where
  "verify_and_consume_issued_plan sha nsha cfg now submitted tool mode digest schema nonce expires extra db =
     (case verify_plan_hash sha cfg now submitted tool mode digest schema nonce expires extra of
        Inl e \<Rightarrow> (Inl e, db)
      | Inr (Invalid t d) \<Rightarrow> (Inr (Refused t d), db)
      | Inr Valid \<Rightarrow>
        if is_readonly cfg then
          (Inr (Refused READONLY_VIOLATION (reason ''Write confirmation is disabled in readonly mode.'')), db)
        else (case py_int (if truthy expires then expires else PInt 0) of
          Inl e \<Rightarrow> (Inl e, db)
        | Inr secs \<Rightarrow>
          (case consume nsha now (case nonce of None \<Rightarrow> [] | Some n \<Rightarrow> n) submitted secs db of
             (Inr payload, db') \<Rightarrow> (Inr (Authorised payload), db')
           | (Inl ConfirmationAlreadyUsed, db') \<Rightarrow> (Inr (Refused PLAN_ALREADY_USED
               (reason ''This confirmation has already been used. Inspect the target state and run dry_run again.'')), db')
           | (Inl ConfirmationNotIssued, db') \<Rightarrow> (Inr (Refused PLAN_HASH_MISMATCH (reason no_plan_matches)), db')
           | (Inl ConfirmationPlanMismatch, db') \<Rightarrow> (Inr (Refused PLAN_HASH_MISMATCH
               (reason ''The confirmation does not match the server-issued plan.'')), db')
           | (Inl ConfirmationPlanExpired, db') \<Rightarrow> (Inr (Refused PLAN_EXPIRED
               (reason ''The server-issued plan has expired.'')), db'))))"

section \<open>Properties\<close>

lemma consume_outcome:
  "consume sha now n h e db = (r, db') \<Longrightarrow> recorded db' = recorded db @ (case r of Inr _ \<Rightarrow> [(sha n, h)] | Inl _ \<Rightarrow> [])"
  using recorded_consume [of sha now n h e db] by simp

lemma consume_row:
  assumes "consume sha now n h e db = (Inr p, db')"
  shows "\<exists>row \<in> set (issued_confirmations db). is_digest row = sha n \<and> is_hash row = h \<and> is_payload row = p"
  using assms by (auto simp: consume_def Let_def find_issued_def cleanup_expired_def split: option.splits if_splits dest!: find_SomeD)

text \<open>The outcome of a confirmation: authorised by a row of the ledger and recorded, or refused and not recorded.\<close>

lemma verify_and_consume_cases:
  assumes "verify_and_consume_issued_plan sha nsha cfg now submitted tool mode digest schema nonce expires extra db = (r, db')"
  shows "(\<exists>n payload. nonce = Some n \<and> r = Inr (Authorised payload) \<and>
       verify_plan_hash sha cfg now submitted tool mode digest schema nonce expires extra = Inr Valid \<and>
       \<not> is_readonly cfg \<and> (nsha n, submitted) \<notin> set (recorded db) \<and>
       recorded db' = recorded db @ [(nsha n, submitted)] \<and>
       (\<exists>row \<in> set (issued_confirmations db). is_digest row = nsha n \<and> is_hash row = submitted \<and> is_payload row = payload))
     \<or> ((\<forall>payload. r \<noteq> Inr (Authorised payload)) \<and> recorded db' = recorded db)"
proof (cases "verify_plan_hash sha cfg now submitted tool mode digest schema nonce expires extra = Inr Valid
    \<and> \<not> is_readonly cfg")
  case False
  then show ?thesis
    using assms by (auto simp: verify_and_consume_issued_plan_def split: sum.splits verification.splits)
next
  case True
  then obtain n where n: "nonce = Some n" unfolding verify_valid_iff by blast
  show ?thesis
  proof (cases "py_int (if truthy expires then expires else PInt 0)")
    case (Inl e)
    then show ?thesis using assms True by (auto simp: verify_and_consume_issued_plan_def)
  next
    case (Inr secs)
    obtain q d where c: "consume nsha now n submitted secs db = (q, d)" by fastforce
    have rec: "recorded d = recorded db @ (case q of Inr _ \<Rightarrow> [(nsha n, submitted)] | Inl _ \<Rightarrow> [])"
      using consume_outcome [OF c] .
    show ?thesis
    proof (cases q)
      case (Inl e)
      then show ?thesis
        using assms True Inr n c rec by (cases e) (auto simp: verify_and_consume_issued_plan_def)
    next
      case q: (Inr payload)
      have "(nsha n, submitted) \<notin> set (recorded db)"
        using consume_new [of nsha now n submitted secs db payload] c q by force
      then show ?thesis
        using assms True Inr n c rec q consume_row [of nsha now n submitted secs db payload d]
        by (auto simp: verify_and_consume_issued_plan_def)
    qed
  qed
qed

text \<open>A write is authorised only by a hash that verifies under the current configuration, outside
  readonly mode, for a plan issued under that nonce and hash; then the ledger records exactly this
  authorisation. Every refusal leaves the record of authorised writes as it was.\<close>

theorem authorised_write_is_recorded:
  assumes "verify_and_consume_issued_plan sha nsha cfg now submitted tool mode digest schema nonce expires extra db = (r, db')"
  shows "(\<exists>n payload. nonce = Some n \<and> r = Inr (Authorised payload) \<and>
       verify_plan_hash sha cfg now submitted tool mode digest schema nonce expires extra = Inr Valid \<and>
       \<not> is_readonly cfg \<and> (nsha n, submitted) \<notin> set (recorded db) \<and>
       recorded db' = recorded db @ [(nsha n, submitted)])
     \<or> ((\<forall>payload. r \<noteq> Inr (Authorised payload)) \<and> recorded db' = recorded db)"
  using verify_and_consume_cases [OF assms] by blast

definition demo_hash :: string where "demo_hash = compute_plan_hash (\<lambda>t. t) demo_context"

definition demo_ledger :: confirm_db where
  "demo_ledger = snd (issue_plan demo_sha 100 demo_context demo_hash (Some (PInt 7)) empty_confirm_db)"

definition demo_consumption :: "consumption res \<times> confirm_db" where
  "demo_consumption = verify_and_consume_issued_plan (\<lambda>t. t) demo_sha demo_config 300 demo_hash ''tool'' ''apply''
     ''digest'' None (Some ''n'') (PInt 700) [] demo_ledger"

theorem authorised_write_is_recorded_witness:
  "fst demo_consumption = Inr (Authorised (Some (PInt 7))) \<and> recorded (snd demo_consumption) = [(''#n'', demo_hash)]"
proof -
  have ctx: "pc_nonce demo_context = ''n''" "pc_expires demo_context = 700"
    by (simp_all add: demo_context_def build_plan_context_def context_of_def Let_def)
  have ledger: "demo_ledger = \<lparr>consumed_confirmations = [], issued_confirmations =
      [\<lparr>is_digest = ''#n'', is_hash = demo_hash, is_expires = 700, is_issued_at = 100, is_payload = Some (PInt 7)\<rparr>],
      write_operations = []\<rparr>"
    by (simp add: demo_ledger_def issue_plan_def issue_def ctx demo_sha_def empty_confirm_db_def cleanup_expired_def
          upsert_issued_def find_issued_def DEFAULT_PLAN_TTL_SECONDS_def Let_def)
  have ro: "\<not> is_readonly demo_config" unfolding demo_config_def by code_simp
  have "verify_plan_hash (\<lambda>t. t) demo_config 300 demo_hash ''tool'' ''apply'' ''digest'' None (Some ''n'') (PInt 700) [] = Inr Valid"
    by (auto simp: verify_valid_iff coerce_expires_at_def demo_hash_def demo_context_def build_plan_context_def
          context_of_def Let_def)
  then have ok: "fst demo_consumption = Inr (Authorised (Some (PInt 7)))"
    using ro by (simp add: demo_consumption_def verify_and_consume_issued_plan_def ledger consume_def
        cleanup_expired_def demo_sha_def find_issued_def DEFAULT_PLAN_TTL_SECONDS_def Let_def)
  have none: "recorded demo_ledger = []" by (simp add: ledger recorded_def)
  show ?thesis
    using authorised_write_is_recorded [of "\<lambda>t. t" demo_sha demo_config 300 demo_hash "''tool''" "''apply''"
        "''digest''" None "Some ''n''" "PInt 700" "[]" demo_ledger "fst demo_consumption" "snd demo_consumption"]
      ok none by (simp add: demo_consumption_def demo_sha_def)
qed

text \<open>The two confirmation protocols exclude each other: a request is resolved exactly when it has
  a plan id and no legacy field, or no plan id and all three legacy fields; nothing of the other
  protocol is left in the result.\<close>

theorem protocols_exclusive:
  "(\<exists>res. resolve_confirmation_protocol plan_id plan_hash nonce expires = Inr res \<and>
      (rs_protocol res = CANONICAL \<longrightarrow> rs_plan_id res = plan_id \<and> rs_plan_hash res = None \<and> rs_nonce res = None) \<and>
      (rs_protocol res = LEGACY \<longrightarrow> rs_plan_id res = None \<and> rs_plan_hash res = plan_hash \<and> rs_nonce res = nonce \<and>
         rs_expires res = expires))
   \<longleftrightarrow> ((plan_id \<noteq> None \<and> plan_id \<noteq> Some []) \<and> plan_hash = None \<and> nonce = None \<and> expires = PNone)
     \<or> ((plan_id = None \<or> plan_id = Some []) \<and> plan_hash \<noteq> None \<and> nonce \<noteq> None \<and> expires \<noteq> PNone)"
  by (auto simp: resolve_confirmation_protocol_def Let_def)

theorem protocols_exclusive_witness:
  "(\<exists>res. resolve_confirmation_protocol (Some ''wp'') None None PNone = Inr res \<and> rs_protocol res = CANONICAL) \<and>
   \<not> (\<exists>res. resolve_confirmation_protocol (Some ''wp'') (Some ''h'') None PNone = Inr res)"
proof -
  have "\<exists>res. resolve_confirmation_protocol (Some ''wp'') None None PNone = Inr res \<and>
      (rs_protocol res = CANONICAL \<longrightarrow> rs_plan_id res = Some ''wp'' \<and> rs_plan_hash res = None \<and> rs_nonce res = None) \<and>
      (rs_protocol res = LEGACY \<longrightarrow> rs_plan_id res = None \<and> rs_plan_hash res = None \<and> rs_nonce res = None \<and>
         rs_expires res = PNone)"
    using protocols_exclusive [of "Some ''wp''" None None PNone] by simp
  then show ?thesis by (auto simp: resolve_confirmation_protocol_def)
qed

end
