(* ===== verification/Schema_Utils.thy ===== *)
theory Schema_Utils
  imports Json_Text
begin

text \<open>
  Model of \<open>hugegraph_mcp/tools/schema_contract.py\<close> and \<open>hugegraph_mcp/tools/schema_utils.py\<close>: the table of
  the schema fields with the names a server may use for them, and the functions that read a live schema.
  A live schema is any value that a tool may have received.
\<close>

section \<open>The field contract\<close>

datatype FieldKind = identity_field | enum_field | list_field | mapping_field | boolean_field | scalar_field

datatype ApplyMode = apply_none | apply_identity | apply_typed | apply_parameter | apply_link

record SchemaFieldSpec =
  fs_aliases :: "string list"
  fs_kind :: FieldKind
  fs_default :: "string option"
  fs_summary :: bool
  fs_apply :: ApplyMode

text \<open>\<open>tuple(dict.fromkeys(xs))\<close>: the first occurrence of every item.\<close>

definition from_keys :: "'a list \<Rightarrow> 'a list" where
  "from_keys xs = rev (remdups (rev xs))"

lemma set_from_keys [simp]: "set (from_keys xs) = set xs"
  by (simp add: from_keys_def)

lemma distinct_from_keys [simp]: "distinct (from_keys xs)"
  by (simp add: from_keys_def)

definition schema_field :: "string list \<Rightarrow> FieldKind \<Rightarrow> string option \<Rightarrow> bool \<Rightarrow> ApplyMode \<Rightarrow> SchemaFieldSpec" where
  "schema_field aliases kind dflt summary mode =
     \<lparr>fs_aliases = from_keys aliases, fs_kind = kind, fs_default = dflt, fs_summary = summary, fs_apply = mode\<rparr>"

abbreviation type_and :: "SchemaFieldSpec \<Rightarrow> (string \<times> SchemaFieldSpec) list \<Rightarrow> (string \<times> SchemaFieldSpec) list" where
  "type_and name_spec rest \<equiv>
     (''type'', schema_field [''type''] identity_field None False apply_identity) # (''name'', name_spec) # rest"

abbreviation plain_name :: SchemaFieldSpec where
  "plain_name \<equiv> schema_field [''name''] identity_field None False apply_identity"

definition SUPPORTED_FIELD_SPECS :: "(string \<times> (string \<times> SchemaFieldSpec) list) list" where
  "SUPPORTED_FIELD_SPECS =
    [(''create_property_key'', type_and (schema_field [''name'', ''property_name'', ''propertyName''] identity_field None False apply_identity)
       [(''data_type'', schema_field [''data_type'', ''dataType''] enum_field None True apply_typed),
        (''cardinality'', schema_field [''cardinality'', ''cardinality_type'', ''cardinalityType''] enum_field (Some ''SINGLE'') True apply_typed),
        (''aggregate_type'', schema_field [''aggregate_type'', ''aggregateType''] enum_field None True apply_typed),
        (''user_data'', schema_field [''user_data'', ''userData'', ''userdata''] mapping_field None True apply_parameter)]),
     (''create_vertex_label'', type_and plain_name
       [(''id_strategy'', schema_field [''id_strategy'', ''idStrategy''] enum_field (Some ''PRIMARY_KEY'') True apply_typed),
        (''properties'', schema_field [''properties''] list_field None True apply_typed),
        (''primary_keys'', schema_field [''primary_keys'', ''primaryKeys''] list_field None True apply_typed),
        (''nullable_keys'', schema_field [''nullable_keys'', ''nullableKeys''] list_field None True apply_typed),
        (''index_labels'', schema_field [''index_labels'', ''indexLabels''] list_field None True apply_parameter),
        (''enable_label_index'', schema_field [''enable_label_index'', ''enableLabelIndex''] boolean_field None True apply_typed),
        (''user_data'', schema_field [''user_data'', ''userData'', ''userdata''] mapping_field None True apply_parameter)]),
     (''create_edge_label'', type_and plain_name
       [(''source_label'', schema_field [''source_label'', ''sourceLabel''] scalar_field None True apply_link),
        (''target_label'', schema_field [''target_label'', ''targetLabel''] scalar_field None True apply_link),
        (''properties'', schema_field [''properties''] list_field None True apply_typed),
        (''nullable_keys'', schema_field [''nullable_keys'', ''nullableKeys''] list_field None True apply_typed),
        (''sort_keys'', schema_field [''sort_keys'', ''sortKeys''] list_field None True apply_typed),
        (''frequency'', schema_field [''frequency''] enum_field None True apply_typed),
        (''enable_label_index'', schema_field [''enable_label_index'', ''enableLabelIndex''] boolean_field None True apply_typed),
        (''user_data'', schema_field [''user_data'', ''userData'', ''userdata''] mapping_field None True apply_parameter)]),
     (''create_index_label'', type_and plain_name
       [(''base_type'', schema_field [''base_type'', ''baseType''] enum_field None True apply_none),
        (''base_label'', schema_field [''base_label'', ''baseLabel'', ''base_value'', ''baseValue''] scalar_field None True apply_none),
        (''fields'', schema_field [''fields''] list_field None True apply_none),
        (''index_type'', schema_field [''index_type'', ''indexType''] enum_field None True apply_none),
        (''unique'', schema_field [''unique''] boolean_field None True apply_none)])]"

definition SUPPORTED_FIELDS :: "(string \<times> string list) list" where
  "SUPPORTED_FIELDS = map (\<lambda>(op, specs). (op, map fst specs)) SUPPORTED_FIELD_SPECS"

definition OPERATION_KIND :: "(string \<times> string) list" where
  "OPERATION_KIND = [(''create_property_key'', ''property_key''), (''create_vertex_label'', ''vertex_label''),
     (''create_edge_label'', ''edge_label''), (''create_index_label'', ''index_label'')]"

definition SCHEMA_COLLECTIONS :: "(string \<times> string) list" where
  "SCHEMA_COLLECTIONS = [(''property_key'', ''propertykeys''), (''vertex_label'', ''vertexlabels''),
     (''edge_label'', ''edgelabels''), (''index_label'', ''indexlabels'')]"

definition field_specs_for_operation :: "string \<Rightarrow> (string \<times> SchemaFieldSpec) list" where
  "field_specs_for_operation op = (case map_of SUPPORTED_FIELD_SPECS op of None \<Rightarrow> [] | Some specs \<Rightarrow> specs)"

definition field_specs_for_kind :: "string \<Rightarrow> (string \<times> SchemaFieldSpec) list" where
  "field_specs_for_kind kind = (case find (\<lambda>(op, k). k = kind) OPERATION_KIND of
      None \<Rightarrow> [] | Some (op, k) \<Rightarrow> field_specs_for_operation op)"

definition apply_fields_for_operation :: "string \<Rightarrow> string set" where
  "apply_fields_for_operation op = set (map fst (filter (\<lambda>(f, spec). fs_apply spec \<noteq> apply_none) (field_specs_for_operation op)))"

definition schema_collection_for_operation :: "string \<Rightarrow> string option" where
  "schema_collection_for_operation op = (case map_of OPERATION_KIND op of
      None \<Rightarrow> None | Some kind \<Rightarrow> map_of SCHEMA_COLLECTIONS kind)"

section \<open>Reading a live schema\<close>

fun schema_name :: "py \<Rightarrow> string option" where
  "schema_name (PStr s) = Some s"
| "schema_name (PDict d) = (case dget d ''name'' of PStr s \<Rightarrow> Some s | _ \<Rightarrow> None)"
| "schema_name v = None"

text \<open>\<open>[name for v in values if (name := schema_name(v))]\<close>.\<close>

definition schema_names :: "py list \<Rightarrow> string list" where
  "schema_names vs = filter (\<lambda>s. s \<noteq> []) (List.map_filter schema_name vs)"

definition property_names :: "py \<Rightarrow> string set" where
  "property_names v = (case v of PList vs \<Rightarrow> set (schema_names vs) | _ \<Rightarrow> {})"

definition schema_payload :: "py \<Rightarrow> py_dict option" where
  "schema_payload live = (case live of
      PDict d \<Rightarrow> (case (if has_key d ''schema'' then dget d ''schema'' else PDict d) of PDict raw \<Rightarrow> Some raw | _ \<Rightarrow> None)
    | _ \<Rightarrow> None)"

definition primary_key_names :: "py_dict \<Rightarrow> string list" where
  "primary_key_names label =
     (case (if dget label ''primary_keys'' = PNone then dget label ''primaryKeys'' else dget label ''primary_keys'') of
        PList vs \<Rightarrow> schema_names vs | _ \<Rightarrow> [])"

definition user_data_without_server_metadata :: "py \<Rightarrow> py" where
  "user_data_without_server_metadata v =
     (case v of PDict d \<Rightarrow> PDict (filter (\<lambda>kv. \<not> starts_with (fst kv) ''~'') d) | _ \<Rightarrow> PNone)"

definition edge_schema_endpoint_label :: "py_dict \<Rightarrow> string \<Rightarrow> py" where
  "edge_schema_endpoint_label schema endpoint =
     (if endpoint = ''source'' then py_or (dget schema ''source_label'') (dget schema ''sourceLabel'')
      else py_or (dget schema ''target_label'') (dget schema ''targetLabel''))"

fun field_value :: "py_dict \<Rightarrow> string list \<Rightarrow> py" where
  "field_value item [] = PNone"
| "field_value item (name # names) = (if has_key item name then dget item name else field_value item names)"

definition property_key_items :: "py_dict \<Rightarrow> py" where
  "property_key_items raw = field_value raw [''propertykeys'', ''property_keys'', ''propertyKeys'']"

definition cardinality_entry :: "py \<Rightarrow> (string \<times> string) option" where
  "cardinality_entry item = (case item of
      PDict d \<Rightarrow> (case field_value d [''name'', ''property_name'', ''propertyName''] of
          PStr name \<Rightarrow> Some (name, upper (strip (py_str (py_or
            (field_value d [''cardinality'', ''cardinality_type'', ''cardinalityType'']) (PStr ''SINGLE'')))))
        | _ \<Rightarrow> None)
    | _ \<Rightarrow> None)"

definition property_cardinalities :: "py \<Rightarrow> (string \<times> string) list" where
  "property_cardinalities live = (case schema_payload live of
      None \<Rightarrow> []
    | Some raw \<Rightarrow> (case property_key_items raw of
        PList items \<Rightarrow> dict_of (List.map_filter cardinality_entry items)
      | _ \<Rightarrow> []))"

section \<open>The summary that plans are bound to\<close>

definition normalize_named_list :: "py \<Rightarrow> py" where
  "normalize_named_list v = (case v of PList vs \<Rightarrow> PList (map PStr (sort (schema_names vs))) | _ \<Rightarrow> PList [])"

text \<open>The fields of an item that enter the summary.\<close>

definition summary_fields :: "bool \<Rightarrow> (string \<times> SchemaFieldSpec) list \<Rightarrow> (string \<times> SchemaFieldSpec) list" where
  "summary_fields include_user_data specs = filter (\<lambda>(f, spec). fs_summary spec \<and> f \<noteq> ''type'' \<and> f \<noteq> ''name'' \<and>
     (include_user_data \<or> fs_kind spec \<noteq> mapping_field)) specs"

definition normalize_field :: "py_dict \<Rightarrow> string \<times> SchemaFieldSpec \<Rightarrow> (string \<times> py) option" where
  "normalize_field item fs = (case fs of (f, spec) \<Rightarrow>
     (let v = field_value item (fs_aliases spec) in
      if v = PNone then None
      else if fs_summary spec \<and> fs_kind spec = list_field then Some (f, normalize_named_list v)
      else if f = ''user_data'' then Some (f, user_data_without_server_metadata v)
      else Some (f, v)))"

definition normalize_schema_item :: "bool \<Rightarrow> (string \<times> SchemaFieldSpec) list \<Rightarrow> py \<Rightarrow> (string \<times> py_dict) option" where
  "normalize_schema_item include_user_data specs v = (case v of
      PDict item \<Rightarrow>
        (case field_value item (case map_of specs ''name'' of Some spec \<Rightarrow> fs_aliases spec | None \<Rightarrow> [''name'']) of
           PStr name \<Rightarrow> Some (name, (''name'', PStr name) #
             List.map_filter (normalize_field item) (summary_fields include_user_data specs))
         | _ \<Rightarrow> None)
    | _ \<Rightarrow> None)"

definition normalize_schema_items :: "bool \<Rightarrow> (string \<times> SchemaFieldSpec) list \<Rightarrow> py \<Rightarrow> py" where
  "normalize_schema_items include_user_data specs items = (case items of
      PList vs \<Rightarrow> PList (map (PDict \<circ> snd) (sort_key fst (List.map_filter (normalize_schema_item include_user_data specs) vs)))
    | _ \<Rightarrow> PList [])"

definition schema_collection_items :: "py_dict \<Rightarrow> string \<Rightarrow> py" where
  "schema_collection_items raw kind = field_value raw
     (if kind = ''property_key'' then [''propertykeys'', ''property_keys'', ''propertyKeys'']
      else if kind = ''vertex_label'' then [''vertexlabels'', ''vertex_labels'', ''vertexLabels'']
      else if kind = ''edge_label'' then [''edgelabels'', ''edge_labels'', ''edgeLabels'']
      else if kind = ''index_label'' then [''indexlabels'', ''index_labels'', ''indexLabels''] else [])"

definition summary_dict :: "bool \<Rightarrow> py_dict \<Rightarrow> py_dict" where
  "summary_dict include_user_data raw =
     [(''propertykeys'', normalize_schema_items include_user_data (field_specs_for_kind ''property_key'') (property_key_items raw)),
      (''vertexlabels'', normalize_schema_items include_user_data (field_specs_for_kind ''vertex_label'')
         (schema_collection_items raw ''vertex_label'')),
      (''edgelabels'', normalize_schema_items include_user_data (field_specs_for_kind ''edge_label'')
         (schema_collection_items raw ''edge_label'')),
      (''indexlabels'', normalize_schema_items include_user_data (field_specs_for_kind ''index_label'')
         (schema_collection_items raw ''index_label''))]"

definition normalized_schema_summary :: "bool \<Rightarrow> py \<Rightarrow> py" where
  "normalized_schema_summary include_user_data live =
     (case schema_payload live of None \<Rightarrow> PNone | Some raw \<Rightarrow> PDict (summary_dict include_user_data raw))"

end
