(* ===== verification/Property_Validation.thy ===== *)
theory Property_Validation
  imports Schema_Utils "HOL-Library.Word"
begin

text \<open>
  Model of \<open>hugegraph_mcp/tools/property_validation.py\<close>: which JSON values a property of a data type can hold.
  \<open>datetime.fromisoformat\<close>, whose accepted forms depend on the version of Python, is the parameter \<open>isodate\<close>;
  \<open>uuid.UUID\<close>, \<open>bytes.fromhex\<close> and \<open>base64.b64decode(validate=True)\<close> are written out for texts.
\<close>

section \<open>Types\<close>

definition DATA_TYPE_ALIASES :: "(string \<times> string) list" where
  "DATA_TYPE_ALIASES = [(''BOOL'', ''BOOLEAN''), (''INTEGER'', ''INT''), (''STRING'', ''TEXT'')]"

definition SUPPORTED_DATA_TYPES :: "string list" where
  "SUPPORTED_DATA_TYPES = [''TEXT'', ''UUID'', ''INT'', ''LONG'', ''DOUBLE'', ''FLOAT'', ''BOOLEAN'', ''DATE'', ''BYTE'', ''BLOB'', ''OBJECT'']"

definition SUPPORTED_CARDINALITIES :: "string list" where
  "SUPPORTED_CARDINALITIES = [''SINGLE'', ''LIST'', ''SET'']"

definition INTEGER_RANGES :: "(string \<times> int \<times> int) list" where
  "INTEGER_RANGES = [(''BYTE'', - (2 ^ 7), 2 ^ 7 - 1), (''INT'', - (2 ^ 31), 2 ^ 31 - 1), (''LONG'', - (2 ^ 63), 2 ^ 63 - 1)]"

text \<open>\<open>0x1.fffffep+127\<close> and \<open>0x1.fffffffffffffp+1023\<close> as exact numbers.\<close>

definition FLOATING_MAXIMUMS :: "(string \<times> rat) list" where
  "FLOATING_MAXIMUMS = [(''FLOAT'', (2 ^ 24 - 1) * 2 ^ 104), (''DOUBLE'', (2 ^ 53 - 1) * 2 ^ 971)]"

type_synonym property_spec = "string \<times> string"

definition property_spec_of :: "py \<Rightarrow> (string \<times> property_spec) option" where
  "property_spec_of item = (case item of
      PDict d \<Rightarrow> (case (dget d ''name'', dget d ''data_type'') of
          (PStr name, PStr data_type) \<Rightarrow>
            (let t = upper (strip data_type) in
             Some (name, (case map_of DATA_TYPE_ALIASES t of Some u \<Rightarrow> u | None \<Rightarrow> t),
               upper (strip (py_str (py_or (dget d ''cardinality'') (PStr ''SINGLE''))))))
        | _ \<Rightarrow> None)
    | _ \<Rightarrow> None)"

definition property_specs :: "py \<Rightarrow> (string \<times> property_spec) list" where
  "property_specs live =
     (case normalized_schema_summary False live of
        PDict summary \<Rightarrow> (case dget summary ''propertykeys'' of
            PList items \<Rightarrow> dict_of (List.map_filter property_spec_of items)
          | _ \<Rightarrow> [])
      | _ \<Rightarrow> [])"

section \<open>Texts of identifiers and bytes\<close>

text \<open>\<open>s.replace(old, "")\<close>: from the left, without overlaps.\<close>

function erase :: "string \<Rightarrow> string \<Rightarrow> string" where
  "erase old s = (if old = [] then s else
     case s of [] \<Rightarrow> []
     | c # cs \<Rightarrow> if starts_with s old then erase old (drop (length old) s) else c # erase old cs)"
  by pat_completeness auto
termination
  by (relation "measure (\<lambda>(old, s). length s)") (auto dest: starts_with_length)

declare erase.simps [simp del]

definition strip_chars :: "string \<Rightarrow> string \<Rightarrow> string" where
  "strip_chars cs s = rev (dropWhile (\<lambda>c. c \<in> set cs) (rev (dropWhile (\<lambda>c. c \<in> set cs) s)))"

definition is_hex :: "char \<Rightarrow> bool" where
  "is_hex c \<longleftrightarrow> is_digit c \<or> 65 \<le> code c \<and> code c \<le> 70 \<or> 97 \<le> code c \<and> code c \<le> 102"

definition hex_digit_value :: "char \<Rightarrow> int" where
  "hex_digit_value c = (if is_digit c then int (code c) - 48 else if code c \<le> 70 then int (code c) - 55 else int (code c) - 87)"

text \<open>\<open>int(text, 16)\<close>: blanks, a sign, a prefix \<open>0x\<close>, digits with single underscores between them.\<close>

fun hex_body :: "string \<Rightarrow> string option" where
  "hex_body [] = None"
| "hex_body [c] = (if is_hex c then Some [c] else None)"
| "hex_body (c # d # s) =
     (if \<not> is_hex c then None
      else map_option (\<lambda>ds. c # ds) (if d = CHR ''_'' then hex_body s else hex_body (d # s)))"

definition hex_prefixed :: "string \<Rightarrow> string option" where
  "hex_prefixed s = (if starts_with (lower s) ''0x_'' then hex_body (drop 3 s)
     else if starts_with (lower s) ''0x'' then hex_body (drop 2 s) else hex_body s)"

definition hex_int :: "string \<Rightarrow> int option" where
  "hex_int s = (case strip s of [] \<Rightarrow> None
     | c # cs \<Rightarrow>
       (let number = map_option (foldl (\<lambda>n d. 16 * n + hex_digit_value d) 0) in
        if c = CHR ''-'' then map_option uminus (number (hex_prefixed cs))
        else if c = CHR ''+'' then number (hex_prefixed cs)
        else number (hex_prefixed (c # cs))))"

text \<open>The constructor \<open>UUID(text)\<close> accepts the text.\<close>

definition uuid_accepts :: "string \<Rightarrow> bool" where
  "uuid_accepts s =
     (let h = erase ''-'' (strip_chars ''{}'' (erase ''uuid:'' (erase ''urn:'' s)))
      in length h = 32 \<and> (case hex_int h of None \<Rightarrow> False | Some n \<Rightarrow> 0 \<le> n \<and> n < 2 ^ 128))"

definition is_ascii_space :: "char \<Rightarrow> bool" where
  "is_ascii_space c \<longleftrightarrow> c = CHR '' '' \<or> 9 \<le> code c \<and> code c \<le> 13"

text \<open>\<open>bytes.fromhex(text)\<close>: pairs of hexadecimal digits with blanks between the pairs.\<close>

fun fromhex_accepts :: "string \<Rightarrow> bool" where
  "fromhex_accepts [] = True"
| "fromhex_accepts [c] = is_ascii_space c"
| "fromhex_accepts (c # d # s) =
     (if is_ascii_space c then fromhex_accepts (d # s) else is_hex c \<and> is_hex d \<and> fromhex_accepts s)"

definition is_base64 :: "char \<Rightarrow> bool" where
  "is_base64 c \<longleftrightarrow> is_alpha_ascii c \<or> is_digit c \<or> c = CHR ''+'' \<or> c = CHR ''/''"

text \<open>\<open>base64.b64decode(text, validate=True)\<close>: the alphabet, then at most two pads, and the pads that complete
  the last group of four.\<close>

definition base64_accepts :: "string \<Rightarrow> bool" where
  "base64_accepts s =
     (let n = length (takeWhile is_base64 s); pads = dropWhile is_base64 s in
      list_all (\<lambda>c. c = CHR ''='') pads \<and> length pads \<le> 2 \<and>
      (n mod 4 = 0 \<or> n mod 4 = 2 \<and> length pads = 2 \<or> n mod 4 = 3 \<and> 1 \<le> length pads))"

section \<open>Values\<close>

definition is_date :: "(string \<Rightarrow> bool) \<Rightarrow> py \<Rightarrow> bool" where
  "is_date isodate v = (case v of
      PInt n \<Rightarrow> - (2 ^ 63) \<le> n \<and> n \<le> 2 ^ 63 - 1
    | PStr s \<Rightarrow>
      (let candidate = strip s in
       candidate \<noteq> [] \<and>
       isodate (if ends_with candidate ''Z'' then butlast candidate @ ''+00:00'' else candidate))
    | _ \<Rightarrow> False)"

definition is_blob :: "py \<Rightarrow> bool" where
  "is_blob v = (case v of
      PStr s \<Rightarrow> if starts_with s ''0x'' then fromhex_accepts (drop 2 s) else base64_accepts s
    | PList xs \<Rightarrow> list_all (\<lambda>x. case x of PInt n \<Rightarrow> - 128 \<le> n \<and> n \<le> 255 | _ \<Rightarrow> False) xs
    | _ \<Rightarrow> False)"

definition value_matches_type :: "(string \<Rightarrow> bool) \<Rightarrow> py \<Rightarrow> string \<Rightarrow> bool" where
  "value_matches_type isodate v data_type =
     (if v = PNone then True
      else if data_type = ''TEXT'' then is_str v
      else case map_of INTEGER_RANGES data_type of
        Some (minimum, maximum) \<Rightarrow> (case v of PInt n \<Rightarrow> minimum \<le> n \<and> n \<le> maximum | _ \<Rightarrow> False)
      | None \<Rightarrow>
        case map_of FLOATING_MAXIMUMS data_type of
          Some maximum \<Rightarrow> (case v of
              PInt n \<Rightarrow> - maximum \<le> of_int n \<and> of_int n \<le> maximum
            | PFloat (Fin q t) \<Rightarrow> - maximum \<le> q \<and> q \<le> maximum
            | _ \<Rightarrow> False)
        | None \<Rightarrow>
          if data_type = ''BOOLEAN'' then (case v of PBool b \<Rightarrow> True | _ \<Rightarrow> False)
          else if data_type = ''UUID'' then (case v of PStr s \<Rightarrow> uuid_accepts s | _ \<Rightarrow> False)
          else if data_type = ''DATE'' then is_date isodate v
          else if data_type = ''BLOB'' then is_blob v
          else if data_type = ''OBJECT'' then is_dict v
          else False)"

text \<open>The loop over the elements of a collection: the index of the first one that does not fit.\<close>

fun bad_element :: "(string \<Rightarrow> bool) \<Rightarrow> string \<Rightarrow> nat \<Rightarrow> py list \<Rightarrow> (nat \<times> py) option" where
  "bad_element isodate data_type n [] = None"
| "bad_element isodate data_type n (x # xs) =
     (if x = PNone \<or> \<not> value_matches_type isodate x data_type then Some (n, x) else bad_element isodate data_type (Suc n) xs)"

definition property_value_error ::
  "(string \<Rightarrow> bool) \<Rightarrow> string \<Rightarrow> nat \<Rightarrow> string \<Rightarrow> py \<Rightarrow> property_spec option \<Rightarrow> string option" where
  "property_value_error isodate item_kind item_index property_name v spec =
     (case spec of None \<Rightarrow> None
      | Some (data_type, cardinality) \<Rightarrow>
        let prefix = item_kind @ '' '' @ nat_str item_index @ '' property '' @ [CHR 0x27] @ property_name @ [CHR 0x27];
            quoted = (\<lambda>s. [CHR 0x27] @ s @ [CHR 0x27])
        in if data_type \<notin> set SUPPORTED_DATA_TYPES then Some (prefix @ '' unsupported data_type '' @ quoted data_type)
           else if cardinality \<notin> set SUPPORTED_CARDINALITIES then Some (prefix @ '' unsupported cardinality '' @ quoted cardinality)
           else if cardinality = ''LIST'' \<or> cardinality = ''SET'' then
             (case v of
                PNone \<Rightarrow> None
              | PList xs \<Rightarrow> (case bad_element isodate data_type 0 xs of
                    None \<Rightarrow> None
                  | Some (n, x) \<Rightarrow> Some (prefix @ '' element '' @ nat_str n @ '' expects '' @ data_type @ '', got '' @ type_name x))
              | _ \<Rightarrow> Some (prefix @ '' expects '' @ cardinality @ '' of '' @ data_type @ '', got '' @ type_name v))
           else if \<not> value_matches_type isodate v data_type
             then Some (prefix @ '' expects '' @ data_type @ '', got '' @ type_name v)
           else None)"

section \<open>Validated numbers fit the machine types of the server\<close>

lemma bad_element_None: "bad_element isodate t n xs = None \<longleftrightarrow> (\<forall>x\<in>set xs. x \<noteq> PNone \<and> value_matches_type isodate x t)"
  by (induction xs arbitrary: n) auto

lemma integer_type_value:
  "value_matches_type isodate v ''INT'' \<Longrightarrow> v = PNone \<or> (\<exists>n. v = PInt n \<and> - (2 ^ 31) \<le> n \<and> n < 2 ^ 31)"
  "value_matches_type isodate v ''LONG'' \<Longrightarrow> v = PNone \<or> (\<exists>n. v = PInt n \<and> - (2 ^ 63) \<le> n \<and> n < 2 ^ 63)"
  "value_matches_type isodate v ''BYTE'' \<Longrightarrow> v = PNone \<or> (\<exists>n. v = PInt n \<and> - (2 ^ 7) \<le> n \<and> n < 2 ^ 7)"
  by (auto simp: value_matches_type_def INTEGER_RANGES_def split: py.splits if_splits)

text \<open>C16. A validated integer survives the machine type of the server: read as a signed word of the width of
  its data type it is the same number, alone or as an element of a collection.\<close>

theorem validated_integers_fit:
  assumes "property_value_error isodate kind i name v (Some (t, c)) = None"
    and "n \<in> {m. v = PInt m} \<union> {m. \<exists>xs. v = PList xs \<and> PInt m \<in> set xs \<and> c \<noteq> ''SINGLE''}"
  shows "(t = ''INT'' \<longrightarrow> sint (word_of_int n :: 32 word) = n) \<and>
    (t = ''LONG'' \<longrightarrow> sint (word_of_int n :: 64 word) = n) \<and>
    (t = ''BYTE'' \<longrightarrow> sint (word_of_int n :: 8 word) = n)"
proof -
  have fits: "value_matches_type isodate (PInt n) t"
    using assms
    by (auto simp: property_value_error_def Let_def bad_element_None SUPPORTED_CARDINALITIES_def
        split: if_splits py.splits option.splits)
  show ?thesis
    using integer_type_value [of isodate "PInt n"] fits
    by (auto simp: sint_sbintrunc' signed_take_bit_int_eq_self)
qed

theorem validated_integers_fit_witness:
  "property_value_error (\<lambda>s. False) ''vertex'' 0 ''age'' (PList [PInt (- 2147483648)]) (Some (''INT'', ''LIST'')) = None \<and>
   sint (word_of_int (- 2147483648) :: 32 word) = - 2147483648"
proof -
  have ok: "property_value_error (\<lambda>s. False) ''vertex'' 0 ''age'' (PList [PInt (- 2147483648)]) (Some (''INT'', ''LIST'')) = None"
    by code_simp
  show ?thesis using validated_integers_fit [OF ok, of "- 2147483648"] ok by simp
qed

end
