(* ===== verification/Graph_Validate.thy ===== *)
theory Graph_Validate
  imports Property_Validation
begin

text \<open>
  Model of \<open>hugegraph_mcp/tools/graph_data_validate.py\<close>: the check of a change plan against a live schema. A
  plan and its operations are the values a client sent; an error is the dictionary that the code builds. A
  schema whose label lists cannot be iterated raises, as in the code.
\<close>

definition ALLOWED_OPS :: "string list" where
  "ALLOWED_OPS = [''create_vertex'', ''create_edge'', ''delete_vertex'', ''delete_edge'']"

definition VERTEX_OPS :: "string list" where "VERTEX_OPS = [''create_vertex'', ''delete_vertex'']"
definition WRITE_OPS :: "string list" where "WRITE_OPS = [''delete_vertex'', ''delete_edge'']"

definition MODE_OPS :: "(string \<times> string list) list" where
  "MODE_OPS = [(''import'', [''create_edge'', ''create_vertex'']), (''delete'', [''delete_edge'', ''delete_vertex''])]"

text \<open>The labels of one kind by name; a later entry replaces an earlier one.\<close>

definition label_entry :: "py \<Rightarrow> (string \<times> py_dict) option" where
  "label_entry v = (case v of PDict d \<Rightarrow> (case dget d ''name'' of PStr name \<Rightarrow> Some (name, d) | _ \<Rightarrow> None) | _ \<Rightarrow> None)"

definition labels_of :: "py_dict \<Rightarrow> string \<Rightarrow> (string \<times> py_dict) list res" where
  "labels_of raw collection =
     and_then (case map_of raw collection of None \<Rightarrow> Inr [] | Some v \<Rightarrow> py_iter v)
       (\<lambda>vs. Inr (dict_of (List.map_filter label_entry vs)))"

definition plan_operations :: "py \<Rightarrow> py list" where
  "plan_operations plan = (case plan of
      PList ops \<Rightarrow> ops
    | PDict d \<Rightarrow> (case dget d ''operations'' of PList ops \<Rightarrow> ops | _ \<Rightarrow> [])
    | _ \<Rightarrow> [])"

definition validation_error :: "int \<Rightarrow> py \<Rightarrow> string \<Rightarrow> string \<Rightarrow> string option \<Rightarrow> py_dict" where
  "validation_error idx operation reason suggestion error_type =
     [(''operation_index'', PInt idx), (''operation'', operation), (''reason'', PStr reason), (''suggestion'', PStr suggestion)]
     @ (case error_type of None \<Rightarrow> [] | Some t \<Rightarrow> [(''error_type'', PStr t)])"

record validation =
  vd_errors :: "py_dict list"
  vd_warnings :: "string list"

definition vd_valid :: "validation \<Rightarrow> bool" where "vd_valid v \<longleftrightarrow> vd_errors v = []"

section \<open>Checks of one field\<close>

definition validate_field_map :: "int \<Rightarrow> py_dict \<Rightarrow> string \<Rightarrow> string set \<Rightarrow> bool \<Rightarrow> py_dict list" where
  "validate_field_map idx operation field allowed allow_id =
     (case dget operation field of
        PNone \<Rightarrow> []
      | PDict values \<Rightarrow>
        (let unknown = sort (filter (\<lambda>k. k \<notin> allowed \<and> \<not> (allow_id \<and> k = ''id'')) (remdups (map fst values))) in
         if unknown = [] then []
         else [validation_error idx (PDict operation) (field @ '' references property not on label: '' @ join '', '' unknown)
           ''Use only properties defined on the referenced label.'' None])
      | _ \<Rightarrow> [validation_error idx (PDict operation) (field @ '' must be an object'')
          (''Use an object mapping property names to values for '' @ field @ ''.'') None])"

definition validate_property_values ::
  "(string \<Rightarrow> bool) \<Rightarrow> nat \<Rightarrow> py_dict \<Rightarrow> string \<Rightarrow> (string \<times> property_spec) list \<Rightarrow> py_dict list" where
  "validate_property_values isodate idx operation item_kind specs =
     (case dget operation ''properties'' of
        PDict values \<Rightarrow> List.map_filter (\<lambda>(name, v).
          map_option (\<lambda>reason. validation_error (int idx) (PDict operation) reason
              ''Use a JSON value compatible with the live HugeGraph property schema.'' None)
            (property_value_error isodate item_kind idx name v (map_of specs name))) values
      | _ \<Rightarrow> [])"

definition validate_primary_key_match :: "int \<Rightarrow> py_dict \<Rightarrow> string \<Rightarrow> string list \<Rightarrow> py_dict list" where
  "validate_primary_key_match idx operation field pks =
     (case dget operation field of
        PDict m \<Rightarrow>
          if \<not> none_or_empty (dget m ''id'') then []
          else (let missing = filter (\<lambda>pk. none_or_empty (dget m pk)) pks in
            if missing = [] then []
            else [validation_error idx (PDict operation) (field @ '' must contain primary key(s): '' @ join '', '' missing)
              ''Include every primary key from the referenced vertex label.'' None])
      | _ \<Rightarrow> [validation_error idx (PDict operation) (field @ '' must be an object'')
          (''Use '' @ field @ '' to identify a vertex by its primary key.'') None])"

section \<open>Identities of created vertices\<close>

type_synonym identities = "((string \<times> string \<times> string) \<times> nat) list"

text \<open>The identities of a created vertex: its identifier and its primary keys, when they are complete.\<close>

definition vertex_identities :: "string list \<Rightarrow> py_dict \<Rightarrow> (string \<times> py) list" where
  "vertex_identities pks operation =
     (if none_or_empty (dget operation ''id'') then [] else [(''id'', dget operation ''id'')]) @
     (case dget operation ''properties'' of
        PDict props \<Rightarrow>
          if pks \<noteq> [] \<and> list_all (\<lambda>pk. \<not> none_or_empty (dget props pk)) pks
          then [(''primary_key'', PList (map (dget props) pks))] else []
      | _ \<Rightarrow> [])"

fun check_identities :: "nat \<Rightarrow> py_dict \<Rightarrow> string \<Rightarrow> (string \<times> py) list \<Rightarrow> identities \<Rightarrow> py_dict list \<times> identities" where
  "check_identities idx operation label [] seen = ([], seen)"
| "check_identities idx operation label ((kind, v) # rest) seen =
     (let identity = (label, kind, sorted_json v) in
      case map_of seen identity of
        Some earlier \<Rightarrow>
          (let (errors, seen') = check_identities idx operation label rest seen in
           (validation_error (int idx) (PDict operation)
              (''duplicate create_vertex '' @ kind @ '' identity with operation '' @ nat_str earlier)
              ''Keep one create_vertex operation per identity in the batch.'' (Some ''INVALID_GRAPH_DATA'') # errors, seen'))
      | None \<Rightarrow> check_identities idx operation label rest (seen @ [(identity, idx)]))"

section \<open>Checks of one operation\<close>

text \<open>What is computed from the schema once, before the loop.\<close>

record schema_index =
  si_vertices :: "(string \<times> py_dict) list"
  si_edges :: "(string \<times> py_dict) list"
  si_specs :: "(string \<times> property_spec) list"

definition op_text :: "py_dict \<Rightarrow> string" where
  "op_text operation = py_str (py_or (dget operation ''op'') (py_or (dget operation ''type'') (PStr [])))"

definition label_properties :: "(string \<times> py_dict) list \<Rightarrow> string \<Rightarrow> string set" where
  "label_properties labels l = (case map_of labels l of None \<Rightarrow> {} | Some d \<Rightarrow> property_names (dget d ''properties''))"

definition label_primary_keys :: "(string \<times> py_dict) list \<Rightarrow> string \<Rightarrow> string list" where
  "label_primary_keys labels l = (case map_of labels l of None \<Rightarrow> [] | Some d \<Rightarrow> primary_key_names d)"

definition validate_vertex_operation ::
  "(string \<Rightarrow> bool) \<Rightarrow> schema_index \<Rightarrow> nat \<Rightarrow> py_dict \<Rightarrow> string \<Rightarrow> string \<Rightarrow> identities
   \<Rightarrow> py_dict list \<times> string list \<times> identities" where
  "validate_vertex_operation isodate si idx operation op label seen =
     (if \<not> has_key (si_vertices si) label then
        ([validation_error (int idx) (PDict operation) (''label references undefined vertex label: '' @ label)
           ''Use an existing vertex label from the live schema.'' None], [], seen)
      else
       (let allowed = label_properties (si_vertices si) label; pks = label_primary_keys (si_vertices si) label;
            warnings = (if pks = [] then [''operation '' @ nat_str idx @ '' references vertex label '' @ [CHR 0x27] @ label @ [CHR 0x27] @
              '' with no primary_keys''] else []);
            errors = validate_field_map (int idx) operation ''properties'' allowed False @
              (if op = ''create_vertex'' then validate_property_values isodate idx operation ''vertex'' (si_specs si) else []) @
              validate_field_map (int idx) operation ''match'' allowed True;
            (duplicates, seen') = (if op = ''create_vertex'' \<and> errors = []
              then check_identities idx operation label (vertex_identities pks operation) seen else ([], seen))
        in (errors @ duplicates @
              (if op = ''delete_vertex'' then validate_primary_key_match (int idx) operation ''match'' pks else []),
            warnings, seen')))"

definition undefined_endpoint :: "schema_index \<Rightarrow> nat \<Rightarrow> py_dict \<Rightarrow> string \<Rightarrow> py \<Rightarrow> py_dict list" where
  "undefined_endpoint si idx operation name v =
     (if (case v of PStr l \<Rightarrow> has_key (si_vertices si) l | _ \<Rightarrow> False) then []
      else [validation_error (int idx) (PDict operation) (name @ '' references undefined vertex label: '' @ py_str v)
        ''Use existing source and target vertex labels from the live schema.'' None])"

definition endpoint_mismatch :: "nat \<Rightarrow> py_dict \<Rightarrow> string \<Rightarrow> string \<Rightarrow> py \<Rightarrow> py \<Rightarrow> py_dict list" where
  "endpoint_mismatch idx operation label endpoint expected actual =
     (if truthy expected \<and> truthy actual \<and> \<not> py_eq actual expected then
        [validation_error (int idx) (PDict operation)
           (endpoint @ ''_label does not match edge label '' @ [CHR 0x27] @ label @ [CHR 0x27] @ '' '' @ endpoint @ ''_label '' @
              [CHR 0x27] @ py_str expected @ [CHR 0x27])
           (''Use the '' @ endpoint @ '' label defined by the edge schema.'') None]
      else [])"

definition endpoint_match_errors :: "schema_index \<Rightarrow> nat \<Rightarrow> py_dict \<Rightarrow> string \<Rightarrow> py \<Rightarrow> py_dict list" where
  "endpoint_match_errors si idx operation field v =
     (case v of
        PStr l \<Rightarrow> if has_key (si_vertices si) l
          then validate_primary_key_match (int idx) operation field (label_primary_keys (si_vertices si) l) @
            validate_field_map (int idx) operation field (label_properties (si_vertices si) l) True
          else []
      | _ \<Rightarrow> [])"

definition validate_edge_operation :: "(string \<Rightarrow> bool) \<Rightarrow> schema_index \<Rightarrow> nat \<Rightarrow> py_dict \<Rightarrow> string \<Rightarrow> string \<Rightarrow> py_dict list" where
  "validate_edge_operation isodate si idx operation op label =
     (case map_of (si_edges si) label of
        None \<Rightarrow> [validation_error (int idx) (PDict operation) (''label references undefined edge label: '' @ label)
           ''Use an existing edge label from the live schema.'' None]
      | Some schema \<Rightarrow>
        (let source_label = py_or (dget operation ''source_label'') (dget operation ''outVLabel'');
             target_label = py_or (dget operation ''target_label'') (dget operation ''inVLabel'')
         in undefined_endpoint si idx operation ''source_label'' source_label @
            undefined_endpoint si idx operation ''target_label'' target_label @
            endpoint_mismatch idx operation label ''source'' (edge_schema_endpoint_label schema ''source'') source_label @
            endpoint_mismatch idx operation label ''target'' (edge_schema_endpoint_label schema ''target'') target_label @
            validate_field_map (int idx) operation ''properties'' (property_names (dget schema ''properties'')) False @
            (if op = ''create_edge'' then validate_property_values isodate idx operation ''edge'' (si_specs si) else []) @
            endpoint_match_errors si idx operation ''source_match'' source_label @
            endpoint_match_errors si idx operation ''target_match'' target_label))"

definition validate_operation ::
  "(string \<Rightarrow> bool) \<Rightarrow> schema_index \<Rightarrow> nat \<Rightarrow> py \<Rightarrow> identities \<Rightarrow> py_dict list \<times> string list \<times> identities" where
  "validate_operation isodate si idx v seen =
     (case v of
        PDict operation \<Rightarrow>
         (let op = op_text operation in
          if op \<notin> set ALLOWED_OPS then
            ([validation_error (int idx) v (''unsupported op: '' @ op)
               ''Use one of: create_vertex, create_edge, delete_vertex, delete_edge.'' None], [], seen)
          else case dget operation ''label'' of
            PStr (c # cs) \<Rightarrow>
             (let label = c # cs;
                  set_errors = (if has_key operation ''set'' then [validation_error (int idx) v
                     ''set is not supported by V1 graph data operations''
                     ''Use properties for create operations, or submit update support in a later V2 change.'' None] else []);
                  (errors, warnings, seen') = (if op \<in> set VERTEX_OPS
                    then validate_vertex_operation isodate si idx operation op label seen
                    else (validate_edge_operation isodate si idx operation op label, [], seen))
              in (set_errors @ errors, warnings, seen'))
          | _ \<Rightarrow> ([validation_error (int idx) v ''missing required field: label''
               ''Add the schema label targeted by this operation.'' None], [], seen))
      | _ \<Rightarrow> ([validation_error (int idx) v ''operation must be an object''
          ''Replace this item with a graph change operation object.'' None], [], seen))"

fun validate_operations ::
  "(string \<Rightarrow> bool) \<Rightarrow> schema_index \<Rightarrow> nat \<Rightarrow> py list \<Rightarrow> identities \<Rightarrow> validation" where
  "validate_operations isodate si idx [] seen = \<lparr>vd_errors = [], vd_warnings = []\<rparr>"
| "validate_operations isodate si idx (v # vs) seen =
     (let (errors, warnings, seen') = validate_operation isodate si idx v seen;
          rest = validate_operations isodate si (Suc idx) vs seen'
      in \<lparr>vd_errors = errors @ vd_errors rest, vd_warnings = warnings @ vd_warnings rest\<rparr>)"

definition schema_index_of :: "py \<Rightarrow> schema_index res" where
  "schema_index_of live =
     (let raw = (case schema_payload live of None \<Rightarrow> [] | Some raw \<Rightarrow> raw) in
      and_then (labels_of raw ''vertexlabels'') (\<lambda>vls.
      and_then (labels_of raw ''edgelabels'') (\<lambda>els.
      Inr \<lparr>si_vertices = vls, si_edges = els, si_specs = property_specs (PDict raw)\<rparr>)))"

definition single_error :: "py \<Rightarrow> string \<Rightarrow> string \<Rightarrow> validation" where
  "single_error plan reason suggestion = \<lparr>vd_errors = [validation_error (- 1) plan reason suggestion None], vd_warnings = []\<rparr>"

definition validate_graph_change_plan :: "(string \<Rightarrow> bool) \<Rightarrow> py \<Rightarrow> py \<Rightarrow> validation res" where
  "validate_graph_change_plan isodate plan live =
     (if \<not> is_dict plan \<and> \<not> is_list plan then
        Inr (single_error plan ''change_plan must be an object with operations''
          ''Pass {'operations': [...]} as the graph change plan.'')
      else if (case plan of PDict d \<Rightarrow> \<not> is_list (dget d ''operations'') | _ \<Rightarrow> False) then
        Inr (single_error plan ''change_plan.operations must be a list'' ''Pass graph change operations as a JSON array.'')
      else and_then (schema_index_of live) (\<lambda>si. Inr (validate_operations isodate si 0 (plan_operations plan) [])))"

section \<open>Modes\<close>

definition mode_error :: "string \<Rightarrow> string list \<Rightarrow> nat \<Rightarrow> py \<Rightarrow> py_dict option" where
  "mode_error mode allowed idx v =
     (case v of
        PDict operation \<Rightarrow>
          if op_text operation \<in> set allowed then None
          else Some (validation_error (int idx) v (''op '' @ op_text operation @ '' is not allowed in mode='' @ [CHR 0x27] @ mode @ [CHR 0x27])
            (''Use only '' @ join '', '' allowed @ '' operations for mode='' @ [CHR 0x27] @ mode @ [CHR 0x27] @ ''.'') None)
      | _ \<Rightarrow> Some (validation_error (int idx) v ''operation must be an object''
          ''Replace this item with a graph change operation object.'' None))"

definition validate_mode_operations :: "string \<Rightarrow> py \<Rightarrow> validation" where
  "validate_mode_operations mode plan =
     (case map_of MODE_OPS mode of
        None \<Rightarrow> single_error plan (''unknown mode: '' @ mode) ''Use mode='import' or mode='delete'.''
      | Some allowed \<Rightarrow> \<lparr>vd_errors = List.map_filter (\<lambda>(idx, v). mode_error mode allowed idx v)
          (enumerate 0 (plan_operations plan)), vd_warnings = []\<rparr>)"

end
