(* ===== verification/Graph_Mapping.thy ===== *)
theory Graph_Mapping
  imports Graph_Validate
begin

text \<open>
  Model of \<open>hugegraph_mcp/tools/graph_data_mapping.py\<close>: graph data, that is vertices and edges as a client sends
  them, becomes a change plan. Every vertex is a create operation; the endpoints of an edge become match
  conditions.
\<close>

definition change_plan_from_operations :: "py list \<Rightarrow> py" where
  "change_plan_from_operations ops = PDict [(''operations'', PList ops)]"

text \<open>The mappings among \<open>graph_data.get(k) or []\<close>.\<close>

definition dict_items :: "py_dict \<Rightarrow> string \<Rightarrow> py_dict list res" where
  "dict_items graph_data k = and_then (py_iter (py_or (dget graph_data k) (PList [])))
     (\<lambda>vs. Inr (List.map_filter (\<lambda>v. case v of PDict d \<Rightarrow> Some d | _ \<Rightarrow> None) vs))"

definition vertex_ids_by_label :: "py_dict list \<Rightarrow> ((string \<times> string) \<times> py) list" where
  "vertex_ids_by_label vertices = dict_of (List.map_filter (\<lambda>v. case dget v ''label'' of
      PStr label \<Rightarrow> if none_or_empty (dget v ''id'') then None else Some ((label, py_str (dget v ''id'')), dget v ''id'')
    | _ \<Rightarrow> None) vertices)"

definition single_primary_keys_by_label :: "py \<Rightarrow> (string \<times> string) list res" where
  "single_primary_keys_by_label live = (case schema_payload live of
      None \<Rightarrow> Inr []
    | Some raw \<Rightarrow> and_then (dict_items raw ''vertexlabels'') (\<lambda>labels.
        Inr (dict_of (List.map_filter (\<lambda>l. case (dget l ''name'', primary_key_names l) of
            (PStr name, [pk]) \<Rightarrow> Some (name, pk) | _ \<Rightarrow> None) labels))))"

definition vertex_primary_key_values :: "(string \<times> string) list \<Rightarrow> py_dict list \<Rightarrow> ((string \<times> string) \<times> py) list" where
  "vertex_primary_key_values single vertices = dict_of (List.map_filter (\<lambda>v. case (dget v ''label'', dget v ''properties'') of
      (PStr label, PDict props) \<Rightarrow> (case map_of single label of
          None \<Rightarrow> None
        | Some pk \<Rightarrow> if none_or_empty (dget props pk) then None else Some ((label, py_str (dget props pk)), dget props pk))
    | _ \<Rightarrow> None) vertices)"

text \<open>What the mapping looks up while it converts the edges.\<close>

record mapping_index =
  mi_ids :: "((string \<times> string) \<times> py) list"
  mi_single :: "(string \<times> string) list"
  mi_values :: "((string \<times> string) \<times> py) list"

text \<open>\<open>d.get(k)\<close> for a dictionary with pairs as keys.\<close>

definition pget :: "((string \<times> string) \<times> py) list \<Rightarrow> string \<Rightarrow> string \<Rightarrow> py" where
  "pget d l s = (case map_of d (l, s) of None \<Rightarrow> PNone | Some v \<Rightarrow> v)"

definition edge_endpoint_match :: "mapping_index \<Rightarrow> py_dict \<Rightarrow> string \<Rightarrow> py \<Rightarrow> py" where
  "edge_endpoint_match mi edge endpoint endpoint_label =
     (let explicit = dget edge (if endpoint = ''source'' then ''source'' else ''target'');
          vertex_id = dget edge (if endpoint = ''source'' then ''outV'' else ''inV'');
          fallback_id = (if none_or_empty explicit then vertex_id else explicit);
          by_id = PDict [(''id'', fallback_id)]
      in case explicit of
        PDict d \<Rightarrow> explicit
      | _ \<Rightarrow> (case endpoint_label of
          PStr label \<Rightarrow>
            if none_or_empty fallback_id then by_id
            else let matched = pget (mi_ids mi) label (py_str fallback_id) in
              if matched \<noteq> PNone then PDict [(''id'', matched)]
              else if has_key edge endpoint then
                (let v = pget (mi_values mi) label (py_str fallback_id);
                     v = (case fallback_id of
                        PStr s \<Rightarrow> if v = PNone \<and> CHR '':'' \<in> set s then pget (mi_values mi) label (snd (split_once (CHR '':'') s)) else v
                      | _ \<Rightarrow> v)
                 in case map_of (mi_single mi) label of
                      Some pk \<Rightarrow> PDict [(pk, if v \<noteq> PNone then v else fallback_id)]
                    | None \<Rightarrow> by_id)
              else by_id
        | _ \<Rightarrow> by_id))"

definition vertex_operation :: "py_dict \<Rightarrow> py_dict" where
  "vertex_operation vertex =
     [(''op'', PStr ''create_vertex''), (''label'', dget vertex ''label''),
      (''properties'', py_or (dget vertex ''properties'') (PDict []))]
     @ (if none_or_empty (dget vertex ''id'') then [] else [(''id'', dget vertex ''id'')])"

definition edge_operation :: "mapping_index \<Rightarrow> py_dict \<Rightarrow> py_dict" where
  "edge_operation mi edge =
     (let source_label = py_or (dget edge ''source_label'') (dget edge ''outVLabel'');
          target_label = py_or (dget edge ''target_label'') (dget edge ''inVLabel'')
      in [(''op'', PStr ''create_edge''), (''label'', dget edge ''label''),
          (''source_label'', source_label), (''target_label'', target_label),
          (''source_match'', edge_endpoint_match mi edge ''source'' source_label),
          (''target_match'', edge_endpoint_match mi edge ''target'' target_label),
          (''properties'', py_or (dget edge ''properties'') (PDict []))])"

definition graph_data_to_change_plan :: "py_dict \<Rightarrow> py \<Rightarrow> py res" where
  "graph_data_to_change_plan graph_data live =
     and_then (dict_items graph_data ''vertices'') (\<lambda>vertices.
     and_then (single_primary_keys_by_label live) (\<lambda>single.
     and_then (dict_items graph_data ''edges'') (\<lambda>edges.
       let mi = \<lparr>mi_ids = vertex_ids_by_label vertices, mi_single = single,
                 mi_values = vertex_primary_key_values single vertices\<rparr>
       in Inr (change_plan_from_operations
            (map (PDict \<circ> vertex_operation) vertices @ map (PDict \<circ> edge_operation mi) edges)))))"

lemma edge_endpoint_match_dict: "is_dict (edge_endpoint_match mi edge endpoint l)"
  unfolding edge_endpoint_match_def Let_def
  by (cases "dget edge (if endpoint = ''source'' then ''source'' else ''target'')"; cases l)
     (simp_all split: option.split)

lemma op_text_mapped:
  "op_text (vertex_operation v) = ''create_vertex''" "op_text (edge_operation mi e) = ''create_edge''"
  by (simp_all add: op_text_def vertex_operation_def edge_operation_def Let_def dget_def py_or_def)


end
