(* ===== verification/Guard.thy ===== *)
theory Guard
  imports Config Response Json_Text
begin

text \<open>
  Model of the gates in front of every write: \<open>hugegraph_mcp/guard.py\<close> (capabilities), the hard size
  limits of \<open>write_limits.py\<close> and the classification of server errors of \<open>error_mapping.py\<close>. The
  exception classes of the client library are the constructors of \<open>hg_exception\<close>.
\<close>

section \<open>Capabilities\<close>

datatype Capability = READ | GENERATE | DATA_WRITE | SCHEMA_WRITE | INDEX_WRITE | DEBUG_WRITE

fun capability_value :: "Capability \<Rightarrow> string" where
  "capability_value READ = ''READ''"
| "capability_value GENERATE = ''GENERATE''"
| "capability_value DATA_WRITE = ''DATA_WRITE''"
| "capability_value SCHEMA_WRITE = ''SCHEMA_WRITE''"
| "capability_value INDEX_WRITE = ''INDEX_WRITE''"
| "capability_value DEBUG_WRITE = ''DEBUG_WRITE''"

definition is_allowed_in_readonly :: "Capability \<Rightarrow> bool" where
  "is_allowed_in_readonly c \<longleftrightarrow> c \<in> {READ, GENERATE}"

definition WRITE_CAPABILITIES :: "Capability set" where
  "WRITE_CAPABILITIES = {DATA_WRITE, SCHEMA_WRITE, INDEX_WRITE, DEBUG_WRITE}"

definition guard :: "Capability \<Rightarrow> MCPConfig \<Rightarrow> response option" where
  "guard c cfg =
     (if c \<in> WRITE_CAPABILITIES \<and> \<not> is_readonly cfg \<and> \<not> has_safe_write_store cfg then
        Some (envelope_err FEATURE_DISABLED
          ''Write capability requires a shared transactional plan store when multiple MCP instances are configured.''
          (Some (''Run one write-enabled MCP instance with the SQLite plan store, '' @
             ''or configure a supported shared transactional PlanStore.''))
          (PDict [(''plan_store_backend'', PStr (cfg_plan_store_backend cfg)),
             (''write_instance_count'', PInt (cfg_write_instance_count cfg))]))
      else if \<not> is_readonly cfg \<or> is_allowed_in_readonly c then None
      else Some (envelope_err READONLY_VIOLATION
        (capability_value c @ '' capability is disabled in read-only mode'')
        (Some ''Disable HUGEGRAPH_MCP_READONLY to allow this operation.'') (PDict [])))"

text \<open>\<open>require_capability\<close>: the message of the PermissionError it raises.\<close>

definition require_capability :: "Capability \<Rightarrow> MCPConfig \<Rightarrow> string option" where
  "require_capability c cfg = map_option err_message (guard c cfg)"

lemma readonly_allowed_iff: "is_allowed_in_readonly c \<longleftrightarrow> c \<notin> WRITE_CAPABILITIES"
  by (cases c) (simp_all add: is_allowed_in_readonly_def WRITE_CAPABILITIES_def)

section \<open>Size limits\<close>

definition MAX_OPERATIONS :: int where "MAX_OPERATIONS = 200"
definition MAX_PAYLOAD_BYTES :: int where "MAX_PAYLOAD_BYTES = 1048576"

definition payload_byte_size :: "py \<Rightarrow> int" where
  "payload_byte_size payload = int (utf8_len (plain_json payload))"

definition limit_error :: "string \<Rightarrow> string \<Rightarrow> py" where
  "limit_error reason suggestion = PDict
     [(''operation_index'', PInt (-1)), (''operation'', PNone), (''reason'', PStr reason),
      (''suggestion'', PStr suggestion), (''error_type'', PStr ''VALIDATION_ERROR'')]"

definition collect_write_limit_errors :: "int \<Rightarrow> py \<Rightarrow> py list" where
  "collect_write_limit_errors n payload =
     (let size = payload_byte_size payload in
      (if n > MAX_OPERATIONS then
         [limit_error (''operation count '' @ int_str n @ '' exceeds MAX_OPERATIONS ('' @ int_str MAX_OPERATIONS @ '')'')
            (''Split the request so it contains at most '' @ int_str MAX_OPERATIONS @ '' operations, then retry dry-run.'')]
       else []) @
      (if size > MAX_PAYLOAD_BYTES then
         [limit_error (''payload size '' @ int_str size @ '' exceeds MAX_PAYLOAD_BYTES ('' @ int_str MAX_PAYLOAD_BYTES @ '')'')
            ''Reduce the JSON payload to at most 1 MiB (1048576 bytes), then retry dry-run.'']
       else []))"

definition write_limit_envelope :: "int \<Rightarrow> py \<Rightarrow> response option" where
  "write_limit_envelope n payload =
     (let errors = collect_write_limit_errors n payload in
      if errors = [] then None
      else Some (envelope_err VALIDATION_ERROR ''Write plan exceeds hard operation or payload limits.''
        (Some (''Reduce the number of operations to '' @ int_str MAX_OPERATIONS @ '' or fewer '' @
           ''and the JSON payload to at most 1 MiB, then retry dry-run.''))
        (PDict [(''errors'', PList errors), (''max_operations'', PInt MAX_OPERATIONS),
           (''max_payload_bytes'', PInt MAX_PAYLOAD_BYTES)])))"

definition operation_count_from_list :: "py \<Rightarrow> int" where
  "operation_count_from_list v = (case v of PList xs \<Rightarrow> int (length xs) | _ \<Rightarrow> 0)"

definition graph_data_operation_count :: "py \<Rightarrow> int" where
  "graph_data_operation_count v = (case v of
      PDict d \<Rightarrow> operation_count_from_list (dget d ''vertices'') + operation_count_from_list (dget d ''edges'')
    | _ \<Rightarrow> 0)"

lemma write_limit_None_iff:
  "write_limit_envelope n payload = None \<longleftrightarrow> n \<le> MAX_OPERATIONS \<and> payload_byte_size payload \<le> MAX_PAYLOAD_BYTES"
  by (auto simp: write_limit_envelope_def collect_write_limit_errors_def Let_def)

section \<open>Server errors\<close>

datatype hg_exception = NotAuthorizedError string | NotFoundError string | InvalidParameterError string
  | DataFormatError string | ServiceUnavailableError string | ResponseParseError string
  | ServerError string | OtherError string

text \<open>\<open>str(exc)\<close>.\<close>

fun hg_text :: "hg_exception \<Rightarrow> string" where
  "hg_text (NotAuthorizedError m) = m"
| "hg_text (NotFoundError m) = m"
| "hg_text (InvalidParameterError m) = m"
| "hg_text (DataFormatError m) = m"
| "hg_text (ServiceUnavailableError m) = m"
| "hg_text (ResponseParseError m) = m"
| "hg_text (ServerError m) = m"
| "hg_text (OtherError m) = m"

record ErrorClassification =
  ec_type :: ErrorType
  ec_retryable :: bool
  ec_suggestion :: string
  ec_reason :: string

definition NO_INDEX_MARKERS :: "string list" where
  "NO_INDEX_MARKERS = [''noindexexception'', ''no index'', ''not indexed'', ''may not match secondary condition'']"

definition SCHEMA_MISSING_MARKERS :: "string list" where
  "SCHEMA_MISSING_MARKERS = [''property key does not exist'', ''propertykey does not exist'',
     ''vertex label does not exist'', ''vertexlabel does not exist'', ''edge label does not exist'',
     ''edgelabel does not exist'', ''schema does not exist'']"

definition NOT_FOUND_MARKERS :: "string list" where
  "NOT_FOUND_MARKERS = [''404'', ''notfound'', ''not found'', ''not exist'', ''does not exist'']"

definition any_marker :: "string list \<Rightarrow> string \<Rightarrow> bool" where
  "any_marker ms s = list_ex (contains s) ms"

definition classification :: "ErrorType \<Rightarrow> bool \<Rightarrow> string \<Rightarrow> string \<Rightarrow> ErrorClassification" where
  "classification t r s w = \<lparr>ec_type = t, ec_retryable = r, ec_suggestion = s, ec_reason = w\<rparr>"

definition classify_hugegraph_error_message :: "string \<Rightarrow> ErrorClassification" where
  "classify_hugegraph_error_message message =
     (let low = lower message in
      if any_marker NO_INDEX_MARKERS low then classification NO_INDEX False
        ''Create an index for this condition query or retry with exact id lookup.'' ''no_index''
      else if any_marker SCHEMA_MISSING_MARKERS low then classification SCHEMA_MISMATCH False
        ''Check the live schema, label, and property key before retrying.'' ''schema_missing''
      else if any_marker NOT_FOUND_MARKERS low then classification NOT_FOUND False
        ''Verify the id, target type, graph, and graphspace before retrying.'' ''not_found''
      else classification SERVER_ERROR True
        ''Check query parameters and HugeGraph Server availability.'' ''server_error'')"

fun classify_hugegraph_exception :: "hg_exception \<Rightarrow> ErrorClassification" where
  "classify_hugegraph_exception (NotAuthorizedError m) = classification AUTHENTICATION_FAILED False
     ''Check HUGEGRAPH_USER and HUGEGRAPH_PASSWORD.'' ''authentication_error''"
| "classify_hugegraph_exception (NotFoundError m) = classification NOT_FOUND False
     ''Verify the graph, graphspace, and endpoint before retrying.'' ''not_found_error''"
| "classify_hugegraph_exception (InvalidParameterError m) = classification VALIDATION_ERROR False
     ''Check the request parameters and data format.'' ''validation_error''"
| "classify_hugegraph_exception (DataFormatError m) = classification VALIDATION_ERROR False
     ''Check the request parameters and data format.'' ''validation_error''"
| "classify_hugegraph_exception (ServiceUnavailableError m) = classification SERVER_ERROR True
     ''Retry after checking HugeGraph Server availability.'' ''server_error''"
| "classify_hugegraph_exception (ResponseParseError m) = classification SERVER_ERROR False
     ''Check the HugeGraph response and client/server compatibility.'' ''server_error''"
| "classify_hugegraph_exception (ServerError m) = classify_hugegraph_error_message m"
| "classify_hugegraph_exception (OtherError m) = classify_hugegraph_error_message m"

section \<open>Properties\<close>

text \<open>No environment lets a write capability through unless it switches readonly off with one of
  the false words and leaves the plan store at SQLite with exactly one writing instance; reading and
  generating are always allowed.\<close>

theorem write_guard_spec:
  "(guard c (parse_env f env) = None) \<longleftrightarrow>
     (c \<in> WRITE_CAPABILITIES \<longrightarrow> \<not> cfg_readonly (parse_env f env) \<and>
        cfg_plan_store_backend (parse_env f env) = ''sqlite'' \<and> cfg_write_instance_count (parse_env f env) = 1)"
  by (auto simp: guard_def is_readonly_def has_safe_write_store_def readonly_allowed_iff)

theorem write_guard_spec_witness:
  "guard DATA_WRITE (parse_env (\<lambda>_. None) demo_env) = None \<and> guard DATA_WRITE (parse_env (\<lambda>_. None) Map.empty) \<noteq> None"
proof -
  have "\<not> cfg_readonly (parse_env (\<lambda>_. None) demo_env)" "cfg_readonly (parse_env (\<lambda>_. None) Map.empty)"
    "cfg_plan_store_backend (parse_env (\<lambda>_. None) demo_env) = ''sqlite''"
    "cfg_write_instance_count (parse_env (\<lambda>_. None) demo_env) = 1"
    by code_simp+
  then show ?thesis
    using write_guard_spec [of DATA_WRITE "\<lambda>_. None" demo_env] write_guard_spec [of DATA_WRITE "\<lambda>_. None" Map.empty]
    by (simp add: WRITE_CAPABILITIES_def)
qed

end
