(* ===== verification/Gremlin_Tools.thy ===== *)
theory Gremlin_Tools
  imports Guard Gremlin_Policy
begin

text \<open>
  Model of \<open>hugegraph_mcp/gremlin_tools.py\<close> and of the part of the Python client it calls
  (\<open>ResponseValidation\<close> of \<open>pyhugegraph/utils/util.py\<close>, \<open>GremlinManager.exec\<close>). The HTTP library is
  outside: a reply records what its methods return, and a request is a function on the backend. A query
  reaches the backend only through that function, so the theorems can say what was sent.
\<close>

section \<open>The client\<close>

text \<open>
  A \<open>requests.Response\<close>: its status and texts, the result of \<open>json()\<close> (\<open>None\<close> when it raises), whether
  \<open>raise_for_status()\<close> raises, and its truth value.
\<close>

record http_reply =
  rp_status :: int
  rp_text :: string
  rp_content :: string
  rp_json :: "py option"
  rp_raises :: bool
  rp_truth :: bool

definition reply_details :: "http_reply \<Rightarrow> py" where
  "reply_details r =
     (let fallback = py_or (PStr (rp_text r)) (PStr ''unknown error'') in
      case rp_json r of
        Some (PDict body) \<Rightarrow>
          py_or (dget body ''message'') (py_or (dget body ''exception'')
            (py_or (case dget body ''status'' of PDict st \<Rightarrow> dget st ''message'' | _ \<Rightarrow> PNone) fallback))
      | _ \<Rightarrow> fallback)"

text \<open>\<open>ResponseValidation.__call__\<close> for JSON content.\<close>

definition validate_response :: "bool \<Rightarrow> string \<Rightarrow> http_reply \<Rightarrow> hg_exception + py" where
  "validate_response strict where_text r =
     (if rp_raises r then
        (if \<not> strict \<and> rp_status r = 404 then Inr (PDict [])
         else if rp_status r = 401 then
           Inl (NotAuthorizedError (''Please check your username and password. '' @ rp_content r))
         else if rp_status r = 404 then Inl (NotFoundError (rp_content r))
         else Inl (ServerError (''Server Exception: '' @ py_str (reply_details r))))
      else if rp_status r = 204 then Inr (PDict [])
      else case rp_json r of None \<Rightarrow> Inl (ResponseParseError (''Failed to parse json response for '' @ where_text))
        | Some v \<Rightarrow> Inr v)"

definition REQUIRED_RESPONSE_FIELDS :: "string list" where
  "REQUIRED_RESPONSE_FIELDS = [''requestId'', ''status'', ''result'']"

text \<open>What a call of \<open>exec\<close> ends in.\<close>

datatype outcome =
    Returned py
  | Connection_Error
  | Timeout_Error
  | Http_Error "http_reply option"
  | Client_Error hg_exception
  | Value_Error string
  | Other_Error string

definition gremlin_result :: "http_reply \<Rightarrow> outcome" where
  "gremlin_result r = (case validate_response True ''POST'' r of
      Inl e \<Rightarrow> Client_Error e
    | Inr PNone \<Rightarrow> Returned PNone
    | Inr (PDict d) \<Rightarrow> if list_all (has_key d) REQUIRED_RESPONSE_FIELDS then Returned (dget d ''result'')
        else Client_Error (ResponseParseError (''Invalid Gremlin response payload: '' @ py_str (PDict d)))
    | Inr v \<Rightarrow> Client_Error (ResponseParseError (''Invalid Gremlin response payload: '' @ py_str v)))"

section \<open>Structured results\<close>

definition gremlin_result_count :: "py \<Rightarrow> int" where
  "gremlin_result_count data =
     (let count = (\<lambda>v. case v of PNone \<Rightarrow> 0 | PList xs \<Rightarrow> int (length xs) | PTuple xs \<Rightarrow> int (length xs) | _ \<Rightarrow> 1)
      in case data of PDict d \<Rightarrow> if has_key d ''data'' then count (dget d ''data'') else 1 | _ \<Rightarrow> count data)"

definition gremlin_result_byte_size :: "py \<Rightarrow> int" where
  "gremlin_result_byte_size data = int (utf8_len (plain_json data))"

definition is_no_index_error :: "py \<Rightarrow> bool" where
  "is_no_index_error message =
     (let low = lower (py_str message) in contains low ''noindexexception'' \<or> contains low ''no index'')"

definition strings :: "string list \<Rightarrow> py" where
  "strings ss = PList (map PStr ss)"

definition failed :: "string \<Rightarrow> string \<Rightarrow> py_dict \<Rightarrow> string list \<Rightarrow> py \<Rightarrow> string \<Rightarrow> py_dict" where
  "failed kind message extra suggestions dur op =
     [(''success'', PBool False), (''error_type'', PStr kind), (''message'', PStr message)] @ extra @
     [(''suggestions'', strings suggestions), (''duration_ms'', dur), (''operation_type'', PStr op)]"

definition no_index_error_result :: "string \<Rightarrow> py \<Rightarrow> string \<Rightarrow> py_dict" where
  "no_index_error_result message dur op = failed ''no_index_error'' message []
     [''Create an index for the queried property before using has() filters'',
      ''Use primary-key based lookups when possible'',
      ''Check HugeGraph schema index labels with inspect_graph_tool''] dur op"

text \<open>The message that a reply with status 500 carries, \<open>PStr ""\<close> when there is none.\<close>

definition reply_exception :: "http_reply \<Rightarrow> py" where
  "reply_exception r = (case rp_json r of
      Some (PDict d) \<Rightarrow> py_or (dget d ''exception'') (py_or (dget d ''message'')
        (py_or (dget d ''detail'') (py_or (dget d ''error'') (PStr (py_str (PDict d))))))
    | _ \<Rightarrow> PStr [])"

text \<open>
  \<open>status_code = e.response.status_code if hasattr(e, "response") and e.response else "unknown"\<close>.
\<close>

definition http_status :: "http_reply option \<Rightarrow> int option" where
  "http_status resp = (case resp of Some r \<Rightarrow> if rp_truth r then Some (rp_status r) else None | None \<Rightarrow> None)"

definition status_py :: "int option \<Rightarrow> py" where
  "status_py s = (case s of None \<Rightarrow> PStr ''unknown'' | Some n \<Rightarrow> PInt n)"

definition http_error_result :: "http_reply option \<Rightarrow> py \<Rightarrow> string \<Rightarrow> py_dict" where
  "http_error_result resp dur op =
     (let st = http_status resp;
          fail = (\<lambda>kind message. failed kind message [(''status_code'', status_py st)])
      in if st = Some 401 then fail ''authentication_error'' ''Authentication failed - invalid credentials''
           [''Check HUGEGRAPH_USER and HUGEGRAPH_PASSWORD environment variables'', ''Verify user permissions in HugeGraph''] dur op
         else if st = Some 403 then fail ''authorization_error'' ''Authorization failed - insufficient permissions''
           [''Check if the user has permission to execute Gremlin queries'',
            ''Verify graph space permissions if using graph spaces''] dur op
         else if st = Some 404 then fail ''not_found_error'' ''Graph or endpoint not found''
           [''Check if the graph name is correct'', ''Verify the graph exists in HugeGraph''] dur op
         else if st = Some 500 then
           (let detail = reply_exception (the resp);
                tips = [''Check the Gremlin query syntax'', ''Verify all referenced vertex/edge labels exist'',
                  ''Check HugeGraph server logs for details'', ''Ensure the query doesn't violate graph constraints'']
            in if truthy detail then
                 (if is_no_index_error detail
                  then no_index_error_result (''Query requires an index: '' @ py_str detail) dur op
                  else fail ''server_error'' (''HugeGraph server internal error: '' @ py_str detail) tips dur op)
               else fail ''server_error'' ''HugeGraph server internal error'' tips dur op)
         else fail ''http_error'' (''HTTP error '' @ py_str (status_py st))
           [''Check HugeGraph server status'', ''Verify the request format''] dur op)"

fun exc_text :: "hg_exception \<Rightarrow> string" where
  "exc_text (NotAuthorizedError m) = (if m = [] then ''NotAuthorizedError'' else m)"
| "exc_text (NotFoundError m) = (if m = [] then ''NotFoundError'' else m)"
| "exc_text (InvalidParameterError m) = (if m = [] then ''InvalidParameterError'' else m)"
| "exc_text (DataFormatError m) = (if m = [] then ''DataFormatError'' else m)"
| "exc_text (ServiceUnavailableError m) = (if m = [] then ''ServiceUnavailableError'' else m)"
| "exc_text (ResponseParseError m) = (if m = [] then ''ResponseParseError'' else m)"
| "exc_text (ServerError m) = (if m = [] then ''ServerError'' else m)"
| "exc_text (OtherError m) = m"

fun exc_message :: "hg_exception \<Rightarrow> string" where
  "exc_message (NotAuthorizedError m) = m"
| "exc_message (NotFoundError m) = m"
| "exc_message (InvalidParameterError m) = m"
| "exc_message (DataFormatError m) = m"
| "exc_message (ServiceUnavailableError m) = m"
| "exc_message (ResponseParseError m) = m"
| "exc_message (ServerError m) = m"
| "exc_message (OtherError m) = m"

definition unexpected_result :: "string \<Rightarrow> py \<Rightarrow> string \<Rightarrow> py_dict" where
  "unexpected_result m dur op =
     (let message = ''Unexpected error: '' @ m in
      if is_no_index_error (PStr message) then no_index_error_result message dur op
      else failed ''unknown_error'' message []
        [''Check HugeGraph server logs'', ''Verify the query format and parameters'',
         ''Try a simpler query to test connectivity''] dur op)"

definition client_error_result :: "hg_exception \<Rightarrow> py \<Rightarrow> string \<Rightarrow> py_dict" where
  "client_error_result e dur op =
     (case e of
        OtherError m \<Rightarrow> unexpected_result m dur op
      | _ \<Rightarrow>
        if (case e of InvalidParameterError _ \<Rightarrow> True | DataFormatError _ \<Rightarrow> True | _ \<Rightarrow> False) then
          [(''success'', PBool False), (''error_type'', PStr ''query_syntax_error''), (''message'', PStr (exc_text e)),
           (''suggestions'', strings [''Check the Gremlin query syntax and parameters.'']), (''retryable'', PBool False),
           (''duration_ms'', dur), (''operation_type'', PStr op)]
        else let c = classify_hugegraph_exception e in
          if ec_type c = NO_INDEX then no_index_error_result (exc_message e) dur op
          else [(''success'', PBool False), (''error_type'', PStr (error_value (ec_type c))),
            (''reason'', PStr (ec_reason c)), (''message'', PStr (exc_text e)), (''suggestions'', strings [ec_suggestion c]),
            (''retryable'', PBool (ec_retryable c)), (''duration_ms'', dur), (''operation_type'', PStr op)])"

text \<open>
  \<open>_execute_gremlin_with_error_handling\<close> after the call: \<open>addr\<close> is the address of the client, \<open>dur\<close> the
  measured time.
\<close>

definition outcome_result :: "string \<Rightarrow> py \<Rightarrow> string \<Rightarrow> outcome \<Rightarrow> py_dict" where
  "outcome_result addr dur op out = (case out of
      Returned data \<Rightarrow> [(''success'', PBool True), (''data'', data), (''count'', PInt (gremlin_result_count data)),
        (''duration_ms'', dur), (''operation_type'', PStr op)]
    | Connection_Error \<Rightarrow> failed ''connection_error'' (''Cannot connect to HugeGraph server at '' @ addr) []
        [''Check if HugeGraph server is running'', ''Verify the HUGEGRAPH_URL environment variable'',
         ''Check network connectivity to the server''] dur op
    | Timeout_Error \<Rightarrow> failed ''timeout_error'' (''HugeGraph request timed out at '' @ addr) []
        [''Retry the request after checking HugeGraph server health'',
         ''Verify the query is bounded and can complete within the client timeout'',
         ''Check network latency to the server''] dur op
    | Http_Error resp \<Rightarrow> http_error_result resp dur op
    | Client_Error e \<Rightarrow> client_error_result e dur op
    | Value_Error m \<Rightarrow> failed ''query_syntax_error'' (''Gremlin query syntax error: '' @ m) []
        [''Check Gremlin query syntax'', ''Verify all steps and parameters are valid'',
         ''Ensure proper use of Gremlin traversal steps''] dur op
    | Other_Error m \<Rightarrow> unexpected_result m dur op)"

section \<open>Answers\<close>

text \<open>A response with the keyword arguments that only these tools pass.\<close>

record answer =
  an_response :: response
  an_retryable :: bool
  an_warnings :: "string list"

definition plain_answer :: "response \<Rightarrow> answer" where
  "plain_answer r = \<lparr>an_response = r, an_retryable = False, an_warnings = []\<rparr>"

definition GREMLIN_ERROR_TYPE_MAP :: "(string \<times> ErrorType) list" where
  "GREMLIN_ERROR_TYPE_MAP =
     [(''connection_error'', CONNECTION_FAILED), (''timeout_error'', TIMEOUT),
      (''authentication_error'', AUTHENTICATION_FAILED), (''authorization_error'', AUTHORIZATION_FAILED),
      (''no_index_error'', NO_INDEX), (''query_syntax_error'', QUERY_SYNTAX_ERROR), (''server_error'', SERVER_ERROR),
      (''http_error'', SERVER_ERROR), (''not_found_error'', NOT_FOUND), (''unknown_error'', SERVER_ERROR)]
     @ map (\<lambda>t. (error_value t, t)) error_types"

definition gremlin_error_type :: "py \<Rightarrow> ErrorType" where
  "gremlin_error_type v = (case v of PStr s \<Rightarrow> (case map_of GREMLIN_ERROR_TYPE_MAP s of Some t \<Rightarrow> t | None \<Rightarrow> SERVER_ERROR)
     | _ \<Rightarrow> SERVER_ERROR)"

definition gremlin_error_retryable :: "py_dict \<Rightarrow> bool" where
  "gremlin_error_retryable result =
     (let kind = dget result ''error_type'' in
      if has_key result ''retryable'' then truthy (dget result ''retryable'')
      else if kind = PStr ''connection_error'' \<or> kind = PStr ''timeout_error'' then True
      else if kind \<noteq> PStr ''server_error'' \<and> kind \<noteq> PStr ''http_error'' then False
      else case py_int (dget result ''status_code'') of
          Inl e \<Rightarrow> kind = PStr ''server_error''
        | Inr n \<Rightarrow> n \<in> {500, 502, 503, 504})"

definition suggestion_text :: "py \<Rightarrow> string option" where
  "suggestion_text v = (case v of PList (x # xs) \<Rightarrow> Some (join ''; '' (map py_str (x # xs))) | _ \<Rightarrow> None)"

definition gremlin_error_envelope :: "py_dict \<Rightarrow> answer" where
  "gremlin_error_envelope result =
     \<lparr>an_response = envelope_err (gremlin_error_type (dget result ''error_type''))
        (case map_of result ''message'' of Some v \<Rightarrow> py_str v | None \<Rightarrow> ''Gremlin query failed'')
        (suggestion_text (dget result ''suggestions'')) (PDict result),
      an_retryable = gremlin_error_retryable result, an_warnings = []\<rparr>"

section \<open>The output guard\<close>

definition exceeded_limits :: "MCPConfig \<Rightarrow> int option \<Rightarrow> py \<Rightarrow> int \<Rightarrow> string list" where
  "exceeded_limits cfg max_items data count =
     (let limit = (case max_items of None \<Rightarrow> cfg_max_result_items cfg | Some m \<Rightarrow> min (cfg_max_result_items cfg) m)
      in (if count > limit then [''max_result_items''] else []) @
         (if gremlin_result_byte_size data > cfg_max_result_bytes cfg then [''max_result_bytes''] else []))"

definition gremlin_output_guard_error :: "MCPConfig \<Rightarrow> py \<Rightarrow> int \<Rightarrow> int option \<Rightarrow> string \<Rightarrow> response option" where
  "gremlin_output_guard_error cfg data count max_items result_name =
     (let exceeded = exceeded_limits cfg max_items data count;
          limit = (case max_items of None \<Rightarrow> cfg_max_result_items cfg | Some m \<Rightarrow> min (cfg_max_result_items cfg) m)
      in if exceeded = [] then None
         else Some (envelope_err VALIDATION_ERROR
           (result_name @ '' result exceeds the configured post-materialization output guard.'')
           (Some ''Use a smaller limit or return fewer/smaller properties.'')
           (PDict [(''truncated'', PBool False), (''guard_type'', PStr ''post_materialization_output_guard''),
              (''hard_budget'', PBool False), (''exceeded'', strings exceeded), (''result_items'', PInt count),
              (''max_result_items'', PInt limit), (''result_bytes'', PInt (gremlin_result_byte_size data)),
              (''max_result_bytes'', PInt (cfg_max_result_bytes cfg))])))"

section \<open>Reading\<close>

definition LIMIT_POLICIES :: "string list" where
  "LIMIT_POLICIES = [''warn'', ''reject_unbounded'', ''auto_append'']"

definition has_unbounded_warning :: "string list \<Rightarrow> bool" where
  "has_unbounded_warning ws = list_ex (\<lambda>w. contains w ''Unbounded traversal'') ws"

definition auto_append_limit :: "string \<Rightarrow> string option" where
  "auto_append_limit query =
     (let s = strip query; low = lower s in
      if \<not> ends_with s '')'' then None
      else if list_ex (contains low) [''.group('', ''.path('', ''.profile('', ''.repeat(''] then None
      else Some (s @ ''.limit(100)''))"

text \<open>
  The surroundings of a call: the configuration, the variable with the repeat threshold, the client's
  address, the measured time, and the read and the write client as functions on the backend.
\<close>

record 'b gateway =
  gw_cfg :: MCPConfig
  gw_threshold :: "string option"
  gw_address :: string
  gw_duration :: py
  gw_read :: "string \<Rightarrow> 'b \<Rightarrow> outcome \<times> 'b"
  gw_write :: "string \<Rightarrow> 'b \<Rightarrow> outcome \<times> 'b"

definition execute_with_error_handling ::
  "'b gateway \<Rightarrow> (string \<Rightarrow> 'b \<Rightarrow> outcome \<times> 'b) \<Rightarrow> string \<Rightarrow> string \<Rightarrow> 'b \<Rightarrow> py_dict \<times> 'b" where
  "execute_with_error_handling g exec query op b =
     (let (out, b') = exec query b in (outcome_result (gw_address g) (gw_duration g) op out, b'))"

definition safety_text :: "GremlinSafety \<Rightarrow> string" where
  "safety_text s = (case s of safe \<Rightarrow> ''safe'' | unsafe \<Rightarrow> ''unsafe'' | uncertain \<Rightarrow> ''uncertain'')"

definition send_read :: "'b gateway \<Rightarrow> string \<Rightarrow> string \<Rightarrow> string \<Rightarrow> py \<Rightarrow> string list \<Rightarrow> 'b \<Rightarrow> answer \<times> 'b" where
  "send_read g policy original query reason warnings b =
     (let (result, b') = execute_with_error_handling g (gw_read g) query ''read'' b in
      if truthy (dget result ''success'') then
        (let data = dget result ''data'';
             count = (case dget result ''count'' of PInt n \<Rightarrow> n | _ \<Rightarrow> 0)
         in (case gremlin_output_guard_error (gw_cfg g) data count None ''Gremlin'' of
              Some err \<Rightarrow> plain_answer err
            | None \<Rightarrow> \<lparr>an_response = envelope_ok (PDict [(''data'', data), (''total'', PInt count),
                (''duration_ms'', dget result ''duration_ms''), (''is_read'', PBool True),
                (''limit_policy'', PStr policy), (''original_gremlin'', PStr original),
                (''executed_gremlin'', PStr query), (''rewrite_reason'', reason)]),
                an_retryable = False, an_warnings = warnings\<rparr>, b'))
      else (gremlin_error_envelope result, b'))"

definition execute_gremlin_read :: "'b gateway \<Rightarrow> string \<Rightarrow> string \<Rightarrow> 'b \<Rightarrow> answer \<times> 'b" where
  "execute_gremlin_read g policy query b =
     (let decision = check_read query;
          warnings = gremlin_cost_warnings (gw_threshold g) query;
          unbounded = has_unbounded_warning warnings;
          refuse = (\<lambda>message suggestion. (\<lparr>an_response = envelope_err VALIDATION_ERROR message (Some suggestion)
            (PDict [(''gremlin_query'', PStr query), (''warnings'', strings warnings)]),
            an_retryable = False, an_warnings = warnings\<rparr>, b))
      in if policy \<notin> set LIMIT_POLICIES then
           (plain_answer (envelope_err VALIDATION_ERROR (''Unsupported limit_policy: '' @ repr_str policy @ ''.'')
              (Some ''Use one of: warn, reject_unbounded, auto_append.'')
              (PDict [(''limit_policy'', PStr policy)])), b)
         else if \<not> gd_allowed decision then
           (plain_answer (envelope_err UNSAFE_GREMLIN (gd_reason decision) (gd_suggestion decision)
              (PDict [(''classification'', PStr (safety_text (gd_classification decision)))])), b)
         else if policy = ''reject_unbounded'' \<and> unbounded then
           refuse ''Gremlin read query is unbounded and limit_policy='reject_unbounded'.''
             ''Add .limit(n) or .range(start, end), or use limit_policy='warn'.''
         else if policy = ''auto_append'' \<and> unbounded then
           (case auto_append_limit query of
              None \<Rightarrow> refuse ''Cannot safely auto-append limit to this Gremlin query.''
                ''Add an explicit .limit(n) yourself, or use limit_policy='warn'.''
            | Some rewritten \<Rightarrow> send_read g policy query rewritten
                (PStr ''limit_policy='auto_append' added .limit(100) to an unbounded read traversal.'')
                (gremlin_cost_warnings (gw_threshold g) rewritten) b)
         else send_read g policy query query PNone warnings b)"

section \<open>Writing\<close>

definition execute_gremlin_write :: "'b gateway \<Rightarrow> Capability \<Rightarrow> string \<Rightarrow> 'b \<Rightarrow> answer \<times> 'b" where
  "execute_gremlin_write g capability query b =
     (case guard capability (gw_cfg g) of
        Some violation \<Rightarrow> (plain_answer violation, b)
      | None \<Rightarrow>
        let (result, b') = execute_with_error_handling g (gw_write g) query ''write'' b in
        if truthy (dget result ''success'') then
          (plain_answer (envelope_ok (PDict [(''affected'', dget result ''count''),
             (''duration_ms'', dget result ''duration_ms''), (''is_write'', PBool True)])), b')
        else (gremlin_error_envelope result, b'))"

section \<open>What is sent\<close>

lemma send_read_backend: "snd (send_read g policy original query reason ws b) = snd (gw_read g query b)"
  by (simp add: send_read_def execute_with_error_handling_def Let_def split_def)

lemma read_cases:
  assumes "execute_gremlin_read g policy query b = (ans, b')"
  obtains (refused) "\<not> is_ok (an_response ans)" "b' = b"
  | (sent) q reason ws where "send_read g policy query q reason ws b = (ans, b')" "is_safe_gremlin_read query"
      "policy \<in> set LIMIT_POLICIES" "q = query \<or> policy = ''auto_append'' \<and> q = strip query @ ''.limit(100)''"
proof -
  have allowed: "gd_allowed (check_read query) \<longleftrightarrow> is_safe_gremlin_read query"
    by (simp add: check_read_def is_safe_gremlin_read_def split: GremlinSafety.split)
  have rewritten: "auto_append_limit query = Some r \<Longrightarrow> r = strip query @ ''.limit(100)''" for r
    by (simp add: auto_append_limit_def Let_def split: if_splits)
  let ?ws = "gremlin_cost_warnings (gw_threshold g) query"
  let ?unb = "has_unbounded_warning ?ws"
  note e = assms [unfolded execute_gremlin_read_def Let_def allowed]
  show thesis
  proof (cases "policy \<in> set LIMIT_POLICIES \<and> is_safe_gremlin_read query \<and> \<not> (policy = ''reject_unbounded'' \<and> ?unb)")
    case False
    with e have "\<not> is_ok (an_response ans) \<and> b' = b" by (auto simp: plain_answer_def split: if_splits)
    then show thesis using refused by blast
  next
    case ok: True
    show thesis
    proof (cases "policy = ''auto_append'' \<and> ?unb")
      case False
      then have "send_read g policy query query PNone ?ws b = (ans, b')" using ok e by (simp split: if_splits)
      then show thesis using ok sent by blast
    next
      case app: True
      show thesis
      proof (cases "auto_append_limit query")
        case None
        then have "\<not> is_ok (an_response ans) \<and> b' = b" using app ok e by auto
        then show thesis using refused by blast
      next
        case (Some r)
        then show thesis using app ok e sent rewritten [OF Some] by simp
      qed
    qed
  qed
qed

text \<open>C23. The read tool sends at most one query: a query that the policy calls safe, as it was given or,
  under the policy that appends a limit, stripped and with the limit behind it. A refused query
  leaves the backend untouched.\<close>

theorem read_sends_safe_query:
  assumes "execute_gremlin_read g policy query b = (ans, b')"
  shows "b' = b \<or> is_safe_gremlin_read query \<and> policy \<in> set LIMIT_POLICIES \<and>
    (b' = snd (gw_read g query b) \<or>
     policy = ''auto_append'' \<and> b' = snd (gw_read g (strip query @ ''.limit(100)'') b))"
  using assms
proof (cases rule: read_cases)
  case (sent q reason ws)
  then have "b' = snd (gw_read g q b)" using send_read_backend by (metis snd_conv)
  then show ?thesis using sent by blast
qed simp

text \<open>In read-only mode, or on a store that is not safe for several writers, the write tool never
  reaches the backend; otherwise it sends the query exactly once.\<close>

theorem write_needs_guard:
  "snd (execute_gremlin_write g c query b) = (if guard c (gw_cfg g) = None then snd (gw_write g query b) else b)"
  by (simp add: execute_gremlin_write_def execute_with_error_handling_def Let_def split_def split: option.split)

text \<open>A successful read is within the configured limits: at most \<open>max_result_items\<close> items and
  \<open>max_result_bytes\<close> bytes of JSON text.\<close>

theorem read_result_bounded:
  assumes "execute_gremlin_read g policy query b = (ans, b')" "an_response ans = envelope_ok (PDict d)"
  shows "\<exists>n. dget d ''total'' = PInt n \<and> n \<le> cfg_max_result_items (gw_cfg g) \<and>
    gremlin_result_byte_size (dget d ''data'') \<le> cfg_max_result_bytes (gw_cfg g)"
proof -
  have bounded: "\<exists>n. dget d ''total'' = PInt n \<and> n \<le> cfg_max_result_items (gw_cfg g) \<and>
    gremlin_result_byte_size (dget d ''data'') \<le> cfg_max_result_bytes (gw_cfg g)"
    if "an_response (fst (send_read g policy original q reason ws b)) = envelope_ok (PDict d)" for original q reason ws
    using that
    by (auto simp: send_read_def execute_with_error_handling_def Let_def split_def gremlin_error_envelope_def
        gremlin_output_guard_error_def exceeded_limits_def plain_answer_def dget_def split: if_splits option.splits)
  show ?thesis
    using assms(1)
  proof (cases rule: read_cases)
    case refused
    then show ?thesis using assms(2) by simp
  next
    case (sent q reason ws)
    then show ?thesis using bounded [of query q reason ws] assms(2) by simp
  qed
qed

section \<open>Concrete calls\<close>

text \<open>A gateway whose backend is the list of the queries it received and always returns one element.\<close>

definition demo_gateway :: "string list gateway" where
  "demo_gateway = \<lparr>gw_cfg = parse_env (\<lambda>_. None) demo_env, gw_threshold = None, gw_address = ''host'',
     gw_duration = PInt 1, gw_read = (\<lambda>q b. (Returned (PDict [(''data'', PList [PInt 7])]), b @ [q])),
     gw_write = (\<lambda>q b. (Returned PNone, b @ [q]))\<rparr>"

theorem read_sends_safe_query_witness:
  "snd (execute_gremlin_read demo_gateway ''warn'' ''g.V().drop()'' []) = [] \<and>
   snd (execute_gremlin_read demo_gateway ''auto_append'' ''g.V() '' []) = [''g.V().limit(100)'']"
proof -
  have u: "\<not> is_safe_gremlin_read ''g.V().drop()''" by code_simp
  have "snd (execute_gremlin_read demo_gateway ''auto_append'' ''g.V() '' []) = [''g.V().limit(100)'']" by code_simp
  then show ?thesis using read_sends_safe_query [OF prod.collapse [symmetric], of demo_gateway "''warn''" "''g.V().drop()''" "[]"] u by blast
qed

theorem read_result_bounded_witness:
  "\<exists>d. an_response (fst (execute_gremlin_read demo_gateway ''warn'' ''g.V().limit(1)'' [])) = envelope_ok (PDict d) \<and>
     gremlin_result_byte_size (dget d ''data'') \<le> cfg_max_result_bytes (gw_cfg demo_gateway)"
proof -
  let ?ans = "fst (execute_gremlin_read demo_gateway ''warn'' ''g.V().limit(1)'' [])"
  have "is_ok (an_response ?ans)" by code_simp
  moreover have "case an_response ?ans of envelope_ok (PDict d) \<Rightarrow> True | _ \<Rightarrow> False" by code_simp
  ultimately obtain d where d: "an_response ?ans = envelope_ok (PDict d)"
    by (auto split: response.splits py.splits)
  then show ?thesis using read_result_bounded [OF prod.collapse [symmetric] d] by blast
qed

section \<open>Where the code falls short\<close>

text \<open>A query whose closing bracket stands in a comment: the appended limit becomes part of the comment,
  and the query that is sent is still unbounded.\<close>

definition commented_query :: string where
  "commented_query = ''g.V() // (all)''"

theorem auto_append_into_comment:
  "snd (execute_gremlin_read demo_gateway ''auto_append'' commented_query []) = [commented_query @ ''.limit(100)''] \<and>
   has_unbounded_warning (gremlin_cost_warnings None (commented_query @ ''.limit(100)''))"
  by code_simp

text \<open>The status of an HTTP error is never looked at: a response with an error status is false in a
  boolean context, so the handler reports an unknown status whatever the server said, and such an error
  is never retryable.\<close>

theorem http_status_unknown:
  assumes "rp_truth r \<longleftrightarrow> \<not> rp_raises r" "rp_raises r"
  shows "dget (outcome_result addr dur op (Http_Error (Some r))) ''error_type'' = PStr ''http_error'' \<and>
    dget (outcome_result addr dur op (Http_Error (Some r))) ''status_code'' = PStr ''unknown'' \<and>
    \<not> gremlin_error_retryable (outcome_result addr dur op (Http_Error (Some r)))"
proof -
  have "http_status (Some r) = None" using assms by (simp add: http_status_def)
  then have r: "outcome_result addr dur op (Http_Error (Some r)) = failed ''http_error'' (''HTTP error '' @ ''unknown'')
      [(''status_code'', PStr ''unknown'')] [''Check HugeGraph server status'', ''Verify the request format''] dur op"
    by (simp add: outcome_result_def http_error_result_def Let_def status_py_def)
  have "py_int (PStr ''unknown'') = Inl (ValueError ''invalid literal for int()'')" by code_simp
  then show ?thesis
    by (simp add: r failed_def dget_def gremlin_error_retryable_def has_key_def Let_def)
qed

definition busy_reply :: http_reply where
  "busy_reply = \<lparr>rp_status = 503, rp_text = ''busy'', rp_content = ''busy'', rp_json = None, rp_raises = True, rp_truth = False\<rparr>"

theorem http_status_unknown_witness:
  "\<not> gremlin_error_retryable (outcome_result ''host'' (PInt 1) ''read'' (Http_Error (Some busy_reply)))"
  using http_status_unknown [of busy_reply] by (simp add: busy_reply_def)

end
