(* ===== verification/Gremlin_Trace.thy ===== *)
theory Gremlin_Trace
  imports Gremlin_Tools
begin

text \<open>
  What the modules on top of the Gremlin tools share: the loop that takes the data out of an answer, and
  traced surroundings, in which every query that is sent is written down, so that a theorem can say what
  a computation sends.
\<close>

section \<open>The data of an answer\<close>

text \<open>The loop that takes \<open>data\<close> out of nested results.\<close>

lemma map_of_size: "map_of d k = Some v \<Longrightarrow> size v < size_list (size_prod (\<lambda>_. 0) size) d"
  by (induction d) (auto split: if_splits)

function unwrap_data :: "py \<Rightarrow> py" where
  "unwrap_data v = (case v of
      PDict d \<Rightarrow> (case map_of d ''data'' of Some w \<Rightarrow> unwrap_data w | None \<Rightarrow> v)
    | _ \<Rightarrow> v)"
  by pat_completeness auto
termination
  by (relation "measure size") (auto dest: map_of_size)

declare unwrap_data.simps [simp del]

section \<open>Traces\<close>

datatype graph_call = Sent_Read string | Sent_Write string

definition traced_call :: "(string \<Rightarrow> graph_call) \<Rightarrow> (string \<Rightarrow> 'b \<Rightarrow> outcome \<times> 'b) \<Rightarrow> string
    \<Rightarrow> 'b \<times> graph_call list \<Rightarrow> outcome \<times> 'b \<times> graph_call list" where
  "traced_call tag f q = (\<lambda>(b, l). (fst (f q b), snd (f q b), l @ [tag q]))"

definition traced_gateway :: "'b gateway \<Rightarrow> ('b \<times> graph_call list) gateway" where
  "traced_gateway g = \<lparr>gw_cfg = gw_cfg g, gw_threshold = gw_threshold g, gw_address = gw_address g, gw_duration = gw_duration g,
     gw_read = traced_call Sent_Read (gw_read g), gw_write = traced_call Sent_Write (gw_write g)\<rparr>"

lemma traced_gateway_simps [simp]:
  "gw_cfg (traced_gateway g) = gw_cfg g"
  "gw_read (traced_gateway g) = traced_call Sent_Read (gw_read g)"
  "gw_write (traced_gateway g) = traced_call Sent_Write (gw_write g)"
  by (simp_all add: traced_gateway_def)

lemma traced_call_trace: "snd (snd (traced_call tag f q bl)) = snd bl @ [tag q]"
  by (simp add: traced_call_def split_def)

text \<open>A computation that sends only queries that the policy calls safe, and no write.\<close>

definition reads_only :: "('b \<times> graph_call list \<Rightarrow> 'a \<times> 'b \<times> graph_call list) \<Rightarrow> bool" where
  "reads_only m \<longleftrightarrow> (\<forall>bl. \<exists>qs. snd (snd (m bl)) = snd bl @ map Sent_Read qs \<and> list_all is_safe_gremlin_read qs)"

lemma reads_only_pure: "reads_only (\<lambda>b. (r, b))"
  unfolding reads_only_def by (auto intro: exI [of _ "[]"])

lemma reads_only_lift [intro]: "reads_only (st_lift r)"
  unfolding reads_only_def st_lift_def by (auto intro: exI [of _ "[]"])

lemma reads_only_map:
  assumes "reads_only m"
  shows "reads_only (\<lambda>bl. let (x, bl') = m bl in (f x, bl'))"
  using assms by (simp add: reads_only_def split_def Let_def)

lemma reads_only_tail:
  assumes "m bl = (r, bl')" "\<And>x. reads_only (f x)"
  shows "\<exists>qs. snd (snd (st_then m f bl)) = snd bl' @ map Sent_Read qs \<and> list_all is_safe_gremlin_read qs"
proof (cases r)
  case (Inl e)
  then show ?thesis using assms(1) by (auto simp: st_then_def intro: exI [of _ "[]"])
next
  case (Inr x)
  then show ?thesis using assms(1) assms(2) [of x, unfolded reads_only_def, rule_format, of bl'] by (simp add: st_then_def)
qed

lemma reads_only_then [intro]:
  assumes "reads_only m" "\<And>x. reads_only (f x)"
  shows "reads_only (st_then m f)"
  unfolding reads_only_def
proof
  fix bl
  obtain r bl' where mb: "m bl = (r, bl')" by (cases "m bl") blast
  with assms(1) obtain qs where qs: "snd bl' = snd bl @ map Sent_Read qs" "list_all is_safe_gremlin_read qs"
    unfolding reads_only_def by (metis snd_conv)
  obtain qs' where "snd (snd (st_then m f bl)) = snd bl' @ map Sent_Read qs'" "list_all is_safe_gremlin_read qs'"
    using reads_only_tail [of m bl r bl' f, OF mb] assms(2) by blast
  then show "\<exists>qs. snd (snd (st_then m f bl)) = snd bl @ map Sent_Read qs \<and> list_all is_safe_gremlin_read qs"
    using qs by (intro exI [of _ "qs @ qs'"]) simp
qed

lemma reads_only_execute [intro]: "reads_only (execute_gremlin_read (traced_gateway g) ''warn'' q)"
  unfolding reads_only_def
proof
  fix bl
  obtain ans bl' where e: "execute_gremlin_read (traced_gateway g) ''warn'' q bl = (ans, bl')"
    by (cases "execute_gremlin_read (traced_gateway g) ''warn'' q bl") blast
  have "\<exists>qs. snd bl' = snd bl @ map Sent_Read qs \<and> list_all is_safe_gremlin_read qs"
    using e
  proof (cases rule: read_cases)
    case refused
    then show ?thesis by (auto intro: exI [of _ "[]"])
  next
    case (sent q' reason ws)
    then have "q' = q" by simp
    moreover have "bl' = snd (traced_call Sent_Read (gw_read g) q' bl)"
      using sent(1) send_read_backend traced_gateway_simps(2) by (metis snd_conv)
    ultimately show ?thesis using sent(2) by (intro exI [of _ "[q]"]) (simp add: traced_call_trace)
  qed
  then show "\<exists>qs. snd (snd (execute_gremlin_read (traced_gateway g) ''warn'' q bl)) = snd bl @ map Sent_Read qs \<and>
      list_all is_safe_gremlin_read qs"
    by (simp add: e)
qed

text \<open>A computation that reads, writes at most once, a query with the property \<open>P\<close>, and reads again.\<close>

definition look_write_look :: "(string \<Rightarrow> bool) \<Rightarrow> graph_call list \<Rightarrow> bool" where
  "look_write_look P calls \<longleftrightarrow> (\<exists>before ws again. calls = map Sent_Read before @ map Sent_Write ws @ map Sent_Read again \<and>
     list_all is_safe_gremlin_read (before @ again) \<and> (ws = [] \<or> (\<exists>q. ws = [q] \<and> P q)))"

definition writes_once :: "(string \<Rightarrow> bool) \<Rightarrow> ('b \<times> graph_call list \<Rightarrow> 'a \<times> 'b \<times> graph_call list) \<Rightarrow> bool" where
  "writes_once P m \<longleftrightarrow> (\<forall>bl. \<exists>calls. snd (snd (m bl)) = snd bl @ calls \<and> look_write_look P calls)"

lemma look_write_look_reads [intro]: "list_all is_safe_gremlin_read qs \<Longrightarrow> look_write_look P (map Sent_Read qs)"
  unfolding look_write_look_def by (intro exI [of _ qs] exI [of _ "[]"]) simp

lemma look_write_look_append:
  assumes "look_write_look P calls" "list_all is_safe_gremlin_read qs"
  shows "look_write_look P (calls @ map Sent_Read qs)" "look_write_look P (map Sent_Read qs @ calls)"
proof -
  obtain before ws again where t: "calls = map Sent_Read before @ map Sent_Write ws @ map Sent_Read again"
      "list_all is_safe_gremlin_read (before @ again)" "ws = [] \<or> (\<exists>q. ws = [q] \<and> P q)"
    using assms(1) unfolding look_write_look_def by blast
  show "look_write_look P (calls @ map Sent_Read qs)" unfolding look_write_look_def
    using t assms(2) by (intro exI [of _ before] exI [of _ ws] exI [of _ "again @ qs"]) simp
  show "look_write_look P (map Sent_Read qs @ calls)" unfolding look_write_look_def
    using t assms(2) by (intro exI [of _ "qs @ before"] exI [of _ ws] exI [of _ again]) simp
qed

lemma writes_once_reads: "reads_only m \<Longrightarrow> writes_once P m"
  unfolding reads_only_def writes_once_def by blast

lemma writes_once_lift [intro]: "writes_once P (st_lift r)"
  by (simp add: writes_once_reads reads_only_lift)

lemma writes_once_map:
  assumes "writes_once P m"
  shows "writes_once P (\<lambda>bl. let (x, bl') = m bl in (f x, bl'))"
  using assms by (simp add: writes_once_def split_def Let_def)

lemma writes_once_then_reads:
  assumes "writes_once P m" "\<And>x. reads_only (f x)"
  shows "writes_once P (st_then m f)"
  unfolding writes_once_def
proof
  fix bl
  obtain r bl' where mb: "m bl = (r, bl')" by (cases "m bl") blast
  with assms(1) obtain calls where t: "snd bl' = snd bl @ calls" "look_write_look P calls"
    unfolding writes_once_def by (metis snd_conv)
  obtain qs where "snd (snd (st_then m f bl)) = snd bl' @ map Sent_Read qs" "list_all is_safe_gremlin_read qs"
    using reads_only_tail [of m bl r bl' f, OF mb] assms(2) by blast
  then show "\<exists>calls. snd (snd (st_then m f bl)) = snd bl @ calls \<and> look_write_look P calls"
    using t look_write_look_append(1) by fastforce
qed

lemma writes_once_after_reads:
  assumes "reads_only m" "\<And>x. writes_once P (f x)"
  shows "writes_once P (st_then m f)"
  unfolding writes_once_def
proof
  fix bl
  obtain r bl' where mb: "m bl = (r, bl')" by (cases "m bl") blast
  with assms(1) obtain qs where qs: "snd bl' = snd bl @ map Sent_Read qs" "list_all is_safe_gremlin_read qs"
    unfolding reads_only_def by (metis snd_conv)
  have "\<exists>calls. snd (snd (st_then m f bl)) = snd bl' @ calls \<and> look_write_look P calls"
  proof (cases r)
    case (Inl e)
    then show ?thesis using mb look_write_look_reads [of "[]" P] by (auto simp: st_then_def)
  next
    case (Inr x)
    then show ?thesis using assms(2) [of x, unfolded writes_once_def, rule_format, of bl'] mb by (simp add: st_then_def)
  qed
  then show "\<exists>calls. snd (snd (st_then m f bl)) = snd bl @ calls \<and> look_write_look P calls"
    using qs look_write_look_append(2) by fastforce
qed

lemma writes_once_execute:
  assumes "guard c (gw_cfg g) = None \<Longrightarrow> P q"
  shows "writes_once P (execute_gremlin_write (traced_gateway g) c q)"
  unfolding writes_once_def
proof
  fix bl
  let ?ws = "if guard c (gw_cfg g) = None then [q] else []"
  have "snd (snd (execute_gremlin_write (traced_gateway g) c q bl)) = snd bl @ map Sent_Write ?ws"
    by (simp add: execute_gremlin_write_def execute_with_error_handling_def Let_def split_def traced_call_trace
        split: option.split)
  moreover have "look_write_look P (map Sent_Write ?ws)"
    unfolding look_write_look_def using assms by (intro exI [of _ "[]"] exI [of _ ?ws]) auto
  ultimately show "\<exists>calls. snd (snd (execute_gremlin_write (traced_gateway g) c q bl)) = snd bl @ calls \<and> look_write_look P calls"
    by blast
qed

end
