(* ===== verification/Gremlin_Text.thy ===== *)
theory Gremlin_Text
  imports Gremlin_Policy Json_Text
begin

text \<open>
  Model of \<open>hugegraph_mcp/tools/graph_data_gremlin.py\<close>: Groovy literals and the Gremlin texts of the
  graph writes and of the reads around them. The lemmas run the scanner of \<open>Gremlin_Policy\<close> over the
  generated texts: a literal is always exactly the tokens of its value, so no value can add a step.
\<close>

section \<open>Literals\<close>

definition groovy_char :: "char \<Rightarrow> string" where
  "groovy_char c =
     (if c = CHR 0x5C then [CHR 0x5C, CHR 0x5C]
      else if c = CHR 0x27 then [CHR 0x5C, CHR 0x27]
      else if code c = 10 then [CHR 0x5C, CHR ''n'']
      else if code c = 13 then [CHR 0x5C, CHR ''r'']
      else if code c = 9 then [CHR 0x5C, CHR ''t'']
      else if code c = 8 then [CHR 0x5C, CHR ''b'']
      else if code c = 12 then [CHR 0x5C, CHR ''f'']
      else if code c < 32 then CHR 0x5C # CHR ''u'' # hex4 (code c)
      else [c])"

definition escape_groovy_single_quoted :: "string \<Rightarrow> string" where
  "escape_groovy_single_quoted s = concat (map groovy_char s)"

definition groovy_string :: "string \<Rightarrow> string" where
  "groovy_string s = [CHR 0x27] @ escape_groovy_single_quoted s @ [CHR 0x27]"

fun groovy :: "py \<Rightarrow> string" where
  "groovy (PStr s) = groovy_string s"
| "groovy (PDict d) =
     ''['' @ join '', '' (map (\<lambda>kv. groovy_string (fst kv) @ '': '' @ snd kv)
       (sort_key fst (map (\<lambda>kv. (fst kv, groovy (snd kv))) d))) @ '']''"
| "groovy (PList xs) = ''['' @ join '', '' (map groovy xs) @ '']''"
| "groovy (PTuple xs) = ''['' @ join '', '' (map groovy xs) @ '']''"
| "groovy v = sorted_json v"

section \<open>Match steps\<close>

fun has_step :: "string \<times> py \<Rightarrow> string" where
  "has_step (k, v) = (if k = ''id'' then ''.hasId('' @ groovy v @ '')''
     else ''.has('' @ groovy_string k @ '','' @ groovy v @ '')'')"

definition has_steps :: "py_dict \<Rightarrow> string" where
  "has_steps match = concat (map has_step match)"

definition endpoint_label :: "string \<Rightarrow> string \<Rightarrow> py_dict \<Rightarrow> py" where
  "endpoint_label k k' operation = py_or (dget operation k) (dget operation k')"

definition match_steps :: "py_dict \<Rightarrow> string \<Rightarrow> string res" where
  "match_steps operation k = and_then (key_val operation k) (\<lambda>v. and_then (py_items v) (\<lambda>m. Inr (has_steps m)))"

definition vertex_match_query :: "py_dict \<Rightarrow> string res" where
  "vertex_match_query operation =
     and_then (key_val operation ''label'') (\<lambda>l.
     and_then (match_steps operation ''match'') (\<lambda>m.
       Inr (''g.V().hasLabel('' @ groovy l @ '')'' @ m)))"

definition edge_match_query :: "py_dict \<Rightarrow> string res" where
  "edge_match_query operation =
     and_then (match_steps operation ''source_match'') (\<lambda>sm.
     and_then (key_val operation ''label'') (\<lambda>l.
     and_then (match_steps operation ''target_match'') (\<lambda>tm.
       Inr (''g.V().hasLabel('' @ groovy (endpoint_label ''source_label'' ''outVLabel'' operation) @ '')'' @ sm
         @ ''.outE('' @ groovy l @ '')''
         @ ''.where(inV().hasLabel('' @ groovy (endpoint_label ''target_label'' ''inVLabel'' operation) @ '')''
         @ tm @ '')''))))"

definition source_vertex_match_query :: "py_dict \<Rightarrow> string res" where
  "source_vertex_match_query operation =
     and_then (match_steps operation ''source_match'') (\<lambda>m.
       Inr (''g.V().hasLabel('' @ groovy (endpoint_label ''source_label'' ''outVLabel'' operation) @ '')'' @ m))"

definition target_vertex_match_query :: "py_dict \<Rightarrow> string res" where
  "target_vertex_match_query operation =
     and_then (match_steps operation ''target_match'') (\<lambda>m.
       Inr (''g.V().hasLabel('' @ groovy (endpoint_label ''target_label'' ''inVLabel'' operation) @ '')'' @ m))"

section \<open>Writes\<close>

fun property_step :: "string \<times> py \<Rightarrow> string" where
  "property_step (k, v) = ''.property('' @ groovy_string k @ '','' @ groovy v @ '')''"

definition property_steps :: "py_dict \<Rightarrow> string" where
  "property_steps ps = concat (map property_step ps)"

definition id_step :: "py \<Rightarrow> string" where
  "id_step v = (if none_or_empty v then [] else ''.property(T.id,'' @ groovy v @ '')'')"

definition create_vertex_query :: "py_dict \<Rightarrow> string res" where
  "create_vertex_query operation =
     and_then (key_val operation ''label'') (\<lambda>l.
     and_then (items_or_empty (dget operation ''properties'')) (\<lambda>ps.
       Inr (''g.addV('' @ groovy l @ '')'' @ id_step (dget operation ''id'') @ property_steps ps)))"

definition create_edge_query :: "py_dict \<Rightarrow> string res" where
  "create_edge_query operation =
     and_then (key_val operation ''source_id'') (\<lambda>s.
     and_then (key_val operation ''target_id'') (\<lambda>t.
     and_then (key_val operation ''label'') (\<lambda>l.
     and_then (items_or_empty (dget operation ''properties'')) (\<lambda>ps.
       Inr (''g.V('' @ groovy s @ '').as('' @ groovy_string ''s'' @ '').V('' @ groovy t @ '').addE('' @ groovy l
         @ '').from('' @ groovy_string ''s'' @ '')'' @ property_steps ps)))))"

text \<open>\<open>str(operation.get("op") or operation.get("type"))\<close>.\<close>

definition op_name :: "py_dict \<Rightarrow> string" where
  "op_name operation = py_str (py_or (dget operation ''op'') (dget operation ''type''))"

definition delete_target_query :: "py_dict \<Rightarrow> string res" where
  "delete_target_query operation =
     and_then (key_val operation ''target_id'') (\<lambda>t.
       if op_name operation = ''delete_vertex'' then Inr (''g.V('' @ groovy t @ '')'')
       else if op_name operation = ''delete_edge'' then Inr (''g.E('' @ groovy t @ '')'')
       else Inl (ValueError (''Unsupported delete op: '' @ op_name operation)))"

text \<open>\<open>operation.get("cascade", False) is False\<close>.\<close>

definition no_cascade :: "py_dict \<Rightarrow> bool" where
  "no_cascade operation = (case map_of operation ''cascade'' of None \<Rightarrow> True | Some v \<Rightarrow> v = PBool False)"

definition delete_vertex_query :: "py_dict \<Rightarrow> string res" where
  "delete_vertex_query operation =
     and_then (delete_target_query operation) (\<lambda>q.
       Inr (q @ (if no_cascade operation then ''.not(bothE())'' else []) @ ''.drop()''))"

definition delete_edge_query :: "py_dict \<Rightarrow> string res" where
  "delete_edge_query operation = and_then (delete_target_query operation) (\<lambda>q. Inr (q @ ''.drop()''))"

definition write_query :: "py_dict \<Rightarrow> string res" where
  "write_query operation =
     (let op = op_name operation in
      if op = ''create_vertex'' then create_vertex_query operation
      else if op = ''create_edge'' then create_edge_query operation
      else if op = ''delete_vertex'' then delete_vertex_query operation
      else if op = ''delete_edge'' then delete_edge_query operation
      else Inl (ValueError (''Unsupported op: '' @ op)))"

section \<open>Reading a literal back\<close>

text \<open>
  What Groovy makes of the text between single quotes: an escape stands for one character. The reader
  takes the text after the opening quote and returns the string and the text after the closing one.
\<close>

definition hex_value :: "char \<Rightarrow> nat" where
  "hex_value c = (if is_digit c then code c - 48 else code c - 87)"

function groovy_read :: "string \<Rightarrow> (string \<times> string) option" where
  "groovy_read [] = None"
| "groovy_read (c # s) =
     (if c = CHR 0x27 then Some ([], s)
      else if c \<noteq> CHR 0x5C then map_option (\<lambda>(v, r). (c # v, r)) (groovy_read s)
      else case s of [] \<Rightarrow> None
      | e # t \<Rightarrow>
        if e = CHR ''u'' then (case t of
            a # b # x # y # u \<Rightarrow> map_option (\<lambda>(v, r). (char_of (16 * hex_value x + hex_value y) # v, r)) (groovy_read u)
          | _ \<Rightarrow> None)
        else map_option (\<lambda>(v, r). ((if e = CHR ''n'' then CHR 0x0A else if e = CHR ''r'' then CHR 0x0D
          else if e = CHR ''t'' then CHR 0x09 else if e = CHR ''b'' then CHR 0x08
          else if e = CHR ''f'' then CHR 0x0C else e) # v, r)) (groovy_read t))"
  by pat_completeness auto
termination by (relation "measure length") auto

section \<open>What the scanner makes of a generated piece\<close>

definition tok :: "GremlinToken \<Rightarrow> token_kind \<times> string" where
  "tok t = (tk_kind t, tk_value t)"

definition clean :: "string \<Rightarrow> bool" where
  "clean s \<longleftrightarrow> CHR 0x7B \<notin> set s \<and> CHR 0x3E \<notin> set s"

text \<open>Scanning \<open>s\<close> in front of \<open>rest\<close> gives the tokens \<open>ks\<close> and goes on with \<open>rest\<close>.\<close>

definition scans :: "string \<Rightarrow> string \<Rightarrow> (token_kind \<times> string) list \<Rightarrow> bool" where
  "scans s rest ks \<longleftrightarrow> (\<forall>i. map tok (lx_tokens (lex i (s @ rest))) = ks @ map tok (lx_tokens (lex (i + length s) rest)) \<and>
     lx_valid (lex i (s @ rest)) = lx_valid (lex (i + length s) rest) \<and>
     (\<exists>nm. clean nm \<and> lx_normalized (lex i (s @ rest)) = nm @ lx_normalized (lex (i + length s) rest)))"

definition emits :: "string \<Rightarrow> (token_kind \<times> string) list \<Rightarrow> bool" where
  "emits s ks \<longleftrightarrow> (\<forall>rest. scans s rest ks)"

definition delimited :: "string \<Rightarrow> bool" where
  "delimited rest \<longleftrightarrow> (case rest of [] \<Rightarrow> False | c # _ \<Rightarrow> c \<in> {CHR '','', CHR '')'', CHR '']'', CHR '':''})"

definition emits_value :: "string \<Rightarrow> (token_kind \<times> string) list \<Rightarrow> bool" where
  "emits_value s ks \<longleftrightarrow> (\<forall>rest. delimited rest \<longrightarrow> scans s rest ks)"

lemma clean_append [simp]: "clean (s @ t) \<longleftrightarrow> clean s \<and> clean t"
  by (auto simp: clean_def)

lemma scans_append:
  assumes "scans a (b @ rest) ks" "scans b rest js"
  shows "scans (a @ b) rest (ks @ js)"
  unfolding scans_def
proof
  fix i
  obtain n where a: "map tok (lx_tokens (lex i (a @ b @ rest))) = ks @ map tok (lx_tokens (lex (i + length a) (b @ rest)))"
    "lx_valid (lex i (a @ b @ rest)) = lx_valid (lex (i + length a) (b @ rest))" "clean n"
    "lx_normalized (lex i (a @ b @ rest)) = n @ lx_normalized (lex (i + length a) (b @ rest))"
    using assms(1) unfolding scans_def by blast
  obtain m where b: "map tok (lx_tokens (lex (i + length a) (b @ rest))) = js @ map tok (lx_tokens (lex (i + length a + length b) rest))"
    "lx_valid (lex (i + length a) (b @ rest)) = lx_valid (lex (i + length a + length b) rest)" "clean m"
    "lx_normalized (lex (i + length a) (b @ rest)) = m @ lx_normalized (lex (i + length a + length b) rest)"
    using assms(2) unfolding scans_def by blast
  have "clean (n @ m)" "lx_normalized (lex i (a @ b @ rest)) = (n @ m) @ lx_normalized (lex (i + length a + length b) rest)"
    using a(3,4) b(3,4) by simp_all
  then show "map tok (lx_tokens (lex i ((a @ b) @ rest))) = (ks @ js) @ map tok (lx_tokens (lex (i + length (a @ b)) rest)) \<and>
     lx_valid (lex i ((a @ b) @ rest)) = lx_valid (lex (i + length (a @ b)) rest) \<and>
     (\<exists>nm. clean nm \<and> lx_normalized (lex i ((a @ b) @ rest)) = nm @ lx_normalized (lex (i + length (a @ b)) rest))"
    using a(1,2) b(1,2) by (auto simp: add.assoc)
qed

lemma scans_token:
  assumes "next_lexeme c (cs @ rest) = Token k (length cs) nm" "clean nm"
  shows "scans (c # cs) rest [(k, c # cs)]"
  using assms by (auto simp: scans_def tok_def add_token_def)

lemma scans_skip:
  assumes "next_lexeme c (cs @ rest) = Skip (length cs) nm" "clean nm"
  shows "scans (c # cs) rest []"
  using assms by (auto simp: scans_def skip_text_def)

lemma emits_Nil [emit_rules, intro!]: "emits [] []"
  by (auto simp: emits_def scans_def clean_def)

lemma emits_append [emit_rules]: "emits a ks \<Longrightarrow> emits b js \<Longrightarrow> emits (a @ b) (ks @ js)"
  unfolding emits_def using scans_append by blast

lemma emits_value_append:
  assumes "emits_value a ks" "emits b js" "delimited b"
  shows "emits (a @ b) (ks @ js)"
proof -
  have "delimited (b @ rest)" for rest using assms(3) by (auto simp: delimited_def split: list.splits)
  then show ?thesis using assms unfolding emits_def emits_value_def by (blast intro: scans_append)
qed

lemma append_emits_value: "emits a ks \<Longrightarrow> emits_value b js \<Longrightarrow> emits_value (a @ b) (ks @ js)"
  unfolding emits_def emits_value_def using scans_append by blast

lemma emits_emits_value: "emits a ks \<Longrightarrow> emits_value a ks"
  unfolding emits_def emits_value_def by blast

lemma punctuation_cases:
  assumes "c \<in> set SAFE_PUNCTUATION"
  shows "next_lexeme c cs = Token Punctuation 0 [c]" "clean [c]" "\<not> is_identifier_part c"
proof -
  have "c \<in> {CHR ''.'', CHR ''('', CHR '')'', CHR '','', CHR ''['', CHR '']'', CHR '':'', CHR ''-''}"
    using assms by (auto simp: SAFE_PUNCTUATION_def)
  then have "next_lexeme c cs = Token Punctuation 0 [c] \<and> clean [c] \<and> \<not> is_identifier_part c"
    by (elim insertE emptyE) (simp_all add: next_lexeme_def clean_def is_space_def code_def is_identifier_part_def
      is_identifier_start_def is_alpha_ascii_def is_upper_ascii_def is_lower_ascii_def is_digit_def SAFE_PUNCTUATION_def)
  then show "next_lexeme c cs = Token Punctuation 0 [c]" "clean [c]" "\<not> is_identifier_part c" by blast+
qed

lemma emits_punctuation [emit_rules]: "c \<in> set SAFE_PUNCTUATION \<Longrightarrow> emits [c] [(Punctuation, [c])]"
  unfolding emits_def by (intro allI scans_token [where nm = "[c]"]) (simp_all add: punctuation_cases)

lemma emits_blank [emit_rules]: "emits '' '' []"
proof -
  have "next_lexeme (CHR '' '') cs = Skip 0 '' ''" for cs by (simp add: next_lexeme_def is_space_def code_def)
  then show ?thesis
    unfolding emits_def using scans_skip [of "CHR '' ''" "[]" _ "'' ''"] by (simp add: clean_def)
qed

lemma identifier_start_cases:
  assumes "is_identifier_start c"
  shows "\<not> is_space c" "c \<noteq> CHR ''/''" "c \<noteq> CHR 0x27" "c \<noteq> CHR 0x22"
proof -
  have n: "code c = 95 \<or> 65 \<le> code c \<and> code c \<le> 90 \<or> 97 \<le> code c \<and> code c \<le> 122"
    using assms by (auto simp: is_identifier_start_def is_alpha_ascii_def is_upper_ascii_def is_lower_ascii_def code_def)
  then show "\<not> is_space c" unfolding is_space_def by linarith
  show "c \<noteq> CHR ''/''" "c \<noteq> CHR 0x27" "c \<noteq> CHR 0x22" using n by (auto simp: code_def)
qed

lemma identifier_part_clean: "is_identifier_part c \<Longrightarrow> c \<noteq> CHR 0x7B \<and> c \<noteq> CHR 0x3E"
  unfolding is_identifier_part_def is_identifier_start_def is_alpha_ascii_def is_upper_ascii_def is_lower_ascii_def
    is_digit_def
  by (intro conjI notI) (simp_all add: code_def)

lemma scans_name:
  assumes "is_identifier_start c" "list_all is_identifier_part cs" "rest = [] \<or> \<not> is_identifier_part (hd rest)"
  shows "scans (c # cs) rest [(Identifier, c # cs)]"
proof (rule scans_token [where nm = "c # cs"])
  have "takeWhile is_identifier_part (cs @ rest) = cs"
    using assms(2,3) by (cases rest) (auto simp: list_all_iff takeWhile_append2)
  then show "next_lexeme c (cs @ rest) = Token Identifier (length cs) (c # cs)"
    using assms(1) identifier_start_cases [OF assms(1)] by (simp add: next_lexeme_def)
  have "list_all is_identifier_part (c # cs)"
    using assms(1,2) by (simp add: is_identifier_part_def)
  then show "clean (c # cs)"
    using identifier_part_clean unfolding clean_def list_all_iff by blast
qed

text \<open>A step name with the bracket or dot behind it.\<close>

definition name_ok :: "string \<Rightarrow> bool" where
  "name_ok s \<longleftrightarrow> (case s of [] \<Rightarrow> False | c # cs \<Rightarrow> is_identifier_start c \<and> list_all is_identifier_part cs)"

lemma emits_name [emit_rules]:
  assumes "name_ok s" "c \<in> set SAFE_PUNCTUATION"
  shows "emits (s @ [c]) [(Identifier, s), (Punctuation, [c])]"
proof -
  have "scans (s @ [c]) rest ([(Identifier, s)] @ [(Punctuation, [c])])" for rest
  proof (rule scans_append)
    show "scans s ([c] @ rest) [(Identifier, s)]"
      using assms punctuation_cases(3) [OF assms(2)] by (auto simp: name_ok_def intro!: scans_name split: list.splits)
    show "scans [c] rest [(Punctuation, [c])]"
      using emits_punctuation [OF assms(2)] by (simp add: emits_def)
  qed
  then show ?thesis by (simp add: emits_def)
qed

lemma delimited_not_part: "delimited rest \<Longrightarrow> \<not> is_identifier_part (hd rest) \<and> \<not> is_digit (hd rest) \<and> hd rest \<noteq> CHR ''.'' \<and> hd rest \<noteq> CHR 0x27"
proof -
  assume "delimited rest"
  then have h: "hd rest \<in> {CHR '','', CHR '')'', CHR '']'', CHR '':''}" by (auto simp: delimited_def split: list.splits)
  then have "hd rest \<in> set SAFE_PUNCTUATION" by (auto simp: SAFE_PUNCTUATION_def)
  from punctuation_cases(3) [OF this] h show ?thesis by (auto simp: is_identifier_part_def)
qed

lemma emits_value_name: "name_ok s \<Longrightarrow> emits_value s [(Identifier, s)]"
  unfolding emits_value_def using delimited_not_part scans_name
  by (simp add: name_ok_def split: list.splits)

section \<open>Literals are their tokens\<close>

lemma hex2_regular: "list_all (\<lambda>c. is_digit c \<or> is_lower_ascii c) (hex2 n)"
proof -
  have "is_digit (digit_char k) \<or> is_lower_ascii (digit_char k)" if "k < 16" for k
  proof -
    have "k \<in> set [0..<16]" using that by simp
    then show ?thesis
      by (simp add: upt_rec, elim disjE) (simp_all add: digit_char_def is_digit_def is_lower_ascii_def code_def)
  qed
  then show ?thesis by (simp add: hex2_def)
qed

text \<open>A character that neither ends nor escapes nor breaks a literal.\<close>

definition plain_char :: "char \<Rightarrow> bool" where
  "plain_char c \<longleftrightarrow> c \<noteq> CHR 0x5C \<and> c \<noteq> CHR 0x27 \<and> c \<noteq> CR \<and> c \<noteq> LF"

lemma hex4_plain: "list_all plain_char (hex4 n)"
proof -
  have "plain_char c" if "is_digit c \<or> is_lower_ascii c" for c
    using that by (auto simp: plain_char_def is_digit_def is_lower_ascii_def code_def CR_def LF_def)
  then show ?thesis
    using hex2_regular [of n] by (auto simp: hex4_def list_all_iff plain_char_def CR_def LF_def)
qed

lemma consume_plain:
  "list_all plain_char s \<Longrightarrow> consume_quoted (CHR 0x27) False (s @ t) = map_option (\<lambda>n. n + length s) (consume_quoted (CHR 0x27) False t)"
  by (induction s) (auto simp: plain_char_def option.map_comp o_def option.map_ident)

lemma groovy_char_cases:
  obtains (plain) "groovy_char c = [c]" "plain_char c"
  | (escaped) x where "groovy_char c = [CHR 0x5C, x]"
  | (unicode) "groovy_char c = CHR 0x5C # CHR ''u'' # hex4 (code c)" "code c < 32"
proof -
  consider "c = CHR 0x5C" | "c = CHR 0x27" | "code c \<in> {8, 9, 10, 12, 13}" | "code c < 32" "code c \<notin> {8, 9, 10, 12, 13}"
    | "c \<noteq> CHR 0x5C" "c \<noteq> CHR 0x27" "\<not> code c < 32" by fastforce
  then show thesis
  proof cases
    case 1 then show thesis using escaped by (simp add: groovy_char_def)
  next
    case 2 then show thesis using escaped by (simp add: groovy_char_def)
  next
    case 3
    then have "\<exists>x. groovy_char c = [CHR 0x5C, x]" by (elim insertE emptyE) (simp_all add: groovy_char_def)
    then show thesis using escaped by blast
  next
    case 4
    then have "c \<noteq> CHR 0x5C" "c \<noteq> CHR 0x27" by (auto simp: code_def)
    then show thesis using 4 unicode by (simp add: groovy_char_def)
  next
    case 5
    then have "groovy_char c = [c]" "plain_char c"
      by (auto simp: groovy_char_def plain_char_def CR_def LF_def code_def)
    then show thesis using plain by blast
  qed
qed

lemma consume_groovy_char:
  "consume_quoted (CHR 0x27) False (groovy_char c @ t) =
     map_option (\<lambda>n. n + length (groovy_char c)) (consume_quoted (CHR 0x27) False t)"
proof (cases c rule: groovy_char_cases)
  case plain
  then show ?thesis using consume_plain [of "[c]" t] by simp
next
  case (escaped x)
  then show ?thesis by simp
next
  case unicode
  then show ?thesis
    using consume_plain [OF hex4_plain, of "code c" t] by (simp add: option.map_comp o_def add.assoc)
qed

lemma consume_escaped:
  "consume_quoted (CHR 0x27) False (escape_groovy_single_quoted s @ CHR 0x27 # rest) =
     Some (Suc (length (escape_groovy_single_quoted s)))"
  by (induction s) (simp_all add: escape_groovy_single_quoted_def consume_groovy_char)

lemma escaped_first: "groovy_char c \<noteq> [] \<and> hd (groovy_char c) \<noteq> CHR 0x27"
  by (cases c rule: groovy_char_cases) (auto simp: plain_char_def)

lemma no_triple:
  assumes "delimited rest"
  shows "\<not> starts_with (escape_groovy_single_quoted s @ CHR 0x27 # rest) [CHR 0x27, CHR 0x27]"
proof (cases s)
  case Nil
  then show ?thesis using delimited_not_part [OF assms]
    by (cases rest) (auto simp: escape_groovy_single_quoted_def)
next
  case (Cons c s')
  then show ?thesis using escaped_first [of c]
    by (cases "groovy_char c") (auto simp: escape_groovy_single_quoted_def)
qed

lemma clean_masked: "clean (append_masked s)"
  by (auto simp: clean_def append_masked_def LF_def)

lemma emits_string: "emits_value (groovy_string s) [(String, groovy_string s)]"
  unfolding emits_value_def
proof (intro allI impI)
  fix rest assume d: "delimited rest"
  let ?e = "escape_groovy_single_quoted s"
  let ?nm = "[CHR 0x27] @ append_masked ?e @ [CHR 0x27]"
  have "scans (CHR 0x27 # (?e @ [CHR 0x27])) rest [(String, CHR 0x27 # (?e @ [CHR 0x27]))]"
  proof (rule scans_token [where nm = ?nm])
    have "quoted_literal (CHR 0x27) (?e @ CHR 0x27 # rest) = Token String (Suc (length ?e)) ?nm"
      using no_triple [OF d, of s] consume_escaped [of s rest] by (simp add: quoted_literal_def Let_def)
    then show "next_lexeme (CHR 0x27) ((?e @ [CHR 0x27]) @ rest) = Token String (length (?e @ [CHR 0x27])) ?nm"
      by (simp add: next_lexeme_def is_space_def code_def)
    show "clean ?nm" using clean_masked [of ?e] by (simp add: clean_def)
  qed
  then show "scans (groovy_string s) rest [(String, groovy_string s)]" by (simp add: groovy_string_def)
qed

lemma number_rest_digits:
  "list_all is_digit ds \<Longrightarrow> delimited rest \<Longrightarrow> number_rest b (ds @ rest) = length ds"
  using delimited_not_part [of rest] by (induction ds) (cases rest; auto simp: delimited_def)+

lemma number_rest_decimal:
  "list_all is_digit ds \<Longrightarrow> list_all is_digit fs \<Longrightarrow> delimited rest \<Longrightarrow>
     number_rest False (ds @ CHR ''.'' # fs @ rest) = length ds + Suc (length fs)"
  by (induction ds) (auto simp: number_rest_digits is_digit_def code_def)

lemma digits_clean: "list_all is_digit ds \<Longrightarrow> clean ds"
  by (auto simp: clean_def list_all_iff is_digit_def code_def)

lemma digit_lexeme:
  "is_digit c \<Longrightarrow> next_lexeme c cs = Token Number (number_rest False cs) (c # take (number_rest False cs) cs)"
  by (auto simp: next_lexeme_def Let_def is_digit_def is_space_def is_identifier_start_def is_alpha_ascii_def
      is_upper_ascii_def is_lower_ascii_def code_def)

text \<open>Digits, with or without a fraction.\<close>

definition decimal_text :: "string \<Rightarrow> bool" where
  "decimal_text t \<longleftrightarrow> (let ds = takeWhile is_digit t; r = dropWhile is_digit t
     in ds \<noteq> [] \<and> (r = [] \<or> hd r = CHR ''.'' \<and> tl r \<noteq> [] \<and> list_all is_digit (tl r)))"

lemma emits_decimal:
  assumes "decimal_text t"
  shows "emits_value t [(Number, t)]"
  unfolding emits_value_def
proof (intro allI impI)
  fix rest assume d: "delimited rest"
  let ?ds = "takeWhile is_digit t"
  obtain r where r: "dropWhile is_digit t = r" by blast
  obtain c ds where cs: "?ds = c # ds" using assms by (cases ?ds) (auto simp: decimal_text_def Let_def)
  have dig: "is_digit c" "list_all is_digit ds"
    using cs set_takeWhileD [of _ is_digit t] by (auto simp: list_all_iff)
  have t: "t = c # ds @ r" using cs takeWhile_dropWhile_id [of is_digit t] r by (metis append_Cons)
  have frac: "r = [] \<or> (\<exists>fs. r = CHR ''.'' # fs \<and> list_all is_digit fs)"
    using assms r by (cases r) (auto simp: decimal_text_def Let_def)
  have n: "number_rest False ((ds @ r) @ rest) = length (ds @ r)"
    using frac
  proof (elim disjE exE conjE)
    fix fs assume "r = CHR ''.'' # fs" "list_all is_digit fs"
    then show ?thesis using number_rest_decimal [OF dig(2) _ d, of fs] by simp
  qed (use number_rest_digits [OF dig(2) d] in \<open>simp only: append_Nil2\<close>)
  have "clean r"
    using frac
  proof (elim disjE exE conjE)
    fix fs assume "r = CHR ''.'' # fs" "list_all is_digit fs"
    then show ?thesis using digits_clean [of fs] by (simp add: clean_def)
  qed (simp add: clean_def)
  then have "clean ([c] @ ds @ r)"
    using digits_clean [of "[c]"] digits_clean [OF dig(2)] dig(1) by (simp only: clean_append) simp
  then have cl: "clean (c # ds @ r)" by simp
  then have "scans (c # (ds @ r)) rest [(Number, c # ds @ r)]"
    by (intro scans_token [where nm = "c # ds @ r"] cl) (simp only: digit_lexeme [OF dig(1)] n, simp)
  then show "scans t rest [(Number, t)]" using t by simp
qed

text \<open>The tokens of a value.\<close>

fun sep_tokens :: "(token_kind \<times> string) list list \<Rightarrow> (token_kind \<times> string) list" where
  "sep_tokens [] = []"
| "sep_tokens [x] = x"
| "sep_tokens (x # y # xs) = x @ [(Punctuation, '','')] @ sep_tokens (y # xs)"

definition number_tokens :: "string \<Rightarrow> (token_kind \<times> string) list" where
  "number_tokens t = (case t of [] \<Rightarrow> []
     | c # cs \<Rightarrow> if c = CHR ''-'' then [(Punctuation, ''-''), (Number, cs)] else [(Number, t)])"

definition number_text :: "string \<Rightarrow> bool" where
  "number_text t \<longleftrightarrow> (case t of [] \<Rightarrow> False | c # cs \<Rightarrow> if c = CHR ''-'' then decimal_text cs else decimal_text t)"

fun lit_tokens :: "py \<Rightarrow> (token_kind \<times> string) list" where
  "lit_tokens PNone = [(Identifier, ''null'')]"
| "lit_tokens (PBool b) = [(Identifier, if b then ''true'' else ''false'')]"
| "lit_tokens (PInt i) = number_tokens (int_str i)"
| "lit_tokens (PFloat f) = number_tokens (json_float f)"
| "lit_tokens (PStr s) = [(String, groovy_string s)]"
| "lit_tokens (PList xs) = (Punctuation, ''['') # sep_tokens (map lit_tokens xs) @ [(Punctuation, '']'')]"
| "lit_tokens (PTuple xs) = (Punctuation, ''['') # sep_tokens (map lit_tokens xs) @ [(Punctuation, '']'')]"
| "lit_tokens (PDict d) = (Punctuation, ''['')
     # sep_tokens (map (\<lambda>kv. (String, groovy_string (fst kv)) # (Punctuation, '':'') # snd kv)
         (sort_key fst (map (\<lambda>kv. (fst kv, lit_tokens (snd kv))) d))) @ [(Punctuation, '']'')]"

text \<open>Values whose floats, if any, print without an exponent.\<close>

fun regular :: "py \<Rightarrow> bool" where
  "regular (PFloat f) = number_text (json_float f)"
| "regular (PList xs) = list_all regular xs"
| "regular (PTuple xs) = list_all regular xs"
| "regular (PDict d) = list_all (\<lambda>kv. regular (snd kv)) d"
| "regular v = True"

lemma decimal_digits: "list_all is_digit ds \<Longrightarrow> ds \<noteq> [] \<Longrightarrow> decimal_text ds"
  by (simp add: decimal_text_def list_all_iff takeWhile_eq_all_conv [THEN iffD2] dropWhile_eq_Nil_conv [THEN iffD2])

lemma number_text_int: "number_text (int_str i)"
proof -
  have d: "decimal_text (nat_str n)" for n using nat_str_digits nat_str_nonempty by (simp add: decimal_digits)
  moreover have "number_text (nat_str n)" for n
  proof (cases "nat_str n")
    case (Cons c cs)
    then have "is_digit c" using nat_str_digits [of n] by simp
    then show ?thesis using d [of n] Cons by (auto simp: number_text_def is_digit_def code_def)
  qed (use nat_str_nonempty in simp)
  ultimately show ?thesis by (auto simp: int_str_def number_text_def)
qed

lemma literal_names: "name_ok ''null''" "name_ok ''true''" "name_ok ''false''"
  "name_ok ''property''" "name_ok ''T''" "name_ok ''id''" "name_ok ''g''"
  by (simp_all add: name_ok_def is_identifier_start_def is_identifier_part_def is_alpha_ascii_def is_lower_ascii_def
      is_upper_ascii_def code_def)

lemma sort_key_map_snd:
  "sort_key fst (map (\<lambda>kv. (fst kv, f (snd kv))) d) = map (\<lambda>kv. (fst kv, f (snd kv))) (sort_key fst d)"
proof (induction d)
  case (Cons kv d)
  have "insort_key fst (fst kv, f (snd kv)) (map (\<lambda>kv. (fst kv, f (snd kv))) xs) =
      map (\<lambda>kv. (fst kv, f (snd kv))) (insort_key fst kv xs)" for xs
    by (induction xs) auto
  with Cons show ?case by simp
qed simp

lemma emits_number: "number_text t \<Longrightarrow> emits_value t (number_tokens t)"
proof (cases t)
  case (Cons c cs)
  assume n: "number_text t"
  show ?thesis
  proof (cases "c = CHR ''-''")
    case True
    then have "emits_value ([c] @ cs) ([(Punctuation, [c])] @ [(Number, cs)])"
      using n Cons by (intro append_emits_value emits_punctuation emits_decimal) (simp_all add: number_text_def SAFE_PUNCTUATION_def)
    then show ?thesis using Cons True by (simp add: number_tokens_def)
  qed (use n Cons emits_decimal [of t] in \<open>simp add: number_text_def number_tokens_def\<close>)
qed (simp add: number_text_def)

lemma emits_list:
  assumes "list_all2 emits_value ss kss"
  shows "emits (''['' @ join '', '' ss @ '']'') ((Punctuation, ''['') # sep_tokens kss @ [(Punctuation, '']'')])"
proof -
  have close: "emits '']'' [(Punctuation, '']'')]" and op: "emits ''['' [(Punctuation, ''['')]"
    using emits_punctuation by (simp_all add: SAFE_PUNCTUATION_def)
  have comma: "emits '', '' [(Punctuation, '','')]"
    using emits_append [OF emits_punctuation [of "CHR '',''"] emits_blank] by (simp add: SAFE_PUNCTUATION_def)
  have "emits (join '', '' ss @ '']'') (sep_tokens kss @ [(Punctuation, '']'')])"
    using assms
  proof (induction "'', '' :: string" ss arbitrary: kss rule: join.induct)
    case 1
    then show ?case using close by simp
  next
    case (2 x)
    then obtain k where "kss = [k]" "emits_value x k" by (auto simp: list_all2_Cons1)
    then show ?case using emits_value_append [OF _ close] by (simp add: delimited_def)
  next
    case (3 x y xs)
    then obtain k kss' where k: "kss = k # kss'" "emits_value x k" "list_all2 emits_value (y # xs) kss'"
      by (auto simp: list_all2_Cons1)
    then obtain k' kss'' where k': "kss' = k' # kss''" by (auto simp: list_all2_Cons1)
    have "emits ('', '' @ join '', '' (y # xs) @ '']'') ([(Punctuation, '','')] @ sep_tokens kss' @ [(Punctuation, '']'')])"
      using emits_append [OF comma 3(1) [OF k(3)]] by simp
    from emits_value_append [OF k(2) this] show ?case using k(1) k' by (simp add: delimited_def)
  qed
  from emits_append [OF op this] show ?thesis by simp
qed

lemma emits_groovy: "regular v \<Longrightarrow> emits_value (groovy v) (lit_tokens v)"
proof (induction v rule: lit_tokens.induct)
  case 1
  then show ?case by (simp add: sorted_json_def emits_value_name literal_names)
next
  case (2 b)
  then show ?case by (simp add: sorted_json_def emits_value_name literal_names)
next
  case (3 i)
  then show ?case using emits_number [OF number_text_int] by (simp add: sorted_json_def)
next
  case (4 f)
  then show ?case using emits_number [of "json_float f"] by (simp add: sorted_json_def)
next
  case (5 s)
  then show ?case using emits_string by simp
next
  case (6 xs)
  then show ?case using emits_list [of "map groovy xs" "map lit_tokens xs"]
    by (simp add: list_all2_map1 list_all2_map2 list_all2_same list_all_iff emits_emits_value)
next
  case (7 xs)
  then show ?case using emits_list [of "map groovy xs" "map lit_tokens xs"]
    by (simp add: list_all2_map1 list_all2_map2 list_all2_same list_all_iff emits_emits_value)
next
  case (8 d)
  let ?d = "sort_key fst d"
  have colon: "emits '': '' [(Punctuation, '':'')]"
    using emits_append [OF emits_punctuation [of "CHR '':''"] emits_blank] by (simp add: SAFE_PUNCTUATION_def)
  have entry: "emits_value (groovy_string k @ '': '' @ groovy v) ((String, groovy_string k) # (Punctuation, '':'') # lit_tokens v)"
    if "(k, v) \<in> set d" for k v
  proof -
    have "emits_value (groovy v) (lit_tokens v)" using 8 that by (force simp: list_all_iff)
    from append_emits_value [OF emits_value_append [OF emits_string colon] this] show ?thesis
      by (simp add: delimited_def)
  qed
  have "list_all2 emits_value (map (\<lambda>kv. groovy_string (fst kv) @ '': '' @ groovy (snd kv)) ?d)
     (map (\<lambda>kv. (String, groovy_string (fst kv)) # (Punctuation, '':'') # lit_tokens (snd kv)) ?d)"
    using entry by (auto simp: list_all2_map1 list_all2_map2 list_all2_same)
  from emits_list [OF this] show ?case
    by (simp add: emits_emits_value sort_key_map_snd o_def)
qed

section \<open>Queries as chains of steps\<close>

text \<open>
  The shape the generated queries have: a source, then steps whose arguments are literals; a \<open>where\<close>
  step holds a chain behind the anonymous step \<open>inV()\<close>, and the identifier of a new vertex is the
  property \<open>T.id\<close>.
\<close>

datatype gstep = Step string "py list" | Anonymous string string "gstep list" | Id_Property py

fun arg_text :: "py list \<Rightarrow> string" where
  "arg_text [] = []"
| "arg_text [v] = groovy v"
| "arg_text (v # w # vs) = groovy v @ '','' @ arg_text (w # vs)"

fun chain_text :: "gstep list \<Rightarrow> string" where
  "chain_text [] = []"
| "chain_text (Step n vs # ss) = ''.'' @ n @ ''('' @ arg_text vs @ '')'' @ chain_text ss"
| "chain_text (Anonymous n m inner # ss) = ''.'' @ n @ ''('' @ m @ ''('' @ '')'' @ chain_text inner @ '')'' @ chain_text ss"
| "chain_text (Id_Property v # ss) = ''.property(T.id,'' @ groovy v @ '')'' @ chain_text ss"

fun chain_tokens :: "gstep list \<Rightarrow> (token_kind \<times> string) list" where
  "chain_tokens [] = []"
| "chain_tokens (Step n vs # ss) = [(Punctuation, ''.''), (Identifier, n), (Punctuation, ''('')]
     @ sep_tokens (map lit_tokens vs) @ [(Punctuation, '')'')] @ chain_tokens ss"
| "chain_tokens (Anonymous n m inner # ss) = [(Punctuation, ''.''), (Identifier, n), (Punctuation, ''(''),
     (Identifier, m), (Punctuation, ''(''), (Punctuation, '')'')] @ chain_tokens inner @ [(Punctuation, '')'')] @ chain_tokens ss"
| "chain_tokens (Id_Property v # ss) = [(Punctuation, ''.''), (Identifier, ''property''), (Punctuation, ''(''),
     (Identifier, ''T''), (Punctuation, ''.''), (Identifier, ''id''), (Punctuation, '','')]
     @ lit_tokens v @ [(Punctuation, '')'')] @ chain_tokens ss"

fun chain_ok :: "gstep list \<Rightarrow> bool" where
  "chain_ok [] = True"
| "chain_ok (Step n vs # ss) = (name_ok n \<and> list_all regular vs \<and> chain_ok ss)"
| "chain_ok (Anonymous n m inner # ss) = (name_ok n \<and> name_ok m \<and> chain_ok inner \<and> chain_ok ss)"
| "chain_ok (Id_Property v # ss) = (regular v \<and> chain_ok ss)"

text \<open>The methods a chain calls, in the order of the text.\<close>

fun chain_calls :: "gstep list \<Rightarrow> string list" where
  "chain_calls [] = []"
| "chain_calls (Step n vs # ss) = n # chain_calls ss"
| "chain_calls (Anonymous n m inner # ss) = n # m # chain_calls inner @ chain_calls ss"
| "chain_calls (Id_Property v # ss) = ''property'' # chain_calls ss"

lemma emits_args:
  assumes "list_all regular vs"
  shows "emits (arg_text vs @ '')'') (sep_tokens (map lit_tokens vs) @ [(Punctuation, '')'')])"
proof -
  have close: "emits '')'' [(Punctuation, '')'')]" and comma: "emits '','' [(Punctuation, '','')]"
    using emits_punctuation by (simp_all add: SAFE_PUNCTUATION_def)
  show ?thesis
    using assms
  proof (induction vs rule: arg_text.induct)
    case (2 v)
    then show ?case using emits_value_append [OF emits_groovy close] by (simp add: delimited_def)
  next
    case (3 v w vs)
    then have "emits ('','' @ arg_text (w # vs) @ '')'') ([(Punctuation, '','')] @ sep_tokens (map lit_tokens (w # vs)) @ [(Punctuation, '')'')])"
      using emits_append [OF comma] by auto
    from emits_value_append [OF emits_groovy this] 3(2) show ?case by (simp add: delimited_def)
  qed (use close in simp)
qed

lemma emits_chain: "chain_ok ss \<Longrightarrow> emits (chain_text ss) (chain_tokens ss)"
proof (induction ss rule: chain_text.induct)
  case 1
  then show ?case by auto
next
  case (2 n vs ss)
  have dot: "emits ''.'' [(Punctuation, ''.'')]" and nm: "emits (n @ ''('') [(Identifier, n), (Punctuation, ''('')]"
    using emits_punctuation emits_name [of n "CHR ''(''"] 2(2) by (simp_all add: SAFE_PUNCTUATION_def)
  from emits_append [OF dot emits_append [OF nm emits_append [OF emits_args [of vs] 2(1)]]] 2(2) show ?case by simp
next
  case (3 n m inner ss)
  have p: "emits ''.'' [(Punctuation, ''.'')]" "emits '')'' [(Punctuation, '')'')]"
    "emits (n @ ''('') [(Identifier, n), (Punctuation, ''('')]" "emits (m @ ''('') [(Identifier, m), (Punctuation, ''('')]"
    using emits_punctuation emits_name [of n "CHR ''(''"] emits_name [of m "CHR ''(''"] 3(3)
    by (simp_all add: SAFE_PUNCTUATION_def)
  from emits_append [OF p(1) emits_append [OF p(3) emits_append [OF p(4) emits_append [OF p(2)
      emits_append [OF 3(1) emits_append [OF p(2) 3(2)]]]]]] 3(3) show ?case by simp
next
  case (4 v ss)
  have p: "emits ''.'' [(Punctuation, ''.'')]" "emits '')'' [(Punctuation, '')'')]"
    "emits ''property('' [(Identifier, ''property''), (Punctuation, ''('')]"
    "emits ''T.'' [(Identifier, ''T''), (Punctuation, ''.'')]"
    "emits ''id,'' [(Identifier, ''id''), (Punctuation, '','')]"
    using emits_punctuation emits_name [of "''property''" "CHR ''(''"] emits_name [of "''T''" "CHR ''.''"]
      emits_name [of "''id''" "CHR '',''"] literal_names
    by (simp_all add: SAFE_PUNCTUATION_def)
  have "emits (groovy v @ '')'' @ chain_text ss) (lit_tokens v @ [(Punctuation, '')'')] @ chain_tokens ss)"
    using 4(2) emits_value_append [OF emits_groovy emits_append [OF p(2) 4(1)]] by (simp add: delimited_def)
  from emits_append [OF p(1) emits_append [OF p(3) emits_append [OF p(4) emits_append [OF p(5) this]]]]
  show ?case by simp
qed

lemma lex_chain:
  assumes "chain_ok ss"
  shows "map tok (lx_tokens (lex_gremlin_query (''g'' @ chain_text ss))) = (Identifier, ''g'') # chain_tokens ss"
    "lx_valid (lex_gremlin_query (''g'' @ chain_text ss))"
    "clean (lx_normalized (lex_gremlin_query (''g'' @ chain_text ss)))"
proof -
  have "scans (''g'' @ chain_text ss) [] ([(Identifier, ''g'')] @ chain_tokens ss)"
  proof (rule scans_append)
    show "scans (chain_text ss) [] (chain_tokens ss)" using emits_chain [OF assms] by (simp add: emits_def)
    have "chain_text ss = [] \<or> hd (chain_text ss) = CHR ''.''"
      by (cases ss rule: chain_text.cases) auto
    then show "scans ''g'' (chain_text ss @ []) [(Identifier, ''g'')]"
      using punctuation_cases(3) [of "CHR ''.''"] literal_names(7)
      by (intro scans_name) (auto simp: name_ok_def SAFE_PUNCTUATION_def)
  qed
  then show "map tok (lx_tokens (lex_gremlin_query (''g'' @ chain_text ss))) = (Identifier, ''g'') # chain_tokens ss"
    "lx_valid (lex_gremlin_query (''g'' @ chain_text ss))"
    "clean (lx_normalized (lex_gremlin_query (''g'' @ chain_text ss)))"
    unfolding scans_def lex_gremlin_query_def by (auto simp: clean_def)
qed

section \<open>Groovy reads back what was written\<close>

lemma hex_digit: "n < 16 \<Longrightarrow> hex_value (digit_char n) = n"
  by (auto simp: hex_value_def digit_char_def is_digit_def code_def)

lemma control_chars:
  "char_of (8 :: nat) = CHR 0x08" "char_of (9 :: nat) = CHR 0x09" "char_of (10 :: nat) = CHR 0x0A"
  "char_of (12 :: nat) = CHR 0x0C" "char_of (13 :: nat) = CHR 0x0D"
  by code_simp+

lemma code_char_of: "code c = n \<Longrightarrow> c = char_of n"
  by (auto simp: code_def)

lemma groovy_read_char:
  "groovy_read (groovy_char c @ t) = map_option (\<lambda>(v, r). (c # v, r)) (groovy_read t)"
proof -
  consider "c \<in> {CHR 0x5C, CHR 0x27, CHR 0x0A, CHR 0x0D, CHR 0x09, CHR 0x08, CHR 0x0C}"
    | "c \<notin> {CHR 0x5C, CHR 0x27, CHR 0x0A, CHR 0x0D, CHR 0x09, CHR 0x08, CHR 0x0C}" "code c < 32"
    | "c \<notin> {CHR 0x5C, CHR 0x27, CHR 0x0A, CHR 0x0D, CHR 0x09, CHR 0x08, CHR 0x0C}" "\<not> code c < 32" by blast
  then show ?thesis
  proof cases
    case 1
    then show ?thesis by (elim insertE emptyE) (simp_all add: groovy_char_def code_def)
  next
    case 2
    have "code c \<noteq> n" if "n \<in> {8, 9, 10, 12, 13}" for n
      using 2(1) control_chars code_char_of [of c n] that by auto
    then have c: "groovy_char c = CHR 0x5C # CHR ''u'' # hex4 (code c)"
      using 2 by (simp add: groovy_char_def)
    have "16 * (code c div 16 mod 16) + code c mod 16 = code c" using 2 by simp
    then have "char_of (16 * (code c div 16 mod 16) + code c mod 16) = c" by (simp add: code_def)
    then show ?thesis by (simp add: c hex4_def hex2_def hex_digit)
  next
    case 3
    then have "groovy_char c = [c]" by (auto simp: groovy_char_def code_def)
    then show ?thesis using 3 by simp
  qed
qed

text \<open>C21. A string survives its Groovy literal: reading the text behind the opening quote with Groovy's
  escapes gives the string and the text behind the closing quote.\<close>

theorem groovy_string_round_trip: "groovy_read (tl (groovy_string s @ rest)) = Some (s, rest)"
proof -
  have "groovy_read (escape_groovy_single_quoted s @ CHR 0x27 # rest) = Some (s, rest)"
    by (induction s) (simp_all add: escape_groovy_single_quoted_def groovy_read_char del: groovy_read.simps(2), simp)
  then show ?thesis by (simp add: groovy_string_def)
qed

end
