(* ===== verification/Graph_Dry_Run.thy ===== *)
theory Graph_Dry_Run
  imports Graph_Mapping Gremlin_Trace Gremlin_Text
begin

text \<open>
  Model of the preparing half of \<open>hugegraph_mcp/tools/graph_data_execute.py\<close>: the dry run of a change plan. It
  validates the plan, looks at the graph, binds every operation to the elements it found and returns the
  compiled plan with a preview. It reads through the Gremlin tools and never writes.
\<close>

section \<open>Reading counts and values\<close>

text \<open>\<open>_extract_count_value\<close>.\<close>

function extract_count_value :: "py \<Rightarrow> py" where
  "extract_count_value v = (case v of
      PDict d \<Rightarrow> (case map_of d ''data'' of Some w \<Rightarrow> extract_count_value w | None \<Rightarrow> v)
    | PList xs \<Rightarrow> (case xs of [] \<Rightarrow> PInt 0 | x # ys \<Rightarrow> extract_count_value x)
    | _ \<Rightarrow> v)"
  by pat_completeness auto
termination
  by (relation "measure size") (auto dest: map_of_size)

declare extract_count_value.simps [simp del]

text \<open>A reading fails with the answer to give back, or it is a value.\<close>

definition count_of_data :: "string \<Rightarrow> py \<Rightarrow> (answer + int) res" where
  "count_of_data query data = (case py_int (extract_count_value data) of
      Inr n \<Rightarrow> Inr (Inr n)
    | Inl (OverflowError m) \<Rightarrow> Inl (OverflowError m)
    | Inl e \<Rightarrow> Inr (Inl (plain_answer (envelope_err INVALID_GRAPH_DATA ''HugeGraph count query returned a non-numeric result.'' None
        (PDict [(''query'', PStr query), (''data'', data)])))))"

definition read_count :: "'b gateway \<Rightarrow> string \<Rightarrow> 'b \<Rightarrow> (answer + int) res \<times> 'b" where
  "read_count g query b =
     (let (ans, b') = execute_gremlin_read g ''warn'' (query @ ''.count()'') b in
      (case an_response ans of
         envelope_err t m s d \<Rightarrow> Inr (Inl ans)
       | envelope_ok data \<Rightarrow> count_of_data query data, b'))"

definition read_values :: "'b gateway \<Rightarrow> string \<Rightarrow> 'b \<Rightarrow> (answer + py list) res \<times> 'b" where
  "read_values g query b =
     (let (ans, b') = execute_gremlin_read g ''warn'' query b in
      (case an_response ans of
         envelope_err t m s d \<Rightarrow> Inr (Inl ans)
       | envelope_ok data \<Rightarrow> Inr (Inr (case unwrap_data data of PNone \<Rightarrow> [] | PList xs \<Rightarrow> xs | v \<Rightarrow> [v])), b'))"

definition mutation_summary :: "py_dict list \<Rightarrow> (string \<times> nat) list" where
  "mutation_summary ops = fold (\<lambda>o' counts.
     let op = py_str (py_or (dget o' ''op'') (py_or (dget o' ''type'') (PStr ''unknown''))) in
     dset op (Suc (case map_of counts op of None \<Rightarrow> 0 | Some n \<Rightarrow> n)) counts) ops []"

definition calculate_graph_change_plan_hash ::
  "(string \<Rightarrow> string) \<Rightarrow> MCPConfig \<Rightarrow> py \<Rightarrow> string option \<Rightarrow> string option \<Rightarrow> py \<Rightarrow> py \<Rightarrow> string" where
  "calculate_graph_change_plan_hash sha cfg plan graph graphspace schema_summary extra =
     take 32 (sha (sorted_json (PDict
       ([(''change_plan'', plan),
         (''graph'', PStr (case graph of None \<Rightarrow> cfg_graph cfg | Some s \<Rightarrow> s)),
         (''graphspace'', case graphspace of None \<Rightarrow> (case cfg_graphspace cfg of None \<Rightarrow> PNone | Some s \<Rightarrow> PStr s) | Some s \<Rightarrow> PStr s)]
        @ (if schema_summary = PNone then [] else [(''schema_summary'', schema_summary)])
        @ (if extra = PNone then [] else [(''extra_hash_context'', extra)])))))"

section \<open>Endpoints that the plan itself creates\<close>

definition planned_vertex_matches :: "py_dict \<Rightarrow> py_dict \<Rightarrow> bool" where
  "planned_vertex_matches operation m \<longleftrightarrow> m \<noteq> [] \<and>
     list_all (\<lambda>(k, v). if k = ''id'' then py_eq (dget operation ''id'') v
       else case dget operation ''properties'' of PDict props \<Rightarrow> py_eq (dget props k) v | _ \<Rightarrow> False) m"

text \<open>The creates among the earlier operations that an endpoint matches, with their positions.\<close>

definition planned_matches :: "py_dict \<Rightarrow> string \<Rightarrow> py list \<Rightarrow> (nat \<times> py_dict) list" where
  "planned_matches operation endpoint planned =
     (case (endpoint_label (endpoint @ ''_label'') (if endpoint = ''source'' then ''outVLabel'' else ''inVLabel'') operation,
            dget operation (endpoint @ ''_match'')) of
        (PStr label, PDict m) \<Rightarrow> List.map_filter (\<lambda>(i, v). case v of
            PDict p \<Rightarrow> if op_text p = ''create_vertex'' \<and> py_eq (dget p ''label'') (PStr label) \<and> planned_vertex_matches p m
              then Some (i, p) else None
          | _ \<Rightarrow> None) (enumerate 0 planned)
      | _ \<Rightarrow> [])"

definition planned_endpoint_indexes :: "py_dict \<Rightarrow> string \<Rightarrow> py list \<Rightarrow> nat list" where
  "planned_endpoint_indexes operation endpoint planned = map fst (planned_matches operation endpoint planned)"

definition planned_endpoint_ids :: "py_dict \<Rightarrow> string \<Rightarrow> py list \<Rightarrow> py list" where
  "planned_endpoint_ids operation endpoint planned =
     filter (\<lambda>v. \<not> none_or_empty v) (map (\<lambda>(i, p). dget p ''id'') (planned_matches operation endpoint planned))"

section \<open>One operation\<close>

text \<open>What the loop body adds: the preview item under construction, the errors, and the compiled operation.\<close>

record step_out =
  so_item :: py_dict
  so_errors :: "py_dict list"
  so_compiled :: py_dict

definition op_error :: "nat \<Rightarrow> py_dict \<Rightarrow> string \<Rightarrow> string \<Rightarrow> string option \<Rightarrow> step_out \<Rightarrow> step_out" where
  "op_error idx operation reason suggestion kind so =
     so\<lparr>so_errors := so_errors so @ [validation_error (int idx) (PDict operation) reason suggestion kind]\<rparr>"

definition retry_error :: "nat \<Rightarrow> py_dict \<Rightarrow> string \<Rightarrow> step_out \<Rightarrow> step_out" where
  "retry_error idx operation reason = op_error idx operation reason ''Verify HugeGraph Server is available and retry the dry run.'' None"

definition set_item :: "string \<Rightarrow> py \<Rightarrow> step_out \<Rightarrow> step_out" where
  "set_item k v so = so\<lparr>so_item := dset k v (so_item so)\<rparr>"

definition set_both :: "string \<Rightarrow> py \<Rightarrow> step_out \<Rightarrow> step_out" where
  "set_both k v so = so\<lparr>so_item := dset k v (so_item so), so_compiled := dset k v (so_compiled so)\<rparr>"

definition count_error :: "nat \<Rightarrow> py_dict \<Rightarrow> string \<Rightarrow> string \<Rightarrow> int \<Rightarrow> step_out \<Rightarrow> step_out" where
  "count_error idx operation op endpoint n = op_error idx operation
     (op @ '' '' @ endpoint @ '' endpoint matched_count must be 1, got '' @ int_str n)
     ''Narrow the endpoint match criteria so exactly one vertex is selected.'' None"

text \<open>The endpoint of an edge that is deleted: it must exist once. The flag says that it failed.\<close>

definition counted_endpoint ::
  "nat \<Rightarrow> py_dict \<Rightarrow> string \<Rightarrow> string \<Rightarrow> step_out \<Rightarrow> answer + int \<Rightarrow> bool \<times> step_out" where
  "counted_endpoint idx operation op endpoint so r = (case r of
       Inl ans \<Rightarrow> (True, retry_error idx operation (endpoint @ '' endpoint count query failed'') so)
     | Inr n \<Rightarrow>
       let so = set_item (endpoint @ ''_matched_count'') (PInt n) so in
       if n \<noteq> 1 then (True, count_error idx operation op endpoint n so) else (False, so))"

definition count_endpoint ::
  "'b gateway \<Rightarrow> nat \<Rightarrow> py_dict \<Rightarrow> string \<Rightarrow> string \<Rightarrow> string \<Rightarrow> step_out \<Rightarrow> 'b \<Rightarrow> (bool \<times> step_out) res \<times> 'b" where
  "count_endpoint g idx operation op endpoint query so =
     st_then (read_count g query) (\<lambda>r. st_lift (Inr (counted_endpoint idx operation op endpoint so r)))"

text \<open>The endpoint of an edge that is created: a vertex of the graph or of an earlier create.\<close>

definition resolved_endpoint ::
  "nat \<Rightarrow> py_dict \<Rightarrow> string \<Rightarrow> py list \<Rightarrow> string \<Rightarrow> step_out \<Rightarrow> answer + py list \<Rightarrow> bool \<times> step_out" where
  "resolved_endpoint idx operation op planned endpoint so r = (case r of
       Inl ans \<Rightarrow> (True, retry_error idx operation (endpoint @ '' endpoint id query failed'') so)
     | Inr live_ids \<Rightarrow>
       let planned_ids = planned_endpoint_ids operation endpoint planned;
           planned_indexes = planned_endpoint_indexes operation endpoint planned;
           total = length planned_indexes + length live_ids;
           so = set_item (endpoint @ ''_matched_count'') (PInt (int total))
             (set_item (endpoint @ ''_live_count'') (PInt (int (length live_ids)))
             (set_item (endpoint @ ''_planned_count'') (PInt (int (length planned_indexes))) so))
       in if total \<noteq> 1 then (True, count_error idx operation op endpoint (int total) so)
          else case planned_indexes of
            i # is \<Rightarrow>
             (let so = set_both (endpoint @ ''_operation_index'') (PInt (int i)) so in
              (False, case planned_ids of [] \<Rightarrow> so | v # vs \<Rightarrow> set_both (endpoint @ ''_id'') v so))
          | [] \<Rightarrow> (False, set_both (endpoint @ ''_id'') (hd live_ids) so))"

definition resolve_endpoint ::
  "'b gateway \<Rightarrow> nat \<Rightarrow> py_dict \<Rightarrow> string \<Rightarrow> py list \<Rightarrow> string \<Rightarrow> string \<Rightarrow> step_out \<Rightarrow> 'b \<Rightarrow> (bool \<times> step_out) res \<times> 'b" where
  "resolve_endpoint g idx operation op planned endpoint query so =
     st_then (read_values g (query @ ''.limit(2).id()'')) (\<lambda>r. st_lift (Inr (resolved_endpoint idx operation op planned endpoint so r)))"

definition append_edge_endpoint_counts ::
  "'b gateway \<Rightarrow> nat \<Rightarrow> py_dict \<Rightarrow> string \<Rightarrow> py list option \<Rightarrow> step_out \<Rightarrow> 'b \<Rightarrow> (bool \<times> step_out) res \<times> 'b" where
  "append_edge_endpoint_counts g idx operation op planned so =
     st_then (st_lift (source_vertex_match_query operation)) (\<lambda>qs.
     st_then (st_lift (target_vertex_match_query operation)) (\<lambda>qt.
     (let check = (\<lambda>endpoint query so. case planned of
            None \<Rightarrow> count_endpoint g idx operation op endpoint query so
          | Some ops \<Rightarrow> resolve_endpoint g idx operation op ops endpoint query so)
      in st_then (check ''source'' qs so) (\<lambda>(f1, so).
         st_then (check ''target'' qt so) (\<lambda>(f2, so). st_lift (Inr (f1 \<or> f2, so)))))))"

text \<open>\<open>_create_vertex_identity_queries\<close>.\<close>

definition create_vertex_primary_keys :: "string \<Rightarrow> py \<Rightarrow> string list res" where
  "create_vertex_primary_keys label live =
     (let raw = (case schema_payload live of None \<Rightarrow> [] | Some raw \<Rightarrow> raw) in
      and_then (case map_of raw ''vertexlabels'' of None \<Rightarrow> Inr [] | Some v \<Rightarrow> py_iter v) (\<lambda>vs.
      Inr (case find (\<lambda>v. case v of PDict d \<Rightarrow> py_eq (dget d ''name'') (PStr label) | _ \<Rightarrow> False) vs of
          Some (PDict d) \<Rightarrow> primary_key_names d
        | _ \<Rightarrow> [])))"

definition primary_key_queries :: "py_dict \<Rightarrow> string \<Rightarrow> string list \<Rightarrow> (string \<times> string) list" where
  "primary_key_queries operation prefix pks =
     (case dget operation ''properties'' of
        PDict props \<Rightarrow>
          if pks \<noteq> [] \<and> list_all (\<lambda>pk. has_key props pk \<and> \<not> none_or_empty (dget props pk)) pks
          then [(''primary_key'', prefix @ concat (map (\<lambda>pk.
            ''.has('' @ groovy_string pk @ '','' @ groovy (dget props pk) @ '')'') pks))]
          else []
      | _ \<Rightarrow> [])"

definition create_vertex_identity_queries :: "py_dict \<Rightarrow> py \<Rightarrow> (string \<times> string) list res" where
  "create_vertex_identity_queries operation live =
     (case dget operation ''label'' of
        PStr label \<Rightarrow>
          if label = [] then Inr []
          else let prefix = ''g.V().hasLabel('' @ groovy_string label @ '')'' in
            and_then (create_vertex_primary_keys label live) (\<lambda>pks. Inr
             ((if none_or_empty (dget operation ''id'') then []
               else [(''id'', prefix @ ''.hasId('' @ groovy (dget operation ''id'') @ '')'')])
              @ primary_key_queries operation prefix pks))
      | _ \<Rightarrow> Inr [])"

definition counted_identity :: "nat \<Rightarrow> py_dict \<Rightarrow> string \<Rightarrow> step_out \<Rightarrow> answer + int \<Rightarrow> step_out" where
  "counted_identity idx operation kind so r = (case r of
       Inl ans \<Rightarrow> retry_error idx operation (''create_vertex '' @ kind @ '' identity count query failed'') so
     | Inr n \<Rightarrow>
       let so = set_item (kind @ ''_live_count'') (PInt n) so in
       if n > 0 then op_error idx operation (''create_vertex '' @ kind @ '' identity already exists in live graph'')
         ''Use a new vertex identity or remove the existing vertex before importing.'' (Some (error_value INVALID_GRAPH_DATA)) so
       else so)"

fun check_identity_counts ::
  "'b gateway \<Rightarrow> nat \<Rightarrow> py_dict \<Rightarrow> (string \<times> string) list \<Rightarrow> step_out \<Rightarrow> 'b \<Rightarrow> step_out res \<times> 'b" where
  "check_identity_counts g idx operation [] so b = (Inr so, b)"
| "check_identity_counts g idx operation ((kind, query) # queries) so b =
     st_then (read_count g query) (\<lambda>r.
       check_identity_counts g idx operation queries (counted_identity idx operation kind so r)) b"

definition append_create_vertex_identity_counts ::
  "'b gateway \<Rightarrow> nat \<Rightarrow> py_dict \<Rightarrow> py \<Rightarrow> step_out \<Rightarrow> 'b \<Rightarrow> step_out res \<times> 'b" where
  "append_create_vertex_identity_counts g idx operation live so =
     st_then (st_lift (create_vertex_identity_queries operation live)) (\<lambda>queries.
       check_identity_counts g idx operation queries so)"

text \<open>The edges of a vertex that is to be deleted.\<close>

definition counted_edges :: "nat \<Rightarrow> py_dict \<Rightarrow> step_out \<Rightarrow> answer + int \<Rightarrow> step_out" where
  "counted_edges idx operation so r = (case r of
       Inl ans \<Rightarrow> retry_error idx operation ''associated edge count query failed'' so
     | Inr n \<Rightarrow>
       let so = set_item ''associated_edge_count'' (PInt n) so in
       if n > 0 then op_error idx operation ''delete_vertex cascade=false but vertex has associated edges''
         (''Delete associated edges explicitly, then preview again. '' @ ''Vertex deletion confirmation remains disabled.'')
         (Some ''BLOCKED_BY_RELATIONSHIPS'') so
       else so)"

definition listed_edges :: "nat \<Rightarrow> py_dict \<Rightarrow> step_out \<Rightarrow> answer + py list \<Rightarrow> step_out" where
  "listed_edges idx operation so r = (case r of
       Inl ans \<Rightarrow> retry_error idx operation ''associated edge preview query failed'' so
     | Inr edges \<Rightarrow> op_error idx operation ''delete_vertex cascade=true is not enabled in this phase''
         ''Delete associated edges explicitly, then delete the vertex with cascade=false.'' (Some ''CASCADE_NOT_ENABLED'')
         (set_item ''associated_edges'' (PList edges) so))"

definition check_incident_edges ::
  "'b gateway \<Rightarrow> nat \<Rightarrow> py_dict \<Rightarrow> nat \<Rightarrow> py \<Rightarrow> step_out \<Rightarrow> 'b \<Rightarrow> step_out res \<times> 'b" where
  "check_incident_edges g idx operation matched target_id so =
     (if op_name operation = ''delete_vertex'' \<and> no_cascade operation \<and> matched = 1 then
        st_then (read_count g (''g.V('' @ groovy target_id @ '').bothE()'')) (\<lambda>r. st_lift (Inr (counted_edges idx operation so r)))
      else if op_name operation = ''delete_vertex'' \<and> dget operation ''cascade'' = PBool True then
        st_then (read_values g (''g.V('' @ groovy target_id @ '').bothE().elementMap()''))
          (\<lambda>r. st_lift (Inr (listed_edges idx operation so r)))
      else st_lift (Inr so))"

text \<open>A delete once its endpoints are known to be unique. The element that the match found is written down.\<close>

definition found_target :: "py list \<Rightarrow> py" where
  "found_target ids = (case ids of [i] \<Rightarrow> i | _ \<Rightarrow> PNone)"

definition bound_target :: "nat \<Rightarrow> py_dict \<Rightarrow> string \<Rightarrow> py list \<Rightarrow> step_out \<Rightarrow> step_out" where
  "bound_target idx operation op ids so =
     (let so = set_item ''matched_count'' (PInt (int (length ids))) so;
          so = (if length ids \<noteq> 1 then op_error idx operation (op @ '' matched_count must be 1, got '' @ nat_str (length ids))
            ''Narrow the match criteria so exactly one graph element is affected.'' None so else so)
      in if found_target ids \<noteq> PNone then set_both ''target_id'' (found_target ids) so else so)"

text \<open>The flag says whether the item enters the preview: not when the look failed.\<close>

definition bind_delete_target ::
  "'b gateway \<Rightarrow> nat \<Rightarrow> py_dict \<Rightarrow> string \<Rightarrow> step_out \<Rightarrow> 'b \<Rightarrow> (bool \<times> step_out) res \<times> 'b" where
  "bind_delete_target g idx operation op so =
     st_then (st_lift (if op = ''delete_edge'' then edge_match_query operation else vertex_match_query operation)) (\<lambda>query.
     st_then (read_values g (query @ ''.limit(2).id()'')) (\<lambda>r. case r of
         Inl ans \<Rightarrow> st_lift (Inr (False, retry_error idx operation ''target id query failed'' so))
       | Inr ids \<Rightarrow> st_then
           (check_incident_edges g idx operation (length ids) (found_target ids) (bound_target idx operation op ids so))
           (\<lambda>so. st_lift (Inr (True, so)))))"

text \<open>One turn of the loop; the flag says whether the item enters the preview.\<close>

definition dry_run_operation ::
  "'b gateway \<Rightarrow> py \<Rightarrow> py list \<Rightarrow> nat \<Rightarrow> py_dict \<Rightarrow> 'b \<Rightarrow> (bool \<times> step_out) res \<times> 'b" where
  "dry_run_operation g live planned idx operation =
     (let op = op_name operation;
          so = \<lparr>so_item = [(''operation_index'', PInt (int idx)), (''op'', PStr op), (''label'', dget operation ''label''),
             (''action'', PStr op)], so_errors = [], so_compiled = operation\<rparr>
      in if op = ''create_edge'' then
           st_then (append_edge_endpoint_counts g idx operation op (Some planned) so) (\<lambda>(failed, so).
             st_lift (Inr (True, if failed then so else set_item ''matched_count'' PNone so)))
         else if op = ''create_vertex'' then
           st_then (append_create_vertex_identity_counts g idx operation live so) (\<lambda>so.
             st_lift (Inr (True, set_item ''matched_count'' PNone so)))
         else if op \<notin> set WRITE_OPS then st_lift (Inr (True, set_item ''matched_count'' PNone so))
         else if op = ''delete_edge'' then
           st_then (append_edge_endpoint_counts g idx operation op None so) (\<lambda>(failed, so).
             if failed then st_lift (Inr (True, so)) else bind_delete_target g idx operation op so)
         else bind_delete_target g idx operation op so)"

section \<open>The dry run\<close>

record dry_loop =
  dl_preview :: "py_dict list"
  dl_errors :: "py_dict list"
  dl_compiled :: "py_dict list"

fun dry_run_operations :: "'b gateway \<Rightarrow> py \<Rightarrow> py list \<Rightarrow> py list \<Rightarrow> 'b \<Rightarrow> dry_loop res \<times> 'b" where
  "dry_run_operations g live planned [] b = (Inr \<lparr>dl_preview = [], dl_errors = [], dl_compiled = []\<rparr>, b)"
| "dry_run_operations g live planned (v # vs) b =
     st_then (st_lift (py_items v)) (\<lambda>operation.
     st_then (dry_run_operation g live planned (length planned) operation) (\<lambda>(shown, so).
     st_then (dry_run_operations g live (planned @ [v]) vs) (\<lambda>rest.
     st_lift (Inr \<lparr>dl_preview = (if shown then [so_item so] else []) @ dl_preview rest,
       dl_errors = so_errors so @ dl_errors rest, dl_compiled = so_compiled so # dl_compiled rest\<rparr>)))) b"

text \<open>The compiled plan: the plan with its operations replaced.\<close>

definition with_operations :: "py \<Rightarrow> py_dict list \<Rightarrow> py" where
  "with_operations plan ops = (case plan of
      PList vs \<Rightarrow> PList (map PDict ops)
    | PDict d \<Rightarrow> PDict (dset ''operations'' (PList (map PDict ops)) d)
    | v \<Rightarrow> v)"

datatype dry_run =
    Not_Previewed (dr_errors: "py list") (dr_warnings: "string list") (dr_preview: "py_dict list option")
  | Previewed (dr_hash: string) (dr_compiled: py) (dr_summary: "(string \<times> nat) list") (dr_items: "py_dict list")
      (dr_notes: "string list")

definition dry_run_graph_change_plan ::
  "(string \<Rightarrow> string) \<Rightarrow> (string \<Rightarrow> bool) \<Rightarrow> 'b gateway \<Rightarrow> py \<Rightarrow> py \<Rightarrow> py \<Rightarrow> 'b \<Rightarrow> dry_run res \<times> 'b" where
  "dry_run_graph_change_plan sha isodate g plan live extra =
     (let operations = plan_operations plan;
          limit_errors = collect_write_limit_errors (operation_count_from_list (PList operations)) plan
      in if limit_errors \<noteq> [] then st_lift (Inr (Not_Previewed limit_errors [] None))
         else st_then (st_lift (validate_graph_change_plan isodate plan live)) (\<lambda>validation.
           if \<not> vd_valid validation
           then st_lift (Inr (Not_Previewed (map PDict (vd_errors validation)) (vd_warnings validation) None))
           else st_then (dry_run_operations g live [] operations) (\<lambda>loop. st_lift (Inr
             (if dl_errors loop \<noteq> [] then
                Not_Previewed (map PDict (dl_errors loop)) (vd_warnings validation) (Some (dl_preview loop))
              else let compiled = with_operations plan (dl_compiled loop) in
                Previewed (calculate_graph_change_plan_hash sha (gw_cfg g) compiled None None
                    (normalized_schema_summary False live) extra)
                  compiled
                  (mutation_summary (List.map_filter (\<lambda>v. case v of PDict d \<Rightarrow> Some d | _ \<Rightarrow> None) operations))
                  (dl_preview loop) (vd_warnings validation))))))"

end
