(* ===== verification/Graph_Write_Plan.thy ===== *)
theory Graph_Write_Plan
  imports Graph_Dry_Run Write_Plan Plan_Hash
begin

text \<open>
  Model of \<open>hugegraph_mcp/tools/graph_write_plan.py\<close>: a compiled change plan becomes a canonical plan, whose
  operations carry the state they expect, the state they want, and the operations they depend on.
\<close>

definition CREATE_VERTEX :: string where "CREATE_VERTEX = ''CREATE_VERTEX''"
definition CREATE_EDGE :: string where "CREATE_EDGE = ''CREATE_EDGE''"
definition DELETE_VERTEX :: string where "DELETE_VERTEX = ''DELETE_VERTEX''"
definition DELETE_EDGE :: string where "DELETE_EDGE = ''DELETE_EDGE''"

definition write_digest :: "(string \<Rightarrow> string) \<Rightarrow> py \<Rightarrow> string" where
  "write_digest sha v = sha (compact_json v)"

text \<open>\<open>f"{plan_id}:op:{index:04d}"\<close>.\<close>

definition pad4 :: "nat \<Rightarrow> string" where
  "pad4 n = replicate (4 - length (nat_str n)) CHR ''0'' @ nat_str n"

definition operation_identifier :: "string \<Rightarrow> nat \<Rightarrow> string" where
  "operation_identifier plan_id n = plan_id @ '':op:'' @ pad4 n"

section \<open>Identities\<close>

text \<open>\<open>key in container\<close> and \<open>container[key]\<close> for a text key.\<close>

fun text_in :: "string \<Rightarrow> py \<Rightarrow> bool res" where
  "text_in key (PDict d) = Inr (has_key d key)"
| "text_in key (PList xs) = Inr (list_ex (py_eq (PStr key)) xs)"
| "text_in key (PTuple xs) = Inr (list_ex (py_eq (PStr key)) xs)"
| "text_in key (PStr s) = Inr (contains s key)"
| "text_in key v = Inl (TypeError ''argument is not iterable'')"

fun text_item :: "py \<Rightarrow> string \<Rightarrow> py res" where
  "text_item (PDict d) key = key_val d key"
| "text_item v key = Inl (TypeError ''indices must be integers'')"

text \<open>\<open>any(key not in properties for key in keys)\<close>: stops at the first missing one. A key that is not a text is
  in no mapping; a list or a mapping cannot be looked up.\<close>

fun any_missing :: "py list \<Rightarrow> py \<Rightarrow> bool res" where
  "any_missing [] props = Inr False"
| "any_missing (k # ks) props =
     (case k of
        PStr s \<Rightarrow> and_then (text_in s props) (\<lambda>here. if here then any_missing ks props else Inr True)
      | PList xs \<Rightarrow> Inl (TypeError ''unhashable type'')
      | PDict d \<Rightarrow> Inl (TypeError ''unhashable type'')
      | _ \<Rightarrow> Inr True)"

definition properties_of :: "py_dict \<Rightarrow> py" where
  "properties_of operation = py_or (dget operation ''properties'') (PDict [])"

text \<open>\<open>{key: properties[key] for key in keys}\<close>.\<close>

definition pick_properties :: "py list \<Rightarrow> py \<Rightarrow> py_dict res" where
  "pick_properties ks props = and_then
     (map_res (\<lambda>k. case k of PStr s \<Rightarrow> and_then (text_item props s) (\<lambda>v. Inr (s, v)) | _ \<Rightarrow> Inl (KeyError (py_str k))) ks)
     (\<lambda>kvs. Inr (dict_of kvs))"

text \<open>\<open>_vertex_label\<close> and \<open>_edge_label\<close>.\<close>

definition schema_label :: "string \<Rightarrow> py \<Rightarrow> string \<Rightarrow> py_dict option res" where
  "schema_label collection live name =
     (let raw = (case schema_payload live of None \<Rightarrow> [] | Some raw \<Rightarrow> raw) in
      and_then (py_iter (py_or (dget raw collection) (PList []))) (\<lambda>vs.
      Inr (case find (\<lambda>v. case v of PDict d \<Rightarrow> py_eq (dget d ''name'') (PStr name) | _ \<Rightarrow> False) vs of
          Some (PDict d) \<Rightarrow> Some d | _ \<Rightarrow> None)))"

definition vertex_identity :: "py_dict \<Rightarrow> py \<Rightarrow> py res" where
  "vertex_identity operation live =
     (if \<not> none_or_empty (dget operation ''id'') then Inr (PDict [(''id'', dget operation ''id'')])
      else and_then (key_val operation ''label'') (\<lambda>l.
        and_then (schema_label ''vertexlabels'' live (py_str l)) (\<lambda>label.
        let pks = map PStr (case label of None \<Rightarrow> [] | Some d \<Rightarrow> primary_key_names d); props = properties_of operation in
        and_then (if pks = [] then Inr True else any_missing pks props) (\<lambda>missing.
        if missing then Inl (ValueError ''create_vertex requires a stable ID or complete primary-key identity'')
        else and_then (pick_properties pks props) (\<lambda>d. Inr (PDict [(''primary_keys'', PDict d)]))))))"

definition edge_identity_properties :: "py_dict \<Rightarrow> py \<Rightarrow> py res" where
  "edge_identity_properties operation live =
     and_then (key_val operation ''label'') (\<lambda>l.
     and_then (schema_label ''edgelabels'' live (py_str l)) (\<lambda>label.
     case label of
       None \<Rightarrow> Inl (ValueError (''unknown edge label: '' @ py_str l))
     | Some d \<Rightarrow>
       let sort_keys = py_or (dget d ''sort_keys'') (py_or (dget d ''sortKeys'') (PList []));
           frequency = upper (py_str (py_or (dget d ''frequency'') (PStr ''SINGLE'')));
           props = properties_of operation
       in if frequency = ''MULTIPLE'' \<and> \<not> truthy sort_keys
          then Inl (ValueError ''MULTIPLE create_edge requires schema sort keys for stable identity'')
          else and_then (py_iter sort_keys) (\<lambda>ks. and_then (any_missing ks props) (\<lambda>missing.
            if missing then Inl (ValueError ''create_edge is missing a required sort-key identity value'')
            else and_then (pick_properties ks props) (\<lambda>ps. Inr (PDict ps))))))"

text \<open>An endpoint: the identifier of an earlier operation, with the dependency on it, or a vertex of the graph.\<close>

definition endpoint_target :: "py_dict \<Rightarrow> string \<Rightarrow> string list \<Rightarrow> (py \<times> string list) res" where
  "endpoint_target raw endpoint ids =
     (let by_index = (\<lambda>n. if n < 0 \<or> int (length ids) \<le> n
            then Inl (ValueError (''invalid '' @ endpoint @ '' dependency operation index''))
            else Inr (PDict [(''operation_id'', PStr (ids ! nat n))], [ids ! nat n]))
      in case dget raw (endpoint @ ''_operation_index'') of
           PNone \<Rightarrow>
            (if none_or_empty (dget raw (endpoint @ ''_id''))
             then Inl (ValueError (''create_edge requires compiled '' @ endpoint @ ''_id''))
             else Inr (PDict [(''id'', dget raw (endpoint @ ''_id''))], []))
         | PInt n \<Rightarrow> by_index n
         | PBool b \<Rightarrow> by_index (if b then 1 else 0)
         | _ \<Rightarrow> Inl (ValueError (''invalid '' @ endpoint @ '' dependency operation index'')))"

section \<open>Operations\<close>

text \<open>\<open>_operation\<close>: the constructor with the idempotency key.\<close>

definition keyed_operation ::
  "(string \<Rightarrow> string) \<Rightarrow> string \<Rightarrow> string \<Rightarrow> py_dict \<Rightarrow> py_dict \<Rightarrow> py_dict \<Rightarrow> string list \<Rightarrow> OperationPlan res" where
  "keyed_operation sha oid kind target expected desired depends =
     mk_operation_plan oid kind (PDict target) (PDict expected) (PDict desired) depends
       (Some (write_digest sha (PDict [(''kind'', PStr kind), (''target'', PDict target), (''desired_state'', PDict desired)])))"

definition absent :: py_dict where "absent = [(''exists'', PBool False)]"

definition compile_create_vertex ::
  "(string \<Rightarrow> string) \<Rightarrow> py \<Rightarrow> string \<Rightarrow> py_dict \<Rightarrow> OperationPlan res" where
  "compile_create_vertex sha live oid raw =
     and_then (vertex_identity raw live) (\<lambda>identity.
     and_then (key_val raw ''label'') (\<lambda>label.
     and_then (py_mapping (properties_of raw)) (\<lambda>props.
     keyed_operation sha oid CREATE_VERTEX [(''mutation'', PDict raw), (''identity'', identity)] absent
       [(''exists'', PBool True), (''element_type'', PStr ''vertex''), (''label'', label), (''identity'', identity),
        (''properties'', PDict props)] [])))"

definition compile_create_edge ::
  "(string \<Rightarrow> string) \<Rightarrow> py \<Rightarrow> string \<Rightarrow> string list \<Rightarrow> py_dict \<Rightarrow> OperationPlan res" where
  "compile_create_edge sha live oid ids raw =
     and_then (endpoint_target raw ''source'' ids) (\<lambda>(source, sdeps).
     and_then (endpoint_target raw ''target'' ids) (\<lambda>(target, tdeps).
     and_then (edge_identity_properties raw live) (\<lambda>ips.
     and_then (key_val raw ''label'') (\<lambda>label.
     and_then (py_mapping (properties_of raw)) (\<lambda>props.
     keyed_operation sha oid CREATE_EDGE
       [(''mutation'', PDict raw), (''source'', source), (''target'', target), (''identity_properties'', ips)] absent
       [(''exists'', PBool True), (''element_type'', PStr ''edge''), (''label'', label), (''source'', source),
        (''target'', target), (''identity_properties'', ips), (''properties'', PDict props)]
       (from_keys (sdeps @ tdeps)))))))"

definition compile_delete :: "(string \<Rightarrow> string) \<Rightarrow> string \<Rightarrow> string \<Rightarrow> py_dict \<Rightarrow> OperationPlan res" where
  "compile_delete sha oid op raw =
     (let target_id = dget raw ''target_id'' in
      if none_or_empty target_id then Inl (ValueError (op @ '' requires a compiled target_id''))
      else and_then (key_val raw ''label'') (\<lambda>label.
        keyed_operation sha oid (if op = ''delete_vertex'' then DELETE_VERTEX else DELETE_EDGE)
          [(''mutation'', PDict raw), (''id'', target_id), (''label'', label)]
          [(''exists'', PBool True), (''element_type'', PStr (if op = ''delete_vertex'' then ''vertex'' else ''edge'')),
           (''id'', target_id), (''label'', label)] absent []))"

definition compile_operation ::
  "(string \<Rightarrow> string) \<Rightarrow> py \<Rightarrow> string \<Rightarrow> string list \<Rightarrow> py \<Rightarrow> OperationPlan res" where
  "compile_operation sha live oid ids v =
     and_then (py_mapping v) (\<lambda>_. and_then (py_items v) (\<lambda>raw.
       let op = op_name raw in
       if op = ''create_vertex'' then compile_create_vertex sha live oid raw
       else if op = ''create_edge'' then compile_create_edge sha live oid ids raw
       else if op = ''delete_vertex'' \<or> op = ''delete_edge'' then compile_delete sha oid op raw
       else Inl (ValueError (''unsupported graph operation: '' @ op))))"

text \<open>\<open>compile_graph_write_plan\<close>: \<open>fresh\<close> is the new random identifier, \<open>now\<close> the time.\<close>

definition compile_graph_write_plan ::
  "(string \<Rightarrow> string) \<Rightarrow> string \<Rightarrow> int \<Rightarrow> PlanContext \<Rightarrow> string \<Rightarrow> py \<Rightarrow> py \<Rightarrow> WritePlan res" where
  "compile_graph_write_plan sha fresh now ctx tool live change_plan =
     (let plan_id = ''wp_'' @ fresh; ops = plan_operations change_plan;
          ids = map (operation_identifier plan_id) [0..<length ops]
      in and_then (map_res (\<lambda>(n, v). compile_operation sha live (ids ! n) ids v) (enumerate 0 ops)) (\<lambda>compiled.
         mk_write_plan \<lparr>wp_id = plan_id, wp_tool = tool,
           wp_target = \<lparr>gt_url = pc_url ctx, gt_name = pc_graph ctx, gt_space = Some (pc_space ctx)\<rparr>,
           wp_principal = pc_principal ctx, wp_operations = compiled, wp_digest = write_digest sha change_plan,
           wp_fingerprint = Some (write_digest sha (normalized_schema_summary False live)), wp_status = ISSUED,
           wp_created_at = now, wp_expires_at = max (now + 1) (pc_expires ctx)\<rparr>))"

end
