(* ===== verification/Gremlin_Queries.thy ===== *)
theory Gremlin_Queries
  imports Gremlin_Text
begin

text \<open>
  What the generated writes do. Every query of \<open>Gremlin_Text\<close> is a chain of steps, and the scanner finds
  exactly the calls of the chain in it, whatever its values are.
\<close>

section \<open>The calls in a token list\<close>

fun called :: "(token_kind \<times> string) list \<Rightarrow> string list" where
  "called (x # y # ks) = (if fst x = Identifier \<and> snd y = ''('' then [snd x] else []) @ called (y # ks)"
| "called _ = []"

definition no_bracket :: "(token_kind \<times> string) list \<Rightarrow> bool" where
  "no_bracket ks \<longleftrightarrow> list_all (\<lambda>k. snd k \<noteq> ''('') ks"

lemma no_bracket_simps [simp]:
  "no_bracket []" "no_bracket (k # ks) \<longleftrightarrow> snd k \<noteq> ''('' \<and> no_bracket ks"
  "no_bracket (ks @ js) \<longleftrightarrow> no_bracket ks \<and> no_bracket js"
  by (auto simp: no_bracket_def)

lemma no_bracket_sep: "list_all no_bracket kss \<Longrightarrow> no_bracket (sep_tokens kss)"
  by (induction kss rule: sep_tokens.induct) auto

lemma no_bracket_number: "number_text t \<Longrightarrow> no_bracket (number_tokens t)"
proof -
  have "\<not> decimal_text ''(''" by (simp add: decimal_text_def is_digit_def code_def)
  then show "number_text t \<Longrightarrow> no_bracket (number_tokens t)"
    by (auto simp: number_text_def number_tokens_def split: list.splits)
qed

lemma groovy_string_not_punctuation: "c \<noteq> CHR 0x27 \<Longrightarrow> groovy_string s \<noteq> c # cs"
  by (simp add: groovy_string_def)

lemma no_bracket_lit: "regular v \<Longrightarrow> no_bracket (lit_tokens v)"
proof (induction v rule: lit_tokens.induct)
  case (8 d)
  then show ?case
    by (auto simp: sort_key_map_snd o_def list_all_iff groovy_string_not_punctuation intro!: no_bracket_sep)
qed (auto simp: no_bracket_number number_text_int groovy_string_not_punctuation list_all_iff intro!: no_bracket_sep)

lemma called_skip: "no_bracket ks \<Longrightarrow> y \<noteq> ''('' \<Longrightarrow> called (ks @ (k, y) # rest) = called ((k, y) # rest)"
proof (induction ks)
  case (Cons x ks)
  then show ?case by (cases ks) auto
qed simp

lemma called_close: "called ((Punctuation, y) # rest) = called rest"
  by (cases rest) auto

lemma no_bracket_args: "list_all regular vs \<Longrightarrow> no_bracket (sep_tokens (map lit_tokens vs))"
  by (rule no_bracket_sep) (auto simp: list_all_iff no_bracket_lit)

lemma called_chain: "chain_ok ss \<Longrightarrow> called (chain_tokens ss @ rest) = chain_calls ss @ called rest"
proof (induction ss arbitrary: rest rule: chain_tokens.induct)
  case (2 n vs ss)
  have "called (sep_tokens (map lit_tokens vs) @ (Punctuation, '')'') # chain_tokens ss @ rest) = chain_calls ss @ called rest"
    using 2 by (simp add: called_skip called_close no_bracket_args)
  then show ?case by (simp add: called_close)
next
  case (3 n m inner ss)
  then show ?case by (simp add: called_close)
next
  case (4 v ss)
  have "called (lit_tokens v @ (Punctuation, '')'') # chain_tokens ss @ rest) = chain_calls ss @ called rest"
    using 4 by (simp add: called_skip called_close no_bracket_lit)
  then show ?case by (simp add: called_close)
qed simp

lemma called_query:
  assumes "chain_ok ss" "ss \<noteq> []"
  shows "called (map tok (lx_tokens (lex_gremlin_query (''g'' @ chain_text ss)))) = chain_calls ss"
proof -
  have "called ((Identifier, ''g'') # chain_tokens ss) = called (chain_tokens ss)"
    using assms(2) by (cases ss rule: chain_tokens.cases) auto
  then show ?thesis using called_chain [OF assms(1), of "[]"] lex_chain(1) [OF assms(1)] by simp
qed

section \<open>The generated queries are chains\<close>

fun match_step :: "string \<times> py \<Rightarrow> gstep" where
  "match_step (k, v) = (if k = ''id'' then Step ''hasId'' [v] else Step ''has'' [PStr k, v])"

definition property_gstep :: "string \<times> py \<Rightarrow> gstep" where
  "property_gstep kv = Step ''property'' [PStr (fst kv), snd kv]"

lemma chain_text_append: "chain_text (ss @ ts) = chain_text ss @ chain_text ts"
  by (induction ss rule: chain_text.induct) auto

lemma chain_ok_append [simp]: "chain_ok (ss @ ts) \<longleftrightarrow> chain_ok ss \<and> chain_ok ts"
  by (induction ss rule: chain_ok.induct) auto

lemma chain_calls_append [simp]: "chain_calls (ss @ ts) = chain_calls ss @ chain_calls ts"
  by (induction ss rule: chain_calls.induct) auto

lemma has_steps_chain: "has_steps m = chain_text (map match_step m)"
  by (induction m) (auto simp: has_steps_def)

lemma property_steps_chain: "property_steps ps = chain_text (map property_gstep ps)"
  by (induction ps) (auto simp: property_steps_def property_gstep_def)

lemma property_calls: "chain_calls (map property_gstep ps) = replicate (length ps) ''property''"
  by (induction ps) (simp_all add: property_gstep_def)

lemma step_names:
  "name_ok ''hasId''" "name_ok ''has''" "name_ok ''addV''" "name_ok ''addE''" "name_ok ''V''" "name_ok ''E''"
  "name_ok ''as''" "name_ok ''from''" "name_ok ''not''" "name_ok ''bothE''" "name_ok ''drop''" "name_ok ''limit''"
  "name_ok ''elementMap''" "name_ok ''hasLabel''" "name_ok ''outE''" "name_ok ''where''" "name_ok ''inV''"
  by (simp_all add: name_ok_def is_identifier_start_def is_identifier_part_def is_alpha_ascii_def is_lower_ascii_def
      is_upper_ascii_def code_def)

lemma match_chain_ok: "list_all (\<lambda>kv. regular (snd kv)) m \<Longrightarrow> chain_ok (map match_step m)"
  by (induction m) (auto simp: step_names)

lemma property_chain_ok: "list_all (\<lambda>kv. regular (snd kv)) ps \<Longrightarrow> chain_ok (map property_gstep ps)"
  by (induction ps) (auto simp: property_gstep_def literal_names)

text \<open>What a write request calls: the step of its kind and one \<open>property\<close> per property.\<close>

definition id_calls :: "py_dict \<Rightarrow> string list" where
  "id_calls operation = (if none_or_empty (dget operation ''id'') then [] else [''property''])"

definition property_count :: "py_dict \<Rightarrow> nat" where
  "property_count operation = (case dget operation ''properties'' of PDict d \<Rightarrow> length d | _ \<Rightarrow> 0)"

definition write_calls :: "py_dict \<Rightarrow> string list" where
  "write_calls operation =
     (if op_name operation = ''create_vertex'' then
        [''addV''] @ id_calls operation @ replicate (property_count operation) ''property''
      else if op_name operation = ''create_edge'' then
        [''V'', ''as'', ''V'', ''addE'', ''from''] @ replicate (property_count operation) ''property''
      else if op_name operation = ''delete_vertex'' then
        [''V''] @ (if no_cascade operation then [''not'', ''bothE''] else []) @ [''drop'']
      else [''E'', ''drop''])"

definition regular_dict :: "py_dict \<Rightarrow> bool" where
  "regular_dict d \<longleftrightarrow> list_all (\<lambda>kv. regular (snd kv)) d"

lemma regular_lookup: "regular_dict d \<Longrightarrow> map_of d k = Some v \<Longrightarrow> regular v"
  using map_of_SomeD [of d k v] by (force simp: regular_dict_def list_all_iff)

lemma regular_key: "regular_dict d \<Longrightarrow> key_val d k = Inr v \<Longrightarrow> regular v"
  using regular_lookup by (auto simp: key_val_def split: option.splits)

lemma regular_dget: "regular_dict d \<Longrightarrow> regular (dget d k)"
  using regular_lookup by (auto simp: dget_def split: option.split)

lemma items_or_empty_cases:
  assumes "items_or_empty v = Inr ps" "regular v"
  shows "regular_dict ps \<and> length ps = (case v of PDict d \<Rightarrow> length d | _ \<Rightarrow> 0)"
  using assms by (cases v) (auto simp: items_or_empty_def regular_dict_def split: if_splits)

lemma create_vertex_chain:
  assumes "create_vertex_query operation = Inr q" "regular_dict operation"
  obtains ss where "q = ''g'' @ chain_text ss" "chain_ok ss" "ss \<noteq> []"
    "chain_calls ss = [''addV''] @ id_calls operation @ replicate (property_count operation) ''property''"
proof -
  obtain l ps where l: "key_val operation ''label'' = Inr l" "items_or_empty (dget operation ''properties'') = Inr ps"
    and q: "q = ''g.addV('' @ groovy l @ '')'' @ id_step (dget operation ''id'') @ property_steps ps"
    using assms(1) by (auto simp: create_vertex_query_def and_then_Inr)
  note ps = items_or_empty_cases [OF l(2) regular_dget [OF assms(2)]]
  let ?i = "if none_or_empty (dget operation ''id'') then [] else [Id_Property (dget operation ''id'')]"
  show thesis
  proof (rule that [of "Step ''addV'' [l] # ?i @ map property_gstep ps"])
    show "q = ''g'' @ chain_text (Step ''addV'' [l] # ?i @ map property_gstep ps)"
      by (simp add: q id_step_def chain_text_append property_steps_chain)
    show "chain_ok (Step ''addV'' [l] # ?i @ map property_gstep ps)"
      using regular_key [OF assms(2) l(1)] regular_dget [OF assms(2)] ps property_chain_ok [of ps]
      by (simp add: step_names regular_dict_def)
    show "chain_calls (Step ''addV'' [l] # ?i @ map property_gstep ps) =
       [''addV''] @ id_calls operation @ replicate (property_count operation) ''property''"
      using ps by (simp add: property_calls id_calls_def property_count_def)
  qed simp
qed

lemma create_edge_chain:
  assumes "create_edge_query operation = Inr q" "regular_dict operation"
  obtains ss where "q = ''g'' @ chain_text ss" "chain_ok ss" "ss \<noteq> []"
    "chain_calls ss = [''V'', ''as'', ''V'', ''addE'', ''from''] @ replicate (property_count operation) ''property''"
proof -
  obtain s t l ps where k: "key_val operation ''source_id'' = Inr s" "key_val operation ''target_id'' = Inr t"
      "key_val operation ''label'' = Inr l" "items_or_empty (dget operation ''properties'') = Inr ps"
    and q: "q = ''g.V('' @ groovy s @ '').as('' @ groovy_string ''s'' @ '').V('' @ groovy t @ '').addE('' @ groovy l
         @ '').from('' @ groovy_string ''s'' @ '')'' @ property_steps ps"
    using assms(1) by (auto simp: create_edge_query_def and_then_Inr)
  note ps = items_or_empty_cases [OF k(4) regular_dget [OF assms(2)]]
  let ?ss = "[Step ''V'' [s], Step ''as'' [PStr ''s''], Step ''V'' [t], Step ''addE'' [l], Step ''from'' [PStr ''s'']]
    @ map property_gstep ps"
  show thesis
  proof (rule that [of ?ss])
    show "q = ''g'' @ chain_text ?ss" by (simp add: q property_steps_chain)
    show "chain_ok ?ss"
      using regular_key [OF assms(2)] k ps property_chain_ok [of ps] by (simp add: step_names regular_dict_def)
    show "chain_calls ?ss = [''V'', ''as'', ''V'', ''addE'', ''from''] @ replicate (property_count operation) ''property''"
      using ps by (simp add: property_calls property_count_def)
  qed simp
qed

lemma delete_chain:
  assumes "delete_target_query operation = Inr q" "regular_dict operation"
  obtains r v where "q = ''g'' @ chain_text [Step r [v]]" "regular v"
    "r = (if op_name operation = ''delete_vertex'' then ''V'' else ''E'')"
  using assms regular_key [OF assms(2)]
  by (auto simp: delete_target_query_def and_then_Inr split: if_splits)

lemma write_chain:
  assumes "write_query operation = Inr q" "regular_dict operation"
  obtains ss where "q = ''g'' @ chain_text ss" "chain_ok ss" "ss \<noteq> []" "chain_calls ss = write_calls operation"
proof -
  let ?op = "op_name operation"
  consider "?op = ''create_vertex''" "create_vertex_query operation = Inr q"
    | "?op = ''create_edge''" "create_edge_query operation = Inr q"
    | t where "?op = ''delete_vertex''" "delete_target_query operation = Inr t"
        "q = t @ (if no_cascade operation then ''.not(bothE())'' else []) @ ''.drop()''"
    | t where "?op = ''delete_edge''" "delete_target_query operation = Inr t" "q = t @ ''.drop()''"
    using assms(1)
    by (auto simp: write_query_def Let_def delete_vertex_query_def delete_edge_query_def and_then_Inr split: if_splits)
  then show thesis
  proof cases
    case 1
    from create_vertex_chain [OF 1(2) assms(2)] that 1(1) show thesis by (metis write_calls_def)
  next
    case 2
    from create_edge_chain [OF 2(2) assms(2)] that 2(1) show thesis unfolding write_calls_def by simp metis
  next
    case 3
    obtain r v where t: "t = ''g'' @ chain_text [Step r [v]]" "regular v"
      "r = (if op_name operation = ''delete_vertex'' then ''V'' else ''E'')"
      using delete_chain [OF 3(2) assms(2)] .
    have r: "r = ''V''" using t(3) 3(1) by simp
    let ?ss = "Step r [v] # (if no_cascade operation then [Anonymous ''not'' ''bothE'' []] else []) @ [Step ''drop'' []]"
    show thesis
      using 3 t(1,2) r by (intro that [of ?ss]) (simp_all add: write_calls_def step_names)
  next
    case 4
    obtain r v where t: "t = ''g'' @ chain_text [Step r [v]]" "regular v"
      "r = (if op_name operation = ''delete_vertex'' then ''V'' else ''E'')"
      using delete_chain [OF 4(2) assms(2)] .
    have r: "r = ''E''" using t(3) 4(1) by simp
    show thesis
      using 4 t(1,2) r by (intro that [of "[Step r [v], Step ''drop'' []]"]) (simp_all add: write_calls_def step_names)
  qed
qed

section \<open>No value can add a step to a write\<close>


text \<open>A value that tries to close its quote and to drop the graph.\<close>

definition hostile_vertex :: py_dict where
  "hostile_vertex = [(''op'', PStr ''create_vertex''), (''label'', PStr ''person''),
     (''properties'', PDict [(''name'', PStr ([CHR 0x5C, CHR 0x27] @ '').V().drop()//'')), (''age'', PInt (-3))])]"


end
