(* ===== verification/Gremlin_Reads.thy ===== *)
theory Gremlin_Reads
  imports Gremlin_Queries
begin

text \<open>
  The read gate on generated queries. The classification of a query depends on the kinds and texts of
  its tokens only; a chain of read steps with scalar literals passes through both loops of the
  classification unharmed, so it is classified as safe.
\<close>

section \<open>The classification looks at kinds and texts only\<close>

definition mk :: "token_kind \<times> string \<Rightarrow> GremlinToken" where
  "mk k = \<lparr>tk_kind = fst k, tk_value = snd k, tk_start = 0, tk_end = 0\<rparr>"

definition retok :: "GremlinToken \<Rightarrow> GremlinToken" where
  "retok t = mk (tok t)"

lemma mk_simps [simp]: "tk_kind (mk k) = fst k" "tk_value (mk k) = snd k"
  by (simp_all add: mk_def)

lemma retok_simps [simp]: "tk_kind (retok t) = tk_kind t" "tk_value (retok t) = tk_value t"
  by (simp_all add: retok_def tok_def)

lemma analyze_token_retok:
  "analyze_token (map_option retok p) (retok t) (map_option retok n) s = analyze_token p t n s"
  by (cases p; cases n) (simp_all add: analyze_token_def Let_def)

lemma analyze_loop_retok: "analyze_loop (map_option retok p) (map retok ts) s = analyze_loop p ts s"
proof (induction p ts s rule: analyze_loop.induct)
  case (2 p t ts s)
  have "(case map retok ts of [] \<Rightarrow> None | n # _ \<Rightarrow> Some n) = map_option retok (case ts of [] \<Rightarrow> None | n # _ \<Rightarrow> Some n)"
    by (cases ts) auto
  with 2 show ?case by (simp add: analyze_token_retok)
qed simp

lemma adjacency_retok: "adjacency_loop st (retok p) (map retok ts) = adjacency_loop st p ts"
proof (induction st p ts rule: adjacency_loop.induct)
  case (2 st p c rest)
  have b: "bad_neighbours (retok p) (retok c) = bad_neighbours p c" by (simp add: bad_neighbours_def)
  have "(case map retok rest of [] \<Rightarrow> None | n # _ \<Rightarrow> Some (tk_value n)) = (case rest of [] \<Rightarrow> None | n # _ \<Rightarrow> Some (tk_value n))"
    "(case map retok rest of [] \<Rightarrow> True | n # _ \<Rightarrow> tk_kind n \<noteq> Number) = (case rest of [] \<Rightarrow> True | n # _ \<Rightarrow> tk_kind n \<noteq> Number)"
    by (cases rest; simp)+
  then show ?case
    using 2 by (simp add: b Let_def cong: if_cong)
qed simp

lemma rooted_retok: "rooted (map retok ts) = rooted ts"
  by (auto simp: rooted_def split: list.split)

lemma members_retok: "members_named (map retok ts) = members_named ts"
proof (induction ts)
  case (Cons t ts)
  then show ?case by (cases ts) auto
qed simp

text \<open>A sufficient condition for \<open>safe\<close> on the list of kinds and texts.\<close>

definition start_state :: analysis_state where
  "start_state = \<lparr>st_methods = [], st_write = False, st_uncertain = False, st_stack = []\<rparr>"

lemma safe_by_tokens:
  assumes toks: "map tok (lx_tokens (lex_gremlin_query q)) = k # ks" and "lx_valid (lex_gremlin_query q)"
    and "clean (lx_normalized (lex_gremlin_query q))"
    and adj: "\<not> adjacency_loop [] (mk k) (map mk ks)" and root: "rooted (map mk (k # ks))"
    and mem: "members_named (map mk (k # ks))"
    and loop: "analyze_loop None (map mk (k # ks)) start_state = start_state\<lparr>st_methods := ms\<rparr>"
    and ms: "set ms \<subseteq> set READ_METHODS" and br: "list_all (\<lambda>x. snd x \<notin> {[CHR 0x7B], [CHR 0x7D]}) (k # ks)"
  shows "classify_gremlin_read_safety q = safe"
proof -
  let ?l = "lex_gremlin_query q"
  have re: "map retok (lx_tokens ?l) = map mk (k # ks)"
  proof -
    have "retok = mk \<circ> tok" by (simp add: fun_eq_iff retok_def)
    then show ?thesis using toks by (metis map_map)
  qed
  then have ne: "lx_tokens ?l \<noteq> []" by auto
  then have "strip q \<noteq> []" using lex_blank [of q 0] by (auto simp: strip_nil lex_gremlin_query_def)
  have "has_invalid_token_adjacency (lx_tokens ?l) = adjacency_loop [] (mk k) (map mk ks)"
  proof (cases "lx_tokens ?l")
    case (Cons a as)
    then have "retok a = mk k" "map retok as = map mk ks" using re by simp_all
    then show ?thesis using Cons adjacency_retok [of "[]" a as] by (simp add: has_invalid_token_adjacency_def)
  qed (use ne in simp)
  moreover have "analyze_loop None (lx_tokens ?l) start_state = start_state\<lparr>st_methods := ms\<rparr>"
    using analyze_loop_retok [of None "lx_tokens ?l" start_state] re loop by simp
  moreover have "rooted (lx_tokens ?l)" "members_named (lx_tokens ?l)"
    using rooted_retok [of "lx_tokens ?l"] members_retok [of "lx_tokens ?l"] re root mem by simp_all
  moreover have "\<not> has_marker (lx_normalized ?l)"
    using assms(3) by (auto simp: has_marker_def DYNAMIC_MARKERS_def contains_iff clean_def)
  moreover have "list_all (\<lambda>t. tk_value t \<notin> {[CHR 0x7B], [CHR 0x7D]}) (lx_tokens ?l)"
  proof -
    have "list_all (\<lambda>x. snd x \<notin> {[CHR 0x7B], [CHR 0x7D]}) (map tok (lx_tokens ?l))" using br toks by simp
    then show ?thesis by (simp add: list.pred_map comp_def tok_def)
  qed
  ultimately show ?thesis
    using \<open>strip q \<noteq> []\<close> assms(2) adj ms ne
    by (simp add: classify_gremlin_read_safety_def analyze_tokens_def finish_analysis_def classify_analysis_def
        start_state_def list_ex_iff list_all_iff subset_iff)
qed

section \<open>Read chains pass the gate\<close>

text \<open>Literals without brackets whose strings hold none of the three dynamic markers.\<close>

fun scalar :: "py \<Rightarrow> bool" where
  "scalar (PStr s) = (\<not> has_marker (groovy_string s))"
| "scalar (PList xs) = False"
| "scalar (PTuple xs) = False"
| "scalar (PDict d) = False"
| "scalar v = regular v"

fun read_chain :: "gstep list \<Rightarrow> bool" where
  "read_chain [] = True"
| "read_chain (Step n vs # ss) = (name_ok n \<and> lower n \<in> set READ_METHODS \<and> list_all scalar vs \<and> read_chain ss)"
| "read_chain (Anonymous n m inner # ss) = (name_ok n \<and> name_ok m \<and> lower n \<in> set READ_METHODS \<and>
     lower m \<in> set ANONYMOUS_READ_METHODS \<and> read_chain inner \<and> read_chain ss)"
| "read_chain (Id_Property v # ss) = False"

definition bracket_open :: GremlinToken where "bracket_open = mk (Punctuation, ''('')"
definition bracket_close :: GremlinToken where "bracket_close = mk (Punctuation, '')'')"

lemma bracket_simps [simp]:
  "tk_kind bracket_open = Punctuation" "tk_value bracket_open = ''(''"
  "tk_kind bracket_close = Punctuation" "tk_value bracket_close = '')''"
  by (simp_all add: bracket_open_def bracket_close_def)

lemma mk_brackets: "mk (Punctuation, ''('') = bracket_open" "mk (Punctuation, '')'') = bracket_close"
  by (simp_all add: bracket_open_def bracket_close_def)

lemma identifier_part_cases: "is_identifier_start c \<Longrightarrow> c \<notin> {CHR ''('', CHR '')'', CHR ''['', CHR '']'', CHR 0x7B, CHR 0x7D}"
  by (auto simp: is_identifier_start_def is_alpha_ascii_def is_upper_ascii_def is_lower_ascii_def code_def)

lemma bracket_facts [simp]:
  "opener ''(''" "\<not> closer ''(''" "closer '')''" "\<not> opener '')''" "\<not> opener ''.''" "\<not> closer ''.''"
  "\<not> opener '',''" "\<not> closer '',''" "\<not> opener ''-''" "\<not> closer ''-''"
  "open_of '')'' = Some ''(''"
  by (simp_all add: opener_def closer_def close_of.simps open_of.simps)

lemma opener_values: "opener v \<longleftrightarrow> v \<in> {''('', ''['', [CHR 0x7B]}"
  by (simp add: opener_def close_of.simps)

lemma closer_values: "closer v \<longleftrightarrow> v \<in> {'')'', '']'', [CHR 0x7D]}"
  by (simp add: closer_def open_of.simps)

lemma other_not_bracket:
  "is_digit (hd t) \<Longrightarrow> t \<noteq> [] \<Longrightarrow> \<not> opener t \<and> \<not> closer t"
  "name_ok n \<Longrightarrow> \<not> opener n \<and> \<not> closer n"
  "\<not> opener (groovy_string s) \<and> \<not> closer (groovy_string s)"
proof -
  show "\<not> opener t \<and> \<not> closer t" if "is_digit (hd t)" "t \<noteq> []"
    using that by (cases t) (auto simp: opener_values closer_values is_digit_def code_def)
  show "\<not> opener n \<and> \<not> closer n" if "name_ok n"
    using that identifier_part_cases by (cases n) (auto simp: opener_values closer_values name_ok_def)
  show "\<not> opener (groovy_string s) \<and> \<not> closer (groovy_string s)"
    by (simp add: opener_values closer_values groovy_string_def)
qed

lemma read_names:
  assumes "lower n \<in> set READ_METHODS \<union> set ANONYMOUS_READ_METHODS"
  shows "\<not> write_name (lower n)" "lower n \<notin> set ALLOWED_ARG_TOKENS" "lower n \<in> set READ_METHODS"
proof -
  have "list_all (\<lambda>m. \<not> write_name m \<and> m \<notin> set ALLOWED_ARG_TOKENS \<and> m \<in> set READ_METHODS) (READ_METHODS @ ANONYMOUS_READ_METHODS)"
    by code_simp
  then show "\<not> write_name (lower n)" "lower n \<notin> set ALLOWED_ARG_TOKENS" "lower n \<in> set READ_METHODS"
    using assms by (auto simp: list_all_iff)
qed

text \<open>A scalar is one token, or a minus sign and a number.\<close>

definition value_token :: "token_kind \<times> string \<Rightarrow> bool" where
  "value_token k \<longleftrightarrow> (fst k = String \<and> \<not> has_marker (snd k) \<or> fst k = Number \<or>
      fst k = Identifier \<and> snd k \<in> set ALLOWED_ARG_TOKENS) \<and> \<not> opener (snd k) \<and> \<not> closer (snd k) \<and>
     snd k \<notin> {''.'', '','', '':'', ''-'', [CHR 0x7B], [CHR 0x7D]}"

lemma allowed_lower [simp]: "v \<in> set ALLOWED_ARG_TOKENS \<Longrightarrow> lower v = v"
  by (auto simp: ALLOWED_ARG_TOKENS_def lower_def lower_char_def is_upper_ascii_def code_def)

lemma scalar_tokens:
  assumes "scalar v"
  obtains (one) k where "lit_tokens v = [k]" "value_token k"
  | (two) t where "lit_tokens v = [(Punctuation, ''-''), (Number, t)]" "value_token (Number, t)"
proof -
  have dec: "value_token (Number, t)" if "decimal_text t" for t
  proof -
    have t: "t \<noteq> []" "is_digit (hd t)"
      using that set_takeWhileD [of "hd t" is_digit t] by (cases t; auto simp: decimal_text_def Let_def split: if_splits)+
    then show ?thesis
      using other_not_bracket(1) [OF t(2,1)] by (auto simp: value_token_def is_digit_def code_def)
  qed
  have num: thesis if "lit_tokens v = number_tokens t" "number_text t" for t
    using that one two dec by (auto simp: number_tokens_def number_text_def split: list.splits if_splits)
  have lits: "value_token (Identifier, ''null'')" "value_token (Identifier, ''true'')" "value_token (Identifier, ''false'')"
    using literal_names other_not_bracket(2) by (simp_all add: value_token_def ALLOWED_ARG_TOKENS_def)
  show thesis
  proof (cases v)
    case (PStr s)
    then have "value_token (String, groovy_string s)"
      using assms other_not_bracket(3) [of s] by (auto simp: value_token_def groovy_string_def)
    then show thesis using one PStr by simp
  next
    case (PBool b)
    then show thesis using one lits by (cases b) auto
  qed (use assms one lits num number_text_int in auto)
qed

text \<open>Inside brackets a scalar changes nothing: neither loop looks at more than its ends.\<close>

lemma analyze_value:
  assumes "value_token k" "tk_value p \<noteq> ''.''" "tk_value n \<noteq> ''(''"
  shows "analyze_token (Some p) (mk k) (Some n) s = s"
  using assms by (auto simp: value_token_def analyze_token_def Let_def)

lemma analyze_minus: "analyze_token p (mk (Punctuation, ''-'')) n s = s"
  by (simp add: analyze_token_def Let_def REJECTED_PUNCTUATION_def)

lemma analyze_comma: "analyze_token p (mk (Punctuation, '','')) n s = s"
  by (simp add: analyze_token_def Let_def REJECTED_PUNCTUATION_def)

lemma analyze_open: "analyze_token p bracket_open n s = s\<lparr>st_stack := ''('' # st_stack s\<rparr>"
  by (simp add: analyze_token_def Let_def)

lemma analyze_close: "st_stack s = ''('' # st \<Longrightarrow> analyze_token p bracket_close n s = s\<lparr>st_stack := st\<rparr>"
  by (cases s) (simp add: analyze_token_def Let_def)

lemma analyze_dot: "analyze_token p (mk (Punctuation, ''.'')) n s = s"
  by (simp add: analyze_token_def Let_def REJECTED_PUNCTUATION_def)

lemma analyze_member:
  assumes "lower n \<in> set READ_METHODS"
  shows "analyze_token (Some (mk (Punctuation, ''.''))) (mk (Identifier, n)) (Some bracket_open) s =
    s\<lparr>st_methods := st_methods s @ [lower n]\<rparr>"
  using assms read_names [of n] by (cases s) (simp add: analyze_token_def Let_def)

lemma analyze_anonymous:
  assumes "lower n \<in> set ANONYMOUS_READ_METHODS" "tk_value p \<noteq> ''.''"
  shows "analyze_token (Some p) (mk (Identifier, n)) (Some bracket_open) s = s\<lparr>st_methods := st_methods s @ [lower n]\<rparr>"
  using assms by (simp add: analyze_token_def Let_def)

lemma analyze_loop_close:
  "st_stack s = ''('' # st \<Longrightarrow>
     analyze_loop p (bracket_close # rest) s = analyze_loop (Some bracket_close) rest (s\<lparr>st_stack := st\<rparr>)"
  by (simp add: analyze_close)

lemma analyze_args:
  assumes "list_all scalar vs" "tk_value p \<noteq> ''.''" "st_stack s = ''('' # st"
  shows "analyze_loop (Some p) (map mk (sep_tokens (map lit_tokens vs)) @ bracket_close # rest) s =
    analyze_loop (Some bracket_close) rest (s\<lparr>st_stack := st\<rparr>)"
  using assms
proof (induction vs arbitrary: p rule: arg_text.induct)
  case 1
  then show ?case by (simp add: analyze_close)
next
  case (2 v)
  then have "scalar v" by simp
  then show ?case
  proof (cases v rule: scalar_tokens)
    case (one k)
    then show ?thesis using 2 by (simp add: analyze_value analyze_close)
  next
    case (two t)
    then show ?thesis using 2 by (simp add: analyze_value analyze_minus analyze_close)
  qed
next
  case (3 v w vs)
  have rest: "analyze_loop (Some (mk (Punctuation, '',''))) (map mk (sep_tokens (map lit_tokens (w # vs))) @ bracket_close # rest) s
    = analyze_loop (Some bracket_close) rest (s\<lparr>st_stack := st\<rparr>)"
    using 3 by simp
  have "scalar v" using 3 by simp
  then show ?case
  proof (cases v rule: scalar_tokens)
    case (one k)
    then show ?thesis using 3 rest by (simp add: analyze_value analyze_comma)
  next
    case (two t)
    then show ?thesis using 3 rest by (simp add: analyze_value analyze_minus analyze_comma)
  qed
qed

lemma analyze_chain:
  assumes "read_chain ss"
  shows "analyze_loop (Some p) (map mk (chain_tokens ss) @ rest) s =
    analyze_loop (Some (if ss = [] then p else bracket_close)) rest
      (s\<lparr>st_methods := st_methods s @ map lower (chain_calls ss)\<rparr>)"
  using assms
proof (induction ss arbitrary: p rest s rule: chain_tokens.induct)
  case 1
  then show ?case by simp
next
  case (2 n vs ss)
  let ?s = "s\<lparr>st_methods := st_methods s @ [lower n]\<rparr>"
  have "analyze_loop (Some p) (map mk (chain_tokens (Step n vs # ss)) @ rest) s =
    analyze_loop (Some bracket_open) (map mk (sep_tokens (map lit_tokens vs)) @ bracket_close # map mk (chain_tokens ss) @ rest)
      (?s\<lparr>st_stack := ''('' # st_stack s\<rparr>)"
    using 2(2) by (simp add: mk_brackets analyze_dot analyze_member analyze_open)
  also have "\<dots> = analyze_loop (Some bracket_close) (map mk (chain_tokens ss) @ rest) ?s"
    using 2(2) analyze_args [of vs bracket_open "?s\<lparr>st_stack := ''('' # st_stack s\<rparr>" "st_stack s"] by simp
  finally show ?case using 2 by simp
next
  case (3 n m inner ss)
  let ?s = "s\<lparr>st_methods := st_methods s @ [lower n, lower m]\<rparr>"
  let ?s' = "s\<lparr>st_methods := st_methods s @ [lower n, lower m] @ map lower (chain_calls inner)\<rparr>"
  have "analyze_loop (Some p) (map mk (chain_tokens (Anonymous n m inner # ss)) @ rest) s =
    analyze_loop (Some bracket_close) (map mk (chain_tokens inner) @ bracket_close # map mk (chain_tokens ss) @ rest)
      (?s\<lparr>st_stack := ''('' # st_stack s\<rparr>)"
    using 3(3) by (simp add: mk_brackets analyze_dot analyze_member analyze_open analyze_anonymous analyze_close)
  also have "\<dots> = analyze_loop (Some bracket_close) (bracket_close # map mk (chain_tokens ss) @ rest)
      (?s'\<lparr>st_stack := ''('' # st_stack s\<rparr>)"
    using 3(1) [of bracket_close "bracket_close # map mk (chain_tokens ss) @ rest" "?s\<lparr>st_stack := ''('' # st_stack s\<rparr>"] 3(3)
    by (cases s) simp
  also have "\<dots> = analyze_loop (Some bracket_close) (map mk (chain_tokens ss) @ rest) ?s'"
    by (subst analyze_loop_close [where st = "st_stack s"]) simp_all
  finally show ?case using 3 by simp
qed simp

declare adjacency_loop.simps(2) [simp del]

lemma adjacency_step:
  assumes "\<not> bad_neighbours p c" "tk_value c \<notin> {'','', '':'', ''-''}"
  shows "adjacency_loop st p (c # rest) =
    adjacency_loop (if opener (tk_value c) then tk_value c # st else if closer (tk_value c) then tl st else st) c rest"
  using assms by (subst adjacency_loop.simps) (simp add: Let_def)

lemma adjacency_minus:
  assumes "\<not> bad_neighbours p c" "tk_value c = ''-''" "tk_kind n = Number"
  shows "adjacency_loop st p (c # n # rest) = adjacency_loop st c (n # rest)"
  using assms by (subst adjacency_loop.simps) (simp add: Let_def)

lemma adjacency_comma:
  assumes "\<not> bad_neighbours p c" "tk_value c = '',''" "st \<noteq> []"
    and "tk_value p \<notin> {''('', ''['', [CHR 0x7B], '','', '':''}" "tk_value n \<notin> {'','', '':'', '')'', '']'', [CHR 0x7D]}"
  shows "adjacency_loop st p (c # n # rest) = adjacency_loop st c (n # rest)"
  using assms by (subst adjacency_loop.simps) (simp add: Let_def)

lemma before_value: "tk_kind p = Punctuation \<Longrightarrow> tk_value p = ''('' \<or> tk_value p = '','' \<or> tk_value p = ''-'' \<Longrightarrow> \<not> bad_neighbours p c"
  by (auto simp: bad_neighbours_def)

lemma after_value:
  assumes "value_token k" "tk_value c = '','' \<or> tk_value c = '')''" "tk_kind c = Punctuation"
  shows "\<not> bad_neighbours (mk k) c"
  using assms by (auto simp: value_token_def bad_neighbours_def value_kind_def)

lemma adjacency_value:
  assumes "value_token k" "tk_kind p = Punctuation" "tk_value p = ''('' \<or> tk_value p = '','' \<or> tk_value p = ''-''"
  shows "adjacency_loop st p (mk k # rest) = adjacency_loop st (mk k) rest"
  using assms adjacency_step [OF before_value [OF assms(2,3)], of "mk k"] by (simp add: value_token_def)

lemma adjacency_close_value:
  assumes "value_token k"
  shows "adjacency_loop (''('' # st) (mk k) (bracket_close # rest) = adjacency_loop st bracket_close rest"
  using adjacency_step [OF after_value [OF assms], of bracket_close] by simp

lemma scalar_head:
  assumes "scalar v"
  obtains x ks where "lit_tokens v = x # ks" "snd x \<notin> {'','', '':'', '')'', '']'', [CHR 0x7D]}"
  using assms by (cases v rule: scalar_tokens) (auto simp: value_token_def closer_values)

lemma adjacency_args:
  assumes "list_all scalar vs" "tk_kind p = Punctuation" "tk_value p = ''('' \<or> tk_value p = '',''"
  shows "adjacency_loop (''('' # st) p (map mk (sep_tokens (map lit_tokens vs)) @ bracket_close # rest) =
    adjacency_loop st bracket_close rest"
  using assms
proof (induction vs arbitrary: p rule: arg_text.induct)
  case 1
  then show ?case using adjacency_step [OF before_value, of p bracket_close] by auto
next
  case (2 v)
  then have "scalar v" by simp
  then show ?case
  proof (cases v rule: scalar_tokens)
    case (one k)
    then show ?thesis using 2 by (simp only: list.map sep_tokens.simps append.simps)
      (auto simp: adjacency_value adjacency_close_value)
  next
    case (two t)
    then show ?thesis using 2
      by (auto simp: adjacency_minus adjacency_value adjacency_close_value before_value)
  qed
next
  case (3 v w vs)
  let ?c = "mk (Punctuation, '','')"
  obtain x ks where x: "lit_tokens w = x # ks" "snd x \<notin> {'','', '':'', '')'', '']'', [CHR 0x7D]}"
    using 3(2) scalar_head [of w] by auto
  then obtain ys where ys: "sep_tokens (map lit_tokens (w # vs)) = x # ys" by (cases vs) auto
  have rest: "adjacency_loop (''('' # st) ?c (map mk (sep_tokens (map lit_tokens (w # vs))) @ bracket_close # rest) =
    adjacency_loop st bracket_close rest"
    using 3 by simp
  have comma: "adjacency_loop (''('' # st) (mk k) (?c # map mk (sep_tokens (map lit_tokens (w # vs))) @ bracket_close # rest) =
    adjacency_loop st bracket_close rest" if "value_token k" for k
  proof -
    have "snd k \<notin> {''('', ''['', [CHR 0x7B], '','', '':''}" using that by (auto simp: value_token_def opener_values)
    then have "adjacency_loop (''('' # st) (mk k) (?c # mk x # map mk ys @ bracket_close # rest) =
      adjacency_loop (''('' # st) ?c (mk x # map mk ys @ bracket_close # rest)"
      using x(2) by (intro adjacency_comma after_value [OF that]) simp_all
    then show ?thesis using rest ys by simp
  qed
  have "scalar v" using 3(2) by simp
  then show ?case
  proof (cases v rule: scalar_tokens)
    case (one k)
    then show ?thesis using 3(3,4) comma [of k] by (auto simp: adjacency_value)
  next
    case (two t)
    then show ?thesis using 3(3,4) comma [of "(Number, t)"]
      by (auto simp: adjacency_value adjacency_minus before_value)
  qed
qed

text \<open>A step in front of which a closing bracket or the source stands.\<close>

definition before_dot :: "GremlinToken \<Rightarrow> bool" where
  "before_dot p \<longleftrightarrow> p = bracket_close \<or> p = mk (Identifier, ''g'')"

lemma adjacency_member:
  assumes "before_dot p" "name_ok n" "lower n \<notin> set ALLOWED_ARG_TOKENS"
  shows "adjacency_loop st p (mk (Punctuation, ''.'') # mk (Identifier, n) # bracket_open # rest) =
    adjacency_loop (''('' # st) bracket_open rest"
proof -
  have n: "\<not> opener n" "\<not> closer n" "n \<notin> {'','', '':'', ''-''}"
    using assms(2) other_not_bracket(2)
    by (auto simp: name_ok_def is_identifier_start_def is_alpha_ascii_def is_upper_ascii_def is_lower_ascii_def code_def)
  have "\<not> bad_neighbours p (mk (Punctuation, ''.''))"
    using assms(1) by (auto simp: before_dot_def bad_neighbours_def value_kind_def)
  moreover have "\<not> bad_neighbours (mk (Punctuation, ''.'')) (mk (Identifier, n))" by (simp add: bad_neighbours_def)
  moreover have "\<not> bad_neighbours (mk (Identifier, n)) bracket_open"
    using assms(3) n by (simp add: bad_neighbours_def value_kind_def)
  ultimately show ?thesis using n by (simp add: adjacency_step)
qed

lemma adjacency_anonymous:
  assumes "name_ok n" "lower n \<notin> set ALLOWED_ARG_TOKENS"
  shows "adjacency_loop st bracket_open (mk (Identifier, n) # bracket_open # bracket_close # rest) =
    adjacency_loop st bracket_close rest"
proof -
  have n: "\<not> opener n" "\<not> closer n" "n \<notin> {'','', '':'', ''-''}"
    using assms(1) other_not_bracket(2)
    by (auto simp: name_ok_def is_identifier_start_def is_alpha_ascii_def is_upper_ascii_def is_lower_ascii_def code_def)
  have "\<not> bad_neighbours bracket_open (mk (Identifier, n))" "\<not> bad_neighbours bracket_open bracket_close"
    "\<not> bad_neighbours (mk (Identifier, n)) bracket_open"
    using assms(2) n by (simp_all add: bad_neighbours_def value_kind_def)
  then show ?thesis using n by (simp add: adjacency_step)
qed

lemma adjacency_chain:
  assumes "read_chain ss" "before_dot p"
  shows "adjacency_loop st p (map mk (chain_tokens ss) @ rest) =
    adjacency_loop st (if ss = [] then p else bracket_close) rest"
  using assms
proof (induction ss arbitrary: p rest st rule: chain_tokens.induct)
  case (2 n vs ss)
  have a: "lower n \<notin> set ALLOWED_ARG_TOKENS" using 2(2) read_names(2) [of n] by simp
  have b: "before_dot bracket_close" by (simp add: before_dot_def)
  have "adjacency_loop st p (map mk (chain_tokens (Step n vs # ss)) @ rest) =
    adjacency_loop (''('' # st) bracket_open (map mk (sep_tokens (map lit_tokens vs)) @ bracket_close # map mk (chain_tokens ss) @ rest)"
    using adjacency_member [OF 2(3) _ a] 2(2) by (simp add: mk_brackets)
  also have "\<dots> = adjacency_loop st bracket_close (map mk (chain_tokens ss) @ rest)"
    using adjacency_args [of vs bracket_open] 2(2) by simp
  finally show ?case using 2(1) [OF _ b] 2(2) by simp
next
  case (3 n m inner ss)
  have a: "lower n \<notin> set ALLOWED_ARG_TOKENS" "lower m \<notin> set ALLOWED_ARG_TOKENS"
    using 3(3) read_names(2) [of n] read_names(2) [of m] by simp_all
  have b: "before_dot bracket_close" by (simp add: before_dot_def)
  have cl: "adjacency_loop (''('' # st) bracket_close (bracket_close # r) = adjacency_loop st bracket_close r" for r
    using adjacency_step [of bracket_close bracket_close "''('' # st" r] by (simp add: bad_neighbours_def)
  have "adjacency_loop st p (map mk (chain_tokens (Anonymous n m inner # ss)) @ rest) =
    adjacency_loop (''('' # st) bracket_close (map mk (chain_tokens inner) @ bracket_close # map mk (chain_tokens ss) @ rest)"
    using adjacency_member [OF 3(4) _ a(1)] adjacency_anonymous [OF _ a(2)] 3(3)
    by (simp add: mk_brackets)
  also have "\<dots> = adjacency_loop st bracket_close (map mk (chain_tokens ss) @ rest)"
    using 3(1) [OF _ b] 3(3) cl by simp
  finally show ?case using 3(2) [OF _ b] 3(3) by simp
qed simp_all

lemma members_append: "members_named ts \<Longrightarrow> members_named us \<Longrightarrow> members_named (ts @ us)"
  by (induction ts) (auto split: list.splits)

lemma scalar_no_dot: "scalar v \<Longrightarrow> list_all (\<lambda>k. snd k \<notin> {''.'', [CHR 0x7B], [CHR 0x7D]}) (lit_tokens v)"
  by (cases v rule: scalar_tokens) (auto simp: value_token_def)

lemma sep_list_all: "list_all (list_all P) kss \<Longrightarrow> P (Punctuation, '','') \<Longrightarrow> list_all P (sep_tokens kss)"
  by (induction kss rule: sep_tokens.induct) auto

lemma args_no_dot: "list_all scalar vs \<Longrightarrow> list_all (\<lambda>k. snd k \<notin> {''.'', [CHR 0x7B], [CHR 0x7D]}) (sep_tokens (map lit_tokens vs))"
  using scalar_no_dot by (intro sep_list_all) (auto simp: list_all_iff)

lemma no_dot_members: "list_all (\<lambda>k. snd k \<notin> {''.'', [CHR 0x7B], [CHR 0x7D]}) ks \<Longrightarrow> members_named (map mk ks @ ts) = members_named ts"
  by (induction ks) auto

lemma name_no_brace: "name_ok n \<Longrightarrow> n \<notin> {''.'', [CHR 0x7B], [CHR 0x7D]}"
  by (auto simp: name_ok_def is_identifier_start_def is_alpha_ascii_def is_upper_ascii_def is_lower_ascii_def code_def)

lemma chain_members: "read_chain ss \<Longrightarrow> members_named (map mk (chain_tokens ss) @ ts) = members_named ts"
proof (induction ss arbitrary: ts rule: chain_tokens.induct)
  case (2 n vs ss)
  then show ?case using no_dot_members [OF args_no_dot] name_no_brace [of n] by auto
next
  case (3 n m inner ss)
  then show ?case using name_no_brace [of n] name_no_brace [of m] by auto
qed simp_all

lemma chain_braces: "read_chain ss \<Longrightarrow> list_all (\<lambda>x. snd x \<notin> {[CHR 0x7B], [CHR 0x7D]}) (chain_tokens ss)"
proof (induction ss rule: chain_tokens.induct)
  case (2 n vs ss)
  then show ?case using args_no_dot [of vs] name_no_brace [of n] by (auto simp: list_all_iff)
next
  case (3 n m inner ss)
  then show ?case using name_no_brace [of n] name_no_brace [of m] by auto
qed simp_all

lemma scalar_regular: "scalar v \<Longrightarrow> regular v"
  by (cases v) auto

lemma read_chain_ok: "read_chain ss \<Longrightarrow> chain_ok ss"
  by (induction ss rule: read_chain.induct) (auto simp: list_all_iff scalar_regular)

lemma chain_is_safe:
  assumes "read_chain (Step r vs # ss)" "r = ''V'' \<or> r = ''E''"
  shows "classify_gremlin_read_safety (''g'' @ chain_text (Step r vs # ss)) = safe"
proof -
  let ?c = "Step r vs # ss" and ?g = "mk (Identifier, ''g'')"
  note ok = lex_chain [OF read_chain_ok [OF assms(1)]]
  have calls: "set (map lower (chain_calls ss)) \<subseteq> set READ_METHODS" if "read_chain ss" for ss
    using that by (induction ss rule: read_chain.induct) (auto intro: read_names(3))
  show ?thesis
  proof (rule safe_by_tokens [OF ok, where ms = "map lower (chain_calls ?c)"])
    show "\<not> adjacency_loop [] ?g (map mk (chain_tokens ?c))"
      using adjacency_chain [OF assms(1), of ?g "[]" "[]"] by (simp add: before_dot_def)
    have low: "lower ''V'' = ''v''" "lower ''E'' = ''e''" "lower ''g'' = ''g''" by code_simp+
    show "rooted (map mk ((Identifier, ''g'') # chain_tokens ?c))"
      using assms(2) by (auto simp: rooted_def low)
    show "members_named (map mk ((Identifier, ''g'') # chain_tokens ?c))"
      using chain_members [OF assms(1), of "[]"] by simp
    have g: "analyze_token None ?g n start_state = start_state" if "n = Some (mk (Punctuation, ''.''))" for n
      using that by (simp add: analyze_token_def Let_def lower_def lower_char_def is_upper_ascii_def code_def)
    have "analyze_loop None (map mk ((Identifier, ''g'') # chain_tokens ?c)) start_state =
      analyze_loop (Some ?g) (map mk (chain_tokens ?c) @ []) start_state"
      by (simp add: g)
    also have "\<dots> = start_state\<lparr>st_methods := map lower (chain_calls ?c)\<rparr>"
      using analyze_chain [OF assms(1), of ?g "[]" start_state]
      by (simp add: start_state_def)
    finally show "analyze_loop None (map mk ((Identifier, ''g'') # chain_tokens ?c)) start_state =
      start_state\<lparr>st_methods := map lower (chain_calls ?c)\<rparr>" .
    show "set (map lower (chain_calls ?c)) \<subseteq> set READ_METHODS" by (rule calls [OF assms(1)])
    show "list_all (\<lambda>x. snd x \<notin> {[CHR 0x7B], [CHR 0x7D]}) ((Identifier, ''g'') # chain_tokens ?c)"
      using chain_braces [OF assms(1)] by simp
  qed
qed

section \<open>Which generated reads pass\<close>

text \<open>The literals of a chain, and the two conditions that \<open>scalar\<close> joins.\<close>

fun flat :: "py \<Rightarrow> bool" where
  "flat (PList xs) = False"
| "flat (PTuple xs) = False"
| "flat (PDict d) = False"
| "flat v = regular v"

fun marker_free :: "py \<Rightarrow> bool" where
  "marker_free (PStr s) = (\<not> has_marker (groovy_string s))"
| "marker_free v = True"

fun chain_literals :: "gstep list \<Rightarrow> py list" where
  "chain_literals [] = []"
| "chain_literals (Step n vs # ss) = vs @ chain_literals ss"
| "chain_literals (Anonymous n m inner # ss) = chain_literals inner @ chain_literals ss"
| "chain_literals (Id_Property v # ss) = v # chain_literals ss"

fun read_steps :: "gstep list \<Rightarrow> bool" where
  "read_steps [] = True"
| "read_steps (Step n vs # ss) = (name_ok n \<and> lower n \<in> set READ_METHODS \<and> list_all flat vs \<and> read_steps ss)"
| "read_steps (Anonymous n m inner # ss) = (name_ok n \<and> name_ok m \<and> lower n \<in> set READ_METHODS \<and>
     lower m \<in> set ANONYMOUS_READ_METHODS \<and> read_steps inner \<and> read_steps ss)"
| "read_steps (Id_Property v # ss) = False"

lemma scalar_iff: "scalar v \<longleftrightarrow> flat v \<and> marker_free v"
  by (cases v) auto

lemma read_chain_iff: "read_steps ss \<Longrightarrow> read_chain ss \<longleftrightarrow> list_all marker_free (chain_literals ss)"
  by (induction ss rule: read_steps.induct) (auto simp: list_all_iff scalar_iff)

lemma read_steps_append [simp]: "read_steps (ss @ ts) \<longleftrightarrow> read_steps ss \<and> read_steps ts"
  by (induction ss rule: read_steps.induct) auto

lemma chain_literals_append [simp]: "chain_literals (ss @ ts) = chain_literals ss @ chain_literals ts"
  by (induction ss rule: chain_literals.induct) auto

lemma flat_regular: "flat v \<Longrightarrow> regular v"
  by (cases v) auto

lemma read_steps_ok: "read_steps ss \<Longrightarrow> chain_ok ss"
  by (induction ss rule: read_steps.induct) (auto simp: list_all_iff flat_regular)

lemma sep_tokens_member: "ks \<in> set kss \<Longrightarrow> set ks \<subseteq> set (sep_tokens kss)"
  by (induction kss rule: sep_tokens.induct) auto

lemma literal_tokens: "v \<in> set (chain_literals ss) \<Longrightarrow> set (lit_tokens v) \<subseteq> set (chain_tokens ss)"
proof (induction ss rule: chain_tokens.induct)
  case (2 n vs ss)
  then show ?case using sep_tokens_member [of "lit_tokens v" "map lit_tokens vs"] by auto
qed auto

lemma read_tokens_strings:
  "read_tokens p ts \<Longrightarrow> t \<in> set ts \<Longrightarrow> tk_kind t = String \<Longrightarrow> \<not> has_marker (tk_value t)"
  by (induction p ts rule: read_tokens.induct) (auto simp: explained_def Let_def)

lemma chain_safe_iff:
  assumes "read_steps (Step r vs # ss)" "r = ''V'' \<or> r = ''E''"
  shows "classify_gremlin_read_safety (''g'' @ chain_text (Step r vs # ss)) = safe \<longleftrightarrow>
    list_all marker_free (chain_literals (Step r vs # ss))"
proof
  let ?c = "Step r vs # ss" and ?q = "''g'' @ chain_text (Step r vs # ss)"
  assume safe: "classify_gremlin_read_safety ?q = safe"
  have "marker_free v" if "v \<in> set (chain_literals ?c)" for v
  proof (cases v)
    case (PStr s)
    then have "(String, groovy_string s) \<in> set (map tok (lx_tokens (lex_gremlin_query ?q)))"
      using literal_tokens [OF that] lex_chain(1) [OF read_steps_ok [OF assms(1)]] by simp
    then obtain t where "t \<in> set (lx_tokens (lex_gremlin_query ?q))" "tk_kind t = String" "tk_value t = groovy_string s"
      by (auto simp: tok_def)
    moreover have "read_tokens None (lx_tokens (lex_gremlin_query ?q))"
      using safe_read_traversal [OF safe] by (simp add: read_traversal_def)
    ultimately show ?thesis using read_tokens_strings PStr by (metis marker_free.simps(1))
  qed simp_all
  then show "list_all marker_free (chain_literals ?c)" unfolding list_all_iff by blast
next
  assume "list_all marker_free (chain_literals (Step r vs # ss))"
  then show "classify_gremlin_read_safety (''g'' @ chain_text (Step r vs # ss)) = safe"
    using chain_is_safe [OF _ assms(2)] read_chain_iff [OF assms(1)] by blast
qed

text \<open>A match on flat values, its steps and its literals.\<close>

definition flat_match :: "py_dict \<Rightarrow> bool" where
  "flat_match m \<longleftrightarrow> list_all (\<lambda>kv. flat (snd kv)) m"

definition match_literals :: "py_dict \<Rightarrow> py list" where
  "match_literals m = concat (map (\<lambda>kv. if fst kv = ''id'' then [snd kv] else [PStr (fst kv), snd kv]) m)"

lemma read_step_names:
  "lower ''hasId'' \<in> set READ_METHODS" "lower ''has'' \<in> set READ_METHODS" "lower ''V'' \<in> set READ_METHODS"
  "lower ''E'' \<in> set READ_METHODS" "lower ''hasLabel'' \<in> set READ_METHODS" "lower ''outE'' \<in> set READ_METHODS"
  "lower ''where'' \<in> set READ_METHODS" "lower ''limit'' \<in> set READ_METHODS" "lower ''elementMap'' \<in> set READ_METHODS"
  "lower ''inV'' \<in> set ANONYMOUS_READ_METHODS"
  by code_simp+

lemma match_read_steps: "flat_match m \<Longrightarrow> read_steps (map match_step m)"
  by (induction m) (auto simp: flat_match_def step_names read_step_names)

lemma match_chain_literals: "chain_literals (map match_step m) = match_literals m"
  by (induction m) (auto simp: match_literals_def)

text \<open>The query that looks a vertex up by its label and its match passes the read gate exactly when
  no string in it holds one of the markers \<open>${\<close>, \<open>#{\<close> and \<open>->\<close>; no other value can make it fail.\<close>

theorem vertex_match_safe_iff:
  assumes "vertex_match_query operation = Inr q" "map_of operation ''label'' = Some l" "flat l"
    and "map_of operation ''match'' = Some (PDict m)" "flat_match m"
  shows "is_safe_gremlin_read q \<longleftrightarrow> list_all marker_free (l # match_literals m)"
proof -
  have q: "q = ''g'' @ chain_text (Step ''V'' [] # Step ''hasLabel'' [l] # map match_step m)"
    using assms(1,2,4) by (auto simp: vertex_match_query_def match_steps_def key_val_def has_steps_chain)
  show ?thesis
    unfolding is_safe_gremlin_read_def q
    by (subst chain_safe_iff) (use assms(3,5) in \<open>simp_all add: step_names read_step_names match_read_steps match_chain_literals\<close>)
qed

definition demo_match :: "string \<Rightarrow> py_dict" where
  "demo_match name = [(''label'', PStr ''person''), (''match'', PDict [(''name'', PStr name), (''age'', PInt 3)])]"

lemma demo_match_query: "\<exists>q. vertex_match_query (demo_match name) = Inr q"
  by (simp add: demo_match_def vertex_match_query_def key_val_def match_steps_def)

theorem vertex_match_safe_iff_witness:
  "\<exists>q r. vertex_match_query (demo_match ''drop()'') = Inr q \<and> is_safe_gremlin_read q \<and>
     vertex_match_query (demo_match ''a->b'') = Inr r \<and> \<not> is_safe_gremlin_read r"
proof -
  let ?m = "\<lambda>name. [(''name'', PStr name), (''age'', PInt 3)]"
  have iff: "is_safe_gremlin_read q \<longleftrightarrow> list_all marker_free (PStr ''person'' # match_literals (?m name))"
    if "vertex_match_query (demo_match name) = Inr q" for name q
    by (rule vertex_match_safe_iff [OF that]) (simp_all add: demo_match_def flat_match_def)
  have "list_all marker_free (PStr ''person'' # match_literals (?m ''drop()''))"
    "\<not> list_all marker_free (PStr ''person'' # match_literals (?m ''a->b''))" by code_simp+
  then show ?thesis using iff demo_match_query by blast
qed

end
