(* ===== verification/Write_Adapters.thy ===== *)
theory Write_Adapters
  imports Graph_Write_Plan Gremlin_Reads Reconciler
begin

text \<open>
  Model of \<open>hugegraph_mcp/tools/graph_write_adapter.py\<close>: the adapters that execute the operations of a
  canonical plan through the Gremlin tools, and the readers the reconciler uses. An adapter looks at
  the graph, writes at most once, looks again and turns what it saw into a receipt.

  The state of a stored plan is frozen: a nested mapping is a \<open>MappingProxyType\<close>, which the literal
  printer does not know, so a literal that holds one raises.
\<close>

section \<open>Surroundings\<close>

definition AMBIGUOUS_ERRORS :: "ErrorType list" where
  "AMBIGUOUS_ERRORS = [CONNECTION_FAILED, SERVER_ERROR, TIMEOUT, WRITE_OUTCOME_UNKNOWN]"

text \<open>
  What an adapter reaches: the Gremlin tools with the configuration, the clock, and the plan records of
  the store, which it sees as part of the state it works on.
\<close>

record 'b adapter_env =
  ae_gateway :: "'b gateway"
  ae_now :: int
  ae_record :: "'b \<Rightarrow> string \<Rightarrow> PlanRecord option"

section \<open>Literals of frozen values\<close>

fun has_mapping :: "py \<Rightarrow> bool" where
  "has_mapping (PDict d) = True"
| "has_mapping (PList xs) = list_ex has_mapping xs"
| "has_mapping (PTuple xs) = list_ex has_mapping xs"
| "has_mapping v = False"

definition frozen_literal :: "py \<Rightarrow> string res" where
  "frozen_literal v = (if has_mapping v then Inl (TypeError ''Object of type mappingproxy is not JSON serializable'')
     else Inr (groovy v))"

definition frozen_steps :: "py_dict \<Rightarrow> string res" where
  "frozen_steps m = and_then (map_res (\<lambda>kv. and_then (frozen_literal (snd kv)) (\<lambda>_. Inr (has_step kv))) m)
     (\<lambda>steps. Inr (concat steps))"

text \<open>The values that \<open>_write_query\<close> prints.\<close>

definition write_literals :: "py_dict \<Rightarrow> py list" where
  "write_literals m =
     (let props = (case dget m ''properties'' of PDict d \<Rightarrow> map snd d | _ \<Rightarrow> []) in
      if op_name m = ''create_vertex'' then dget m ''label'' # dget m ''id'' # props
      else if op_name m = ''create_edge'' then dget m ''source_id'' # dget m ''target_id'' # dget m ''label'' # props
      else [dget m ''target_id''])"

definition frozen_write_query :: "py_dict \<Rightarrow> string res" where
  "frozen_write_query m = and_then (write_query m) (\<lambda>q.
     if list_ex has_mapping (write_literals m)
     then Inl (TypeError ''Object of type mappingproxy is not JSON serializable'') else Inr q)"

section \<open>Reading elements\<close>

definition read_elements :: "'b gateway \<Rightarrow> string \<Rightarrow> 'b \<Rightarrow> py list res \<times> 'b" where
  "read_elements g query b =
     (let (ans, b') = execute_gremlin_read g ''warn'' query b in
      (case an_response ans of
         envelope_err t m s d \<Rightarrow> Inl (RuntimeError (error_value t))
       | envelope_ok data \<Rightarrow> (case unwrap_data data of
           PNone \<Rightarrow> Inr []
         | PList xs \<Rightarrow> Inr xs
         | v \<Rightarrow> Inr [v]), b'))"

definition id_key :: "string \<Rightarrow> bool" where
  "id_key k \<longleftrightarrow> lower k \<in> {''id'', ''t.id'', ''~id''} \<or> ends_with (lower k) '' id''"

definition label_key :: "string \<Rightarrow> bool" where
  "label_key k \<longleftrightarrow> lower k \<in> {''label'', ''t.label'', ''~label''} \<or> ends_with (lower k) '' label''"

fun normalize_items :: "py_dict \<Rightarrow> py_dict \<Rightarrow> py_dict" where
  "normalize_items acc [] = acc"
| "normalize_items acc ((k, v) # d) = normalize_items
     (dset (if id_key k then ''id'' else if label_key k then ''label'' else k) v acc) d"

definition normalize_element :: "py \<Rightarrow> py_dict" where
  "normalize_element e = (case e of PDict d \<Rightarrow> normalize_items [] d | _ \<Rightarrow> [(''value'', e)])"

section \<open>Observed states\<close>

definition copy_key :: "py_dict \<Rightarrow> string \<Rightarrow> py_dict \<Rightarrow> py_dict res" where
  "copy_key desired k state = and_then (key_val desired k) (\<lambda>v. and_then (py_mapping v) (\<lambda>d. Inr (dset k (PDict d) state)))"

definition create_observed_state :: "py list \<Rightarrow> OperationPlan \<Rightarrow> py_dict res" where
  "create_observed_state elements o' =
     (case elements of
        [] \<Rightarrow> Inr [(''exists'', PBool False)]
      | [e] \<Rightarrow>
        let element = normalize_element e; desired = op_desired o' in
        and_then (key_val desired ''element_type'') (\<lambda>kind.
        let state = [(''exists'', PBool True), (''element_type'', kind), (''label'', dget element ''label''),
              (''properties'', PDict (filter (\<lambda>kv. fst kv \<noteq> ''id'' \<and> fst kv \<noteq> ''label'') element))]
        in and_then (if has_key desired ''identity'' then copy_key desired ''identity'' state else Inr state) (\<lambda>state.
           and_then (if has_key desired ''source'' then
               and_then (copy_key desired ''source'' state) (\<lambda>st.
               and_then (copy_key desired ''target'' st) (\<lambda>st. copy_key desired ''identity_properties'' st))
             else Inr state) (\<lambda>state.
           Inr (if has_key element ''id'' then dset ''id'' (dget element ''id'') state else state))))
      | _ \<Rightarrow> Inr [(''exists'', PBool True), (''ambiguous'', PBool True), (''matched_count'', PInt (int (length elements)))])"

definition classify_create :: "py_dict \<Rightarrow> OperationPlan \<Rightarrow> ApplyStatus" where
  "classify_create observed o' =
     (if dget observed ''exists'' = PBool False then ApplyStatus.RETRYABLE_NOT_APPLIED
      else if truthy (dget observed ''ambiguous'') then ApplyStatus.CONFLICT
      else if dict_eq (dpop ''id'' observed) (op_desired o') then ApplyStatus.APPLIED
      else ApplyStatus.CONFLICT)"

definition reconcile_create_state :: "py_dict \<Rightarrow> OperationPlan \<Rightarrow> py_dict" where
  "reconcile_create_state observed o' =
     (let st = classify_create observed o' in
      if st = ApplyStatus.APPLIED then op_desired o'
      else if st = ApplyStatus.RETRYABLE_NOT_APPLIED then op_expected o'
      else observed)"

text \<open>\<open>g.V()\<close> with a label and the identity of the vertex.\<close>

definition read_vertex :: "'b adapter_env \<Rightarrow> OperationPlan \<Rightarrow> 'b \<Rightarrow> py_dict res \<times> 'b" where
  "read_vertex env o' =
     st_then (st_lift (and_then (key_val (op_target o') ''identity'') py_mapping)) (\<lambda>identity.
     st_then (st_lift (and_then (key_val (op_desired o') ''label'') frozen_literal)) (\<lambda>label.
     st_then (st_lift (if has_key identity ''id''
         then and_then (frozen_literal (dget identity ''id'')) (\<lambda>t. Inr (''.hasId('' @ t @ '')''))
         else and_then (and_then (key_val identity ''primary_keys'') py_mapping) frozen_steps)) (\<lambda>steps.
     st_then (read_elements (ae_gateway env) (''g.V().hasLabel('' @ label @ '')'' @ steps @ ''.limit(2).elementMap()'')) (\<lambda>es.
     st_lift (create_observed_state es o')))))"

definition read_edge :: "'b adapter_env \<Rightarrow> OperationPlan \<Rightarrow> py \<Rightarrow> py \<Rightarrow> 'b \<Rightarrow> py_dict res \<times> 'b" where
  "read_edge env o' source_id target_id =
     st_then (st_lift (frozen_literal source_id)) (\<lambda>s.
     st_then (st_lift (and_then (key_val (op_desired o') ''label'') frozen_literal)) (\<lambda>label.
     st_then (st_lift (frozen_literal target_id)) (\<lambda>t.
     st_then (st_lift (and_then (and_then (key_val (op_target o') ''identity_properties'') py_mapping) frozen_steps)) (\<lambda>steps.
     st_then (read_elements (ae_gateway env) (''g.V('' @ s @ '').outE('' @ label @ '').where(inV().hasId('' @ t @ ''))''
         @ steps @ ''.limit(2).elementMap()'')) (\<lambda>es.
     st_lift (create_observed_state es o'))))))"

definition read_delete_target :: "'b adapter_env \<Rightarrow> OperationPlan \<Rightarrow> 'b \<Rightarrow> py_dict res \<times> 'b" where
  "read_delete_target env o' =
     (let expected = op_expected o' in
      st_then (st_lift (key_val expected ''element_type'')) (\<lambda>kind.
      st_then (st_lift (key_val expected ''id'')) (\<lambda>i.
      st_then (st_lift (frozen_literal i)) (\<lambda>t.
      st_then (read_elements (ae_gateway env)
         ((if kind = PStr ''vertex'' then ''g.V'' else ''g.E'') @ ''('' @ t @ '').limit(2).elementMap()'')) (\<lambda>es.
      case es of
        [] \<Rightarrow> st_then (st_lift (key_val expected ''label'')) (\<lambda>l.
          st_lift (Inr [(''exists'', PBool False), (''element_type'', kind), (''id'', i), (''label'', l)]))
      | [e] \<Rightarrow> (let element = normalize_element e in
          st_lift (Inr [(''exists'', PBool True), (''element_type'', kind),
            (''id'', if has_key element ''id'' then dget element ''id'' else i), (''label'', dget element ''label'')]))
      | _ \<Rightarrow> st_lift (Inr [(''exists'', PBool True), (''ambiguous'', PBool True)]))))))"

section \<open>Endpoints\<close>

text \<open>The identifier that the receipt of a dependency observed.\<close>

definition receipt_vertex_id :: "PlanRecord \<Rightarrow> py \<Rightarrow> py" where
  "receipt_vertex_id rec dep =
     (case find (\<lambda>r. py_eq (PStr (or_id r)) dep) (rec_ops rec) of
        None \<Rightarrow> PNone
      | Some row \<Rightarrow> (case or_receipt row of
          Some (PDict receipt) \<Rightarrow> (case dget receipt ''observed_state'' of PDict obs \<Rightarrow> dget obs ''id'' | _ \<Rightarrow> PNone)
        | _ \<Rightarrow> PNone))"

definition resolve_endpoint_id :: "'b adapter_env \<Rightarrow> WritePlan \<Rightarrow> OperationPlan \<Rightarrow> string \<Rightarrow> 'b \<Rightarrow> py res \<times> 'b" where
  "resolve_endpoint_id env plan o' endpoint b =
     (and_then (and_then (key_val (op_target o') endpoint) py_mapping) (\<lambda>target.
        if has_key target ''id'' then Inr (dget target ''id'')
        else and_then (key_val target ''operation_id'') (\<lambda>dep.
          if \<not> has_safe_write_store (gw_cfg (ae_gateway env)) then
            Inl (PlanStoreUnavailableError ''The configured plan store is not safe for this write topology'')
          else case ae_record env b (wp_id plan) of
              None \<Rightarrow> Inl (RuntimeError ''dependency plan is unavailable'')
            | Some rec \<Rightarrow>
              if none_or_empty (receipt_vertex_id rec dep)
              then Inl (RuntimeError ''dependency receipt has no stable vertex ID'')
              else Inr (receipt_vertex_id rec dep))), b)"

definition mutation_of :: "OperationPlan \<Rightarrow> py_dict res" where
  "mutation_of o' = and_then (key_val (op_target o') ''mutation'') py_mapping"

definition endpoint_conflict :: "string \<Rightarrow> py \<Rightarrow> py \<Rightarrow> int \<Rightarrow> py_dict" where
  "endpoint_conflict endpoint i label n =
     [(''exists'', PBool True), (''endpoint'', PStr endpoint), (''id'', i), (''label'', label), (''matched_count'', PInt n)]"

fun check_endpoints :: "'b adapter_env \<Rightarrow> (string \<times> py \<times> py) list \<Rightarrow> 'b \<Rightarrow> py_dict option res \<times> 'b" where
  "check_endpoints env [] b = (Inr None, b)"
| "check_endpoints env ((endpoint, i, label) # checks) b =
     st_then (st_lift (frozen_literal i)) (\<lambda>t.
     st_then (st_lift (frozen_literal label)) (\<lambda>l.
     st_then (read_elements (ae_gateway env) (''g.V('' @ t @ '').hasLabel('' @ l @ '').limit(2).elementMap()'')) (\<lambda>es b'.
       if length es \<noteq> 1 then (Inr (Some (endpoint_conflict endpoint i label (int (length es)))), b')
       else check_endpoints env checks b'))) b"

definition validate_edge_endpoints :: "'b adapter_env \<Rightarrow> OperationPlan \<Rightarrow> py \<Rightarrow> py \<Rightarrow> 'b \<Rightarrow> py_dict option res \<times> 'b" where
  "validate_edge_endpoints env o' s t =
     st_then (st_lift (mutation_of o')) (\<lambda>m.
       check_endpoints env [(''source'', s, endpoint_label ''source_label'' ''outVLabel'' m),
         (''target'', t, endpoint_label ''target_label'' ''inVLabel'' m)])"

section \<open>Receipts\<close>

definition adapter_receipt ::
  "WritePlan \<Rightarrow> OperationPlan \<Rightarrow> int \<Rightarrow> ApplyStatus \<Rightarrow> py_dict \<Rightarrow> string option \<Rightarrow> bool \<Rightarrow> int option \<Rightarrow> ApplyReceipt res" where
  "adapter_receipt plan o' attempt st observed reason needs_reconcile committed =
     mk_receipt \<lparr>rc_status = st, rc_plan_id = Some (wp_id plan), rc_operation_id = Some (op_id o'),
       rc_observed = Some observed,
       rc_reason_code = Some (case reason of None \<Rightarrow> apply_value st | Some r \<Rightarrow> r), rc_attempt = attempt,
       rc_attempt_token = None, rc_reconcile = needs_reconcile, rc_committed_at = committed, rc_operation = None, rc_reason = None\<rparr>"

definition default_space :: "string option \<Rightarrow> string" where
  "default_space s = (case s of None \<Rightarrow> ''DEFAULT'' | Some t \<Rightarrow> if t = [] then ''DEFAULT'' else t)"

definition target_matches :: "MCPConfig \<Rightarrow> WritePlan \<Rightarrow> bool" where
  "target_matches cfg plan \<longleftrightarrow>
     (cfg_url cfg, cfg_graph cfg, default_space (cfg_graphspace cfg), cfg_user cfg) =
     (gt_url (wp_target plan), gt_name (wp_target plan), default_space (gt_space (wp_target plan)), wp_principal plan)"

definition mismatch_receipt :: "WritePlan \<Rightarrow> OperationPlan \<Rightarrow> int \<Rightarrow> ApplyReceipt res" where
  "mismatch_receipt plan o' attempt =
     adapter_receipt plan o' attempt ApplyStatus.REJECTED [(''target_matches'', PBool False)] (Some ''TARGET_CHANGED'') False None"

definition is_ambiguous_write_result :: "answer \<Rightarrow> bool" where
  "is_ambiguous_write_result ans = (case an_response ans of
      envelope_ok d \<Rightarrow> False
    | envelope_err t m s d \<Rightarrow> t \<in> set AMBIGUOUS_ERRORS)"

definition post_write_status :: "OperationPlan \<Rightarrow> answer \<Rightarrow> ApplyStatus \<Rightarrow> ApplyStatus \<times> string" where
  "post_write_status o' result observed_status =
     (if observed_status = ApplyStatus.CONFLICT \<and> op_kind o' \<in> {CREATE_VERTEX, CREATE_EDGE} \<and> is_ok (an_response result)
      then (ApplyStatus.UNKNOWN, ''POST_CREATE_IDENTITY_AMBIGUOUS'')
      else if observed_status = ApplyStatus.CONFLICT then (ApplyStatus.CONFLICT, ''POST_WRITE_STATE_CONFLICT'')
      else if is_ambiguous_write_result result then (ApplyStatus.UNKNOWN, ''WRITE_RESULT_AMBIGUOUS'')
      else (ApplyStatus.REJECTED, ''WRITE_REJECTED_WITHOUT_SIDE_EFFECT''))"

definition post_write_receipt ::
  "WritePlan \<Rightarrow> OperationPlan \<Rightarrow> int \<Rightarrow> answer \<Rightarrow> ApplyStatus \<Rightarrow> py_dict \<Rightarrow> ApplyReceipt res" where
  "post_write_receipt plan o' attempt result observed_status observed =
     (let (st, reason) = post_write_status o' result observed_status
      in adapter_receipt plan o' attempt st observed (Some reason) (st = ApplyStatus.UNKNOWN) None)"

definition write_graph :: "'b adapter_env \<Rightarrow> py_dict \<Rightarrow> 'b \<Rightarrow> answer res \<times> 'b" where
  "write_graph env m = st_then (st_lift (frozen_write_query m)) (\<lambda>q b.
     let (ans, b') = execute_gremlin_write (ae_gateway env) DATA_WRITE q b in (Inr ans, b'))"

section \<open>The adapters\<close>

text \<open>An adapter body that raises hands the type name of the exception to the executor.\<close>

definition as_adapter :: "(WritePlan \<Rightarrow> OperationPlan \<Rightarrow> int \<Rightarrow> 'b \<Rightarrow> ApplyReceipt res \<times> 'b) \<Rightarrow> 'b adapter" where
  "as_adapter body plan o' attempt b =
     (case body plan o' attempt b of (Inl e, b') \<Rightarrow> (Inl (exc_name e), b') | (Inr r, b') \<Rightarrow> (Inr r, b'))"

text \<open>The rest of a create once the state before is known; \<open>look\<close> reads it again.\<close>

definition finish_create ::
  "'b adapter_env \<Rightarrow> WritePlan \<Rightarrow> OperationPlan \<Rightarrow> int \<Rightarrow> py_dict \<Rightarrow> py_dict \<Rightarrow> py_dict res
   \<Rightarrow> ('b \<Rightarrow> py_dict res \<times> 'b) \<Rightarrow> 'b \<Rightarrow> ApplyReceipt res \<times> 'b" where
  "finish_create env plan o' attempt before extra mutation look =
     (let classified = classify_create before o' in
      if classified \<noteq> ApplyStatus.RETRYABLE_NOT_APPLIED then
        st_lift (adapter_receipt plan o' attempt
          (if classified = ApplyStatus.APPLIED then ApplyStatus.ALREADY_APPLIED else classified) before None False None)
      else st_then (st_lift mutation) (\<lambda>m.
        st_then (write_graph env m) (\<lambda>result.
        st_then look (\<lambda>after.
        st_lift (if classify_create after o' = ApplyStatus.APPLIED
          then adapter_receipt plan o' attempt ApplyStatus.APPLIED (fold (\<lambda>(k, v). dset k v) extra after) None False
            (Some (ae_now env))
          else post_write_receipt plan o' attempt result (classify_create after o') after)))))"

definition create_vertex_adapter :: "'b adapter_env \<Rightarrow> WritePlan \<Rightarrow> OperationPlan \<Rightarrow> int \<Rightarrow> 'b \<Rightarrow> ApplyReceipt res \<times> 'b" where
  "create_vertex_adapter env plan o' attempt =
     (if \<not> target_matches (gw_cfg (ae_gateway env)) plan then st_lift (mismatch_receipt plan o' attempt)
      else st_then (read_vertex env o') (\<lambda>before.
        finish_create env plan o' attempt before [] (mutation_of o') (read_vertex env o')))"

definition create_edge_adapter :: "'b adapter_env \<Rightarrow> WritePlan \<Rightarrow> OperationPlan \<Rightarrow> int \<Rightarrow> 'b \<Rightarrow> ApplyReceipt res \<times> 'b" where
  "create_edge_adapter env plan o' attempt =
     (if \<not> target_matches (gw_cfg (ae_gateway env)) plan then st_lift (mismatch_receipt plan o' attempt)
      else st_then (resolve_endpoint_id env plan o' ''source'') (\<lambda>s.
        st_then (resolve_endpoint_id env plan o' ''target'') (\<lambda>t.
        st_then (validate_edge_endpoints env o' s t) (\<lambda>conflict. case conflict of
            Some c \<Rightarrow> st_lift (adapter_receipt plan o' attempt ApplyStatus.CONFLICT c (Some ''ENDPOINT_STATE_CHANGED'') False None)
          | None \<Rightarrow> st_then (read_edge env o' s t) (\<lambda>before.
              finish_create env plan o' attempt before [(''source_id'', s), (''target_id'', t)]
                (and_then (mutation_of o') (\<lambda>m. Inr (dset ''target_id'' t (dset ''source_id'' s m))))
                (read_edge env o' s t))))))"

definition delete_vertex_adapter :: "'b adapter_env \<Rightarrow> WritePlan \<Rightarrow> OperationPlan \<Rightarrow> int \<Rightarrow> 'b \<Rightarrow> ApplyReceipt res \<times> 'b" where
  "delete_vertex_adapter env plan o' attempt = st_lift (adapter_receipt plan o' attempt ApplyStatus.REJECTED
     [(''capability'', PStr ''isolated_vertex_delete''), (''supported'', PBool False)] (Some ''FEATURE_DISABLED'') False None)"

definition delete_adapter :: "'b adapter_env \<Rightarrow> WritePlan \<Rightarrow> OperationPlan \<Rightarrow> int \<Rightarrow> 'b \<Rightarrow> ApplyReceipt res \<times> 'b" where
  "delete_adapter env plan o' attempt =
     (if \<not> target_matches (gw_cfg (ae_gateway env)) plan then st_lift (mismatch_receipt plan o' attempt)
      else st_then (read_delete_target env o') (\<lambda>before.
        if dget before ''exists'' = PBool False
        then st_lift (adapter_receipt plan o' attempt ApplyStatus.ALREADY_APPLIED before None False None)
        else if \<not> dict_eq before (op_expected o')
        then st_lift (adapter_receipt plan o' attempt ApplyStatus.CONFLICT before (Some ''DELETE_TARGET_CHANGED'') False None)
        else st_then (st_lift (mutation_of o')) (\<lambda>m.
          st_then (write_graph env m) (\<lambda>result.
          st_then (read_delete_target env o') (\<lambda>after.
          st_lift (if dget after ''exists'' = PBool False
            then adapter_receipt plan o' attempt ApplyStatus.APPLIED after None False (Some (ae_now env))
            else post_write_receipt plan o' attempt result ApplyStatus.CONFLICT after))))))"

definition delete_edge_adapter :: "'b adapter_env \<Rightarrow> WritePlan \<Rightarrow> OperationPlan \<Rightarrow> int \<Rightarrow> 'b \<Rightarrow> ApplyReceipt res \<times> 'b" where
  "delete_edge_adapter = delete_adapter"

section \<open>The readers\<close>

definition create_vertex_reader :: "'b adapter_env \<Rightarrow> 'b reader" where
  "create_vertex_reader env plan o' =
     st_then (read_vertex env o') (\<lambda>obs. st_lift (Inr (reconcile_create_state obs o')))"

definition create_edge_reader :: "'b adapter_env \<Rightarrow> 'b reader" where
  "create_edge_reader env plan o' =
     st_then (resolve_endpoint_id env plan o' ''source'') (\<lambda>s.
     st_then (resolve_endpoint_id env plan o' ''target'') (\<lambda>t.
     st_then (read_edge env o' s t) (\<lambda>obs. st_lift (Inr (reconcile_create_state obs o')))))"

definition delete_reader :: "'b adapter_env \<Rightarrow> 'b reader" where
  "delete_reader env plan o' = read_delete_target env o'"

text \<open>Only the delete of an edge is backed by a verified primitive and registered.\<close>

definition register_graph_write_adapters :: "'b adapter_env \<Rightarrow> 'b registry \<Rightarrow> 'b registry res" where
  "register_graph_write_adapters env reg = register_adapter DELETE_EDGE (as_adapter (delete_edge_adapter env)) reg"

definition register_graph_reconcile_readers :: "'b adapter_env \<Rightarrow> 'b readers \<Rightarrow> 'b readers res" where
  "register_graph_reconcile_readers env rs =
     and_then (register_reader CREATE_VERTEX (create_vertex_reader env) rs) (\<lambda>rs.
     and_then (register_reader CREATE_EDGE (create_edge_reader env) rs) (\<lambda>rs.
     and_then (register_reader DELETE_VERTEX (delete_reader env) rs) (\<lambda>rs.
     register_reader DELETE_EDGE (delete_reader env) rs)))"

section \<open>Receipts of a call\<close>

text \<open>What a receipt of \<open>adapter_receipt\<close> says, and that a receipt belongs to its call.\<close>

definition receipt_of_call :: "WritePlan \<Rightarrow> OperationPlan \<Rightarrow> int \<Rightarrow> ApplyReceipt \<Rightarrow> bool" where
  "receipt_of_call plan o' attempt r \<longleftrightarrow>
     rc_plan_id r = Some (wp_id plan) \<and> rc_operation_id r = Some (op_id o') \<and> rc_attempt r = attempt \<and> rc_attempt_token r = None \<and>
     rc_status r \<noteq> ApplyStatus.RETRYABLE_NOT_APPLIED \<and>
     (rc_reconcile r \<longleftrightarrow> rc_status r = ApplyStatus.UNKNOWN) \<and>
     (rc_committed_at r \<noteq> None \<longleftrightarrow> rc_status r = ApplyStatus.APPLIED)"

lemma adapter_receipt_Inr:
  "adapter_receipt plan o' attempt st obs reason nr c = Inr r \<longleftrightarrow>
     0 \<le> attempt \<and> r = \<lparr>rc_status = st, rc_plan_id = Some (wp_id plan), rc_operation_id = Some (op_id o'),
       rc_observed = freeze_opt (Some obs), rc_reason_code = Some (case reason of None \<Rightarrow> apply_value st | Some r \<Rightarrow> r),
       rc_attempt = attempt, rc_attempt_token = None, rc_reconcile = nr, rc_committed_at = c,
       rc_operation = None, rc_reason = None\<rparr>"
  by (auto simp: adapter_receipt_def mk_receipt_def freeze_opt_def)

lemma adapter_receipt_of_call:
  assumes "adapter_receipt plan o' attempt st obs reason nr c = Inr r"
    "st \<noteq> ApplyStatus.RETRYABLE_NOT_APPLIED" "nr \<longleftrightarrow> st = ApplyStatus.UNKNOWN" "c \<noteq> None \<longleftrightarrow> st = ApplyStatus.APPLIED"
  shows "receipt_of_call plan o' attempt r"
  using assms by (simp add: adapter_receipt_Inr receipt_of_call_def)

lemma post_write_status_cases:
  "fst (post_write_status o' result st) \<in> {ApplyStatus.UNKNOWN, ApplyStatus.CONFLICT, ApplyStatus.REJECTED}"
  by (simp add: post_write_status_def)

lemma post_write_receipt_of_call:
  "post_write_receipt plan o' attempt result st obs = Inr r \<Longrightarrow> receipt_of_call plan o' attempt r"
  using post_write_status_cases [of o' result st]
  by (auto simp: post_write_receipt_def Let_def split_def dest!: adapter_receipt_of_call)

lemma classify_create_status:
  "classify_create obs o' \<in> {ApplyStatus.RETRYABLE_NOT_APPLIED, ApplyStatus.CONFLICT, ApplyStatus.APPLIED}"
  by (simp add: classify_create_def)

lemma finish_create_of_call:
  assumes "finish_create env plan o' attempt before extra mutation look b = (Inr r, b')"
  shows "receipt_of_call plan o' attempt r"
  using assms classify_create_status [of before o']
  by (auto simp: finish_create_def Let_def res_simps split: if_splits
      dest: post_write_receipt_of_call dest!: adapter_receipt_of_call)

definition graph_adapters :: "('b adapter_env \<Rightarrow> WritePlan \<Rightarrow> OperationPlan \<Rightarrow> int \<Rightarrow> 'b \<Rightarrow> ApplyReceipt res \<times> 'b) list" where
  "graph_adapters = [create_vertex_adapter, create_edge_adapter, delete_vertex_adapter, delete_edge_adapter]"

lemma mismatch_of_call: "mismatch_receipt plan o' attempt = Inr r \<Longrightarrow> receipt_of_call plan o' attempt r"
  by (auto simp: mismatch_receipt_def dest: adapter_receipt_of_call)


section \<open>What a call sends\<close>

text \<open>The same surroundings, with every query that is sent written down.\<close>

definition traced :: "'b adapter_env \<Rightarrow> ('b \<times> graph_call list) adapter_env" where
  "traced env = \<lparr>ae_gateway = traced_gateway (ae_gateway env), ae_now = ae_now env, ae_record = (\<lambda>(b, l). ae_record env b)\<rparr>"

lemma traced_gateway_of_env [simp]: "ae_gateway (traced env) = traced_gateway (ae_gateway env)"
  by (simp add: traced_def)

text \<open>The writes that a call may send: generated queries, let through by the guard, on the planned target.\<close>

definition lawful_write :: "'b adapter_env \<Rightarrow> WritePlan \<Rightarrow> string \<Rightarrow> bool" where
  "lawful_write env plan q \<longleftrightarrow>
     guard DATA_WRITE (gw_cfg (ae_gateway env)) = None \<and> target_matches (gw_cfg (ae_gateway env)) plan \<and>
     (\<exists>mutation. frozen_write_query mutation = Inr q)"

lemma reads_only_read_elements [intro]: "reads_only (read_elements (traced_gateway g) q)"
  unfolding read_elements_def by (rule reads_only_map [OF reads_only_execute])

lemma reads_only_read_env [intro]: "reads_only (read_elements (ae_gateway (traced env)) q)"
  by (simp add: reads_only_read_elements)

lemma reads_only_if [intro]: "reads_only m \<Longrightarrow> reads_only m' \<Longrightarrow> reads_only (if c then m else m')"
  by simp

lemma reads_only_resolve [intro]: "reads_only (resolve_endpoint_id env plan o' e)"
  unfolding reads_only_def resolve_endpoint_id_def by (auto intro: exI [of _ "[]"])

lemma reads_only_read_vertex [intro]: "reads_only (read_vertex (traced env) o')"
  unfolding read_vertex_def by (intro reads_only_then reads_only_lift reads_only_read_env)

lemma reads_only_read_edge [intro]: "reads_only (read_edge (traced env) o' s t)"
  unfolding read_edge_def by (intro reads_only_then reads_only_lift reads_only_read_env)

lemma reads_only_read_delete_target [intro]: "reads_only (read_delete_target (traced env) o')"
  unfolding read_delete_target_def Let_def
  by (intro reads_only_then reads_only_lift reads_only_read_env) (auto split: list.split)

lemma reads_only_check_endpoints [intro]: "reads_only (check_endpoints (traced env) checks)"
proof (induction checks)
  case Nil
  then show ?case unfolding reads_only_def by (auto intro: exI [of _ "[]"])
next
  case (Cons c checks)
  obtain e i l where c: "c = (e, i, l)" by (cases c)
  have step: "reads_only (\<lambda>b'. if length es \<noteq> 1 then (Inr (Some (endpoint_conflict e i l (int (length es)))), b')
       else check_endpoints (traced env) checks b')" for es :: "py list"
    using Cons reads_only_lift [unfolded st_lift_def] by (cases "length es = 1") simp_all
  have "reads_only (\<lambda>b. check_endpoints (traced env) ((e, i, l) # checks) b)"
    unfolding check_endpoints.simps by (intro reads_only_then reads_only_lift reads_only_read_env step)
  then show ?case by (simp add: c)
qed

lemma reads_only_endpoints [intro]: "reads_only (validate_edge_endpoints (traced env) o' s t)"
  unfolding validate_edge_endpoints_def by (intro reads_only_then reads_only_lift reads_only_check_endpoints)

lemma writes_once_write_graph:
  assumes "target_matches (gw_cfg (ae_gateway env)) plan"
  shows "writes_once (lawful_write env plan) (write_graph (traced env) m)"
proof (cases "frozen_write_query m")
  case (Inl e)
  then have "write_graph (traced env) m = st_lift (Inl e)" by (auto simp: write_graph_def fun_eq_iff st_lift_def st_then_def)
  then show ?thesis by (simp add: writes_once_reads reads_only_lift)
next
  case (Inr q)
  have "writes_once (lawful_write env plan) (execute_gremlin_write (traced_gateway (ae_gateway env)) DATA_WRITE q)"
    by (rule writes_once_execute) (use assms Inr in \<open>auto simp: lawful_write_def\<close>)
  from writes_once_map [OF this, of Inr] show ?thesis by (simp add: write_graph_def Inr)
qed

lemma writes_once_finish_create:
  assumes "target_matches (gw_cfg (ae_gateway env)) plan" "reads_only look"
  shows "writes_once (lawful_write env plan) (finish_create (traced env) plan o' attempt before extra mutation look)"
proof (cases "classify_create before o' = ApplyStatus.RETRYABLE_NOT_APPLIED")
  case True
  show ?thesis unfolding finish_create_def Let_def using True assms
    by (auto intro!: writes_once_after_reads [OF reads_only_lift] writes_once_then_reads [OF writes_once_write_graph]
        reads_only_then [OF assms(2)])
next
  case False
  then show ?thesis by (auto simp: finish_create_def Let_def intro: writes_once_reads)
qed

text \<open>C18. Every call of an adapter reads, writes at most once and reads again: all reads are queries that
  the policy calls safe, and the write is the text of a generated mutation, which is sent only when the
  guard lets data writes through and the configured graph and user are those of the plan.\<close>

theorem adapter_looks_writes_looks:
  assumes "adapter \<in> set graph_adapters" "adapter (traced env) plan o' attempt (b, l) = (res, b', l')"
  shows "\<exists>calls. l' = l @ calls \<and> look_write_look (lawful_write env plan) calls"
proof -
  have mismatch: "writes_once (lawful_write env plan) (st_lift r)" for r :: "ApplyReceipt res"
    by (intro writes_once_reads reads_only_lift)
  have vertex: "writes_once (lawful_write env plan) (create_vertex_adapter (traced env) plan o' attempt)"
    unfolding create_vertex_adapter_def using mismatch
    by (auto intro!: writes_once_after_reads [OF reads_only_read_vertex] writes_once_finish_create)
  have edge: "writes_once (lawful_write env plan) (create_edge_adapter (traced env) plan o' attempt)"
    unfolding create_edge_adapter_def using mismatch
    by (auto intro!: writes_once_after_reads [OF reads_only_resolve] writes_once_after_reads [OF reads_only_endpoints]
        writes_once_after_reads [OF reads_only_read_edge] writes_once_finish_create split: option.split)
  have delete: "writes_once (lawful_write env plan) (delete_adapter (traced env) plan o' attempt)"
    unfolding delete_adapter_def using mismatch
    by (auto intro!: writes_once_after_reads [OF reads_only_read_delete_target] writes_once_after_reads [OF reads_only_lift]
        writes_once_then_reads [OF writes_once_write_graph] reads_only_then [OF reads_only_read_delete_target])
  have "writes_once (lawful_write env plan) (adapter (traced env) plan o' attempt)"
    using assms(1) vertex edge delete mismatch
    by (auto simp: graph_adapters_def delete_vertex_adapter_def delete_edge_adapter_def)
  then show ?thesis using assms(2) unfolding writes_once_def by (metis snd_conv)
qed

section \<open>What a success means\<close>

definition succeeded :: "ApplyReceipt \<Rightarrow> bool" where
  "succeeded r \<longleftrightarrow> rc_status r = ApplyStatus.APPLIED \<or> rc_status r = ApplyStatus.ALREADY_APPLIED"

lemma post_write_not_succeeded: "post_write_receipt plan o' attempt result st obs = Inr r \<Longrightarrow> \<not> succeeded r"
  using post_write_status_cases [of o' result st]
  by (auto simp: post_write_receipt_def adapter_receipt_Inr Let_def split_def succeeded_def)

lemma mismatch_not_succeeded: "mismatch_receipt plan o' attempt = Inr r \<Longrightarrow> \<not> succeeded r"
  by (auto simp: mismatch_receipt_def adapter_receipt_Inr succeeded_def)

lemma finish_create_success:
  assumes "finish_create env plan o' attempt before extra mutation look b = (Inr r, b')" "succeeded r"
  shows "b' = b \<and> classify_create before o' = ApplyStatus.APPLIED \<or>
    (\<exists>b0 obs. look b0 = (Inr obs, b') \<and> classify_create obs o' = ApplyStatus.APPLIED)"
proof (cases "classify_create before o' = ApplyStatus.RETRYABLE_NOT_APPLIED")
  case True
  then obtain m result b0 after where "look b0 = (Inr after, b')"
      "classify_create after o' = ApplyStatus.APPLIED \<or>
       post_write_receipt plan o' attempt result (classify_create after o') after = Inr r"
    using assms(1) by (auto simp: finish_create_def res_simps split: if_splits)
  then show ?thesis using post_write_not_succeeded assms(2) by blast
next
  case False
  then show ?thesis using assms classify_create_status [of before o']
    by (auto simp: finish_create_def res_simps adapter_receipt_Inr succeeded_def split: if_splits)
qed


section \<open>The reader and the adapter agree\<close>

lemma dict_eq_keys: "dict_eq d e \<Longrightarrow> length d = length e \<and> (\<forall>k v. map_of d k = Some v \<longrightarrow> (\<exists>w. map_of e k = Some w \<and> py_eq v w))"
  by (auto simp: dict_eq_def list_all_iff dest!: map_of_SomeD split: option.splits) fastforce

lemma observed_exists:
  assumes "create_observed_state es o' = Inr obs"
  shows "map_of obs ''exists'' = Some (PBool (es \<noteq> []))"
proof -
  have copied: "copy_key d k st = Inr st' \<Longrightarrow> k \<noteq> ''exists'' \<Longrightarrow> map_of st' ''exists'' = map_of st ''exists''" for d k st st'
    by (auto simp: copy_key_def res_simps)
  show ?thesis using assms
    by (auto simp: create_observed_state_def Let_def res_simps copied split: list.splits if_splits)
qed

text \<open>C20. The reconciler classifies an observed state of a create as the adapter does: passed through the
  reader and \<open>reconcile_operation_state\<close>, a state is applied, not applied or in conflict exactly when
  \<open>_classify_create\<close> says so, provided that the plan expects absence and desires a presence that is
  equal to itself and has neither an identifier nor an ambiguity mark.\<close>

theorem reader_agrees_with_adapter:
  assumes "create_observed_state es o' = Inr obs"
    and "op_expected o' = [(''exists'', PBool False)]" "map_of (op_desired o') ''exists'' = Some (PBool True)"
    and "dict_eq (op_desired o') (op_desired o')"
    and "map_of (op_desired o') ''id'' = None" "map_of (op_desired o') ''ambiguous'' = None"
    and "\<not> starts_with (op_kind o') ''DELETE_''"
  shows "reconcile_operation_state (op_kind o') (op_expected o') (op_desired o') (reconcile_create_state obs o') =
    classify_create obs o'"
proof -
  have ex: "map_of obs ''exists'' = Some (PBool (es \<noteq> []))" using observed_exists [OF assms(1)] .
  have desired_new: "\<not> dict_eq (op_expected o') (op_desired o')"
  proof
    assume "dict_eq (op_expected o') (op_desired o')"
    from conjunct2 [OF dict_eq_keys [OF this], rule_format, of "''exists''" "PBool False"] assms(2,3)
    show False by simp
  qed
  have expected_self: "dict_eq (op_expected o') (op_expected o')" by (simp add: assms(2) dict_eq_def)
  show ?thesis
  proof (cases "es = []")
    case True
    then have "classify_create obs o' = ApplyStatus.RETRYABLE_NOT_APPLIED" using ex by (simp add: classify_create_def dget_def)
    then show ?thesis
      using desired_new expected_self by (simp add: reconcile_create_state_def reconcile_operation_state_def)
  next
    case False
    have not_expected: "\<not> dict_eq obs (op_expected o')"
    proof
      assume "dict_eq obs (op_expected o')"
      from conjunct2 [OF dict_eq_keys [OF this], rule_format, OF ex] False assms(2) show False by simp
    qed
    show ?thesis
    proof (cases "classify_create obs o' = ApplyStatus.APPLIED")
      case True
      then show ?thesis using assms(4) by (simp add: reconcile_create_state_def reconcile_operation_state_def)
    next
      case no: False
      then have conflict: "classify_create obs o' = ApplyStatus.CONFLICT"
        using ex False by (simp add: classify_create_def dget_def split: if_splits)
      have "\<not> dict_eq obs (op_desired o')"
      proof
        assume eq: "dict_eq obs (op_desired o')"
        then have "map_of obs ''id'' = None" "map_of obs ''ambiguous'' = None"
          using dict_eq_keys [OF eq] assms(5,6) by (metis not_None_eq)+
        moreover from this have "dpop ''id'' obs = obs"
          by (auto simp: dpop_def filter_id_conv map_of_eq_None_iff split_def image_iff)
        ultimately show False using conflict eq ex False
          by (simp add: classify_create_def dget_def split: if_splits)
      qed
      then show ?thesis using conflict not_expected assms(7)
        by (simp add: reconcile_create_state_def reconcile_operation_state_def)
    qed
  qed
qed

section \<open>A small graph\<close>

text \<open>A graph with one edge or none, the plan that deletes it, and the plan that creates a vertex.\<close>

definition edge_element :: py where
  "edge_element = PDict [(''T.id'', PStr ''e1''), (''T.label'', PStr ''knows'')]"

definition small_env :: "bool adapter_env" where
  "small_env = \<lparr>ae_gateway = \<lparr>gw_cfg = parse_env (\<lambda>_. None) demo_env, gw_threshold = None, gw_address = ''host'', gw_duration = PInt 1,
       gw_read = (\<lambda>q b. (Returned (PDict [(''data'', PList (if b then [edge_element] else []))]), b)),
       gw_write = (\<lambda>q b. (Returned PNone, False))\<rparr>,
     ae_now = 50, ae_record = (\<lambda>b i. None)\<rparr>"

definition small_delete :: OperationPlan where
  "small_delete = \<lparr>op_id = ''op'', op_kind = DELETE_EDGE,
     op_target = [(''mutation'', PDict [(''op'', PStr ''delete_edge''), (''target_id'', PStr ''e1'')])],
     op_expected = [(''exists'', PBool True), (''element_type'', PStr ''edge''), (''id'', PStr ''e1''), (''label'', PStr ''knows'')],
     op_desired = [(''exists'', PBool False)], op_depends_on = [], op_idem = None\<rparr>"

definition small_plan :: WritePlan where
  "small_plan = (let cfg = gw_cfg (ae_gateway small_env) in
     \<lparr>wp_id = ''p'', wp_tool = ''t'', wp_target = \<lparr>gt_url = cfg_url cfg, gt_name = cfg_graph cfg, gt_space = cfg_graphspace cfg\<rparr>,
      wp_principal = cfg_user cfg, wp_operations = [small_delete], wp_digest = ''d'', wp_fingerprint = None, wp_status = ISSUED,
      wp_created_at = 0, wp_expires_at = 100\<rparr>)"

definition small_call :: "ApplyReceipt res \<times> bool \<times> graph_call list" where
  "small_call = delete_edge_adapter (traced small_env) small_plan small_delete 1 (True, [])"

lemma small_call_run:
  "case small_call of (Inr r, b, calls) \<Rightarrow> rc_status r = ApplyStatus.APPLIED \<and>
     calls = [Sent_Read (''g.E('' @ groovy (PStr ''e1'') @ '').limit(2).elementMap()''),
       Sent_Write (''g.E('' @ groovy (PStr ''e1'') @ '').drop()''),
       Sent_Read (''g.E('' @ groovy (PStr ''e1'') @ '').limit(2).elementMap()'')] | _ \<Rightarrow> False"
  by code_simp

lemma small_call_value:
  "case fst small_call of Inl e \<Rightarrow> False | Inr r \<Rightarrow> rc_status r = ApplyStatus.APPLIED"
  "length (snd (snd small_call)) = 3"
proof -
  obtain q b calls where c: "small_call = (q, b, calls)" by (cases small_call)
  show "case fst small_call of Inl e \<Rightarrow> False | Inr r \<Rightarrow> rc_status r = ApplyStatus.APPLIED" "length (snd (snd small_call)) = 3"
    using small_call_run unfolding c by (cases q; simp)+
qed

lemma small_adapter: "delete_edge_adapter \<in> set graph_adapters"
  by (simp add: graph_adapters_def)


theorem adapter_looks_writes_looks_witness:
  "length (snd (snd small_call)) = 3 \<and> look_write_look (lawful_write small_env small_plan) (snd (snd small_call))"
proof -
  have "delete_edge_adapter (traced small_env) small_plan small_delete 1 (True, []) =
      (fst small_call, fst (snd small_call), snd (snd small_call))"
    unfolding small_call_def by simp
  from adapter_looks_writes_looks [OF small_adapter this] show ?thesis by (simp add: small_call_value(2))
qed


definition small_create :: OperationPlan where
  "small_create = small_delete\<lparr>op_kind := CREATE_VERTEX, op_expected := [(''exists'', PBool False)],
     op_desired := [(''exists'', PBool True), (''element_type'', PStr ''vertex''), (''label'', PStr ''person''),
       (''properties'', PDict [(''name'', PStr ''n'')])]\<rparr>"

definition person_element :: py where
  "person_element = PDict [(''id'', PInt 1), (''label'', PStr ''person''), (''name'', PStr ''n'')]"

theorem reader_agrees_with_adapter_witness:
  "\<exists>obs. create_observed_state [person_element] small_create = Inr obs \<and>
     reconcile_operation_state CREATE_VERTEX [(''exists'', PBool False)] (op_desired small_create)
       (reconcile_create_state obs small_create) = ApplyStatus.APPLIED"
proof -
  let ?obs = "[(''exists'', PBool True), (''element_type'', PStr ''vertex''), (''label'', PStr ''person''),
       (''properties'', PDict [(''name'', PStr ''n'')]), (''id'', PInt 1)]"
  have obs: "create_observed_state [person_element] small_create = Inr ?obs" by code_simp
  have "classify_create ?obs small_create = ApplyStatus.APPLIED" by code_simp
  moreover have "dict_eq (op_desired small_create) (op_desired small_create)" by code_simp
  moreover have "\<not> starts_with (op_kind small_create) ''DELETE_''" by code_simp
  ultimately show ?thesis
    using reader_agrees_with_adapter [OF obs] obs by (simp add: small_create_def)
qed

end
