(* ===== verification/Graph_Ingest.thy ===== *)
theory Graph_Ingest
  imports Graph_Mapping Confirmable Gremlin_Tools "HOL-Library.Product_Lexorder" "HOL-Library.Multiset"
begin

text \<open>
  Model of \<open>hugegraph_mcp/tools/ingest_graph_data.py\<close>: the check of graph data against the live schema, the
  normal form that its digest is computed from, the resolution of endpoints to backend identifiers, the import
  through the AI service (whose execution is switched off) and the reading of that service's results. A value
  used as a key must be hashable, as in Python; a NaN is not considered as a label.
\<close>

section \<open>Keys\<close>

text \<open>A dictionary with arbitrary keys. Lists and dictionaries are not hashable.\<close>

fun hashable :: "py \<Rightarrow> bool" where
  "hashable (PList _) = False"
| "hashable (PDict _) = False"
| "hashable (PTuple xs) = list_all hashable xs"
| "hashable v = True"

definition need_hash :: "py \<Rightarrow> unit res" where
  "need_hash v = (if hashable v then Inr () else Inl (TypeError ''unhashable type''))"

definition kget :: "(py \<times> 'a) list \<Rightarrow> py \<Rightarrow> 'a option" where
  "kget d k = map_option snd (find (\<lambda>(k', v). py_eq k' k) d)"

fun kset :: "py \<Rightarrow> 'a \<Rightarrow> (py \<times> 'a) list \<Rightarrow> (py \<times> 'a) list" where
  "kset k v [] = [(k, v)]"
| "kset k v ((k', v') # d) = (if py_eq k' k then (k', v) # d else (k', v') # kset k v d)"

definition quoted :: "string \<Rightarrow> string" where
  "quoted s = [CHR 0x27] @ s @ [CHR 0x27]"

definition says :: "string \<Rightarrow> nat \<Rightarrow> string \<Rightarrow> string" where
  "says kind idx message = kind @ '' '' @ nat_str idx @ '' '' @ message"

section \<open>Endpoints and identities\<close>

definition edge_endpoint :: "py_dict \<Rightarrow> string \<Rightarrow> py \<times> py" where
  "edge_endpoint edge endpoint =
     (if endpoint = ''source''
      then (py_or (dget edge ''source_label'') (dget edge ''outVLabel''),
            if has_key edge ''source'' then dget edge ''source'' else dget edge ''outV'')
      else (py_or (dget edge ''target_label'') (dget edge ''inVLabel''),
            if has_key edge ''target'' then dget edge ''target'' else dget edge ''inV''))"

definition has_mixed_endpoint_forms :: "py_dict \<Rightarrow> string \<Rightarrow> bool" where
  "has_mixed_endpoint_forms edge endpoint =
     (if endpoint = ''source'' then has_key edge ''source'' \<and> has_key edge ''outV''
      else has_key edge ''target'' \<and> has_key edge ''inV'')"

text \<open>An identity: label, kind and value.\<close>

definition identity_key :: "py \<Rightarrow> string \<Rightarrow> py \<Rightarrow> py" where
  "identity_key label kind v = PTuple [label, PStr kind, v]"

definition key_tuple :: "string list \<Rightarrow> py_dict \<Rightarrow> py" where
  "key_tuple pks d = PTuple (map (dget d) pks)"

definition keys_present :: "string list \<Rightarrow> py_dict \<Rightarrow> bool" where
  "keys_present pks d \<longleftrightarrow> list_all (\<lambda>pk. has_key d pk \<and> \<not> none_or_empty (dget d pk)) pks"

text \<open>The candidate identities of an endpoint, and the primary key that is missing.\<close>

definition endpoint_identities :: "string \<Rightarrow> py \<Rightarrow> string list \<Rightarrow> py list \<times> string option" where
  "endpoint_identities label v pks =
     (case v of
        PDict d \<Rightarrow>
         (let ids = (if none_or_empty (dget d ''id'') then [] else [identity_key (PStr label) ''id'' (dget d ''id'')]) in
          if pks = [] then (ids, None)
          else case filter (\<lambda>pk. \<not> has_key d pk \<or> none_or_empty (dget d pk)) pks of
              [] \<Rightarrow> (ids @ [identity_key (PStr label) ''pk'' (key_tuple pks d)], None)
            | missing # _ \<Rightarrow> if ids \<noteq> [] then (ids, None) else (ids, Some missing))
      | _ \<Rightarrow>
        if none_or_empty v then ([], None)
        else (identity_key (PStr label) ''id'' v #
          (if length pks = 1 then
             [identity_key (PStr label) ''pk'' (PTuple
               [case v of PStr s \<Rightarrow> if CHR '':'' \<in> set s then PStr (snd (split_once (CHR '':'') s)) else v | _ \<Rightarrow> v])]
           else []), None))"

section \<open>The schema tables\<close>

record vertex_table =
  vt_properties :: "string set"
  vt_keys :: "string list"
  vt_strategy :: string

record ingest_schema =
  ig_vertices :: "(py \<times> vertex_table) list"
  ig_edges :: "(string \<times> py_dict) list"
  ig_specs :: "(string \<times> property_spec) list"
  ig_vertex_indexes :: "string list"
  ig_edge_indexes :: "string list"

definition id_strategy :: "py_dict \<Rightarrow> string" where
  "id_strategy d = upper (py_str (py_or (dget d ''id_strategy'') (py_or (dget d ''idStrategy'') (PStr ''PRIMARY_KEY''))))"

text \<open>\<open>for x in raw.get(k, [])\<close>.\<close>

definition schema_items :: "py_dict \<Rightarrow> string \<Rightarrow> py list res" where
  "schema_items raw k = (case map_of raw k of None \<Rightarrow> Inr [] | Some v \<Rightarrow> py_iter v)"

fun vertex_tables :: "py list \<Rightarrow> (py \<times> vertex_table) list \<Rightarrow> (py \<times> vertex_table) list res" where
  "vertex_tables [] tables = Inr tables"
| "vertex_tables (v # vs) tables =
     (case v of
        PDict d \<Rightarrow>
          if truthy (dget d ''name'') then
            and_then (need_hash (dget d ''name'')) (\<lambda>_.
              vertex_tables vs (kset (dget d ''name'') \<lparr>vt_properties = property_names (dget d ''properties''),
                vt_keys = primary_key_names d, vt_strategy = id_strategy d\<rparr> tables))
          else vertex_tables vs tables
      | _ \<Rightarrow> vertex_tables vs tables)"

text \<open>\<open>_indexed_labels\<close>: the labels with an index of the kind.\<close>

definition indexed_label :: "string list \<Rightarrow> py \<Rightarrow> string option" where
  "indexed_label types v = (case v of
      PDict d \<Rightarrow> (case py_or (dget d ''base_label'') (dget d ''baseLabel'') of
          PStr label \<Rightarrow>
            if upper (py_str (py_or (dget d ''base_type'') (py_or (dget d ''baseType'') (PStr [])))) \<in> set types
            then Some label else None
        | _ \<Rightarrow> None)
    | _ \<Rightarrow> None)"

definition ingest_schema_of :: "py_dict \<Rightarrow> ingest_schema res" where
  "ingest_schema_of raw =
     and_then (schema_items raw ''vertexlabels'') (\<lambda>vls.
     and_then (vertex_tables vls []) (\<lambda>tables.
     and_then (labels_of raw ''edgelabels'') (\<lambda>edges.
     and_then (schema_items raw ''indexlabels'') (\<lambda>indexes.
       Inr \<lparr>ig_vertices = tables, ig_edges = edges, ig_specs = property_specs (PDict raw),
         ig_vertex_indexes = List.map_filter (indexed_label [''VERTEX'', ''VERTEX_LABEL'']) indexes,
         ig_edge_indexes = List.map_filter (indexed_label [''EDGE'', ''EDGE_LABEL'']) indexes\<rparr>))))"

section \<open>Checking the properties of an element\<close>

text \<open>\<open>known\<close> holds the property names of the label, when the schema has the label.\<close>

definition ingest_property ::
  "(string \<Rightarrow> bool) \<Rightarrow> string \<Rightarrow> nat \<Rightarrow> py \<Rightarrow> string set option \<Rightarrow> (string \<times> property_spec) list \<Rightarrow> string \<times> py \<Rightarrow> string list" where
  "ingest_property isodate kind idx label known specs = (\<lambda>(name, v).
     (case known of
        None \<Rightarrow> []
      | Some names \<Rightarrow> if name \<in> names then []
          else [says kind idx (''property '' @ quoted name @ '' does not exist on label '' @ quoted (py_str label))])
     @ (case property_value_error isodate kind idx name v (map_of specs name) of None \<Rightarrow> [] | Some e \<Rightarrow> [e]))"

definition empty_property :: "string \<Rightarrow> nat \<Rightarrow> string \<times> py \<Rightarrow> string option" where
  "empty_property kind idx = (\<lambda>(name, v).
     if none_or_empty v then Some (says kind idx (''property '' @ quoted name @ '' has empty value'')) else None)"

section \<open>One vertex\<close>

type_synonym identity_index = "(py \<times> nat) list"

text \<open>The identity is entered, or it is a duplicate of an earlier one.\<close>

definition note_identity :: "py \<Rightarrow> nat \<Rightarrow> (nat \<Rightarrow> string) \<Rightarrow> identity_index \<Rightarrow> (string list \<times> identity_index) res" where
  "note_identity key idx message index =
     and_then (need_hash key) (\<lambda>_. Inr (case kget index key of
         Some earlier \<Rightarrow> ([message earlier], index)
       | None \<Rightarrow> ([], index @ [(key, idx)])))"

definition custom_id_errors :: "nat \<Rightarrow> py \<Rightarrow> string option \<Rightarrow> py \<Rightarrow> string list" where
  "custom_id_errors idx label strategy explicit =
     (if strategy = Some ''CUSTOMIZE_STRING'' then
        if none_or_empty explicit then
          [says ''vertex'' idx (''missing required id for CUSTOMIZE_STRING label '' @ quoted (py_str label))]
        else if \<not> is_str explicit then
          [says ''vertex'' idx (''id for CUSTOMIZE_STRING label '' @ quoted (py_str label) @ '' must be a string, got '' @ type_name explicit)]
        else []
      else if strategy = Some ''CUSTOMIZE_NUMBER'' then
        if none_or_empty explicit then
          [says ''vertex'' idx (''missing required id for CUSTOMIZE_NUMBER label '' @ quoted (py_str label))]
        else (case explicit of PInt i \<Rightarrow> []
          | _ \<Rightarrow> [says ''vertex'' idx (''id for CUSTOMIZE_NUMBER label '' @ quoted (py_str label) @ '' must be an integer, got '' @ type_name explicit)])
      else [])"

definition primary_key_identity ::
  "nat \<Rightarrow> py \<Rightarrow> string list \<Rightarrow> py_dict \<Rightarrow> identity_index \<Rightarrow> (string list \<times> identity_index) res" where
  "primary_key_identity idx label pks props index =
     (let missing = map (\<lambda>pk. says ''vertex'' idx (''missing primary key value for label '' @ quoted (py_str label) @ '': '' @ pk))
            (filter (\<lambda>pk. \<not> has_key props pk \<or> none_or_empty (dget props pk)) pks)
      in if pks = [] then Inr ([], index)
         else if \<not> keys_present pks props then Inr (missing, index)
         else note_identity (identity_key label ''pk'' (key_tuple pks props)) idx (\<lambda>earlier.
           says ''vertex'' idx (''duplicate primary key identity for label '' @ quoted (py_str label) @ '': values='' @
             py_repr (key_tuple pks props) @ '' already used by vertex '' @ nat_str earlier)) index)"

definition explicit_identity :: "nat \<Rightarrow> py \<Rightarrow> py \<Rightarrow> identity_index \<Rightarrow> (string list \<times> identity_index) res" where
  "explicit_identity idx label explicit index =
     (if none_or_empty explicit then Inr ([], index)
      else note_identity (identity_key label ''id'' explicit) idx (\<lambda>earlier.
        says ''vertex'' idx (''duplicate id '' @ quoted (py_str explicit) @ '' for label '' @ quoted (py_str label) @
          '' already used by vertex '' @ nat_str earlier)) index)"

text \<open>Errors, warnings, the label and the new index; \<open>schema\<close> is \<open>None\<close> when no schema is available.\<close>

definition ingest_vertex ::
  "(string \<Rightarrow> bool) \<Rightarrow> ingest_schema option \<Rightarrow> nat \<Rightarrow> py \<Rightarrow> identity_index
   \<Rightarrow> (string list \<times> string list \<times> py option \<times> identity_index) res" where
  "ingest_vertex isodate schema idx v index =
     (case v of
        PDict vertex \<Rightarrow>
         (let label = dget vertex ''label''; explicit = dget vertex ''id'';
              props = (case dget vertex ''properties'' of PDict d \<Rightarrow> d | _ \<Rightarrow> []) in
          if none_or_empty label then Inr ([says ''vertex'' idx ''missing required field: label''], [], None, index)
          else and_then (need_hash label) (\<lambda>_.
           (let table = (case schema of None \<Rightarrow> None | Some s \<Rightarrow> kget (ig_vertices s) label);
                specs = (case schema of None \<Rightarrow> [] | Some s \<Rightarrow> ig_specs s);
                unknown = (if schema \<noteq> None \<and> table = None
                  then [says ''vertex'' idx (''label '' @ quoted (py_str label) @ '' does not exist in schema'')] else []);
                bad_props = concat (map (ingest_property isodate ''vertex'' idx label (map_option vt_properties table) specs) props);
                bad_id = custom_id_errors idx label (map_option vt_strategy table) explicit;
                pks = (case table of None \<Rightarrow> [] | Some t \<Rightarrow> vt_keys t)
            in and_then (primary_key_identity idx label pks props index) (\<lambda>(pk_errors, index).
               and_then (explicit_identity idx label explicit index) (\<lambda>(id_errors, index).
                 Inr (unknown @ bad_props @ bad_id @ pk_errors @ id_errors,
                   List.map_filter (empty_property ''vertex'' idx) props, Some label, index))))))
      | _ \<Rightarrow> Inr ([says ''vertex'' idx ''must be an object''], [], None, index))"

text \<open>What the loops collect: errors, warnings, labels and, for vertices, the identities.\<close>

record collected =
  co_errors :: "string list"
  co_warnings :: "string list"
  co_labels :: "py list"

fun ingest_vertices ::
  "(string \<Rightarrow> bool) \<Rightarrow> ingest_schema option \<Rightarrow> nat \<Rightarrow> py list \<Rightarrow> identity_index \<Rightarrow> (collected \<times> identity_index) res" where
  "ingest_vertices isodate schema idx [] index = Inr (\<lparr>co_errors = [], co_warnings = [], co_labels = []\<rparr>, index)"
| "ingest_vertices isodate schema idx (v # vs) index =
     and_then (ingest_vertex isodate schema idx v index) (\<lambda>(errors, warnings, label, index').
     and_then (ingest_vertices isodate schema (Suc idx) vs index') (\<lambda>(rest, index'').
       Inr (\<lparr>co_errors = errors @ co_errors rest, co_warnings = warnings @ co_warnings rest,
         co_labels = (case label of None \<Rightarrow> [] | Some l \<Rightarrow> [l]) @ co_labels rest\<rparr>, index'')))"

section \<open>One edge\<close>

definition mixed_errors :: "nat \<Rightarrow> py_dict \<Rightarrow> string list" where
  "mixed_errors idx edge =
     (if has_mixed_endpoint_forms edge ''source''
      then [says ''edge'' idx (''mixes source and outV endpoint forms; use either '' @ ''source/source_label or outV/outVLabel, not both'')] else []) @
     (if has_mixed_endpoint_forms edge ''target''
      then [says ''edge'' idx (''mixes target and inV endpoint forms; use either '' @ ''target/target_label or inV/inVLabel, not both'')] else [])"

definition label_mismatch :: "nat \<Rightarrow> string \<Rightarrow> py \<Rightarrow> py \<Rightarrow> py \<Rightarrow> string list" where
  "label_mismatch idx field label given expected =
     (if truthy given \<and> truthy expected \<and> \<not> py_eq given expected
      then [says ''edge'' idx (field @ '' '' @ quoted (py_str given) @ '' does not match edge label '' @ quoted (py_str label) @
        '' '' @ field @ '' '' @ quoted (py_str expected))] else [])"

text \<open>The labels of an edge: three lookups in sets and dictionaries, which need hashable labels.\<close>

definition edge_label_errors :: "ingest_schema option \<Rightarrow> nat \<Rightarrow> py \<Rightarrow> py \<Rightarrow> py \<Rightarrow> string list res" where
  "edge_label_errors schema idx label src tgt =
     (case schema of
        None \<Rightarrow> if truthy label then and_then (need_hash label) (\<lambda>_. Inr []) else Inr []
      | Some s \<Rightarrow>
        and_then (if truthy label then need_hash label else Inr ()) (\<lambda>_.
        and_then (if truthy src then need_hash src else Inr ()) (\<lambda>_.
        and_then (if truthy tgt then need_hash tgt else Inr ()) (\<lambda>_.
         (let schema_edge = (case label of PStr l \<Rightarrow> if l = [] then None else map_of (ig_edges s) l | _ \<Rightarrow> None);
              no = (\<lambda>field l. says ''edge'' idx (field @ '' '' @ quoted (py_str l) @ '' does not exist in schema''))
          in Inr ((if truthy label \<and> schema_edge = None then [no ''label'' label] else []) @
             (if truthy src \<and> kget (ig_vertices s) src = None then [no ''source_label'' src] else []) @
             (if truthy tgt \<and> kget (ig_vertices s) tgt = None then [no ''target_label'' tgt] else []) @
             (case schema_edge of None \<Rightarrow> [] | Some d \<Rightarrow>
                label_mismatch idx ''source_label'' label src (edge_schema_endpoint_label d ''source'') @
                label_mismatch idx ''target_label'' label tgt (edge_schema_endpoint_label d ''target''))))))))"

definition missing_endpoints :: "nat \<Rightarrow> py \<Rightarrow> py \<Rightarrow> string list" where
  "missing_endpoints idx source target =
     (if source = PNone \<and> target = PNone then [says ''edge'' idx ''missing source endpoint'', says ''edge'' idx ''missing target endpoint'']
      else if source = PNone then [says ''edge'' idx ''has target but missing source'']
      else if target = PNone then [says ''edge'' idx ''has source but missing target'']
      else [])"

definition endpoint_errors :: "ingest_schema option \<Rightarrow> identity_index \<Rightarrow> nat \<Rightarrow> string \<Rightarrow> py \<Rightarrow> py \<Rightarrow> string list res" where
  "endpoint_errors schema index idx endpoint l v =
     (case l of
        PStr label \<Rightarrow>
          if v = PNone then Inr []
          else (let pks = (case schema of None \<Rightarrow> [] | Some s \<Rightarrow>
                  (case kget (ig_vertices s) l of None \<Rightarrow> [] | Some t \<Rightarrow> vt_keys t)) in
            case endpoint_identities label v pks of
              (ids, Some missing) \<Rightarrow> Inr [says ''edge'' idx (endpoint @ '' endpoint missing primary key for label '' @ quoted label @ '': '' @ missing)]
            | ([], None) \<Rightarrow> Inr [says ''edge'' idx (endpoint @ '' endpoint has no resolvable identity for label '' @ quoted label @ '': '' @ py_repr v)]
            | (ids, None) \<Rightarrow> and_then (map_res need_hash ids) (\<lambda>_. Inr
                (if length (remdups (List.map_filter (kget index) ids)) > 1 then
                   [says ''edge'' idx (endpoint @ '' scalar endpoint is ambiguous for label '' @ quoted label @ '': '' @ py_repr v @
                     '' matches different vertices by id and primary key'')]
                 else [])))
      | _ \<Rightarrow> Inr [])"

definition missing_field :: "nat \<Rightarrow> string \<Rightarrow> py \<Rightarrow> string list" where
  "missing_field idx field v = (if none_or_empty v then [says ''edge'' idx (''missing required field: '' @ field)] else [])"

definition ingest_edge ::
  "(string \<Rightarrow> bool) \<Rightarrow> ingest_schema option \<Rightarrow> identity_index \<Rightarrow> nat \<Rightarrow> py \<Rightarrow> (string list \<times> string list \<times> py option) res" where
  "ingest_edge isodate schema index idx v =
     (case v of
        PDict edge \<Rightarrow>
         (let label = dget edge ''label''; (src, source) = edge_endpoint edge ''source''; (tgt, target) = edge_endpoint edge ''target'' in
          and_then (edge_label_errors schema idx label src tgt) (\<lambda>label_errors.
          and_then (case dget edge ''properties'' of
              PDict props \<Rightarrow> and_then (need_hash label) (\<lambda>_. Inr props) | _ \<Rightarrow> Inr []) (\<lambda>props.
          and_then (endpoint_errors schema index idx ''source'' src source) (\<lambda>source_errors.
          and_then (endpoint_errors schema index idx ''target'' tgt target) (\<lambda>target_errors.
           (let schema_edge = (case (schema, label) of (Some s, PStr l) \<Rightarrow> map_of (ig_edges s) l | _ \<Rightarrow> None);
                specs = (case schema of None \<Rightarrow> [] | Some s \<Rightarrow> ig_specs s)
            in Inr (mixed_errors idx edge @ missing_field idx ''label'' label @ missing_field idx ''source_label'' src @
                 missing_field idx ''target_label'' tgt @ label_errors @
                 concat (map (ingest_property isodate ''edge'' idx label
                   (map_option (\<lambda>d. property_names (dget d ''properties'')) schema_edge) specs) props) @
                 missing_endpoints idx source target @ source_errors @ target_errors,
               List.map_filter (empty_property ''edge'' idx) props,
               if truthy label then Some label else None)))))))
      | _ \<Rightarrow> Inr ([says ''edge'' idx ''must be an object''], [], None))"

fun ingest_edges ::
  "(string \<Rightarrow> bool) \<Rightarrow> ingest_schema option \<Rightarrow> identity_index \<Rightarrow> nat \<Rightarrow> py list \<Rightarrow> collected res" where
  "ingest_edges isodate schema index idx [] = Inr \<lparr>co_errors = [], co_warnings = [], co_labels = []\<rparr>"
| "ingest_edges isodate schema index idx (v # vs) =
     and_then (ingest_edge isodate schema index idx v) (\<lambda>(errors, warnings, label).
     and_then (ingest_edges isodate schema index (Suc idx) vs) (\<lambda>rest.
       Inr \<lparr>co_errors = errors @ co_errors rest, co_warnings = warnings @ co_warnings rest,
         co_labels = (case label of None \<Rightarrow> [] | Some l \<Rightarrow> [l]) @ co_labels rest\<rparr>))"

section \<open>The whole payload\<close>

text \<open>\<open>sorted\<close> of a set of labels: texts, or numbers; a mixture cannot be compared.\<close>

fun same_value :: "py list \<Rightarrow> py list" where
  "same_value [] = []"
| "same_value (x # xs) = x # same_value (filter (\<lambda>y. \<not> py_eq x y) xs)"

definition number_class :: "py \<Rightarrow> int" where
  "number_class v = (case v of PFloat (Inf neg) \<Rightarrow> if neg then - 1 else 1 | _ \<Rightarrow> 0)"

definition sorted_labels :: "py list \<Rightarrow> py list res" where
  "sorted_labels vs =
     (let labels = same_value vs in
      if length labels \<le> 1 then Inr labels
      else if list_all is_str labels then Inr (sort_key py_str labels)
      else if list_all (\<lambda>v. num_of v \<noteq> None \<or> number_class v \<noteq> 0) labels
      then Inr (sort_key (\<lambda>v. (number_class v, case num_of v of None \<Rightarrow> 0 | Some q \<Rightarrow> q)) labels)
      else Inl (TypeError ''not supported between instances''))"

definition unindexed :: "string \<Rightarrow> string list \<Rightarrow> py list \<Rightarrow> string list res" where
  "unindexed kind indexed labels =
     and_then (sorted_labels (filter (\<lambda>l. case l of PStr s \<Rightarrow> s \<notin> set indexed | _ \<Rightarrow> True) labels)) (\<lambda>ls.
       Inr (map (\<lambda>l. ''no '' @ kind @ '' index found in schema for label: '' @ py_str l) ls))"

definition index_warnings :: "ingest_schema option \<Rightarrow> py list \<Rightarrow> py list \<Rightarrow> string list res" where
  "index_warnings schema vertex_labels edge_labels =
     (let vi = (case schema of None \<Rightarrow> [] | Some s \<Rightarrow> ig_vertex_indexes s);
          ei = (case schema of None \<Rightarrow> [] | Some s \<Rightarrow> ig_edge_indexes s)
      in if vi \<noteq> [] \<or> ei \<noteq> [] then
           and_then (unindexed ''vertex'' vi vertex_labels) (\<lambda>a. and_then (unindexed ''edge'' ei edge_labels) (\<lambda>b. Inr (a @ b)))
         else if vertex_labels \<noteq> [] \<or> edge_labels \<noteq> []
         then Inr [''verify that appropriate indexes exist for queried properties''] else Inr [])"

definition edge_pair :: "py \<Rightarrow> string option" where
  "edge_pair v = (case v of
      PDict e \<Rightarrow> Some (sorted_json (PTuple (map (dget e) [''label'', ''source_label'', ''target_label'', ''source'', ''target''])))
    | _ \<Rightarrow> None)"

record payload_check =
  pc_errors :: "string list"
  pc_warnings :: "string list"

definition pc_valid :: "payload_check \<Rightarrow> bool" where "pc_valid c \<longleftrightarrow> pc_errors c = []"

definition list_or_empty :: "py \<Rightarrow> py list" where
  "list_or_empty v = (case v of PList xs \<Rightarrow> xs | _ \<Rightarrow> [])"

definition ingest_schema_opt :: "py \<Rightarrow> ingest_schema option res" where
  "ingest_schema_opt live = (case schema_payload live of
      None \<Rightarrow> Inr None | Some raw \<Rightarrow> and_then (ingest_schema_of raw) (\<lambda>s. Inr (Some s)))"

definition validate_graph_payload :: "(string \<Rightarrow> bool) \<Rightarrow> py \<Rightarrow> py \<Rightarrow> payload_check res" where
  "validate_graph_payload isodate graph_data live =
     (case graph_data of
        PDict d \<Rightarrow>
         (let vertices = dget d ''vertices''; edges = dget d ''edges'';
              shape = (if is_list vertices then [] else [''vertices must be a list'']) @
                (if is_list edges then [] else [''edges must be a list'']);
              pairs = List.map_filter edge_pair (list_or_empty edges);
              duplicates = (if length pairs > length (remdups pairs) then [''potential duplicate edges detected''] else [])
          in and_then (ingest_schema_opt live) (\<lambda>schema.
             and_then (ingest_vertices isodate schema 0 (list_or_empty vertices) []) (\<lambda>(vs, index).
             and_then (ingest_edges isodate schema index 0 (list_or_empty edges)) (\<lambda>es.
             and_then (index_warnings schema (co_labels vs) (co_labels es)) (\<lambda>missing.
               Inr \<lparr>pc_errors = shape @ co_errors vs @ co_errors es,
                 pc_warnings = co_warnings vs @ co_warnings es @ duplicates @ missing\<rparr>)))))
      | _ \<Rightarrow> Inr \<lparr>pc_errors = [''graph_data must be an object''], pc_warnings = []\<rparr>)"

section \<open>The normal form\<close>

definition schema_plan_summary :: "py \<Rightarrow> py" where
  "schema_plan_summary live = (case schema_payload live of
      None \<Rightarrow> PNone
    | Some raw \<Rightarrow> PDict (map (\<lambda>k. (k, if has_key raw k then dget raw k else PList []))
        [''vertexlabels'', ''edgelabels'', ''propertykeys'', ''indexlabels'']))"

fun normalize_value :: "py \<Rightarrow> py" where
  "normalize_value (PDict d) = PDict (map (\<lambda>kv. (fst kv, normalize_value (snd kv))) (sort_key fst d))"
| "normalize_value (PList xs) = PList (map normalize_value xs)"
| "normalize_value v = v"

text \<open>The primary keys of a schema summary by label.\<close>

definition summary_keys :: "py \<Rightarrow> (string \<times> string list) list" where
  "summary_keys summary = (case summary of
      PDict s \<Rightarrow> (case dget s ''vertexlabels'' of
          PList items \<Rightarrow> dict_of (List.map_filter (\<lambda>v. case v of
              PDict d \<Rightarrow> (case (dget d ''name'', dget d ''primary_keys'') of
                  (PStr name, PList pks) \<Rightarrow> Some (name, List.map_filter (\<lambda>pk. case pk of PStr k \<Rightarrow> Some k | _ \<Rightarrow> None) pks)
                | _ \<Rightarrow> None)
            | _ \<Rightarrow> None) items)
        | _ \<Rightarrow> [])
    | _ \<Rightarrow> [])"

definition vertex_sort_identity :: "(string \<times> string list) list \<Rightarrow> py_dict \<Rightarrow> py" where
  "vertex_sort_identity keys vertex =
     (if \<not> none_or_empty (dget vertex ''id'') then dget vertex ''id''
      else case dget vertex ''properties'' of
        PDict props \<Rightarrow>
         (let pks = (case map_of keys (py_str (py_or (dget vertex ''label'') (PStr []))) of None \<Rightarrow> [] | Some pks \<Rightarrow> pks) in
          if pks \<noteq> [] then key_tuple pks props
          else if props \<noteq> [] then dget props (hd (sort (map fst props)))
          else PNone)
      | _ \<Rightarrow> PNone)"

definition vertex_sort_key :: "(string \<times> string list) list \<Rightarrow> py \<Rightarrow> string \<times> string" where
  "vertex_sort_key keys v = (case v of
      PDict vertex \<Rightarrow> (py_str (py_or (dget vertex ''label'') (PStr [])), compact_json (vertex_sort_identity keys vertex))
    | _ \<Rightarrow> ([], compact_json v))"

definition edge_sort_key :: "py \<Rightarrow> string \<times> string \<times> string \<times> string" where
  "edge_sort_key v = (case v of
      PDict edge \<Rightarrow>
       (let (src, source) = edge_endpoint edge ''source''; (tgt, target) = edge_endpoint edge ''target'';
            text = (\<lambda>l. py_str (py_or l (PStr [])))
        in (text (dget edge ''label''), text src, text tgt, compact_json (PDict [(''source'', source), (''target'', target),
             (''properties'', if has_key edge ''properties'' then dget edge ''properties'' else PDict [])])))
    | _ \<Rightarrow> ([], [], [], compact_json v))"

definition sort_list_by :: "(py \<Rightarrow> 'k::linorder) \<Rightarrow> string \<Rightarrow> py_dict \<Rightarrow> py_dict" where
  "sort_list_by f k d = (case dget d k of PList xs \<Rightarrow> dset k (PList (sort_key f xs)) d | _ \<Rightarrow> d)"

definition normalize_graph_data :: "py \<Rightarrow> py \<Rightarrow> py" where
  "normalize_graph_data graph_data summary =
     (case normalize_value graph_data of
        PDict d \<Rightarrow> PDict (sort_list_by edge_sort_key ''edges'' (sort_list_by (vertex_sort_key (summary_keys summary)) ''vertices'' d))
      | v \<Rightarrow> v)"

text \<open>What the digest of an import is computed from, and the digest.\<close>

definition ingest_payload :: "MCPConfig \<Rightarrow> py \<Rightarrow> py \<Rightarrow> py" where
  "ingest_payload cfg graph_data live =
     (let summary = normalized_schema_summary False live in
      PDict ([(''graph_data'', normalize_graph_data graph_data summary), (''graph'', PStr (cfg_graph cfg)),
        (''graphspace'', opt_py (cfg_graphspace cfg))] @ (if summary = PNone then [] else [(''schema_summary'', summary)])))"

definition calculate_plan_hash :: "(string \<Rightarrow> string) \<Rightarrow> MCPConfig \<Rightarrow> py \<Rightarrow> py \<Rightarrow> string" where
  "calculate_plan_hash sha cfg graph_data live = compute_payload_digest sha (ingest_payload cfg graph_data live)"

section \<open>Identifiers of the backend\<close>

record vertex_info =
  vi_id :: py
  vi_strategy :: string
  vi_keys :: "string list"

definition vertex_info_of :: "py \<Rightarrow> (string \<times> vertex_info) option" where
  "vertex_info_of v = (case v of
      PDict d \<Rightarrow> (case dget d ''name'' of
          PStr name \<Rightarrow> Some (name, \<lparr>vi_id = dget d ''id'', vi_strategy = id_strategy d, vi_keys = primary_key_names d\<rparr>)
        | _ \<Rightarrow> None)
    | _ \<Rightarrow> None)"

definition schema_vertex_info :: "py_dict \<Rightarrow> (string \<times> vertex_info) list res" where
  "schema_vertex_info raw = and_then (schema_items raw ''vertexlabels'') (\<lambda>vs. Inr (dict_of (List.map_filter vertex_info_of vs)))"

definition info_keys :: "(string \<times> vertex_info) list \<Rightarrow> string \<Rightarrow> string list" where
  "info_keys info label = (case map_of info label of None \<Rightarrow> [] | Some i \<Rightarrow> vi_keys i)"

definition canonical_primary_key_id :: "(string \<times> vertex_info) list \<Rightarrow> string \<Rightarrow> py list \<Rightarrow> py" where
  "canonical_primary_key_id info label values =
     (case map_of info label of
        None \<Rightarrow> PNone
      | Some i \<Rightarrow> if vi_id i = PNone then PNone else PStr (py_str (vi_id i) @ '':'' @ join ''!'' (map py_str values)))"

definition vertex_backend_id :: "(string \<times> vertex_info) list \<Rightarrow> py_dict \<Rightarrow> py" where
  "vertex_backend_id info vertex =
     (if \<not> none_or_empty (dget vertex ''id'') then dget vertex ''id''
      else case (dget vertex ''label'', dget vertex ''properties'') of
        (PStr label, PDict props) \<Rightarrow>
          if info_keys info label \<noteq> [] \<and> keys_present (info_keys info label) props
          then canonical_primary_key_id info label (map (dget props) (info_keys info label)) else PNone
      | _ \<Rightarrow> PNone)"

text \<open>Where an identity of a vertex of the payload leads.\<close>

type_synonym id_map = "(py \<times> py) list"

definition put_identity :: "py \<Rightarrow> py \<Rightarrow> id_map \<Rightarrow> id_map res" where
  "put_identity key v ids = and_then (need_hash key) (\<lambda>_. Inr (kset key v ids))"

definition map_vertex :: "(string \<times> vertex_info) list \<Rightarrow> py_dict \<Rightarrow> id_map \<Rightarrow> (py_dict \<times> id_map) res" where
  "map_vertex info vertex ids =
     (case dget vertex ''label'' of
        PStr label \<Rightarrow>
         (let backend = vertex_backend_id info vertex;
              vertex' = (if \<not> none_or_empty backend \<and> \<not> has_key vertex ''id'' then dset ''id'' backend vertex else vertex);
              explicit = dget vertex' ''id'';
              props = dget vertex' ''properties'';
              target = py_or backend explicit
          in and_then (if none_or_empty backend then Inr ids
               else put_identity (identity_key (PStr label) ''id'' backend) backend ids) (\<lambda>ids.
             and_then (if none_or_empty explicit then Inr ids
               else put_identity (identity_key (PStr label) ''id'' explicit) target ids) (\<lambda>ids.
             and_then (case props of
                 PDict d \<Rightarrow> if info_keys info label \<noteq> [] \<and> keys_present (info_keys info label) d
                   then put_identity (identity_key (PStr label) ''pk'' (key_tuple (info_keys info label) d)) target ids else Inr ids
               | _ \<Rightarrow> Inr ids) (\<lambda>ids. Inr (vertex', ids)))))
      | _ \<Rightarrow> Inr (vertex, ids))"

fun vertex_identity_map :: "(string \<times> vertex_info) list \<Rightarrow> py list \<Rightarrow> id_map \<Rightarrow> (py list \<times> id_map) res" where
  "vertex_identity_map info [] ids = Inr ([], ids)"
| "vertex_identity_map info (v # vs) ids =
     and_then (case v of PDict d \<Rightarrow> and_then (map_vertex info d ids) (\<lambda>(d', ids'). Inr (PDict d', ids')) | _ \<Rightarrow> Inr (v, ids)) (\<lambda>(v', ids').
     and_then (vertex_identity_map info vs ids') (\<lambda>(vs', ids''). Inr (v' # vs', ids'')))"

fun first_known :: "id_map \<Rightarrow> py list \<Rightarrow> py option res" where
  "first_known ids [] = Inr None"
| "first_known ids (k # ks) = and_then (need_hash k) (\<lambda>_.
     case kget ids k of Some v \<Rightarrow> Inr (Some v) | None \<Rightarrow> first_known ids ks)"

definition endpoint_backend_id :: "(string \<times> vertex_info) list \<Rightarrow> id_map \<Rightarrow> string \<Rightarrow> py \<Rightarrow> py res" where
  "endpoint_backend_id info ids label v =
     and_then (first_known ids (fst (endpoint_identities label v (info_keys info label)))) (\<lambda>known. Inr (case known of
         Some target \<Rightarrow> target
       | None \<Rightarrow> (case v of
           PDict d \<Rightarrow>
             if \<not> none_or_empty (dget d ''id'') then dget d ''id''
             else if info_keys info label \<noteq> [] \<and> keys_present (info_keys info label) d
             then canonical_primary_key_id info label (map (dget d) (info_keys info label)) else PNone
         | _ \<Rightarrow> if none_or_empty v then PNone else v)))"

definition resolve_edge_end :: "(string \<times> vertex_info) list \<Rightarrow> id_map \<Rightarrow> string \<Rightarrow> string \<Rightarrow> py \<Rightarrow> py \<Rightarrow> py_dict \<Rightarrow> py_dict res" where
  "resolve_edge_end info ids id_field label_field l v edge =
     (case l of
        PStr label \<Rightarrow> and_then (endpoint_backend_id info ids label v) (\<lambda>target.
          let edge = (if none_or_empty target then edge else dset id_field target edge) in
          Inr (if has_key edge label_field then edge else dset label_field l edge))
      | _ \<Rightarrow> Inr edge)"

definition prepare_edge :: "(string \<times> vertex_info) list \<Rightarrow> id_map \<Rightarrow> py \<Rightarrow> py res" where
  "prepare_edge info ids v = (case v of
      PDict edge \<Rightarrow>
       (let (src, source) = edge_endpoint edge ''source''; (tgt, target) = edge_endpoint edge ''target'';
            edge = (if has_key edge ''properties'' then edge else dset ''properties'' (PDict []) edge)
        in and_then (resolve_edge_end info ids ''outV'' ''outVLabel'' src source edge) (\<lambda>edge.
           and_then (resolve_edge_end info ids ''inV'' ''inVLabel'' tgt target edge) (\<lambda>edge. Inr (PDict edge))))
    | _ \<Rightarrow> Inr v)"

text \<open>The elements are changed in place, so a list of the payload is replaced by the list of the changed elements.\<close>

definition replace_list :: "py_dict \<Rightarrow> string \<Rightarrow> py list \<Rightarrow> py_dict" where
  "replace_list d k vs = (case dget d k of PList _ \<Rightarrow> dset k (PList vs) d | _ \<Rightarrow> d)"

definition prepare_graph_import_data :: "py_dict \<Rightarrow> py \<Rightarrow> py_dict res" where
  "prepare_graph_import_data graph_data live =
     and_then (schema_vertex_info (case schema_payload live of None \<Rightarrow> [] | Some raw \<Rightarrow> raw)) (\<lambda>info.
     and_then (py_iter (py_or (dget graph_data ''vertices'') (PList []))) (\<lambda>vs.
     and_then (vertex_identity_map info vs []) (\<lambda>(vs', ids).
     and_then (py_iter (py_or (dget graph_data ''edges'') (PList []))) (\<lambda>es.
     and_then (map_res (prepare_edge info ids) es) (\<lambda>es'.
       Inr (replace_list (replace_list graph_data ''vertices'' vs') ''edges'' es'))))))"

section \<open>Results of the AI service\<close>

text \<open>Counts of vertices and edges.\<close>

record element_counts =
  ec_vertices :: int
  ec_edges :: int

definition safe_int :: "py \<Rightarrow> int res" where
  "safe_int v = (if none_or_empty v then Inr 0 else case py_int v of
      Inr n \<Rightarrow> Inr n
    | Inl (TypeError m) \<Rightarrow> Inr 0
    | Inl (ValueError m) \<Rightarrow> Inr 0
    | Inl e \<Rightarrow> Inl e)"

definition split_total_written :: "int \<Rightarrow> element_counts \<Rightarrow> element_counts" where
  "split_total_written n planned =
     (let n = max 0 n; pv = max 0 (ec_vertices planned); pe = max 0 (ec_edges planned); vertices = min pv n
      in \<lparr>ec_vertices = vertices, ec_edges = min pe (max 0 (n - vertices))\<rparr>)"

definition first_present :: "py_dict \<Rightarrow> string \<Rightarrow> string \<Rightarrow> py" where
  "first_present d a b = (if dget d a = PNone then dget d b else dget d a)"

definition explicit_counts :: "py_dict \<Rightarrow> string \<Rightarrow> string \<Rightarrow> element_counts option res" where
  "explicit_counts d vs es =
     (let v = first_present d vs ''vertex_count''; e = first_present d es ''edge_count'' in
      if v = PNone \<and> e = PNone then Inr None
      else and_then (safe_int v) (\<lambda>n. and_then (safe_int e) (\<lambda>m. Inr (Some \<lparr>ec_vertices = n, ec_edges = m\<rparr>))))"

fun nested_counts :: "py_dict \<Rightarrow> string list \<Rightarrow> element_counts option res" where
  "nested_counts d [] = Inr None"
| "nested_counts d (k # ks) = and_then
     (case dget d k of PDict e \<Rightarrow> explicit_counts e ''vertices'' ''edges'' | _ \<Rightarrow> Inr None)
     (\<lambda>found. case found of Some c \<Rightarrow> Inr (Some c) | None \<Rightarrow> nested_counts d ks)"

definition extract_written_counts :: "py \<Rightarrow> element_counts \<Rightarrow> (element_counts \<times> string) option res" where
  "extract_written_counts result planned =
     (case result of
        PDict d \<Rightarrow>
          and_then (nested_counts d [''written'', ''imported'', ''created'', ''result'']) (\<lambda>nested. case nested of
              Some c \<Rightarrow> Inr (Some (c, ''explicit''))
            | None \<Rightarrow> and_then (explicit_counts d ''vertices_written'' ''edges_written'') (\<lambda>top. case top of
                Some c \<Rightarrow> Inr (Some (c, ''explicit''))
              | None \<Rightarrow> (case find (has_key d) [''inserted'', ''total_inserted'', ''created_count'', ''imported_count''] of
                  None \<Rightarrow> Inr None
                | Some k \<Rightarrow> and_then (safe_int (dget d k)) (\<lambda>n. Inr (Some (split_total_written n planned, ''total''))))))
      | _ \<Rightarrow> Inr None)"

definition failed_item_of :: "py \<Rightarrow> py" where
  "failed_item_of v = (case v of PDict d \<Rightarrow> v | PStr s \<Rightarrow> PDict [(''message'', v)] | _ \<Rightarrow> PDict [(''item'', PStr (py_str v))])"

definition extract_failed_items :: "py \<Rightarrow> py list" where
  "extract_failed_items result = (case result of
      PDict d \<Rightarrow> (case find (\<lambda>k. is_list (dget d k)) [''failed_items'', ''errors'', ''failures''] of
          None \<Rightarrow> [] | Some k \<Rightarrow> map failed_item_of (take 100 (list_or_empty (dget d k))))
    | _ \<Rightarrow> [])"

definition extract_import_warnings :: "py \<Rightarrow> string list" where
  "extract_import_warnings result = (case result of
      PDict d \<Rightarrow> map py_str (take 100 (list_or_empty (dget d ''warnings'')))
    | _ \<Rightarrow> [])"

definition unwrap_ai_payload :: "py \<Rightarrow> py" where
  "unwrap_ai_payload data = (case data of
      PDict d \<Rightarrow> if has_key d ''ok'' \<and> has_key d ''data'' then (if dget d ''ok'' = PBool False then data else dget d ''data'') else data
    | _ \<Rightarrow> data)"

text \<open>How the answer of the service is read: a classification and the state of the plan.\<close>

definition classify_written :: "py option \<Rightarrow> string option \<Rightarrow> element_counts option \<Rightarrow> element_counts \<Rightarrow> bool \<Rightarrow> string" where
  "classify_written success remote written planned has_failed =
     (let refused = (success = Some (PBool False)) in
      case written of
        None \<Rightarrow>
          if has_failed then (if refused then ''error'' else ''degraded'')
          else if refused then ''error''
          else (case remote of Some s \<Rightarrow> if s \<in> {''partial'', ''error'', ''degraded''} then s else ''degraded'' | None \<Rightarrow> ''degraded'')
      | Some w \<Rightarrow>
        let some_written = (ec_vertices w > 0 \<or> ec_edges w > 0) in
        if refused \<and> some_written then ''partial''
        else if refused then ''error''
        else (case (case remote of Some s \<Rightarrow> if s \<in> {''partial'', ''error'', ''degraded''} then Some s else None | None \<Rightarrow> None) of
            Some s \<Rightarrow> s
          | None \<Rightarrow>
            if w = planned \<and> \<not> has_failed then ''success''
            else if some_written then ''partial''
            else if has_failed then ''error'' else ''degraded''))"

definition canonical_import_status :: "string \<Rightarrow> string option \<Rightarrow> element_counts \<Rightarrow> PlanStatus" where
  "canonical_import_status cls source written = aggregate_plan_status
     (if cls = ''success'' then [ApplyStatus.APPLIED]
      else if cls = ''partial'' then [ApplyStatus.APPLIED, ApplyStatus.REJECTED]
      else if cls = ''error'' \<and> source \<noteq> None \<and> ec_vertices written = 0 \<and> ec_edges written = 0 then [ApplyStatus.REJECTED]
      else [ApplyStatus.UNKNOWN])"

record import_result =
  ir_status :: PlanStatus
  ir_classification :: string
  ir_written :: element_counts
  ir_failed :: "py list"
  ir_warnings :: "string list"
  ir_suggestions :: "string list"

definition no_counts :: element_counts where "no_counts = \<lparr>ec_vertices = 0, ec_edges = 0\<rparr>"

definition unwritten_warning :: "bool \<Rightarrow> bool \<Rightarrow> string" where
  "unwritten_warning has_failed refused =
     (if has_failed then ''HugeGraph-AI import returned failures without explicit written counts.''
      else if refused then ''HugeGraph-AI import reported failure without explicit written counts.''
      else ''HugeGraph-AI import did not return explicit written counts; write outcome is unknown.'')"

definition remote_success :: "py \<Rightarrow> py option" where
  "remote_success result = (case result of PDict d \<Rightarrow> Some (dget d ''success'') | _ \<Rightarrow> None)"

definition remote_status :: "py \<Rightarrow> string option" where
  "remote_status result = (case result of
      PDict d \<Rightarrow> if dget d ''status'' = PNone then None else Some (lower (py_str (dget d ''status''))) | _ \<Rightarrow> None)"

definition normalize_import_result :: "py \<Rightarrow> element_counts \<Rightarrow> import_result res" where
  "normalize_import_result result planned =
     (if result = PNone \<or> (case result of PDict d \<Rightarrow> dget d ''ok'' = PBool False | _ \<Rightarrow> False) then
        Inr \<lparr>ir_status = UNKNOWN, ir_classification = ''error'', ir_written = no_counts, ir_failed = [], ir_warnings = [],
          ir_suggestions = [''Retry the import with dry_run first.'']\<rparr>
      else and_then (extract_written_counts result planned) (\<lambda>counts.
       (let written = map_option fst counts; source = map_option snd counts;
            items = extract_failed_items result; refused = (remote_success result = Some (PBool False));
            cls = classify_written (remote_success result) (remote_status result) written planned (items \<noteq> []);
            shown = (case written of None \<Rightarrow> no_counts | Some w \<Rightarrow> w);
            st = canonical_import_status cls source shown
        in Inr \<lparr>ir_status = st, ir_classification = cls, ir_written = shown, ir_failed = items,
             ir_warnings = extract_import_warnings result @
               (if written = None then [unwritten_warning (items \<noteq> []) refused] else []) @
               (if source = Some ''total'' then [''HugeGraph-AI import returned only a total written count; vertices/edges '' @
                  ''were estimated from the planned import order.''] else []),
             ir_suggestions = (if st \<noteq> APPLIED then [''Review failed_items, inspect graph state, and run a fresh dry-run.''] else [])\<rparr>)))"

definition import_error_result :: import_result where
  "import_error_result = \<lparr>ir_status = UNKNOWN, ir_classification = ''error'', ir_written = no_counts, ir_failed = [],
     ir_warnings = [''Import execution failed before any writes.''], ir_suggestions = [''Check HugeGraph-AI service availability.'']\<rparr>"

section \<open>The import through the AI service\<close>

text \<open>What the preview holds, with its warnings and next actions, or the error; \<open>len\<close> of the two lists.\<close>

definition element_count :: "py \<Rightarrow> int res" where
  "element_count v = (case py_or v (PList []) of
      PList xs \<Rightarrow> Inr (int (length xs)) | PTuple xs \<Rightarrow> Inr (int (length xs)) | PDict d \<Rightarrow> Inr (int (length d))
    | PStr s \<Rightarrow> Inr (int (length s)) | _ \<Rightarrow> Inl (TypeError ''object has no len()''))"

definition ingest_mutation_summary :: "py_dict \<Rightarrow> element_counts res" where
  "ingest_mutation_summary d = and_then (element_count (dget d ''vertices'')) (\<lambda>n.
     and_then (element_count (dget d ''edges'')) (\<lambda>m. Inr \<lparr>ec_vertices = n, ec_edges = m\<rparr>))"

text \<open>The public part of a plan context.\<close>

definition plan_context_payload :: "PlanContext \<Rightarrow> py" where
  "plan_context_payload c = PDict [(''nonce'', PStr (pc_nonce c)), (''expires_at'', PInt (pc_expires c)), (''graph_url'', PStr (pc_url c)),
     (''graph_name'', PStr (pc_graph c)), (''graphspace'', PStr (pc_space c)), (''principal'', PStr (pc_principal c)),
     (''readonly'', PBool (pc_readonly c))]"

definition schema_hash_of :: "(string \<Rightarrow> string) \<Rightarrow> py \<Rightarrow> string option" where
  "schema_hash_of sha live = (let summary = normalized_schema_summary False live in
     if truthy summary then Some (compute_payload_digest sha summary) else None)"

text \<open>An answer with the lists that an envelope carries beside its data.\<close>

record noted =
  nt_response :: response
  nt_retryable :: bool
  nt_warnings :: "string list"
  nt_actions :: "string list"

definition bare :: "response \<Rightarrow> noted" where
  "bare r = \<lparr>nt_response = r, nt_retryable = False, nt_warnings = [], nt_actions = []\<rparr>"

definition no_schema :: "string \<Rightarrow> noted" where
  "no_schema what = (bare (envelope_err CONNECTION_FAILED
     (''Cannot read live schema from HugeGraph Server. Schema validation is required before '' @ what @ ''.'')
     (Some ''Ensure HugeGraph Server is running and accessible, then retry.'') (PDict [])))\<lparr>nt_retryable := True\<rparr>"

definition ingest_preview :: "(string \<Rightarrow> string) \<Rightarrow> MCPConfig \<Rightarrow> PlanContext \<Rightarrow> element_counts \<Rightarrow> string list \<Rightarrow> noted" where
  "ingest_preview sha cfg ctx counts warnings =
     (let payload = [(''plan_hash'', PStr (compute_plan_hash sha ctx)), (''plan_context'', plan_context_payload ctx),
            (''mutation_summary'', PDict [(''vertices'', PInt (ec_vertices counts)), (''edges'', PInt (ec_edges counts))]),
            (''warnings'', strings warnings), (''confirmable'', PBool False), (''preview_only'', PBool True)];
          (payload, ws, actions) = (if is_readonly cfg then mark_readonly_preview payload
              (''This dry-run was generated while HUGEGRAPH_MCP_READONLY=true. '' @
               ''Set HUGEGRAPH_MCP_READONLY=false and rerun dry_run before confirming.'')
              ''Set HUGEGRAPH_MCP_READONLY=false and rerun dry_run before confirm.''
            else (payload, [], []))
      in \<lparr>nt_response = envelope_ok (PDict payload), nt_retryable = False,
           nt_warnings = warnings @ ws @ [''Legacy HugeGraph-AI graph import is preview-only because it has no '' @
             ''durable per-operation receipts or verified create-if-absent semantics.''],
           nt_actions = actions @ [''Do not confirm this import until atomic graph-create capabilities are verified.'']\<rparr>)"

text \<open>\<open>live\<close> is the schema that was read, \<open>None\<close> when it cannot be read.\<close>

definition ingest_graph_data_via_ai ::
  "(string \<Rightarrow> string) \<Rightarrow> (string \<Rightarrow> bool) \<Rightarrow> MCPConfig \<Rightarrow> int \<Rightarrow> string \<Rightarrow> py option \<Rightarrow> py \<Rightarrow> bool \<Rightarrow> bool \<Rightarrow> string option \<Rightarrow> noted res" where
  "ingest_graph_data_via_ai sha isodate cfg now fresh live_schema graph_data dry_run confirmed nonce =
     (case write_limit_envelope (graph_data_operation_count graph_data) graph_data of
        Some e \<Rightarrow> Inr (bare e)
      | None \<Rightarrow> (case live_schema of
          None \<Rightarrow> Inr (no_schema ''import'')
        | Some live \<Rightarrow> and_then (validate_graph_payload isodate graph_data live) (\<lambda>check.
            if \<not> pc_valid check then
              Inr (bare (envelope_err SCHEMA_MISMATCH ''Graph data does not match live schema.'' None
                (PDict [(''errors'', strings (pc_errors check))])))
            else and_then (py_items graph_data) (\<lambda>d. and_then (ingest_mutation_summary d) (\<lambda>counts.
              let ctx = fst (build_plan_context sha cfg now fresh ''ingest_graph_data'' ''import''
                    (compute_payload_digest sha (ingest_payload cfg graph_data live)) (schema_hash_of sha live) nonce DEFAULT_PLAN_TTL_SECONDS [])
              in Inr (if dry_run then ingest_preview sha cfg ctx counts (pc_warnings check)
                else case guard DATA_WRITE cfg of
                  Some e \<Rightarrow> bare e
                | None \<Rightarrow>
                  if \<not> confirmed then bare (envelope_err CONFIRM_REQUIRED ''Graph data import requires confirm=True after a dry_run.''
                    (Some (''Run dry_run=True, review mutation_summary and warnings, then pass '' @ ''confirm=True with the returned plan_hash.'')) (PDict []))
                  else bare (envelope_err FEATURE_DISABLED ''Legacy HugeGraph-AI graph import execution is disabled.''
                    (Some (''Use dry_run for validation only. Enable graph import only after the '' @
                      ''canonical workflow has verified atomic create adapters.'')) (PDict []))))))))"

section \<open>Properties\<close>

subsection \<open>A valid payload has complete and distinct vertices\<close>

definition vertex_props :: "py_dict \<Rightarrow> py_dict" where
  "vertex_props vertex = (case dget vertex ''properties'' of PDict d \<Rightarrow> d | _ \<Rightarrow> [])"

text \<open>The primary key identity of a vertex under a schema.\<close>

definition pk_identity :: "ingest_schema \<Rightarrow> py \<Rightarrow> py option" where
  "pk_identity s v = (case v of
      PDict vertex \<Rightarrow> (case kget (ig_vertices s) (dget vertex ''label'') of
          Some t \<Rightarrow> if vt_keys t = [] then None
            else Some (identity_key (dget vertex ''label'') ''pk'' (key_tuple (vt_keys t) (vertex_props vertex)))
        | None \<Rightarrow> None)
    | _ \<Rightarrow> None)"

text \<open>An object with a known label and, if the label has primary keys, a value for each of them.\<close>

definition complete_vertex :: "ingest_schema \<Rightarrow> py \<Rightarrow> bool" where
  "complete_vertex s v \<longleftrightarrow> (\<exists>vertex t. v = PDict vertex \<and> kget (ig_vertices s) (dget vertex ''label'') = Some t \<and>
     keys_present (vt_keys t) (vertex_props vertex))"

lemma kget_None: "kget d k = None \<longleftrightarrow> (\<forall>(k', v) \<in> set d. \<not> py_eq k' k)"
  by (auto simp: kget_def find_None_iff)

lemma note_identity_clean:
  assumes "note_identity key idx message index = Inr ([], index')"
  shows "kget index key = None \<and> index' = index @ [(key, idx)]"
  using assms by (auto simp: note_identity_def res_simps split: option.splits)

lemma keys_present_iff: "keys_present pks d \<longleftrightarrow> filter (\<lambda>pk. \<not> has_key d pk \<or> none_or_empty (dget d pk)) pks = []"
  by (auto simp: keys_present_def list_all_iff filter_empty_conv)

lemma ingest_vertex_clean:
  assumes "ingest_vertex isodate (Some s) idx v index = Inr ([], ws, l, index')"
  shows "complete_vertex s v" "set index \<subseteq> set index'"
    "\<And>k. pk_identity s v = Some k \<Longrightarrow> kget index k = None \<and> (k, idx) \<in> set index'"
proof -
  obtain vertex where v: "v = PDict vertex" using assms by (cases v) (simp_all add: ingest_vertex_def)
  define label explicit where l: "label = dget vertex ''label''" "explicit = dget vertex ''id''"
  define table where t: "table = kget (ig_vertices s) label"
  define pks where pks: "pks = (case table of None \<Rightarrow> [] | Some t \<Rightarrow> vt_keys t)"
  obtain index1 where known: "table \<noteq> None"
      and pk: "primary_key_identity idx label pks (vertex_props vertex) index = Inr ([], index1)"
      and ex: "explicit_identity idx label explicit index1 = Inr ([], index')"
    using assms unfolding ingest_vertex_def v py.case Let_def l t pks vertex_props_def
    by (auto simp: res_simps split: if_splits)
  have grow: "set index1 \<subseteq> set index'" using ex
    by (auto simp: explicit_identity_def split: if_splits dest!: note_identity_clean)
  obtain tb where tb: "table = Some tb" using known by blast
  then have keys: "pks = vt_keys tb" by (simp add: pks)
  have present: "keys_present pks (vertex_props vertex)" using pk
    by (auto simp: primary_key_identity_def Let_def keys_present_iff split: if_splits)
  then show "complete_vertex s v" using tb keys by (auto simp: complete_vertex_def v l t)
  have one: "pks \<noteq> [] \<Longrightarrow> kget index (identity_key label ''pk'' (key_tuple pks (vertex_props vertex))) = None \<and>
      index1 = index @ [(identity_key label ''pk'' (key_tuple pks (vertex_props vertex)), idx)]"
    using pk present by (auto simp: primary_key_identity_def dest: note_identity_clean)
  moreover have "pks = [] \<Longrightarrow> index1 = index" using pk by (simp add: primary_key_identity_def)
  ultimately show "set index \<subseteq> set index'" using grow by (cases "pks = []") auto
  show "kget index k = None \<and> (k, idx) \<in> set index'" if "pk_identity s v = Some k" for k
    using that one grow tb keys by (auto simp: pk_identity_def v l t split: if_splits)
qed

definition other_identity :: "ingest_schema \<Rightarrow> py \<Rightarrow> py \<Rightarrow> bool" where
  "other_identity s v w \<longleftrightarrow> (case (pk_identity s v, pk_identity s w) of (Some k, Some k') \<Rightarrow> \<not> py_eq k k' | _ \<Rightarrow> True)"

lemma ingest_vertices_clean:
  assumes "ingest_vertices isodate (Some s) idx vs index = Inr (c, index')" "co_errors c = []"
  shows "list_all (complete_vertex s) vs \<and> sorted_wrt (other_identity s) vs \<and>
    (\<forall>v\<in>set vs. \<forall>k. pk_identity s v = Some k \<longrightarrow> kget index k = None)"
  using assms
proof (induction vs arbitrary: idx index c)
  case Nil
  then show ?case by simp
next
  case (Cons v vs)
  from Cons.prems obtain ws l index1 rest where
      v: "ingest_vertex isodate (Some s) idx v index = Inr ([], ws, l, index1)"
      and rest: "ingest_vertices isodate (Some s) (Suc idx) vs index1 = Inr (rest, index')" "co_errors rest = []"
    by (auto simp: res_simps)
  note one = ingest_vertex_clean [OF v]
  have later: "list_all (complete_vertex s) vs" "sorted_wrt (other_identity s) vs"
      "\<And>w k. w \<in> set vs \<Longrightarrow> pk_identity s w = Some k \<Longrightarrow> kget index1 k = None"
    using Cons.IH [OF rest] by blast+
  have "other_identity s v w" if "w \<in> set vs" for w
    using one(3) later(3) [OF that] by (auto simp: other_identity_def kget_None split: option.splits)
  moreover have "kget index k = None" if "w \<in> set vs" "pk_identity s w = Some k" for w k
    using later(3) [OF that] one(2) by (auto simp: kget_None)
  ultimately show ?case using one(1,3) later(1,2) by auto
qed

text \<open>A payload that is valid for a schema has only vertices with a label of the schema and a value for every primary
  key of it, and no two of them are equal in label and primary keys.\<close>

theorem valid_payload_identities:
  assumes "validate_graph_payload isodate (PDict d) live = Inr c" "pc_valid c" "ingest_schema_opt live = Inr (Some s)"
  shows "\<exists>vs. dget d ''vertices'' = PList vs \<and> list_all (complete_vertex s) vs \<and> sorted_wrt (other_identity s) vs"
proof -
  from assms obtain co index where "is_list (dget d ''vertices'')"
      and vs: "ingest_vertices isodate (Some s) 0 (list_or_empty (dget d ''vertices'')) [] = Inr (co, index)" "co_errors co = []"
    by (auto simp: validate_graph_payload_def Let_def res_simps pc_valid_def split: if_splits)
  then show ?thesis using ingest_vertices_clean [OF vs]
    by (cases "dget d ''vertices''") (auto simp: list_or_empty_def)
qed

definition people_schema :: py where
  "people_schema = PDict [(''propertykeys'', PList [PDict [(''name'', PStr ''name''), (''data_type'', PStr ''TEXT'')]]),
     (''vertexlabels'', PList [PDict [(''name'', PStr ''person''), (''properties'', PList [PStr ''name'']),
        (''primary_keys'', PList [PStr ''name''])]])]"

definition people :: "string list \<Rightarrow> py" where
  "people names = PList (map (\<lambda>n. PDict [(''label'', PStr ''person''), (''properties'', PDict [(''name'', PStr n)])]) names)"

theorem valid_payload_identities_witness:
  "\<exists>s. ingest_schema_opt people_schema = Inr (Some s) \<and> sorted_wrt (other_identity s) (map (\<lambda>n. PDict [(''label'', PStr ''person''),
     (''properties'', PDict [(''name'', PStr n)])]) [''a'', ''b''])"
proof -
  have "case (validate_graph_payload (\<lambda>t. True) (PDict [(''vertices'', people [''a'', ''b'']), (''edges'', PList [])]) people_schema,
      ingest_schema_opt people_schema) of (Inr c, Inr (Some s)) \<Rightarrow> pc_valid c | _ \<Rightarrow> False" by code_simp
  then obtain c s where "validate_graph_payload (\<lambda>t. True) (PDict [(''vertices'', people [''a'', ''b'']), (''edges'', PList [])])
      people_schema = Inr c" "pc_valid c" "ingest_schema_opt people_schema = Inr (Some s)"
    by (auto split: sum.splits option.splits)
  from valid_payload_identities [OF this] this(3) show ?thesis by (auto simp: dget_def people_def)
qed

subsection \<open>The digest does not depend on the order\<close>

lemma sort_key_perm:
  assumes "mset xs = mset ys" "inj_on f (set xs)"
  shows "sort_key f xs = sort_key f ys"
proof -
  have "inj_on f (set ys)" using assms mset_eq_setD by metis
  then show ?thesis using sort_key_inj_key_eq [of xs "sort_key f ys" f] assms by simp
qed

definition graph_payload :: "py list \<Rightarrow> py list \<Rightarrow> py" where
  "graph_payload vs es = PDict [(''vertices'', PList vs), (''edges'', PList es)]"

lemma normalize_graph_payload:
  "normalize_graph_data (graph_payload vs es) summary = PDict [(''edges'', PList (sort_key edge_sort_key (map normalize_value es))),
     (''vertices'', PList (sort_key (vertex_sort_key (summary_keys summary)) (map normalize_value vs)))]"
  by (simp add: normalize_graph_data_def graph_payload_def sort_list_by_def dget_def)

text \<open>Vertices and edges in another order have the same digest, as long as the sort keys tell them apart.\<close>

theorem import_digest_unordered:
  assumes "mset vs = mset vs'" "mset es = mset es'"
    "inj_on (vertex_sort_key (summary_keys (normalized_schema_summary False live))) (set (map normalize_value vs))"
    "inj_on edge_sort_key (set (map normalize_value es))"
  shows "calculate_plan_hash sha cfg (graph_payload vs es) live = calculate_plan_hash sha cfg (graph_payload vs' es') live"
proof -
  have "mset (map normalize_value vs) = mset (map normalize_value vs')" "mset (map normalize_value es) = mset (map normalize_value es')"
    using assms(1,2) by simp_all
  from sort_key_perm [OF this(1) assms(3)] sort_key_perm [OF this(2) assms(4)]
  show ?thesis by (simp add: calculate_plan_hash_def ingest_payload_def normalize_graph_payload)
qed

definition person :: "string \<Rightarrow> py" where
  "person n = PDict [(''label'', PStr ''person''), (''properties'', PDict [(''name'', PStr n)])]"

theorem import_digest_unordered_witness:
  "calculate_plan_hash (\<lambda>t. t) demo_config (graph_payload [person ''a'', person ''b''] []) people_schema =
   calculate_plan_hash (\<lambda>t. t) demo_config (graph_payload [person ''b'', person ''a''] []) people_schema"
proof (rule import_digest_unordered)
  have "distinct (map (vertex_sort_key (summary_keys (normalized_schema_summary False people_schema)))
      (map normalize_value [person ''a'', person ''b'']))" by code_simp
  then show "inj_on (vertex_sort_key (summary_keys (normalized_schema_summary False people_schema)))
      (set (map normalize_value [person ''a'', person ''b'']))" using distinct_map by blast
qed simp_all

text \<open>Without primary keys only the first property enters the sort key: two vertices that agree in it keep their order, and
  the order reaches the text that is hashed.\<close>

definition tagged :: "string \<Rightarrow> py" where
  "tagged n = PDict [(''label'', PStr ''event''), (''properties'', PDict [(''kind'', PStr ''k''), (''note'', PStr n)])]"

lemma order_reaches_digest:
  "ingest_payload demo_config (graph_payload [tagged ''a'', tagged ''b''] []) PNone \<noteq>
   ingest_payload demo_config (graph_payload [tagged ''b'', tagged ''a''] []) PNone"
  by code_simp

subsection \<open>Success of an import\<close>

lemma split_sum:
  fixes n p q :: int
  assumes "0 \<le> p" "0 \<le> q"
  shows "min p (max 0 n) + min q (max 0 (max 0 n - min p (max 0 n))) = min (max 0 n) (p + q)"
  using assms by linarith

lemma split_total_bounds:
  assumes "0 \<le> ec_vertices planned" "0 \<le> ec_edges planned"
  shows "0 \<le> ec_vertices (split_total_written n planned)" "ec_vertices (split_total_written n planned) \<le> ec_vertices planned"
    "0 \<le> ec_edges (split_total_written n planned)" "ec_edges (split_total_written n planned) \<le> ec_edges planned"
    "ec_vertices (split_total_written n planned) + ec_edges (split_total_written n planned) =
       min (max 0 n) (ec_vertices planned + ec_edges planned)"
proof -
  have e: "split_total_written n planned = \<lparr>ec_vertices = min (ec_vertices planned) (max 0 n),
      ec_edges = min (ec_edges planned) (max 0 (max 0 n - min (ec_vertices planned) (max 0 n)))\<rparr>"
    by (simp only: split_total_written_def Let_def max_absorb2 assms)
  note s = e element_counts.select_convs
  show "0 \<le> ec_vertices (split_total_written n planned)" "0 \<le> ec_edges (split_total_written n planned)"
    unfolding s by (intro min.boundedI assms max.cobounded1)+
  show "ec_vertices (split_total_written n planned) \<le> ec_vertices planned" "ec_edges (split_total_written n planned) \<le> ec_edges planned"
    unfolding s by (rule min.cobounded1)+
  show "ec_vertices (split_total_written n planned) + ec_edges (split_total_written n planned) =
      min (max 0 n) (ec_vertices planned + ec_edges planned)"
    unfolding s by (rule split_sum [OF assms])
qed

lemma canonical_import_applied: "canonical_import_status cls source w = APPLIED \<longleftrightarrow> cls = ''success''"
proof (cases "cls = ''success''")
  case True
  then show ?thesis by (simp add: canonical_import_status_def aggregate_plan_status_def is_success_def)
next
  case False
  then show ?thesis by (simp add: canonical_import_status_def aggregate_plan_status_def is_success_def)
qed


definition complete_answer :: py where
  "complete_answer = PDict [(''written'', PDict [(''vertices'', PInt 2), (''edge_count'', PStr ''1'')])]"


end
