(* ===== verification/Graph_Pipeline.thy ===== *)
theory Graph_Pipeline
  imports Graph_Write_Plan
begin

text \<open>
  Properties of the path from a change plan to a stored plan: mapping, validation, dry run, compilation. The
  dry run only reads; what the preview shows about the elements that an operation touches is what the
  compiled canonical plan holds.
\<close>

section \<open>The dry run only reads\<close>

lemma reads_only_read_count [intro]: "reads_only (read_count (traced_gateway g) q)"
  unfolding read_count_def by (rule reads_only_map [OF reads_only_execute])

lemma reads_only_read_values [intro]: "reads_only (read_values (traced_gateway g) q)"
  unfolding read_values_def by (rule reads_only_map [OF reads_only_execute])

lemma reads_only_count_endpoint [intro]: "reads_only (count_endpoint (traced_gateway g) idx o' op e q so)"
  unfolding count_endpoint_def by (intro reads_only_then reads_only_read_count reads_only_lift)

lemma reads_only_resolve_endpoint [intro]: "reads_only (resolve_endpoint (traced_gateway g) idx o' op ps e q so)"
  unfolding resolve_endpoint_def by (intro reads_only_then reads_only_read_values reads_only_lift)

lemma reads_only_edge_endpoints [intro]: "reads_only (append_edge_endpoint_counts (traced_gateway g) idx o' op ps so)"
  unfolding append_edge_endpoint_counts_def Let_def
  by (intro reads_only_then reads_only_lift) (auto split: option.split prod.split)

lemma reads_only_identity_counts [intro]: "reads_only (check_identity_counts (traced_gateway g) idx o' qs so)"
proof (induction qs arbitrary: so)
  case Nil
  then show ?case by (simp add: reads_only_pure)
next
  case (Cons q qs)
  obtain k t where q: "q = (k, t)" by (cases q)
  have "reads_only (\<lambda>b. check_identity_counts (traced_gateway g) idx o' ((k, t) # qs) so b)"
    unfolding check_identity_counts.simps by (intro reads_only_then reads_only_read_count Cons.IH)
  then show ?case by (simp add: q)
qed

lemma reads_only_create_vertex_counts [intro]:
  "reads_only (append_create_vertex_identity_counts (traced_gateway g) idx o' live so)"
  unfolding append_create_vertex_identity_counts_def by (intro reads_only_then reads_only_lift reads_only_identity_counts)

lemma reads_only_incident_edges [intro]: "reads_only (check_incident_edges (traced_gateway g) idx o' n t so)"
  unfolding check_incident_edges_def by (auto intro!: reads_only_then)

lemma reads_only_bind_delete [intro]: "reads_only (bind_delete_target (traced_gateway g) idx o' op so)"
  unfolding bind_delete_target_def Let_def
  by (intro reads_only_then reads_only_lift reads_only_read_values)
     (auto intro!: reads_only_then split: sum.split)

lemma reads_only_dry_run_operation [intro]: "reads_only (dry_run_operation (traced_gateway g) live ps idx o')"
  unfolding dry_run_operation_def Let_def by (auto intro!: reads_only_then split: prod.split)

lemma reads_only_dry_run_operations [intro]: "reads_only (dry_run_operations (traced_gateway g) live ps vs)"
proof (induction vs arbitrary: ps)
  case Nil
  then show ?case by (simp add: reads_only_pure)
next
  case (Cons v vs)
  have "reads_only (\<lambda>b. dry_run_operations (traced_gateway g) live ps (v # vs) b)"
    unfolding dry_run_operations.simps
    by (intro reads_only_then reads_only_lift reads_only_dry_run_operation) (auto intro!: reads_only_then Cons.IH split: prod.split)
  then show ?case by simp
qed

lemma reads_only_dry_run [intro]: "reads_only (dry_run_graph_change_plan sha isodate (traced_gateway g) plan live extra)"
  unfolding dry_run_graph_change_plan_def Let_def by (auto intro!: reads_only_then)

text \<open>C15. A dry run never changes the graph: everything it sends are read queries that the policy calls safe.\<close>

theorem dry_run_only_reads:
  assumes "dry_run_graph_change_plan sha isodate (traced_gateway g) plan live extra (b, l) = (r, b', l')"
  shows "\<exists>qs. l' = l @ map Sent_Read qs \<and> list_all is_safe_gremlin_read qs"
  using reads_only_dry_run [of sha isodate g plan live extra] assms unfolding reads_only_def by (metis snd_conv)

section \<open>The preview and the compiled operation agree\<close>

definition edge_keys :: "string list" where
  "edge_keys = [''source_operation_index'', ''source_id'', ''target_operation_index'', ''target_id'']"

definition in_sync :: "string list \<Rightarrow> step_out \<Rightarrow> bool" where
  "in_sync ks so \<longleftrightarrow> (\<forall>k\<in>set ks. dget (so_item so) k = dget (so_compiled so) k)"

lemma dget_dset [simp]: "dget (dset k v d) k' = (if k' = k then v else dget d k')"
  by (simp add: dget_def)

lemma in_sync_simps [simp]:
  "in_sync ks (op_error idx o' reason tip kind so) = in_sync ks so"
  "in_sync ks (retry_error idx o' reason so) = in_sync ks so"
  "in_sync ks (count_error idx o' op e n so) = in_sync ks so"
  by (simp_all add: in_sync_def op_error_def retry_error_def count_error_def)

lemma in_sync_set_item [intro]: "in_sync ks so \<Longrightarrow> k \<notin> set ks \<Longrightarrow> in_sync ks (set_item k v so)"
  by (simp add: in_sync_def set_item_def)

lemma in_sync_set_both [intro]: "in_sync ks so \<Longrightarrow> in_sync ks (set_both k v so)"
  by (simp add: in_sync_def set_both_def)

lemma so_compiled_simps [simp]:
  "so_compiled (op_error idx o' reason tip kind so) = so_compiled so"
  "so_compiled (retry_error idx o' reason so) = so_compiled so"
  "so_compiled (count_error idx o' op e n so) = so_compiled so"
  "so_compiled (set_item k v so) = so_compiled so"
  "so_compiled (set_both k v so) = dset k v (so_compiled so)"
  "so_item (op_error idx o' reason tip kind so) = so_item so"
  "so_item (retry_error idx o' reason so) = so_item so"
  "so_item (count_error idx o' op e n so) = so_item so"
  "so_item (set_item k v so) = dset k v (so_item so)"
  "so_item (set_both k v so) = dset k v (so_item so)"
  by (simp_all add: op_error_def retry_error_def count_error_def set_item_def set_both_def)

text \<open>The keys of an operation that the dry run leaves alone, and the first keys of its preview item.\<close>

definition kept :: "string list \<Rightarrow> py_dict \<Rightarrow> step_out \<Rightarrow> bool" where
  "kept ks o' so \<longleftrightarrow> (\<forall>k. k \<notin> set ks \<longrightarrow> map_of (so_compiled so) k = map_of o' k) \<and>
     dget (so_item so) ''op'' = PStr (op_name o') \<and> dget (so_item so) ''label'' = dget o' ''label''"

lemma kept_simps [simp]:
  "kept ks o' (op_error idx o'' reason tip kind so) = kept ks o' so"
  "kept ks o' (retry_error idx o'' reason so) = kept ks o' so"
  "kept ks o' (count_error idx o'' op e n so) = kept ks o' so"
  by (simp_all add: kept_def)

lemma kept_set [intro]:
  "kept ks o' so \<Longrightarrow> k \<noteq> ''op'' \<Longrightarrow> k \<noteq> ''label'' \<Longrightarrow> kept ks o' (set_item k v so)"
  "kept ks o' so \<Longrightarrow> k \<in> set ks \<Longrightarrow> k \<noteq> ''op'' \<Longrightarrow> k \<noteq> ''label'' \<Longrightarrow> kept ks o' (set_both k v so)"
  by (auto simp: kept_def)

lemma resolved_endpoint_sync:
  assumes "e = ''source'' \<or> e = ''target''" "in_sync edge_keys so" "kept edge_keys o' so"
  shows "in_sync edge_keys (snd (resolved_endpoint idx o' op ps e so r)) \<and>
    kept edge_keys o' (snd (resolved_endpoint idx o' op ps e so r))"
  using assms(1)
  by (cases r) (auto simp: resolved_endpoint_def Let_def edge_keys_def split: list.split
      intro!: in_sync_set_both in_sync_set_item kept_set assms(2,3) [unfolded edge_keys_def])

lemma counted_endpoint_kept:
  assumes "e = ''source'' \<or> e = ''target''" "kept [''target_id''] o' so"
  shows "kept [''target_id''] o' (snd (counted_endpoint idx o' op e so r)) \<and>
    dget (so_item (snd (counted_endpoint idx o' op e so r))) ''target_id'' = dget (so_item so) ''target_id''"
  using assms by (cases r) (auto simp: counted_endpoint_def Let_def intro!: kept_set)

lemma resolve_endpoint_sync:
  assumes "resolve_endpoint g idx o' op ps e q so b = (Inr (f, so'), b')" "e = ''source'' \<or> e = ''target''"
    and "in_sync edge_keys so" "kept edge_keys o' so"
  shows "in_sync edge_keys so' \<and> kept edge_keys o' so'"
  using assms(1) resolved_endpoint_sync [OF assms(2-4)]
  by (auto simp: resolve_endpoint_def res_simps) (metis snd_conv)+

lemma count_endpoint_kept:
  assumes "count_endpoint g idx o' op e q so b = (Inr (f, so'), b')" "e = ''source'' \<or> e = ''target''"
    and "kept [''target_id''] o' so"
  shows "kept [''target_id''] o' so' \<and> dget (so_item so') ''target_id'' = dget (so_item so) ''target_id''"
  using assms(1) counted_endpoint_kept [OF assms(2,3)]
  by (auto simp: count_endpoint_def res_simps) (metis snd_conv)+

lemma edge_endpoints_sync:
  assumes "append_edge_endpoint_counts g idx o' op (Some ps) so b = (Inr (f, so'), b')"
    and "in_sync edge_keys so" "kept edge_keys o' so"
  shows "in_sync edge_keys so' \<and> kept edge_keys o' so'"
proof -
  obtain qs qt f1 so1 b1 f2 where
    1: "resolve_endpoint g idx o' op ps ''source'' qs so b = (Inr (f1, so1), b1)" and
    2: "resolve_endpoint g idx o' op ps ''target'' qt so1 b1 = (Inr (f2, so'), b')"
    using assms(1) by (clarsimp simp: append_edge_endpoint_counts_def Let_def res_simps split_def)
  show ?thesis
    using resolve_endpoint_sync [OF 2] resolve_endpoint_sync [OF 1 _ assms(2,3)] by blast
qed

lemma resolve_endpoint_kept:
  assumes "resolve_endpoint g idx o' op ps e q so b = (Inr (f, so'), b')" "e = ''source'' \<or> e = ''target''"
    and "kept edge_keys o' so"
  shows "kept edge_keys o' so'"
proof -
  have "kept edge_keys o' (snd (resolved_endpoint idx o' op ps e so r))" for r
    using assms(2)
    by (cases r) (auto simp: resolved_endpoint_def Let_def edge_keys_def split: list.split
        intro!: kept_set assms(3) [unfolded edge_keys_def])
  then show ?thesis using assms(1) by (auto simp: resolve_endpoint_def res_simps) (metis snd_conv)+
qed

lemma edge_endpoints_kept_some:
  assumes "append_edge_endpoint_counts g idx o' op (Some ps) so b = (Inr (f, so'), b')" "kept edge_keys o' so"
  shows "kept edge_keys o' so'"
proof -
  obtain qs qt f1 so1 b1 f2 where
    1: "resolve_endpoint g idx o' op ps ''source'' qs so b = (Inr (f1, so1), b1)" and
    2: "resolve_endpoint g idx o' op ps ''target'' qt so1 b1 = (Inr (f2, so'), b')"
    using assms(1) by (clarsimp simp: append_edge_endpoint_counts_def Let_def res_simps split_def)
  show ?thesis
    using resolve_endpoint_kept [OF 2] resolve_endpoint_kept [OF 1 _ assms(2)] by simp
qed

lemma edge_endpoints_kept:
  assumes "append_edge_endpoint_counts g idx o' op None so b = (Inr (f, so'), b')" "kept [''target_id''] o' so"
  shows "kept [''target_id''] o' so' \<and> dget (so_item so') ''target_id'' = dget (so_item so) ''target_id''"
proof -
  obtain qs qt f1 so1 b1 f2 where
    1: "count_endpoint g idx o' op ''source'' qs so b = (Inr (f1, so1), b1)" and
    2: "count_endpoint g idx o' op ''target'' qt so1 b1 = (Inr (f2, so'), b')"
    using assms(1) by (clarsimp simp: append_edge_endpoint_counts_def Let_def res_simps split_def)
  show ?thesis
    using count_endpoint_kept [OF 2] count_endpoint_kept [OF 1 _ assms(2)] by simp
qed

definition target_sync :: "step_out \<Rightarrow> bool" where
  "target_sync so \<longleftrightarrow> dget (so_item so) ''target_id'' \<in> {PNone, dget (so_compiled so) ''target_id''}"

lemma target_sync_simps [simp]:
  "target_sync (op_error idx o' reason tip kind so) = target_sync so"
  "target_sync (retry_error idx o' reason so) = target_sync so"
  "target_sync (set_both ''target_id'' v so)"
  "k \<noteq> ''target_id'' \<Longrightarrow> target_sync (set_item k v so) = target_sync so"
  by (simp_all add: target_sync_def)

lemma bound_target_sync:
  assumes "kept [''target_id''] o' so" "target_sync so"
  shows "kept [''target_id''] o' (bound_target idx o' op ids so) \<and> target_sync (bound_target idx o' op ids so)"
  using assms by (auto simp: bound_target_def Let_def intro!: kept_set)

lemma check_incident_edges_sync:
  assumes "check_incident_edges g idx o' n t so b = (Inr so', b')" "kept [''target_id''] o' so" "target_sync so"
  shows "kept [''target_id''] o' so' \<and> target_sync so'"
proof -
  have "kept [''target_id''] o' (counted_edges idx o' so r) \<and> target_sync (counted_edges idx o' so r)" for r
    using assms(2,3) by (cases r) (auto simp: counted_edges_def Let_def intro!: kept_set)
  moreover have "kept [''target_id''] o' (listed_edges idx o' so r) \<and> target_sync (listed_edges idx o' so r)" for r
    using assms(2,3) by (cases r) (auto simp: listed_edges_def intro!: kept_set)
  ultimately show ?thesis
    using assms by (auto simp: check_incident_edges_def res_simps split: if_splits)
qed

lemma bind_delete_target_sync:
  assumes "bind_delete_target g idx o' op so b = (Inr (shown, so'), b')" "kept [''target_id''] o' so" "target_sync so"
  shows "kept [''target_id''] o' so' \<and> target_sync so' \<and> (shown \<or> so_errors so' \<noteq> [])"
  using assms(1) unfolding bind_delete_target_def
proof (elim st_then_InrE)
  fix q b1 r b2
  assume "(case r of
         Inl ans \<Rightarrow> st_lift (Inr (False, retry_error idx o' ''target id query failed'' so))
       | Inr ids \<Rightarrow> st_then
           (check_incident_edges g idx o' (length ids) (found_target ids) (bound_target idx o' op ids so))
           (\<lambda>so. st_lift (Inr (True, so)))) b2 = (Inr (shown, so'), b')"
  note step = this
  show ?thesis
  proof (cases r)
    case (Inl ans)
    then have "shown = False" "so' = retry_error idx o' ''target id query failed'' so"
      using step by (simp_all add: st_lift_Inr)
    then show ?thesis using assms(2,3) by (simp add: retry_error_def op_error_def kept_def target_sync_def)
  next
    case (Inr ids)
    then have "shown" and c: "check_incident_edges g idx o' (length ids) (found_target ids) (bound_target idx o' op ids so) b2 = (Inr so', b')"
      using step by (simp_all add: st_then_Inr st_lift_Inr)
    then show ?thesis using check_incident_edges_sync [OF c] bound_target_sync [OF assms(2,3)] by blast
  qed
qed

text \<open>What one turn of the loop guarantees about its preview item and its compiled operation.\<close>

definition item_matches :: "py_dict \<Rightarrow> step_out \<Rightarrow> bool" where
  "item_matches o' so \<longleftrightarrow> kept edge_keys o' so \<and>
     (op_name o' = ''create_edge'' \<longrightarrow> list_all (\<lambda>k. \<not> has_key o' k) edge_keys \<longrightarrow> in_sync edge_keys so) \<and>
     (op_name o' = ''delete_edge'' \<or> op_name o' = ''delete_vertex'' \<longrightarrow> target_sync so)"

lemma kept_mono: "kept ks o' so \<Longrightarrow> set ks \<subseteq> set ks' \<Longrightarrow> kept ks' o' so"
  by (auto simp: kept_def)

lemma counted_identity_kept:
  "k = ''id'' \<or> k = ''primary_key'' \<Longrightarrow> kept ks o' so \<Longrightarrow> kept ks o' (counted_identity idx o' k so r)"
  by (cases r) (auto simp: counted_identity_def Let_def intro!: kept_set)

lemma identity_counts_kept:
  assumes "check_identity_counts g idx o' qs so b = (Inr so', b')" "kept ks o' so"
    and "\<And>k q. (k, q) \<in> set qs \<Longrightarrow> k = ''id'' \<or> k = ''primary_key''"
  shows "kept ks o' so'"
  using assms
proof (induction qs arbitrary: so b)
  case (Cons q qs)
  obtain k t where q: "q = (k, t)" by (cases q)
  obtain r b1 where "check_identity_counts g idx o' qs (counted_identity idx o' k so r) b1 = (Inr so', b')"
    using Cons.prems(1) unfolding q check_identity_counts.simps by (elim st_then_InrE)
  then show ?case
  proof (rule Cons.IH)
    show "kept ks o' (counted_identity idx o' k so r)"
      using Cons.prems(3) [of k t] q by (intro counted_identity_kept Cons.prems(2)) simp
  qed (use Cons.prems(3) q in auto)
qed simp

lemma primary_key_kinds: "(k, q) \<in> set (primary_key_queries o' prefix pks) \<Longrightarrow> k = ''primary_key''"
  by (auto simp: primary_key_queries_def split: py.splits if_splits)

lemma identity_query_kinds:
  assumes "create_vertex_identity_queries o' live = Inr qs" "(k, q) \<in> set qs"
  shows "k = ''id'' \<or> k = ''primary_key''"
  using assms
  by (cases "dget o' ''label''")
     (auto simp: create_vertex_identity_queries_def Let_def res_simps split: if_splits dest!: primary_key_kinds)

lemma dry_run_operation_matches:
  assumes "dry_run_operation g live ps idx o' b = (Inr (shown, so), b')"
  shows "item_matches o' so \<and> (shown \<or> so_errors so \<noteq> [])"
proof -
  let ?so = "\<lparr>so_item = [(''operation_index'', PInt (int idx)), (''op'', PStr (op_name o')), (''label'', dget o' ''label''),
     (''action'', PStr (op_name o'))], so_errors = [], so_compiled = o'\<rparr>"
  have start: "kept ks o' ?so" "target_sync ?so" for ks by (simp_all add: kept_def target_sync_def dget_def)
  have fresh: "in_sync edge_keys ?so" if "list_all (\<lambda>k. \<not> has_key o' k) edge_keys"
    using that by (simp add: in_sync_def edge_keys_def dget_def has_key_def)
  note def = assms [unfolded dry_run_operation_def Let_def]
  consider (edge) "op_name o' = ''create_edge''" | (vertex) "op_name o' = ''create_vertex''"
    | (other) "op_name o' \<noteq> ''create_edge''" "op_name o' \<noteq> ''create_vertex''" "op_name o' \<notin> set WRITE_OPS"
    | (de) "op_name o' = ''delete_edge''" | (dv) "op_name o' = ''delete_vertex''"
    by (auto simp: WRITE_OPS_def)
  then show ?thesis
  proof cases
    case edge
    then obtain f s1 b1 where e: "append_edge_endpoint_counts g idx o' ''create_edge'' (Some ps) ?so b = (Inr (f, s1), b1)"
        and so: "so = (if f then s1 else set_item ''matched_count'' PNone s1)" and "shown"
      using def by (auto simp: res_simps)
    have k: "kept edge_keys o' s1" using edge_endpoints_kept_some [OF e start(1)] .
    have "in_sync edge_keys s1" if "list_all (\<lambda>k. \<not> has_key o' k) edge_keys"
      using edge_endpoints_sync [OF e fresh [OF that] start(1)] by blast
    then show ?thesis using k so \<open>shown\<close> edge
      by (auto simp: item_matches_def edge_keys_def intro!: kept_set in_sync_set_item)
  next
    case vertex
    then obtain qs s1 b1 where "create_vertex_identity_queries o' live = Inr qs"
        and c: "check_identity_counts g idx o' qs ?so b1 = (Inr s1, b')"
        and so: "so = set_item ''matched_count'' PNone s1" and "shown"
      using def by (auto simp: append_create_vertex_identity_counts_def res_simps)
    then have "kept edge_keys o' s1" using identity_counts_kept [OF c start(1)] identity_query_kinds by blast
    then show ?thesis using so \<open>shown\<close> vertex by (auto simp: item_matches_def intro!: kept_set)
  next
    case other
    then show ?thesis using def start by (auto simp: res_simps item_matches_def WRITE_OPS_def intro!: kept_set)
  next
    case de
    then obtain f s1 b1 where e: "append_edge_endpoint_counts g idx o' ''delete_edge'' None ?so b = (Inr (f, s1), b1)"
        and step: "(if f then st_lift (Inr (True, s1)) else bind_delete_target g idx o' (op_name o') s1) b1 = (Inr (shown, so), b')"
      using def by (auto simp: res_simps WRITE_OPS_def)
    have s1: "kept [''target_id''] o' s1" "target_sync s1"
      using edge_endpoints_kept [OF e start(1)] by (simp_all add: target_sync_def dget_def)
    have "kept [''target_id''] o' so \<and> target_sync so \<and> (shown \<or> so_errors so \<noteq> [])"
    proof (cases f)
      case True
      then show ?thesis using step s1 by (simp add: st_lift_Inr)
    next
      case False
      then have "bind_delete_target g idx o' (op_name o') s1 b1 = (Inr (shown, so), b')" using step by simp
      from bind_delete_target_sync [OF this s1] show ?thesis .
    qed
    then show ?thesis using de by (auto simp: item_matches_def edge_keys_def intro: kept_mono)
  next
    case dv
    then have "bind_delete_target g idx o' ''delete_vertex'' ?so b = (Inr (shown, so), b')"
      using def by (simp add: WRITE_OPS_def)
    from bind_delete_target_sync [OF this start] show ?thesis using dv
      by (auto simp: item_matches_def edge_keys_def intro: kept_mono)
  qed
qed

section \<open>The whole plan\<close>

lemma dry_run_operations_match:
  assumes "dry_run_operations g live ps vs b = (Inr loop, b')" "dl_errors loop = []"
  shows "length (dl_preview loop) = length vs \<and> length (dl_compiled loop) = length vs \<and>
    (\<forall>i<length vs. \<exists>o' so. vs ! i = PDict o' \<and> item_matches o' so \<and>
       dl_preview loop ! i = so_item so \<and> dl_compiled loop ! i = so_compiled so)"
  using assms
proof (induction vs arbitrary: ps b loop)
  case (Cons v vs)
  obtain o' b1 shown so b2 rest where
      v: "py_items v = Inr o'" and step: "dry_run_operation g live ps (length ps) o' b1 = (Inr (shown, so), b2)"
      and rest: "dry_run_operations g live (ps @ [v]) vs b2 = (Inr rest, b')"
      and loop: "loop = \<lparr>dl_preview = (if shown then [so_item so] else []) @ dl_preview rest,
         dl_errors = so_errors so @ dl_errors rest, dl_compiled = so_compiled so # dl_compiled rest\<rparr>"
    using Cons.prems(1) by (auto simp: res_simps split_def)
  have "v = PDict o'" using v by (cases v) auto
  moreover have "shown" "item_matches o' so" "dl_errors rest = []"
    using dry_run_operation_matches [OF step] Cons.prems(2) loop by auto
  moreover note IH = Cons.IH [OF rest this(3)]
  ultimately show ?case
    using loop by (auto simp: nth_Cons split: nat.split)
qed simp

text \<open>A stored operation touches what its preview item shows.\<close>

definition shown_by :: "string list \<Rightarrow> py_dict \<Rightarrow> OperationPlan \<Rightarrow> bool" where
  "shown_by ids item o' \<longleftrightarrow>
     (let op = dget item ''op'' in
      (op = PStr ''create_vertex'' \<longrightarrow> op_kind o' = CREATE_VERTEX) \<and>
      (op = PStr ''create_edge'' \<longrightarrow> op_kind o' = CREATE_EDGE \<and>
        (\<exists>s sd t td. endpoint_target item ''source'' ids = Inr (s, sd) \<and> endpoint_target item ''target'' ids = Inr (t, td) \<and>
           dget (op_target o') ''source'' = freeze s \<and> dget (op_target o') ''target'' = freeze t \<and>
           set (op_depends_on o') = set sd \<union> set td)) \<and>
      (op = PStr ''delete_edge'' \<or> op = PStr ''delete_vertex'' \<longrightarrow>
        op_kind o' = (if op = PStr ''delete_edge'' then DELETE_EDGE else DELETE_VERTEX) \<and>
        (dget item ''target_id'' \<noteq> PNone \<longrightarrow>
           dget (op_target o') ''id'' = freeze (dget item ''target_id'') \<and>
           dget (op_expected o') ''id'' = freeze (dget item ''target_id''))))"

lemma keyed_operation_Inr:
  "keyed_operation sha oid kind target expected desired deps = Inr o' \<Longrightarrow>
     op_id o' = oid \<and> op_kind o' = kind \<and> op_target o' = map (\<lambda>kv. (fst kv, freeze (snd kv))) target \<and>
     op_expected o' = map (\<lambda>kv. (fst kv, freeze (snd kv))) expected \<and> op_depends_on o' = deps"
  by (auto simp: keyed_operation_def mk_operation_plan_def freeze_mapping_def split: if_splits)

lemma endpoint_target_cong:
  assumes "in_sync edge_keys so" "e = ''source'' \<or> e = ''target''"
  shows "endpoint_target (so_compiled so) e ids = endpoint_target (so_item so) e ids"
proof -
  have "dget (so_compiled so) (e @ ''_operation_index'') = dget (so_item so) (e @ ''_operation_index'')"
    "dget (so_compiled so) (e @ ''_id'') = dget (so_item so) (e @ ''_id'')"
    using assms by (auto simp: in_sync_def edge_keys_def)
  then show ?thesis by (simp only: endpoint_target_def)
qed

lemma op_name_kept: "kept edge_keys o' so \<Longrightarrow> op_name (so_compiled so) = op_name o'"
  by (simp add: kept_def op_name_def dget_def edge_keys_def)

lemma compile_operation_shown:
  assumes "item_matches o' so" "compile_operation sha live oid ids (PDict (so_compiled so)) = Inr c"
    and "op_name o' = ''create_edge'' \<longrightarrow> list_all (\<lambda>k. \<not> has_key o' k) edge_keys"
  shows "shown_by ids (so_item so) c \<and> op_id c = oid"
proof -
  have op: "op_name (so_compiled so) = op_name o'" "dget (so_item so) ''op'' = PStr (op_name o')"
    using assms(1) op_name_kept by (auto simp: item_matches_def kept_def)
  consider (cv) "op_name o' = ''create_vertex''" | (ce) "op_name o' = ''create_edge''"
    | (d) "op_name o' = ''delete_vertex'' \<or> op_name o' = ''delete_edge''"
    using assms(2) op by (auto simp: compile_operation_def Let_def split: if_splits)
  then show ?thesis
  proof cases
    case cv
    then show ?thesis using assms(2) op
      by (auto simp: compile_operation_def Let_def compile_create_vertex_def res_simps shown_by_def dest!: keyed_operation_Inr)
  next
    case ce
    then have sync: "in_sync edge_keys so" using assms(1,3) by (simp add: item_matches_def)
    show ?thesis using assms(2) op ce endpoint_target_cong [OF sync]
      by (auto simp: compile_operation_def Let_def compile_create_edge_def res_simps split_def shown_by_def dget_def
          dest!: keyed_operation_Inr)
  next
    case d
    then have sync: "target_sync so" using assms(1) by (auto simp: item_matches_def)
    show ?thesis using assms(2) op d sync
      by (auto simp: compile_operation_def Let_def compile_delete_def res_simps shown_by_def target_sync_def
          dget_def [of "op_target c"] dget_def [of "op_expected c"] dest!: keyed_operation_Inr split: if_splits)
  qed
qed

lemma map_res_nth: "map_res f xs = Inr ys \<Longrightarrow> length ys = length xs \<and> (\<forall>i<length xs. f (xs ! i) = Inr (ys ! i))"
proof (induction xs arbitrary: ys)
  case (Cons x xs)
  then obtain y zs where "f x = Inr y" "map_res f xs = Inr zs" "ys = y # zs" by (auto simp: res_simps)
  then show ?case using Cons.IH by (auto simp: nth_Cons split: nat.split)
qed simp

lemma plan_operations_with:
  "is_list plan \<or> (\<exists>d. plan = PDict d \<and> is_list (dget d ''operations'')) \<Longrightarrow>
     plan_operations (with_operations plan ops) = map PDict ops"
  by (cases plan) (auto simp: plan_operations_def with_operations_def)

lemma validated_shape:
  "validate_graph_change_plan isodate plan live = Inr v \<Longrightarrow> vd_valid v \<Longrightarrow>
     is_list plan \<or> (\<exists>d. plan = PDict d \<and> is_list (dget d ''operations''))"
  by (cases plan) (auto simp: validate_graph_change_plan_def single_error_def vd_valid_def split: if_splits)


text \<open>A plan that the mapping makes satisfies the last hypothesis: an edge of it has only the mapping's keys.\<close>

lemma mapped_edges_fresh:
  assumes "graph_data_to_change_plan graph_data live = Inr plan" "PDict d \<in> set (plan_operations plan)"
    "op_name d = ''create_edge''"
  shows "list_all (\<lambda>k. \<not> has_key d k) edge_keys"
proof -
  have v: "op_name (vertex_operation v) = ''create_vertex''" for v
    by (simp add: op_name_def vertex_operation_def dget_def py_or_def)
  have e: "list_all (\<lambda>k. \<not> has_key (edge_operation mi x) k) edge_keys" for mi x
    by (simp add: edge_operation_def Let_def has_key_def edge_keys_def)
  show ?thesis
    using assms v e
    by (auto simp: graph_data_to_change_plan_def res_simps Let_def change_plan_from_operations_def plan_operations_def dget_def)
qed

section \<open>A small import\<close>

definition small_schema :: py where
  "small_schema = PDict [(''propertykeys'', PList [PDict [(''name'', PStr ''name''), (''data_type'', PStr ''TEXT'')]]),
     (''vertexlabels'', PList [PDict [(''name'', PStr ''person''), (''properties'', PList [PStr ''name'']),
        (''primary_keys'', PList [PStr ''name''])]]),
     (''edgelabels'', PList [PDict [(''name'', PStr ''knows''), (''source_label'', PStr ''person''), (''target_label'', PStr ''person''),
        (''properties'', PList [])]])]"

text \<open>A new person who knows a person of the graph.\<close>

definition small_data :: py_dict where
  "small_data = [(''vertices'', PList [PDict [(''label'', PStr ''person''), (''properties'', PDict [(''name'', PStr ''a'')])]]),
     (''edges'', PList [PDict [(''label'', PStr ''knows''), (''source_label'', PStr ''person''), (''target_label'', PStr ''person''),
        (''source'', PStr ''a''), (''outV'', PNone), (''target'', PDict [(''id'', PStr ''v9'')])]])]"

definition small_import :: py where
  "small_import = (case graph_data_to_change_plan small_data small_schema of Inr plan \<Rightarrow> plan | Inl e \<Rightarrow> PNone)"

definition small_gateway :: "bool gateway" where
  "small_gateway = \<lparr>gw_cfg = parse_env (\<lambda>_. None) demo_env, gw_threshold = None, gw_address = ''host'', gw_duration = PInt 1,
     gw_read = (\<lambda>q b. (Returned (PDict [(''data'', PList (if contains q ''hasId'' then [PStr ''v9''] else []))]), b)),
     gw_write = (\<lambda>q b. (Returned PNone, b))\<rparr>"

definition small_run :: "dry_run res \<times> bool" where
  "small_run = dry_run_graph_change_plan (\<lambda>t. ''h'') (\<lambda>t. True) small_gateway small_import small_schema PNone True"

definition small_context :: PlanContext where
  "small_context = context_of (gw_cfg small_gateway) ''tool'' ''import'' ''d'' None ''n'' 700 []"

definition small_compiled :: "WritePlan res" where
  "small_compiled = (case fst small_run of
      Inr (Previewed h compiled s i n) \<Rightarrow> compile_graph_write_plan (\<lambda>t. ''h'') ''1'' 100 small_context ''tool'' small_schema compiled
    | _ \<Rightarrow> Inl (AssertionError []))"

lemma small_import_fresh:
  "\<forall>d. PDict d \<in> set (plan_operations small_import) \<longrightarrow> op_name d = ''create_edge'' \<longrightarrow> list_all (\<lambda>k. \<not> has_key d k) edge_keys"
proof -
  obtain plan where plan: "graph_data_to_change_plan small_data small_schema = Inr plan"
    by (cases "graph_data_to_change_plan small_data small_schema")
       (auto simp: graph_data_to_change_plan_def small_data_def small_schema_def dict_items_def dget_def py_or_def
          single_primary_keys_by_label_def schema_payload_def has_key_def Let_def)
  then show ?thesis using mapped_edges_fresh [OF plan] by (simp add: small_import_def)
qed

lemma small_compiled_deps:
  "case small_compiled of Inr wp \<Rightarrow> map op_depends_on (wp_operations wp) = [[], [''wp_1:op:0000'']] | Inl e \<Rightarrow> False"
  by code_simp


definition small_trace :: "graph_call list" where
  "small_trace = snd (snd (dry_run_graph_change_plan (\<lambda>t. ''h'') (\<lambda>t. True) (traced_gateway small_gateway) small_import small_schema
     PNone (True, [])))"

theorem dry_run_only_reads_witness: "length small_trace = 3 \<and> (\<exists>qs. small_trace = map Sent_Read qs)"
proof -
  have "length small_trace = 3" by code_simp
  moreover
  let ?d = "dry_run_graph_change_plan (\<lambda>t. ''h'') (\<lambda>t. True) (traced_gateway small_gateway) small_import small_schema PNone (True, [])"
  have "?d = (fst ?d, fst (snd ?d), snd (snd ?d))" by simp
  from dry_run_only_reads [OF this] have "\<exists>qs. small_trace = map Sent_Read qs" unfolding small_trace_def by auto
  ultimately show ?thesis by blast
qed

end
