(* ===== verification/Graph_Execute.thy ===== *)
theory Graph_Execute
  imports Graph_Pipeline "HOL-Library.Sublist"
begin

text \<open>
  Model of the executing half of \<open>hugegraph_mcp/tools/graph_data_execute.py\<close>: the one-release executor of
  compiled change plans, which the legacy confirmation uses. It goes through the operations, looks before
  and after a delete, writes at most once per operation and stops at the first failure.
\<close>

section \<open>Errors and results\<close>

text \<open>The error of an answer, and an error with a type of its own; both are envelopes in the code.\<close>

record exec_error =
  ee_type :: string
  ee_message :: string
  ee_suggestion :: "string option"
  ee_retryable :: bool
  ee_details :: py

definition error_of_answer :: "answer \<Rightarrow> exec_error" where
  "error_of_answer ans = (case an_response ans of
      envelope_err t m s d \<Rightarrow> \<lparr>ee_type = error_value t, ee_message = m, ee_suggestion = s, ee_retryable = an_retryable ans, ee_details = d\<rparr>
    | envelope_ok d \<Rightarrow> \<lparr>ee_type = error_value CONNECTION_FAILED, ee_message = ''Graph change execution failed.'', ee_suggestion = None,
        ee_retryable = False, ee_details = d\<rparr>)"

definition typed_error :: "string \<Rightarrow> string \<Rightarrow> string option \<Rightarrow> py_dict \<Rightarrow> exec_error" where
  "typed_error t m s d = \<lparr>ee_type = t, ee_message = m, ee_suggestion = s, ee_retryable = False, ee_details = PDict d\<rparr>"

record exec_result =
  xr_index :: nat
  xr_op :: string
  xr_label :: py
  xr_target :: "py option"
  xr_status :: ApplyStatus
  xr_answer :: "answer option"

record failed_item =
  fi_index :: nat
  fi_op :: py
  fi_label :: py
  fi_status :: ApplyStatus
  fi_error :: exec_error

datatype execution =
    Exec_Error exec_error
  | Exec_Stopped PlanStatus "exec_result list" failed_item
  | Exec_Done PlanStatus "exec_result list" "(string \<times> nat) list"

text \<open>The cause is the error or a description; the operation is repeated for the reconciliation.\<close>

definition unknown_write_outcome :: "py_dict \<Rightarrow> nat \<Rightarrow> py \<Rightarrow> exec_error" where
  "unknown_write_outcome operation idx cause = typed_error (error_value WRITE_OUTCOME_UNKNOWN)
     ''The write may have committed; reconcile the target state before retrying.''
     (Some ''Inspect the target by stable identity and do not replay this operation blindly.'')
     [(''status'', PStr (apply_value ApplyStatus.UNKNOWN)), (''reconciliation_required'', PBool True),
      (''operation_index'', PInt (int idx)), (''operation'', PDict operation), (''cause'', cause)]"

definition error_cause :: "exec_error \<Rightarrow> py" where
  "error_cause e = PDict [(''type'', PStr (ee_type e)), (''message'', PStr (ee_message e)),
     (''suggestion'', py_opt_str (ee_suggestion e)), (''retryable'', PBool (ee_retryable e)), (''details'', ee_details e)]"

definition write_affected_count :: "answer \<Rightarrow> int option res" where
  "write_affected_count ans = (case an_response ans of
      envelope_ok (PDict d) \<Rightarrow>
        if \<not> has_key d ''affected'' \<and> \<not> has_key d ''count'' then Inr None
        else (case py_int (dget d (if has_key d ''affected'' then ''affected'' else ''count'')) of
            Inr n \<Rightarrow> Inr (Some n)
          | Inl (OverflowError m) \<Rightarrow> Inl (OverflowError m)
          | Inl e \<Rightarrow> Inr None)
    | _ \<Rightarrow> Inr None)"

definition error_apply_status :: "exec_error \<Rightarrow> ApplyStatus" where
  "error_apply_status e =
     (if ee_type e = error_value WRITE_OUTCOME_UNKNOWN then ApplyStatus.UNKNOWN
      else if ee_type e = error_value WRITE_CONFLICT \<or> ee_type e = ''BLOCKED_BY_RELATIONSHIPS'' then ApplyStatus.CONFLICT
      else ApplyStatus.REJECTED)"

definition execution_failure :: "exec_error \<Rightarrow> py_dict \<Rightarrow> nat \<Rightarrow> exec_result list \<Rightarrow> execution" where
  "execution_failure e operation idx results =
     (if results = [] then Exec_Error e
      else Exec_Stopped (aggregate_plan_status (map xr_status results @ [error_apply_status e])) results
        \<lparr>fi_index = idx, fi_op = py_or (dget operation ''op'') (dget operation ''type''), fi_label = dget operation ''label'',
         fi_status = error_apply_status e, fi_error = e\<rparr>)"

section \<open>One operation\<close>

text \<open>A step ends in an error or in the result of the operation.\<close>

fun identity_conflict ::
  "'b gateway \<Rightarrow> nat \<Rightarrow> (string \<times> string) list \<Rightarrow> 'b \<Rightarrow> exec_error option res \<times> 'b" where
  "identity_conflict g idx [] b = (Inr None, b)"
| "identity_conflict g idx ((kind, query) # queries) b =
     st_then (read_count g query) (\<lambda>r. case r of
         Inl ans \<Rightarrow> st_lift (Inr (Some (error_of_answer ans)))
       | Inr n \<Rightarrow>
         if n > 0 then st_lift (Inr (Some (typed_error (error_value INVALID_GRAPH_DATA)
             (''create_vertex '' @ kind @ '' identity already exists before execution.'') None
             [(''operation_index'', PInt (int idx)), (''identity_type'', PStr kind), (''matched_count'', PInt n)])))
         else identity_conflict g idx queries) b"

definition create_vertex_identity_conflict ::
  "'b gateway \<Rightarrow> nat \<Rightarrow> py_dict \<Rightarrow> py \<Rightarrow> 'b \<Rightarrow> exec_error option res \<times> 'b" where
  "create_vertex_identity_conflict g idx operation live =
     st_then (st_lift (create_vertex_identity_queries operation live)) (identity_conflict g idx)"

definition applied :: "nat \<Rightarrow> py_dict \<Rightarrow> answer \<Rightarrow> exec_result" where
  "applied idx operation ans = \<lparr>xr_index = idx, xr_op = op_name operation, xr_label = dget operation ''label'', xr_target = None,
     xr_status = ApplyStatus.APPLIED, xr_answer = Some ans\<rparr>"

definition AMBIGUOUS_WRITE_ERRORS :: "string list" where
  "AMBIGUOUS_WRITE_ERRORS = map error_value [CONNECTION_FAILED, SERVER_ERROR, TIMEOUT]"

text \<open>The outcome of a create, from the answer of the write.\<close>

definition created :: "nat \<Rightarrow> py_dict \<Rightarrow> answer \<Rightarrow> (exec_error + exec_result) res" where
  "created idx operation ans =
     (let op = op_name operation in
      and_then (write_affected_count ans) (\<lambda>affected. Inr (case affected of
          None \<Rightarrow> Inl (unknown_write_outcome operation idx
            (PDict [(''reason'', PStr ''unexpected affected count''), (''affected'', PNone)]))
        | Some n \<Rightarrow>
          if n = 1 then Inr (applied idx operation ans)
          else Inl (typed_error (error_value FLOW_EXECUTION_FAILED)
            (op @ '' execution affected '' @ int_str n @ '' element(s), expected 1.'') None
            [(''status'', PStr (apply_value ApplyStatus.REJECTED)), (''operation_index'', PInt (int idx)), (''op'', PStr op),
             (''affected'', PInt n)]))))"

text \<open>The delete whose target is still there.\<close>

definition delete_left_target ::
  "'b gateway \<Rightarrow> nat \<Rightarrow> py_dict \<Rightarrow> string \<Rightarrow> int \<Rightarrow> 'b \<Rightarrow> exec_error res \<times> 'b" where
  "delete_left_target g idx operation query remaining =
     (let op = op_name operation; target = (''target_id'', dget operation ''target_id'') in
      if op = ''delete_vertex'' \<and> no_cascade operation then
        st_then (read_count g (query @ ''.bothE()'')) (\<lambda>r. st_lift (Inr (case r of
            Inl ans \<Rightarrow> error_of_answer ans
          | Inr n \<Rightarrow>
            if n > 0 then typed_error ''BLOCKED_BY_RELATIONSHIPS'' ''delete_vertex cascade=false was blocked by associated edges.''
              (Some ''Delete associated edges first, then retry the vertex delete.'')
              [(''operation_index'', PInt (int idx)), target, (''associated_edge_count'', PInt n)]
            else typed_error (error_value WRITE_CONFLICT) ''delete_vertex conditional deletion did not remove the target.''
              (Some ''Inspect the target state and create a new dry-run plan.'')
              [(''operation_index'', PInt (int idx)), target])))
      else st_lift (Inr (typed_error ''DELETE_VERIFY_FAILED'' (op @ '' execution did not remove the matched element.'')
        (Some ''Inspect the graph state and retry after confirming the match criteria.'')
        [(''operation_index'', PInt (int idx)), (''op'', PStr op), (''matched_count'', PInt remaining)])))"

definition verify_deleted ::
  "'b gateway \<Rightarrow> nat \<Rightarrow> py_dict \<Rightarrow> answer \<Rightarrow> 'b \<Rightarrow> (exec_error + exec_result) res \<times> 'b" where
  "verify_deleted g idx operation ans =
     st_then (st_lift (delete_target_query operation)) (\<lambda>query.
     st_then (read_count g query) (\<lambda>r. case r of
         Inl a \<Rightarrow> st_lift (Inr (Inl (unknown_write_outcome operation idx (error_cause (error_of_answer a)))))
       | Inr n \<Rightarrow> if n = 0 then st_lift (Inr (Inr (applied idx operation ans)))
           else st_then (delete_left_target g idx operation query n) (\<lambda>e. st_lift (Inr (Inl e)))))"

text \<open>The write of an operation and what follows it.\<close>

definition data_write :: "'b gateway \<Rightarrow> string \<Rightarrow> 'b \<Rightarrow> answer res \<times> 'b" where
  "data_write g q b = (let (ans, b') = execute_gremlin_write g DATA_WRITE q b in (Inr ans, b'))"

definition failed_write :: "nat \<Rightarrow> py_dict \<Rightarrow> answer \<Rightarrow> exec_error" where
  "failed_write idx operation ans =
     (let e = error_of_answer ans in
      if ee_type e \<in> set AMBIGUOUS_WRITE_ERRORS then unknown_write_outcome operation idx (error_cause e) else e)"

definition write_operation ::
  "'b gateway \<Rightarrow> nat \<Rightarrow> py_dict \<Rightarrow> 'b \<Rightarrow> (exec_error + exec_result) res \<times> 'b" where
  "write_operation g idx operation =
     st_then (st_lift (write_query operation)) (\<lambda>q.
     st_then (data_write g q) (\<lambda>ans.
       if \<not> is_ok (an_response ans) then st_lift (Inr (Inl (failed_write idx operation ans)))
       else if op_name operation = ''create_vertex'' \<or> op_name operation = ''create_edge'' then st_lift (created idx operation ans)
       else verify_deleted g idx operation ans))"

definition missing_endpoint_ids :: "py_dict \<Rightarrow> string list" where
  "missing_endpoint_ids operation = filter (\<lambda>e. none_or_empty (dget operation (e @ ''_id''))) [''source'', ''target'']"

text \<open>A delete: the compiled target must be there once.\<close>

definition execute_delete ::
  "'b gateway \<Rightarrow> nat \<Rightarrow> py_dict \<Rightarrow> 'b \<Rightarrow> (exec_error + exec_result) res \<times> 'b" where
  "execute_delete g idx operation =
     (let op = op_name operation; target_id = dget operation ''target_id'' in
      if none_or_empty target_id then st_lift (Inr (Inl (typed_error (error_value INVALID_GRAPH_DATA)
        (op @ '' requires a dry-run compiled target_id.'')
        (Some ''Run dry_run again and execute the server-issued compiled plan.'') [(''operation_index'', PInt (int idx))])))
      else st_then (st_lift (delete_target_query operation)) (\<lambda>query.
        st_then (read_count g query) (\<lambda>r. case r of
            Inl ans \<Rightarrow> st_lift (Inr (Inl (error_of_answer ans)))
          | Inr n \<Rightarrow>
            if n = 0 then st_lift (Inr (Inr \<lparr>xr_index = idx, xr_op = op, xr_label = dget operation ''label'',
                xr_target = Some target_id, xr_status = ApplyStatus.ALREADY_APPLIED, xr_answer = None\<rparr>))
            else if n \<noteq> 1 then st_lift (Inr (Inl (typed_error (error_value WRITE_CONFLICT)
                (op @ '' compiled target_id resolved to an invalid count.'') None
                [(''operation_index'', PInt (int idx)), (''target_id'', target_id), (''matched_count'', PInt n)])))
            else if op = ''delete_vertex'' \<and> dget operation ''cascade'' = PBool True then
              st_lift (Inr (Inl (typed_error ''CASCADE_NOT_ENABLED'' ''delete_vertex cascade=true is not enabled in this phase.''
                (Some ''Delete associated edges explicitly, then delete the vertex with cascade=false.'')
                [(''operation_index'', PInt (int idx))])))
            else write_operation g idx operation)))"

definition execute_operation ::
  "'b gateway \<Rightarrow> py \<Rightarrow> nat \<Rightarrow> py_dict \<Rightarrow> 'b \<Rightarrow> (exec_error + exec_result) res \<times> 'b" where
  "execute_operation g live idx operation =
     (let op = op_name operation in
      if op = ''create_vertex'' then
        st_then (create_vertex_identity_conflict g idx operation live) (\<lambda>conflict. case conflict of
            Some e \<Rightarrow> st_lift (Inr (Inl e))
          | None \<Rightarrow> write_operation g idx operation)
      else if op = ''create_edge'' \<and> missing_endpoint_ids operation \<noteq> [] then
        st_lift (Inr (Inl (typed_error (error_value INVALID_GRAPH_DATA) ''create_edge requires dry-run compiled endpoint IDs.''
          (Some ''Run dry_run again and execute the server-issued compiled plan.'')
          [(''operation_index'', PInt (int idx)), (''missing_endpoint_ids'', strings (missing_endpoint_ids operation))])))
      else if op \<in> set WRITE_OPS then execute_delete g idx operation
      else write_operation g idx operation)"

section \<open>The loop\<close>

fun execute_operations ::
  "'b gateway \<Rightarrow> py \<Rightarrow> nat \<Rightarrow> exec_result list \<Rightarrow> py list \<Rightarrow> 'b \<Rightarrow> (execution + exec_result list) res \<times> 'b" where
  "execute_operations g live idx results [] b = (Inr (Inr results), b)"
| "execute_operations g live idx results (v # vs) b =
     st_then (st_lift (py_items v)) (\<lambda>operation.
     st_then (execute_operation g live idx operation) (\<lambda>r. case r of
         Inl e \<Rightarrow> st_lift (Inr (Inl (execution_failure e operation idx results)))
       | Inr x \<Rightarrow> execute_operations g live (Suc idx) (results @ [x]) vs)) b"

definition execute_graph_change_plan :: "'b gateway \<Rightarrow> py \<Rightarrow> py \<Rightarrow> 'b \<Rightarrow> execution res \<times> 'b" where
  "execute_graph_change_plan g plan live =
     (let operations = plan_operations plan in
      st_then (execute_operations g live 0 [] operations) (\<lambda>r. st_lift (Inr (case r of
          Inl x \<Rightarrow> x
        | Inr results \<Rightarrow> Exec_Done (aggregate_plan_status (map xr_status results)) results
            (mutation_summary (List.map_filter (\<lambda>v. case v of PDict d \<Rightarrow> Some d | _ \<Rightarrow> None) operations))))))"

section \<open>What an execution sends\<close>

text \<open>The text of the write of an operation.\<close>

definition write_text :: "py \<Rightarrow> string" where
  "write_text v = (case and_then (py_items v) write_query of Inr q \<Rightarrow> q | Inl e \<Rightarrow> [])"

definition writes_of :: "graph_call list \<Rightarrow> string list" where
  "writes_of calls = List.map_filter (\<lambda>c. case c of Sent_Write q \<Rightarrow> Some q | Sent_Read q \<Rightarrow> None) calls"

definition reads_of :: "graph_call list \<Rightarrow> string list" where
  "reads_of calls = List.map_filter (\<lambda>c. case c of Sent_Read q \<Rightarrow> Some q | Sent_Write q \<Rightarrow> None) calls"

lemma calls_of_simps [simp]:
  "writes_of (xs @ ys) = writes_of xs @ writes_of ys" "reads_of (xs @ ys) = reads_of xs @ reads_of ys"
  "writes_of (map Sent_Read qs) = []" "writes_of (map Sent_Write qs) = qs"
  "reads_of (map Sent_Read qs) = qs" "reads_of (map Sent_Write qs) = []" "writes_of [] = []" "reads_of [] = []"
proof -
  show "writes_of (map Sent_Read qs) = []" "writes_of (map Sent_Write qs) = qs"
    "reads_of (map Sent_Read qs) = qs" "reads_of (map Sent_Write qs) = []"
    by (induction qs) (simp_all add: writes_of_def reads_of_def map_filter_simps)
qed (simp_all add: writes_of_def reads_of_def map_filter_def)

lemma reads_only_identity_conflict [intro]: "reads_only (identity_conflict (traced_gateway g) idx qs)"
proof (induction qs)
  case Nil
  then show ?case by (simp add: reads_only_pure)
next
  case (Cons q qs)
  obtain k t where q: "q = (k, t)" by (cases q)
  have "reads_only (\<lambda>b. identity_conflict (traced_gateway g) idx ((k, t) # qs) b)"
    unfolding identity_conflict.simps
    by (intro reads_only_then reads_only_read_count) (auto intro: Cons.IH split: sum.split)
  then show ?case by (simp add: q)
qed

lemma reads_only_verify_deleted [intro]: "reads_only (verify_deleted (traced_gateway g) idx o' ans)"
  unfolding verify_deleted_def delete_left_target_def Let_def
  by (intro reads_only_then reads_only_lift reads_only_read_count) (auto intro!: reads_only_then split: sum.split)

abbreviation may_write :: "'b gateway \<Rightarrow> py_dict \<Rightarrow> string \<Rightarrow> bool" where
  "may_write g operation q \<equiv> guard DATA_WRITE (gw_cfg g) = None \<and> write_query operation = Inr q"

lemma writes_once_write_operation: "writes_once (may_write g o') (write_operation (traced_gateway g) idx o')"
proof (cases "write_query o'")
  case (Inl e)
  then show ?thesis by (simp add: write_operation_def writes_once_reads reads_only_lift)
next
  case (Inr q)
  have "writes_once (may_write g o') (data_write (traced_gateway g) q)"
    unfolding data_write_def by (intro writes_once_map writes_once_execute) (simp add: Inr)
  then show ?thesis unfolding write_operation_def Inr st_then_lift_fun
    by (rule writes_once_then_reads) auto
qed

lemma writes_once_execute_operation:
  "writes_once (may_write g o') (execute_operation (traced_gateway g) live idx o')"
proof -
  note wr = writes_once_write_operation [of g o' idx]
  have delete: "writes_once (may_write g o') (execute_delete (traced_gateway g) idx o')"
    unfolding execute_delete_def Let_def using wr
    by (auto intro!: writes_once_after_reads [OF reads_only_lift] writes_once_after_reads [OF reads_only_read_count]
        split: sum.split)
  show ?thesis
    unfolding execute_operation_def create_vertex_identity_conflict_def Let_def using wr delete
    by (auto intro!: writes_once_after_reads [OF reads_only_then [OF reads_only_lift reads_only_identity_conflict]]
        split: option.split)
qed

text \<open>What a computation that writes at most once adds to the trace.\<close>

lemma writes_onceD:
  assumes "writes_once P m" "m bl = (r, bl')"
  obtains calls where "snd bl' = snd bl @ calls" "list_all is_safe_gremlin_read (reads_of calls)"
    "writes_of calls = [] \<or> (\<exists>q. writes_of calls = [q] \<and> P q)"
proof -
  from assms obtain calls where c: "snd bl' = snd bl @ calls" "look_write_look P calls"
    unfolding writes_once_def by (metis snd_conv)
  then obtain before ws again where t: "calls = map Sent_Read before @ map Sent_Write ws @ map Sent_Read again"
      "list_all is_safe_gremlin_read (before @ again)" "ws = [] \<or> (\<exists>q. ws = [q] \<and> P q)"
    unfolding look_write_look_def by blast
  show ?thesis using t by (intro that [OF c(1)]) simp_all
qed

text \<open>The writes of a run: a part of the texts of the plan, and none when the gate is closed.\<close>

definition planned_writes :: "'b gateway \<Rightarrow> py list \<Rightarrow> graph_call list \<Rightarrow> bool" where
  "planned_writes g vs calls \<longleftrightarrow> list_all is_safe_gremlin_read (reads_of calls) \<and>
     subseq (writes_of calls) (map write_text vs) \<and> (writes_of calls = [] \<or> guard DATA_WRITE (gw_cfg g) = None)"

lemma planned_writes_none [simp]: "planned_writes g vs []"
  by (simp add: planned_writes_def)

lemma planned_writes_cons:
  assumes "py_items v = Inr o'" "list_all is_safe_gremlin_read (reads_of calls)"
    "writes_of calls = [] \<or> (\<exists>q. writes_of calls = [q] \<and> may_write g o' q)" "planned_writes g vs rest"
  shows "planned_writes g (v # vs) (calls @ rest)"
  using assms by (auto simp: planned_writes_def write_text_def)

lemma execute_operations_writes:
  "execute_operations (traced_gateway g) live idx results vs bl = (r, bl') \<Longrightarrow>
   \<exists>calls. snd bl' = snd bl @ calls \<and> planned_writes g vs calls"
proof (induction vs arbitrary: idx results bl)
  case Nil
  then show ?case by auto
next
  case (Cons v vs)
  show ?case
  proof (cases "py_items v")
    case (Inl e)
    with Cons.prems show ?thesis by (auto simp: st_then_def st_lift_def)
  next
    case (Inr o')
    obtain x bl1 where x: "execute_operation (traced_gateway g) live idx o' bl = (x, bl1)"
      by (cases "execute_operation (traced_gateway g) live idx o' bl") blast
    obtain calls where calls: "snd bl1 = snd bl @ calls" "list_all is_safe_gremlin_read (reads_of calls)"
        "writes_of calls = [] \<or> (\<exists>q. writes_of calls = [q] \<and> may_write g o' q)"
      using writes_onceD [OF writes_once_execute_operation x] by blast
    note one = planned_writes_cons [OF Inr calls(2,3)]
    show ?thesis
    proof (cases "\<exists>y. x = Inr (Inr y)")
      case False
      with Cons.prems x Inr have "bl' = bl1"
        by (auto simp: st_then_def st_lift_def split: sum.splits prod.splits)
      then show ?thesis using calls(1) one [OF planned_writes_none] by auto
    next
      case True
      then obtain y where "execute_operations (traced_gateway g) live (Suc idx) (results @ [y]) vs bl1 = (r, bl')"
        using Cons.prems x Inr by (auto simp: st_then_def st_lift_def)
      from Cons.IH [OF this] obtain rest where "snd bl' = snd bl1 @ rest" "planned_writes g vs rest" by blast
      then show ?thesis using calls(1) one by (intro exI [of _ "calls @ rest"]) simp
    qed
  qed
qed

section \<open>What an execution reports\<close>

text \<open>A result is about its operation and says that it is in effect.\<close>

definition reports :: "py \<Rightarrow> exec_result \<Rightarrow> bool" where
  "reports v x \<longleftrightarrow> (\<exists>o'. py_items v = Inr o' \<and> xr_op x = op_name o' \<and> xr_label x = dget o' ''label'' \<and> is_success (xr_status x))"

fun accounts_for :: "py list \<Rightarrow> execution \<Rightarrow> bool" where
  "accounts_for vs (Exec_Error e) = (vs \<noteq> [])"
| "accounts_for vs (Exec_Stopped st results item) =
     (st = PARTIAL \<and> results \<noteq> [] \<and> length results < length vs \<and> fi_index item = length results \<and>
      \<not> is_success (fi_status item) \<and>
      map xr_index results = [0..<length results] \<and> list_all2 reports (take (length results) vs) results)"
| "accounts_for vs (Exec_Done st results summary) =
     (map xr_index results = [0..<length vs] \<and> list_all2 reports vs results \<and> (vs = [] \<or> st \<in> {APPLIED, ALREADY_APPLIED}))"

lemma is_success_simps [simp]: "is_success ApplyStatus.APPLIED" "is_success ApplyStatus.ALREADY_APPLIED"
  by (simp_all add: is_success_def)

lemma applied_simps [simp]:
  "xr_index (applied idx o' ans) = idx" "xr_op (applied idx o' ans) = op_name o'"
  "xr_label (applied idx o' ans) = dget o' ''label''" "xr_status (applied idx o' ans) = ApplyStatus.APPLIED"
  by (simp_all add: applied_def)

lemma created_reports: "created idx o' ans = Inr (Inr x) \<Longrightarrow> x = applied idx o' ans"
  by (auto simp: created_def Let_def res_simps split: option.splits if_splits)

definition about :: "nat \<Rightarrow> py_dict \<Rightarrow> exec_result \<Rightarrow> bool" where
  "about idx o' x \<longleftrightarrow> xr_index x = idx \<and> xr_op x = op_name o' \<and> xr_label x = dget o' ''label'' \<and> is_success (xr_status x)"

lemma about_applied [simp]: "about idx o' (applied idx o' ans)"
  by (simp add: about_def)

lemma about_result [simp]:
  "about idx o' \<lparr>xr_index = idx, xr_op = p, xr_label = dget o' ''label'', xr_target = t, xr_status = st, xr_answer = a\<rparr> \<longleftrightarrow>
     p = op_name o' \<and> is_success st"
  by (simp add: about_def)

lemma verify_deleted_about: "verify_deleted g idx o' ans b = (Inr (Inr x), b') \<Longrightarrow> about idx o' x"
  unfolding verify_deleted_def
  by (auto elim!: st_then_InrE simp: st_lift_def split: sum.splits if_splits)

lemma write_operation_about: "write_operation g idx o' b = (Inr (Inr x), b') \<Longrightarrow> about idx o' x"
  unfolding write_operation_def
  by (auto elim!: st_then_InrE simp: st_lift_def dest!: created_reports dest: verify_deleted_about split: if_splits)

lemma execute_delete_about: "execute_delete g idx o' b = (Inr (Inr x), b') \<Longrightarrow> about idx o' x"
  unfolding execute_delete_def Let_def
  by (auto elim!: st_then_InrE simp: st_lift_def dest: write_operation_about
      split: if_splits sum.splits)

lemma execute_operation_about: "execute_operation g live idx o' b = (Inr (Inr x), b') \<Longrightarrow> about idx o' x"
  unfolding execute_operation_def Let_def
  by (auto elim!: st_then_InrE simp: st_lift_def dest: write_operation_about execute_delete_about
      split: if_splits option.splits)

lemma execution_failure_accounts:
  assumes "list_all2 reports vs results" "map xr_index results = [0..<length vs]"
  shows "accounts_for (vs @ v # rest) (execution_failure e o' (length vs) results)"
proof -
  note len = list_all2_lengthD [OF assms(1)]
  have succ: "list_all is_success (map xr_status results)"
    using assms(1) by (auto simp: list_all2_conv_all_nth list_all_length reports_def)
  have st: "\<not> is_success (error_apply_status e)" by (simp add: error_apply_status_def is_success_def)
  have "results \<noteq> [] \<Longrightarrow> aggregate_plan_status (map xr_status results @ [error_apply_status e]) = PARTIAL"
    using succ st unfolding aggregate_partial_iff by (cases results) auto
  then show ?thesis using assms len st by (auto simp: execution_failure_def)
qed

lemma execute_operations_account:
  assumes "execute_operations g live (length done) results vs b = (Inr r, b')"
    "list_all2 reports done results" "map xr_index results = [0..<length done]"
  shows "case r of Inl x \<Rightarrow> accounts_for (done @ vs) x
    | Inr rs \<Rightarrow> list_all2 reports (done @ vs) rs \<and> map xr_index rs = [0..<length (done @ vs)]"
  using assms
proof (induction vs arbitrary: "done" results b)
  case Nil
  then show ?case by (auto split: sum.split)
next
  case (Cons v vs)
  from Cons.prems(1) obtain o' x b1 where o': "py_items v = Inr o'"
      and x: "execute_operation g live (length done) o' b = (Inr x, b1)"
      and rest: "(case x of Inl e \<Rightarrow> st_lift (Inr (Inl (execution_failure e o' (length done) results)))
        | Inr y \<Rightarrow> execute_operations g live (Suc (length done)) (results @ [y]) vs) b1 = (Inr r, b')"
    by (auto elim!: st_then_InrE simp: st_lift_def)
  show ?case
  proof (cases x)
    case (Inl e)
    with rest show ?thesis using execution_failure_accounts [OF Cons.prems(2,3)] by (auto simp: st_lift_def)
  next
    case (Inr y)
    have y: "about (length done) o' y" using execute_operation_about [OF x [unfolded Inr]] .
    then have "reports v y" using o' by (simp add: about_def reports_def)
    then have "list_all2 reports (done @ [v]) (results @ [y])" "map xr_index (results @ [y]) = [0..<length (done @ [v])]"
      using Cons.prems(2,3) y by (auto simp: about_def intro!: list_all2_appendI)
    from Cons.IH [OF _ this] rest Inr show ?thesis by (cases r) simp_all
  qed
qed


lemma execute_plan_writes:
  assumes "execute_graph_change_plan (traced_gateway g) plan live bl = (r, bl')"
  shows "\<exists>calls. snd bl' = snd bl @ calls \<and> planned_writes g (plan_operations plan) calls"
proof -
  obtain r' bl1 where run: "execute_operations (traced_gateway g) live 0 [] (plan_operations plan) bl = (r', bl1)"
    by (cases "execute_operations (traced_gateway g) live 0 [] (plan_operations plan) bl") blast
  with assms have "bl1 = bl'"
    by (auto simp: execute_graph_change_plan_def Let_def st_then_def st_lift_def split: sum.splits)
  with execute_operations_writes [OF run] show ?thesis by simp
qed

text \<open>C13. An execution sends safe reads and the writes of the plan only: each write is the text of an operation, at most one
  per operation and in plan order, and with the write gate closed there is none.\<close>

theorem execution_writes_the_plan:
  assumes "execute_graph_change_plan (traced_gateway g) plan live (b, []) = (r, b', calls)"
  shows "planned_writes g (plan_operations plan) calls"
  using execute_plan_writes [OF assms] by simp

section \<open>The small import, executed\<close>

text \<open>A gateway that creates whatever it is asked for, and one that knows neither element.\<close>

definition obliging_gateway :: "bool gateway" where
  "obliging_gateway = small_gateway\<lparr>gw_write := (\<lambda>q b. (Returned (PDict [(''data'', PDict [(''affected'', PInt 1)])]), b))\<rparr>"

definition small_plan :: py where
  "small_plan = (case fst small_run of Inr (Previewed h compiled s i n) \<Rightarrow> compiled | _ \<Rightarrow> PNone)"

definition small_execution :: "execution res \<times> bool \<times> graph_call list" where
  "small_execution = execute_graph_change_plan (traced_gateway obliging_gateway) small_plan small_schema (True, [])"

text \<open>The vertex is created; the edge that refers to it has no endpoint id, so the executor stops there.\<close>

lemma small_execution_stops:
  "case small_execution of (Inr (Exec_Stopped st results item), b, calls) \<Rightarrow> st = PARTIAL \<and> fi_index item = 1 \<and>
      ee_message (fi_error item) = ''create_edge requires dry-run compiled endpoint IDs.'' \<and> length (writes_of calls) = 1 | _ \<Rightarrow> False"
  by code_simp

lemma small_execution_run:
  obtains results item where "fst small_execution = Inr (Exec_Stopped PARTIAL results item)" "fi_index item = 1"
    "ee_message (fi_error item) = ''create_edge requires dry-run compiled endpoint IDs.''"
    "length (writes_of (snd (snd small_execution))) = 1"
proof -
  obtain q b calls where c: "small_execution = (q, b, calls)" by (cases small_execution)
  obtain x where x: "q = Inr x" using small_execution_stops unfolding c by (cases q) simp_all
  obtain st results item where "x = Exec_Stopped st results item" using small_execution_stops unfolding c x by (cases x) simp_all
  then show thesis using small_execution_stops that unfolding c x prod.case sum.case execution.case fst_conv snd_conv by simp
qed


theorem execution_writes_the_plan_witness:
  "length (writes_of (snd (snd small_execution))) = 1 \<and>
   planned_writes obliging_gateway (plan_operations small_plan) (snd (snd small_execution))"
proof -
  have n: "length (writes_of (snd (snd small_execution))) = 1" by (rule small_execution_run)
  have "small_execution = (fst small_execution, fst (snd small_execution), snd (snd small_execution))" by simp
  from execution_writes_the_plan [OF this [unfolded small_execution_def], folded small_execution_def] n show ?thesis by simp
qed

end
