(* ===== verification/Graph_Manage.thy ===== *)
theory Graph_Manage
  imports Graph_Ingest Graph_Execute Protocol
begin

text \<open>
  Model of \<open>hugegraph_mcp/tools/manage_graph_data.py\<close>: the entry point that puts the graph-data steps together.
  A call checks the request, previews it with a dry run, or executes the plan that an earlier dry run issued.
  The state is the graph server behind the gateway, the ledger of confirmations and the plan database; the
  configuration does not change during a call.
\<close>

section \<open>The state of a call\<close>

record 'b manage_world =
  mw_backend :: 'b
  mw_ledger :: confirm_db
  mw_plans :: plan_db

definition on_backend :: "('b \<Rightarrow> 'a \<times> 'b) \<Rightarrow> 'b manage_world \<Rightarrow> 'a \<times> 'b manage_world" where
  "on_backend m w = (let (r, b) = m (mw_backend w) in (r, w\<lparr>mw_backend := b\<rparr>))"

definition on_ledger :: "(confirm_db \<Rightarrow> 'a \<times> confirm_db) \<Rightarrow> 'b manage_world \<Rightarrow> 'a \<times> 'b manage_world" where
  "on_ledger m w = (let (r, db) = m (mw_ledger w) in (r, w\<lparr>mw_ledger := db\<rparr>))"

definition on_plans :: "(plan_db \<Rightarrow> 'a \<times> plan_db) \<Rightarrow> 'b manage_world \<Rightarrow> 'a \<times> 'b manage_world" where
  "on_plans m w = (let (r, db) = m (mw_plans w) in (r, w\<lparr>mw_plans := db\<rparr>))"

text \<open>What a call finds: the gateway, the digests, the live schema (\<open>None\<close> when it cannot be read), the random
  identifiers and the readings of the clock.\<close>

record 'b manage_env =
  me_gateway :: "'b gateway"
  me_sha :: "string \<Rightarrow> string"
  me_nonce_sha :: "string \<Rightarrow> string"
  me_isodate :: "string \<Rightarrow> bool"
  me_schema :: "py option"
  me_fresh_nonce :: string
  me_fresh_plan :: string
  me_load_at :: int
  me_build_at :: int
  me_issue_at :: int
  me_compile_at :: int
  me_verify_at :: int
  me_outcome_at :: int

abbreviation me_cfg :: "'b manage_env \<Rightarrow> MCPConfig" where
  "me_cfg env \<equiv> gw_cfg (me_gateway env)"

record manage_request =
  mr_mode :: string
  mr_graph_data :: py
  mr_change_plan :: py
  mr_dry_run :: bool
  mr_confirm :: bool
  mr_plan_hash :: "string option"
  mr_nonce :: "string option"
  mr_expires :: py
  mr_extra :: py
  mr_tool :: string

text \<open>An answer; an error may have a type outside the taxonomy.\<close>

datatype managed =
    Managed noted
  | Typed_Error (te_type: string) (te_message: string) (te_suggestion: "string option") (te_details: py) (te_warnings: "string list")

definition refuse :: "ErrorType \<Rightarrow> string \<Rightarrow> string option \<Rightarrow> py \<Rightarrow> managed" where
  "refuse t m s d = Managed (bare (envelope_err t m s d))"

section \<open>The request\<close>

text \<open>The checks of the arguments: an error, or the plan of a delete (\<open>PNone\<close> for an import).\<close>

definition requested_plan :: "manage_request \<Rightarrow> managed + py" where
  "requested_plan rq =
     (if mr_mode rq = ''import'' then
        (if mr_graph_data rq = PNone
         then Inl (refuse VALIDATION_ERROR (''graph_data is required for mode='' @ quoted ''import'') None (PDict []))
         else if \<not> is_dict (mr_graph_data rq)
         then Inl (refuse VALIDATION_ERROR ''graph_data must be an object for mode='import'.'' None
           (PDict [(''received_type'', PStr (type_name (mr_graph_data rq)))]))
         else Inr PNone)
      else if mr_mode rq = ''delete'' then
        (if mr_change_plan rq = PNone
         then Inl (refuse VALIDATION_ERROR (''change_plan is required for mode='' @ quoted (mr_mode rq)) None (PDict []))
         else Inr (if is_dict (mr_change_plan rq) then mr_change_plan rq else PDict [(''operations'', mr_change_plan rq)]))
      else Inl (refuse VALIDATION_ERROR (''Unknown mode: '' @ repr_str (mr_mode rq) @ ''. Use 'import' or 'delete'.'') None
        (PDict [(''mode'', PStr (mr_mode rq))])))"

definition request_limits :: "manage_request \<Rightarrow> py \<Rightarrow> response option" where
  "request_limits rq plan =
     (if mr_mode rq = ''import'' then write_limit_envelope (graph_data_operation_count (mr_graph_data rq)) (mr_graph_data rq)
      else write_limit_envelope (operation_count_from_list (PList (plan_operations plan))) plan)"

text \<open>The loop of \<open>any\<close>: it stops at the first vertex delete without cascade; an operation that is no object raises.\<close>

fun any_isolated_delete :: "py list \<Rightarrow> bool res" where
  "any_isolated_delete [] = Inr False"
| "any_isolated_delete (v # vs) = and_then (py_items v) (\<lambda>d.
     if op_name d = ''delete_vertex'' \<and> no_cascade d then Inr True else any_isolated_delete vs)"

definition isolated_delete :: "manage_request \<Rightarrow> py \<Rightarrow> bool res" where
  "isolated_delete rq plan = (if mr_mode rq = ''delete'' then any_isolated_delete (plan_operations plan) else Inr False)"

section \<open>The issued plan\<close>

text \<open>What a confirmed call must pass before anything is read: the gate, the modes that are only previewed, the replay
  check, and the plan that the dry run left in the ledger.\<close>

definition load_confirmed :: "'b manage_env \<Rightarrow> manage_request \<Rightarrow> bool \<Rightarrow> confirm_db \<Rightarrow> managed + py" where
  "load_confirmed env rq isolated db =
     (case guard DATA_WRITE (me_cfg env) of
        Some e \<Rightarrow> Inl (Managed (bare e))
      | None \<Rightarrow>
        if isolated then Inl (refuse FEATURE_DISABLED ''Confirmed isolated vertex deletion is disabled for this backend.''
          (Some (''Delete incident edges explicitly and wait for a backend-proven '' @
            ''atomic isolated-delete capability before confirming the vertex delete.'')) (PDict []))
        else if mr_mode rq = ''import'' then Inl (refuse FEATURE_DISABLED ''Confirmed graph import is disabled for this backend.''
          (Some (''Use the preview for validation only. Enable import only after '' @
            ''atomic vertex and edge create-if-absent capabilities are verified.'')) (PDict []))
        else case replayed_plan_error (me_nonce_sha env) (mr_nonce rq) db of
          Some e \<Rightarrow> Inl (Managed (bare e))
        | None \<Rightarrow> (case load_issued_plan (me_nonce_sha env) (me_load_at env) (mr_nonce rq) (mr_plan_hash rq) (mr_expires rq) db of
            Inl e \<Rightarrow> Inl (Managed (bare e))
          | Inr payload \<Rightarrow> if payload = None \<or> payload = Some PNone
              then Inl (Managed (bare (plan_hash_error PLAN_HASH_MISMATCH (reason ''The issued plan has no server-side payload.'')
                ''The confirmation predates server-side plan storage.'' None ''Run dry_run=True again and use the new confirmation plan.'')))
              else Inr (the payload)))"

section \<open>Contexts\<close>

definition manage_digest :: "(string \<Rightarrow> string) \<Rightarrow> py \<Rightarrow> py \<Rightarrow> string" where
  "manage_digest sha plan extra = compute_payload_digest sha
     (PDict ((''change_plan'', plan) # (if extra = PNone then [] else [(''extra_hash_context'', extra)])))"

definition extra_of :: "py \<Rightarrow> py_dict" where
  "extra_of extra = [(''extra_hash_context'', py_or extra (PDict []))]"

definition manage_context :: "'b manage_env \<Rightarrow> manage_request \<Rightarrow> py \<Rightarrow> py \<Rightarrow> PlanContext" where
  "manage_context env rq plan live = fst (build_plan_context (me_sha env) (me_cfg env) (me_build_at env) (me_fresh_nonce env)
     (mr_tool rq) (mr_mode rq) (manage_digest (me_sha env) plan (mr_extra rq)) (schema_hash_of (me_sha env) live)
     (mr_nonce rq) DEFAULT_PLAN_TTL_SECONDS (extra_of (mr_extra rq)))"

text \<open>\<open>str(exc)\<close>; the text of an error of SQLite is left out.\<close>

fun exc_reason :: "py_exc \<Rightarrow> py" where
  "exc_reason (KeyError k) = PStr (repr_str k)"
| "exc_reason IntegrityError = PNone"
| "exc_reason (ValueError m) = PStr m"
| "exc_reason (TypeError m) = PStr m"
| "exc_reason (OverflowError m) = PStr m"
| "exc_reason (AssertionError m) = PStr m"
| "exc_reason (AttributeError m) = PStr m"
| "exc_reason (RuntimeError m) = PStr m"
| "exc_reason (PlanStoreUnavailableError m) = PStr m"
| "exc_reason (PlanTransitionError m) = PStr m"

section \<open>The preview\<close>

text \<open>The preview under construction: its fields, the warnings and the next actions.\<close>

record preview_out =
  po_data :: py_dict
  po_warnings :: "string list"
  po_actions :: "string list"

definition summary_py :: "(string \<times> nat) list \<Rightarrow> py" where
  "summary_py counts = PDict (map (\<lambda>(k, n). (k, PInt (int n))) counts)"

definition preview_data :: "(string \<times> nat) list \<Rightarrow> py_dict list \<Rightarrow> string list \<Rightarrow> string \<Rightarrow> PlanContext \<Rightarrow> py_dict" where
  "preview_data summary items warnings h ctx =
     [(''valid'', PBool True), (''plan_hash'', PStr h), (''mutation_summary'', summary_py summary), (''preview'', PList (map PDict items)),
      (''warnings'', strings warnings), (''plan_context'', plan_context_payload ctx), (''confirmable'', PBool True)]"

definition readonly_marks :: "MCPConfig \<Rightarrow> preview_out \<Rightarrow> preview_out" where
  "readonly_marks cfg po =
     (if is_readonly cfg then
       (let (d, ws, actions) = mark_readonly_preview (po_data po)
            (''This dry-run was generated while HUGEGRAPH_MCP_READONLY=true. '' @
             ''Its plan_hash is preview-only; set HUGEGRAPH_MCP_READONLY=false '' @ ''and rerun dry_run before confirming writes.'')
            ''Set HUGEGRAPH_MCP_READONLY=false and rerun dry_run before confirm.''
        in \<lparr>po_data = d, po_warnings = po_warnings po @ ws, po_actions = po_actions po @ actions\<rparr>)
      else po)"

definition preview_only :: "preview_out \<Rightarrow> preview_out" where
  "preview_only po = po\<lparr>po_data := dset ''preview_only'' (PBool True) (dset ''confirmable'' (PBool False) (po_data po))\<rparr>"

definition isolated_notes :: "preview_out \<Rightarrow> preview_out" where
  "isolated_notes po = po\<lparr>po_warnings := po_warnings po @ [''Isolated vertex deletion is preview-only because the configured '' @
       ''backend has no verified atomic delete-if-no-incident-edges primitive.''],
     po_actions := po_actions po @ [''Delete incident edges explicitly; confirmed vertex deletion remains disabled.'']\<rparr>"

definition import_notes :: "WritePlan \<Rightarrow> preview_out \<Rightarrow> preview_out" where
  "import_notes wp po = po\<lparr>po_data := dset ''workflow_preview''
       (PDict [(''operations'', PList (map operation_to_dict (wp_operations wp)))]) (po_data po),
     po_warnings := po_warnings po @ [''Graph import is preview-only because atomic vertex and edge '' @
       ''create-if-absent capabilities are not verified for this backend.''],
     po_actions := po_actions po @ [''Do not confirm this import until the required backend capabilities pass integration tests.'']\<rparr>"

definition plan_notes :: "WritePlan \<Rightarrow> preview_out \<Rightarrow> preview_out" where
  "plan_notes wp po = po\<lparr>po_data := dset ''expires_at'' (PInt (wp_expires_at wp)) (dset ''status'' (PStr (plan_value (wp_status wp)))
     (dset ''plan_id'' (PStr (wp_id wp)) (po_data po)))\<rparr>"

definition shown :: "preview_out \<Rightarrow> managed" where
  "shown po = Managed \<lparr>nt_response = envelope_ok (PDict (po_data po)), nt_retryable = False,
     nt_warnings = po_warnings po, nt_actions = po_actions po\<rparr>"

text \<open>The end of a dry run. A plan that can be confirmed is issued and stored; the issue stays when the plan cannot be stored.\<close>

definition cannot_persist :: "py_exc \<Rightarrow> managed" where
  "cannot_persist e = refuse FEATURE_DISABLED ''The graph change cannot be persisted as an executable atomic plan.'' None
     (PDict [(''reason'', exc_reason e)])"

definition issue_and_save :: "'b manage_env \<Rightarrow> manage_request \<Rightarrow> py \<Rightarrow> py \<Rightarrow> PlanContext \<Rightarrow> preview_out \<Rightarrow> 'b manage_world
   \<Rightarrow> managed res \<times> 'b manage_world" where
  "issue_and_save env rq live compiled ctx po w =
     (case on_ledger (issue_plan (me_nonce_sha env) (me_issue_at env) ctx (compute_plan_hash (me_sha env) ctx) (Some compiled)) w of
        (Some e, w1) \<Rightarrow> (Inr (Managed (bare e)), w1)
      | (None, w1) \<Rightarrow>
        (case compile_graph_write_plan (me_sha env) (me_fresh_plan env) (me_compile_at env) ctx (mr_tool rq) live compiled of
           Inl e \<Rightarrow> (Inr (cannot_persist e), w1)
         | Inr wp \<Rightarrow> (case on_plans (save_plan wp) w1 of
              (Inl e, w2) \<Rightarrow> (Inr (cannot_persist e), w2)
            | (Inr u, w2) \<Rightarrow> (Inr (shown (plan_notes wp po)), w2))))"

definition finish_preview :: "'b manage_env \<Rightarrow> manage_request \<Rightarrow> py \<Rightarrow> bool \<Rightarrow> py \<Rightarrow> (string \<times> nat) list \<Rightarrow> py_dict list \<Rightarrow> string list
   \<Rightarrow> 'b manage_world \<Rightarrow> managed res \<times> 'b manage_world" where
  "finish_preview env rq live isolated compiled summary items warnings =
     (let ctx = manage_context env rq compiled live;
          po = readonly_marks (me_cfg env) \<lparr>po_data = preview_data summary items warnings (compute_plan_hash (me_sha env) ctx) ctx,
            po_warnings = warnings, po_actions = []\<rparr>
      in if isolated then st_lift (Inr (shown (isolated_notes (preview_only po))))
         else if mr_mode rq = ''import'' then st_lift
           (case compile_graph_write_plan (me_sha env) (me_fresh_plan env) (me_compile_at env) ctx (mr_tool rq) live compiled of
              Inl (ValueError m) \<Rightarrow> Inr (refuse FEATURE_DISABLED ''The import cannot be compiled to stable operation identities.'' None
                (PDict [(''reason'', PStr m)]))
            | Inl e \<Rightarrow> Inl e
            | Inr wp \<Rightarrow> Inr (shown (import_notes wp (preview_only po))))
         else if \<not> is_readonly (me_cfg env) then issue_and_save env rq live compiled ctx po
         else st_lift (Inr (shown po)))"

section \<open>The execution\<close>

text \<open>\<open>_normalize_execute_result\<close>: what is answered and recorded after an execution.\<close>

record outcome_report =
  or_state :: PlanStatus
  or_planned :: "(string \<times> nat) list"
  or_written :: "(string \<times> nat) list"
  or_failed :: "py list"
  or_notes :: "string list"
  or_results :: "exec_result list"
  or_summary :: "(string \<times> nat) list"

definition answer_py :: "answer option \<Rightarrow> py" where
  "answer_py a = (case a of None \<Rightarrow> PNone
     | Some ans \<Rightarrow> (case an_response ans of
         envelope_ok d \<Rightarrow> PDict [(''ok'', PBool True), (''data'', d), (''error'', PNone), (''warnings'', strings (an_warnings ans))]
       | envelope_err t m s d \<Rightarrow> PDict [(''ok'', PBool False), (''data'', PNone), (''error'', error_cause (error_of_answer ans)),
           (''warnings'', strings (an_warnings ans))]))"

definition result_py :: "exec_result \<Rightarrow> py_dict" where
  "result_py x = [(''operation_index'', PInt (int (xr_index x))), (''op'', PStr (xr_op x)), (''label'', xr_label x)]
     @ (case xr_target x of None \<Rightarrow> [] | Some t \<Rightarrow> [(''target_id'', t)])
     @ [(''status'', PStr (apply_value (xr_status x))), (''result'', answer_py (xr_answer x))]"

definition failed_item_py :: "failed_item \<Rightarrow> py" where
  "failed_item_py i = PDict [(''operation_index'', PInt (int (fi_index i))), (''op'', fi_op i), (''label'', fi_label i),
     (''status'', PStr (apply_value (fi_status i))), (''error'', error_cause (fi_error i))]"

text \<open>The operations whose result says applied.\<close>

definition written_operations :: "py_dict list \<Rightarrow> exec_result list \<Rightarrow> py_dict list" where
  "written_operations operations results = map fst (filter (\<lambda>(d, x). xr_status x = ApplyStatus.APPLIED) (zip operations results))"

definition normalize_execute_result :: "execution \<Rightarrow> py_dict list \<Rightarrow> outcome_report" where
  "normalize_execute_result x operations = (let planned = mutation_summary operations in case x of
      Exec_Error e \<Rightarrow> \<lparr>or_state = aggregate_plan_status [error_apply_status e], or_planned = planned, or_written = [],
        or_failed = [error_cause e], or_notes = [], or_results = [], or_summary = planned\<rparr>
    | Exec_Stopped st results item \<Rightarrow> \<lparr>or_state = aggregate_plan_status (map xr_status results @ [fi_status item]), or_planned = planned,
        or_written = mutation_summary (written_operations operations results), or_failed = [failed_item_py item],
        or_notes = [''Graph change execution stopped after a partial write.''], or_results = results,
        or_summary = mutation_summary (map result_py results)\<rparr>
    | Exec_Done st results summary \<Rightarrow> \<lparr>or_state = (if results \<noteq> [] then aggregate_plan_status (map xr_status results)
          else if operations = [] then APPLIED else UNKNOWN), or_planned = planned,
        or_written = mutation_summary (written_operations operations results), or_failed = [], or_notes = [], or_results = results,
        or_summary = summary\<rparr>)"

definition report_success :: "outcome_report \<Rightarrow> bool" where
  "report_success r \<longleftrightarrow> or_state r = APPLIED \<or> or_state r = ALREADY_APPLIED"

definition report_py :: "bool \<Rightarrow> outcome_report \<Rightarrow> py" where
  "report_py bare_error r = PDict [(''status'', PStr (plan_value (or_state r))), (''success'', PBool (\<not> bare_error \<and> report_success r)),
     (''planned'', summary_py (or_planned r)), (''written'', summary_py (or_written r)), (''failed_items'', PList (or_failed r)),
     (''warnings'', strings (or_notes r)), (''retryable'', PBool False),
     (''compensation_suggestions'', strings (if \<not> bare_error \<and> (or_state r = PARTIAL \<or> or_state r = UNKNOWN)
        then [''Inspect graph state before retrying remaining operations.''] else [])),
     (''results'', PList (map (PDict \<circ> result_py) (or_results r))), (''mutation_summary'', summary_py (or_summary r))]"

text \<open>The state that is recorded for a bare error.\<close>

definition error_outcome :: "exec_error \<Rightarrow> PlanStatus" where
  "error_outcome e =
     (if ee_type e = error_value WRITE_OUTCOME_UNKNOWN then UNKNOWN
      else if ee_type e = error_value WRITE_CONFLICT \<or> ee_type e = ''BLOCKED_BY_RELATIONSHIPS'' then CONFLICT
      else REJECTED)"

text \<open>After the execution the outcome is recorded in the ledger; only then success is answered.\<close>

definition settle :: "'b manage_env \<Rightarrow> string \<Rightarrow> py_dict list \<Rightarrow> execution \<Rightarrow> 'b manage_world \<Rightarrow> managed \<times> 'b manage_world" where
  "settle env h operations x w =
     (let r = normalize_execute_result x operations;
          recording = (\<lambda>st receipt. on_ledger (record_write_outcome (me_outcome_at env) h st receipt))
      in case x of
        Exec_Error e \<Rightarrow>
         (let (done, w') = recording (error_outcome e)
              (PDict [(''ok'', PBool False), (''data'', PNone), (''error'', error_cause e), (''warnings'', strings [])]) w in
          (Typed_Error (ee_type e) (ee_message e) (ee_suggestion e) (report_py True r) [], w'))
      | _ \<Rightarrow>
        if \<not> report_success r then
         (let (done, w') = recording (or_state r) (report_py False r) w in
          (Typed_Error (error_value (if or_state r = PARTIAL then PARTIAL_APPLY else FLOW_EXECUTION_FAILED))
            ''Graph change execution did not complete successfully.'' None (report_py False r) (or_notes r), w'))
        else
         (let (done, w') = recording (or_state r) (report_py False r) w in
          (if done then Managed (bare (envelope_ok (report_py False r)))
           else refuse WRITE_OUTCOME_UNKNOWN ''The write completed, but its durable receipt could not be recorded.'' None
             (PDict [(''status'', PStr (plan_value UNKNOWN)), (''reconciliation_required'', PBool True)]), w')))"

text \<open>The write of a confirmed call: verify and consume the confirmation, execute the plan it held, settle.\<close>

definition execute_confirmed :: "'b manage_env \<Rightarrow> manage_request \<Rightarrow> py \<Rightarrow> py \<Rightarrow> 'b manage_world \<Rightarrow> managed res \<times> 'b manage_world" where
  "execute_confirmed env rq live compiled =
     (let h = (case mr_plan_hash rq of None \<Rightarrow> [] | Some h \<Rightarrow> h) in
      st_then (on_ledger (verify_and_consume_issued_plan (me_sha env) (me_nonce_sha env) (me_cfg env) (me_verify_at env) h (mr_tool rq)
          (mr_mode rq) (manage_digest (me_sha env) compiled (mr_extra rq)) (schema_hash_of (me_sha env) live) (mr_nonce rq)
          (mr_expires rq) (extra_of (mr_extra rq)))) (\<lambda>c. case c of
        Refused t d \<Rightarrow> st_lift (Inr (Managed (bare (plan_hash_error t d
          ''Provided plan_hash does not match the current graph data change plan.'' (Some ''Graph data change plan has expired.'')
          ''Run dry_run=True again and use the returned plan_hash.''))))
      | Authorised payload \<Rightarrow>
        if payload = None \<or> payload = Some PNone then
          st_lift (Inr (refuse SERVER_ERROR ''The consumed confirmation did not contain its server-side plan.'' None (PDict [])))
        else
          st_then (on_backend (execute_graph_change_plan (me_gateway env) (the payload) live)) (\<lambda>x.
          st_then (st_lift (map_res py_items (plan_operations (the payload)))) (\<lambda>operations w.
            let (a, w') = settle env h operations x w in (Inr a, w')))))"

section \<open>The entry point\<close>

definition first_error_type :: "py list \<Rightarrow> string" where
  "first_error_type errors = (case List.map_filter (\<lambda>e. case e of
      PDict d \<Rightarrow> if truthy (dget d ''error_type'') then Some (py_str (dget d ''error_type'')) else None | _ \<Rightarrow> None) errors of
    t # _ \<Rightarrow> t | [] \<Rightarrow> error_value INVALID_GRAPH_DATA)"

text \<open>The part without a confirmed plan: dry run, then the preview, or the refusal of an unconfirmed write.\<close>

definition dry_run_branch :: "'b manage_env \<Rightarrow> manage_request \<Rightarrow> py \<Rightarrow> bool \<Rightarrow> py \<Rightarrow> 'b manage_world \<Rightarrow> managed res \<times> 'b manage_world" where
  "dry_run_branch env rq live isolated plan =
     st_then (on_backend (dry_run_graph_change_plan (me_sha env) (me_isodate env) (me_gateway env) plan live (mr_extra rq))) (\<lambda>r. case r of
         Not_Previewed errors warnings preview \<Rightarrow> st_lift (Inr (Typed_Error (first_error_type errors) ''Graph change plan is invalid.'' None
           (PDict [(''errors'', PList errors)]) warnings))
       | Previewed h compiled summary items warnings \<Rightarrow>
         if mr_dry_run rq then finish_preview env rq live isolated compiled summary items warnings
         else st_lift (Inr (case guard DATA_WRITE (me_cfg env) of
             Some e \<Rightarrow> Managed (bare e)
           | None \<Rightarrow> Managed (bare (confirm_required_error ''Graph data changes require confirm=True after a dry_run.''
               (''Run dry_run=True, review preview and warnings, then pass confirm=True with the returned plan_hash.''))))))"

text \<open>The plan of an import comes from its graph data.\<close>

definition import_plan :: "'b manage_env \<Rightarrow> manage_request \<Rightarrow> py \<Rightarrow> (managed + py) res" where
  "import_plan env rq live =
     and_then (validate_graph_payload (me_isodate env) (mr_graph_data rq) live) (\<lambda>check.
       if \<not> pc_valid check then Inr (Inl (refuse SCHEMA_MISMATCH ''Graph data does not match live schema.'' None
         (PDict [(''errors'', strings (pc_errors check))])))
       else and_then (py_items (mr_graph_data rq)) (\<lambda>d. and_then (graph_data_to_change_plan d live) (\<lambda>plan. Inr (Inr plan))))"

definition with_plan :: "'b manage_env \<Rightarrow> manage_request \<Rightarrow> py \<Rightarrow> bool \<Rightarrow> py option \<Rightarrow> py \<Rightarrow> 'b manage_world \<Rightarrow> managed res \<times> 'b manage_world" where
  "with_plan env rq live isolated issued plan =
     (let check = validate_mode_operations (mr_mode rq) plan in
      if \<not> vd_valid check then st_lift (Inr (refuse INVALID_GRAPH_DATA ''Graph change plan contains operations outside the selected mode.'' None
        (PDict [(''errors'', PList (map PDict (vd_errors check)))])))
      else case issued of
        None \<Rightarrow> dry_run_branch env rq live isolated plan
      | Some payload \<Rightarrow> execute_confirmed env rq live payload)"

definition manage_graph_data :: "'b manage_env \<Rightarrow> manage_request \<Rightarrow> 'b manage_world \<Rightarrow> managed res \<times> 'b manage_world" where
  "manage_graph_data env rq w =
     (case requested_plan rq of
        Inl a \<Rightarrow> (Inr a, w)
      | Inr plan \<Rightarrow> (case request_limits rq plan of
          Some e \<Rightarrow> (Inr (Managed (bare e)), w)
        | None \<Rightarrow> (case isolated_delete rq plan of
            Inl e \<Rightarrow> (Inl e, w)
          | Inr isolated \<Rightarrow>
            let confirmed = (\<not> mr_dry_run rq \<and> mr_confirm rq) in
            (case (if confirmed then map_sum id Some (load_confirmed env rq isolated (mw_ledger w)) else Inr None) of
               Inl a \<Rightarrow> (Inr a, w)
             | Inr issued \<Rightarrow> (case me_schema env of
                 None \<Rightarrow> (Inr (Managed (no_schema ''graph data changes'')), w)
               | Some live \<Rightarrow>
                 (case issued of
                    Some payload \<Rightarrow> with_plan env rq live isolated issued payload w
                  | None \<Rightarrow>
                    if mr_mode rq = ''import'' then (case import_plan env rq live of
                        Inl e \<Rightarrow> (Inl e, w)
                      | Inr (Inl a) \<Rightarrow> (Inr a, w)
                      | Inr (Inr plan') \<Rightarrow> with_plan env rq live isolated None plan' w)
                    else with_plan env rq live isolated None plan w))))))"

end
