(* ===== verification/Graph_Manage_Safety.thy ===== *)
theory Graph_Manage_Safety
  imports Graph_Manage
begin

text \<open>
  What a call of \<open>manage_graph_data\<close> can do to the graph and to the ledger: previews only read, and a write is the
  execution of a plan that the ledger held for the confirmed nonce and hash, which the call uses up.
\<close>

section \<open>Calls that change nothing\<close>

text \<open>Safe reads are sent and the record of authorised writes stays as it is.\<close>

definition quiet :: "(('b \<times> graph_call list) manage_world \<Rightarrow> 'a \<times> ('b \<times> graph_call list) manage_world) \<Rightarrow> bool" where
  "quiet m \<longleftrightarrow> (\<forall>w. \<exists>qs. snd (mw_backend (snd (m w))) = snd (mw_backend w) @ map Sent_Read qs \<and>
     list_all is_safe_gremlin_read qs \<and> recorded (mw_ledger (snd (m w))) = recorded (mw_ledger w))"

lemma quietI:
  assumes "\<And>w. snd (mw_backend (snd (m w))) = snd (mw_backend w) \<and> recorded (mw_ledger (snd (m w))) = recorded (mw_ledger w)"
  shows "quiet m"
  unfolding quiet_def
proof
  fix w
  show "\<exists>qs. snd (mw_backend (snd (m w))) = snd (mw_backend w) @ map Sent_Read qs \<and> list_all is_safe_gremlin_read qs \<and>
      recorded (mw_ledger (snd (m w))) = recorded (mw_ledger w)"
    using assms [of w] by (intro exI [of _ "[]"]) simp
qed

lemma quiet_lift [intro]: "quiet (st_lift r)"
  by (rule quietI) (simp add: st_lift_def)

lemma quiet_on_backend [intro]:
  fixes m :: "'b \<times> graph_call list \<Rightarrow> 'a \<times> 'b \<times> graph_call list"
  assumes "reads_only m"
  shows "quiet (on_backend m)"
  unfolding quiet_def
proof
  fix w :: "('b \<times> graph_call list) manage_world"
  obtain qs where "snd (snd (m (mw_backend w))) = snd (mw_backend w) @ map Sent_Read qs" "list_all is_safe_gremlin_read qs"
    using assms unfolding reads_only_def by blast
  then show "\<exists>qs. snd (mw_backend (snd (on_backend m w))) = snd (mw_backend w) @ map Sent_Read qs \<and>
      list_all is_safe_gremlin_read qs \<and> recorded (mw_ledger (snd (on_backend m w))) = recorded (mw_ledger w)"
    by (intro exI [of _ qs]) (simp add: on_backend_def split_def Let_def)
qed

lemma quiet_then [intro]:
  assumes "quiet m" "\<And>x. quiet (f x)"
  shows "quiet (st_then m f)"
  unfolding quiet_def
proof
  fix w
  obtain r w1 where m: "m w = (r, w1)" by (cases "m w") blast
  with assms(1) obtain qs where qs: "snd (mw_backend w1) = snd (mw_backend w) @ map Sent_Read qs"
      "list_all is_safe_gremlin_read qs" "recorded (mw_ledger w1) = recorded (mw_ledger w)"
    unfolding quiet_def by (metis snd_conv)
  show "\<exists>qs. snd (mw_backend (snd (st_then m f w))) = snd (mw_backend w) @ map Sent_Read qs \<and>
      list_all is_safe_gremlin_read qs \<and> recorded (mw_ledger (snd (st_then m f w))) = recorded (mw_ledger w)"
  proof (cases r)
    case (Inl e)
    then show ?thesis using m qs by (intro exI [of _ qs]) (simp add: st_then_def)
  next
    case (Inr x)
    obtain qs' where "snd (mw_backend (snd (f x w1))) = snd (mw_backend w1) @ map Sent_Read qs'"
        "list_all is_safe_gremlin_read qs'" "recorded (mw_ledger (snd (f x w1))) = recorded (mw_ledger w1)"
      using assms(2) [of x] unfolding quiet_def by blast
    then show ?thesis using m qs Inr by (intro exI [of _ "qs @ qs'"]) (simp add: st_then_def)
  qed
qed

lemma recorded_issue_plan: "recorded (snd (issue_plan sha now c h p db)) = recorded db"
proof (cases "issue sha now (pc_nonce c) h (pc_expires c) p db")
  case (Pair r db')
  then show ?thesis using recorded_issue [of sha now "pc_nonce c" h "pc_expires c" p db]
    by (auto simp: issue_plan_def split: sum.splits confirm_exc.splits)
qed

lemma quiet_issue_and_save: "quiet (issue_and_save env rq live compiled ctx po)"
proof (rule quietI)
  fix w :: "('a \<times> graph_call list) manage_world"
  let ?ip = "issue_plan (me_nonce_sha env) (me_issue_at env) ctx (compute_plan_hash (me_sha env) ctx) (Some compiled) (mw_ledger w)"
  obtain e db where ip: "?ip = (e, db)" by (cases ?ip) blast
  then have "recorded db = recorded (mw_ledger w)" using recorded_issue_plan by (metis snd_conv)
  then show "snd (mw_backend (snd (issue_and_save env rq live compiled ctx po w))) = snd (mw_backend w) \<and>
      recorded (mw_ledger (snd (issue_and_save env rq live compiled ctx po w))) = recorded (mw_ledger w)"
    by (auto simp: issue_and_save_def on_ledger_def on_plans_def ip split: option.splits sum.splits prod.splits)
qed

lemma quiet_finish_preview [intro]: "quiet (finish_preview env rq live isolated compiled summary items warnings)"
  unfolding finish_preview_def Let_def by (auto intro: quiet_issue_and_save)

lemma quiet_dry_run_branch:
  assumes "me_gateway env = traced_gateway g"
  shows "quiet (dry_run_branch env rq live isolated plan)"
  unfolding dry_run_branch_def assms
  by (intro quiet_then quiet_on_backend reads_only_dry_run) (auto intro: quiet_finish_preview split: dry_run.split)

section \<open>The confirmed execution\<close>

lemma recorded_write_outcome: "recorded (snd (record_write_outcome now h st receipt db)) = recorded db"
  using recorded_outcome [of now h st receipt db]
  by (cases "record_outcome now h st receipt db") (auto simp: record_write_outcome_def split: sum.splits)

lemma settle_quiet:
  assumes "settle env h operations x w = (a, w')"
  shows "mw_backend w' = mw_backend w \<and> recorded (mw_ledger w') = recorded (mw_ledger w)"
proof -
  have "mw_backend w1 = mw_backend w \<and> recorded (mw_ledger w1) = recorded (mw_ledger w)"
    if "on_ledger (record_write_outcome now h st receipt) w = (b, w1)" for now st receipt b w1
    using that recorded_write_outcome [of now h st receipt "mw_ledger w"]
    by (auto simp: on_ledger_def split: prod.splits)
  then show ?thesis using assms
    by (auto simp: settle_def Let_def split: execution.splits if_splits prod.splits)
qed

definition row_plan :: "issued_row \<Rightarrow> py" where
  "row_plan row = (case is_payload row of None \<Rightarrow> PNone | Some plan \<Rightarrow> plan)"

text \<open>The confirmation of \<open>n\<close> and \<open>h\<close> is used up by executing the plan of the issued row.\<close>

definition uses_up :: "'b manage_env \<Rightarrow> confirm_db \<Rightarrow> confirm_db \<Rightarrow> string \<Rightarrow> string \<Rightarrow> issued_row \<Rightarrow> bool" where
  "uses_up env db db' n h row \<longleftrightarrow> \<not> is_readonly (me_cfg env) \<and>
     row \<in> set (issued_confirmations db) \<and> is_digest row = me_nonce_sha env n \<and> is_hash row = h \<and>
     (me_nonce_sha env n, h) \<notin> set (recorded db) \<and> recorded db' = recorded db @ [(me_nonce_sha env n, h)]"

lemma execute_confirmed_effect:
  assumes g: "me_gateway env = traced_gateway g" and h: "mr_plan_hash rq = Some h"
    and run: "execute_confirmed env rq live compiled w = (r, w')"
  shows "\<exists>calls. snd (mw_backend w') = snd (mw_backend w) @ calls \<and>
    (calls = [] \<and> recorded (mw_ledger w') = recorded (mw_ledger w) \<or>
     (\<exists>n row. mr_nonce rq = Some n \<and> uses_up env (mw_ledger w) (mw_ledger w') n h row \<and>
        planned_writes g (plan_operations (row_plan row)) calls))"
proof -
  define verify where "verify = verify_and_consume_issued_plan (me_sha env) (me_nonce_sha env) (me_cfg env) (me_verify_at env) h (mr_tool rq)
          (mr_mode rq) (manage_digest (me_sha env) compiled (mr_extra rq)) (schema_hash_of (me_sha env) live) (mr_nonce rq)
          (mr_expires rq) (extra_of (mr_extra rq))"
  obtain c db where v: "verify (mw_ledger w) = (c, db)" by (cases "verify (mw_ledger w)") blast
  note cases = verify_and_consume_cases [OF v [unfolded verify_def]]
  let ?w = "w\<lparr>mw_ledger := db\<rparr>"
  have step: "on_ledger verify w = (c, ?w)" by (simp add: on_ledger_def v)
  show ?thesis
  proof (cases "\<exists>payload. c = Inr (Authorised payload)")
    case False
    with run step have "w' = ?w"
      unfolding execute_confirmed_def h option.case Let_def verify_def [symmetric]
      by (auto simp: st_then_def st_lift_def split: sum.splits consumption.splits)
    then show ?thesis using cases False by auto
  next
    case True
    then obtain n row where n: "mr_nonce rq = Some n" and c: "c = Inr (Authorised (is_payload row))"
        and used: "uses_up env (mw_ledger w) db n h row"
      using cases by (auto simp: uses_up_def)
    show ?thesis
    proof (cases "row_plan row = PNone")
      case True
      with run step have "w' = ?w"
        unfolding execute_confirmed_def h option.case Let_def verify_def [symmetric]
        by (auto simp: st_then_def st_lift_def c row_plan_def split: option.splits)
      then show ?thesis using n used by auto
    next
      case False
      then have plan: "is_payload row = Some (row_plan row)" by (simp add: row_plan_def split: option.splits)
      obtain x b where x: "execute_graph_change_plan (traced_gateway g) (row_plan row) live (mw_backend w) = (x, b)"
        by (cases "execute_graph_change_plan (traced_gateway g) (row_plan row) live (mw_backend w)") blast
      obtain calls where calls: "snd b = snd (mw_backend w) @ calls" "planned_writes g (plan_operations (row_plan row)) calls"
        using execute_plan_writes [OF x] by blast
      have "mw_backend w' = b \<and> recorded (mw_ledger w') = recorded db"
        using run step False x
        unfolding execute_confirmed_def h option.case Let_def verify_def [symmetric]
        by (auto simp: st_then_def st_lift_def c plan on_backend_def g split: sum.splits prod.splits dest!: settle_quiet)
      then show ?thesis using calls n used by (auto simp: uses_up_def)
    qed
  qed
qed

section \<open>Every call\<close>

text \<open>C3. A call of \<open>manage_graph_data\<close> sends safe reads and leaves the record of authorised writes alone, or it is a
  confirmed delete outside readonly mode: then it uses up the confirmation of its nonce and hash, which was never used
  before, and whatever it writes are the writes of the plan that an earlier dry run issued under them, each at most once
  and in their order. Imports, dry runs and unconfirmed calls never write.\<close>

theorem manage_writes_issued_plan:
  assumes "me_gateway env = traced_gateway g" "manage_graph_data env rq w = (r, w')"
  shows "\<exists>calls. snd (mw_backend w') = snd (mw_backend w) @ calls \<and> list_all is_safe_gremlin_read (reads_of calls) \<and>
    (writes_of calls = [] \<and> recorded (mw_ledger w') = recorded (mw_ledger w) \<or>
     (\<exists>h n row. mr_mode rq = ''delete'' \<and> \<not> mr_dry_run rq \<and> mr_confirm rq \<and> mr_plan_hash rq = Some h \<and> mr_nonce rq = Some n \<and>
        uses_up env (mw_ledger w) (mw_ledger w') n h row \<and> planned_writes g (plan_operations (row_plan row)) calls))"
    (is "?goal w'")
proof -
  have idle: "?goal w" by (intro exI [of _ "[]"]) simp
  have quiet: "?goal v'" if q: "m w = (s, v')" "quiet m" for m :: "('a \<times> graph_call list) manage_world \<Rightarrow> managed res \<times> _" and s v'
  proof -
    obtain qs where "snd (mw_backend v') = snd (mw_backend w) @ map Sent_Read qs" "list_all is_safe_gremlin_read qs"
        "recorded (mw_ledger v') = recorded (mw_ledger w)"
      using q unfolding quiet_def by (metis snd_conv)
    then show ?thesis by (intro exI [of _ "map Sent_Read qs"]) simp
  qed
  have dry: "?goal v'" if "with_plan env rq live isolated None plan w = (s, v')" for live isolated plan s v'
  proof (rule quiet)
    show "with_plan env rq live isolated None plan w = (s, v')" by (rule that)
    show "quiet (with_plan env rq live isolated None plan)"
      using quiet_dry_run_branch [OF assms(1)] by (simp add: with_plan_def Let_def quiet_lift)
  qed
  show ?thesis
  proof (cases "\<not> mr_dry_run rq \<and> mr_confirm rq")
    case False
    then show ?thesis using assms(2) idle dry
      unfolding manage_graph_data_def Let_def
      by (auto split: sum.splits option.splits if_splits)
  next
    case True
    show ?thesis
    proof (cases "\<exists>plan isolated payload live. requested_plan rq = Inr plan \<and> load_confirmed env rq isolated (mw_ledger w) = Inr payload \<and>
        with_plan env rq live isolated (Some payload) payload w = (r, w')")
      case False
      then show ?thesis using assms(2) idle True
        unfolding manage_graph_data_def Let_def
        by (auto split: sum.splits option.splits if_splits simp: map_sum_def)
    next
      case c: True
      then obtain plan isolated payload live where p: "requested_plan rq = Inr plan"
          "load_confirmed env rq isolated (mw_ledger w) = Inr payload"
          "with_plan env rq live isolated (Some payload) payload w = (r, w')" by blast
      from p(1,2) have mode: "mr_mode rq = ''delete''"
        by (auto simp: requested_plan_def load_confirmed_def split: if_splits option.splits)
      from p(2) obtain h where h: "mr_plan_hash rq = Some h"
        by (auto simp: load_confirmed_def load_issued_plan_def split: if_splits option.splits)
      show ?thesis
      proof (cases "vd_valid (validate_mode_operations (mr_mode rq) payload)")
        case False
        then show ?thesis using p(3) idle by (auto simp: with_plan_def Let_def st_lift_def)
      next
        case True
        then have "execute_confirmed env rq live payload w = (r, w')" using p(3) by (simp add: with_plan_def)
        from execute_confirmed_effect [OF assms(1) h this] obtain calls where "snd (mw_backend w') = snd (mw_backend w) @ calls"
            "calls = [] \<and> recorded (mw_ledger w') = recorded (mw_ledger w) \<or>
             (\<exists>n row. mr_nonce rq = Some n \<and> uses_up env (mw_ledger w) (mw_ledger w') n h row \<and>
                planned_writes g (plan_operations (row_plan row)) calls)" by blast
        then show ?thesis using mode h \<open>\<not> mr_dry_run rq \<and> mr_confirm rq\<close>
          by (intro exI [of _ calls]) (auto simp: planned_writes_def)
      qed
    qed
  qed
qed

section \<open>Deleting an edge\<close>

text \<open>A gateway with one edge, which the state says is there, and the plan that a dry run issues for it.\<close>

definition edge_gateway :: "bool gateway" where
  "edge_gateway = small_gateway\<lparr>
     gw_read := (\<lambda>q b. (Returned (PDict [(''data'', PList [PInt (if b then 1 else 0)])]), b)),
     gw_write := (\<lambda>q b. (Returned (PDict [(''data'', PList [])]), False))\<rparr>"

definition edge_plan :: py where
  "edge_plan = PDict [(''operations'', PList [PDict [(''op'', PStr ''delete_edge''), (''label'', PStr ''knows''),
     (''target_id'', PStr ''S1'')]])]"

definition edge_env :: "(bool \<times> graph_call list) manage_env" where
  "edge_env = \<lparr>me_gateway = traced_gateway edge_gateway, me_sha = (\<lambda>t. ''h''), me_nonce_sha = demo_sha, me_isodate = (\<lambda>t. True),
     me_schema = Some (PDict []), me_fresh_nonce = ''n'', me_fresh_plan = ''1'', me_load_at = 130, me_build_at = 100,
     me_issue_at = 100, me_compile_at = 100, me_verify_at = 131, me_outcome_at = 132\<rparr>"

definition edge_confirm :: manage_request where
  "edge_confirm = \<lparr>mr_mode = ''delete'', mr_graph_data = PNone, mr_change_plan = edge_plan, mr_dry_run = False, mr_confirm = True,
     mr_plan_hash = Some ''h'', mr_nonce = Some ''n'', mr_expires = PInt 700, mr_extra = PNone, mr_tool = ''manage_graph_data''\<rparr>"

definition issued_world :: "(bool \<times> graph_call list) manage_world" where
  "issued_world = \<lparr>mw_backend = (True, []), mw_ledger = empty_confirm_db\<lparr>issued_confirmations :=
     [\<lparr>is_digest = ''#n'', is_hash = ''h'', is_expires = 700, is_issued_at = 100, is_payload = Some edge_plan\<rparr>]\<rparr>, mw_plans = empty_db\<rparr>"

definition edge_deleted :: "managed res \<times> (bool \<times> graph_call list) manage_world" where
  "edge_deleted = manage_graph_data edge_env edge_confirm issued_world"

theorem manage_writes_issued_plan_witness:
  "length (writes_of (snd (mw_backend (snd edge_deleted)))) = 1 \<and>
   (\<exists>row. uses_up edge_env (mw_ledger issued_world) (mw_ledger (snd edge_deleted)) ''n'' ''h'' row \<and>
      planned_writes edge_gateway (plan_operations (row_plan row)) (snd (mw_backend (snd edge_deleted))))"
proof -
  have one: "length (writes_of (snd (mw_backend (snd edge_deleted)))) = 1" by code_simp
  have g: "me_gateway edge_env = traced_gateway edge_gateway" by (simp add: edge_env_def)
  have "manage_graph_data edge_env edge_confirm issued_world = (fst edge_deleted, snd edge_deleted)"
    by (simp add: edge_deleted_def)
  from manage_writes_issued_plan [OF g this] one show ?thesis
    by (auto simp: issued_world_def edge_confirm_def)
qed

end
