(* ===== verification/Backend_Capabilities.thy ===== *)
theory Backend_Capabilities
  imports Py_Base
begin

text \<open>
  Model of \<open>hugegraph_mcp/backend_capabilities.py\<close>: what is known about a backend. A profile lists evidence for
  every feature; the only profile with evidence is that of HugeGraph 1.7.0 on RocksDB, every other version or
  backend gets a profile in which all is unknown.
\<close>

section \<open>Features and evidence\<close>

datatype BackendFeature =
    VERTEX_CREATE_IF_ABSENT | EDGE_CREATE_IF_ABSENT | EDGE_ID_STABLE_ADDRESSING | EDGE_IDEMPOTENT_IDENTITY
  | ISOLATED_VERTEX_DELETE | PROPERTY_COMPARE_AND_SET | GREMLIN_EVALUATION_TIMEOUT | REST_GREMLIN_WAIT_TIMEOUT
  | TASK_RESULT_SIZE_LIMIT | QUERY_MEMORY_LIMIT | GREMLIN_RESULT_ITEM_LIMIT | HTTP_STREAMING_RESPONSE_LIMIT
  | READONLY_PRINCIPAL

text \<open>Iteration over the class.\<close>

definition backend_features :: "BackendFeature list" where
  "backend_features = [VERTEX_CREATE_IF_ABSENT, EDGE_CREATE_IF_ABSENT, EDGE_ID_STABLE_ADDRESSING, EDGE_IDEMPOTENT_IDENTITY,
     ISOLATED_VERTEX_DELETE, PROPERTY_COMPARE_AND_SET, GREMLIN_EVALUATION_TIMEOUT, REST_GREMLIN_WAIT_TIMEOUT,
     TASK_RESULT_SIZE_LIMIT, QUERY_MEMORY_LIMIT, GREMLIN_RESULT_ITEM_LIMIT, HTTP_STREAMING_RESPONSE_LIMIT, READONLY_PRINCIPAL]"

fun feature_value :: "BackendFeature \<Rightarrow> string" where
  "feature_value VERTEX_CREATE_IF_ABSENT = ''vertex_create_if_absent''"
| "feature_value EDGE_CREATE_IF_ABSENT = ''edge_create_if_absent''"
| "feature_value EDGE_ID_STABLE_ADDRESSING = ''edge_id_stable_addressing''"
| "feature_value EDGE_IDEMPOTENT_IDENTITY = ''edge_idempotent_identity''"
| "feature_value ISOLATED_VERTEX_DELETE = ''isolated_vertex_delete''"
| "feature_value PROPERTY_COMPARE_AND_SET = ''property_compare_and_set''"
| "feature_value GREMLIN_EVALUATION_TIMEOUT = ''gremlin_evaluation_timeout''"
| "feature_value REST_GREMLIN_WAIT_TIMEOUT = ''rest_gremlin_wait_timeout''"
| "feature_value TASK_RESULT_SIZE_LIMIT = ''task_result_size_limit''"
| "feature_value QUERY_MEMORY_LIMIT = ''query_memory_limit''"
| "feature_value GREMLIN_RESULT_ITEM_LIMIT = ''gremlin_result_item_limit''"
| "feature_value HTTP_STREAMING_RESPONSE_LIMIT = ''http_streaming_response_limit''"
| "feature_value READONLY_PRINCIPAL = ''readonly_principal''"

datatype SupportStatus = VERIFIED_SUPPORTED | VERIFIED_UNSUPPORTED | UNVERIFIED

fun support_value :: "SupportStatus \<Rightarrow> string" where
  "support_value VERIFIED_SUPPORTED = ''verified_supported''"
| "support_value VERIFIED_UNSUPPORTED = ''verified_unsupported''"
| "support_value UNVERIFIED = ''unknown''"

record CapabilityEvidence =
  ce_status :: SupportStatus
  ce_source :: string
  ce_reason :: string

definition supported :: "string \<Rightarrow> string \<Rightarrow> CapabilityEvidence" where
  "supported s r = \<lparr>ce_status = VERIFIED_SUPPORTED, ce_source = s, ce_reason = r\<rparr>"

definition unsupported :: "string \<Rightarrow> string \<Rightarrow> CapabilityEvidence" where
  "unsupported s r = \<lparr>ce_status = VERIFIED_UNSUPPORTED, ce_source = s, ce_reason = r\<rparr>"

definition unknown_evidence :: "string \<Rightarrow> string \<Rightarrow> CapabilityEvidence" where
  "unknown_evidence s r = \<lparr>ce_status = UNVERIFIED, ce_source = s, ce_reason = r\<rparr>"

section \<open>Profiles\<close>

record BackendProfile =
  bp_version :: string
  bp_backend :: string
  bp_capabilities :: "(BackendFeature \<times> CapabilityEvidence) list"

text \<open>\<open>__post_init__\<close>: every feature exactly once.\<close>

definition mk_backend_profile :: "BackendProfile \<Rightarrow> BackendProfile res" where
  "mk_backend_profile p =
     (let features = map fst (bp_capabilities p) in
      if \<not> distinct features then Inl (ValueError ''Backend profile contains duplicate features'')
      else if set features \<noteq> set backend_features then Inl (ValueError ''Backend profile must declare every backend feature'')
      else Inr p)"

definition evidence_for :: "BackendProfile \<Rightarrow> BackendFeature \<Rightarrow> CapabilityEvidence" where
  "evidence_for p f = (case map_of (bp_capabilities p) f of
      Some e \<Rightarrow> e | None \<Rightarrow> unknown_evidence [] ''Feature is absent from the profile'')"

definition status_for :: "BackendProfile \<Rightarrow> BackendFeature \<Rightarrow> SupportStatus" where
  "status_for p f = ce_status (evidence_for p f)"

definition supports :: "BackendProfile \<Rightarrow> BackendFeature \<Rightarrow> bool" where
  "supports p f \<longleftrightarrow> status_for p f = VERIFIED_SUPPORTED"

definition HG17_ROCKSDB :: BackendProfile where
  "HG17_ROCKSDB = \<lparr>bp_version = ''1.7.0'', bp_backend = ''rocksdb'', bp_capabilities = [
     (VERTEX_CREATE_IF_ABSENT, unsupported ''hugegraph-python-client/src/pyhugegraph/api/graph.py''
       ''The graph REST client exposes unconditional vertex POST only.''),
     (EDGE_CREATE_IF_ABSENT, unsupported ''hugegraph-python-client/src/pyhugegraph/api/graph.py''
       ''The graph REST client exposes unconditional edge POST only.''),
     (EDGE_ID_STABLE_ADDRESSING, supported ''hugegraph-mcp/tests/integration/test_real_write_path.py''
       ''HugeGraph 1.7 returns an edge ID that can be read and deleted by ID.''),
     (EDGE_IDEMPOTENT_IDENTITY, unknown_evidence ''''
       ''Duplicate-edge uniqueness and idempotency are not proven.''),
     (ISOLATED_VERTEX_DELETE, unknown_evidence ''hugegraph-mcp/tests/integration/test_real_write_path.py''
       (''A barrier-synchronized Docker stress probe observed edge creation reporting success whil'' @
        ''e concurrent not(bothE()).drop() removed both the vertex and edge. The operation must fa'' @
        ''il closed because isolated conditional deletion is not supported by the observed behavio'' @
        ''r.'')),
     (PROPERTY_COMPARE_AND_SET, unsupported ''hugegraph-python-client/src/pyhugegraph/api/graph.py''
       ''Property append/eliminate requests have no expected-state CAS field.''),
     (GREMLIN_EVALUATION_TIMEOUT, supported ''hugegraph/hugegraph:1.7.0 conf/gremlin-server.yaml''
       ''The Docker image configures evaluationTimeout=30000 milliseconds.''),
     (REST_GREMLIN_WAIT_TIMEOUT, supported ''HugeGraph 1.7 configuration option gremlinserver.timeout''
       ''The REST gateway has a bounded wait for Gremlin Server responses.''),
     (TASK_RESULT_SIZE_LIMIT, supported ''HugeGraph 1.7 configuration option task.result_size_limit''
       ''Task/job results have a configured byte limit; it does not cap /gremlin responses.''),
     (QUERY_MEMORY_LIMIT, unknown_evidence ''''
       (''memory.one_query_max_capacity is present but disabled in the default Docker graph config'' @
        ''.'')),
     (GREMLIN_RESULT_ITEM_LIMIT, unknown_evidence ''''
       ''No general server-side /gremlin result-item cap was verified.''),
     (HTTP_STREAMING_RESPONSE_LIMIT, unsupported ''hugegraph-python-client/src/pyhugegraph/utils/huge_requests.py''
       ''The client fully materializes responses and exposes no streaming byte budget.''),
     (READONLY_PRINCIPAL, supported ''HugeGraph 1.7 StandardAuthenticator documentation''
       (''HugeGraph supports users, groups, operations, and resource-scoped permissions; Docker de'' @
        ''faults do not enable it.''))]\<rparr>"

definition PROFILES :: "((string \<times> string) \<times> BackendProfile) list" where
  "PROFILES = [((bp_version HG17_ROCKSDB, bp_backend HG17_ROCKSDB), HG17_ROCKSDB)]"

definition profile_for :: "string \<Rightarrow> string \<Rightarrow> BackendProfile res" where
  "profile_for server_version backend =
     (let key = (strip server_version, lower (strip backend)) in
      case map_of PROFILES key of
        Some p \<Rightarrow> Inr p
      | None \<Rightarrow> mk_backend_profile \<lparr>bp_version = fst key, bp_backend = snd key,
          bp_capabilities = map (\<lambda>f. (f, unknown_evidence []
            ''No evidence-backed profile exists for this exact server/backend combination.'')) backend_features\<rparr>)"

section \<open>Unknown backends fail closed\<close>

lemma map_of_constant: "map_of (map (\<lambda>f. (f, e)) fs) f = (if f \<in> set fs then Some e else None)"
  by (induction fs) auto

lemma all_features: "f \<in> set backend_features" "distinct backend_features"
  by (cases f) (simp_all add: backend_features_def)

lemma known_profile: "mk_backend_profile HG17_ROCKSDB = Inr HG17_ROCKSDB"
  by (simp add: mk_backend_profile_def HG17_ROCKSDB_def backend_features_def insert_commute)

text \<open>Every profile can be built and declares each feature once, and a feature counts as supported only for
  the one version and backend with evidence, where it is one of the five verified ones.\<close>

theorem profiles_fail_closed:
  "\<exists>p. profile_for v b = Inr p \<and> mk_backend_profile p = Inr p \<and>
    (supports p f \<longleftrightarrow> strip v = ''1.7.0'' \<and> lower (strip b) = ''rocksdb'' \<and>
      f \<in> {EDGE_ID_STABLE_ADDRESSING, GREMLIN_EVALUATION_TIMEOUT, REST_GREMLIN_WAIT_TIMEOUT, TASK_RESULT_SIZE_LIMIT, READONLY_PRINCIPAL})"
proof (cases "strip v = ''1.7.0'' \<and> lower (strip b) = ''rocksdb''")
  case True
  then have "profile_for v b = Inr HG17_ROCKSDB"
    by (simp add: profile_for_def PROFILES_def HG17_ROCKSDB_def)
  moreover have "supports HG17_ROCKSDB f \<longleftrightarrow>
      f \<in> {EDGE_ID_STABLE_ADDRESSING, GREMLIN_EVALUATION_TIMEOUT, REST_GREMLIN_WAIT_TIMEOUT, TASK_RESULT_SIZE_LIMIT, READONLY_PRINCIPAL}"
    by (cases f) (simp_all add: supports_def status_for_def evidence_for_def HG17_ROCKSDB_def supported_def
        unsupported_def unknown_evidence_def)
  ultimately show ?thesis using known_profile True by simp
next
  case False
  let ?p = "\<lparr>bp_version = strip v, bp_backend = lower (strip b), bp_capabilities = map (\<lambda>f. (f, unknown_evidence []
      ''No evidence-backed profile exists for this exact server/backend combination.'')) backend_features\<rparr>"
  have "mk_backend_profile ?p = Inr ?p"
    using all_features by (auto simp: mk_backend_profile_def comp_def image_image)
  moreover have "profile_for v b = mk_backend_profile ?p"
    using False by (auto simp: profile_for_def PROFILES_def HG17_ROCKSDB_def Let_def)
  moreover have "\<not> supports ?p f"
    by (simp add: supports_def status_for_def evidence_for_def map_of_constant unknown_evidence_def)
  ultimately show ?thesis using False by auto
qed

end
