(* ===== verification/Property_Mutations.thy ===== *)
theory Property_Mutations
  imports Graph_Ingest Backend_Capabilities
begin

text \<open>
  Model of \<open>hugegraph_mcp/tools/mutate_graph_properties.py\<close>: appending and removing properties of one vertex or
  edge. The tool reads the live schema and the element, checks the request against them and shows the state
  before and after; it never sends the change, since the backend has no conditional update.
\<close>

section \<open>Request and surroundings\<close>

record mutation_request =
  mt_target :: string
  mt_operation :: string
  mt_id :: py
  mt_properties :: py
  mt_dry_run :: bool
  mt_confirm :: bool
  mt_nonce :: "string option"

text \<open>What a call finds: the live schema, or the text of the error of reading it, the element that the client
  returns (\<open>PNone\<close> for nothing), or its exception, a random text and the clock.\<close>

record mutation_env =
  mu_cfg :: MCPConfig
  mu_sha :: "string \<Rightarrow> string"
  mu_isodate :: "string \<Rightarrow> bool"
  mu_schema :: "string + py"
  mu_item :: "hg_exception + py_dict option"
  mu_fresh :: string
  mu_now :: int

definition mutation_error :: "string \<Rightarrow> string \<Rightarrow> py_dict \<Rightarrow> noted" where
  "mutation_error message suggestion details =
     bare (envelope_err VALIDATION_ERROR message (Some suggestion) (PDict details))"

definition schema_error :: "string \<Rightarrow> string option \<Rightarrow> py_dict \<Rightarrow> noted" where
  "schema_error message suggestion details = bare (envelope_err SCHEMA_MISMATCH message suggestion (PDict details))"

section \<open>The request is checked\<close>

definition validate_inputs :: "mutation_request \<Rightarrow> noted option" where
  "validate_inputs rq =
     (if mt_target rq \<notin> {''vertex'', ''edge''} then Some (mutation_error
        (''Unsupported target: '' @ repr_str (mt_target rq) @ ''.'') (''Use target='' @ quoted ''vertex'' @ '' or target='' @ quoted ''edge'' @ ''.'')
        [(''target'', PStr (mt_target rq))])
      else if mt_operation rq \<notin> {''append'', ''eliminate''} then Some (mutation_error
        (''Unsupported operation: '' @ repr_str (mt_operation rq) @ ''.'')
        (''Use operation='' @ quoted ''append'' @ '' or operation='' @ quoted ''eliminate'' @ ''.'')
        [(''operation'', PStr (mt_operation rq))])
      else if mt_id rq = PNone \<or> (case mt_id rq of PStr s \<Rightarrow> strip s = [] | _ \<Rightarrow> False) then Some (mutation_error
        ''id is required for property mutation.'' ''Pass the exact vertex or edge id from query_graph_data_tool.'' [(''id'', mt_id rq)])
      else case mt_properties rq of
        PDict d \<Rightarrow>
         if d = [] then Some (mutation_error ''properties must be a non-empty object.''
           ''Pass the property keys and values to append or eliminate.'' [(''properties_type'', PStr ''dict'')])
         else if [] \<in> set (map fst d) then Some (mutation_error ''properties contains blank or non-string keys.''
           ''Use only named schema property keys.'' [(''invalid_keys'', PList (map PStr (filter (\<lambda>k. k = []) (map fst d))))])
         else None
      | v \<Rightarrow> Some (mutation_error ''properties must be a non-empty object.''
          ''Pass the property keys and values to append or eliminate.'' [(''properties_type'', PStr (type_name v))]))"

text \<open>The schema and the element, or the error of reading one of them.\<close>

definition read_schema_and_target :: "mutation_env \<Rightarrow> mutation_request \<Rightarrow> noted + (py \<times> py_dict)" where
  "read_schema_and_target env rq =
     (case mu_schema env of
        Inl e \<Rightarrow> Inl ((bare (envelope_err CONNECTION_FAILED ''Cannot read live schema before property mutation.''
          (Some ''Ensure HugeGraph Server is running and retry.'')
          (PDict [(''stage'', PStr ''schema_fetch''), (''error'', PStr e)])))\<lparr>nt_retryable := True\<rparr>)
      | Inr live \<Rightarrow> (case mu_item env of
          Inl e \<Rightarrow> (let c = classify_hugegraph_exception e in
            Inl ((bare (envelope_err (ec_type c) (''Cannot read target '' @ mt_target rq @ '': '' @ hg_text e) (Some (ec_suggestion c))
              (PDict [(''stage'', PStr ''target_fetch''), (''target'', PStr (mt_target rq)), (''id'', mt_id rq),
                 (''error'', PStr (hg_text e)), (''reason'', PStr (ec_reason c))])))\<lparr>nt_retryable := ec_retryable c\<rparr>))
        | Inr None \<Rightarrow> Inl (bare (envelope_err NOT_FOUND
            (''Target '' @ mt_target rq @ '' not found: '' @ py_str (mt_id rq))
            (Some ''Call query_graph_data_tool to verify the target id.'')
            (PDict [(''target'', PStr (mt_target rq)), (''id'', mt_id rq)])))
        | Inr (Some item) \<Rightarrow> Inr (live, item)))"

definition find_label_schema :: "py \<Rightarrow> py \<Rightarrow> py_dict option" where
  "find_label_schema labels label = (case labels of
      PList vs \<Rightarrow> (case find (\<lambda>v. case v of PDict d \<Rightarrow> py_eq (dget d ''name'') label | _ \<Rightarrow> False) vs of
          Some (PDict d) \<Rightarrow> Some d | _ \<Rightarrow> None)
    | _ \<Rightarrow> None)"

text \<open>The loop over the values of an append: the error of the first one that does not fit.\<close>

fun append_value_error :: "(string \<Rightarrow> bool) \<Rightarrow> string \<Rightarrow> (string \<times> property_spec) list \<Rightarrow> py_dict \<Rightarrow> noted option" where
  "append_value_error isodate target specs [] = None"
| "append_value_error isodate target specs ((name, v) # props) =
     (case property_value_error isodate target 0 name v (map_of specs name) of
        None \<Rightarrow> append_value_error isodate target specs props
      | Some e \<Rightarrow> (case map_of specs name of
          None \<Rightarrow> append_value_error isodate target specs props
        | Some (data_type, cardinality) \<Rightarrow> Some (mutation_error e
            (if cardinality = ''LIST'' \<or> cardinality = ''SET''
             then ''Pass a JSON array whose elements match '' @ data_type @ '' for '' @ cardinality @ '' property '' @ repr_str name @ ''.''
             else ''Pass a value matching HugeGraph data type '' @ data_type @ ''.'')
            [(''property'', PStr name), (''data_type'', PStr data_type), (''cardinality'', PStr cardinality),
             (''value_type'', PStr (type_name v))])))"

definition validate_against_schema ::
  "mutation_env \<Rightarrow> mutation_request \<Rightarrow> py_dict \<Rightarrow> py_dict \<Rightarrow> py \<Rightarrow> noted option" where
  "validate_against_schema env rq props item live =
     (case schema_payload live of
        None \<Rightarrow> Some (schema_error ''Live schema response is not a schema object.'' None [])
      | Some raw \<Rightarrow>
        let label = dget item ''label'' in
        if \<not> truthy label then Some (schema_error ''Target item has no label; cannot validate property keys.'' None
          [(''target_item'', PDict item)])
        else case find_label_schema (dget raw (if mt_target rq = ''vertex'' then ''vertexlabels'' else ''edgelabels'')) label of
          None \<Rightarrow> Some (schema_error (''Target label is not present in live schema: '' @ py_str label) None
            [(''label'', label), (''target'', PStr (mt_target rq))])
        | Some schema \<Rightarrow>
          let unknown = sort (filter (\<lambda>k. k \<notin> property_names (dget schema ''properties'')) (remdups (map fst props))) in
          if unknown \<noteq> [] then Some (schema_error ''Property mutation references keys not defined on the target label.''
            (Some ''Use only properties defined on the target vertex or edge label.'')
            [(''label'', label), (''unknown_properties'', strings unknown)])
          else if mt_operation rq = ''append''
          then append_value_error (mu_isodate env) (mt_target rq) (property_specs live) props
          else None)"

section \<open>The preview\<close>

definition existing_collection :: "py \<Rightarrow> py list" where
  "existing_collection v = (case v of PNone \<Rightarrow> [] | PList xs \<Rightarrow> xs | _ \<Rightarrow> [v])"

text \<open>The loop of \<open>_stable_unique\<close> from the values kept so far.\<close>

fun stable_unique :: "py list \<Rightarrow> py list \<Rightarrow> py list" where
  "stable_unique kept [] = kept"
| "stable_unique kept (v # vs) = stable_unique (if list_ex (\<lambda>x. py_eq x v) kept then kept else kept @ [v]) vs"

text \<open>\<open>*value\<close> in a list display.\<close>

definition starred :: "py \<Rightarrow> py list res" where
  "starred v = (case py_iter v of Inr xs \<Rightarrow> Inr xs
    | Inl e \<Rightarrow> Inl (TypeError (''Value after * must be an iterable, not '' @ type_name v)))"

definition cardinality_of :: "(string \<times> string) list \<Rightarrow> string \<Rightarrow> string" where
  "cardinality_of cards name = (case map_of cards name of None \<Rightarrow> ''SINGLE'' | Some c \<Rightarrow> c)"

definition appended :: "string \<Rightarrow> py \<Rightarrow> py \<Rightarrow> py res" where
  "appended cardinality old v =
     (if cardinality = ''LIST'' then and_then (starred v) (\<lambda>xs. Inr (PList (existing_collection old @ xs)))
      else if cardinality = ''SET'' then and_then (starred v) (\<lambda>xs. Inr (PList (stable_unique [] (existing_collection old @ xs))))
      else Inr v)"

fun append_all :: "(string \<times> string) list \<Rightarrow> py_dict \<Rightarrow> py_dict \<Rightarrow> py_dict res" where
  "append_all cards [] after = Inr after"
| "append_all cards ((name, v) # props) after =
     and_then (appended (cardinality_of cards name) (dget after name) v) (\<lambda>x. append_all cards props (dset name x after))"

definition apply_property_preview :: "py_dict \<Rightarrow> string \<Rightarrow> py_dict \<Rightarrow> (string \<times> string) list \<Rightarrow> py_dict res" where
  "apply_property_preview before operation props cards =
     (if operation = ''append'' then append_all cards props before
      else Inr (fold (\<lambda>(k, v). dpop k) props before))"

record mutation_preview =
  mp_before :: py_dict
  mp_after :: py_dict
  mp_digest :: string
  mp_summary :: py

definition preview_mutation ::
  "(string \<Rightarrow> string) \<Rightarrow> mutation_request \<Rightarrow> py_dict \<Rightarrow> py_dict \<Rightarrow> (string \<times> string) list \<Rightarrow> mutation_preview res" where
  "preview_mutation sha rq props before cards =
     and_then (py_mapping (py_or (dget before ''properties'') (PDict []))) (\<lambda>before_props.
     and_then (apply_property_preview before_props (mt_operation rq) props cards) (\<lambda>after_props.
       Inr \<lparr>mp_before = before, mp_after = dset ''properties'' (PDict after_props) before,
         mp_digest = compute_payload_digest sha (PDict before),
         mp_summary = PDict [(''target'', PStr (mt_target rq)), (''operation'', PStr (mt_operation rq)), (''id'', mt_id rq),
           (''property_keys'', strings (sort (map fst props)))]\<rparr>))"

section \<open>The plan\<close>

definition nonce_with_snapshot :: "string \<Rightarrow> string option \<Rightarrow> string \<Rightarrow> string" where
  "nonce_with_snapshot fresh nonce digest =
     (let base = (case nonce of None \<Rightarrow> fresh | Some n \<Rightarrow> if n = [] then fresh else strip n) in
      if contains base ''|ts:'' then base else base @ ''|ts:'' @ take 16 digest)"

definition mutation_payload_digest :: "(string \<Rightarrow> string) \<Rightarrow> mutation_request \<Rightarrow> py_dict \<Rightarrow> string" where
  "mutation_payload_digest sha rq props = compute_payload_digest sha (PDict [(''target'', PStr (mt_target rq)),
     (''operation'', PStr (mt_operation rq)), (''id'', mt_id rq), (''properties'', PDict props)])"

definition mutation_plan_context :: "mutation_env \<Rightarrow> mutation_request \<Rightarrow> py_dict \<Rightarrow> py \<Rightarrow> string \<Rightarrow> PlanContext" where
  "mutation_plan_context env rq props live digest = fst (build_plan_context (mu_sha env) (mu_cfg env) (mu_now env) (mu_fresh env)
     ''mutate_graph_properties_tool'' ''mutate'' (mutation_payload_digest (mu_sha env) rq props)
     (schema_hash_of (mu_sha env) live) (Some (nonce_with_snapshot (mu_fresh env) (mt_nonce rq) digest)) DEFAULT_PLAN_TTL_SECONDS
     [(''target'', PStr (mt_target rq)), (''operation'', PStr (mt_operation rq)), (''target_snapshot_digest'', PStr digest)])"

definition props_or_empty :: "py_dict \<Rightarrow> py" where
  "props_or_empty d = (case map_of d ''properties'' of None \<Rightarrow> PDict [] | Some v \<Rightarrow> v)"

definition mutation_payload :: "mutation_env \<Rightarrow> mutation_request \<Rightarrow> py_dict \<Rightarrow> py \<Rightarrow> mutation_preview \<Rightarrow> py_dict" where
  "mutation_payload env rq props live pv =
     (let ctx = mutation_plan_context env rq props live (mp_digest pv); h = compute_plan_hash (mu_sha env) ctx in
      [(''target'', PStr (mt_target rq)), (''operation'', PStr (mt_operation rq)), (''id'', mt_id rq), (''properties'', PDict props),
       (''mutation_summary'', mp_summary pv),
       (''risk_level'', PStr (if mt_operation rq = ''eliminate'' then ''high'' else ''medium'')),
       (''before'', PDict (mp_before pv)), (''after'', PDict (mp_after pv)), (''plan_hash'', PStr h),
       (''plan_context'', plan_context_payload ctx), (''status'', PStr (plan_value ISSUED)), (''confirmable'', PBool False),
       (''cas_request'', PDict [(''target_type'', PStr (mt_target rq)), (''target_id'', mt_id rq),
          (''expected_properties'', props_or_empty (mp_before pv)), (''desired_properties'', props_or_empty (mp_after pv)),
          (''operation_id'', PStr (''property-cas:'' @ take 24 h))])])"

text \<open>The profile of the supported deployment is in the table, so the lookup cannot raise.\<close>

definition property_cas_evidence :: CapabilityEvidence where
  "property_cas_evidence = (case profile_for ''1.7.0'' ''rocksdb'' of
      Inr p \<Rightarrow> evidence_for p PROPERTY_COMPARE_AND_SET
    | Inl e \<Rightarrow> unknown_evidence [] [])"

definition mutation_disabled :: "mutation_request \<Rightarrow> noted" where
  "mutation_disabled rq = (bare (envelope_err FEATURE_DISABLED
     ''Confirmed property mutation is disabled because HugeGraph does not expose atomic compare-and-set updates.''
     (Some (''Add a backend-enforced conditional property replacement API that compares '' @
       ''the expected state and writes the desired state in one atomic operation.''))
     (PDict [(''target'', PStr (mt_target rq)), (''id'', mt_id rq),
       (''status'', PStr (plan_value (aggregate_plan_status [ApplyStatus.REJECTED]))),
       (''required_capability'', PStr ''conditional_property_compare_and_set''),
       (''backend_capability'', PStr (feature_value PROPERTY_COMPARE_AND_SET)),
       (''capability_status'', PStr (support_value (ce_status property_cas_evidence))),
       (''capability_evidence'', PStr (ce_reason property_cas_evidence)), (''write_attempted'', PBool False)])))
     \<lparr>nt_actions := [''Keep this plan as a preview; do not retry confirmation until backend CAS is available.'']\<rparr>"

definition mutation_shown :: "MCPConfig \<Rightarrow> py_dict \<Rightarrow> noted" where
  "mutation_shown cfg payload =
     (let (d, ws, actions) =
        (if is_readonly cfg then mark_readonly_preview payload
           (''This dry-run was generated while HUGEGRAPH_MCP_READONLY=true. '' @
            ''Set HUGEGRAPH_MCP_READONLY=false and rerun dry_run before confirming.'')
           ''Set HUGEGRAPH_MCP_READONLY=false and rerun dry_run before confirm.''
         else (payload, [''Preview only: HugeGraph does not expose an atomic conditional property update.''],
           [''Enable confirmation only after the backend provides compare-and-set for property replacement.'']))
      in \<lparr>nt_response = envelope_ok (PDict d), nt_retryable = False, nt_warnings = ws, nt_actions = actions\<rparr>)"

text \<open>The whole call: an exception of the preview leaves it.\<close>

definition mutate_graph_properties :: "mutation_env \<Rightarrow> mutation_request \<Rightarrow> noted res" where
  "mutate_graph_properties env rq =
     (case validate_inputs rq of Some e \<Rightarrow> Inr e
      | None \<Rightarrow> (case read_schema_and_target env rq of Inl e \<Rightarrow> Inr e
      | Inr (live, item) \<Rightarrow>
        and_then (py_items (mt_properties rq)) (\<lambda>props.
        case validate_against_schema env rq props item live of Some e \<Rightarrow> Inr e
        | None \<Rightarrow>
          and_then (preview_mutation (mu_sha env) rq props item (property_cardinalities live)) (\<lambda>pv.
            if mt_dry_run rq then Inr (mutation_shown (mu_cfg env) (mutation_payload env rq props live pv))
            else case guard DATA_WRITE (mu_cfg env) of Some e \<Rightarrow> Inr (bare e)
            | None \<Rightarrow>
              if \<not> mt_confirm rq then Inr (bare (confirm_required_error ''Property mutations require confirm=True after dry_run.''
                ''Run dry_run=True, review the preview, then pass confirm=True with plan_hash, nonce, and expires_at.''))
              else Inr (mutation_disabled rq)))))"

section \<open>Nothing is ever confirmed\<close>

definition only_errors :: "noted option \<Rightarrow> bool" where
  "only_errors x \<longleftrightarrow> (case x of None \<Rightarrow> True | Some e \<Rightarrow> \<not> is_ok (nt_response e))"

lemma only_errors_simps [simp]:
  "only_errors None" "only_errors (Some e) \<longleftrightarrow> \<not> is_ok (nt_response e)"
  "only_errors (if a then x else y) \<longleftrightarrow> (a \<longrightarrow> only_errors x) \<and> (\<not> a \<longrightarrow> only_errors y)"
  "\<not> is_ok (nt_response (mutation_error m s ds))" "\<not> is_ok (nt_response (schema_error m s' ds))"
  by (simp_all add: only_errors_def mutation_error_def schema_error_def bare_def)

lemma validate_inputs_errors: "only_errors (validate_inputs rq)"
  unfolding validate_inputs_def by (cases "mt_properties rq") simp_all

lemma append_value_errors: "only_errors (append_value_error isodate t specs ps)"
  by (induction ps) (auto split: option.splits)

lemma validate_against_schema_errors: "only_errors (validate_against_schema env rq ps item live)"
  by (simp add: validate_against_schema_def append_value_errors Let_def split: option.split)

lemma read_errors: "read_schema_and_target env rq = Inl e \<Longrightarrow> \<not> is_ok (nt_response e)"
  by (auto simp: read_schema_and_target_def bare_def Let_def split: sum.splits option.splits)

text \<open>Whatever the request, the configuration and the element: the tool answers with success only for a dry run,
  and the plan it shows is marked as not confirmable. (The tool has no access to a write: its model needs the
  readings of the schema and the element only.)\<close>

theorem mutation_never_confirms:
  assumes "mutate_graph_properties env rq = Inr r" "nt_response r = envelope_ok data"
  shows "mt_dry_run rq \<and> (\<exists>d. data = PDict d \<and> dget d ''confirmable'' = PBool False \<and> dget d ''status'' = PStr ''ISSUED'')"
proof -
  have ok: "is_ok (nt_response r)" using assms(2) by simp
  have err: "validate_inputs rq \<noteq> Some r" using validate_inputs_errors [of rq] ok by auto
  have read: "read_schema_and_target env rq \<noteq> Inl r" using read_errors ok by blast
  have sch: "validate_against_schema env rq ps item live \<noteq> Some r" for ps item live
    using validate_against_schema_errors [of env rq ps item live] ok by auto
  have gd: "guard DATA_WRITE c \<noteq> Some (envelope_ok d)" for c d
    by (auto simp: guard_def split: if_splits)
  have v: "validate_inputs rq = None" using assms(1) err by (simp add: mutate_graph_properties_def split: option.splits)
  obtain live item where rd: "read_schema_and_target env rq = Inr (live, item)"
    using assms(1) v read by (cases "read_schema_and_target env rq") (auto simp: mutate_graph_properties_def)
  obtain props where ps: "py_items (mt_properties rq) = Inr props" "validate_against_schema env rq props item live = None"
    using assms(1) sch by (cases "py_items (mt_properties rq)") (simp_all add: mutate_graph_properties_def v rd split: option.splits)
  obtain pv where "preview_mutation (mu_sha env) rq props item (property_cardinalities live) = Inr pv"
    using assms(1) by (auto simp: mutate_graph_properties_def v rd ps and_then_Inr)
  then have "mt_dry_run rq \<and> r = mutation_shown (mu_cfg env) (mutation_payload env rq props live pv)"
    using assms gd by (cases "guard DATA_WRITE (mu_cfg env)")
      (auto simp: mutate_graph_properties_def v rd ps mutation_disabled_def confirm_required_error_def bare_def split: if_splits)
  then show ?thesis
    using assms(2) by (auto simp: mutation_shown_def mutation_payload_def mark_readonly_preview_def dget_def Let_def split: if_splits)
qed

section \<open>What the preview shows\<close>

lemma append_all_lookup:
  assumes "append_all cards props before = Inr after" "distinct (map fst props)"
  shows "(case map_of props k of None \<Rightarrow> map_of after k = map_of before k
    | Some v \<Rightarrow> \<exists>x. appended (cardinality_of cards k) (dget before k) v = Inr x \<and> map_of after k = Some x)"
  using assms
proof (induction cards props before rule: append_all.induct)
  case (2 cards name v props before)
  then obtain x where x: "appended (cardinality_of cards name) (dget before name) v = Inr x"
      "append_all cards props (dset name x before) = Inr after" by (auto simp: and_then_Inr)
  note IH = 2(1) [OF x(1) x(2)]
  have same: "k \<noteq> name \<Longrightarrow> dget (dset name x before) k = dget before k" by (simp add: dget_def)
  have "map_of props name = None" using 2(3) by (simp add: map_of_eq_None_iff)
  then show ?case using IH 2(3) x(1) same
    by (cases "k = name"; cases "map_of props k") (auto simp del: map_of_eq_Some_iff)
qed simp

lemma pop_all_lookup: "map_of (fold (\<lambda>(k, v). dpop k) props before) k = (if k \<in> set (map fst props) then None else map_of before k)"
  by (induction props arbitrary: before) auto

text \<open>The preview changes exactly the properties of the request: every other property keeps its value, a removed
  one is absent, an appended one has its old values followed by the new ones according to its cardinality.\<close>

theorem mutation_preview_exact:
  assumes "apply_property_preview before operation props cards = Inr after" "distinct (map fst props)"
  shows "map_of after k =
    (case map_of props k of None \<Rightarrow> map_of before k
     | Some v \<Rightarrow> if operation \<noteq> ''append'' then None
         else case appended (cardinality_of cards k) (dget before k) v of Inr x \<Rightarrow> Some x | Inl e \<Rightarrow> None)"
proof (cases "operation = ''append''")
  case True
  then show ?thesis
    using append_all_lookup [of cards props before after k] assms
    by (cases "map_of props k") (auto simp: apply_property_preview_def simp del: map_of_eq_Some_iff)
next
  case False
  then have after: "after = fold (\<lambda>(k, v). dpop k) props before" using assms(1) by (simp add: apply_property_preview_def)
  have "map_of props k = None \<longleftrightarrow> k \<notin> set (map fst props)" by (simp add: map_of_eq_None_iff)
  then show ?thesis unfolding after pop_all_lookup using False by (cases "map_of props k") simp_all
qed

theorem mutation_preview_exact_witness:
  "apply_property_preview [(''tags'', PStr ''x''), (''age'', PInt 3)] ''append'' [(''tags'', PList [PStr ''y'', PStr ''x''])] [(''tags'', ''SET'')]
     = Inr [(''tags'', PList [PStr ''x'', PStr ''y'']), (''age'', PInt 3)] \<and>
   map_of [(''tags'', PList [PStr ''x'', PStr ''y'']), (''age'', PInt 3)] ''age'' = Some (PInt 3)"
proof -
  have run: "apply_property_preview [(''tags'', PStr ''x''), (''age'', PInt 3)] ''append'' [(''tags'', PList [PStr ''y'', PStr ''x''])] [(''tags'', ''SET'')]
     = Inr [(''tags'', PList [PStr ''x'', PStr ''y'']), (''age'', PInt 3)]" by code_simp
  show ?thesis using run mutation_preview_exact [OF run, of "''age''"] by simp
qed

section \<open>Sets\<close>

lemma stable_unique_append: "stable_unique kept (xs @ ys) = stable_unique (stable_unique kept xs) ys"
  by (induction kept xs rule: stable_unique.induct) simp_all

lemma stable_unique_pairwise:
  "sorted_wrt (\<lambda>a b. \<not> py_eq a b) kept \<Longrightarrow> sorted_wrt (\<lambda>a b. \<not> py_eq a b) (stable_unique kept xs)"
proof (induction kept xs rule: stable_unique.induct)
  case (2 kept v vs)
  then have "sorted_wrt (\<lambda>a b. \<not> py_eq a b) (if list_ex (\<lambda>x. py_eq x v) kept then kept else kept @ [v])"
    by (simp add: sorted_wrt_append list_ex_iff)
  from 2(1) [OF this] show ?case by simp
qed simp

lemma stable_unique_id: "sorted_wrt (\<lambda>a b. \<not> py_eq a b) (kept @ xs) \<Longrightarrow> stable_unique kept xs = kept @ xs"
proof (induction xs arbitrary: kept)
  case (Cons v vs)
  then have "\<not> list_ex (\<lambda>x. py_eq x v) kept" by (simp add: sorted_wrt_append list_ex_iff)
  then show ?case using Cons.IH [of "kept @ [v]"] Cons.prems by simp
qed simp

lemma stable_unique_keeps: "set kept \<subseteq> set (stable_unique kept xs)"
  by (induction kept xs rule: stable_unique.induct) (auto split: if_splits)

lemma stable_unique_covers:
  "y \<in> set xs \<Longrightarrow> py_eq y y \<Longrightarrow> \<exists>z \<in> set (stable_unique kept xs). py_eq z y"
proof (induction xs arbitrary: kept)
  case (Cons v vs)
  let ?kept = "if list_ex (\<lambda>x. py_eq x v) kept then kept else kept @ [v]"
  show ?case
  proof (cases "y = v")
    case True
    then obtain z where z: "z \<in> set ?kept" "py_eq z y"
      using Cons.prems(2) by (cases "list_ex (\<lambda>x. py_eq x v) kept") (auto simp: list_ex_iff simp del: py_eq.simps)
    from z(1) have "z \<in> set (stable_unique ?kept vs)" by (rule subsetD [OF stable_unique_keeps])
    then show ?thesis using z(2) unfolding stable_unique.simps by (rule bexI [rotated])
  next
    case False
    then show ?thesis using Cons.IH [of ?kept] Cons.prems by simp
  qed
qed simp

lemma stable_unique_absorbs: "(\<And>y. y \<in> set ys \<Longrightarrow> \<exists>z \<in> set kept. py_eq z y) \<Longrightarrow> stable_unique kept ys = kept"
  by (induction ys) (simp_all add: list_ex_iff)

text \<open>Appending to a property of cardinality SET shows a list without equal elements that covers the old and the
  new values, and appending the same values again changes nothing, as long as every value equals itself.\<close>

theorem set_append_settles:
  assumes "appended ''SET'' old v = Inr x" "starred v = Inr ys" "\<forall>y \<in> set (existing_collection old @ ys). py_eq y y"
  shows "\<exists>zs. x = PList zs \<and> sorted_wrt (\<lambda>a b. \<not> py_eq a b) zs \<and>
    (\<forall>y \<in> set (existing_collection old @ ys). \<exists>z \<in> set zs. py_eq z y) \<and> appended ''SET'' x v = Inr x"
proof -
  let ?zs = "stable_unique [] (existing_collection old @ ys)"
  have x: "x = PList ?zs" using assms(1,2) by (simp add: appended_def)
  have pw: "sorted_wrt (\<lambda>a b. \<not> py_eq a b) ?zs" by (simp add: stable_unique_pairwise)
  have cov: "\<exists>z \<in> set ?zs. py_eq z y" if "y \<in> set (existing_collection old @ ys)" for y
    using stable_unique_covers [OF that] assms(3) that by blast
  have "stable_unique [] ?zs = ?zs" using pw stable_unique_id [of "[]" ?zs] by simp
  then have "stable_unique [] (?zs @ ys) = ?zs"
    using stable_unique_absorbs [of ys ?zs] cov by (simp add: stable_unique_append)
  then have "appended ''SET'' x v = Inr x" using x assms(2) by (simp add: appended_def existing_collection_def)
  with x pw cov show ?thesis by blast
qed

theorem set_append_settles_witness:
  "appended ''SET'' (PStr ''x'') (PList [PStr ''y'', PStr ''x'']) = Inr (PList [PStr ''x'', PStr ''y'']) \<and>
   appended ''SET'' (PList [PStr ''x'', PStr ''y'']) (PList [PStr ''y'', PStr ''x'']) = Inr (PList [PStr ''x'', PStr ''y''])"
proof -
  have a: "appended ''SET'' (PStr ''x'') (PList [PStr ''y'', PStr ''x'']) = Inr (PList [PStr ''x'', PStr ''y''])" by code_simp
  have s: "starred (PList [PStr ''y'', PStr ''x'']) = Inr [PStr ''y'', PStr ''x'']" by (simp add: starred_def)
  show ?thesis using a set_append_settles [OF a s] by (auto simp: existing_collection_def)
qed

section \<open>A null for a collection\<close>

text \<open>A null for a property of cardinality LIST or SET passes the validation of the request, and the preview
  raises on it: the tool answers with an exception where every other bad value gets an error.\<close>

theorem null_collection_append_raises:
  assumes "mt_target rq \<in> {''vertex'', ''edge''}" "mt_operation rq = ''append''" "mt_id rq = PInt i" "mt_properties rq = PDict [(name, PNone)]" "name \<noteq> []"
    and "mu_schema env = Inr live" "mu_item env = Inr (Some item)" "dget item ''properties'' = PDict before"
    and "schema_payload live = Some raw" "truthy (dget item ''label'')"
    and "find_label_schema (dget raw (if mt_target rq = ''vertex'' then ''vertexlabels'' else ''edgelabels'')) (dget item ''label'') = Some schema"
    and "name \<in> property_names (dget schema ''properties'')"
    and "map_of (property_specs live) name = Some (t, c)" "t \<in> set SUPPORTED_DATA_TYPES"
    and "c = ''LIST'' \<or> c = ''SET''" "map_of (property_cardinalities live) name = Some c"
  shows "mutate_graph_properties env rq = Inl (TypeError ''Value after * must be an iterable, not NoneType'')"
proof -
  have v: "validate_inputs rq = None" using assms(1-5) by (auto simp: validate_inputs_def)
  have r: "read_schema_and_target env rq = Inr (live, item)" using assms(6,7) by (simp add: read_schema_and_target_def)
  have "property_value_error iso k 0 name PNone (Some (t, c)) = None" for iso k
    using assms(14,15) by (auto simp: property_value_error_def SUPPORTED_CARDINALITIES_def)
  then have s: "validate_against_schema env rq [(name, PNone)] item live = None"
    using assms(2,9-13) by (simp add: validate_against_schema_def Let_def)
  have d: "py_mapping (py_or (dget item ''properties'') (PDict [])) = Inr before"
    using assms(8) by (cases before) (simp_all add: py_or_def)
  have a: "appended (cardinality_of (property_cardinalities live) name) old PNone
      = Inl (TypeError ''Value after * must be an iterable, not NoneType'')" for old
    using assms(15,16) by (auto simp: appended_def starred_def cardinality_of_def)
  show ?thesis
    using assms(2,4) by (simp add: mutate_graph_properties_def v r s preview_mutation_def d apply_property_preview_def a)
qed

definition tag_schema :: py where
  "tag_schema = PDict
     [(''propertykeys'', PList [PDict [(''name'', PStr ''tags''), (''data_type'', PStr ''TEXT''), (''cardinality'', PStr ''LIST'')]]),
      (''vertexlabels'', PList [PDict [(''name'', PStr ''person''), (''properties'', PList [PStr ''tags''])]])]"

definition tag_env :: mutation_env where
  "tag_env = \<lparr>mu_cfg = demo_config, mu_sha = (\<lambda>t. ''h''), mu_isodate = (\<lambda>t. False), mu_schema = Inr tag_schema,
     mu_item = Inr (Some [(''id'', PInt 1), (''label'', PStr ''person''), (''properties'', PDict [(''tags'', PList [PStr ''a''])])]),
     mu_fresh = ''f'', mu_now = 100\<rparr>"

definition tag_request :: "py \<Rightarrow> mutation_request" where
  "tag_request v = \<lparr>mt_target = ''vertex'', mt_operation = ''append'', mt_id = PInt 1, mt_properties = PDict [(''tags'', v)],
     mt_dry_run = True, mt_confirm = False, mt_nonce = None\<rparr>"

theorem null_collection_append_raises_witness:
  "mutate_graph_properties tag_env (tag_request PNone) = Inl (TypeError ''Value after * must be an iterable, not NoneType'')"
proof -
  have "map_of (property_specs tag_schema) ''tags'' = Some (''TEXT'', ''LIST'')"
    "map_of (property_cardinalities tag_schema) ''tags'' = Some ''LIST''"
    "schema_payload tag_schema = Some (dict_items tag_schema)"
    "find_label_schema (dget (dict_items tag_schema) ''vertexlabels'') (PStr ''person'')
       = Some [(''name'', PStr ''person''), (''properties'', PList [PStr ''tags''])]"
    "''TEXT'' \<in> set SUPPORTED_DATA_TYPES" by code_simp+
  then show ?thesis
    using null_collection_append_raises [of "tag_request PNone" 1 "''tags''" tag_env tag_schema _ _ "dict_items tag_schema" _ "''TEXT''" "''LIST''"]
    by (simp add: tag_request_def tag_env_def dget_def property_names_def schema_names_def List.map_filter_simps)
qed

theorem mutation_never_confirms_witness:
  "\<exists>r d. mutate_graph_properties tag_env (tag_request (PList [PStr ''b''])) = Inr r \<and> nt_response r = envelope_ok (PDict d) \<and>
     dget d ''confirmable'' = PBool False"
proof -
  have "(case mutate_graph_properties tag_env (tag_request (PList [PStr ''b''])) of Inr r \<Rightarrow> is_ok (nt_response r) | Inl e \<Rightarrow> False)"
    by code_simp
  then obtain r data where r: "mutate_graph_properties tag_env (tag_request (PList [PStr ''b''])) = Inr r" "nt_response r = envelope_ok data"
    by (auto split: sum.splits) (metis is_ok.elims(2))
  show ?thesis using r mutation_never_confirms [OF r] by auto
qed

end
