(* ===== verification/Schema_Operations.thy ===== *)
theory Schema_Operations
  imports Graph_Ingest
begin

text \<open>
  Model of the validation in \<open>hugegraph_mcp/tools/manage_schema.py\<close>: a batch of schema operations is checked
  against the live schema and against what earlier operations of the batch create. Errors are collected as the
  dictionaries that the tool returns.
\<close>

section \<open>Constants\<close>

definition CREATE_TYPES :: "string list" where
  "CREATE_TYPES = [''create_property_key'', ''create_vertex_label'', ''create_edge_label'', ''create_index_label'']"

definition P0A_APPLY_OPERATION_TYPES :: "string list" where
  "P0A_APPLY_OPERATION_TYPES = [''create_property_key'', ''create_vertex_label'', ''create_edge_label'']"

definition REQUIRED_FIELDS :: "(string \<times> string list) list" where
  "REQUIRED_FIELDS = [(''create_property_key'', [''name'', ''data_type'']), (''create_vertex_label'', [''name'']),
     (''create_edge_label'', [''name'', ''source_label'', ''target_label'']),
     (''create_index_label'', [''name'', ''base_type'', ''base_label''])]"

definition IDENTIFIER_FIELDS :: "(string \<times> string list) list" where
  "IDENTIFIER_FIELDS = [(''create_property_key'', [''name'']), (''create_vertex_label'', [''name'']),
     (''create_edge_label'', [''name'', ''source_label'', ''target_label'']), (''create_index_label'', [''name'', ''base_label''])]"

text \<open>The sets of the source, sorted.\<close>

definition UNSUPPORTED_EDGE_LABEL_FIELDS :: "string list" where
  "UNSUPPORTED_EDGE_LABEL_FIELDS = [''edgeLabelType'', ''edgelabel_type'', ''parentLabel'', ''parent_label'']"

definition PROPERTY_KEY_DATA_TYPES :: "string list" where
  "PROPERTY_KEY_DATA_TYPES = [''BLOB'', ''BOOL'', ''BOOLEAN'', ''BYTE'', ''DATE'', ''DOUBLE'', ''FLOAT'', ''INT'', ''INTEGER'',
     ''LONG'', ''OBJECT'', ''TEXT'']"

definition PROPERTY_KEY_CARDINALITIES :: "string list" where
  "PROPERTY_KEY_CARDINALITIES = [''LIST'', ''SET'', ''SINGLE'']"

definition PROPERTY_KEY_AGGREGATE_TYPES :: "string list" where
  "PROPERTY_KEY_AGGREGATE_TYPES = [''LIST'', ''MAX'', ''MIN'', ''NONE'', ''OLD'', ''SET'', ''SUM'']"

definition VERTEX_LABEL_ID_STRATEGIES :: "string list" where
  "VERTEX_LABEL_ID_STRATEGIES = [''AUTOMATIC'', ''CUSTOMIZE_NUMBER'', ''CUSTOMIZE_STRING'', ''PRIMARY_KEY'']"

definition EDGE_LABEL_FREQUENCIES :: "string list" where
  "EDGE_LABEL_FREQUENCIES = [''MULTIPLE'', ''SINGLE'']"

definition PROPERTY_KEY_AGGREGATE_CARDINALITIES :: "(string \<times> string list) list" where
  "PROPERTY_KEY_AGGREGATE_CARDINALITIES = [(''NONE'', [''LIST'', ''SET'', ''SINGLE'']), (''OLD'', [''SINGLE'']), (''SUM'', [''SINGLE'']),
     (''MIN'', [''SINGLE'']), (''MAX'', [''SINGLE'']), (''SET'', [''SET'']), (''LIST'', [''LIST''])]"

definition PROPERTY_KEY_DATA_TYPE_CANONICAL :: "(string \<times> string) list" where
  "PROPERTY_KEY_DATA_TYPE_CANONICAL = [(''INTEGER'', ''INT''), (''BOOL'', ''BOOLEAN'')]"

definition canonical_enum_value :: "string \<Rightarrow> string \<Rightarrow> string" where
  "canonical_enum_value field v = (if field = ''data_type''
     then (case map_of PROPERTY_KEY_DATA_TYPE_CANONICAL v of None \<Rightarrow> v | Some c \<Rightarrow> c) else v)"

section \<open>Small helpers\<close>

definition get_or :: "py_dict \<Rightarrow> string \<Rightarrow> py \<Rightarrow> py" where
  "get_or d k v = (case map_of d k of None \<Rightarrow> v | Some x \<Rightarrow> x)"

definition operation_type :: "py_dict \<Rightarrow> string" where
  "operation_type d = py_str (get_or d ''type'' (PStr []))"

definition is_delete_operation :: "string \<Rightarrow> bool" where
  "is_delete_operation t \<longleftrightarrow> contains (lower t) ''delete'' \<or> contains (lower t) ''drop''"

definition schema_op_error :: "int \<Rightarrow> py \<Rightarrow> string \<Rightarrow> string \<Rightarrow> py" where
  "schema_op_error idx operation why advice = PDict [(''operation_index'', PInt idx), (''operation'', operation),
     (''reason'', PStr why), (''suggestion'', PStr advice)]"

definition is_name :: "py \<Rightarrow> bool" where
  "is_name v = (case v of PStr s \<Rightarrow> s \<noteq> [] | _ \<Rightarrow> False)"

definition invalid_schema_names :: "py list \<Rightarrow> py list" where
  "invalid_schema_names vs = filter (\<lambda>v. \<not> is_name v) vs"

fun duplicate_names_from :: "py list \<Rightarrow> string list \<Rightarrow> py list \<Rightarrow> string list" where
  "duplicate_names_from seen dups [] = dups"
| "duplicate_names_from seen dups (v # vs) = duplicate_names_from (seen @ [v])
     (if v \<in> set seen \<and> py_str v \<notin> set dups then dups @ [py_str v] else dups) vs"

text \<open>Only called on lists of texts.\<close>

definition duplicate_names :: "py list \<Rightarrow> string list" where
  "duplicate_names vs = duplicate_names_from [] [] vs"

definition collection_aliases :: "string \<Rightarrow> string list" where
  "collection_aliases key = (case map_of [(''propertykeys'', [''propertykeys'', ''property_keys'', ''propertyKeys'']),
       (''vertexlabels'', [''vertexlabels'', ''vertex_labels'', ''vertexLabels'']),
       (''edgelabels'', [''edgelabels'', ''edge_labels'', ''edgeLabels'']),
       (''indexlabels'', [''indexlabels'', ''index_labels'', ''indexLabels''])] key of None \<Rightarrow> [key] | Some names \<Rightarrow> names)"

definition live_names :: "py \<Rightarrow> string \<Rightarrow> string list" where
  "live_names live key =
     (case field_value (case schema_payload live of None \<Rightarrow> [] | Some raw \<Rightarrow> raw) (collection_aliases key) of
        PList vs \<Rightarrow> List.map_filter (\<lambda>v. case v of
            PDict d \<Rightarrow> (case field_value d [''name'', ''property_name'', ''propertyName''] of
                PStr s \<Rightarrow> if s = [] then None else Some s | _ \<Rightarrow> None)
          | _ \<Rightarrow> None) vs
      | _ \<Rightarrow> [])"

section \<open>The creates of a batch\<close>

fun hashable :: "py \<Rightarrow> bool" where
  "hashable (PList xs) = False"
| "hashable (PDict d) = False"
| "hashable (PTuple xs) = list_all hashable xs"
| "hashable v = True"

text \<open>What the batch creates, as pairs of operation type and name; a name that cannot be put in a set raises.\<close>

type_synonym planned = "(string \<times> py) list"

definition planned_in :: "planned \<Rightarrow> string \<Rightarrow> py \<Rightarrow> bool" where
  "planned_in planned t name = list_ex (\<lambda>(t', n). t' = t \<and> py_eq n name) planned"

definition create_label :: "string \<Rightarrow> string" where
  "create_label t = drop 7 t"

fun collect_planned_creates :: "nat \<Rightarrow> py list \<Rightarrow> planned \<Rightarrow> py list \<Rightarrow> (planned \<times> py list) res" where
  "collect_planned_creates idx [] planned errors = Inr (planned, errors)"
| "collect_planned_creates idx (v # vs) planned errors =
     (case v of
        PDict d \<Rightarrow>
          let t = operation_type d; name = dget d ''name'' in
          if t \<notin> set CREATE_TYPES \<or> \<not> truthy name then collect_planned_creates (Suc idx) vs planned errors
          else if \<not> hashable name then Inl (TypeError (''unhashable type: '' @ quoted (type_name name)))
          else if planned_in planned t name then collect_planned_creates (Suc idx) vs planned
            (errors @ [schema_op_error (int idx) v (''duplicate '' @ t @ '' name '' @ py_str name @ '' within the same batch'')
               (''Define each '' @ create_label t @ '' only once per schema operation batch.'')])
          else collect_planned_creates (Suc idx) vs (planned @ [(t, name)]) errors
      | _ \<Rightarrow> collect_planned_creates (Suc idx) vs planned errors)"

section \<open>Checks of one operation\<close>

definition supported_field_errors :: "int \<Rightarrow> py_dict \<Rightarrow> string \<Rightarrow> py list" where
  "supported_field_errors idx d t =
     (case map_of SUPPORTED_FIELDS t of None \<Rightarrow> []
      | Some supported_names \<Rightarrow>
        let unknown = filter (\<lambda>f. f \<notin> set supported_names \<and>
              \<not> (t = ''create_edge_label'' \<and> f \<in> set UNSUPPORTED_EDGE_LABEL_FIELDS)) (map fst d) in
        if unknown = [] then [] else [schema_op_error idx (PDict d)
          (''unsupported field(s) for '' @ t @ '': '' @ join '', '' (sort unknown))
          ''Remove unsupported fields; this operation only accepts the documented schema fields.''])"

definition bool_field_errors :: "int \<Rightarrow> py_dict \<Rightarrow> string \<Rightarrow> py list" where
  "bool_field_errors idx d f = (case map_of d f of
      None \<Rightarrow> [] | Some (PBool b) \<Rightarrow> []
    | Some v \<Rightarrow> [schema_op_error idx (PDict d) (f @ '' must be a boolean, got '' @ type_name v) (''Use true or false for '' @ f @ ''.'')])"

definition user_data_errors :: "int \<Rightarrow> py_dict \<Rightarrow> string \<Rightarrow> py list" where
  "user_data_errors idx d f = (case map_of d f of
      None \<Rightarrow> [] | Some (PDict m) \<Rightarrow> []
    | Some v \<Rightarrow> [schema_op_error idx (PDict d) (f @ '' must be an object'') (''Use a JSON object for '' @ f @ ''.'')])"

definition index_labels_errors :: "int \<Rightarrow> py_dict \<Rightarrow> py list" where
  "index_labels_errors idx d = (case map_of d ''index_labels'' of
      None \<Rightarrow> []
    | Some v \<Rightarrow>
      (case (if is_list v then (case v of PList vs \<Rightarrow> Some vs | _ \<Rightarrow> None) else None) of
         Some vs \<Rightarrow>
          if invalid_schema_names vs \<noteq> [] then [schema_op_error idx (PDict d) ''index_labels must be a list of non-empty strings''
            ''Use an array of index label names for index_labels.'']
          else if duplicate_names vs \<noteq> [] then [schema_op_error idx (PDict d)
            (''index_labels contains duplicate name(s): '' @ join '', '' (duplicate_names vs))
            ''Remove duplicate index label names from index_labels.'']
          else []
       | None \<Rightarrow> [schema_op_error idx (PDict d) ''index_labels must be a list of non-empty strings''
           ''Use an array of index label names for index_labels.'']))"

text \<open>The loop over the field contract.\<close>

definition shape_errors :: "int \<Rightarrow> py_dict \<Rightarrow> string \<Rightarrow> py list" where
  "shape_errors idx d t = concat (map (\<lambda>(f, spec).
     if fs_kind spec = boolean_field then bool_field_errors idx d f
     else if fs_kind spec = mapping_field then user_data_errors idx d f else []) (field_specs_for_operation t))"

definition required_of :: "string \<Rightarrow> string list" where
  "required_of t = (case map_of REQUIRED_FIELDS t of None \<Rightarrow> [] | Some fs \<Rightarrow> fs)"

definition missing_required :: "py_dict \<Rightarrow> string \<Rightarrow> string list" where
  "missing_required d t = filter (\<lambda>f. none_or_empty (dget d f)) (required_of t)"

definition required_errors :: "int \<Rightarrow> py_dict \<Rightarrow> string \<Rightarrow> py list" where
  "required_errors idx d t = map (\<lambda>f. schema_op_error idx (PDict d) (''missing required field: '' @ f)
     (''Add '' @ f @ '' to the '' @ t @ '' operation.'')) (missing_required d t)"

definition is_identifier :: "py \<Rightarrow> bool" where
  "is_identifier v = (case v of PStr s \<Rightarrow> strip s \<noteq> [] | _ \<Rightarrow> False)"

definition identifiers_of :: "string \<Rightarrow> string list" where
  "identifiers_of t = (case map_of IDENTIFIER_FIELDS t of None \<Rightarrow> [] | Some fs \<Rightarrow> fs)"

text \<open>\<open>all\<close> stops at the first identifier that is not one.\<close>

definition identifier_errors :: "int \<Rightarrow> py_dict \<Rightarrow> string \<Rightarrow> py list" where
  "identifier_errors idx d t = (case find (\<lambda>f. \<not> is_identifier (dget d f)) (identifiers_of t) of
      None \<Rightarrow> []
    | Some f \<Rightarrow> [schema_op_error idx (PDict d) (f @ '' must be a non-empty string, got '' @ py_repr (dget d f))
        (''Provide '' @ f @ '' as a non-empty string identifier.'')])"

text \<open>The value of an enumeration and the errors; \<open>None\<close> for a value that is not accepted.\<close>

definition enum_field :: "int \<Rightarrow> py_dict \<Rightarrow> string \<Rightarrow> string list \<Rightarrow> bool \<Rightarrow> string option \<Rightarrow> string option \<times> py list" where
  "enum_field idx d f allowed required dflt =
     (let raw = dget d f; usage = ''Use one of: '' @ join '', '' allowed @ '' for '' @ f @ ''.'' in
      if none_or_empty raw \<and> dflt \<noteq> None then (dflt, [])
      else if none_or_empty raw \<and> \<not> required then (None, [])
      else case raw of
        PStr s \<Rightarrow> if upper s \<notin> set allowed
          then (None, [schema_op_error idx (PDict d) (''unsupported '' @ f @ '': '' @ repr_str s) usage])
          else (Some (canonical_enum_value f (upper s)), [])
      | v \<Rightarrow> (None, [schema_op_error idx (PDict d) (f @ '' must be a string, got '' @ type_name v) usage]))"

definition opt_repr :: "string option \<Rightarrow> string" where
  "opt_repr v = (case v of None \<Rightarrow> ''None'' | Some s \<Rightarrow> repr_str s)"

definition aggregate_errors :: "int \<Rightarrow> py_dict \<Rightarrow> string option \<Rightarrow> string option \<Rightarrow> py list" where
  "aggregate_errors idx d cardinality aggregate = (case aggregate of None \<Rightarrow> []
    | Some a \<Rightarrow> (case map_of PROPERTY_KEY_AGGREGATE_CARDINALITIES a of None \<Rightarrow> []
      | Some allowed \<Rightarrow> if cardinality \<in> Some ` set allowed then []
          else [schema_op_error idx (PDict d)
            (''aggregate_type '' @ repr_str a @ '' is not allowed with cardinality '' @ opt_repr cardinality)
            (''Use cardinality in '' @ py_repr (PList (map PStr allowed)) @ '' for aggregate_type '' @ repr_str a @ ''.'')]))"

definition missing_names :: "string list \<Rightarrow> py list \<Rightarrow> string list" where
  "missing_names known vs = filter (\<lambda>n. n \<notin> set known) (map py_str vs)"

definition create_first :: string where
  "create_first = ''Create these property keys first and rerun validation after they exist in the live schema.''"

definition undefined_keys :: "int \<Rightarrow> py_dict \<Rightarrow> string \<Rightarrow> string list \<Rightarrow> py list \<Rightarrow> py list" where
  "undefined_keys idx d f known vs = (if missing_names known vs = [] then []
     else [schema_op_error idx (PDict d) (f @ '' references undefined property key(s): '' @ join '', '' (missing_names known vs)) create_first])"

text \<open>The checks that a list of names has in common; \<open>noun\<close> is how the suggestions speak of its entries.\<close>

definition name_list_errors :: "int \<Rightarrow> py_dict \<Rightarrow> string \<Rightarrow> py list \<Rightarrow> py list" where
  "name_list_errors idx d f vs =
     (if invalid_schema_names vs \<noteq> [] then [schema_op_error idx (PDict d) (f @ '' must contain non-empty string names'')
        (''Use only non-empty schema property key names for '' @ f @ ''.'')]
      else if duplicate_names vs \<noteq> [] then [schema_op_error idx (PDict d)
        (f @ '' contains duplicate name(s): '' @ join '', '' (duplicate_names vs)) (''Remove duplicate property key names from '' @ f @ ''.'')]
      else [])"

definition property_reference_errors :: "int \<Rightarrow> py_dict \<Rightarrow> string \<Rightarrow> string list \<Rightarrow> py list" where
  "property_reference_errors idx d f known = (case get_or d f (PList []) of
      PList vs \<Rightarrow> (case name_list_errors idx d f vs of [] \<Rightarrow> undefined_keys idx d f known vs | es \<Rightarrow> es)
    | v \<Rightarrow> if none_or_empty v then [] else [schema_op_error idx (PDict d) (f @ '' must be a list'')
        (''Use an array of existing property key names for '' @ f @ ''.'')])"

text \<open>The names that are not among the properties of the operation; \<open>None\<close> when these are no list.\<close>

definition missing_from_properties :: "py_dict \<Rightarrow> py list \<Rightarrow> string list option" where
  "missing_from_properties d vs = (case py_or (dget d ''properties'') (PList []) of
      PList ps \<Rightarrow> Some (map py_str (filter (\<lambda>v. \<not> list_ex (py_eq v) ps) vs))
    | _ \<Rightarrow> None)"

definition not_in_properties :: "int \<Rightarrow> py_dict \<Rightarrow> py list \<Rightarrow> string \<Rightarrow> string \<Rightarrow> py list" where
  "not_in_properties idx d vs why advice = (case missing_from_properties d vs of
      None \<Rightarrow> [] | Some ms \<Rightarrow> if ms = [] then [] else [schema_op_error idx (PDict d) (why @ join '', '' ms) advice])"

definition property_subset_errors :: "int \<Rightarrow> py_dict \<Rightarrow> string \<Rightarrow> string list \<Rightarrow> py list" where
  "property_subset_errors idx d f known = (case dget d f of
      PNone \<Rightarrow> []
    | PList vs \<Rightarrow>
      if vs = [] then [schema_op_error idx (PDict d) (f @ '' must be a non-empty list'')
        (''Use one or more existing property key names for '' @ f @ ''.'')]
      else (case name_list_errors idx d f vs of
          [] \<Rightarrow> undefined_keys idx d f known vs @ not_in_properties idx d vs (f @ '' must be included in properties: '')
            (''Add each '' @ f @ '' entry to properties before using it in '' @ f @ ''.'')
        | es \<Rightarrow> es)
    | v \<Rightarrow> [schema_op_error idx (PDict d) (f @ '' must be a list'') (''Use an array of existing property key names for '' @ f @ ''.'')])"

definition primary_key_errors :: "int \<Rightarrow> py_dict \<Rightarrow> string option \<Rightarrow> string list \<Rightarrow> py list" where
  "primary_key_errors idx d strategy known =
     (if strategy \<noteq> Some ''PRIMARY_KEY'' then []
      else let v = dget d ''primary_keys'' in
      if \<not> truthy v then [schema_op_error idx (PDict d) ''primary_keys is required when id_strategy is PRIMARY_KEY''
        ''Add non-empty primary_keys or set id_strategy to AUTOMATIC/CUSTOMIZE_STRING/CUSTOMIZE_NUMBER.'']
      else case v of
        PList vs \<Rightarrow>
          if invalid_schema_names vs \<noteq> [] then [schema_op_error idx (PDict d) ''primary_keys must contain non-empty string names''
            ''Use only non-empty property key names for primary_keys.'']
          else if duplicate_names vs \<noteq> [] then [schema_op_error idx (PDict d)
            (''primary_keys contains duplicate name(s): '' @ join '', '' (duplicate_names vs)) ''Remove duplicate names from primary_keys.'']
          else if missing_from_properties d vs = None then []
          else not_in_properties idx d vs ''primary_keys must be included in properties: ''
              ''Add each primary key to properties before using it as a primary key.''
            @ undefined_keys idx d ''primary_keys'' known vs
      | _ \<Rightarrow> [schema_op_error idx (PDict d) ''primary_keys must be a list'' ''Use an array of property key names for primary_keys.''])"

section \<open>The batch\<close>

record schema_sets =
  ss_property_keys :: "string list"
  ss_vertex_labels :: "string list"
  ss_edge_labels :: "string list"
  ss_index_labels :: "string list"

definition live_sets :: "py \<Rightarrow> schema_sets" where
  "live_sets live = \<lparr>ss_property_keys = live_names live ''propertykeys'', ss_vertex_labels = live_names live ''vertexlabels'',
     ss_edge_labels = live_names live ''edgelabels'', ss_index_labels = live_names live ''indexlabels''\<rparr>"

definition exists_errors :: "int \<Rightarrow> py_dict \<Rightarrow> string \<Rightarrow> string list \<Rightarrow> py list" where
  "exists_errors idx d noun taken = (let name = py_str (dget d ''name'') in
     if name \<in> set taken then [schema_op_error idx (PDict d) (noun @ '' already exists: '' @ name)
       (''Use a new '' @ noun @ '' name or remove this '' @ operation_type d @ '' operation.'')] else [])"

definition property_key_branch :: "int \<Rightarrow> schema_sets \<Rightarrow> py_dict \<Rightarrow> py list" where
  "property_key_branch idx live d =
     (let (card, card_errors) = enum_field idx d ''cardinality'' PROPERTY_KEY_CARDINALITIES False (Some ''SINGLE'');
          (aggr, aggr_errors) = (if none_or_empty (dget d ''aggregate_type'') then (None, [])
             else enum_field idx d ''aggregate_type'' PROPERTY_KEY_AGGREGATE_TYPES False None) in
      exists_errors idx d ''property key'' (ss_property_keys live)
      @ snd (enum_field idx d ''data_type'' PROPERTY_KEY_DATA_TYPES True (Some ''TEXT''))
      @ card_errors @ aggr_errors @ aggregate_errors idx d card aggr)"

definition vertex_label_branch :: "int \<Rightarrow> schema_sets \<Rightarrow> schema_sets \<Rightarrow> py_dict \<Rightarrow> py list" where
  "vertex_label_branch idx live av d =
     (let (strategy, strategy_errors) = enum_field idx d ''id_strategy'' VERTEX_LABEL_ID_STRATEGIES False (Some ''PRIMARY_KEY'') in
      exists_errors idx d ''vertex label'' (ss_vertex_labels live) @ strategy_errors
      @ property_reference_errors idx d ''properties'' (ss_property_keys av)
      @ primary_key_errors idx d strategy (ss_property_keys av)
      @ property_subset_errors idx d ''nullable_keys'' (ss_property_keys av))"

definition undefined_label :: "int \<Rightarrow> py_dict \<Rightarrow> string \<Rightarrow> string \<Rightarrow> string list \<Rightarrow> py list" where
  "undefined_label idx d f noun known = (let label = py_str (dget d f) in
     if label \<in> set known then [] else [schema_op_error idx (PDict d) (f @ '' references undefined '' @ noun @ '': '' @ label)
       (''Create the referenced '' @ noun @ '' first and rerun validation after it exists in the live schema.'')])"

definition parent_field_errors :: "int \<Rightarrow> py_dict \<Rightarrow> py list" where
  "parent_field_errors idx d = (let fs = filter (has_key d) UNSUPPORTED_EDGE_LABEL_FIELDS in
     if fs = [] then [] else [schema_op_error idx (PDict d) (''unsupported parent/sub edge label field(s): '' @ join '', '' fs)
       ''Parent/sub edge labels are not supported by manage_schema; remove these fields.''])"

definition edge_label_branch :: "int \<Rightarrow> schema_sets \<Rightarrow> schema_sets \<Rightarrow> py_dict \<Rightarrow> py list" where
  "edge_label_branch idx live av d =
     exists_errors idx d ''edge label'' (ss_edge_labels live) @ parent_field_errors idx d
     @ undefined_label idx d ''source_label'' ''vertex label'' (ss_vertex_labels av)
     @ undefined_label idx d ''target_label'' ''vertex label'' (ss_vertex_labels av)
     @ (if none_or_empty (dget d ''frequency'') then [] else snd (enum_field idx d ''frequency'' EDGE_LABEL_FREQUENCIES False None))
     @ property_reference_errors idx d ''properties'' (ss_property_keys av)
     @ property_subset_errors idx d ''nullable_keys'' (ss_property_keys av)
     @ property_subset_errors idx d ''sort_keys'' (ss_property_keys av)"

definition index_label_branch :: "int \<Rightarrow> schema_sets \<Rightarrow> schema_sets \<Rightarrow> py_dict \<Rightarrow> py list" where
  "index_label_branch idx live av d = (let base = upper (py_str (get_or d ''base_type'' (PStr []))) in
     exists_errors idx d ''index label'' (ss_index_labels live)
     @ (if base = ''VERTEX'' then undefined_label idx d ''base_label'' ''vertex label'' (ss_vertex_labels av)
        else if base = ''EDGE'' then undefined_label idx d ''base_label'' ''edge label'' (ss_edge_labels av)
        else [schema_op_error idx (PDict d) (''unsupported base_type for index label: '' @ base)
          (''Use base_type='' @ quoted ''VERTEX'' @ '' or base_type='' @ quoted ''EDGE'' @ ''.'')])
     @ property_reference_errors idx d ''fields'' (ss_property_keys av))"

text \<open>The errors of one operation, and whether the loop body got to its end.\<close>

definition operation_errors :: "int \<Rightarrow> schema_sets \<Rightarrow> schema_sets \<Rightarrow> py_dict \<Rightarrow> py list \<times> bool" where
  "operation_errors idx live av d =
     (let t = operation_type d in
      if is_delete_operation t then ([schema_op_error idx (PDict d) (''unsupported delete/drop type: '' @ t)
        ''Use create-only schema operations; destructive schema changes are not supported.''], False)
      else if t \<notin> set CREATE_TYPES then ([schema_op_error idx (PDict d) (''unsupported type: '' @ t)
        (''Use one of: '' @ join '', '' CREATE_TYPES @ ''.'')], False)
      else
        let shape = supported_field_errors idx d t @ shape_errors idx d t
          @ (if t = ''create_vertex_label'' then index_labels_errors idx d else []) in
        if missing_required d t \<noteq> [] then (shape @ required_errors idx d t, False)
        else if identifier_errors idx d t \<noteq> [] then (shape @ identifier_errors idx d t, False)
        else (shape @
          (if t = ''create_property_key'' then property_key_branch idx live d
           else if t = ''create_vertex_label'' then vertex_label_branch idx live av d
           else if t = ''create_edge_label'' then edge_label_branch idx live av d
           else index_label_branch idx live av d), True))"

definition make_available :: "planned \<Rightarrow> py_dict \<Rightarrow> schema_sets \<Rightarrow> schema_sets" where
  "make_available planned d av =
     (let t = operation_type d; name = py_str (dget d ''name'') in
      if \<not> planned_in planned t (dget d ''name'') then av
      else if t = ''create_property_key'' then av\<lparr>ss_property_keys := ss_property_keys av @ [name]\<rparr>
      else if t = ''create_vertex_label'' then av\<lparr>ss_vertex_labels := ss_vertex_labels av @ [name]\<rparr>
      else if t = ''create_edge_label'' then av\<lparr>ss_edge_labels := ss_edge_labels av @ [name]\<rparr>
      else av)"

fun batch_errors :: "nat \<Rightarrow> schema_sets \<Rightarrow> planned \<Rightarrow> schema_sets \<Rightarrow> py list \<Rightarrow> py list" where
  "batch_errors idx live planned av [] = []"
| "batch_errors idx live planned av (v # vs) = (case v of
      PDict d \<Rightarrow> (let (es, finished) = operation_errors (int idx) live av d in
        es @ batch_errors (Suc idx) live planned (if finished then make_available planned d av else av) vs)
    | _ \<Rightarrow> schema_op_error (int idx) v ''operation must be an object'' ''Replace this item with a schema operation object.''
           # batch_errors (Suc idx) live planned av vs)"

definition needs_primary_keys :: "py \<Rightarrow> bool" where
  "needs_primary_keys v = (case v of
      PDict d \<Rightarrow> py_eq (dget d ''type'') (PStr ''create_vertex_label'')
        \<and> upper (py_str (get_or d ''id_strategy'' (PStr ''PRIMARY_KEY''))) \<noteq> ''PRIMARY_KEY'' \<and> \<not> truthy (dget d ''primary_keys'')
    | _ \<Rightarrow> False)"

definition validation_warnings :: "py list \<Rightarrow> string list" where
  "validation_warnings vs = map (\<lambda>(i, v). ''operation '' @ nat_str i @ '' (create_vertex_label) has no primary_keys definition'')
     (filter (\<lambda>(i, v). needs_primary_keys v) (enumerate 0 vs))"

record schema_validation =
  sv_errors :: "py list"
  sv_warnings :: "string list"

abbreviation sv_valid :: "schema_validation \<Rightarrow> bool" where
  "sv_valid v \<equiv> sv_errors v = []"

definition validate_schema_operations :: "py \<Rightarrow> py \<Rightarrow> schema_validation res" where
  "validate_schema_operations operations live = (case operations of
      PList vs \<Rightarrow> and_then (collect_planned_creates 0 vs [] []) (\<lambda>(planned, duplicates).
        Inr \<lparr>sv_errors = duplicates @ batch_errors 0 (live_sets live) planned (live_sets live) vs,
             sv_warnings = validation_warnings vs\<rparr>)
    | v \<Rightarrow> Inr \<lparr>sv_errors = [schema_op_error (- 1) v ''operations must be a list'' ''Pass schema operations as a JSON array.''],
        sv_warnings = []\<rparr>)"

section \<open>Scope, warnings and summary\<close>

fun apply_scope_errors :: "nat \<Rightarrow> py list \<Rightarrow> py list" where
  "apply_scope_errors idx [] = []"
| "apply_scope_errors idx (v # vs) =
     (case v of
        PDict d \<Rightarrow> if operation_type d \<in> set P0A_APPLY_OPERATION_TYPES then []
          else [schema_op_error (int idx) v (''schema apply operation is outside P0a scope: '' @ operation_type d)
            (''P0a apply supports only create_property_key, create_vertex_label, and create_edge_label. ''
             @ ''Index/rebuild and destructive schema changes are out of scope.'')]
      | _ \<Rightarrow> []) @ apply_scope_errors (Suc idx) vs"

text \<open>For operations that are objects; the labels come from a set and are listed in the order of their operations.\<close>

definition risk_of :: "schema_sets \<Rightarrow> py_dict \<Rightarrow> string list" where
  "risk_of live d =
     (let t = operation_type d; name = dget d ''name'';
          known = (\<lambda>noun names. if list_ex (\<lambda>n. py_eq name (PStr n)) names then [noun @ '' already exists: '' @ py_str name] else []) in
      if t = ''create_property_key'' then known ''property key'' (ss_property_keys live)
      else if t = ''create_vertex_label'' then known ''vertex label'' (ss_vertex_labels live)
      else if t = ''create_edge_label'' then known ''edge label'' (ss_edge_labels live)
      else if t = ''create_index_label'' then known ''index label'' (ss_index_labels live)
      else [])"

definition dicts :: "py list \<Rightarrow> py_dict list" where
  "dicts vs = List.map_filter (\<lambda>v. case v of PDict d \<Rightarrow> Some d | _ \<Rightarrow> None) vs"

definition indexed_labels :: "py_dict list \<Rightarrow> py list" where
  "indexed_labels ds = filter truthy (map (\<lambda>d. dget d ''base_label'') (filter (\<lambda>d. operation_type d = ''create_index_label'') ds))"

definition risk_warnings :: "planned \<Rightarrow> py_dict list \<Rightarrow> py \<Rightarrow> string list" where
  "risk_warnings planned ds live =
     concat (map (risk_of (live_sets live)) ds)
     @ map (\<lambda>(t, n). ''no index operation included for label: '' @ py_str n)
         (filter (\<lambda>(t, n). t \<in> {''create_vertex_label'', ''create_edge_label''} \<and> \<not> list_ex (py_eq n) (indexed_labels ds)) planned)"

definition count_types :: "py_dict list \<Rightarrow> (string \<times> nat) list" where
  "count_types ds = (let ts = map (\<lambda>d. py_str (get_or d ''type'' (PStr ''unknown''))) ds in
     map (\<lambda>t. (t, count_list ts t)) (sort (remdups ts)))"

definition schema_mutation_summary :: "py_dict list \<Rightarrow> string" where
  "schema_mutation_summary ds = (if ds = [] then ''No schema operations planned.''
     else ''Schema operations planned: '' @ join '', '' (map (\<lambda>(t, n). t @ ''='' @ nat_str n) (count_types ds)))"

section \<open>A valid batch can be executed in its order\<close>

text \<open>The names that an operation refers to, and what it adds when it is executed.\<close>

definition name_list :: "py_dict \<Rightarrow> string \<Rightarrow> string list" where
  "name_list d f = (case dget d f of PList vs \<Rightarrow> map py_str vs | _ \<Rightarrow> [])"

definition property_key_refs :: "py_dict \<Rightarrow> string list" where
  "property_key_refs d = (let t = operation_type d in
     if t = ''create_vertex_label'' then name_list d ''properties'' @ name_list d ''nullable_keys'' @
       (if upper (py_str (py_or (dget d ''id_strategy'') (PStr ''PRIMARY_KEY''))) = ''PRIMARY_KEY'' then name_list d ''primary_keys'' else [])
     else if t = ''create_edge_label'' then name_list d ''properties'' @ name_list d ''nullable_keys'' @ name_list d ''sort_keys''
     else if t = ''create_index_label'' then name_list d ''fields'' else [])"

definition vertex_label_refs :: "py_dict \<Rightarrow> string list" where
  "vertex_label_refs d = (let t = operation_type d in
     if t = ''create_edge_label'' then [py_str (dget d ''source_label''), py_str (dget d ''target_label'')]
     else if t = ''create_index_label'' \<and> upper (py_str (get_or d ''base_type'' (PStr []))) = ''VERTEX'' then [py_str (dget d ''base_label'')]
     else [])"

definition edge_label_refs :: "py_dict \<Rightarrow> string list" where
  "edge_label_refs d = (if operation_type d = ''create_index_label'' \<and> upper (py_str (get_or d ''base_type'' (PStr []))) = ''EDGE''
     then [py_str (dget d ''base_label'')] else [])"

definition resolved :: "schema_sets \<Rightarrow> py_dict \<Rightarrow> bool" where
  "resolved s d \<longleftrightarrow> set (property_key_refs d) \<subseteq> set (ss_property_keys s) \<and>
     set (vertex_label_refs d) \<subseteq> set (ss_vertex_labels s) \<and> set (edge_label_refs d) \<subseteq> set (ss_edge_labels s)"

definition names_of :: "schema_sets \<Rightarrow> string \<Rightarrow> string list" where
  "names_of s t = (if t = ''create_property_key'' then ss_property_keys s else if t = ''create_vertex_label'' then ss_vertex_labels s
     else if t = ''create_edge_label'' then ss_edge_labels s else ss_index_labels s)"

definition after_create :: "py_dict \<Rightarrow> schema_sets \<Rightarrow> schema_sets" where
  "after_create d s = (let t = operation_type d; name = py_str (dget d ''name'') in
     if t = ''create_property_key'' then s\<lparr>ss_property_keys := ss_property_keys s @ [name]\<rparr>
     else if t = ''create_vertex_label'' then s\<lparr>ss_vertex_labels := ss_vertex_labels s @ [name]\<rparr>
     else if t = ''create_edge_label'' then s\<lparr>ss_edge_labels := ss_edge_labels s @ [name]\<rparr>
     else s\<lparr>ss_index_labels := ss_index_labels s @ [name]\<rparr>)"

fun executable_in_order :: "schema_sets \<Rightarrow> py list \<Rightarrow> bool" where
  "executable_in_order s [] = True"
| "executable_in_order s (v # vs) = (case v of
      PDict d \<Rightarrow> operation_type d \<in> set CREATE_TYPES \<and> py_str (dget d ''name'') \<notin> set (names_of s (operation_type d))
        \<and> resolved s d \<and> executable_in_order (after_create d s) vs
    | _ \<Rightarrow> False)"

lemmas create_type_defs = CREATE_TYPES_def IDENTIFIER_FIELDS_def identifiers_of_def

text \<open>What no error means, one check at a time.\<close>

named_theorems check_simps

lemma undefined_keys_nil [check_simps]: "undefined_keys idx d f known vs = [] \<longleftrightarrow> set (map py_str vs) \<subseteq> set known"
  by (auto simp: undefined_keys_def missing_names_def filter_empty_conv)

lemma undefined_label_nil [check_simps]: "undefined_label idx d f noun known = [] \<longleftrightarrow> py_str (dget d f) \<in> set known"
  by (auto simp: undefined_label_def Let_def)

lemma exists_errors_nil [check_simps]: "exists_errors idx d noun known = [] \<longleftrightarrow> py_str (dget d ''name'') \<notin> set known"
  by (auto simp: exists_errors_def Let_def)

lemma identifier_errors_nil [check_simps]:
  "identifier_errors idx d t = [] \<longleftrightarrow> (\<forall>f \<in> set (identifiers_of t). is_identifier (dget d f))"
proof (cases "find (\<lambda>f. \<not> is_identifier (dget d f)) (identifiers_of t)")
  case None
  then have "\<forall>f \<in> set (identifiers_of t). is_identifier (dget d f)" by (simp add: find_None_iff)
  with None show ?thesis by (simp add: identifier_errors_def)
next
  case (Some f)
  then show ?thesis by (auto simp: identifier_errors_def dest: find_SomeD)
qed

lemma property_references_resolved:
  assumes "property_reference_errors idx d f known = []"
  shows "set (name_list d f) \<subseteq> set known"
proof (cases "dget d f")
  case (PList vs)
  then have "get_or d f (PList []) = PList vs" by (auto simp: get_or_def dget_def split: option.splits)
  then show ?thesis using assms PList
    by (cases "name_list_errors idx d f vs") (simp_all add: property_reference_errors_def name_list_def check_simps)
qed (simp_all add: name_list_def)

lemma property_subset_resolved:
  assumes "property_subset_errors idx d f known = []"
  shows "set (name_list d f) \<subseteq> set known"
proof (cases "dget d f")
  case (PList vs)
  then show ?thesis using assms
    by (cases "name_list_errors idx d f vs") (simp_all add: property_subset_errors_def name_list_def check_simps split: if_splits)
qed (simp_all add: name_list_def)

lemma references_listed:
  assumes "property_reference_errors idx d ''properties'' known = []"
  shows "\<exists>ps. py_or (dget d ''properties'') (PList []) = PList ps"
proof (cases "map_of d ''properties''")
  case None
  then show ?thesis by (simp add: dget_def py_or_def)
next
  case (Some v)
  then have "property_reference_errors idx d ''properties'' known = (case v of
      PList vs \<Rightarrow> (case name_list_errors idx d ''properties'' vs of [] \<Rightarrow> undefined_keys idx d ''properties'' known vs | es \<Rightarrow> es)
    | v \<Rightarrow> if none_or_empty v then [] else [schema_op_error idx (PDict d) (''properties'' @ '' must be a list'')
        (''Use an array of existing property key names for '' @ ''properties'' @ ''.'')])"
    by (simp only: property_reference_errors_def get_or_def option.case)
  then show ?thesis using Some assms by (cases v) (simp_all add: dget_def py_or_def split: if_splits)
qed

lemma primary_keys_resolved:
  assumes "primary_key_errors idx d (Some ''PRIMARY_KEY'') known = []" "property_reference_errors idx d ''properties'' known = []"
  shows "set (name_list d ''primary_keys'') \<subseteq> set known"
proof (cases "dget d ''primary_keys''")
  case (PList vs)
  obtain ps where "py_or (dget d ''properties'') (PList []) = PList ps" using references_listed [OF assms(2)] by blast
  then have "missing_from_properties d vs \<noteq> None" by (simp add: missing_from_properties_def)
  then show ?thesis using assms(1) PList
    by (simp add: primary_key_errors_def name_list_def check_simps Let_def split: if_splits)
qed (simp_all add: name_list_def)

lemma create_type_cases:
  assumes "t \<in> set CREATE_TYPES"
  obtains "t = ''create_property_key''" | "t = ''create_vertex_label''" | "t = ''create_edge_label''" | "t = ''create_index_label''"
proof -
  have "t = ''create_property_key'' \<or> t = ''create_vertex_label'' \<or> t = ''create_edge_label'' \<or> t = ''create_index_label''"
    using assms by (simp only: CREATE_TYPES_def list.set insert_iff empty_iff simp_thms)
  then show thesis proof (elim disjE)
  qed (rule that, assumption)+
qed

lemma upper_PRIMARY_KEY [simp]: "upper ''PRIMARY_KEY'' = ''PRIMARY_KEY''"
  by code_simp

lemma enum_field_ok:
  assumes "snd (enum_field idx d f allowed req dflt) = []"
  shows "none_or_empty (dget d f) \<and> (dflt \<noteq> None \<or> \<not> req) \<and> fst (enum_field idx d f allowed req dflt) = dflt \<or>
    (\<exists>s. dget d f = PStr s \<and> s \<noteq> [] \<and> upper s \<in> set allowed \<and>
      fst (enum_field idx d f allowed req dflt) = Some (canonical_enum_value f (upper s)))
    \<or> (dget d f = PStr [] \<and> req \<and> dflt = None)"
  using assms by (cases "dget d f") (auto simp: enum_field_def Let_def split: if_splits)

lemma strategy_of_valid:
  assumes "enum_field idx d ''id_strategy'' allowed False (Some ''PRIMARY_KEY'') = (strategy, [])"
  shows "strategy = Some (upper (py_str (py_or (dget d ''id_strategy'') (PStr ''PRIMARY_KEY''))))"
proof -
  have "snd (enum_field idx d ''id_strategy'' allowed False (Some ''PRIMARY_KEY'')) = []" using assms by simp
  from enum_field_ok [OF this] assms show ?thesis
    by (cases "dget d ''id_strategy''") (auto simp: py_or_def canonical_enum_value_def)
qed

text \<open>What an operation without errors has passed.\<close>

lemma operation_errors_nil:
  assumes "operation_errors idx live av d = ([], finished)"
  shows "finished" "operation_type d \<in> set CREATE_TYPES" "missing_required d (operation_type d) = []"
    "\<forall>f \<in> set (identifiers_of (operation_type d)). is_identifier (dget d f)"
    "supported_field_errors idx d (operation_type d) = []" "shape_errors idx d (operation_type d) = []"
    "operation_type d = ''create_vertex_label'' \<Longrightarrow> index_labels_errors idx d = []"
    "operation_type d = ''create_property_key'' \<Longrightarrow> property_key_branch idx live d = []"
    "operation_type d = ''create_vertex_label'' \<Longrightarrow> vertex_label_branch idx live av d = []"
    "operation_type d = ''create_edge_label'' \<Longrightarrow> edge_label_branch idx live av d = []"
    "operation_type d = ''create_index_label'' \<Longrightarrow> index_label_branch idx live av d = []"
  using assms
  by (auto simp: operation_errors_def Let_def identifier_errors_nil required_errors_def split: if_splits)

lemma is_identifier_iff: "is_identifier v \<longleftrightarrow> (\<exists>s. v = PStr s \<and> strip s \<noteq> [])"
  by (auto simp: is_identifier_def split: py.splits)

lemma identified:
  assumes "operation_errors idx live av d = ([], finished)"
  shows "\<exists>s. dget d ''name'' = PStr s \<and> strip s \<noteq> []"
proof -
  have "''name'' \<in> set (identifiers_of (operation_type d))"
    using operation_errors_nil(2) [OF assms] by (auto simp: create_type_defs)
  then show ?thesis using operation_errors_nil(4) [OF assms] is_identifier_iff by blast
qed

lemma valid_operation_resolved:
  assumes "operation_errors idx live av d = ([], finished)"
  shows "resolved av d"
proof -
  note ok = operation_errors_nil [OF assms]
  consider "operation_type d = ''create_property_key''" | "operation_type d = ''create_vertex_label''"
    | "operation_type d = ''create_edge_label''" | "operation_type d = ''create_index_label''"
    using ok(2) by (auto simp: CREATE_TYPES_def)
  then show ?thesis
  proof cases
    case 2
    from ok(9) [OF 2] show ?thesis
      by (auto simp: 2 resolved_def property_key_refs_def vertex_label_refs_def edge_label_refs_def vertex_label_branch_def Let_def split: prod.splits
          dest!: strategy_of_valid dest: property_references_resolved property_subset_resolved primary_keys_resolved [THEN subsetD])
  next
    case 3
    from ok(10) [OF 3] show ?thesis
      by (auto simp: 3 resolved_def property_key_refs_def vertex_label_refs_def edge_label_refs_def edge_label_branch_def check_simps
          dest: property_references_resolved property_subset_resolved)
  next
    case 4
    from ok(11) [OF 4] show ?thesis
      by (auto simp: 4 resolved_def property_key_refs_def vertex_label_refs_def edge_label_refs_def index_label_branch_def check_simps Let_def
          split: if_splits dest: property_references_resolved)
  qed (simp add: resolved_def property_key_refs_def vertex_label_refs_def edge_label_refs_def)
qed

lemma valid_operation_fresh:
  assumes "operation_errors idx live av d = ([], finished)"
  shows "py_str (dget d ''name'') \<notin> set (names_of live (operation_type d))"
proof -
  note ok = operation_errors_nil [OF assms]
  have "operation_type d \<in> set CREATE_TYPES" by (rule ok(2))
  then show ?thesis using ok(8-11)
    by (auto simp: CREATE_TYPES_def names_of_def property_key_branch_def vertex_label_branch_def edge_label_branch_def
        index_label_branch_def check_simps Let_def split: prod.splits)
qed

section \<open>Names within a batch\<close>

text \<open>What the loop over the creates leaves: the errors grow, and so do the planned names.\<close>

lemma collect_grows:
  assumes "collect_planned_creates idx vs planned errors = Inr (planned', errors')"
  shows "(\<exists>more. planned' = planned @ more) \<and> (\<exists>es. errors' = errors @ es)"
  using assms
proof (induction vs arbitrary: idx planned errors)
  case (Cons v vs)
  show ?case
  proof (cases v)
    case (PDict d)
    then show ?thesis using Cons.prems by (auto simp: Let_def split: if_splits dest!: Cons.IH)
  qed (use Cons in auto)
qed simp

definition encoded :: "(string \<times> string) list \<Rightarrow> planned" where
  "encoded ns = map (\<lambda>(t, n). (t, PStr n)) ns"

lemma encoded_snoc: "encoded (ns @ [(t, n)]) = encoded ns @ [(t, PStr n)]"
  by (simp add: encoded_def)

lemma planned_in_encoded [simp]: "planned_in (encoded ns) t (PStr n) \<longleftrightarrow> (t, n) \<in> set ns"
  unfolding planned_in_def encoded_def by (induction ns) auto

lemma planned_in_append: "planned_in (p @ q) t n \<longleftrightarrow> planned_in p t n \<or> planned_in q t n"
  by (simp add: planned_in_def)

text \<open>One valid create in front: it is new, and it is planned in the end.\<close>

lemma collect_valid_create:
  assumes "collect_planned_creates idx (PDict d # vs) (encoded ns) [] = Inr (planned, [])"
    and "operation_type d \<in> set CREATE_TYPES" "dget d ''name'' = PStr n" "strip n \<noteq> []"
  shows "(operation_type d, n) \<notin> set ns \<and> planned_in planned (operation_type d) (PStr n) \<and>
    collect_planned_creates (Suc idx) vs (encoded (ns @ [(operation_type d, n)])) [] = Inr (planned, [])"
proof -
  have n: "n \<noteq> []" using assms(4) by (auto simp: strip_def)
  have new: "(operation_type d, n) \<notin> set ns"
  proof
    assume "(operation_type d, n) \<in> set ns"
    then show False using assms n by (auto simp: Let_def dest!: collect_grows)
  qed
  then have rest: "collect_planned_creates (Suc idx) vs (encoded (ns @ [(operation_type d, n)])) [] = Inr (planned, [])"
    using assms n by (simp add: Let_def encoded_snoc)
  have "planned_in (encoded (ns @ [(operation_type d, n)])) (operation_type d) (PStr n)" by simp
  with collect_grows [OF rest] have "planned_in planned (operation_type d) (PStr n)"
    by (auto simp: planned_in_append)
  with new rest show ?thesis by simp
qed

definition extended :: "schema_sets \<Rightarrow> (string \<times> string) list \<Rightarrow> schema_sets" where
  "extended s ns = (let of_type = (\<lambda>t. map snd (filter (\<lambda>(t', n). t' = t) ns)) in
     \<lparr>ss_property_keys = ss_property_keys s @ of_type ''create_property_key'',
      ss_vertex_labels = ss_vertex_labels s @ of_type ''create_vertex_label'',
      ss_edge_labels = ss_edge_labels s @ of_type ''create_edge_label'',
      ss_index_labels = ss_index_labels s @ of_type ''create_index_label''\<rparr>)"

lemma extended_Nil [simp]: "extended s [] = s"
  by (simp add: extended_def)

lemma extended_snoc:
  assumes "dget d ''name'' = PStr n" "operation_type d \<in> set CREATE_TYPES"
  shows "extended s (ns @ [(operation_type d, n)]) = after_create d (extended s ns)"
  using assms(2) by (elim create_type_cases) (simp_all add: assms(1) extended_def after_create_def Let_def)

lemma names_of_extended:
  assumes "t \<in> set CREATE_TYPES"
  shows "set (names_of (extended s ns) t) = set (names_of s t) \<union> {n. (t, n) \<in> set ns}"
  using assms by (elim create_type_cases) (simp_all add: names_of_def extended_def set_eq_iff image_iff Let_def split: prod.splits)

text \<open>The available names of the loop are the names that exist by then, but for index labels, to which nothing refers.\<close>

definition same_labels :: "schema_sets \<Rightarrow> schema_sets \<Rightarrow> bool" where
  "same_labels a b \<longleftrightarrow> ss_property_keys a = ss_property_keys b \<and> ss_vertex_labels a = ss_vertex_labels b \<and> ss_edge_labels a = ss_edge_labels b"

lemma resolved_same_labels: "same_labels a b \<Longrightarrow> resolved a d = resolved b d"
  by (simp add: same_labels_def resolved_def)

lemma make_available_same:
  assumes "planned_in planned (operation_type d) (dget d ''name'')" "same_labels av s"
  shows "same_labels (make_available planned d av) (after_create d s)"
  using assms by (auto simp: make_available_def after_create_def same_labels_def Let_def)

lemma batch_executes:
  assumes "collect_planned_creates idx vs (encoded ns) [] = Inr (planned, [])"
    and "batch_errors idx live planned av vs = []" "same_labels av (extended live ns)"
  shows "executable_in_order (extended live ns) vs"
  using assms
proof (induction vs arbitrary: idx ns av)
  case (Cons v vs)
  obtain d where v: "v = PDict d" using Cons.prems(2) by (cases v) auto
  obtain es finished where oe: "operation_errors (int idx) live av d = (es, finished)" by fastforce
  with Cons.prems(2) v have es: "es = []" by simp
  note ok = oe [unfolded es]
  note facts = operation_errors_nil [OF ok]
  obtain n where n: "dget d ''name'' = PStr n" "strip n \<noteq> []" using identified [OF ok] by auto
  from collect_valid_create [OF Cons.prems(1) [unfolded v] facts(2) n]
  have new: "(operation_type d, n) \<notin> set ns" and planned: "planned_in planned (operation_type d) (PStr n)"
    and rest: "collect_planned_creates (Suc idx) vs (encoded (ns @ [(operation_type d, n)])) [] = Inr (planned, [])"
    by simp_all
  have "batch_errors (Suc idx) live planned (make_available planned d av) vs = []"
    using Cons.prems(2) v oe es facts(1) by simp
  moreover have "same_labels (make_available planned d av) (after_create d (extended live ns))"
    using make_available_same Cons.prems(3) planned n(1) by simp
  ultimately have "executable_in_order (after_create d (extended live ns)) vs"
    using Cons.IH [OF rest] by (simp add: extended_snoc n(1) facts(2))
  moreover have "resolved (extended live ns) d"
    using valid_operation_resolved [OF ok] resolved_same_labels Cons.prems(3) by blast
  moreover have "n \<notin> set (names_of (extended live ns) (operation_type d))"
    using valid_operation_fresh [OF ok] new n(1) by (simp add: names_of_extended facts(2))
  ultimately show ?case using v n(1) facts(2) by simp
qed simp


definition small_batch :: py where
  "small_batch = PList
     [PDict [(''type'', PStr ''create_property_key''), (''name'', PStr ''age''), (''data_type'', PStr ''INT'')],
      PDict [(''type'', PStr ''create_vertex_label''), (''name'', PStr ''person''), (''properties'', PList [PStr ''age'']),
        (''primary_keys'', PList [PStr ''age''])],
      PDict [(''type'', PStr ''create_edge_label''), (''name'', PStr ''knows''), (''source_label'', PStr ''person''),
        (''target_label'', PStr ''person'')]]"

lemma small_batch_valid: "validate_schema_operations small_batch (PDict []) = Inr \<lparr>sv_errors = [], sv_warnings = []\<rparr>"
  by code_simp


end
