(* ===== verification/Schema_Builders.thy ===== *)
theory Schema_Builders
  imports Schema_Utils Guard
begin

text \<open>
  Model of the schema builders of the Python client: \<open>pyhugegraph/api/schema_manage/*.py\<close>, the parameter holder of
  \<open>api/common.py\<close>, the decorators of \<open>utils/huge_decorator.py\<close> and the constructors of \<open>api/schema.py\<close>.
  A builder is the dictionary of the parameters that were set on it. The session that sends requests is an argument:
  a function from the request and the state of the server to the decoded response or the exception.
\<close>

section \<open>Requests and parameters\<close>

text \<open>\<open>rq_strict\<close> is false where a missing resource is accepted as an empty response.\<close>

record http_request =
  rq_method :: string
  rq_path :: string
  rq_body :: "py option"
  rq_strict :: bool

type_synonym 'b session = "http_request \<Rightarrow> 'b \<Rightarrow> (hg_exception + py) \<times> 'b"

type_synonym 'b builder_step = "py_dict \<Rightarrow> 'b \<Rightarrow> (hg_exception + py) \<times> py_dict \<times> 'b"

definition plain_request :: "string \<Rightarrow> string \<Rightarrow> py option \<Rightarrow> http_request" where
  "plain_request meth path body = \<lparr>rq_method = meth, rq_path = path, rq_body = body, rq_strict = True\<rparr>"

definition get_value :: "py_dict \<Rightarrow> string \<Rightarrow> py" where
  "get_value h key = dget h key"

definition add_parameter :: "string \<Rightarrow> py \<Rightarrow> py_dict \<Rightarrow> py_dict" where
  "add_parameter key v h = dset key v h"

definition clean_parameter_holder :: "py_dict \<Rightarrow> py_dict" where
  "clean_parameter_holder h = []"

definition parameters_required :: hg_exception where
  "parameters_required = OtherError ''Parameters required, please set necessary parameters.''"

definition decorator_params :: "(py_dict \<Rightarrow> hg_exception + 'a) \<Rightarrow> py_dict \<Rightarrow> hg_exception + 'a" where
  "decorator_params f h = (if has_key h ''name'' then f h else Inl parameters_required)"

definition params_step :: "'b builder_step \<Rightarrow> 'b builder_step" where
  "params_step f h b = (if has_key h ''name'' then f h b else (Inl parameters_required, h, b))"

definition decorator_create :: "'b builder_step \<Rightarrow> 'b builder_step" where
  "decorator_create f h b = (if get_value h ''not_exist'' = PBool False
     then (Inr (PStr (''Create failed, \"'' @ py_str (get_value h ''name'') @ ''\" already exists.'')), h, b)
     else f h b)"

text \<open>A method that sets one parameter.\<close>

definition setter :: "string \<Rightarrow> py \<Rightarrow> py_dict \<Rightarrow> hg_exception + py_dict" where
  "setter key v = decorator_params (\<lambda>h. Inr (add_parameter key v h))"

text \<open>\<open>dic[key]\<close> on the parameters; the text of the exception is the key.\<close>

definition param :: "py_dict \<Rightarrow> string \<Rightarrow> hg_exception + py" where
  "param h key = (case map_of h key of None \<Rightarrow> Inl (OtherError (repr_str key)) | Some v \<Rightarrow> Inr v)"

definition pick_present :: "string list \<Rightarrow> py_dict \<Rightarrow> py_dict" where
  "pick_present keys h = map (\<lambda>k. (k, dget h k)) (filter (has_key h) keys)"

text \<open>Sending a request and turning the response into the text that the method returns; \<open>spent\<close> is the builder
  when the request is made.\<close>

definition send_and_report :: "'b session \<Rightarrow> http_request \<Rightarrow> (string \<Rightarrow> string) \<Rightarrow> py \<Rightarrow> py_dict \<Rightarrow> 'b \<Rightarrow> (hg_exception + py) \<times> py_dict \<times> 'b" where
  "send_and_report send rq done otherwise spent b = (case send rq b of
      (Inl e, b') \<Rightarrow> (Inl e, spent, b')
    | (Inr response, b') \<Rightarrow> (Inr (if truthy response then PStr (done (py_str response)) else otherwise), spent, b'))"

text \<open>\<open>if_not_exist\<close>; the request accepts a missing resource.\<close>

definition if_not_exist :: "'b session \<Rightarrow> string \<Rightarrow> 'b builder_step" where
  "if_not_exist send collection h b =
     (case send \<lparr>rq_method = ''GET'', rq_path = ''schema/'' @ collection @ ''/'' @ py_str (get_value h ''name''), rq_body = None, rq_strict = False\<rparr> b of
        (Inl e, b') \<Rightarrow> (Inl e, h, b')
      | (Inr response, b') \<Rightarrow> (Inr PNone, if truthy response then add_parameter ''not_exist'' (PBool False) h else h, b'))"

text \<open>The edge label and the index label guard it by the decorator.\<close>

definition guarded_if_not_exist :: "'b session \<Rightarrow> string \<Rightarrow> 'b builder_step" where
  "guarded_if_not_exist send collection = params_step (if_not_exist send collection)"

text \<open>The pairs of \<open>userdata(k1, v1, k2, v2, ...)\<close>, with the key that an odd number of arguments leaves over: the
  pairs before it are stored, then the index is out of range. Keys are texts, and user data that was set before is an object.\<close>

definition store_pairs :: "(string \<times> py) list \<Rightarrow> py_dict \<Rightarrow> py_dict" where
  "store_pairs pairs d = fold (\<lambda>(k, v). dset k v) pairs d"

definition userdata :: "(string \<times> py) list \<Rightarrow> string option \<Rightarrow> py_dict \<Rightarrow> (hg_exception + unit) \<times> py_dict" where
  "userdata pairs dangling h =
     (if \<not> has_key h ''name'' then (Inl parameters_required, h)
      else let old = (case get_value h ''user_data'' of PDict d \<Rightarrow> d | _ \<Rightarrow> []);
               h' = add_parameter ''user_data'' (PDict (store_pairs pairs old)) h in
        (case dangling of None \<Rightarrow> Inr () | Some k \<Rightarrow> Inl (OtherError ''tuple index out of range''), h'))"

text \<open>The texts that the methods return.\<close>

definition plain_detail :: "string \<Rightarrow> string \<Rightarrow> string" where
  "plain_detail what r = what @ '' success, Detail: '' @ r"

definition quoted_detail :: "string \<Rightarrow> string \<Rightarrow> string" where
  "quoted_detail what r = what @ '' success, Detail: \"'' @ r @ ''\"''"

section \<open>Property keys\<close>

definition PROPERTY_KEY_SETTERS :: "(string \<times> string \<times> string) list" where
  "PROPERTY_KEY_SETTERS = [(''as_object'', ''data_type'', ''OBJECT''), (''as_bool'', ''data_type'', ''BOOLEAN''),
     (''as_byte'', ''data_type'', ''BYTE''), (''as_int'', ''data_type'', ''INT''), (''as_long'', ''data_type'', ''LONG''),
     (''as_float'', ''data_type'', ''FLOAT''), (''as_double'', ''data_type'', ''DOUBLE''), (''as_text'', ''data_type'', ''TEXT''),
     (''as_blob'', ''data_type'', ''BLOB''), (''as_date'', ''data_type'', ''DATE''),
     (''value_single'', ''cardinality'', ''SINGLE''), (''value_list'', ''cardinality'', ''LIST''), (''value_set'', ''cardinality'', ''SET''),
     (''calc_max'', ''aggregate_type'', ''MAX''), (''calc_min'', ''aggregate_type'', ''MIN''),
     (''calc_sum'', ''aggregate_type'', ''SUM''), (''calc_old'', ''aggregate_type'', ''OLD'')]"

definition attribute_error :: "string \<Rightarrow> string \<Rightarrow> hg_exception" where
  "attribute_error cls meth = OtherError (repr_str cls @ '' object has no attribute '' @ repr_str meth)"

text \<open>A call by name of a method without arguments that sets a parameter.\<close>

definition call_setter :: "string \<Rightarrow> (string \<times> string \<times> string) list \<Rightarrow> string \<Rightarrow> py_dict \<Rightarrow> hg_exception + py_dict" where
  "call_setter cls table meth h = (case map_of table meth of
      None \<Rightarrow> Inl (attribute_error cls meth) | Some (key, v) \<Rightarrow> setter key (PStr v) h)"

definition property_key :: "py \<Rightarrow> py_dict" where
  "property_key name = add_parameter ''not_exist'' (PBool True) (add_parameter ''name'' name [])"

definition property_key_body :: "py_dict \<Rightarrow> py \<Rightarrow> py" where
  "property_key_body h name = PDict ((''name'', name) # pick_present [''data_type'', ''cardinality'', ''aggregate_type''] h
     @ (if truthy (dget h ''user_data'') then [(''user_data'', dget h ''user_data'')] else []))"

definition create_property_key :: "'b session \<Rightarrow> 'b builder_step" where
  "create_property_key send = decorator_create (\<lambda>h b. case param h ''name'' of
      Inl e \<Rightarrow> (Inl e, h, b)
    | Inr name \<Rightarrow> send_and_report send (plain_request ''POST'' ''schema/propertykeys'' (Some (property_key_body h name)))
        (plain_detail ''create PropertyKey'') (PStr []) (clean_parameter_holder h) b)"

text \<open>\<open>append\<close> and \<open>eliminate\<close>.\<close>

definition change_property_key :: "string \<Rightarrow> 'b session \<Rightarrow> 'b builder_step" where
  "change_property_key action send = params_step (\<lambda>h b.
     send_and_report send (plain_request ''PUT'' (''schema/propertykeys/'' @ py_str (get_value h ''name'') @ ''/?action='' @ action)
       (Some (PDict [(''name'', get_value h ''name''), (''user_data'', py_or (get_value h ''user_data'') (PDict []))])))
       (plain_detail (action @ '' PropertyKey'')) (PStr []) (clean_parameter_holder h) b)"

definition remove_property_key :: "'b session \<Rightarrow> 'b builder_step" where
  "remove_property_key send = params_step (\<lambda>h b.
     send_and_report send (plain_request ''DELETE'' (''schema/propertykeys/'' @ py_str (dget h ''name'')) None)
       (plain_detail ''delete PropertyKey'') (PStr []) (clean_parameter_holder h) b)"

section \<open>Vertex labels\<close>

definition VERTEX_LABEL_SETTERS :: "(string \<times> string \<times> string) list" where
  "VERTEX_LABEL_SETTERS = [(''use_automatic_id'', ''id_strategy'', ''AUTOMATIC''),
     (''use_customize_string_id'', ''id_strategy'', ''CUSTOMIZE_STRING''),
     (''use_customize_number_id'', ''id_strategy'', ''CUSTOMIZE_NUMBER''),
     (''use_primary_key_id'', ''id_strategy'', ''PRIMARY_KEY'')]"

definition vertex_label :: "py \<Rightarrow> py_dict" where
  "vertex_label name = add_parameter ''not_exist'' (PBool True) (add_parameter ''name'' name [])"

text \<open>\<open>properties\<close>, \<open>primary_keys\<close>, \<open>nullable_keys\<close> (and \<open>sort_keys\<close> of an edge label).\<close>

definition set_names :: "string \<Rightarrow> py list \<Rightarrow> py_dict \<Rightarrow> hg_exception + py_dict" where
  "set_names key args = setter key (PList args)"

definition enable_label_index :: "py \<Rightarrow> py_dict \<Rightarrow> hg_exception + py_dict" where
  "enable_label_index flag = setter ''enable_label_index'' flag"

definition VERTEX_LABEL_KEYS :: "string list" where
  "VERTEX_LABEL_KEYS = [''name'', ''id_strategy'', ''primary_keys'', ''nullable_keys'', ''index_labels'', ''properties'',
     ''enable_label_index'', ''user_data'']"

definition create_vertex_label :: "'b session \<Rightarrow> 'b builder_step" where
  "create_vertex_label send = decorator_create (\<lambda>h b.
     send_and_report send (plain_request ''POST'' ''schema/vertexlabels'' (Some (PDict (pick_present VERTEX_LABEL_KEYS h))))
       (quoted_detail ''create VertexLabel'') (PStr []) (clean_parameter_holder h) b)"

definition append_vertex_label :: "'b session \<Rightarrow> 'b builder_step" where
  "append_vertex_label send = params_step (\<lambda>h b.
     send_and_report send (plain_request ''PUT'' (''schema/vertexlabels/'' @ py_str (dget h ''name'') @ ''?action=append'')
       (Some (PDict [(''name'', dget h ''name''), (''properties'', case map_of h ''properties'' of None \<Rightarrow> PList [] | Some v \<Rightarrow> v),
          (''nullable_keys'', case map_of h ''nullable_keys'' of None \<Rightarrow> PList [] | Some v \<Rightarrow> v),
          (''user_data'', case map_of h ''user_data'' of None \<Rightarrow> PDict [] | Some v \<Rightarrow> v)])))
       (quoted_detail ''append VertexLabel'') (PStr []) (clean_parameter_holder h) b)"

definition remove_vertex_label :: "'b session \<Rightarrow> 'b builder_step" where
  "remove_vertex_label send = params_step (\<lambda>h b.
     send_and_report send (plain_request ''DELETE'' (''schema/vertexlabels/'' @ py_str (get_value h ''name'')) None)
       (quoted_detail ''remove VertexLabel'') (PStr []) (clean_parameter_holder h) b)"

text \<open>The only request that leaves the parameters in place.\<close>

definition eliminate_vertex_label :: "'b session \<Rightarrow> 'b builder_step" where
  "eliminate_vertex_label send = params_step (\<lambda>h b.
     send_and_report send (plain_request ''PUT'' (''schema/vertexlabels/'' @ py_str (get_value h ''name'') @ ''/?action=eliminate'')
       (Some (PDict [(''name'', get_value h ''name''), (''user_data'', case map_of h ''user_data'' of None \<Rightarrow> PDict [] | Some v \<Rightarrow> v)])))
       (quoted_detail ''eliminate VertexLabel'') (PStr []) h b)"

section \<open>Edge labels\<close>

definition EDGE_LABEL_SETTERS :: "(string \<times> string \<times> string) list" where
  "EDGE_LABEL_SETTERS = [(''single_time'', ''frequency'', ''SINGLE''), (''multi_times'', ''frequency'', ''MULTIPLE'')]"

definition edge_label :: "py \<Rightarrow> py_dict" where
  "edge_label name = add_parameter ''not_exist'' (PBool True) (add_parameter ''name'' name [])"

definition edge_link :: "py \<Rightarrow> py \<Rightarrow> py_dict \<Rightarrow> hg_exception + py_dict" where
  "edge_link src tgt = decorator_params (\<lambda>h. Inr (add_parameter ''target_label'' tgt (add_parameter ''source_label'' src h)))"

definition edge_source_label :: "py \<Rightarrow> py_dict \<Rightarrow> hg_exception + py_dict" where
  "edge_source_label src = setter ''source_label'' src"

definition edge_target_label :: "py \<Rightarrow> py_dict \<Rightarrow> hg_exception + py_dict" where
  "edge_target_label tgt = setter ''target_label'' tgt"

text \<open>The nullable keys of an edge label go through a set; \<open>order\<close> is the order in which Python lists it.\<close>

definition edge_nullable_keys :: "(py list \<Rightarrow> py list) \<Rightarrow> py list \<Rightarrow> py_dict \<Rightarrow> hg_exception + py_dict" where
  "edge_nullable_keys order args = setter ''nullable_keys'' (PList (order args))"

definition edge_parent :: "py \<Rightarrow> py_dict \<Rightarrow> hg_exception + py_dict" where
  "edge_parent label = decorator_params (\<lambda>h. Inr (add_parameter ''edgelabel_type'' (PStr ''SUB'') (add_parameter ''parent_label'' label h)))"

definition EDGE_LABEL_KEYS :: "string list" where
  "EDGE_LABEL_KEYS = [''name'', ''source_label'', ''target_label'', ''nullable_keys'', ''properties'', ''enable_label_index'',
     ''sort_keys'', ''user_data'', ''frequency'', ''parent_label'', ''edgelabel_type'']"

definition create_edge_label :: "'b session \<Rightarrow> 'b builder_step" where
  "create_edge_label send = decorator_create (\<lambda>h b.
     send_and_report send (plain_request ''POST'' ''schema/edgelabels'' (Some (PDict (pick_present EDGE_LABEL_KEYS h))))
       (quoted_detail ''create EdgeLabel'') PNone (clean_parameter_holder h) b)"

definition remove_edge_label :: "'b session \<Rightarrow> 'b builder_step" where
  "remove_edge_label send = params_step (\<lambda>h b.
     send_and_report send (plain_request ''DELETE'' (''schema/edgelabels/'' @ py_str (get_value h ''name'')) None)
       (quoted_detail ''remove EdgeLabel'') PNone (clean_parameter_holder h) b)"

definition append_edge_label :: "'b session \<Rightarrow> 'b builder_step" where
  "append_edge_label send = params_step (\<lambda>h b.
     send_and_report send (plain_request ''PUT'' (''schema/edgelabels/'' @ py_str (dget h ''name'') @ ''?action=append'')
       (Some (PDict (pick_present [''name'', ''nullable_keys'', ''properties'', ''user_data''] h))))
       (quoted_detail ''append EdgeLabel'') PNone (clean_parameter_holder h) b)"

definition eliminate_edge_label :: "'b session \<Rightarrow> 'b builder_step" where
  "eliminate_edge_label send = params_step (\<lambda>h b.
     send_and_report send (plain_request ''PUT'' (''schema/edgelabels/'' @ py_str (get_value h ''name'') @ ''?action=eliminate'')
       (Some (PDict [(''name'', get_value h ''name''), (''user_data'', py_or (get_value h ''user_data'') (PDict []))])))
       (quoted_detail ''eliminate EdgeLabel'') PNone (clean_parameter_holder h) b)"

section \<open>Index labels\<close>

definition INDEX_LABEL_SETTERS :: "(string \<times> string \<times> string) list" where
  "INDEX_LABEL_SETTERS = [(''secondary'', ''index_type'', ''SECONDARY''), (''range'', ''index_type'', ''RANGE''),
     (''search'', ''index_type'', ''SEARCH''), (''shard'', ''index_type'', ''SHARD''), (''unique'', ''index_type'', ''UNIQUE'')]"

definition index_label :: "py \<Rightarrow> py_dict" where
  "index_label name = add_parameter ''name'' name []"

definition index_on :: "string \<Rightarrow> py \<Rightarrow> py_dict \<Rightarrow> hg_exception + py_dict" where
  "index_on base label = decorator_params (\<lambda>h. Inr (add_parameter ''base_type'' (PStr base) (add_parameter ''base_value'' label h)))"

definition on_v :: "py \<Rightarrow> py_dict \<Rightarrow> hg_exception + py_dict" where
  "on_v = index_on ''VERTEX_LABEL''"

definition on_e :: "py \<Rightarrow> py_dict \<Rightarrow> hg_exception + py_dict" where
  "on_e = index_on ''EDGE_LABEL''"

fun add_missing :: "py list \<Rightarrow> py list \<Rightarrow> py list" where
  "add_missing names [] = names"
| "add_missing names (v # vs) = add_missing (if list_ex (py_eq v) names then names else names @ [v]) vs"

definition index_by :: "py list \<Rightarrow> py_dict \<Rightarrow> hg_exception + py_dict" where
  "index_by args = decorator_params (\<lambda>h.
     Inr (add_parameter ''fields'' (PList (add_missing (case get_value h ''fields'' of PList vs \<Rightarrow> vs | _ \<Rightarrow> []) args)) h))"

fun params_or_error :: "string list \<Rightarrow> py_dict \<Rightarrow> hg_exception + py_dict" where
  "params_or_error [] h = Inr []"
| "params_or_error (k # ks) h = (case param h k of Inl e \<Rightarrow> Inl e
    | Inr v \<Rightarrow> (case params_or_error ks h of Inl e \<Rightarrow> Inl e | Inr d \<Rightarrow> Inr ((k, v) # d)))"

definition create_index_label :: "'b session \<Rightarrow> 'b builder_step" where
  "create_index_label send = decorator_create (\<lambda>h b.
     case params_or_error [''name'', ''base_type'', ''base_value'', ''index_type'', ''fields''] h of
        Inl e \<Rightarrow> (Inl e, h, b)
      | Inr body \<Rightarrow> send_and_report send (plain_request ''POST'' ''schema/indexlabels'' (Some (PDict body)))
          (quoted_detail ''create IndexLabel'') PNone (clean_parameter_holder h) b)"

definition remove_index_label :: "'b session \<Rightarrow> 'b builder_step" where
  "remove_index_label send = params_step (\<lambda>h b.
     send_and_report send (plain_request ''DELETE'' (''schema/indexlabels/'' @ py_str (get_value h ''name'')) None)
       (quoted_detail ''remove IndexLabel'') PNone (clean_parameter_holder h) b)"

end
