(* ===== verification/Schema_Apply.thy ===== *)
theory Schema_Apply
  imports Schema_Operations Schema_Builders Write_Adapters
begin

text \<open>
  Model of the apply part of \<open>hugegraph_mcp/tools/manage_schema.py\<close>, which drives the schema builders of the Python
  client, and of \<open>hugegraph_mcp/tools/schema_write_adapter.py\<close>. A create is sent at most once, the schema is read
  again, and the receipt says what was found.
\<close>

section \<open>Surroundings\<close>

text \<open>The type name and the text of an exception.\<close>

type_synonym read_error = "string \<times> string"

text \<open>The configuration, the exception of building the client if it cannot be built, its session, the reading of the
  live schema, the order in which Python lists a set, and the clock.\<close>

record 'b schema_env =
  se_cfg :: MCPConfig
  se_manager :: "string option"
  se_session :: "'b session"
  se_read :: "'b \<Rightarrow> (read_error + py) \<times> 'b"
  se_order :: "py list \<Rightarrow> py list"
  se_now :: int

section \<open>One operation is forwarded\<close>

type_synonym builder_call = "py_dict \<Rightarrow> hg_exception + py_dict"

fun chain :: "builder_call list \<Rightarrow> builder_call" where
  "chain [] h = Inr h"
| "chain (c # cs) h = (case c h of Inl e \<Rightarrow> Inl e | Inr h' \<Rightarrow> chain cs h')"

definition skip :: builder_call where
  "skip h = Inr h"

definition raise_call :: "string \<Rightarrow> builder_call" where
  "raise_call m h = Inl (OtherError m)"

definition PROPERTY_KEY_DATA_TYPE_METHODS :: "(string \<times> string) list" where
  "PROPERTY_KEY_DATA_TYPE_METHODS = [(''TEXT'', ''as_text''), (''INT'', ''as_int''), (''INTEGER'', ''as_int''), (''LONG'', ''as_long''),
     (''DOUBLE'', ''as_double''), (''FLOAT'', ''as_float''), (''BOOLEAN'', ''as_bool''), (''BOOL'', ''as_bool''), (''DATE'', ''as_date''),
     (''BYTE'', ''as_byte''), (''BLOB'', ''as_blob''), (''OBJECT'', ''as_object'')]"

definition PROPERTY_KEY_CARDINALITY_METHODS :: "(string \<times> string) list" where
  "PROPERTY_KEY_CARDINALITY_METHODS = [(''SINGLE'', ''value_single''), (''SET'', ''value_set''), (''LIST'', ''value_list'')]"

definition PROPERTY_KEY_AGGREGATE_METHODS :: "(string \<times> string) list" where
  "PROPERTY_KEY_AGGREGATE_METHODS = [(''OLD'', ''calc_old''), (''SUM'', ''calc_sum''), (''MIN'', ''calc_min''), (''MAX'', ''calc_max'')]"

definition PROPERTY_KEY_DIRECT_AGGREGATE_TYPES :: "string list" where
  "PROPERTY_KEY_DIRECT_AGGREGATE_TYPES = [''LIST'', ''NONE'', ''SET'']"

definition VERTEX_LABEL_ID_STRATEGY_METHODS :: "(string \<times> string) list" where
  "VERTEX_LABEL_ID_STRATEGY_METHODS = [(''PRIMARY_KEY'', ''use_primary_key_id''), (''CUSTOMIZE_STRING'', ''use_customize_string_id''),
     (''CUSTOMIZE_NUMBER'', ''use_customize_number_id''), (''AUTOMATIC'', ''use_automatic_id'')]"

definition EDGE_LABEL_FREQUENCY_METHODS :: "(string \<times> string) list" where
  "EDGE_LABEL_FREQUENCY_METHODS = [(''SINGLE'', ''single_time''), (''MULTIPLE'', ''multi_times'')]"

text \<open>The method of a table is called by name; \<open>shown\<close> is the value as the exception names it.\<close>

definition table_call :: "string \<Rightarrow> (string \<times> string \<times> string) list \<Rightarrow> (string \<times> string) list \<Rightarrow> string \<Rightarrow> string \<Rightarrow> string \<Rightarrow> builder_call" where
  "table_call cls setters methods what v named = (case map_of methods v of
      None \<Rightarrow> raise_call (''Unsupported '' @ what @ '': '' @ named) | Some meth \<Rightarrow> call_setter cls setters meth)"

definition set_builder_parameter :: "string \<Rightarrow> string \<Rightarrow> py \<Rightarrow> builder_call" where
  "set_builder_parameter t f v h =
     (if f \<notin> set (case map_of SUPPORTED_FIELDS t of None \<Rightarrow> [] | Some fs \<Rightarrow> fs)
      then Inl (OtherError (''Unsupported '' @ t @ '' field: '' @ f)) else Inr (add_parameter f v h))"

definition forward_parameter_fields :: "string \<Rightarrow> py_dict \<Rightarrow> string list \<Rightarrow> builder_call" where
  "forward_parameter_fields t d exclude = chain (map (\<lambda>(f, spec).
     if has_key d f \<and> f \<notin> set exclude \<and> fs_apply spec = apply_parameter then set_builder_parameter t f (dget d f) else skip)
     (field_specs_for_operation t))"

text \<open>\<open>method(*operation[key])\<close> when the value is not null; only the kind of the exception is that of Python.\<close>

definition star_call :: "py_dict \<Rightarrow> string \<Rightarrow> (py list \<Rightarrow> builder_call) \<Rightarrow> builder_call" where
  "star_call d key meth =
     (if dget d key = PNone then skip
      else case py_iter (dget d key) of
        Inl e \<Rightarrow> raise_call (''Value after * must be an iterable, not '' @ type_name (dget d key))
      | Inr xs \<Rightarrow> meth xs)"

definition upper_or :: "py_dict \<Rightarrow> string \<Rightarrow> string \<Rightarrow> string" where
  "upper_or d key dflt = upper (py_str (py_or (dget d key) (PStr dflt)))"

definition aggregate_call :: "py_dict \<Rightarrow> builder_call" where
  "aggregate_call d = (let v = dget d ''aggregate_type''; n = upper (py_str v) in
     if \<not> truthy v then skip
     else if n \<in> set PROPERTY_KEY_DIRECT_AGGREGATE_TYPES
     then set_builder_parameter ''create_property_key'' ''aggregate_type'' (PStr n)
     else table_call ''PropertyKey'' PROPERTY_KEY_SETTERS PROPERTY_KEY_AGGREGATE_METHODS ''property key aggregate_type'' n (py_str v))"

definition property_key_options :: "py_dict \<Rightarrow> builder_call" where
  "property_key_options d = (let data_type = upper_or d ''data_type'' ''TEXT''; card = upper_or d ''cardinality'' ''SINGLE'' in chain
     [table_call ''PropertyKey'' PROPERTY_KEY_SETTERS PROPERTY_KEY_DATA_TYPE_METHODS ''property key data_type'' data_type data_type,
      table_call ''PropertyKey'' PROPERTY_KEY_SETTERS PROPERTY_KEY_CARDINALITY_METHODS ''property key cardinality'' card card,
      aggregate_call d,
      forward_parameter_fields ''create_property_key'' d [''aggregate_type'']])"

definition label_index_call :: "py_dict \<Rightarrow> builder_call" where
  "label_index_call d = (if has_key d ''enable_label_index'' then enable_label_index (dget d ''enable_label_index'') else skip)"

definition vertex_label_options :: "py_dict \<Rightarrow> builder_call" where
  "vertex_label_options d = (let strategy = upper_or d ''id_strategy'' ''PRIMARY_KEY'' in chain
     [table_call ''VertexLabel'' VERTEX_LABEL_SETTERS VERTEX_LABEL_ID_STRATEGY_METHODS ''vertex label id_strategy'' strategy strategy,
      star_call d ''properties'' (set_names ''properties''),
      star_call d ''primary_keys'' (set_names ''primary_keys''),
      star_call d ''nullable_keys'' (set_names ''nullable_keys''),
      label_index_call d,
      forward_parameter_fields ''create_vertex_label'' d []])"

definition frequency_call :: "py_dict \<Rightarrow> builder_call" where
  "frequency_call d = (let v = dget d ''frequency'' in if \<not> truthy v then skip
     else table_call ''EdgeLabel'' EDGE_LABEL_SETTERS EDGE_LABEL_FREQUENCY_METHODS ''edge label frequency'' (upper (py_str v)) (py_str v))"

definition link_call :: "py_dict \<Rightarrow> builder_call" where
  "link_call d h = (case param d ''source_label'' of Inl e \<Rightarrow> Inl e
     | Inr src \<Rightarrow> (case param d ''target_label'' of Inl e \<Rightarrow> Inl e | Inr tgt \<Rightarrow> edge_link src tgt h))"

definition edge_label_options :: "(py list \<Rightarrow> py list) \<Rightarrow> py_dict \<Rightarrow> builder_call" where
  "edge_label_options order d = chain
     [link_call d,
      star_call d ''properties'' (set_names ''properties''),
      star_call d ''nullable_keys'' (edge_nullable_keys order),
      star_call d ''sort_keys'' (set_names ''sort_keys''),
      frequency_call d,
      label_index_call d,
      forward_parameter_fields ''create_edge_label'' d []]"

definition forwardable :: "py_dict \<Rightarrow> bool" where
  "forwardable d \<longleftrightarrow> field_specs_for_operation (operation_type d) \<noteq> [] \<and> (\<forall>(f, v) \<in> set d. f \<in> apply_fields_for_operation (operation_type d))"

text \<open>The parameters with which the builder is created and the step that creates.\<close>

definition built :: "'b schema_env \<Rightarrow> py_dict \<Rightarrow> hg_exception + (py_dict \<times> 'b builder_step)" where
  "built env d =
     (let t = operation_type d;
          with_name = (\<lambda>start options create. case param d ''name'' of Inl e \<Rightarrow> Inl e
            | Inr name \<Rightarrow> (case options (start name) of Inl e \<Rightarrow> Inl e | Inr h \<Rightarrow> Inr (h, create (se_session env)))) in
      if \<not> forwardable d then Inl (OtherError (''Unsupported or non-forwardable schema field(s) for '' @ t))
      else if t = ''create_property_key'' then with_name property_key (property_key_options d) create_property_key
      else if t = ''create_vertex_label'' then with_name vertex_label (vertex_label_options d) create_vertex_label
      else if t = ''create_edge_label'' then with_name edge_label (edge_label_options (se_order env) d) create_edge_label
      else Inl (OtherError (''Unsupported P0a schema apply operation: '' @ t)))"

definition apply_one_operation :: "'b schema_env \<Rightarrow> py_dict \<Rightarrow> 'b \<Rightarrow> (hg_exception + unit) \<times> 'b" where
  "apply_one_operation env d b = (case built env d of
      Inl e \<Rightarrow> (Inl e, b)
    | Inr (h, create) \<Rightarrow> (case create h b of (Inl e, h', b') \<Rightarrow> (Inl e, b') | (Inr r, h', b') \<Rightarrow> (Inr (), b')))"

section \<open>The object in the live schema\<close>

datatype object_state = Missing_Object | Identical_Object py_dict | Conflicting_Object py_dict

definition find_schema_item :: "py_dict \<Rightarrow> string \<Rightarrow> py \<Rightarrow> string list \<Rightarrow> py_dict option" where
  "find_schema_item schema collection name aliases =
     (if \<not> is_str name then None
      else case field_value schema (collection_aliases collection) of
        PList vs \<Rightarrow> (case find (\<lambda>v. case v of PDict it \<Rightarrow> py_eq (field_value it aliases) name | _ \<Rightarrow> False) vs of
            Some (PDict it) \<Rightarrow> Some it | _ \<Rightarrow> None)
      | _ \<Rightarrow> None)"

fun normalize_name_list :: "py list \<Rightarrow> py list option" where
  "normalize_name_list [] = Some []"
| "normalize_name_list (v # vs) =
     (case (case v of PStr s \<Rightarrow> Some (PStr s)
                | PDict it \<Rightarrow> (case dget it ''name'' of PStr s \<Rightarrow> Some (PStr s) | _ \<Rightarrow> None)
                | _ \<Rightarrow> None) of
        None \<Rightarrow> None
      | Some n \<Rightarrow> map_option ((#) n) (normalize_name_list vs))"

definition list_field_matches :: "py_dict \<Rightarrow> py_dict \<Rightarrow> string \<Rightarrow> string list \<Rightarrow> bool" where
  "list_field_matches observed d f aliases = (\<not> has_key d f \<or>
     (case field_value observed aliases of
        PList vs \<Rightarrow> (case normalize_name_list vs of None \<Rightarrow> False | Some names \<Rightarrow> py_eq (PList names) (dget d f))
      | _ \<Rightarrow> False))"

definition enum_field_matches :: "py_dict \<Rightarrow> py_dict \<Rightarrow> string \<Rightarrow> string option \<Rightarrow> string list \<Rightarrow> bool" where
  "enum_field_matches observed d f dflt aliases =
     (let expected = get_or d f (case dflt of None \<Rightarrow> PNone | Some s \<Rightarrow> PStr s) in
      if expected = PNone then True
      else case field_value observed aliases of
        PStr s \<Rightarrow> canonical_enum_value f (upper s) = canonical_enum_value f (upper (py_str expected))
      | _ \<Rightarrow> False)"

definition mapping_field_matches :: "py_dict \<Rightarrow> py_dict \<Rightarrow> string \<Rightarrow> string list \<Rightarrow> bool" where
  "mapping_field_matches observed d f aliases = (\<not> has_key d f \<or>
     (let expected = dget d f; actual = field_value observed aliases in
      if actual = PNone \<and> expected = PDict [] then True
      else is_dict actual \<and> is_dict expected \<and> py_eq (user_data_without_server_metadata actual) expected))"

text \<open>A boolean and a scalar field are compared alike.\<close>

definition scalar_field_matches :: "py_dict \<Rightarrow> py_dict \<Rightarrow> string \<Rightarrow> string list \<Rightarrow> bool" where
  "scalar_field_matches observed d f aliases = (\<not> has_key d f \<or> py_eq (field_value observed aliases) (dget d f))"

definition supported_field_matches :: "string \<Rightarrow> string \<Rightarrow> py_dict \<Rightarrow> py_dict \<Rightarrow> bool" where
  "supported_field_matches t f d observed = (case map_of (field_specs_for_operation t) f of
      None \<Rightarrow> False
    | Some spec \<Rightarrow> (case fs_kind spec of
        FieldKind.enum_field \<Rightarrow> enum_field_matches observed d f (SchemaFieldSpec.fs_default spec) (fs_aliases spec)
      | list_field \<Rightarrow> list_field_matches observed d f (fs_aliases spec)
      | mapping_field \<Rightarrow> mapping_field_matches observed d f (fs_aliases spec)
      | boolean_field \<Rightarrow> scalar_field_matches observed d f (fs_aliases spec)
      | scalar_field \<Rightarrow> scalar_field_matches observed d f (fs_aliases spec)
      | identity_field \<Rightarrow> f = ''type'' \<or> f = ''name''))"

text \<open>The fields that are compared: those of the operation, and those with a default.\<close>

definition compared_fields :: "py_dict \<Rightarrow> string list" where
  "compared_fields d = map fst (filter (\<lambda>(f, spec). f \<noteq> ''type'' \<and> f \<noteq> ''name'' \<and> (has_key d f \<or> SchemaFieldSpec.fs_default spec \<noteq> None))
     (field_specs_for_operation (operation_type d)))"

definition operation_fields_match :: "py_dict \<Rightarrow> py_dict \<Rightarrow> bool" where
  "operation_fields_match d observed =
     (case map_of SUPPORTED_FIELDS (operation_type d) of
        None \<Rightarrow> False
      | Some names \<Rightarrow> list_all (\<lambda>(f, v). f \<in> set names) d \<and>
          list_all (\<lambda>f. supported_field_matches (operation_type d) f d observed) (compared_fields d))"

definition unwrapped_schema :: "py \<Rightarrow> py_dict" where
  "unwrapped_schema live = (case live of
      PDict l \<Rightarrow> (case dget l ''schema'' of PDict s \<Rightarrow> s | _ \<Rightarrow> l) | _ \<Rightarrow> [])"

definition name_aliases :: "string \<Rightarrow> string list" where
  "name_aliases t = (case map_of (field_specs_for_operation t) ''name'' of Some spec \<Rightarrow> fs_aliases spec | None \<Rightarrow> [''name''])"

definition schema_object_state :: "py_dict \<Rightarrow> py \<Rightarrow> object_state" where
  "schema_object_state d live =
     (case schema_collection_for_operation (operation_type d) of
        None \<Rightarrow> Missing_Object
      | Some collection \<Rightarrow>
        (case find_schema_item (unwrapped_schema live) collection (dget d ''name'') (name_aliases (operation_type d)) of
           None \<Rightarrow> Missing_Object
         | Some observed \<Rightarrow> if operation_fields_match d observed then Identical_Object observed else Conflicting_Object observed))"

section \<open>Apply\<close>

definition legacy_receipt :: "ApplyStatus \<Rightarrow> py_dict \<Rightarrow> py_dict option \<Rightarrow> string option \<Rightarrow> bool \<Rightarrow> ApplyReceipt" where
  "legacy_receipt st d observed why needs_reconcile =
     \<lparr>rc_status = st, rc_plan_id = None, rc_operation_id = None, rc_observed = freeze_opt observed, rc_reason_code = None,
      rc_attempt = 0, rc_attempt_token = None, rc_reconcile = needs_reconcile, rc_committed_at = None,
      rc_operation = freeze_opt (Some d), rc_reason = why\<rparr>"

text \<open>The write attempt: the create and the reading after it; an exception is the stage and its text.\<close>

definition attempt_create :: "'b schema_env \<Rightarrow> py_dict \<Rightarrow> 'b \<Rightarrow> ((string \<times> string) + py) \<times> 'b" where
  "attempt_create env d b = (case se_manager env of
      Some e \<Rightarrow> (Inl (''schema create'', e), b)
    | None \<Rightarrow> (case apply_one_operation env d b of
        (Inl e, b') \<Rightarrow> (Inl (''schema create'', hg_text e), b')
      | (Inr u, b') \<Rightarrow> (case se_read env b' of
          (Inl (n, e), b'') \<Rightarrow> (Inl (''post-read schema'', e), b'')
        | (Inr live, b'') \<Rightarrow> (Inr live, b''))))"

text \<open>The receipt, and the schema after the create when the object was found in it.\<close>

definition summary_of :: "py \<Rightarrow> py_dict option" where
  "summary_of live = (case normalized_schema_summary True live of PDict s \<Rightarrow> Some s | _ \<Rightarrow> None)"

definition apply_create :: "'b schema_env \<Rightarrow> py_dict \<Rightarrow> py \<Rightarrow> 'b \<Rightarrow> (ApplyReceipt \<times> py option) \<times> 'b" where
  "apply_create env d live b = (case schema_object_state d live of
      Identical_Object it \<Rightarrow> ((legacy_receipt ApplyStatus.ALREADY_APPLIED d (Some it) None False, None), b)
    | Conflicting_Object it \<Rightarrow> ((legacy_receipt ApplyStatus.CONFLICT d (Some it)
        (Some ''a different schema object already exists with the confirmed name'') False, None), b)
    | Missing_Object \<Rightarrow> (case attempt_create env d b of
        (Inl (stage, e), b') \<Rightarrow> ((legacy_receipt ApplyStatus.UNKNOWN d None (Some (stage @ '' failed: '' @ e)) True, None), b')
      | (Inr observed, b') \<Rightarrow> ((case schema_object_state d observed of
          Conflicting_Object it \<Rightarrow> (legacy_receipt ApplyStatus.CONFLICT d (Some it)
            (Some ''post-read found a different schema object with the confirmed name'') False, None)
        | Missing_Object \<Rightarrow> (legacy_receipt ApplyStatus.UNKNOWN d (summary_of observed)
            (Some ''post-read schema did not match the confirmed object'') True, None)
        | Identical_Object it \<Rightarrow> (legacy_receipt ApplyStatus.APPLIED d (Some it) None False, Some observed)), b')))"

definition applied_fields :: "py_dict \<Rightarrow> py \<Rightarrow> py_dict" where
  "applied_fields d observed =
     [(''valid'', PBool True), (''applied_operations'', PList [PDict d]),
      (''operation_results'', PList [PDict [(''operation_index'', PInt 0), (''operation'', PDict d),
         (''status'', PStr (apply_value ApplyStatus.APPLIED))]]),
      (''mutation_summary'', PStr (schema_mutation_summary [d])),
      (''schema_summary'', normalized_schema_summary True observed)]"

definition apply_schema_operations :: "'b schema_env \<Rightarrow> py_dict list \<Rightarrow> py \<Rightarrow> 'b \<Rightarrow> py_dict res \<times> 'b" where
  "apply_schema_operations env ds live b = (case ds of
      [d] \<Rightarrow> (let ((r, applied), b') = apply_create env d live b in
        (Inr (dict_items (receipt_to_dict r) @ (case applied of None \<Rightarrow> [] | Some observed \<Rightarrow> applied_fields d observed)), b'))
    | _ \<Rightarrow> (Inl (ValueError ''A schema apply plan must contain exactly one operation''), b))"

end
