(* ===== verification/Schema_Forwarding.thy ===== *)
theory Schema_Forwarding
  imports Schema_Apply
begin

text \<open>
  What the apply part of \<open>manage_schema.py\<close> sends and reports: a valid create is forwarded field by field as the
  field table says, it is sent at most once, and it counts as applied only when the schema read afterwards holds
  the requested object.
\<close>

section \<open>What a valid operation makes the builder send\<close>

text \<open>The specification: what the request for a field is, from the table of the fields alone.\<close>

definition enum_request :: "py_dict \<Rightarrow> string \<Rightarrow> string option \<Rightarrow> py option" where
  "enum_request d f dflt = (case dget d f of
      PStr s \<Rightarrow> if s = [] then map_option PStr dflt else Some (PStr (canonical_enum_value f (upper s)))
    | _ \<Rightarrow> map_option PStr dflt)"

text \<open>A null list is not sent, and an empty text is sent as the empty list.\<close>

definition non_null :: "py_dict \<Rightarrow> string \<Rightarrow> py option" where
  "non_null d f = (if dget d f = PNone then None else if dget d f = PStr [] then Some (PList []) else Some (dget d f))"

definition reordered :: "(py list \<Rightarrow> py list) \<Rightarrow> py \<Rightarrow> py" where
  "reordered order v = (case v of PList vs \<Rightarrow> PList (order vs) | _ \<Rightarrow> v)"

definition requested :: "(py list \<Rightarrow> py list) \<Rightarrow> py_dict \<Rightarrow> string \<Rightarrow> py option" where
  "requested order d f = (case map_of (field_specs_for_operation (operation_type d)) f of
      None \<Rightarrow> None
    | Some spec \<Rightarrow> (case fs_kind spec of
        identity_field \<Rightarrow> if f = ''name'' then map_of d f else None
      | FieldKind.enum_field \<Rightarrow> enum_request d f (SchemaFieldSpec.fs_default spec)
      | list_field \<Rightarrow> (if operation_type d = ''create_edge_label'' \<and> f = ''nullable_keys''
          then map_option (reordered order) (non_null d f) else non_null d f)
      | mapping_field \<Rightarrow> if operation_type d = ''create_property_key'' \<and> dget d f = PDict [] then None else map_of d f
      | boolean_field \<Rightarrow> map_of d f
      | scalar_field \<Rightarrow> map_of d f))"

text \<open>Builder calls as updates of the parameters.\<close>

definition put_opt :: "string \<Rightarrow> py option \<Rightarrow> py_dict \<Rightarrow> py_dict" where
  "put_opt k vo h = (case vo of None \<Rightarrow> h | Some v \<Rightarrow> dset k v h)"

lemma map_of_put_opt [simp]: "map_of (put_opt k vo h) f = (if f = k \<and> vo \<noteq> None then vo else map_of h f)"
  by (auto simp: put_opt_def split: option.splits)

lemma has_key_put_opt [simp]: "has_key (put_opt k vo h) f \<longleftrightarrow> f = k \<and> vo \<noteq> None \<or> has_key h f"
  by (auto simp: has_key_def)

lemma put_opt_None [simp]: "put_opt k None h = h"
  by (simp add: put_opt_def)

named_theorems call_simps

lemma setter_call [call_simps]: "has_key h ''name'' \<Longrightarrow> setter k v h = Inr (put_opt k (Some v) h)"
  by (simp add: setter_def decorator_params_def put_opt_def add_parameter_def)

lemma table_call_ok [call_simps]:
  assumes "map_of methods v = Some m" "map_of setters m = Some (k, w)" "has_key h ''name''"
  shows "table_call cls setters methods what v named h = Inr (put_opt k (Some (PStr w)) h)"
  using assms by (simp add: table_call_def call_setter_def call_simps)

lemma star_call_ok [call_simps]:
  assumes "dget d k = PNone \<or> dget d k = PStr [] \<or> is_list (dget d k)" "has_key h ''name''"
  shows "star_call d k (set_names key) h = Inr (put_opt key (non_null d k) h)"
  using assms by (cases "dget d k") (auto simp: star_call_def skip_def set_names_def non_null_def call_simps)

lemma star_call_ordered [call_simps]:
  assumes "dget d k = PNone \<or> dget d k = PStr [] \<or> is_list (dget d k)" "has_key h ''name''"
  shows "star_call d k (edge_nullable_keys order) h = Inr (put_opt ''nullable_keys'' (map_option (reordered order) (non_null d k)) h)"
  using assms by (cases "dget d k") (auto simp: star_call_def skip_def edge_nullable_keys_def non_null_def reordered_def call_simps)

lemma label_index_call_ok [call_simps]:
  "has_key h ''name'' \<Longrightarrow> label_index_call d h = Inr (put_opt ''enable_label_index'' (map_of d ''enable_label_index'') h)"
  by (auto simp: label_index_call_def enable_label_index_def skip_def call_simps has_key_def dget_def)

lemma set_builder_parameter_ok:
  assumes "map_of SUPPORTED_FIELDS t = Some fs" "f \<in> set fs"
  shows "set_builder_parameter t f v h = Inr (put_opt f (Some v) h)"
  using assms by (simp add: set_builder_parameter_def put_opt_def add_parameter_def)

lemma specs_of_types:
  "field_specs_for_operation ''create_property_key'' = snd (SUPPORTED_FIELD_SPECS ! 0)"
  "field_specs_for_operation ''create_vertex_label'' = snd (SUPPORTED_FIELD_SPECS ! 1)"
  "field_specs_for_operation ''create_edge_label'' = snd (SUPPORTED_FIELD_SPECS ! 2)"
  by (simp_all add: field_specs_for_operation_def SUPPORTED_FIELD_SPECS_def)

lemmas spec_table = specs_of_types SUPPORTED_FIELD_SPECS_def schema_field_def

lemma put_or_skip: "has_key d f \<Longrightarrow> put_opt f (Some (dget d f)) h = put_opt f (map_of d f) h"
  "\<not> has_key d f \<Longrightarrow> put_opt f (map_of d f) h = h"
  by (auto simp: has_key_def dget_def)

lemma forward_ok [call_simps]:
  "forward_parameter_fields ''create_property_key'' d [''aggregate_type''] h = Inr (put_opt ''user_data'' (map_of d ''user_data'') h)"
  "forward_parameter_fields ''create_vertex_label'' d [] h =
     Inr (put_opt ''user_data'' (map_of d ''user_data'') (put_opt ''index_labels'' (map_of d ''index_labels'') h))"
  "forward_parameter_fields ''create_edge_label'' d [] h = Inr (put_opt ''user_data'' (map_of d ''user_data'') h)"
  by (auto simp: forward_parameter_fields_def spec_table skip_def set_builder_parameter_def SUPPORTED_FIELDS_def add_parameter_def put_opt_def
      has_key_def dget_def split: option.splits)


lemma chain_step [simp]: "c h = Inr h' \<Longrightarrow> chain (c # cs) h = chain cs h'"
  by simp

lemma data_type_methods:
  assumes "v \<in> set PROPERTY_KEY_DATA_TYPES"
  shows "\<exists>m. map_of PROPERTY_KEY_DATA_TYPE_METHODS v = Some m \<and>
    map_of PROPERTY_KEY_SETTERS m = Some (''data_type'', canonical_enum_value ''data_type'' v)"
  using assms
  by (auto simp: PROPERTY_KEY_DATA_TYPES_def PROPERTY_KEY_DATA_TYPE_METHODS_def PROPERTY_KEY_SETTERS_def canonical_enum_value_def
      PROPERTY_KEY_DATA_TYPE_CANONICAL_def)

lemma cardinality_methods:
  assumes "v \<in> set PROPERTY_KEY_CARDINALITIES"
  shows "\<exists>m. map_of PROPERTY_KEY_CARDINALITY_METHODS v = Some m \<and> map_of PROPERTY_KEY_SETTERS m = Some (''cardinality'', v)"
  using assms
  by (auto simp: PROPERTY_KEY_CARDINALITIES_def PROPERTY_KEY_CARDINALITY_METHODS_def PROPERTY_KEY_SETTERS_def)

lemma strategy_methods:
  assumes "v \<in> set VERTEX_LABEL_ID_STRATEGIES"
  shows "\<exists>m. map_of VERTEX_LABEL_ID_STRATEGY_METHODS v = Some m \<and> map_of VERTEX_LABEL_SETTERS m = Some (''id_strategy'', v)"
  using assms
  by (auto simp: VERTEX_LABEL_ID_STRATEGIES_def VERTEX_LABEL_ID_STRATEGY_METHODS_def VERTEX_LABEL_SETTERS_def)

lemma frequency_methods:
  assumes "v \<in> set EDGE_LABEL_FREQUENCIES"
  shows "\<exists>m. map_of EDGE_LABEL_FREQUENCY_METHODS v = Some m \<and> map_of EDGE_LABEL_SETTERS m = Some (''frequency'', v)"
  using assms
  by (auto simp: EDGE_LABEL_FREQUENCIES_def EDGE_LABEL_FREQUENCY_METHODS_def EDGE_LABEL_SETTERS_def)

lemma aggregate_call_ok:
  assumes "none_or_empty (dget d ''aggregate_type'') \<or>
      (\<exists>s. dget d ''aggregate_type'' = PStr s \<and> s \<noteq> [] \<and> upper s \<in> set PROPERTY_KEY_AGGREGATE_TYPES)"
    and "has_key h ''name''"
  shows "aggregate_call d h = Inr (put_opt ''aggregate_type'' (enum_request d ''aggregate_type'' None) h)"
proof (cases "none_or_empty (dget d ''aggregate_type'')")
  case True
  then show ?thesis by (cases "dget d ''aggregate_type''") (auto simp: aggregate_call_def skip_def enum_request_def)
next
  case False
  with assms(1) obtain s where s: "dget d ''aggregate_type'' = PStr s" "s \<noteq> []" and u: "upper s \<in> set PROPERTY_KEY_AGGREGATE_TYPES"
    by auto
  have r: "enum_request d ''aggregate_type'' None = Some (PStr (upper s))"
    by (simp add: enum_request_def s canonical_enum_value_def)
  show ?thesis
  proof (cases "upper s \<in> set PROPERTY_KEY_DIRECT_AGGREGATE_TYPES")
    case True
    then show ?thesis by (simp add: aggregate_call_def s r SUPPORTED_FIELDS_def SUPPORTED_FIELD_SPECS_def
          set_builder_parameter_ok [where fs = "map fst (snd (SUPPORTED_FIELD_SPECS ! 0))"])
  next
    case direct: False
    with u have "\<exists>m. map_of PROPERTY_KEY_AGGREGATE_METHODS (upper s) = Some m \<and>
        map_of PROPERTY_KEY_SETTERS m = Some (''aggregate_type'', upper s)"
      by (auto simp: PROPERTY_KEY_AGGREGATE_TYPES_def PROPERTY_KEY_DIRECT_AGGREGATE_TYPES_def PROPERTY_KEY_AGGREGATE_METHODS_def
          PROPERTY_KEY_SETTERS_def)
    then show ?thesis using direct assms(2) by (auto simp: aggregate_call_def s r table_call_ok)
  qed
qed

lemma frequency_call_ok:
  assumes "none_or_empty (dget d ''frequency'') \<or>
      (\<exists>s. dget d ''frequency'' = PStr s \<and> s \<noteq> [] \<and> upper s \<in> set EDGE_LABEL_FREQUENCIES)"
    and "has_key h ''name''"
  shows "frequency_call d h = Inr (put_opt ''frequency'' (enum_request d ''frequency'' None) h)"
proof (cases "none_or_empty (dget d ''frequency'')")
  case True
  then show ?thesis by (cases "dget d ''frequency''") (auto simp: frequency_call_def skip_def enum_request_def)
next
  case False
  with assms(1) obtain s where s: "dget d ''frequency'' = PStr s" "s \<noteq> []" "upper s \<in> set EDGE_LABEL_FREQUENCIES"
    by auto
  with frequency_methods [OF s(3)] assms(2) show ?thesis
    by (auto simp: frequency_call_def table_call_ok enum_request_def canonical_enum_value_def)
qed


abbreviation enum_ok :: "py_dict \<Rightarrow> string \<Rightarrow> string list \<Rightarrow> bool" where
  "enum_ok d f allowed \<equiv> none_or_empty (dget d f) \<or> (\<exists>s. dget d f = PStr s \<and> s \<noteq> [] \<and> upper s \<in> set allowed)"

lemma enum_field_valid:
  assumes "snd (enum_field idx d f allowed False dflt) = []"
  shows "enum_ok d f allowed"
  using enum_field_ok [OF assms] by auto

lemma upper_or_ok:
  assumes "enum_ok d f allowed" "upper dflt \<in> set allowed"
  shows "upper_or d f dflt \<in> set allowed"
  using assms by (cases "dget d f") (auto simp: upper_or_def py_or_def)

lemma upper_or_request:
  assumes "enum_ok d f allowed" "canonical_enum_value f (upper dflt) = dflt"
  shows "enum_request d f (Some dflt) = Some (PStr (canonical_enum_value f (upper_or d f dflt)))"
  using assms by (cases "dget d f") (auto simp: upper_or_def py_or_def enum_request_def)

lemma valid_property_key:
  assumes "operation_errors idx live av d = ([], finished)" "operation_type d = ''create_property_key''"
  shows "enum_ok d ''data_type'' PROPERTY_KEY_DATA_TYPES" "\<not> none_or_empty (dget d ''data_type'')"
    "enum_ok d ''cardinality'' PROPERTY_KEY_CARDINALITIES" "enum_ok d ''aggregate_type'' PROPERTY_KEY_AGGREGATE_TYPES"
proof -
  note ok = operation_errors_nil [OF assms(1)]
  from ok(3) assms(2) show required: "\<not> none_or_empty (dget d ''data_type'')"
    by (auto simp: missing_required_def required_of_def REQUIRED_FIELDS_def split: if_splits)
  from ok(8) [OF assms(2)]
  have branch: "snd (enum_field idx d ''data_type'' PROPERTY_KEY_DATA_TYPES True (Some ''TEXT'')) = []"
    "snd (enum_field idx d ''cardinality'' PROPERTY_KEY_CARDINALITIES False (Some ''SINGLE'')) = []"
    "none_or_empty (dget d ''aggregate_type'') \<or> snd (enum_field idx d ''aggregate_type'' PROPERTY_KEY_AGGREGATE_TYPES False None) = []"
    by (auto simp: property_key_branch_def Let_def split: prod.splits if_splits)
  show "enum_ok d ''data_type'' PROPERTY_KEY_DATA_TYPES" using enum_field_ok [OF branch(1)] by auto
  show "enum_ok d ''cardinality'' PROPERTY_KEY_CARDINALITIES" by (rule enum_field_valid [OF branch(2)])
  show "enum_ok d ''aggregate_type'' PROPERTY_KEY_AGGREGATE_TYPES" using branch(3) enum_field_valid by blast
qed

lemma property_key_options_valid:
  assumes "operation_errors idx live av d = ([], finished)" "operation_type d = ''create_property_key''" "has_key h ''name''"
  shows "property_key_options d h = Inr (put_opt ''user_data'' (map_of d ''user_data'')
    (put_opt ''aggregate_type'' (enum_request d ''aggregate_type'' None)
    (put_opt ''cardinality'' (enum_request d ''cardinality'' (Some ''SINGLE''))
    (put_opt ''data_type'' (enum_request d ''data_type'' None) h))))"
proof -
  note v = valid_property_key [OF assms(1,2)]
  from v(1,2) obtain s where s: "dget d ''data_type'' = PStr s" "s \<noteq> []" "upper s \<in> set PROPERTY_KEY_DATA_TYPES" by auto
  then have dt: "upper_or d ''data_type'' ''TEXT'' = upper s"
    "enum_request d ''data_type'' None = Some (PStr (canonical_enum_value ''data_type'' (upper s)))"
    by (simp_all add: upper_or_def py_or_def enum_request_def)
  from data_type_methods [OF s(3)] obtain m where m: "map_of PROPERTY_KEY_DATA_TYPE_METHODS (upper s) = Some m"
    "map_of PROPERTY_KEY_SETTERS m = Some (''data_type'', canonical_enum_value ''data_type'' (upper s))" by blast
  have single: "upper ''SINGLE'' = ''SINGLE''" by code_simp
  have "upper_or d ''cardinality'' ''SINGLE'' \<in> set PROPERTY_KEY_CARDINALITIES"
    using upper_or_ok [OF v(3)] single by (simp add: PROPERTY_KEY_CARDINALITIES_def)
  from cardinality_methods [OF this] obtain m' where m': "map_of PROPERTY_KEY_CARDINALITY_METHODS (upper_or d ''cardinality'' ''SINGLE'') = Some m'"
    "map_of PROPERTY_KEY_SETTERS m' = Some (''cardinality'', upper_or d ''cardinality'' ''SINGLE'')" by blast
  have card: "enum_request d ''cardinality'' (Some ''SINGLE'') = Some (PStr (upper_or d ''cardinality'' ''SINGLE''))"
    using upper_or_request [OF v(3), of "''SINGLE''"] single by (simp add: canonical_enum_value_def)
  show ?thesis using assms(3)
    by (simp add: property_key_options_def Let_def dt card table_call_ok [OF m] table_call_ok [OF m'] aggregate_call_ok [OF v(4)] call_simps)
qed

lemma valid_names:
  assumes "property_reference_errors idx d f known = [] \<or> property_subset_errors idx d f known = []"
  shows "dget d f = PNone \<or> dget d f = PStr [] \<or> is_list (dget d f)"
  using assms
  by (auto simp: property_reference_errors_def property_subset_errors_def get_or_def dget_def split: py.splits option.splits if_splits)


abbreviation listed :: "py_dict \<Rightarrow> string \<Rightarrow> bool" where
  "listed d f \<equiv> dget d f = PNone \<or> dget d f = PStr [] \<or> is_list (dget d f)"

lemma index_labels_valid:
  assumes "index_labels_errors idx d = []"
  shows "non_null d ''index_labels'' = map_of d ''index_labels''"
  using assms by (auto simp: index_labels_errors_def non_null_def dget_def split: option.splits py.splits if_splits)

lemma vertex_label_options_valid:
  assumes "operation_errors idx live av d = ([], finished)" "operation_type d = ''create_vertex_label''" "listed d ''primary_keys''"
    and "has_key h ''name''"
  shows "vertex_label_options d h = Inr (put_opt ''user_data'' (map_of d ''user_data'')
    (put_opt ''index_labels'' (non_null d ''index_labels'')
    (put_opt ''enable_label_index'' (map_of d ''enable_label_index'')
    (put_opt ''nullable_keys'' (non_null d ''nullable_keys'')
    (put_opt ''primary_keys'' (non_null d ''primary_keys'')
    (put_opt ''properties'' (non_null d ''properties'')
    (put_opt ''id_strategy'' (enum_request d ''id_strategy'' (Some ''PRIMARY_KEY'')) h)))))))"
proof -
  note ok = operation_errors_nil [OF assms(1)]
  from ok(9) [OF assms(2)]
  have branch: "snd (enum_field idx d ''id_strategy'' VERTEX_LABEL_ID_STRATEGIES False (Some ''PRIMARY_KEY'')) = []"
    "property_reference_errors idx d ''properties'' (ss_property_keys av) = []"
    "property_subset_errors idx d ''nullable_keys'' (ss_property_keys av) = []"
    by (auto simp: vertex_label_branch_def Let_def split: prod.splits)
  note strategy = enum_field_valid [OF branch(1)]
  have "upper_or d ''id_strategy'' ''PRIMARY_KEY'' \<in> set VERTEX_LABEL_ID_STRATEGIES"
    using upper_or_ok [OF strategy] by (simp add: VERTEX_LABEL_ID_STRATEGIES_def)
  from strategy_methods [OF this] obtain m where m: "map_of VERTEX_LABEL_ID_STRATEGY_METHODS (upper_or d ''id_strategy'' ''PRIMARY_KEY'') = Some m"
    "map_of VERTEX_LABEL_SETTERS m = Some (''id_strategy'', upper_or d ''id_strategy'' ''PRIMARY_KEY'')" by blast
  have request: "enum_request d ''id_strategy'' (Some ''PRIMARY_KEY'') = Some (PStr (upper_or d ''id_strategy'' ''PRIMARY_KEY''))"
    using upper_or_request [OF strategy, of "''PRIMARY_KEY''"] by (simp add: canonical_enum_value_def)
  have lists: "listed d ''properties''" "listed d ''nullable_keys''" using valid_names branch(2,3) by blast+
  show ?thesis using assms(4)
    by (simp add: vertex_label_options_def Let_def request table_call_ok [OF m] star_call_ok [OF lists(1)] star_call_ok [OF lists(2)]
        star_call_ok [OF assms(3)] index_labels_valid [OF ok(7) [OF assms(2)]] call_simps)
qed

lemma link_call_valid:
  assumes "is_identifier (dget d ''source_label'')" "is_identifier (dget d ''target_label'')" "has_key h ''name''"
  shows "link_call d h = Inr (put_opt ''target_label'' (map_of d ''target_label'') (put_opt ''source_label'' (map_of d ''source_label'') h))"
  using assms by (auto simp: link_call_def param_def edge_link_def decorator_params_def add_parameter_def put_opt_def dget_def is_identifier_def
      split: option.splits)

lemma edge_label_options_valid:
  assumes "operation_errors idx live av d = ([], finished)" "operation_type d = ''create_edge_label''" "has_key h ''name''"
  shows "edge_label_options order d h = Inr (put_opt ''user_data'' (map_of d ''user_data'')
    (put_opt ''enable_label_index'' (map_of d ''enable_label_index'')
    (put_opt ''frequency'' (enum_request d ''frequency'' None)
    (put_opt ''sort_keys'' (non_null d ''sort_keys'')
    (put_opt ''nullable_keys'' (map_option (reordered order) (non_null d ''nullable_keys''))
    (put_opt ''properties'' (non_null d ''properties'')
    (put_opt ''target_label'' (map_of d ''target_label'') (put_opt ''source_label'' (map_of d ''source_label'') h))))))))"
proof -
  note ok = operation_errors_nil [OF assms(1)]
  from ok(10) [OF assms(2)]
  have branch: "property_reference_errors idx d ''properties'' (ss_property_keys av) = []"
    "property_subset_errors idx d ''nullable_keys'' (ss_property_keys av) = []"
    "property_subset_errors idx d ''sort_keys'' (ss_property_keys av) = []"
    "none_or_empty (dget d ''frequency'') \<or> snd (enum_field idx d ''frequency'' EDGE_LABEL_FREQUENCIES False None) = []"
    by (auto simp: edge_label_branch_def split: if_splits)
  have frequency: "enum_ok d ''frequency'' EDGE_LABEL_FREQUENCIES" using branch(4) enum_field_valid by blast
  have lists: "listed d ''properties''" "listed d ''nullable_keys''" "listed d ''sort_keys''" using valid_names branch(1-3) by blast+
  have ends: "is_identifier (dget d ''source_label'')" "is_identifier (dget d ''target_label'')"
    using ok(4) assms(2) by (simp_all add: create_type_defs)
  show ?thesis using assms(3)
    by (simp add: edge_label_options_def link_call_valid [OF ends] star_call_ok [OF lists(1)] star_call_ordered [OF lists(2)]
        star_call_ok [OF lists(3)] frequency_call_ok [OF frequency] call_simps)
qed

lemma map_of_pick_present: "map_of (pick_present keys h) f = (if f \<in> set keys then map_of h f else None)"
  by (induction keys) (auto simp: pick_present_def has_key_def dget_def split: option.splits)

lemma P0A_cases:
  assumes "t \<in> set P0A_APPLY_OPERATION_TYPES"
  obtains "t = ''create_property_key''" | "t = ''create_vertex_label''" | "t = ''create_edge_label''"
  using assms by (auto simp: P0A_APPLY_OPERATION_TYPES_def)

lemma all_fields_forwarded:
  assumes "t \<in> set P0A_APPLY_OPERATION_TYPES"
  shows "filter (\<lambda>(f, spec). fs_apply spec \<noteq> apply_none) (field_specs_for_operation t) = field_specs_for_operation t"
  using assms by (elim P0A_cases) (simp_all add: spec_table)

lemma supported_fields_of_types:
  assumes "t \<in> set P0A_APPLY_OPERATION_TYPES"
  shows "map_of SUPPORTED_FIELDS t = Some (map fst (field_specs_for_operation t))"
    "apply_fields_for_operation t = set (map fst (field_specs_for_operation t))" "field_specs_for_operation t \<noteq> []"
proof -
  show "map_of SUPPORTED_FIELDS t = Some (map fst (field_specs_for_operation t))"
    using assms by (elim P0A_cases) (simp_all add: SUPPORTED_FIELDS_def spec_table)
  show "apply_fields_for_operation t = set (map fst (field_specs_for_operation t))"
    by (simp add: apply_fields_for_operation_def all_fields_forwarded [OF assms])
  show "field_specs_for_operation t \<noteq> []"
    using assms by (elim P0A_cases) (simp_all add: spec_table)
qed

lemma valid_forwardable:
  assumes "operation_errors idx live av d = ([], finished)" "operation_type d \<in> set P0A_APPLY_OPERATION_TYPES"
  shows "forwardable d"
proof -
  note ok = operation_errors_nil [OF assms(1)] and table = supported_fields_of_types [OF assms(2)]
  have parent: "f \<notin> set (map fst d)" if "operation_type d = ''create_edge_label''" "f \<in> set UNSUPPORTED_EDGE_LABEL_FIELDS" for f
    using ok(10) [OF that(1)] that(2) by (auto simp: edge_label_branch_def parent_field_errors_def Let_def filter_empty_conv has_key_iff split: if_splits)
  have "\<forall>f \<in> set (map fst d). f \<in> set (map fst (field_specs_for_operation (operation_type d)))"
    using ok(5) parent by (auto simp: supported_field_errors_def table filter_empty_conv Let_def split: if_splits)
  then show ?thesis unfolding forwardable_def by (force simp: table)
qed


definition create_path :: "string \<Rightarrow> string" where
  "create_path t = (if t = ''create_property_key'' then ''schema/propertykeys''
     else if t = ''create_vertex_label'' then ''schema/vertexlabels'' else ''schema/edgelabels'')"

text \<open>The answer to the one request of a create.\<close>

definition posted :: "'b schema_env \<Rightarrow> string \<Rightarrow> py_dict \<Rightarrow> 'b \<Rightarrow> (hg_exception + unit) \<times> 'b" where
  "posted env path body b = (case se_session env (plain_request ''POST'' path (Some (PDict body))) b of
      (Inl e, b') \<Rightarrow> (Inl e, b') | (Inr r, b') \<Rightarrow> (Inr (), b'))"

lemma start_call:
  "property_key n = put_opt ''not_exist'' (Some (PBool True)) (put_opt ''name'' (Some n) [])"
  "vertex_label n = put_opt ''not_exist'' (Some (PBool True)) (put_opt ''name'' (Some n) [])"
  "edge_label n = put_opt ''not_exist'' (Some (PBool True)) (put_opt ''name'' (Some n) [])"
  by (simp_all add: property_key_def vertex_label_def edge_label_def put_opt_def add_parameter_def)

lemma created_by_post:
  assumes "map_of h ''not_exist'' = Some (PBool True)" "map_of h ''name'' = Some n"
  shows "create_property_key send h b = send_and_report send (plain_request ''POST'' ''schema/propertykeys'' (Some (property_key_body h n)))
      (plain_detail ''create PropertyKey'') (PStr []) [] b"
    "create_vertex_label send h b = send_and_report send
      (plain_request ''POST'' ''schema/vertexlabels'' (Some (PDict (pick_present VERTEX_LABEL_KEYS h)))) (quoted_detail ''create VertexLabel'') (PStr []) [] b"
    "create_edge_label send h b = send_and_report send
      (plain_request ''POST'' ''schema/edgelabels'' (Some (PDict (pick_present EDGE_LABEL_KEYS h)))) (quoted_detail ''create EdgeLabel'') PNone [] b"
  using assms by (simp_all add: create_property_key_def create_vertex_label_def create_edge_label_def decorator_create_def get_value_def dget_def
      param_def clean_parameter_holder_def)

text \<open>The body for a property key leaves empty user data out.\<close>

lemma map_of_property_key_body:
  assumes "property_key_body h n = PDict body"
  shows "map_of body f = (if f = ''name'' then Some n
     else if f \<in> {''data_type'', ''cardinality'', ''aggregate_type''} then map_of h f
     else if f = ''user_data'' \<and> truthy (dget h f) then Some (dget h f) else None)"
proof -
  have body: "body = (''name'', n) # pick_present [''data_type'', ''cardinality'', ''aggregate_type''] h
     @ (if truthy (dget h ''user_data'') then [(''user_data'', dget h ''user_data'')] else [])"
    using assms by (simp add: property_key_body_def)
  show ?thesis unfolding body by (cases "map_of h f") (simp_all add: map_of_pick_present map_add_def)
qed

lemma is_dict_iff: "is_dict v \<longleftrightarrow> (\<exists>d. v = PDict d)"
  by (cases v) auto

lemma spec_fields:
  "fst ` set (field_specs_for_operation ''create_property_key'') \<subseteq> {''type'', ''name'', ''data_type'', ''cardinality'', ''aggregate_type'', ''user_data''}"
  "fst ` set (field_specs_for_operation ''create_vertex_label'') \<subseteq> insert ''type'' (set VERTEX_LABEL_KEYS)"
  "fst ` set (field_specs_for_operation ''create_edge_label'') \<subseteq> insert ''type'' (set EDGE_LABEL_KEYS)"
  by (simp_all add: spec_table VERTEX_LABEL_KEYS_def EDGE_LABEL_KEYS_def)

lemma requested_outside:
  assumes "fst ` set (field_specs_for_operation (operation_type d)) \<subseteq> insert ''type'' keys" "f \<notin> keys"
    "operation_type d \<in> set P0A_APPLY_OPERATION_TYPES"
  shows "requested order d f = None"
proof (cases "f = ''type''")
  case True
  show ?thesis using assms(3) unfolding True by (cases rule: P0A_cases) (simp_all add: requested_def spec_table)
next
  case False
  then have "map_of (field_specs_for_operation (operation_type d)) f = None" using assms(1,2) by (auto simp: map_of_eq_None_iff)
  then show ?thesis by (simp add: requested_def)
qed

lemma property_key_sent:
  assumes "operation_errors idx live av d = ([], finished)" "operation_type d = ''create_property_key''"
  shows "\<exists>body. apply_one_operation env d b = posted env (create_path (operation_type d)) body b \<and> map_of body = requested (se_order env) d"
proof -
  obtain s where name: "map_of d ''name'' = Some (PStr s)" using identified [OF assms(1)] by (auto simp: dget_def split: option.splits)
  have supported: "operation_type d \<in> set P0A_APPLY_OPERATION_TYPES" by (simp add: assms(2) P0A_APPLY_OPERATION_TYPES_def)
  note fw = valid_forwardable [OF assms(1) this]
  have "has_key (property_key (PStr s)) ''name''" by (simp add: start_call)
  note options = property_key_options_valid [OF assms this]
  let ?h = "put_opt ''user_data'' (map_of d ''user_data'') (put_opt ''aggregate_type'' (enum_request d ''aggregate_type'' None)
    (put_opt ''cardinality'' (enum_request d ''cardinality'' (Some ''SINGLE''))
    (put_opt ''data_type'' (enum_request d ''data_type'' None) (property_key (PStr s)))))"
  have h: "map_of ?h ''not_exist'' = Some (PBool True)" "map_of ?h ''name'' = Some (PStr s)" by (simp_all add: start_call)
  obtain body where body: "property_key_body ?h (PStr s) = PDict body" by (simp add: property_key_body_def)
  have user: "map_of d ''user_data'' = None \<or> is_dict (dget d ''user_data'')"
    using operation_errors_nil(6) [OF assms(1)]
    by (auto simp: shape_errors_def assms(2) spec_table user_data_errors_def dget_def split: option.splits py.splits)
  have "apply_one_operation env d b = posted env ''schema/propertykeys'' body b"
    using name by (auto simp: apply_one_operation_def built_def fw assms(2) param_def options Let_def created_by_post(1) [OF h] body
        send_and_report_def posted_def split: prod.splits sum.splits)
  moreover have "map_of body f = requested (se_order env) d f" for f
  proof -
    let ?fields = "{''name'', ''data_type'', ''cardinality'', ''aggregate_type'', ''user_data''}"
    show ?thesis
    proof (cases "f \<in> ?fields")
      case True
      have "map_of body ''user_data'' = requested (se_order env) d ''user_data''" using user
        by (cases "map_of d ''user_data''")
          (auto simp: map_of_property_key_body [OF body] requested_def assms(2) spec_table start_call dget_def is_dict_iff)
      moreover have "map_of body ''name'' = requested (se_order env) d ''name''" "map_of body ''data_type'' = requested (se_order env) d ''data_type''"
        "map_of body ''cardinality'' = requested (se_order env) d ''cardinality''"
        "map_of body ''aggregate_type'' = requested (se_order env) d ''aggregate_type''" using name
        by (simp_all add: map_of_property_key_body [OF body] requested_def assms(2) spec_table start_call)
      ultimately show ?thesis using True unfolding insert_iff empty_iff by (elim disjE) (simp_all only: simp_thms)
    next
      case False
      then have "map_of body f = None" unfolding map_of_property_key_body [OF body] by (simp only: insert_iff empty_iff de_Morgan_disj if_False simp_thms)
      moreover have "requested (se_order env) d f = None"
        by (rule requested_outside [OF spec_fields(1) [folded assms(2)] False supported])
      ultimately show ?thesis by simp
    qed
  qed
  ultimately show ?thesis by (auto simp: create_path_def assms(2))
qed


lemma map_of_name:
  assumes "operation_errors idx live av d = ([], finished)"
  shows "\<exists>s. map_of d ''name'' = Some (PStr s)"
  using identified [OF assms] by (auto simp: dget_def split: option.splits)

lemma vertex_label_sent:
  assumes "operation_errors idx live av d = ([], finished)" "operation_type d = ''create_vertex_label''" "listed d ''primary_keys''"
  shows "\<exists>body. apply_one_operation env d b = posted env (create_path (operation_type d)) body b \<and> map_of body = requested (se_order env) d"
proof -
  obtain s where name: "map_of d ''name'' = Some (PStr s)" using map_of_name [OF assms(1)] by blast
  have supported: "operation_type d \<in> set P0A_APPLY_OPERATION_TYPES" by (simp add: assms(2) P0A_APPLY_OPERATION_TYPES_def)
  note fw = valid_forwardable [OF assms(1) this]
  have "has_key (vertex_label (PStr s)) ''name''" by (simp add: start_call)
  note options = vertex_label_options_valid [OF assms this]
  obtain h where opt: "vertex_label_options d (vertex_label (PStr s)) = Inr h" and h_def: "h = put_opt ''user_data'' (map_of d ''user_data'')
    (put_opt ''index_labels'' (non_null d ''index_labels'')
    (put_opt ''enable_label_index'' (map_of d ''enable_label_index'')
    (put_opt ''nullable_keys'' (non_null d ''nullable_keys'')
    (put_opt ''primary_keys'' (non_null d ''primary_keys'')
    (put_opt ''properties'' (non_null d ''properties'')
    (put_opt ''id_strategy'' (enum_request d ''id_strategy'' (Some ''PRIMARY_KEY'')) (vertex_label (PStr s))))))))"
    using options by blast
  have h: "map_of h ''not_exist'' = Some (PBool True)" "map_of h ''name'' = Some (PStr s)" by (simp_all add: h_def start_call)
  have "apply_one_operation env d b = posted env ''schema/vertexlabels'' (pick_present VERTEX_LABEL_KEYS h) b"
    using name by (auto simp: apply_one_operation_def built_def fw assms(2) param_def opt Let_def created_by_post(2) [OF h]
        send_and_report_def posted_def split: prod.splits sum.splits)
  moreover have "map_of (pick_present VERTEX_LABEL_KEYS h) f = requested (se_order env) d f" for f
  proof (cases "f \<in> set VERTEX_LABEL_KEYS")
    case True
    then show ?thesis unfolding VERTEX_LABEL_KEYS_def list.set insert_iff empty_iff
      by (elim disjE) (simp_all add: map_of_pick_present h_def requested_def assms(2) spec_table start_call name)
  next
    case False
    then show ?thesis using requested_outside [OF spec_fields(2) [folded assms(2)] False]
      by (simp only: map_of_pick_present if_False supported)
  qed
  ultimately show ?thesis by (auto simp: create_path_def assms(2))
qed

lemma edge_label_sent:
  assumes "operation_errors idx live av d = ([], finished)" "operation_type d = ''create_edge_label''"
  shows "\<exists>body. apply_one_operation env d b = posted env (create_path (operation_type d)) body b \<and> map_of body = requested (se_order env) d"
proof -
  obtain s where name: "map_of d ''name'' = Some (PStr s)" using map_of_name [OF assms(1)] by blast
  have supported: "operation_type d \<in> set P0A_APPLY_OPERATION_TYPES" by (simp add: assms(2) P0A_APPLY_OPERATION_TYPES_def)
  note fw = valid_forwardable [OF assms(1) this]
  have "has_key (edge_label (PStr s)) ''name''" by (simp add: start_call)
  note options = edge_label_options_valid [OF assms this, of "se_order env"]
  obtain h where opt: "edge_label_options (se_order env) d (edge_label (PStr s)) = Inr h" and h_def: "h = put_opt ''user_data'' (map_of d ''user_data'')
    (put_opt ''enable_label_index'' (map_of d ''enable_label_index'')
    (put_opt ''frequency'' (enum_request d ''frequency'' None)
    (put_opt ''sort_keys'' (non_null d ''sort_keys'')
    (put_opt ''nullable_keys'' (map_option (reordered (se_order env)) (non_null d ''nullable_keys''))
    (put_opt ''properties'' (non_null d ''properties'')
    (put_opt ''target_label'' (map_of d ''target_label'') (put_opt ''source_label'' (map_of d ''source_label'') (edge_label (PStr s)))))))))"
    using options by blast
  have h: "map_of h ''not_exist'' = Some (PBool True)" "map_of h ''name'' = Some (PStr s)" by (simp_all add: h_def start_call)
  have "apply_one_operation env d b = posted env ''schema/edgelabels'' (pick_present EDGE_LABEL_KEYS h) b"
    using name by (auto simp: apply_one_operation_def built_def fw assms(2) param_def opt Let_def created_by_post(3) [OF h]
        send_and_report_def posted_def split: prod.splits sum.splits)
  moreover have "map_of (pick_present EDGE_LABEL_KEYS h) f = requested (se_order env) d f" for f
  proof (cases "f \<in> set EDGE_LABEL_KEYS")
    case True
    then show ?thesis unfolding EDGE_LABEL_KEYS_def list.set insert_iff empty_iff
      by (elim disjE) (simp_all add: map_of_pick_present h_def requested_def assms(2) spec_table start_call name)
  next
    case False
    then show ?thesis using requested_outside [OF spec_fields(3) [folded assms(2)] False]
      by (simp only: map_of_pick_present if_False supported)
  qed
  ultimately show ?thesis by (auto simp: create_path_def assms(2))
qed

lemma single_valid:
  assumes "validate_schema_operations (PList [PDict d]) live = Inr v" "sv_valid v"
  shows "operation_errors 0 (live_sets live) (live_sets live) d = ([], True)"
proof -
  from assms have "fst (operation_errors 0 (live_sets live) (live_sets live) d) = []"
    by (auto simp: validate_schema_operations_def res_simps split: prod.splits)
  then obtain finished where "operation_errors 0 (live_sets live) (live_sets live) d = ([], finished)" by (metis prod.collapse)
  with operation_errors_nil(1) [OF this] show ?thesis by simp
qed


text \<open>A server that answers every request, and keeps the requests as its state.\<close>

definition recording_env :: "(http_request list) schema_env" where
  "recording_env = \<lparr>se_cfg = demo_config, se_manager = None, se_session = (\<lambda>rq b. (Inr (PDict [(''id'', PInt 1)]), b @ [rq])),
     se_read = (\<lambda>b. (Inr (PDict []), b)), se_order = rev, se_now = 0\<rparr>"

definition age_create :: py_dict where
  "age_create = [(''type'', PStr ''create_property_key''), (''name'', PStr ''age''), (''data_type'', PStr ''integer'')]"

lemma age_create_valid: "validate_schema_operations (PList [PDict age_create]) (PDict []) = Inr \<lparr>sv_errors = [], sv_warnings = []\<rparr>"
  by code_simp


section \<open>At most one request, and only for a missing object\<close>

text \<open>The same surroundings, with a record of the requests.\<close>

definition traced_env :: "'b schema_env \<Rightarrow> ('b \<times> http_request list) schema_env" where
  "traced_env env = \<lparr>se_cfg = se_cfg env, se_manager = se_manager env,
     se_session = (\<lambda>rq (b, rqs). let (r, b') = se_session env rq b in (r, (b', rqs @ [rq]))),
     se_read = (\<lambda>(b, rqs). let (r, b') = se_read env b in (r, (b', rqs))), se_order = se_order env, se_now = se_now env\<rparr>"

lemma send_and_report_traced:
  assumes "send_and_report (se_session (traced_env env)) rq done otherwise spent (b, rqs) = (r, h, (b', rqs'))"
  shows "rqs' = rqs @ [rq]"
  using assms by (auto simp: send_and_report_def traced_env_def split: prod.splits sum.splits)

lemma created_traced:
  assumes "built (traced_env env) d = Inr (h, create)" "create h (b, rqs) = (r, h', (b', rqs'))"
  shows "rqs' = rqs \<or> (\<exists>rq. rqs' = rqs @ [rq] \<and> rq_method rq = ''POST'')"
  using assms
  by (auto simp: built_def Let_def create_property_key_def create_vertex_label_def create_edge_label_def decorator_create_def plain_request_def
      dest!: send_and_report_traced split: if_splits sum.splits)

lemma apply_one_traced:
  assumes "apply_one_operation (traced_env env) d (b, rqs) = (r, (b', rqs'))"
  shows "rqs' = rqs \<or> (\<exists>rq. rqs' = rqs @ [rq] \<and> rq_method rq = ''POST'')"
  using assms created_traced by (fastforce simp: apply_one_operation_def split: prod.splits sum.splits)

lemma attempt_traced:
  assumes "attempt_create (traced_env env) d (b, rqs) = (r, (b', rqs'))"
  shows "rqs' = rqs \<or> (\<exists>rq. rqs' = rqs @ [rq] \<and> rq_method rq = ''POST'')"
proof (cases "se_manager (traced_env env)")
  case None
  obtain q b1 rqs1 where one: "apply_one_operation (traced_env env) d (b, rqs) = (q, (b1, rqs1))" by (metis prod.exhaust)
  then have "rqs1 = rqs'" using assms None by (auto simp: attempt_create_def traced_env_def split: sum.splits prod.splits)
  then show ?thesis using apply_one_traced [OF one] by simp
qed (use assms in \<open>auto simp: attempt_create_def\<close>)

text \<open>Applying a schema create makes at most one request, a POST, and only when the live schema holds no object of that
  kind and name.\<close>

lemma schema_create_sent:
  assumes "apply_create (traced_env env) d live (b, rqs) = (r, (b', rqs'))"
  shows "rqs' = rqs \<or> (\<exists>rq. rqs' = rqs @ [rq] \<and> rq_method rq = ''POST'' \<and> schema_object_state d live = Missing_Object)"
proof (cases "schema_object_state d live")
  case Missing_Object
  obtain q b1 rqs1 where att: "attempt_create (traced_env env) d (b, rqs) = (q, (b1, rqs1))" by (metis prod.exhaust)
  then have "rqs1 = rqs'" using assms Missing_Object by (auto simp: apply_create_def split: sum.splits prod.splits)
  then show ?thesis using attempt_traced [OF att] Missing_Object by auto
qed (use assms in \<open>auto simp: apply_create_def\<close>)

section \<open>Fields that never match\<close>

text \<open>A list field that is null passes validation and is not sent, but the comparison after the create asks the server
  for it.\<close>

lemma null_list_never_identical:
  assumes "map_of d f = Some PNone" "map_of (field_specs_for_operation (operation_type d)) f = Some spec" "fs_kind spec = list_field"
    and "f \<noteq> ''type''" "f \<noteq> ''name''"
  shows "schema_object_state d live \<noteq> Identical_Object it"
proof -
  have "f \<in> set (compared_fields d)"
    using assms by (force simp: compared_fields_def has_key_def dest: map_of_SomeD)
  moreover have "\<not> supported_field_matches (operation_type d) f d observed" for observed
    using assms by (auto simp: supported_field_matches_def list_field_matches_def has_key_def dget_def split: py.splits option.splits)
  ultimately have "\<not> operation_fields_match d observed" for observed
    by (auto simp: operation_fields_match_def list_all_iff split: option.splits)
  then show ?thesis by (auto simp: schema_object_state_def split: option.splits)
qed

text \<open>A create with a null list field is never reported as applied, whatever the server does: the field is not sent,
  and no answer of the server matches it.\<close>

theorem null_list_never_applied:
  assumes "map_of d f = Some PNone" "map_of (field_specs_for_operation (operation_type d)) f = Some spec" "fs_kind spec = list_field"
    and "f \<noteq> ''type''" "f \<noteq> ''name''"
  shows "rc_status (fst (fst (apply_create env d live b))) \<in> {ApplyStatus.UNKNOWN, ApplyStatus.CONFLICT}"
  using null_list_never_identical [OF assms]
  by (auto simp: apply_create_def legacy_receipt_def split: object_state.splits prod.splits sum.splits)

definition nullable_create :: py_dict where
  "nullable_create = [(''type'', PStr ''create_vertex_label''), (''name'', PStr ''person''), (''id_strategy'', PStr ''AUTOMATIC''),
     (''properties'', PNone)]"

lemma nullable_create_valid:
  "validate_schema_operations (PList [PDict nullable_create]) (PDict []) =
    Inr \<lparr>sv_errors = [], sv_warnings = [''operation 0 (create_vertex_label) has no primary_keys definition'']\<rparr>"
  by code_simp

theorem null_list_never_applied_witness:
  "rc_status (fst (fst (apply_create recording_env nullable_create (PDict []) []))) \<in> {ApplyStatus.UNKNOWN, ApplyStatus.CONFLICT}"
proof -
  have f: "map_of nullable_create ''properties'' = Some PNone" by code_simp
  have t: "operation_type nullable_create = ''create_vertex_label''" by code_simp
  have s: "map_of (field_specs_for_operation (operation_type nullable_create)) ''properties'' =
      Some (schema_field [''properties''] list_field None True apply_typed)"
    by (simp add: t field_specs_for_operation_def SUPPORTED_FIELD_SPECS_def)
  show ?thesis by (rule null_list_never_applied [OF f s]) (simp_all add: schema_field_def)
qed

end
