(* ===== verification/Schema_Plans.thy ===== *)
theory Schema_Plans
  imports Schema_Forwarding
begin

text \<open>
  Model of \<open>hugegraph_mcp/tools/schema_write_adapter.py\<close>: the canonical plan of one schema create, the adapter with
  which the executor performs it, and the reader of the reconciler.
\<close>

section \<open>The plan\<close>

definition CREATE_SCHEMA :: string where "CREATE_SCHEMA = ''CREATE_SCHEMA''"

text \<open>\<open>fresh\<close> is the new random identifier, \<open>now\<close> the time; the context is that of the dry run.\<close>

definition compile_schema_write_plan ::
  "(string \<Rightarrow> string) \<Rightarrow> string \<Rightarrow> int \<Rightarrow> PlanContext \<Rightarrow> py \<Rightarrow> py_dict \<Rightarrow> WritePlan res" where
  "compile_schema_write_plan sha fresh now ctx live d =
     and_then (key_val d ''type'') (\<lambda>ty.
     and_then (key_val d ''name'') (\<lambda>nm.
       (let plan_id = ''wp_'' @ fresh;
            target = [(''schema_kind'', PStr (py_str ty)), (''name'', PStr (py_str nm)), (''operation'', PDict d)];
            desired = [(''exists'', PBool True), (''schema_kind'', PStr (py_str ty)), (''name'', PStr (py_str nm)), (''operation'', PDict d)]
        in and_then (mk_operation_plan (plan_id @ '':op:0000'') CREATE_SCHEMA (PDict target) (PDict absent) (PDict desired) []
             (Some (write_digest sha (PDict target)))) (\<lambda>o'.
           mk_write_plan \<lparr>wp_id = plan_id, wp_tool = ''apply_schema_tool'',
             wp_target = \<lparr>gt_url = pc_url ctx, gt_name = pc_graph ctx, gt_space = Some (pc_space ctx)\<rparr>,
             wp_principal = pc_principal ctx, wp_operations = [o'],
             wp_digest = write_digest sha (PDict [(''operations'', PList [PDict d])]),
             wp_fingerprint = Some (write_digest sha (normalized_schema_summary False live)), wp_status = ISSUED,
             wp_created_at = now, wp_expires_at = max (now + 1) (pc_expires ctx)\<rparr>))))"

section \<open>The adapter\<close>

fun schema_reason_code :: "ApplyStatus \<Rightarrow> string" where
  "schema_reason_code ApplyStatus.APPLIED = ''SCHEMA_CREATED''"
| "schema_reason_code ApplyStatus.ALREADY_APPLIED = ''SCHEMA_ALREADY_APPLIED''"
| "schema_reason_code ApplyStatus.CONFLICT = ''SCHEMA_OBJECT_CONFLICT''"
| "schema_reason_code ApplyStatus.UNKNOWN = ''SCHEMA_CREATE_OUTCOME_UNKNOWN''"
| "schema_reason_code st = apply_value st"

definition schema_receipt ::
  "'b schema_env \<Rightarrow> WritePlan \<Rightarrow> OperationPlan \<Rightarrow> int \<Rightarrow> ApplyStatus \<Rightarrow> py_dict option \<Rightarrow> string \<Rightarrow> bool \<Rightarrow> bool \<Rightarrow> ApplyReceipt res" where
  "schema_receipt env plan o' attempt st observed rcode needs_reconcile committed =
     mk_receipt \<lparr>rc_status = st, rc_plan_id = Some (wp_id plan), rc_operation_id = Some (op_id o'), rc_observed = observed,
       rc_reason_code = Some rcode, rc_attempt = attempt, rc_attempt_token = None, rc_reconcile = needs_reconcile,
       rc_committed_at = (if committed then Some (se_now env) else None), rc_operation = None, rc_reason = None\<rparr>"

text \<open>\<open>operation.to_dict()["target"]["operation"]\<close>.\<close>

definition raw_operation :: "OperationPlan \<Rightarrow> py_dict res" where
  "raw_operation o' = and_then (key_val (map (\<lambda>(k, v). (k, thaw v)) (op_target o')) ''operation'') py_items"

text \<open>The receipt of the apply, as the dictionary through which the adapter reads it.\<close>

definition observed_dict :: "ApplyReceipt \<Rightarrow> py_dict option" where
  "observed_dict r = (case thaw_opt (rc_observed r) of PDict m \<Rightarrow> Some m | _ \<Rightarrow> None)"

definition named_result :: "'a res \<Rightarrow> string + 'a" where
  "named_result r = (case r of Inl e \<Rightarrow> Inl (exc_name e) | Inr x \<Rightarrow> Inr x)"

definition apply_planned :: "'b schema_env \<Rightarrow> WritePlan \<Rightarrow> OperationPlan \<Rightarrow> int \<Rightarrow> py_dict \<Rightarrow> py \<Rightarrow> 'b \<Rightarrow> (string + ApplyReceipt) \<times> 'b" where
  "apply_planned env plan o' attempt raw live b =
     (let ((r, shown_schema), b') = apply_create env raw live b; st = rc_status r in
      (named_result (schema_receipt env plan o' attempt st (observed_dict r) (schema_reason_code st)
         (st = ApplyStatus.UNKNOWN) (st = ApplyStatus.APPLIED)), b'))"

definition schema_create_adapter :: "'b schema_env \<Rightarrow> 'b adapter" where
  "schema_create_adapter env plan o' attempt b =
     (if \<not> target_matches (se_cfg env) plan then
        (named_result (schema_receipt env plan o' attempt ApplyStatus.REJECTED (Some [(''target_matches'', PBool False)]) ''TARGET_CHANGED'' False False), b)
      else if guard SCHEMA_WRITE (se_cfg env) \<noteq> None then
        (named_result (schema_receipt env plan o' attempt ApplyStatus.REJECTED (Some [(''write_allowed'', PBool False)]) ''READONLY_VIOLATION'' False False), b)
      else case raw_operation o' of
        Inl e \<Rightarrow> (Inl (exc_name e), b)
      | Inr raw \<Rightarrow> (case se_read env b of
          (Inl (n, e), b') \<Rightarrow> (Inl n, b')
        | (Inr live, b') \<Rightarrow> apply_planned env plan o' attempt raw live b'))"

section \<open>The reader\<close>

text \<open>An exception of reading the schema leaves the reader; its type is not saved.\<close>

definition schema_reconcile_reader :: "'b schema_env \<Rightarrow> 'b reader" where
  "schema_reconcile_reader env plan o' b = (case raw_operation o' of
      Inl e \<Rightarrow> (Inl e, b)
    | Inr raw \<Rightarrow> (case se_read env b of
        (Inl (n, e), b') \<Rightarrow> (Inl (RuntimeError e), b')
      | (Inr live, b') \<Rightarrow> (case schema_object_state raw live of
          Identical_Object it \<Rightarrow> (Inr (op_desired o'), b')
        | Missing_Object \<Rightarrow> (Inr (op_expected o'), b')
        | Conflicting_Object it \<Rightarrow>
            (and_then (key_val (op_target o') ''schema_kind'') (\<lambda>kind. and_then (key_val (op_target o') ''name'') (\<lambda>nm.
               Inr [(''exists'', PBool True), (''schema_kind'', kind), (''name'', nm), (''conflicting_object'', PDict it)])), b'))))"

definition register_schema_write_adapters :: "'b schema_env \<Rightarrow> 'b registry \<Rightarrow> 'b registry res" where
  "register_schema_write_adapters env reg = register_adapter CREATE_SCHEMA (schema_create_adapter env) reg"

definition register_schema_reconcile_readers :: "'b schema_env \<Rightarrow> 'b readers \<Rightarrow> 'b readers res" where
  "register_schema_reconcile_readers env rs = register_reader CREATE_SCHEMA (schema_reconcile_reader env) rs"

section \<open>The plan keeps the operation\<close>

lemma compiled_operation:
  assumes "compile_schema_write_plan sha fresh now ctx live d = Inr plan"
  shows "\<exists>o' ty nm. wp_operations plan = [o'] \<and>
    op_target o' = [(''schema_kind'', freeze (PStr ty)), (''name'', freeze (PStr nm)), (''operation'', freeze (PDict d))]"
  using assms
  by (auto simp: compile_schema_write_plan_def mk_operation_plan_def mk_write_plan_def freeze_mapping_def Let_def res_simps
      split: if_splits sum.splits)

text \<open>The plan of a schema create holds one operation, and the operation that the adapter and the reconciler take out of
  the stored plan is the one that was confirmed.\<close>

theorem schema_plan_keeps_the_operation:
  assumes "compile_schema_write_plan sha fresh now ctx live d = Inr plan" "json_value (PDict d)"
  shows "\<exists>o'. wp_operations plan = [o'] \<and> raw_operation o' = Inr d"
proof -
  obtain o' ty nm where o': "wp_operations plan = [o']"
    "op_target o' = [(''schema_kind'', freeze (PStr ty)), (''name'', freeze (PStr nm)), (''operation'', freeze (PDict d))]"
    using compiled_operation [OF assms(1)] by blast
  have "thaw (freeze (PDict d)) = PDict d" by (rule thaw_freeze [OF assms(2)])
  then have "raw_operation o' = Inr d" by (simp add: raw_operation_def o'(2) key_val_def)
  then show ?thesis using o'(1) by blast
qed

section \<open>A small server\<close>

text \<open>A server on which the property key is missing or there, and a plan that creates it.\<close>

definition age_keys :: "bool \<Rightarrow> py" where
  "age_keys b = PDict [(''propertykeys'', PList (if b then
     [PDict [(''name'', PStr ''age''), (''data_type'', PStr ''INT''), (''cardinality'', PStr ''SINGLE'')]] else []))]"

definition age_env :: "bool schema_env" where
  "age_env = \<lparr>se_cfg = demo_config, se_manager = None, se_session = (\<lambda>rq b. (Inr (PDict [(''id'', PInt 1)]), True)),
     se_read = (\<lambda>b. (Inr (age_keys b), b)),
     se_order = rev, se_now = 7\<rparr>"

definition age_plan :: "WritePlan res" where
  "age_plan = compile_schema_write_plan (\<lambda>t. ''h'') ''1'' 100 demo_context (PDict []) age_create"

definition planned_create :: "WritePlan \<times> OperationPlan" where
  "planned_create = (projr age_plan, hd (wp_operations (projr age_plan)))"

definition age_created :: "(string + ApplyReceipt) \<times> bool" where
  "age_created = schema_create_adapter age_env (fst planned_create) (snd planned_create) 1 False"

theorem schema_plan_keeps_the_operation_witness:
  "\<exists>o'. wp_operations (fst planned_create) = [o'] \<and> raw_operation o' = Inr age_create"
proof -
  have "\<not> isl age_plan" by code_simp
  then have plan: "compile_schema_write_plan (\<lambda>t. ''h'') ''1'' 100 demo_context (PDict []) age_create = Inr (fst planned_create)"
    by (simp add: planned_create_def age_plan_def [symmetric])
  have "json_value (PDict age_create)" by code_simp
  from schema_plan_keeps_the_operation [OF plan this] show ?thesis .
qed

section \<open>The adapter\<close>

lemma se_read_traced: "se_read (traced_env env) (b, rqs) = (case se_read env b of (r, b') \<Rightarrow> (r, (b', rqs)))"
  by (simp add: traced_env_def split: prod.splits)



section \<open>The reader agrees with the adapter\<close>

lemma schema_receipt_status:
  "named_result (schema_receipt env plan o' attempt st observed rcode nr cm) = Inr r \<Longrightarrow> rc_status r = st"
  by (auto simp: named_result_def schema_receipt_def mk_receipt_def split: if_splits)

lemma attempt_read:
  assumes "attempt_create env d b = (Inr live, b')" "\<forall>b. se_read env b = (Inr (seen b), b)"
  shows "live = seen b'"
  using assms by (auto simp: attempt_create_def split: option.splits sum.splits prod.splits)

lemma apply_create_success:
  assumes "apply_create env d (seen b) b = ((r, x), b')" "\<forall>b. se_read env b = (Inr (seen b), b)" "is_success (rc_status r)"
  shows "\<exists>it. schema_object_state d (seen b') = Identical_Object it"
  using assms attempt_read [OF _ assms(2), of d b]
  by (auto simp: apply_create_def legacy_receipt_def is_success_def split: object_state.splits prod.splits sum.splits)

text \<open>C35. When reading the schema is reliable, a create that the adapter reports as applied or already applied is found by the
  reader of the reconciler: it reads exactly the desired state of the operation.\<close>

theorem schema_reader_agrees_with_adapter:
  assumes "\<forall>b. se_read env b = (Inr (seen b), b)"
    and "schema_create_adapter env plan o' attempt b = (Inr r, b')" "is_success (rc_status r)"
  shows "schema_reconcile_reader env plan o' b' = (Inr (op_desired o'), b')"
proof -
  have "rc_status r \<noteq> ApplyStatus.REJECTED" using assms(3) by (auto simp: is_success_def)
  then obtain raw where raw: "raw_operation o' = Inr raw" and run: "apply_planned env plan o' attempt raw (seen b) b = (Inr r, b')"
    using assms(2) by (auto simp: schema_create_adapter_def assms(1) split: if_splits sum.splits dest: schema_receipt_status)
  obtain q x where q: "apply_create env raw (seen b) b = ((q, x), b')" and "rc_status r = rc_status q"
    using run by (auto simp: apply_planned_def Let_def dest: schema_receipt_status split: prod.splits)
  then have "is_success (rc_status q)" using assms(3) by simp
  from apply_create_success [OF q assms(1) this] show ?thesis
    by (auto simp: schema_reconcile_reader_def raw assms(1))
qed

theorem schema_reader_agrees_with_adapter_witness:
  "snd age_created \<and> schema_reconcile_reader age_env (fst planned_create) (snd planned_create) (snd age_created) =
    (Inr (op_desired (snd planned_create)), snd age_created)"
proof -
  have run: "case age_created of (Inr r, b) \<Rightarrow> b \<and> is_success (rc_status r) | _ \<Rightarrow> False" by code_simp
  obtain q b where c: "age_created = (q, b)" by (cases age_created)
  from run have ok: "snd age_created" unfolding c by (cases q) simp_all
  obtain r where r: "fst age_created = Inr r" "is_success (rc_status r)" using run unfolding c by (cases q) simp_all
  have rd: "\<forall>b. se_read age_env b = (Inr (age_keys b), b)" by (simp add: age_env_def)
  have "schema_create_adapter age_env (fst planned_create) (snd planned_create) 1 False = (Inr r, snd age_created)"
    using r(1) unfolding age_created_def by (metis prod.collapse)
  from schema_reader_agrees_with_adapter [OF rd this r(2)] ok show ?thesis by simp
qed

end
