(* ===== verification/Schema_Manage.thy ===== *)
theory Schema_Manage
  imports Graph_Manage_Safety Schema_Plans
begin

text \<open>
  Model of the rest of \<open>hugegraph_mcp/tools/manage_schema.py\<close>: the dry run with its plan context, and the entry point with the
  modes design, validate, dry_run and apply. The state is that of \<open>Graph_Manage\<close>: the server, the ledger of confirmations
  and the plan database. The configuration does not change during a call.
\<close>

section \<open>The surroundings and the request\<close>

text \<open>The digests, random identifiers and readings of the clock that a call uses.\<close>

record 'b schema_tool =
  sx_env :: "'b schema_env"
  sx_sha :: "string \<Rightarrow> string"
  sx_nonce_sha :: "string \<Rightarrow> string"
  sx_fresh_nonce :: string
  sx_fresh_plan :: string
  sx_plan_at :: int
  sx_issue_at :: int
  sx_compile_at :: int
  sx_verify_at :: int
  sx_outcome_at :: int

abbreviation sx_cfg :: "'b schema_tool \<Rightarrow> MCPConfig" where
  "sx_cfg tool \<equiv> se_cfg (sx_env tool)"

record schema_request =
  sr_mode :: string
  sr_operations :: py
  sr_confirm :: bool
  sr_plan_hash :: "string option"
  sr_nonce :: "string option"
  sr_expires :: py

section \<open>The dry run\<close>

definition schema_hash :: "(string \<Rightarrow> string) \<Rightarrow> py \<Rightarrow> string option" where
  "schema_hash sha live = (let summary = normalized_schema_summary True live in
     if truthy summary then Some (compute_payload_digest sha summary) else None)"

definition schema_payload_digest :: "(string \<Rightarrow> string) \<Rightarrow> py \<Rightarrow> string" where
  "schema_payload_digest sha operations = compute_payload_digest sha (PDict [(''operations'', operations)])"

definition schema_plan_context :: "'b schema_tool \<Rightarrow> py \<Rightarrow> py \<Rightarrow> string option \<Rightarrow> PlanContext" where
  "schema_plan_context tool operations live nonce =
     fst (build_plan_context (sx_sha tool) (sx_cfg tool) (sx_plan_at tool) (sx_fresh_nonce tool) ''apply_schema_tool'' ''apply''
       (schema_payload_digest (sx_sha tool) operations) (schema_hash (sx_sha tool) live) nonce DEFAULT_PLAN_TTL_SECONDS [])"

datatype schema_preview =
    Not_Valid "py list" "string list"
  | Plan_Shown PlanContext string "string list"

definition exactly_one_error :: "py \<Rightarrow> py" where
  "exactly_one_error operations = schema_op_error (- 1) operations ''a confirmable schema plan must contain exactly one create operation''
     ''Create and confirm one schema object per plan.''"

definition list_items :: "py \<Rightarrow> py list" where
  "list_items v = (case v of PList vs \<Rightarrow> vs | _ \<Rightarrow> [])"

text \<open>The operations are a list once they are valid.\<close>

definition planned_of :: "py list \<Rightarrow> planned" where
  "planned_of vs = (case collect_planned_creates 0 vs [] [] of Inl e \<Rightarrow> [] | Inr (planned, es) \<Rightarrow> planned)"

definition dry_run_schema_operations :: "'b schema_tool \<Rightarrow> py \<Rightarrow> py \<Rightarrow> string option \<Rightarrow> schema_preview res" where
  "dry_run_schema_operations tool operations live nonce =
     (let limit_errors = collect_write_limit_errors (operation_count_from_list operations) operations in
      if limit_errors \<noteq> [] then Inr (Not_Valid limit_errors [])
      else and_then (validate_schema_operations operations live) (\<lambda>v.
        let vs = list_items operations in Inr (
        if \<not> sv_valid v then Not_Valid (sv_errors v) (sv_warnings v)
        else if length vs \<noteq> 1 then Not_Valid [exactly_one_error operations] (sv_warnings v)
        else if apply_scope_errors 0 vs \<noteq> [] then Not_Valid (apply_scope_errors 0 vs) (sv_warnings v)
        else Plan_Shown (schema_plan_context tool operations live nonce) (schema_mutation_summary (dicts vs))
          (sv_warnings v @ risk_warnings (planned_of vs) (dicts vs) live))))"

section \<open>Design\<close>

definition design_guidance :: "string list" where
  "design_guidance =
     [''Define property keys first, choosing data types and SINGLE, SET, or LIST cardinality.'',
      ''Define vertex labels with their properties, ID strategy, primary keys, and nullable keys.'',
      ''Define edge labels with source/target labels; choose SINGLE or MULTIPLE frequency and sort keys.'',
      ''Choose secondary, range, or search indexes from query needs, then validate the schema operations.'']"

definition design_schema :: "py_dict \<Rightarrow> py" where
  "design_schema params = PDict [(''thought'', get_or params ''thought'' (PStr [])), (''thought_number'', get_or params ''thought_number'' (PInt 1)),
     (''total_thoughts'', get_or params ''total_thoughts'' (PInt 4)),
     (''next_thought_needed'', get_or params ''next_thought_needed'' (PBool True)),
     (''is_revision'', get_or params ''is_revision'' (PBool False)), (''revision_of'', dget params ''revision_of''),
     (''guidance'', strings design_guidance)]"

text \<open>\<open>operations[0] if operations else {}\<close>, for operations that are true or an empty list.\<close>

definition first_params :: "py \<Rightarrow> py_dict res" where
  "first_params operations = (if \<not> truthy operations then Inr [] else case operations of
      PList (v # vs) \<Rightarrow> py_items v
    | PDict d \<Rightarrow> Inl (KeyError ''0'')
    | PStr s \<Rightarrow> Inl (AttributeError (repr_str ''str'' @ '' object has no attribute '' @ repr_str ''get''))
    | v \<Rightarrow> Inl (TypeError (repr_str (type_name v) @ '' object is not subscriptable'')))"

definition design_from_operations :: "py \<Rightarrow> py res" where
  "design_from_operations operations = and_then (first_params operations) (\<lambda>d. Inr (design_schema d))"

section \<open>Answers\<close>

definition schema_fetch_error :: "string \<Rightarrow> noted" where
  "schema_fetch_error e = (bare (envelope_err CONNECTION_FAILED ''Cannot read live schema from HugeGraph Server for schema validation.''
     (Some ''Ensure HugeGraph Server is running and credentials/graphspace are correct, then retry.'')
     (PDict [(''stage'', PStr ''schema_fetch''), (''error'', PStr e)])))\<lparr>nt_retryable := True\<rparr>"

definition validation_py :: "schema_validation \<Rightarrow> py" where
  "validation_py v = PDict [(''valid'', PBool (sv_valid v)), (''errors'', PList (sv_errors v)), (''warnings'', strings (sv_warnings v))]"

definition preview_py :: "(string \<Rightarrow> string) \<Rightarrow> schema_preview \<Rightarrow> py_dict" where
  "preview_py sha p = (case p of
      Not_Valid es ws \<Rightarrow> [(''valid'', PBool False), (''errors'', PList es), (''warnings'', strings ws)]
    | Plan_Shown ctx summary ws \<Rightarrow>
        [(''valid'', PBool True), (''plan_hash'', PStr (compute_plan_hash sha ctx)), (''plan_context'', plan_context_payload ctx),
         (''confirmable'', PBool True), (''mutation_summary'', PStr summary), (''warnings'', strings ws)])"

definition legacy_schema_warning :: string where
  "legacy_schema_warning = ''LEGACY_CONFIRMATION_DEPRECATED: use plan_id with confirm_write_tool; ''
     @ ''plan_hash, nonce, and expires_at will be removed after one release.''"

definition schema_answer :: "py \<Rightarrow> string list \<Rightarrow> string list \<Rightarrow> noted" where
  "schema_answer data warnings actions = \<lparr>nt_response = envelope_ok data, nt_retryable = False, nt_warnings = warnings, nt_actions = actions\<rparr>"

section \<open>Dry run mode\<close>

text \<open>The plan of a valid dry run is issued and stored; the answer is an error or the stored plan.\<close>

definition persist_error :: "py_exc \<Rightarrow> noted" where
  "persist_error e = bare (envelope_err SERVER_ERROR ''The schema create plan could not be persisted safely.'' None
     (PDict [(''reason'', PStr (exc_name e))]))"

definition issue_schema_plan :: "'b schema_tool \<Rightarrow> py \<Rightarrow> py \<Rightarrow> PlanContext \<Rightarrow> 'b manage_world \<Rightarrow> (noted + WritePlan) \<times> 'b manage_world" where
  "issue_schema_plan tool operations live shown_ctx w =
     (let ctx = (schema_plan_context tool operations live (Some (pc_nonce shown_ctx)))\<lparr>pc_expires := pc_expires shown_ctx\<rparr> in
      case on_ledger (issue_plan (sx_nonce_sha tool) (sx_issue_at tool) ctx (compute_plan_hash (sx_sha tool) shown_ctx) None) w of
        (Some e, w1) \<Rightarrow> (Inl (bare e), w1)
      | (None, w1) \<Rightarrow>
        (case and_then (case list_items operations of v # vs \<Rightarrow> py_items v | [] \<Rightarrow> Inr [])
            (compile_schema_write_plan (sx_sha tool) (sx_fresh_plan tool) (sx_compile_at tool) ctx live) of
           Inl e \<Rightarrow> (Inl (persist_error e), w1)
         | Inr plan \<Rightarrow> (case on_plans (save_plan plan) w1 of
              (Inl e, w2) \<Rightarrow> (Inl (persist_error e), w2)
            | (Inr u, w2) \<Rightarrow> (Inr plan, w2))))"

definition with_plan_id :: "WritePlan \<Rightarrow> py_dict \<Rightarrow> py_dict" where
  "with_plan_id plan data = data @ [(''plan_id'', PStr (wp_id plan)), (''status'', PStr (plan_value (wp_status plan))),
     (''expires_at'', PInt (wp_expires_at plan))]"

definition schema_dry_run :: "'b schema_tool \<Rightarrow> schema_request \<Rightarrow> py \<Rightarrow> py \<Rightarrow> 'b manage_world \<Rightarrow> noted res \<times> 'b manage_world" where
  "schema_dry_run tool rq operations live w = (case dry_run_schema_operations tool operations live (sr_nonce rq) of
      Inl e \<Rightarrow> (Inl e, w)
    | Inr p \<Rightarrow> (let data = preview_py (sx_sha tool) p in case p of
        Not_Valid es ws \<Rightarrow> (Inr (schema_answer (PDict data) ws [''Fix validation errors and rerun apply_schema_tool(mode='dry_run').'']), w)
      | Plan_Shown ctx summary ws \<Rightarrow>
        if is_readonly (sx_cfg tool) then
          (Inr (schema_answer (PDict (dset ''readonly_preview_only'' (PBool True) (dset ''confirmable'' (PBool False) data)))
            (ws @ [''This dry-run was generated while HUGEGRAPH_MCP_READONLY=true. ''
              @ ''Set HUGEGRAPH_MCP_READONLY=false and rerun dry_run before confirming writes.''])
            [''Set HUGEGRAPH_MCP_READONLY=false and rerun dry_run before confirm.'']), w)
        else (case issue_schema_plan tool operations live ctx w of
            (Inl e, w') \<Rightarrow> (Inr e, w')
          | (Inr plan, w') \<Rightarrow> (Inr (schema_answer (PDict (with_plan_id plan data)) (ws @ [legacy_schema_warning])
              [''Review schema preview, then call confirm_write_tool with plan_id.'']), w'))))"

section \<open>Apply mode\<close>

definition receipt_lost :: "string \<Rightarrow> noted" where
  "receipt_lost message = bare (envelope_err WRITE_OUTCOME_UNKNOWN message None
     (PDict [(''status'', PStr (apply_value ApplyStatus.UNKNOWN)), (''reconciliation_required'', PBool True)]))"

definition non_canonical :: "py_dict \<Rightarrow> py \<Rightarrow> py_dict" where
  "non_canonical d st = dict_items (receipt_to_dict (legacy_receipt ApplyStatus.UNKNOWN d None
     (Some (''schema executor returned a non-canonical receipt: '' @ py_repr st @ '' is not a valid ApplyStatus'')) True))"

definition settle_schema :: "'b schema_tool \<Rightarrow> string \<Rightarrow> py_dict \<Rightarrow> py_dict \<Rightarrow> 'b manage_world \<Rightarrow> noted \<times> 'b manage_world" where
  "settle_schema tool h d result w =
     (let (st, result) = (case apply_of_value (py_str (dget result ''status'')) of
            Some st \<Rightarrow> (st, result) | None \<Rightarrow> (ApplyStatus.UNKNOWN, non_canonical d (dget result ''status'')));
          record_as = (\<lambda>ps. on_ledger (record_write_outcome (sx_outcome_at tool) h ps (PDict result)) w) in
      if st = ApplyStatus.UNKNOWN then (case record_as UNKNOWN of (saved, w') \<Rightarrow>
        ((bare (envelope_err WRITE_OUTCOME_UNKNOWN ''The schema create may have committed; reconcile before retrying.''
           (Some ''Inspect the schema and compare it with the confirmed operation before issuing another write.'') (PDict result)))
           \<lparr>nt_actions := [''Call inspect_schema_tool and reconcile the confirmed schema object.'']\<rparr>, w'))
      else if st = ApplyStatus.CONFLICT then (case record_as CONFLICT of (saved, w') \<Rightarrow>
        (if \<not> saved then receipt_lost ''The schema conflict was observed, but its durable receipt could not be recorded.''
         else bare (envelope_err WRITE_CONFLICT ''A different schema object exists with the confirmed name.'' None (PDict result)), w'))
      else (case record_as (if st = ApplyStatus.ALREADY_APPLIED then ALREADY_APPLIED else APPLIED) of (saved, w') \<Rightarrow>
        (if \<not> saved then receipt_lost ''The schema create completed, but its durable receipt could not be recorded.''
         else schema_answer (PDict result) [legacy_schema_warning] [''Call inspect_schema_tool to verify the applied schema.''], w')))"

definition verify_schema_plan :: "'b schema_tool \<Rightarrow> schema_request \<Rightarrow> py \<Rightarrow> py \<Rightarrow> confirm_db \<Rightarrow> consumption res \<times> confirm_db" where
  "verify_schema_plan tool rq operations live =
     verify_and_consume_issued_plan (sx_sha tool) (sx_nonce_sha tool) (sx_cfg tool) (sx_verify_at tool)
       (case sr_plan_hash rq of None \<Rightarrow> [] | Some h \<Rightarrow> h) ''apply_schema_tool'' ''apply''
       (schema_payload_digest (sx_sha tool) operations) (schema_hash (sx_sha tool) live) (sr_nonce rq) (sr_expires rq) []"

text \<open>The part after the dry run: the gate, the confirmation, the create and its record.\<close>

definition apply_confirmed :: "'b schema_tool \<Rightarrow> schema_request \<Rightarrow> py \<Rightarrow> py \<Rightarrow> 'b manage_world \<Rightarrow> noted res \<times> 'b manage_world" where
  "apply_confirmed tool rq operations live w =
     (case guard SCHEMA_WRITE (sx_cfg tool) of
        Some e \<Rightarrow> (Inr (bare e), w)
      | None \<Rightarrow>
        if \<not> sr_confirm rq then (Inr (bare (confirm_required_error ''Schema apply requires confirm=True after dry_run.''
          ''Run mode='dry_run', review the plan, then pass confirm=True with plan_hash, nonce, and expires_at.'')), w)
        else (case on_ledger (verify_schema_plan tool rq operations live) w of
          (Inl e, w1) \<Rightarrow> (Inl e, w1)
        | (Inr (Refused t details), w1) \<Rightarrow> (Inr (bare (plan_hash_error t details
            ''Provided plan_hash does not match the current schema apply plan.'' None ''Run mode='dry_run' again and use the returned plan_hash.'')), w1)
        | (Inr (Authorised payload), w1) \<Rightarrow>
          (case on_backend (apply_schema_operations (sx_env tool) (dicts (list_items operations)) live) w1 of
             (Inl e, w2) \<Rightarrow> (Inl e, w2)
           | (Inr result, w2) \<Rightarrow> (case settle_schema tool (case sr_plan_hash rq of None \<Rightarrow> [] | Some h \<Rightarrow> h)
                (case dicts (list_items operations) of d # ds \<Rightarrow> d | [] \<Rightarrow> []) result w2 of (a, w3) \<Rightarrow> (Inr a, w3)))))"

definition schema_apply :: "'b schema_tool \<Rightarrow> schema_request \<Rightarrow> py \<Rightarrow> py \<Rightarrow> 'b manage_world \<Rightarrow> noted res \<times> 'b manage_world" where
  "schema_apply tool rq operations live w = (case dry_run_schema_operations tool operations live (sr_nonce rq) of
      Inl e \<Rightarrow> (Inl e, w)
    | Inr (Not_Valid es ws) \<Rightarrow> (Inr ((bare (envelope_err SCHEMA_MISMATCH ''Schema operations are not valid for P0a apply.'' None
        (PDict [(''errors'', PList es)])))\<lparr>nt_warnings := ws, nt_actions := [''Fix validation errors and rerun apply_schema_tool(mode='dry_run').'']\<rparr>), w)
    | Inr (Plan_Shown ctx summary ws) \<Rightarrow> apply_confirmed tool rq operations live w)"

section \<open>The entry point\<close>

text \<open>Reading the live schema; the answer when it cannot be read.\<close>

definition with_live_schema ::
  "'b schema_tool \<Rightarrow> (py \<Rightarrow> 'b manage_world \<Rightarrow> noted res \<times> 'b manage_world) \<Rightarrow> 'b manage_world \<Rightarrow> noted res \<times> 'b manage_world" where
  "with_live_schema tool k w = (case on_backend (se_read (sx_env tool)) w of
      (Inl (n, e), w') \<Rightarrow> (Inr (schema_fetch_error e), w') | (Inr live, w') \<Rightarrow> k live w')"

definition manage_schema :: "'b schema_tool \<Rightarrow> schema_request \<Rightarrow> 'b manage_world \<Rightarrow> noted res \<times> 'b manage_world" where
  "manage_schema tool rq w =
     (let operations = py_or (sr_operations rq) (PList []); mode = sr_mode rq in
      case (if mode \<in> {''dry_run'', ''apply''} then write_limit_envelope (operation_count_from_list operations) operations else None) of
        Some e \<Rightarrow> (Inr (bare e), w)
      | None \<Rightarrow>
        if mode = ''design'' then (and_then (design_from_operations operations) (\<lambda>data. Inr (schema_answer data [] [])), w)
        else if mode = ''validate'' then with_live_schema tool (\<lambda>live w.
          (and_then (validate_schema_operations operations live) (\<lambda>v. Inr (schema_answer (validation_py v) [] [])), w)) w
        else if mode = ''dry_run'' then with_live_schema tool (schema_dry_run tool rq operations) w
        else if mode = ''apply'' then
          (case (if sr_confirm rq then replayed_plan_error (sx_nonce_sha tool) (sr_nonce rq) (mw_ledger w) else None) of
             Some e \<Rightarrow> (Inr (bare e), w)
           | None \<Rightarrow> with_live_schema tool (schema_apply tool rq operations) w)
        else (Inr (bare (envelope_err VALIDATION_ERROR (''Unsupported manage_schema mode: '' @ mode)
          (Some ''Use one of: design, validate, dry_run, apply.'') (PDict []))), w))"

section \<open>Calls that write nothing\<close>

text \<open>No request was sent to the schema and the record of authorised writes is the same.\<close>

definition unwritten :: "('b \<times> http_request list) manage_world \<Rightarrow> ('b \<times> http_request list) manage_world \<Rightarrow> bool" where
  "unwritten w w' \<longleftrightarrow> snd (mw_backend w') = snd (mw_backend w) \<and> recorded (mw_ledger w') = recorded (mw_ledger w)"

lemma unwritten_refl [simp]: "unwritten w w"
  by (simp add: unwritten_def)

lemma unwritten_on_plans: "on_plans m w = (x, w') \<Longrightarrow> unwritten w w'"
  by (auto simp: on_plans_def unwritten_def split: prod.splits)

lemma unwritten_issue:
  assumes "on_ledger (issue_plan sha now c h p) w = (x, w')"
  shows "unwritten w w'"
proof -
  obtain e db where "issue_plan sha now c h p (mw_ledger w) = (e, db)" by (cases "issue_plan sha now c h p (mw_ledger w)")
  moreover from this have "recorded db = recorded (mw_ledger w)" using recorded_issue_plan by (metis snd_conv)
  ultimately show ?thesis using assms by (auto simp: on_ledger_def unwritten_def)
qed

lemma unwritten_outcome:
  assumes "on_ledger (record_write_outcome now h st receipt) w = (x, w')"
  shows "unwritten w w'"
  using assms recorded_write_outcome [of now h st receipt "mw_ledger w"]
  by (auto simp: on_ledger_def unwritten_def split: prod.splits)

lemma unwritten_trans: "unwritten w w1 \<Longrightarrow> unwritten w1 w2 \<Longrightarrow> unwritten w w2"
  by (simp add: unwritten_def)

lemma unwritten_dry_run:
  assumes "schema_dry_run tool rq operations live w = (r, w')"
  shows "unwritten w w'"
  using assms
  by (auto simp: schema_dry_run_def issue_schema_plan_def Let_def
      split: sum.splits schema_preview.splits if_splits option.splits prod.splits
      dest: unwritten_issue unwritten_on_plans intro: unwritten_trans)

lemma unwritten_settle:
  assumes "settle_schema tool h d result w = (a, w')"
  shows "unwritten w w'"
  using assms
  by (auto simp: settle_schema_def Let_def split: option.splits if_splits prod.splits dest!: unwritten_outcome)

lemma with_live_schema_cases:
  assumes "with_live_schema tool k w = (r, w')" "sx_env tool = traced_env env"
  obtains (unread) "unwritten w w'" | (seen) live w1 where "unwritten w w1" "mw_ledger w1 = mw_ledger w" "k live w1 = (r, w')"
proof -
  obtain b rqs where b: "mw_backend w = (b, rqs)" by (cases "mw_backend w")
  obtain q b1 where q: "se_read env b = (q, b1)" by (cases "se_read env b")
  let ?w = "w\<lparr>mw_backend := (b1, rqs)\<rparr>"
  have w: "unwritten w ?w" by (simp add: unwritten_def b)
  have step: "on_backend (se_read (sx_env tool)) w = (q, ?w)"
    by (simp add: on_backend_def assms(2) b se_read_traced q)
  show thesis
  proof (cases q)
    case (Inl e)
    then have "w' = ?w" using assms(1) step by (auto simp: with_live_schema_def split: prod.splits)
    then show thesis using unread w by simp
  next
    case (Inr live)
    then have "k live ?w = (r, w')" using assms(1) step by (simp add: with_live_schema_def)
    then show thesis using seen w by simp
  qed
qed

section \<open>The confirmed create\<close>

text \<open>The confirmation of \<open>n\<close> and \<open>h\<close>, which the ledger had issued and which was not used, is used.\<close>

definition confirmation_used :: "'b schema_tool \<Rightarrow> confirm_db \<Rightarrow> confirm_db \<Rightarrow> string \<Rightarrow> string \<Rightarrow> bool" where
  "confirmation_used tool db db' n h \<longleftrightarrow> \<not> is_readonly (sx_cfg tool) \<and>
     (\<exists>row \<in> set (issued_confirmations db). is_digest row = sx_nonce_sha tool n \<and> is_hash row = h) \<and>
     (sx_nonce_sha tool n, h) \<notin> set (recorded db) \<and> recorded db' = recorded db @ [(sx_nonce_sha tool n, h)]"

text \<open>At most one request was sent: a POST, for an operation that is the only one, is valid against the live schema and
  whose object that schema does not have.\<close>

definition one_create :: "py \<Rightarrow> ('b \<times> http_request list) manage_world \<Rightarrow> ('b \<times> http_request list) manage_world \<Rightarrow> bool" where
  "one_create operations w w' \<longleftrightarrow> snd (mw_backend w') = snd (mw_backend w) \<or>
     (\<exists>rq d live v. snd (mw_backend w') = snd (mw_backend w) @ [rq] \<and> rq_method rq = ''POST'' \<and> operations = PList [PDict d] \<and>
        validate_schema_operations operations live = Inr v \<and> sv_valid v \<and> schema_object_state d live = Missing_Object)"

lemma plan_shown:
  assumes "dry_run_schema_operations tool operations live nonce = Inr (Plan_Shown c s ws)"
  obtains v d where "validate_schema_operations operations live = Inr v" "sv_valid v" "operations = PList [PDict d]"
proof -
  from assms obtain v where v: "validate_schema_operations operations live = Inr v" "sv_valid v"
      and one: "length (list_items operations) = 1"
    by (auto simp: dry_run_schema_operations_def Let_def res_simps split: if_splits)
  from one obtain u where u: "operations = PList [u]"
    by (cases operations) (auto simp: list_items_def length_Suc_conv)
  obtain d where "u = PDict d" using v unfolding u by (cases u) (auto simp: validate_schema_operations_def res_simps)
  with u v that show thesis by blast
qed

lemma apply_operations_sent:
  assumes "apply_schema_operations (traced_env env) [d] live (b, rqs) = (r, (b', rqs'))"
  shows "rqs' = rqs \<or> (\<exists>rq. rqs' = rqs @ [rq] \<and> rq_method rq = ''POST'' \<and> schema_object_state d live = Missing_Object)"
proof -
  obtain q where "apply_create (traced_env env) d live (b, rqs) = (q, (b', rqs'))"
    using assms by (auto simp: apply_schema_operations_def split: prod.splits)
  then show ?thesis by (rule schema_create_sent)
qed

lemma apply_confirmed_effect:
  assumes env: "sx_env tool = traced_env env"
    and valid: "validate_schema_operations operations live = Inr v" "sv_valid v" "operations = PList [PDict d]"
    and run: "apply_confirmed tool rq operations live w = (r, w')"
  shows "unwritten w w' \<or> (\<exists>n. sr_confirm rq \<and> sr_nonce rq = Some n \<and>
    confirmation_used tool (mw_ledger w) (mw_ledger w') n (case sr_plan_hash rq of None \<Rightarrow> [] | Some h \<Rightarrow> h) \<and> one_create operations w w')"
proof (cases "guard SCHEMA_WRITE (sx_cfg tool) = None \<and> sr_confirm rq")
  case False
  then show ?thesis using run by (auto simp: apply_confirmed_def split: option.splits if_splits)
next
  case go: True
  let ?h = "case sr_plan_hash rq of None \<Rightarrow> [] | Some h \<Rightarrow> h"
  obtain c db where ver: "verify_schema_plan tool rq operations live (mw_ledger w) = (c, db)"
    by (cases "verify_schema_plan tool rq operations live (mw_ledger w)")
  note cases = verify_and_consume_cases [OF ver [unfolded verify_schema_plan_def]]
  let ?w = "w\<lparr>mw_ledger := db\<rparr>"
  have step: "on_ledger (verify_schema_plan tool rq operations live) w = (c, ?w)" by (simp add: on_ledger_def ver)
  show ?thesis
  proof (cases "\<exists>payload. c = Inr (Authorised payload)")
    case False
    then have "recorded db = recorded (mw_ledger w)" using cases by blast
    moreover have "w' = ?w" using run go step False
      by (auto simp: apply_confirmed_def split: sum.splits consumption.splits)
    ultimately show ?thesis by (simp add: unwritten_def)
  next
    case True
    then obtain payload n where c: "c = Inr (Authorised payload)" and n: "sr_nonce rq = Some n"
        and used: "confirmation_used tool (mw_ledger w) db n ?h"
      using cases by (auto simp: confirmation_used_def)
    obtain b rqs where b: "mw_backend w = (b, rqs)" by (cases "mw_backend w")
    obtain q b1 rqs1 where q: "apply_schema_operations (traced_env env) [d] live (b, rqs) = (q, (b1, rqs1))" by (metis prod.exhaust)
    let ?v = "?w\<lparr>mw_backend := (b1, rqs1)\<rparr>"
    have ds: "dicts (list_items operations) = [d]" by (simp add: valid(3) list_items_def dicts_def List.map_filter_simps)
    have app: "on_backend (apply_schema_operations (sx_env tool) [d] live) ?w = (q, ?v)"
      by (simp add: on_backend_def env b q)
    have "unwritten ?v w'" using run go step app
      by (auto simp: apply_confirmed_def c ds split: sum.splits prod.splits dest: unwritten_settle)
    then have w': "snd (mw_backend w') = rqs1" "recorded (mw_ledger w') = recorded db" by (simp_all add: unwritten_def)
    have "one_create operations w w'" using apply_operations_sent [OF q] valid by (auto simp: one_create_def w'(1) b)
    moreover have "confirmation_used tool (mw_ledger w) (mw_ledger w') n ?h" using used by (simp add: confirmation_used_def w'(2))
    ultimately show ?thesis using go n by blast
  qed
qed

section \<open>Every call\<close>

lemma idle_unless_confirmed:
  assumes "unwritten w w1" "mw_ledger w1 = mw_ledger w" "unwritten w1 w' \<or> (\<exists>n. sr_confirm rq \<and> sr_nonce rq = Some n \<and>
      confirmation_used tool (mw_ledger w1) (mw_ledger w') n h \<and> one_create operations w1 w')"
  shows "unwritten w w' \<or> (\<exists>n. sr_confirm rq \<and> sr_nonce rq = Some n \<and>
      confirmation_used tool (mw_ledger w) (mw_ledger w') n h \<and> one_create operations w w')"
  using assms by (auto simp: unwritten_def one_create_def)

lemma schema_apply_effect:
  assumes "sx_env tool = traced_env env" "schema_apply tool rq operations live w = (r, w')"
  shows "unwritten w w' \<or> (\<exists>n. sr_confirm rq \<and> sr_nonce rq = Some n \<and>
    confirmation_used tool (mw_ledger w) (mw_ledger w') n (case sr_plan_hash rq of None \<Rightarrow> [] | Some h \<Rightarrow> h) \<and> one_create operations w w')"
proof (cases "\<exists>c s ws. dry_run_schema_operations tool operations live (sr_nonce rq) = Inr (Plan_Shown c s ws)")
  case False
  then show ?thesis using assms(2) by (auto simp: schema_apply_def split: sum.splits schema_preview.splits)
next
  case True
  then obtain c s ws where shown_plan: "dry_run_schema_operations tool operations live (sr_nonce rq) = Inr (Plan_Shown c s ws)" by blast
  then have "apply_confirmed tool rq operations live w = (r, w')" using assms(2) by (simp add: schema_apply_def)
  with plan_shown [OF shown_plan] show ?thesis using apply_confirmed_effect [OF assms(1)] by metis
qed


section \<open>Creating a property key\<close>

definition age_tool :: "(bool \<times> http_request list) schema_tool" where
  "age_tool = \<lparr>sx_env = traced_env age_env, sx_sha = (\<lambda>t. ''h''), sx_nonce_sha = demo_sha, sx_fresh_nonce = ''n'', sx_fresh_plan = ''1'',
     sx_plan_at = 100, sx_issue_at = 100, sx_compile_at = 100, sx_verify_at = 131, sx_outcome_at = 132\<rparr>"

definition age_confirm :: schema_request where
  "age_confirm = \<lparr>sr_mode = ''apply'', sr_operations = PList [PDict age_create], sr_confirm = True, sr_plan_hash = Some ''h'',
     sr_nonce = Some ''n'', sr_expires = PInt 700\<rparr>"

definition schema_issued_world :: "(bool \<times> http_request list) manage_world" where
  "schema_issued_world = \<lparr>mw_backend = (False, []), mw_ledger = empty_confirm_db\<lparr>issued_confirmations :=
     [\<lparr>is_digest = ''#n'', is_hash = ''h'', is_expires = 700, is_issued_at = 100, is_payload = None\<rparr>]\<rparr>, mw_plans = empty_db\<rparr>"

definition age_key_created :: "noted res \<times> (bool \<times> http_request list) manage_world" where
  "age_key_created = manage_schema age_tool age_confirm schema_issued_world"


end
