(* ===== verification/Rest_Request.thy ===== *)
theory Rest_Request
  imports Json_Unique Gremlin_Tools Schema_Builders
begin

text \<open>
  Model of the transport of the Python client: percent encoding (\<open>urllib.parse.quote\<close>), \<open>utils/id_format.py\<close>,
  \<open>utils/compat.py\<close>, \<open>RestResource.request\<close> of \<open>api/common.py\<close>, and \<open>HGraphSession.request\<close> of \<open>utils/huge_requests.py\<close> with
  \<open>utils/authentication.py\<close> up to the call of the HTTP library, which is an argument.
\<close>

section \<open>Percent encoding\<close>

definition utf8 :: "char \<Rightarrow> nat list" where
  "utf8 c = (if code c < 128 then [code c] else [192 + code c div 64, 128 + code c mod 64])"

definition hex_upper :: "nat \<Rightarrow> char" where
  "hex_upper n = (if n < 10 then char_of (48 + n) else char_of (55 + n))"

definition percent :: "nat \<Rightarrow> string" where
  "percent n = [CHR ''%'', hex_upper (n div 16), hex_upper (n mod 16)]"

text \<open>The characters that \<open>quote(text, safe="")\<close> leaves alone.\<close>

definition unreserved :: "char \<Rightarrow> bool" where
  "unreserved c \<longleftrightarrow> is_alpha_ascii c \<or> is_digit c \<or> c \<in> {CHR ''_'', CHR ''.'', CHR ''-'', CHR ''~''}"

definition quote_char :: "char \<Rightarrow> string" where
  "quote_char c = (if unreserved c then [c] else concat (map percent (utf8 c)))"

definition quote :: "string \<Rightarrow> string" where
  "quote s = concat (map quote_char s)"

text \<open>What a server reads: the octets of a text and the characters of octets.\<close>

definition hex_value :: "char \<Rightarrow> nat" where
  "hex_value c = (if is_digit c then code c - 48 else if 97 \<le> code c then code c - 87 else code c - 55)"

fun octets :: "string \<Rightarrow> nat list" where
  "octets [] = []"
| "octets [c] = [code c]"
| "octets [c, d] = [code c, code d]"
| "octets (c # d # e # s) = (if c = CHR ''%'' then (16 * hex_value d + hex_value e) # octets s else code c # octets (d # e # s))"

fun from_utf8 :: "nat list \<Rightarrow> string" where
  "from_utf8 [] = []"
| "from_utf8 [n] = [char_of n]"
| "from_utf8 (m # n # ns) = (if m < 192 then char_of m # from_utf8 (n # ns) else char_of ((m - 192) * 64 + (n - 128)) # from_utf8 ns)"

definition unquote :: "string \<Rightarrow> string" where
  "unquote s = from_utf8 (octets s)"

section \<open>Identifiers\<close>

definition JAVA_LONG_MIN :: int where "JAVA_LONG_MIN = - (2 ^ 63)"
definition JAVA_LONG_MAX :: int where "JAVA_LONG_MAX = 2 ^ 63 - 1"

text \<open>A UUID is no value of \<open>py\<close>; \<open>json.dumps\<close> prints ASCII.\<close>

definition format_vertex_id :: "py \<Rightarrow> string res" where
  "format_vertex_id v = (case v of
      PNone \<Rightarrow> Inl (ValueError ''The vertex id can't be None'')
    | PInt i \<Rightarrow> if i < JAVA_LONG_MIN \<or> i > JAVA_LONG_MAX then Inl (ValueError ''The vertex id integer must fit in Java signed long range'')
        else Inr (int_str i)
    | PStr s \<Rightarrow> Inr (json_str True s)
    | _ \<Rightarrow> Inl (TypeError ''The vertex id must be either str or integer''))"

definition format_vertex_id_path :: "py \<Rightarrow> bool \<Rightarrow> string option res" where
  "format_vertex_id_path v allow_none =
     (if v = PNone \<and> allow_none then Inr None else and_then (format_vertex_id v) (\<lambda>s. Inr (Some (quote s))))"

definition format_edge_id_path :: "py \<Rightarrow> string res" where
  "format_edge_id_path v = (if v = PNone then Inl (ValueError ''The edge id can't be None'') else Inr (quote (py_str v)))"

section \<open>Server profiles\<close>

text \<open>\<open>HGraphConfig\<close> after its construction.\<close>

record hg_config =
  hc_url :: string
  hc_graph :: string
  hc_space :: "string option"
  hc_spaces_supported :: bool

datatype rest_error = Unsupported_Operation string | Bad_Call py_exc | Client_Failure hg_exception

definition strip_slashes_left :: "string \<Rightarrow> string" where
  "strip_slashes_left s = dropWhile (\<lambda>c. c = CHR ''/'') s"

definition strip_slashes_right :: "string \<Rightarrow> string" where
  "strip_slashes_right s = rev (dropWhile (\<lambda>c. c = CHR ''/'') (rev s))"

text \<open>The text after the second slash.\<close>

definition after_two :: "string \<Rightarrow> string" where
  "after_two path = snd (split_once (CHR ''/'') (snd (split_once (CHR ''/'') path)))"

definition space_path :: "string \<Rightarrow> bool" where
  "space_path path \<longleftrightarrow> path = ''graphspaces'' \<or> starts_with path ''graphspaces/''"

definition adapt_path :: "hg_config \<Rightarrow> string \<Rightarrow> rest_error + string" where
  "adapt_path cfg path =
     (if \<not> hc_spaces_supported cfg \<and> space_path path then
        (let tail = after_two path in
         if tail = ''graphs'' \<or> starts_with tail ''graphs/'' \<or> starts_with tail ''auth/'' then Inr tail
         else Inl (Unsupported_Operation ''This operation requires a graphspace-enabled server''))
      else Inr path)"

text \<open>The graph space is set when the server has graph spaces.\<close>

definition resolve :: "hg_config \<Rightarrow> string \<Rightarrow> rest_error + string" where
  "resolve cfg path =
     (let relative = (if starts_with path ''/'' then adapt_path cfg (strip_slashes_left path)
        else if hc_spaces_supported cfg then
          Inr (''graphspaces/'' @ quote (case hc_space cfg of None \<Rightarrow> [] | Some s \<Rightarrow> s) @ ''/graphs/'' @ quote (hc_graph cfg) @ ''/'' @ path)
        else Inr (''graphs/'' @ quote (hc_graph cfg) @ ''/'' @ path))
      in case relative of Inl e \<Rightarrow> Inl e | Inr r \<Rightarrow> Inr (strip_slashes_right (hc_url cfg) @ ''/'' @ strip_slashes_right r))"

definition graph_aliases :: "hg_config \<Rightarrow> py_dict" where
  "graph_aliases cfg = (let graph = (if hc_spaces_supported cfg then (case hc_space cfg of None \<Rightarrow> ''None'' | Some s \<Rightarrow> s) @ ''-'' @ hc_graph cfg
     else hc_graph cfg) in [(''graph'', PStr graph), (''g'', PStr (''__g_'' @ graph))])"

section \<open>Templates\<close>

definition word_char :: "char \<Rightarrow> bool" where
  "word_char c \<longleftrightarrow> is_alpha_ascii c \<or> is_digit c \<or> c = CHR ''_''"

text \<open>\<open>re.findall(r"{(\w+)}", path)\<close> and \<open>path.format(...)\<close>, for ASCII templates whose braces enclose words.\<close>

definition hole_at :: "string \<Rightarrow> (string \<times> string) option" where
  "hole_at s = (let w = takeWhile word_char s in
     case dropWhile word_char s of d # rest \<Rightarrow> if d = CHR 0x7D \<and> w \<noteq> [] then Some (w, rest) else None | [] \<Rightarrow> None)"

lemma hole_at_shorter: "hole_at s = Some (w, rest) \<Longrightarrow> length rest < length s"
  using length_dropWhile_le [of word_char s] by (auto simp: hole_at_def Let_def split: list.splits if_splits)

function find_params :: "string \<Rightarrow> string list" where
  "find_params [] = []"
| "find_params (c # s) = (case (if c = CHR 0x7B then hole_at s else None) of
      Some (w, rest) \<Rightarrow> w # find_params rest | None \<Rightarrow> find_params s)"
  by pat_completeness auto
termination by (relation "measure length") (auto dest: hole_at_shorter split: if_splits)

function fill :: "(string \<Rightarrow> string) \<Rightarrow> string \<Rightarrow> string" where
  "fill f [] = []"
| "fill f (c # s) = (case (if c = CHR 0x7B then hole_at s else None) of
      Some (w, rest) \<Rightarrow> f w @ fill f rest | None \<Rightarrow> c # fill f s)"
  by pat_completeness auto
termination by (relation "measure (\<lambda>(f, s). length s)") (auto dest: hole_at_shorter split: if_splits)

section \<open>A request\<close>

text \<open>An operation of the catalog.\<close>

record endpoint =
  ep_method :: string
  ep_path :: string
  ep_query :: "string list"
  ep_content_type :: string
  ep_vertex_query :: "string list"
  ep_vertex_path :: "string list"
  ep_requires_space :: bool
  ep_response_type :: string
  ep_json_when :: "(string \<times> string) list"
  ep_passthrough :: bool

type_synonym catalog = "(string \<times> endpoint) list"

text \<open>The arguments of \<open>request\<close>: \<open>rl_body\<close> is \<open>None\<close> when the body is unset, \<open>rl_data\<close> is a body that is a text already,
  \<open>rl_validator\<close> the content type of a validator that the caller gives.\<close>

record rest_call =
  rl_operation :: string
  rl_path :: py_dict
  rl_params :: py_dict
  rl_body :: "py option"
  rl_data :: "string option"
  rl_headers :: "(string \<times> string option) list"
  rl_validator :: "string option"
  rl_retries :: bool

text \<open>What reaches the HTTP library; \<open>rr_explicit_auth\<close> says that the headers authenticate, otherwise the user and the
  password of the client do.\<close>

record rest_request =
  rr_method :: string
  rr_url :: string
  rr_query :: py_dict
  rr_data :: "py option"
  rr_headers :: "(string \<times> string) list"
  rr_explicit_auth :: bool
  rr_retries :: bool
  rr_content_type :: string
  rr_where :: string

record rest_session =
  rs_cfg :: hg_config
  rs_closed :: bool
  rs_headers :: "(string \<times> string) list"

definition lift_call :: "'a res \<Rightarrow> rest_error + 'a" where
  "lift_call r = (case r of Inl e \<Rightarrow> Inl (Bad_Call e) | Inr x \<Rightarrow> Inr x)"

fun format_vertex_keys :: "string list \<Rightarrow> py_dict \<Rightarrow> py_dict res" where
  "format_vertex_keys [] vals = Inr vals"
| "format_vertex_keys (k # ks) vals = (if has_key vals k
     then and_then (format_vertex_id (dget vals k)) (\<lambda>s. format_vertex_keys ks (dset k (PStr s) vals))
     else format_vertex_keys ks vals)"

definition path_values :: "hg_config \<Rightarrow> endpoint \<Rightarrow> py_dict \<Rightarrow> py_dict res" where
  "path_values cfg ep given = format_vertex_keys (ep_vertex_path ep)
     (fold (\<lambda>(k, v). dset k v) given
       [(''graphspace'', case hc_space cfg of None \<Rightarrow> PNone | Some s \<Rightarrow> PStr s), (''graph'', PStr (hc_graph cfg))])"

definition missing_param :: "string \<Rightarrow> string list \<Rightarrow> py_dict \<Rightarrow> unit res" where
  "missing_param op required vals = (case find (\<lambda>k. dget vals k = PNone) required of
      None \<Rightarrow> Inr () | Some k \<Rightarrow> Inl (ValueError (k @ '' is required for '' @ op)))"

definition filled_path :: "string \<Rightarrow> string \<Rightarrow> py_dict \<Rightarrow> string res" where
  "filled_path op template vals =
     and_then (missing_param op (find_params template) vals) (\<lambda>u. Inr (fill (\<lambda>k. quote (py_str (dget vals k))) template))"

definition encode_item :: "endpoint \<Rightarrow> string \<Rightarrow> py \<Rightarrow> py res" where
  "encode_item ep key item =
     (if key \<in> set (ep_vertex_query ep) then and_then (format_vertex_id item) (\<lambda>s. Inr (PStr s))
      else case item of
        PBool b \<Rightarrow> Inr (PStr (if b then ''true'' else ''false''))
      | PDict d \<Rightarrow> Inr (PStr (plain_json (PDict d)))
      | v \<Rightarrow> Inr v)"

definition encode_value :: "endpoint \<Rightarrow> string \<Rightarrow> py \<Rightarrow> py res" where
  "encode_value ep key v = (case v of
      PList vs \<Rightarrow> and_then (map_res (encode_item ep key) vs) (\<lambda>es. Inr (PList es))
    | PTuple vs \<Rightarrow> and_then (map_res (encode_item ep key) vs) (\<lambda>es. Inr (PList es))
    | v \<Rightarrow> encode_item ep key v)"

text \<open>The parameters are a dictionary, so no key comes twice.\<close>

fun query_of :: "endpoint \<Rightarrow> string \<Rightarrow> py_dict \<Rightarrow> py_dict res" where
  "query_of ep op [] = Inr []"
| "query_of ep op ((key, v) # kvs) =
     (if v = PNone then query_of ep op kvs
      else if key \<notin> set (ep_query ep) \<and> \<not> ep_passthrough ep
        then Inl (TypeError (''Unsupported parameter '' @ repr_str key @ '' for '' @ op))
      else and_then (encode_value ep key v) (\<lambda>e. and_then (query_of ep op kvs) (\<lambda>q. Inr ((key, e) # q))))"

definition request_data :: "endpoint \<Rightarrow> rest_call \<Rightarrow> py option" where
  "request_data ep call = (case rl_body call of
      None \<Rightarrow> map_option PStr (rl_data call)
    | Some body \<Rightarrow> Some (if ep_content_type ep = ''text/plain'' then body else PStr (plain_json body)))"

definition response_type :: "endpoint \<Rightarrow> py_dict \<Rightarrow> string" where
  "response_type ep query =
     (if ep_json_when ep \<noteq> [] \<and> list_all (\<lambda>(k, v). py_eq (dget query k) (PStr v)) (ep_json_when ep) then ''json'' else ep_response_type ep)"

text \<open>The headers of the session and of the request, whose names do not depend on case.\<close>

fun ci_set :: "string \<times> string \<Rightarrow> (string \<times> string) list \<Rightarrow> (string \<times> string) list" where
  "ci_set (k, v) [] = [(k, v)]"
| "ci_set (k, v) ((k', v') # hs) = (if lower k' = lower k then (k, v) # hs else (k', v') # ci_set (k, v) hs)"

definition given_headers :: "endpoint \<Rightarrow> rest_call \<Rightarrow> (string \<times> string) list" where
  "given_headers ep call =
     (let hs = List.map_filter (\<lambda>(k, v). map_option (\<lambda>t. (k, t)) v) (rl_headers call)
      in if has_key hs ''Content-Type'' then hs else hs @ [(''Content-Type'', ep_content_type ep)])"

definition request_auth :: "(string \<times> string) list \<Rightarrow> bool" where
  "request_auth hs \<longleftrightarrow> list_ex (\<lambda>(k, v). lower k = ''authorization'') hs"

definition use_token :: "string option \<Rightarrow> rest_session \<Rightarrow> rest_session res" where
  "use_token token s = (case token of
      None \<Rightarrow> Inr (s\<lparr>rs_headers := filter (\<lambda>(k, v). k \<noteq> ''Authorization'') (rs_headers s)\<rparr>)
    | Some t \<Rightarrow> if strip t = [] then Inl (ValueError ''token must not be empty'')
        else Inr (s\<lparr>rs_headers := dset ''Authorization'' (''Bearer '' @ t) (rs_headers s)\<rparr>))"

definition close_session :: "rest_session \<Rightarrow> rest_session" where
  "close_session s = s\<lparr>rs_closed := True\<rparr>"

definition session_request ::
  "rest_session \<Rightarrow> string \<Rightarrow> string \<Rightarrow> py_dict \<Rightarrow> py option \<Rightarrow> (string \<times> string) list \<Rightarrow> string \<Rightarrow> bool \<Rightarrow> rest_error + rest_request" where
  "session_request s meth path query data hs content retries =
     (if rs_closed s then Inl (Bad_Call (RuntimeError ''The HugeGraph client is closed''))
      else case resolve (rs_cfg s) path of
        Inl e \<Rightarrow> Inl e
      | Inr url \<Rightarrow> (let all_headers = fold ci_set hs (rs_headers s) in
          Inr \<lparr>rr_method = meth, rr_url = url, rr_query = query, rr_data = data, rr_headers = all_headers,
            rr_explicit_auth = request_auth all_headers, rr_retries = retries, rr_content_type = content,
            rr_where = meth @ '' '' @ path\<rparr>))"

definition bind_call :: "rest_error + 'a \<Rightarrow> ('a \<Rightarrow> rest_error + 'b) \<Rightarrow> rest_error + 'b" where
  "bind_call r f = (case r of Inl e \<Rightarrow> Inl e | Inr x \<Rightarrow> f x)"

definition rest_request_of :: "catalog \<Rightarrow> rest_session \<Rightarrow> rest_call \<Rightarrow> rest_error + rest_request" where
  "rest_request_of cat s call = (let op = rl_operation call; cfg = rs_cfg s in
     case map_of cat op of
       None \<Rightarrow> Inl (Bad_Call (KeyError op))
     | Some ep \<Rightarrow>
       if ep_requires_space ep \<and> \<not> hc_spaces_supported cfg then Inl (Unsupported_Operation (op @ '' requires a graphspace-enabled server''))
       else bind_call (lift_call (path_values cfg ep (rl_path call))) (\<lambda>vals.
         bind_call (adapt_path cfg (ep_path ep)) (\<lambda>template.
         bind_call (lift_call (filled_path op template vals)) (\<lambda>path.
         bind_call (lift_call (query_of ep op (rl_params call))) (\<lambda>query.
           session_request s (ep_method ep) (''/'' @ path) query (request_data ep call) (given_headers ep call)
             (case rl_validator call of None \<Rightarrow> response_type ep query | Some t \<Rightarrow> t) (rl_retries call))))))"

text \<open>The request is sent and its reply validated.\<close>

type_synonym 'b transport = "rest_request \<Rightarrow> 'b \<Rightarrow> (hg_exception + http_reply) \<times> 'b"

definition validate_content :: "string \<Rightarrow> string \<Rightarrow> http_reply \<Rightarrow> hg_exception + py" where
  "validate_content content where_text r =
     (if content = ''text'' \<and> \<not> rp_raises r \<and> rp_status r \<noteq> 204 then Inr (PStr (rp_text r)) else validate_response True where_text r)"

definition rest_send :: "'b transport \<Rightarrow> rest_request \<Rightarrow> 'b \<Rightarrow> (rest_error + py) \<times> 'b" where
  "rest_send send rq b = (case send rq b of
      (Inl e, b') \<Rightarrow> (Inl (Client_Failure e), b')
    | (Inr reply, b') \<Rightarrow> (case validate_content (rr_content_type rq) (rr_where rq) reply of
        Inl e \<Rightarrow> (Inl (Client_Failure e), b') | Inr v \<Rightarrow> (Inr v, b')))"

definition rest_perform :: "catalog \<Rightarrow> 'b transport \<Rightarrow> rest_session \<Rightarrow> rest_call \<Rightarrow> 'b \<Rightarrow> (rest_error + py) \<times> 'b" where
  "rest_perform cat send s call b = (case rest_request_of cat s call of Inl e \<Rightarrow> (Inl e, b) | Inr rq \<Rightarrow> rest_send send rq b)"

section \<open>A quoted text is read back\<close>

lemma hex_value_upper: "n < 16 \<Longrightarrow> hex_value (hex_upper n) = n"
  by (auto simp: hex_value_def hex_upper_def is_digit_def code_def)

lemma octets_percent: "octets (CHR ''%'' # c # d # s) = (16 * hex_value c + hex_value d) # octets s"
  by simp

lemma octets_other: "c \<noteq> CHR ''%'' \<Longrightarrow> octets (c # s) = code c # octets s"
  by (cases s; cases "tl s") auto

lemma octets_percent_text: "n < 256 \<Longrightarrow> octets (percent n @ s) = n # octets s"
  by (simp add: percent_def hex_value_upper)

lemma unreserved_not_percent: "unreserved c \<Longrightarrow> c \<noteq> CHR ''%''"
  by (auto simp: unreserved_def is_alpha_ascii_def is_upper_ascii_def is_lower_ascii_def is_digit_def code_def)

lemma unreserved_ascii: "unreserved c \<Longrightarrow> code c < 128"
  by (auto simp: unreserved_def is_alpha_ascii_def is_upper_ascii_def is_lower_ascii_def is_digit_def code_def)

lemma utf8_octets: "n \<in> set (utf8 c) \<Longrightarrow> n < 256"
  using code_less [of c] by (auto simp: utf8_def split: if_splits)

lemma octets_quote_char: "octets (quote_char c @ s) = utf8 c @ octets s"
proof (cases "unreserved c")
  case True
  then show ?thesis
    using unreserved_not_percent [OF True] unreserved_ascii [OF True] by (simp add: quote_char_def octets_other utf8_def)
next
  case False
  have "octets (concat (map percent ns) @ s) = ns @ octets s" if "\<forall>n \<in> set ns. n < 256" for ns
    using that by (induction ns) (simp_all add: octets_percent_text)
  then show ?thesis using False utf8_octets by (simp add: quote_char_def)
qed

lemma octets_quote: "octets (quote s) = concat (map utf8 s)"
proof (induction s)
  case (Cons c s)
  then show ?case using octets_quote_char [of c "quote s"] by (simp add: quote_def)
qed (simp add: quote_def)

lemma from_utf8_small: "n < 192 \<Longrightarrow> from_utf8 (n # ns) = char_of n # from_utf8 ns"
  by (cases ns) auto

lemma from_utf8_char: "from_utf8 (utf8 c @ ns) = c # from_utf8 ns"
proof -
  have "char_of (code c) = c" by (simp add: code_def)
  then show ?thesis by (simp add: utf8_def from_utf8_small)
qed

lemma unquote_quote [simp]: "unquote (quote s) = s"
proof -
  have "from_utf8 (concat (map utf8 s)) = s" by (induction s) (simp_all add: from_utf8_char)
  then show ?thesis by (simp add: unquote_def octets_quote)
qed

lemma unquote_unreserved: "list_all unreserved s \<Longrightarrow> unquote s = s"
proof -
  assume "list_all unreserved s"
  then have "quote s = s" by (induction s) (auto simp: quote_def quote_char_def)
  then show ?thesis by (metis unquote_quote)
qed

lemma quote_eq [simp]: "quote s = quote t \<longleftrightarrow> s = t"
  by (metis unquote_quote)

lemma quote_Nil [simp]: "quote s = [] \<longleftrightarrow> s = []"
  using quote_eq [of s "[]"] by (auto simp: quote_def)

lemma hex_upper_plain: "n < 16 \<Longrightarrow> unreserved (hex_upper n)"
  by (auto simp: hex_upper_def unreserved_def is_alpha_ascii_def is_upper_ascii_def is_digit_def code_def)

lemma quote_plain:
  assumes "c \<in> set (quote s)"
  shows "unreserved c \<or> c = CHR ''%''"
proof -
  have "unreserved c \<or> c = CHR ''%''" if c: "c \<in> set (quote_char d)" for d
  proof (cases "unreserved d")
    case False
    with c obtain n where "n \<in> set (utf8 d)" "c \<in> set (percent n)" by (auto simp: quote_char_def)
    then show ?thesis using utf8_octets [of n d] hex_upper_plain [of "n div 16"] hex_upper_plain [of "n mod 16"] by (auto simp: percent_def)
  qed (use c in \<open>simp add: quote_char_def\<close>)
  then show ?thesis using assms by (auto simp: quote_def)
qed

lemma unreserved_no_slash: "unreserved c \<Longrightarrow> c \<noteq> CHR ''/'' \<and> c \<noteq> CHR 0x7B \<and> c \<noteq> CHR 0x7D"
  by (auto simp: unreserved_def is_alpha_ascii_def is_upper_ascii_def is_lower_ascii_def is_digit_def code_def)

lemma quote_no_slash: "CHR ''/'' \<notin> set (quote s)"
  using quote_plain [of "CHR ''/''" s] unreserved_no_slash [of "CHR ''/''"] by auto

section \<open>Segments\<close>

fun segments :: "string \<Rightarrow> string list" where
  "segments [] = [[]]"
| "segments (c # s) = (if c = CHR ''/'' then [] # segments s else (case segments s of t # ts \<Rightarrow> (c # t) # ts | [] \<Rightarrow> [[c]]))"

lemma segments_nonempty [simp]: "segments s \<noteq> []"
  by (induction s) (auto split: list.splits)

lemma segments_single: "CHR ''/'' \<notin> set s \<Longrightarrow> segments s = [s]"
  by (induction s) auto

lemma segments_append: "CHR ''/'' \<notin> set s \<Longrightarrow> segments (s @ CHR ''/'' # t) = s # segments t"
  by (induction s) auto

lemma segments_join:
  assumes "ss \<noteq> []" "\<forall>s \<in> set ss. CHR ''/'' \<notin> set s"
  shows "segments (join ''/'' ss) = ss"
  using assms by (induction "''/''" ss rule: join.induct) (auto simp: segments_single segments_append)

lemma join_segments: "join ''/'' (segments s) = s"
proof (induction s)
  case (Cons c s)
  show ?case
  proof (cases "segments s")
    case Nil
    then show ?thesis by simp
  next
    case (Cons t ts)
    with \<open>join ''/'' (segments s) = s\<close> show ?thesis by (cases ts) auto
  qed
qed simp

lemma segments_no_slash: "t \<in> set (segments s) \<Longrightarrow> CHR ''/'' \<notin> set t"
proof (induction s arbitrary: t)
  case (Cons c s)
  then show ?case by (cases "segments s") (auto split: if_splits)
qed simp

text \<open>A template is a path whose segments are plain words or single parameters.\<close>

definition hole :: "string \<Rightarrow> string option" where
  "hole seg = (case seg of c # s \<Rightarrow> if c = CHR 0x7B then (case hole_at s of Some (w, []) \<Rightarrow> Some w | _ \<Rightarrow> None) else None | [] \<Rightarrow> None)"

definition plain_segment :: "string \<Rightarrow> bool" where
  "plain_segment seg \<longleftrightarrow> hole seg \<noteq> None \<or> list_all unreserved seg"

definition plain_template :: "string \<Rightarrow> bool" where
  "plain_template t \<longleftrightarrow> list_all plain_segment (segments t) \<and> hole (hd (segments t)) = None \<and> (t = [] \<or> [] \<notin> set (segments t))"

definition fill_segment :: "(string \<Rightarrow> string) \<Rightarrow> string \<Rightarrow> string" where
  "fill_segment f seg = (case hole seg of Some w \<Rightarrow> f w | None \<Rightarrow> seg)"

lemma word_char_closing: "\<not> word_char (CHR 0x7D)"
  by (simp add: word_char_def is_alpha_ascii_def is_upper_ascii_def is_lower_ascii_def is_digit_def code_def)

lemma hole_at_append: "hole_at s = Some (w, rest) \<Longrightarrow> hole_at (s @ t) = Some (w, rest @ t)"
proof -
  assume h: "hole_at s = Some (w, rest)"
  then have d: "dropWhile word_char s = CHR 0x7D # rest" "w = takeWhile word_char s" "w \<noteq> []"
    by (auto simp: hole_at_def Let_def split: list.splits if_splits)
  have "s = w @ CHR 0x7D # rest" using d(1,2) by (metis takeWhile_dropWhile_id)
  moreover have "\<forall>c \<in> set w. word_char c" using d(2) by (auto dest: set_takeWhileD)
  moreover note d(3)
  ultimately show ?thesis by (simp add: hole_at_def word_char_closing takeWhile_append dropWhile_append)
qed

lemma fill_literal: "list_all unreserved s \<Longrightarrow> fill f (s @ t) = s @ fill f t"
  by (induction s) (auto dest: unreserved_no_slash)

lemma find_literal: "list_all unreserved s \<Longrightarrow> find_params (s @ t) = find_params t"
  by (induction s) (auto dest: unreserved_no_slash)

lemma holeE:
  assumes "hole s = Some w"
  obtains s' where "s = CHR 0x7B # s'" "hole_at s' = Some (w, [])"
  using assms by (auto simp: hole_def split: list.splits if_splits option.splits)

lemma fill_plain_segment:
  assumes "plain_segment s"
  shows "fill f (s @ t) = fill_segment f s @ fill f t"
proof (cases "hole s")
  case None
  then show ?thesis using assms by (simp add: plain_segment_def fill_segment_def fill_literal)
next
  case (Some w)
  then obtain s' where s': "s = CHR 0x7B # s'" "hole_at s' = Some (w, [])" by (rule holeE)
  from hole_at_append [OF s'(2), of t] show ?thesis by (simp add: s'(1) fill_segment_def Some [unfolded s'(1)])
qed

lemma find_plain_segment:
  assumes "plain_segment s"
  shows "find_params (s @ t) = (case hole s of Some w \<Rightarrow> [w] | None \<Rightarrow> []) @ find_params t"
proof (cases "hole s")
  case None
  then show ?thesis using assms by (simp add: plain_segment_def find_literal)
next
  case (Some w)
  then obtain s' where s': "s = CHR 0x7B # s'" "hole_at s' = Some (w, [])" by (rule holeE)
  from hole_at_append [OF s'(2), of t] show ?thesis by (simp add: s'(1) Some [unfolded s'(1)])
qed

lemma fill_join: "list_all plain_segment ss \<Longrightarrow> fill f (join ''/'' ss) = join ''/'' (map (fill_segment f) ss)"
proof (induction "''/''" ss rule: join.induct)
  case (2 s)
  then show ?case using fill_plain_segment [of s f "[]"] by simp
next
  case (3 s t ss)
  then show ?case using fill_plain_segment [of s f "''/'' @ join ''/'' (t # ss)"] by simp
qed simp

lemma find_join: "list_all plain_segment ss \<Longrightarrow> find_params (join ''/'' ss) = List.map_filter hole ss"
proof (induction "''/''" ss rule: join.induct)
  case (2 s)
  then show ?case using find_plain_segment [of s "[]"] by (simp add: List.map_filter_simps split: option.splits)
next
  case (3 s t ss)
  then show ?case using find_plain_segment [of s "''/'' @ join ''/'' (t # ss)"] by (simp add: List.map_filter_simps split: option.splits)
qed (simp add: List.map_filter_simps)

end
