(* ===== verification/Rest_Catalog.thy ===== *)
theory Rest_Catalog
  imports Rest_Request
begin

text \<open>
  The catalog of operations of the Python client, \<open>ENDPOINTS\<close> of \<open>api/endpoints.py\<close>, which is read from
  \<open>api/server_contract.json\<close>; the keys of an entry that no code reads (\<open>body\<close>, \<open>headers\<close>, \<open>source\<close>, notes) are left out.
  Then what the path of a request says: a server that splits it at slashes and decodes the segments finds the
  parameters.
\<close>

section \<open>The catalog\<close>

definition in_graph :: "string \<Rightarrow> string" where
  "in_graph tail = ''graphspaces/{graphspace}/graphs/{graph}/'' @ tail"

definition in_space :: "string \<Rightarrow> string" where
  "in_space tail = ''graphspaces/{graphspace}/'' @ tail"

text \<open>An entry with the values that nearly all entries have.\<close>

definition operation :: "string \<Rightarrow> string \<Rightarrow> string list \<Rightarrow> endpoint" where
  "operation meth path query = \<lparr>ep_method = meth, ep_path = path, ep_query = query, ep_content_type = ''application/json'',
     ep_vertex_query = [], ep_vertex_path = [], ep_requires_space = False, ep_response_type = ''json'', ep_json_when = [],
     ep_passthrough = False\<rparr>"

definition ARTHAS_ENDPOINTS :: catalog where
  "ARTHAS_ENDPOINTS =
    [(''arthas.start_arthas'', operation ''PUT'' ''arthas'' [])]"

definition ACCESS_ENDPOINTS :: catalog where
  "ACCESS_ENDPOINTS =
    [(''access.create'', operation ''POST'' (in_space ''auth/accesses'') []),
     (''access.update'', operation ''PUT'' (in_space ''auth/accesses/{id}'') []),
     (''access.list'', operation ''GET'' (in_space ''auth/accesses'') [''group'', ''target'', ''limit'']),
     (''access.get'', operation ''GET'' (in_space ''auth/accesses/{id}'') []),
     (''access.delete'', operation ''DELETE'' (in_space ''auth/accesses/{id}'') [])]"

definition BELONG_ENDPOINTS :: catalog where
  "BELONG_ENDPOINTS =
    [(''belong.create'', operation ''POST'' (in_space ''auth/belongs'') []),
     (''belong.update'', operation ''PUT'' (in_space ''auth/belongs/{id}'') []),
     (''belong.list'', operation ''GET'' (in_space ''auth/belongs'') [''user'', ''group'', ''limit'']),
     (''belong.get'', operation ''GET'' (in_space ''auth/belongs/{id}'') []),
     (''belong.delete'', operation ''DELETE'' (in_space ''auth/belongs/{id}'') [])]"

definition GRAPH_SPACE_GROUP_ENDPOINTS :: catalog where
  "GRAPH_SPACE_GROUP_ENDPOINTS =
    [(''graph_space_group.create'', (operation ''POST'' (in_space ''auth/groups'') [])\<lparr>ep_requires_space := True\<rparr>),
     (''graph_space_group.update'', (operation ''PUT'' (in_space ''auth/groups/{id}'') [])\<lparr>ep_requires_space := True\<rparr>),
     (''graph_space_group.list'', (operation ''GET'' (in_space ''auth/groups'') [''limit''])\<lparr>ep_requires_space := True\<rparr>),
     (''graph_space_group.get'', (operation ''GET'' (in_space ''auth/groups/{id}'') [])\<lparr>ep_requires_space := True\<rparr>),
     (''graph_space_group.delete'', (operation ''DELETE'' (in_space ''auth/groups/{id}'') [])\<lparr>ep_requires_space := True\<rparr>)]"

definition GROUP_ENDPOINTS :: catalog where
  "GROUP_ENDPOINTS =
    [(''group.create'', operation ''POST'' ''auth/groups'' []),
     (''group.update'', operation ''PUT'' ''auth/groups/{id}'' []),
     (''group.list'', operation ''GET'' ''auth/groups'' [''limit'']),
     (''group.get'', operation ''GET'' ''auth/groups/{id}'' []),
     (''group.delete'', operation ''DELETE'' ''auth/groups/{id}'' [])]"

definition LOGIN_ENDPOINTS :: catalog where
  "LOGIN_ENDPOINTS =
    [(''login.login'', operation ''POST'' ''auth/login'' []),
     (''login.logout'', operation ''DELETE'' ''auth/logout'' []),
     (''login.verify_token'', operation ''GET'' ''auth/verify'' [])]"

definition MANAGER_ENDPOINTS :: catalog where
  "MANAGER_ENDPOINTS =
    [(''manager.create_manager'', (operation ''POST'' (in_space ''auth/managers'') [])\<lparr>ep_requires_space := True\<rparr>),
     (''manager.delete'', (operation ''DELETE'' (in_space ''auth/managers'') [''user'', ''type''])\<lparr>ep_requires_space := True\<rparr>),
     (''manager.list'', (operation ''GET'' (in_space ''auth/managers'') [''type''])\<lparr>ep_requires_space := True\<rparr>),
     (''manager.check_role'', (operation ''GET'' (in_space ''auth/managers/check'') [''type''])\<lparr>ep_requires_space := True\<rparr>),
     (''manager.get_roles_in_gs'', (operation ''GET'' (in_space ''auth/managers/role'') [''user''])\<lparr>ep_requires_space := True\<rparr>),
     (''manager.check_default_role'', (operation ''GET'' (in_space ''auth/managers/default'') [''role'', ''graph''])\<lparr>ep_requires_space := True\<rparr>)]"

definition PROJECT_ENDPOINTS :: catalog where
  "PROJECT_ENDPOINTS =
    [(''project.create'', operation ''POST'' (in_space ''auth/projects'') []),
     (''project.update'', operation ''PUT'' (in_space ''auth/projects/{id}'') [''action'']),
     (''project.list'', operation ''GET'' (in_space ''auth/projects'') [''limit'']),
     (''project.get'', operation ''GET'' (in_space ''auth/projects/{id}'') []),
     (''project.delete'', operation ''DELETE'' (in_space ''auth/projects/{id}'') [])]"

definition TARGET_ENDPOINTS :: catalog where
  "TARGET_ENDPOINTS =
    [(''target.create'', operation ''POST'' (in_space ''auth/targets'') []),
     (''target.update'', operation ''PUT'' (in_space ''auth/targets/{id}'') []),
     (''target.list'', operation ''GET'' (in_space ''auth/targets'') [''limit'']),
     (''target.get'', operation ''GET'' (in_space ''auth/targets/{id}'') []),
     (''target.delete'', operation ''DELETE'' (in_space ''auth/targets/{id}'') [])]"

definition USER_ENDPOINTS :: catalog where
  "USER_ENDPOINTS =
    [(''user.create'', operation ''POST'' (in_space ''auth/users'') []),
     (''user.update'', operation ''PUT'' (in_space ''auth/users/{id}'') []),
     (''user.list'', operation ''GET'' (in_space ''auth/users'') [''name'', ''limit'']),
     (''user.get'', operation ''GET'' (in_space ''auth/users/{id}'') []),
     (''user.role'', operation ''GET'' (in_space ''auth/users/{id}/role'') []),
     (''user.delete'', operation ''DELETE'' (in_space ''auth/users/{id}'') [])]"

definition CYPHER_ENDPOINTS :: catalog where
  "CYPHER_ENDPOINTS =
    [(''cypher.query'', operation ''GET'' (in_graph ''cypher'') [''cypher'']),
     (''cypher.post'', operation ''POST'' (in_graph ''cypher'') [])]"

definition EDGE_ENDPOINTS :: catalog where
  "EDGE_ENDPOINTS =
    [(''edge.create_batch'', operation ''POST'' (in_graph ''graph/edges/batch'') [''check_vertex'']),
     (''edge.update_batch'', operation ''PUT'' (in_graph ''graph/edges/batch'') []),
     (''edge.update_by_id'', operation ''PUT'' (in_graph ''graph/edges/{id}'') [''action'']),
     (''edge.list'', (operation ''GET'' (in_graph ''graph/edges'') [''vertex_id'', ''direction'', ''label'', ''properties'', ''keep_start_p'', ''offset'', ''page'', ''limit''])\<lparr>ep_vertex_query := [''vertex_id'']\<rparr>),
     (''edge.get'', operation ''GET'' (in_graph ''graph/edges/{id}'') []),
     (''edge.delete'', operation ''DELETE'' (in_graph ''graph/edges/{id}'') [''label'']),
     (''edge.create'', operation ''POST'' (in_graph ''graph/edges'') [])]"

definition VERTEX_ENDPOINTS :: catalog where
  "VERTEX_ENDPOINTS =
    [(''vertex.create_batch'', operation ''POST'' (in_graph ''graph/vertices/batch'') []),
     (''vertex.update_batch'', operation ''PUT'' (in_graph ''graph/vertices/batch'') []),
     (''vertex.update_by_id'', (operation ''PUT'' (in_graph ''graph/vertices/{id}'') [''action''])\<lparr>ep_vertex_path := [''id'']\<rparr>),
     (''vertex.list'', operation ''GET'' (in_graph ''graph/vertices'') [''label'', ''properties'', ''keep_start_p'', ''offset'', ''page'', ''limit'']),
     (''vertex.get'', (operation ''GET'' (in_graph ''graph/vertices/{id}'') [])\<lparr>ep_vertex_path := [''id'']\<rparr>),
     (''vertex.delete'', (operation ''DELETE'' (in_graph ''graph/vertices/{id}'') [''label''])\<lparr>ep_vertex_path := [''id'']\<rparr>),
     (''vertex.create'', operation ''POST'' (in_graph ''graph/vertices'') [])]"

definition GREMLIN_ENDPOINTS :: catalog where
  "GREMLIN_ENDPOINTS =
    [(''gremlin.post'', operation ''POST'' ''gremlin'' []),
     (''gremlin.get'', (operation ''GET'' ''gremlin'' [''gremlin'', ''language''])\<lparr>ep_passthrough := True\<rparr>)]"

definition ALGORITHM_ENDPOINTS :: catalog where
  "ALGORITHM_ENDPOINTS =
    [(''algorithm.post'', operation ''POST'' (in_graph ''jobs/algorithm/{name}'') [])]"

definition COMPUTER_ENDPOINTS :: catalog where
  "COMPUTER_ENDPOINTS =
    [(''computer.post'', operation ''POST'' (in_graph ''jobs/computer/{name}'') [])]"

definition GREMLIN_JOB_ENDPOINTS :: catalog where
  "GREMLIN_JOB_ENDPOINTS =
    [(''gremlin_job.post'', operation ''POST'' (in_graph ''jobs/gremlin'') [])]"

definition REBUILD_ENDPOINTS :: catalog where
  "REBUILD_ENDPOINTS =
    [(''rebuild.vertex_label_rebuild'', operation ''PUT'' (in_graph ''jobs/rebuild/vertexlabels/{name}'') []),
     (''rebuild.edge_label_rebuild'', operation ''PUT'' (in_graph ''jobs/rebuild/edgelabels/{name}'') []),
     (''rebuild.index_label_rebuild'', operation ''PUT'' (in_graph ''jobs/rebuild/indexlabels/{name}'') [])]"

definition TASK_ENDPOINTS :: catalog where
  "TASK_ENDPOINTS =
    [(''task.list'', operation ''GET'' (in_graph ''tasks'') [''status'', ''ids'', ''limit'', ''page'']),
     (''task.get'', operation ''GET'' (in_graph ''tasks/{id}'') [''with_result'']),
     (''task.delete'', operation ''DELETE'' (in_graph ''tasks/{id}'') [''force'']),
     (''task.update'', operation ''PUT'' (in_graph ''tasks/{id}'') [''action''])]"

definition METRICS_ENDPOINTS :: catalog where
  "METRICS_ENDPOINTS =
    [(''metrics.system'', operation ''GET'' ''metrics/system'' []),
     (''metrics.backend'', operation ''GET'' ''metrics/backend'' []),
     (''metrics.gauges'', operation ''GET'' ''metrics/gauges'' []),
     (''metrics.counters'', operation ''GET'' ''metrics/counters'' []),
     (''metrics.histograms'', operation ''GET'' ''metrics/histograms'' []),
     (''metrics.meters'', operation ''GET'' ''metrics/meters'' []),
     (''metrics.timers'', operation ''GET'' ''metrics/timers'' []),
     (''metrics.all'', (operation ''GET'' ''metrics'' [''type''])\<lparr>ep_response_type := ''text'', ep_json_when := [(''type'', ''json'')]\<rparr>),
     (''metrics.statistics'', (operation ''GET'' ''metrics/statistics'' [''type''])\<lparr>ep_response_type := ''text'', ep_json_when := [(''type'', ''json'')]\<rparr>)]"

definition GRAPHS_ENDPOINTS :: catalog where
  "GRAPHS_ENDPOINTS =
    [(''graphs.list'', operation ''GET'' (in_space ''graphs'') []),
     (''graphs.list_profile'', operation ''GET'' (in_space ''graphs/profile'') [''prefix'']),
     (''graphs.get'', operation ''GET'' (in_space ''graphs/{name}'') []),
     (''graphs.set_default'', operation ''POST'' (in_space ''graphs/{name}/default'') []),
     (''graphs.unset_default'', operation ''DELETE'' (in_space ''graphs/{name}/default'') []),
     (''graphs.get_default'', operation ''GET'' (in_space ''graphs/default'') []),
     (''graphs.drop'', operation ''DELETE'' (in_space ''graphs/{name}'') [''confirm_message'']),
     (''graphs.manage'', operation ''PUT'' (in_space ''graphs/{name}'') []),
     (''graphs.reload'', operation ''PUT'' (in_space ''graphs/manage'') []),
     (''graphs.create'', operation ''POST'' (in_space ''graphs/{name}'') [''clone_graph_name'']),
     (''graphs.clone_schema'', operation ''POST'' (in_space ''graphs/{name}/schema-clone'') [''source'']),
     (''graphs.create_by_text'', (operation ''POST'' (in_space ''graphs/{name}'') [''clone_graph_name''])\<lparr>ep_content_type := ''text/plain''\<rparr>),
     (''graphs.get_conf'', (operation ''GET'' (in_space ''graphs/{name}/conf'') [])\<lparr>ep_response_type := ''text''\<rparr>),
     (''graphs.clear'', operation ''DELETE'' (in_space ''graphs/{name}/clear'') [''confirm_message'']),
     (''graphs.create_snapshot'', operation ''PUT'' (in_space ''graphs/{name}/snapshot_create'') []),
     (''graphs.resume_snapshot'', operation ''PUT'' (in_space ''graphs/{name}/snapshot_resume'') []),
     (''graphs.compact'', operation ''PUT'' (in_space ''graphs/{name}/compact'') []),
     (''graphs.mode_set'', operation ''PUT'' (in_space ''graphs/{name}/mode'') []),
     (''graphs.mode_get'', operation ''GET'' (in_space ''graphs/{name}/mode'') []),
     (''graphs.loading_mode_get'', operation ''GET'' (in_space ''graphs/{name}/mode/owners'') []),
     (''graphs.loading_mode_set'', operation ''PUT'' (in_space ''graphs/{name}/mode/owners'') []),
     (''graphs.graph_read_mode_set'', operation ''PUT'' (in_space ''graphs/{name}/graph_read_mode'') []),
     (''graphs.graph_read_mode_get'', operation ''GET'' (in_space ''graphs/{name}/graph_read_mode'') [])]"

definition PROFILE_ENDPOINTS :: catalog where
  "PROFILE_ENDPOINTS =
    [(''profile.get_profile'', operation ''GET'' [] []),
     (''profile.show_all_apis'', operation ''GET'' ''apis'' [])]"

definition VERSION_ENDPOINTS :: catalog where
  "VERSION_ENDPOINTS =
    [(''version.list'', operation ''GET'' ''versions'' [])]"

definition WHITE_IP_LIST_ENDPOINTS :: catalog where
  "WHITE_IP_LIST_ENDPOINTS =
    [(''white_ip_list.list'', operation ''GET'' ''whiteiplist'' []),
     (''white_ip_list.update_white_ips'', operation ''POST'' ''whiteiplist'' []),
     (''white_ip_list.update_status'', operation ''PUT'' ''whiteiplist'' [''status''])]"

definition RAFT_ENDPOINTS :: catalog where
  "RAFT_ENDPOINTS =
    [(''raft.list_peers'', operation ''GET'' (in_graph ''raft/list_peers'') [''group'']),
     (''raft.get_leader'', operation ''GET'' (in_graph ''raft/get_leader'') [''group'']),
     (''raft.transfer_leader'', operation ''POST'' (in_graph ''raft/transfer_leader'') [''group'', ''endpoint'']),
     (''raft.set_leader'', operation ''POST'' (in_graph ''raft/set_leader'') [''group'', ''endpoint'']),
     (''raft.add_peer'', operation ''POST'' (in_graph ''raft/add_peer'') [''group'', ''endpoint'']),
     (''raft.remove_peer'', operation ''POST'' (in_graph ''raft/remove_peer'') [''group'', ''endpoint''])]"

definition EDGE_LABEL_ENDPOINTS :: catalog where
  "EDGE_LABEL_ENDPOINTS =
    [(''edge_label.create'', operation ''POST'' (in_graph ''schema/edgelabels'') []),
     (''edge_label.update'', operation ''PUT'' (in_graph ''schema/edgelabels/{name}'') [''action'']),
     (''edge_label.list'', operation ''GET'' (in_graph ''schema/edgelabels'') [''names'']),
     (''edge_label.get'', operation ''GET'' (in_graph ''schema/edgelabels/{name}'') []),
     (''edge_label.delete'', operation ''DELETE'' (in_graph ''schema/edgelabels/{name}'') [])]"

definition INDEX_LABEL_ENDPOINTS :: catalog where
  "INDEX_LABEL_ENDPOINTS =
    [(''index_label.create'', operation ''POST'' (in_graph ''schema/indexlabels'') []),
     (''index_label.update'', operation ''PUT'' (in_graph ''schema/indexlabels/{name}'') [''action'']),
     (''index_label.list'', operation ''GET'' (in_graph ''schema/indexlabels'') [''names'']),
     (''index_label.get'', operation ''GET'' (in_graph ''schema/indexlabels/{name}'') []),
     (''index_label.delete'', operation ''DELETE'' (in_graph ''schema/indexlabels/{name}'') [])]"

definition PROPERTY_KEY_ENDPOINTS :: catalog where
  "PROPERTY_KEY_ENDPOINTS =
    [(''property_key.create'', operation ''POST'' (in_graph ''schema/propertykeys'') []),
     (''property_key.update'', operation ''PUT'' (in_graph ''schema/propertykeys/{name}'') [''action'']),
     (''property_key.list'', operation ''GET'' (in_graph ''schema/propertykeys'') [''names'']),
     (''property_key.get'', operation ''GET'' (in_graph ''schema/propertykeys/{name}'') []),
     (''property_key.delete'', operation ''DELETE'' (in_graph ''schema/propertykeys/{name}'') [])]"

definition SCHEMA_ENDPOINTS :: catalog where
  "SCHEMA_ENDPOINTS =
    [(''schema.list'', operation ''GET'' (in_graph ''schema'') [])]"

definition VERTEX_LABEL_ENDPOINTS :: catalog where
  "VERTEX_LABEL_ENDPOINTS =
    [(''vertex_label.create'', operation ''POST'' (in_graph ''schema/vertexlabels'') []),
     (''vertex_label.update'', operation ''PUT'' (in_graph ''schema/vertexlabels/{name}'') [''action'']),
     (''vertex_label.list'', operation ''GET'' (in_graph ''schema/vertexlabels'') [''names'']),
     (''vertex_label.get'', operation ''GET'' (in_graph ''schema/vertexlabels/{name}'') []),
     (''vertex_label.delete'', operation ''DELETE'' (in_graph ''schema/vertexlabels/{name}'') [])]"

definition GRAPH_SPACE_ENDPOINTS :: catalog where
  "GRAPH_SPACE_ENDPOINTS =
    [(''graph_space.list'', operation ''GET'' ''graphspaces'' []),
     (''graph_space.get'', operation ''GET'' ''graphspaces/{graphspace}'' []),
     (''graph_space.set_default_role'', operation ''POST'' (in_space ''role'') []),
     (''graph_space.check_default_role'', operation ''GET'' (in_space ''role'') [''user'', ''role'', ''graph'']),
     (''graph_space.delete_default_role'', operation ''DELETE'' (in_space ''role'') [''user'', ''role'', ''graph'']),
     (''graph_space.list_profile'', operation ''GET'' ''graphspaces/profile'' [''prefix'']),
     (''graph_space.create'', operation ''POST'' ''graphspaces'' []),
     (''graph_space.manage'', operation ''PUT'' ''graphspaces/{name}'' []),
     (''graph_space.delete'', operation ''DELETE'' ''graphspaces/{name}'' [])]"

definition SCHEMA_TEMPLATE_ENDPOINTS :: catalog where
  "SCHEMA_TEMPLATE_ENDPOINTS =
    [(''schema_template.list'', operation ''GET'' (in_space ''schematemplates'') []),
     (''schema_template.get'', operation ''GET'' (in_space ''schematemplates/{name}'') []),
     (''schema_template.create'', operation ''POST'' (in_space ''schematemplates'') []),
     (''schema_template.delete'', operation ''DELETE'' (in_space ''schematemplates/{name}'') []),
     (''schema_template.update'', operation ''PUT'' (in_space ''schematemplates/{name}'') [])]"

definition ADAMIC_ADAR_ENDPOINTS :: catalog where
  "ADAMIC_ADAR_ENDPOINTS =
    [(''adamic_adar.get'', (operation ''GET'' (in_graph ''traversers/adamicadar'') [''vertex'', ''other'', ''direction'', ''label'', ''max_degree'', ''limit''])\<lparr>ep_vertex_query := [''vertex'', ''other'']\<rparr>)]"

definition ALL_SHORTEST_PATHS_ENDPOINTS :: catalog where
  "ALL_SHORTEST_PATHS_ENDPOINTS =
    [(''all_shortest_paths.get'', (operation ''GET'' (in_graph ''traversers/allshortestpaths'') [''source'', ''target'', ''direction'', ''label'', ''max_depth'', ''max_degree'', ''skip_degree'', ''with_vertex'', ''with_edge'', ''capacity''])\<lparr>ep_vertex_query := [''source'', ''target'']\<rparr>)]"

definition COUNT_ENDPOINTS :: catalog where
  "COUNT_ENDPOINTS =
    [(''count.post'', operation ''POST'' (in_graph ''traversers/count'') [])]"

definition CROSSPOINTS_ENDPOINTS :: catalog where
  "CROSSPOINTS_ENDPOINTS =
    [(''crosspoints.get'', (operation ''GET'' (in_graph ''traversers/crosspoints'') [''source'', ''target'', ''direction'', ''label'', ''max_depth'', ''max_degree'', ''capacity'', ''limit''])\<lparr>ep_vertex_query := [''source'', ''target'']\<rparr>)]"

definition CUSTOMIZED_CROSSPOINTS_ENDPOINTS :: catalog where
  "CUSTOMIZED_CROSSPOINTS_ENDPOINTS =
    [(''customized_crosspoints.post'', operation ''POST'' (in_graph ''traversers/customizedcrosspoints'') [])]"

definition CUSTOMIZED_PATHS_ENDPOINTS :: catalog where
  "CUSTOMIZED_PATHS_ENDPOINTS =
    [(''customized_paths.post'', operation ''POST'' (in_graph ''traversers/customizedpaths'') [])]"

definition EDGE_EXISTENCE_ENDPOINTS :: catalog where
  "EDGE_EXISTENCE_ENDPOINTS =
    [(''edge_existence.get'', (operation ''GET'' (in_graph ''traversers/edgeexist'') [''source'', ''target'', ''label'', ''sort_values'', ''limit''])\<lparr>ep_vertex_query := [''source'', ''target'']\<rparr>)]"

definition EDGES_ENDPOINTS :: catalog where
  "EDGES_ENDPOINTS =
    [(''edges.list'', operation ''GET'' (in_graph ''traversers/edges'') [''ids'']),
     (''edges.shards'', operation ''GET'' (in_graph ''traversers/edges/shards'') [''split_size'']),
     (''edges.scan'', operation ''GET'' (in_graph ''traversers/edges/scan'') [''start'', ''end'', ''page'', ''page_limit''])]"

definition FUSIFORM_SIMILARITY_ENDPOINTS :: catalog where
  "FUSIFORM_SIMILARITY_ENDPOINTS =
    [(''fusiform_similarity.post'', operation ''POST'' (in_graph ''traversers/fusiformsimilarity'') [])]"

definition JACCARD_SIMILARITY_ENDPOINTS :: catalog where
  "JACCARD_SIMILARITY_ENDPOINTS =
    [(''jaccard_similarity.get'', (operation ''GET'' (in_graph ''traversers/jaccardsimilarity'') [''vertex'', ''other'', ''direction'', ''label'', ''max_degree''])\<lparr>ep_vertex_query := [''vertex'', ''other'']\<rparr>),
     (''jaccard_similarity.post'', operation ''POST'' (in_graph ''traversers/jaccardsimilarity'') [])]"

definition KNEIGHBOR_ENDPOINTS :: catalog where
  "KNEIGHBOR_ENDPOINTS =
    [(''kneighbor.get'', (operation ''GET'' (in_graph ''traversers/kneighbor'') [''source'', ''direction'', ''label'', ''max_depth'', ''count_only'', ''max_degree'', ''limit''])\<lparr>ep_vertex_query := [''source'']\<rparr>),
     (''kneighbor.post'', operation ''POST'' (in_graph ''traversers/kneighbor'') [])]"

definition KOUT_ENDPOINTS :: catalog where
  "KOUT_ENDPOINTS =
    [(''kout.get'', (operation ''GET'' (in_graph ''traversers/kout'') [''source'', ''direction'', ''label'', ''max_depth'', ''nearest'', ''count_only'', ''max_degree'', ''capacity'', ''limit''])\<lparr>ep_vertex_query := [''source'']\<rparr>),
     (''kout.post'', operation ''POST'' (in_graph ''traversers/kout'') [])]"

definition MULTI_NODE_SHORTEST_PATH_ENDPOINTS :: catalog where
  "MULTI_NODE_SHORTEST_PATH_ENDPOINTS =
    [(''multi_node_shortest_path.post'', operation ''POST'' (in_graph ''traversers/multinodeshortestpath'') [])]"

definition NEIGHBOR_RANK_ENDPOINTS :: catalog where
  "NEIGHBOR_RANK_ENDPOINTS =
    [(''neighbor_rank.neighbor_rank'', operation ''POST'' (in_graph ''traversers/neighborrank'') [])]"

definition PATHS_ENDPOINTS :: catalog where
  "PATHS_ENDPOINTS =
    [(''paths.get'', (operation ''GET'' (in_graph ''traversers/paths'') [''source'', ''target'', ''direction'', ''label'', ''max_depth'', ''max_degree'', ''capacity'', ''limit''])\<lparr>ep_vertex_query := [''source'', ''target'']\<rparr>),
     (''paths.post'', operation ''POST'' (in_graph ''traversers/paths'') [])]"

definition PERSONAL_RANK_ENDPOINTS :: catalog where
  "PERSONAL_RANK_ENDPOINTS =
    [(''personal_rank.personal_rank'', operation ''POST'' (in_graph ''traversers/personalrank'') [])]"

definition RAYS_ENDPOINTS :: catalog where
  "RAYS_ENDPOINTS =
    [(''rays.get'', (operation ''GET'' (in_graph ''traversers/rays'') [''source'', ''direction'', ''label'', ''max_depth'', ''max_degree'', ''capacity'', ''limit'', ''with_vertex'', ''with_edge''])\<lparr>ep_vertex_query := [''source'']\<rparr>)]"

definition RESOURCE_ALLOCATION_ENDPOINTS :: catalog where
  "RESOURCE_ALLOCATION_ENDPOINTS =
    [(''resource_allocation.create'', (operation ''GET'' (in_graph ''traversers/resourceallocation'') [''vertex'', ''other'', ''direction'', ''label'', ''max_degree'', ''limit''])\<lparr>ep_vertex_query := [''vertex'', ''other'']\<rparr>)]"

definition RINGS_ENDPOINTS :: catalog where
  "RINGS_ENDPOINTS =
    [(''rings.get'', (operation ''GET'' (in_graph ''traversers/rings'') [''source'', ''direction'', ''label'', ''max_depth'', ''source_in_ring'', ''max_degree'', ''capacity'', ''limit'', ''with_vertex'', ''with_edge''])\<lparr>ep_vertex_query := [''source'']\<rparr>)]"

definition SAME_NEIGHBORS_ENDPOINTS :: catalog where
  "SAME_NEIGHBORS_ENDPOINTS =
    [(''same_neighbors.get'', (operation ''GET'' (in_graph ''traversers/sameneighbors'') [''vertex'', ''other'', ''direction'', ''label'', ''max_degree'', ''limit''])\<lparr>ep_vertex_query := [''vertex'', ''other'']\<rparr>),
     (''same_neighbors.same_neighbors'', operation ''POST'' (in_graph ''traversers/sameneighbors'') [])]"

definition SAME_NEIGHBORS_BATCH_ENDPOINTS :: catalog where
  "SAME_NEIGHBORS_BATCH_ENDPOINTS =
    [(''same_neighbors_batch.post'', operation ''POST'' (in_graph ''traversers/sameneighborsbatch'') [])]"

definition SHORTEST_PATH_ENDPOINTS :: catalog where
  "SHORTEST_PATH_ENDPOINTS =
    [(''shortest_path.get'', (operation ''GET'' (in_graph ''traversers/shortestpath'') [''source'', ''target'', ''direction'', ''label'', ''max_depth'', ''max_degree'', ''skip_degree'', ''with_vertex'', ''with_edge'', ''capacity''])\<lparr>ep_vertex_query := [''source'', ''target'']\<rparr>)]"

definition SINGLE_SOURCE_SHORTEST_PATH_ENDPOINTS :: catalog where
  "SINGLE_SOURCE_SHORTEST_PATH_ENDPOINTS =
    [(''single_source_shortest_path.get'', (operation ''GET'' (in_graph ''traversers/singlesourceshortestpath'') [''source'', ''direction'', ''label'', ''weight'', ''max_degree'', ''skip_degree'', ''with_vertex'', ''with_edge'', ''capacity'', ''limit''])\<lparr>ep_vertex_query := [''source'']\<rparr>)]"

definition TEMPLATE_PATHS_ENDPOINTS :: catalog where
  "TEMPLATE_PATHS_ENDPOINTS =
    [(''template_paths.post'', operation ''POST'' (in_graph ''traversers/templatepaths'') [])]"

definition VERTICES_ENDPOINTS :: catalog where
  "VERTICES_ENDPOINTS =
    [(''vertices.list'', (operation ''GET'' (in_graph ''traversers/vertices'') [''ids''])\<lparr>ep_vertex_query := [''ids'']\<rparr>),
     (''vertices.shards'', operation ''GET'' (in_graph ''traversers/vertices/shards'') [''split_size'']),
     (''vertices.scan'', operation ''GET'' (in_graph ''traversers/vertices/scan'') [''start'', ''end'', ''page'', ''page_limit''])]"

definition WEIGHTED_SHORTEST_PATH_ENDPOINTS :: catalog where
  "WEIGHTED_SHORTEST_PATH_ENDPOINTS =
    [(''weighted_shortest_path.get'', (operation ''GET'' (in_graph ''traversers/weightedshortestpath'') [''source'', ''target'', ''direction'', ''label'', ''weight'', ''max_degree'', ''skip_degree'', ''with_vertex'', ''with_edge'', ''capacity''])\<lparr>ep_vertex_query := [''source'', ''target'']\<rparr>)]"

definition VARIABLES_ENDPOINTS :: catalog where
  "VARIABLES_ENDPOINTS =
    [(''variables.update'', operation ''PUT'' (in_graph ''variables/{key}'') []),
     (''variables.list'', operation ''GET'' (in_graph ''variables'') []),
     (''variables.get'', operation ''GET'' (in_graph ''variables/{key}'') []),
     (''variables.delete'', operation ''DELETE'' (in_graph ''variables/{key}'') [])]"

definition EXCEPTION_TRACE_ENDPOINTS :: catalog where
  "EXCEPTION_TRACE_ENDPOINTS =
    [(''exception_trace.get'', operation ''GET'' ''exception/trace'' []),
     (''exception_trace.trace'', operation ''PUT'' ''exception/trace'' [])]"

text \<open>The entries in their order, by the resource they belong to.\<close>

definition ENDPOINT_GROUPS :: "(string \<times> catalog) list" where
  "ENDPOINT_GROUPS =
    [(''arthas'', ARTHAS_ENDPOINTS), (''access'', ACCESS_ENDPOINTS), (''belong'', BELONG_ENDPOINTS),
     (''graph_space_group'', GRAPH_SPACE_GROUP_ENDPOINTS), (''group'', GROUP_ENDPOINTS), (''login'',
     LOGIN_ENDPOINTS), (''manager'', MANAGER_ENDPOINTS), (''project'', PROJECT_ENDPOINTS), (''target'',
     TARGET_ENDPOINTS), (''user'', USER_ENDPOINTS), (''cypher'', CYPHER_ENDPOINTS), (''edge'', EDGE_ENDPOINTS),
     (''vertex'', VERTEX_ENDPOINTS), (''gremlin'', GREMLIN_ENDPOINTS), (''algorithm'', ALGORITHM_ENDPOINTS),
     (''computer'', COMPUTER_ENDPOINTS), (''gremlin_job'', GREMLIN_JOB_ENDPOINTS), (''rebuild'', REBUILD_ENDPOINTS),
     (''task'', TASK_ENDPOINTS), (''metrics'', METRICS_ENDPOINTS), (''graphs'', GRAPHS_ENDPOINTS), (''profile'',
     PROFILE_ENDPOINTS), (''version'', VERSION_ENDPOINTS), (''white_ip_list'', WHITE_IP_LIST_ENDPOINTS), (''raft'',
     RAFT_ENDPOINTS), (''edge_label'', EDGE_LABEL_ENDPOINTS), (''index_label'', INDEX_LABEL_ENDPOINTS),
     (''property_key'', PROPERTY_KEY_ENDPOINTS), (''schema'', SCHEMA_ENDPOINTS), (''vertex_label'',
     VERTEX_LABEL_ENDPOINTS), (''graph_space'', GRAPH_SPACE_ENDPOINTS), (''schema_template'',
     SCHEMA_TEMPLATE_ENDPOINTS), (''adamic_adar'', ADAMIC_ADAR_ENDPOINTS), (''all_shortest_paths'',
     ALL_SHORTEST_PATHS_ENDPOINTS), (''count'', COUNT_ENDPOINTS), (''crosspoints'', CROSSPOINTS_ENDPOINTS),
     (''customized_crosspoints'', CUSTOMIZED_CROSSPOINTS_ENDPOINTS), (''customized_paths'',
     CUSTOMIZED_PATHS_ENDPOINTS), (''edge_existence'', EDGE_EXISTENCE_ENDPOINTS), (''edges'', EDGES_ENDPOINTS),
     (''fusiform_similarity'', FUSIFORM_SIMILARITY_ENDPOINTS), (''jaccard_similarity'',
     JACCARD_SIMILARITY_ENDPOINTS), (''kneighbor'', KNEIGHBOR_ENDPOINTS), (''kout'', KOUT_ENDPOINTS),
     (''multi_node_shortest_path'', MULTI_NODE_SHORTEST_PATH_ENDPOINTS), (''neighbor_rank'',
     NEIGHBOR_RANK_ENDPOINTS), (''paths'', PATHS_ENDPOINTS), (''personal_rank'', PERSONAL_RANK_ENDPOINTS), (''rays'',
     RAYS_ENDPOINTS), (''resource_allocation'', RESOURCE_ALLOCATION_ENDPOINTS), (''rings'', RINGS_ENDPOINTS),
     (''same_neighbors'', SAME_NEIGHBORS_ENDPOINTS), (''same_neighbors_batch'', SAME_NEIGHBORS_BATCH_ENDPOINTS),
     (''shortest_path'', SHORTEST_PATH_ENDPOINTS), (''single_source_shortest_path'',
     SINGLE_SOURCE_SHORTEST_PATH_ENDPOINTS), (''template_paths'', TEMPLATE_PATHS_ENDPOINTS), (''vertices'',
     VERTICES_ENDPOINTS), (''weighted_shortest_path'', WEIGHTED_SHORTEST_PATH_ENDPOINTS), (''variables'',
     VARIABLES_ENDPOINTS), (''exception_trace'', EXCEPTION_TRACE_ENDPOINTS)]"

definition ENDPOINTS :: catalog where
  "ENDPOINTS = concat (map snd ENDPOINT_GROUPS)"

section \<open>The paths of the catalog\<close>

text \<open>A path of plain segments and parameters, also after the adaption to a server without graph spaces, which then needs
  no graph space.\<close>

definition adaptable :: "string \<Rightarrow> bool" where
  "adaptable tail \<longleftrightarrow> tail = ''graphs'' \<or> starts_with tail ''graphs/'' \<or> starts_with tail ''auth/''"

definition plain_path :: "string \<Rightarrow> bool" where
  "plain_path path \<longleftrightarrow> plain_template path \<and> (space_path path \<longrightarrow> adaptable (after_two path) \<longrightarrow>
     plain_template (after_two path) \<and> ''graphspace'' \<notin> set (find_params (after_two path))) \<and>
     (\<not> space_path path \<longrightarrow> ''graphspace'' \<notin> set (find_params path))"

text \<open>The facts about single characters and words that the paths consist of.\<close>

lemma plain_characters: "list_all (\<lambda>c. word_char c \<and> unreserved c) ''abcdefghijklmnopqrstuvwxyz_''"
  by code_simp

lemma dash_characters: "unreserved (CHR ''-'')" "\<not> word_char (CHR ''-'')" "\<not> word_char (CHR 0x7D)" "\<not> word_char (CHR 0x7B)"
    "\<not> word_char (CHR ''/'')" "\<not> unreserved (CHR 0x7D)" "\<not> unreserved (CHR 0x7B)"
  by code_simp+

lemmas character_simps = plain_characters [simplified] dash_characters

definition plain_tail :: "string \<Rightarrow> bool" where
  "plain_tail tail \<longleftrightarrow> list_all (\<lambda>seg. seg \<noteq> [] \<and> (case hole seg of None \<Rightarrow> list_all unreserved seg | Some w \<Rightarrow> w \<noteq> ''graphspace'')) (segments tail)"

lemma plain_tailD:
  assumes "plain_tail tail"
  shows "list_all plain_segment (segments tail)" "[] \<notin> set (segments tail)" "tail \<noteq> []"
  using assms by (auto simp: plain_tail_def plain_segment_def list_all_iff split: option.splits)

lemma plain_tail_params: "plain_tail tail \<Longrightarrow> ''graphspace'' \<notin> set (find_params tail)"
  using find_join [OF plain_tailD(1)] by (auto simp: join_segments plain_tail_def list_all_iff List.map_filter_def split: option.splits)

lemma segments_in_space: "segments (in_space tail) = ''graphspaces'' # ''{graphspace}'' # segments tail"
  by (simp add: in_space_def)

lemma after_in_space: "after_two (in_space tail) = tail"
  by (simp add: in_space_def after_two_def split_once_def)

lemma in_graph_space: "in_graph tail = in_space (''graphs/{graph}/'' @ tail)"
  by (simp add: in_graph_def in_space_def)

lemma space_holes: "hole ''graphspaces'' = None" "hole ''{graphspace}'' = Some ''graphspace''" "hole ''graphs'' = None"
    "hole ''{graph}'' = Some ''graph''"
  by code_simp+

lemma plain_in_space:
  assumes "plain_tail tail" "hole (hd (segments tail)) = None"
  shows "plain_path (in_space tail)"
proof -
  have "space_path (in_space tail)" by (simp add: space_path_def in_space_def)
  then show ?thesis using plain_tailD [OF assms(1)] plain_tail_params [OF assms(1)] assms(2)
  by (simp add: plain_path_def plain_template_def segments_in_space after_in_space space_holes plain_segment_def [of "''graphspaces''"]
      plain_segment_def [of "''{graphspace}''"] character_simps)
qed

lemma plain_in_graph: "plain_tail tail \<Longrightarrow> plain_path (in_graph tail)"
proof -
  have segs: "segments (''graphs/{graph}/'' @ tail) = ''graphs'' # ''{graph}'' # segments tail" by simp
  assume "plain_tail tail"
  then have "plain_tail (''graphs/{graph}/'' @ tail)" unfolding plain_tail_def segs by (simp add: space_holes character_simps)
  then show ?thesis unfolding in_graph_space by (rule plain_in_space) (simp only: segs list.sel space_holes)
qed

text \<open>The paths outside graph spaces.\<close>

lemma plain_server_paths:
  "list_all plain_path [''arthas'', ''auth/groups'', ''auth/groups/{id}'', ''auth/login'', ''auth/logout'', ''auth/verify'', ''gremlin'',
     ''metrics/system'', ''metrics/backend'', ''metrics/gauges'', ''metrics/counters'', ''metrics/histograms'']"
  "list_all plain_path [''metrics/meters'', ''metrics/timers'', ''metrics'', ''metrics/statistics'', [], ''apis'', ''versions'',
     ''whiteiplist'', ''graphspaces'', ''graphspaces/{graphspace}'', ''graphspaces/profile'', ''graphspaces/{name}'', ''exception/trace'']"
  by code_simp+

lemmas plain_paths = plain_server_paths [simplified]

lemma path_of_operation [simp]: "ep_path (operation meth path query) = path"
  by (simp add: operation_def)

lemmas tail_simps = plain_tail_def hole_def hole_at_def Let_def character_simps

lemmas endpoint_tables =
  ARTHAS_ENDPOINTS_def ACCESS_ENDPOINTS_def BELONG_ENDPOINTS_def GRAPH_SPACE_GROUP_ENDPOINTS_def GROUP_ENDPOINTS_def
  LOGIN_ENDPOINTS_def MANAGER_ENDPOINTS_def PROJECT_ENDPOINTS_def TARGET_ENDPOINTS_def USER_ENDPOINTS_def
  CYPHER_ENDPOINTS_def EDGE_ENDPOINTS_def VERTEX_ENDPOINTS_def GREMLIN_ENDPOINTS_def ALGORITHM_ENDPOINTS_def
  COMPUTER_ENDPOINTS_def GREMLIN_JOB_ENDPOINTS_def REBUILD_ENDPOINTS_def TASK_ENDPOINTS_def METRICS_ENDPOINTS_def
  GRAPHS_ENDPOINTS_def PROFILE_ENDPOINTS_def VERSION_ENDPOINTS_def WHITE_IP_LIST_ENDPOINTS_def RAFT_ENDPOINTS_def
  EDGE_LABEL_ENDPOINTS_def INDEX_LABEL_ENDPOINTS_def PROPERTY_KEY_ENDPOINTS_def SCHEMA_ENDPOINTS_def
  VERTEX_LABEL_ENDPOINTS_def GRAPH_SPACE_ENDPOINTS_def SCHEMA_TEMPLATE_ENDPOINTS_def ADAMIC_ADAR_ENDPOINTS_def
  ALL_SHORTEST_PATHS_ENDPOINTS_def COUNT_ENDPOINTS_def CROSSPOINTS_ENDPOINTS_def CUSTOMIZED_CROSSPOINTS_ENDPOINTS_def
  CUSTOMIZED_PATHS_ENDPOINTS_def EDGE_EXISTENCE_ENDPOINTS_def EDGES_ENDPOINTS_def FUSIFORM_SIMILARITY_ENDPOINTS_def
  JACCARD_SIMILARITY_ENDPOINTS_def KNEIGHBOR_ENDPOINTS_def KOUT_ENDPOINTS_def MULTI_NODE_SHORTEST_PATH_ENDPOINTS_def
  NEIGHBOR_RANK_ENDPOINTS_def PATHS_ENDPOINTS_def PERSONAL_RANK_ENDPOINTS_def RAYS_ENDPOINTS_def
  RESOURCE_ALLOCATION_ENDPOINTS_def RINGS_ENDPOINTS_def SAME_NEIGHBORS_ENDPOINTS_def SAME_NEIGHBORS_BATCH_ENDPOINTS_def
  SHORTEST_PATH_ENDPOINTS_def SINGLE_SOURCE_SHORTEST_PATH_ENDPOINTS_def TEMPLATE_PATHS_ENDPOINTS_def
  VERTICES_ENDPOINTS_def WEIGHTED_SHORTEST_PATH_ENDPOINTS_def VARIABLES_ENDPOINTS_def EXCEPTION_TRACE_ENDPOINTS_def

lemma catalog_plain: "list_all (\<lambda>(op, ep). plain_path (ep_path ep)) ENDPOINTS"
  by (simp add: ENDPOINTS_def ENDPOINT_GROUPS_def endpoint_tables plain_in_graph plain_in_space plain_paths tail_simps)

lemma catalog_entry: "map_of ENDPOINTS op = Some ep \<Longrightarrow> plain_path (ep_path ep)"
  using catalog_plain by (auto simp: list_all_iff dest!: map_of_SomeD)

text \<open>No operation comes twice: the part of its name before the dot names its resource.\<close>

definition resource_of :: "string \<Rightarrow> string" where
  "resource_of op = takeWhile (\<lambda>c. c \<noteq> CHR ''.'') op"

lemma distinct_groups:
  assumes "distinct (map fst gs)" "list_all (\<lambda>(g, t). distinct (map fst t) \<and> list_all (\<lambda>(op, ep). resource_of op = g) t) gs"
  shows "distinct (map fst (concat (map snd gs)))"
  using assms
proof (induction gs)
  case (Cons gt gs)
  obtain g t where gt: "gt = (g, t)" by (cases gt)
  have "fst ` set t \<inter> fst ` set (concat (map snd gs)) = {}"
  proof (rule ccontr)
    assume "\<not> ?thesis"
    then obtain op ep ep' h u where mem: "(op, ep) \<in> set t" "(h, u) \<in> set gs" "(op, ep') \<in> set u" by fastforce
    have "resource_of op = g" using Cons.prems(2) mem(1) by (auto simp: gt list_all_iff)
    moreover have "resource_of op = h" using Cons.prems(2) mem(2,3) by (fastforce simp: list_all_iff)
    ultimately show False using Cons.prems(1) mem(2) by (force simp: gt)
  qed
  then show ?case using Cons by (simp add: gt)
qed simp

lemma group_names_distinct: "distinct (map fst ENDPOINT_GROUPS)"
  by (simp add: ENDPOINT_GROUPS_def)

lemma group_names: "list_all (\<lambda>(g, t). distinct (map fst t) \<and> list_all (\<lambda>(op, ep). resource_of op = g) t) ENDPOINT_GROUPS"
  by (simp add: ENDPOINT_GROUPS_def endpoint_tables resource_of_def)

lemma operations_distinct: "distinct (map fst ENDPOINTS)"
  unfolding ENDPOINTS_def by (rule distinct_groups [OF group_names_distinct group_names])

lemma operation_lookup: "(g, t) \<in> set ENDPOINT_GROUPS \<Longrightarrow> map_of t op = Some ep \<Longrightarrow> map_of ENDPOINTS op = Some ep"
proof -
  assume "(g, t) \<in> set ENDPOINT_GROUPS" "map_of t op = Some ep"
  then have "(op, ep) \<in> set ENDPOINTS" by (force simp: ENDPOINTS_def dest: map_of_SomeD)
  then show ?thesis by (rule map_of_is_SomeI [OF operations_distinct])
qed

section \<open>What the path of a request says\<close>

text \<open>The segment that a server should see where the template has \<open>seg\<close>.\<close>

definition expected_segment :: "py_dict \<Rightarrow> string \<Rightarrow> string" where
  "expected_segment vals seg = (case hole seg of Some k \<Rightarrow> py_str (dget vals k) | None \<Rightarrow> seg)"

lemma hd_segments: "hd (segments s) = takeWhile (\<lambda>c. c \<noteq> CHR ''/'') s"
  by (induction s) (auto split: list.splits)

lemma last_segment: "s \<noteq> [] \<Longrightarrow> last s = CHR ''/'' \<Longrightarrow> last (segments s) = []"
proof (induction s)
  case (Cons c s)
  show ?case
  proof (cases "s = []")
    case False
    then have "last (segments s) = []" using Cons by simp
    moreover obtain t ts where t: "segments s = t # ts" by (cases "segments s") simp_all
    moreover have "ts \<noteq> []"
    proof
      assume "ts = []"
      with t have "s = t" using join_segments [of s] by simp
      with \<open>last (segments s) = []\<close> t \<open>ts = []\<close> False show False by simp
    qed
    ultimately show ?thesis by auto
  qed (use Cons in simp)
qed simp

lemma space_path_segments: "space_path s \<longleftrightarrow> hd (segments s) = ''graphspaces''"
proof
  assume "space_path s"
  then show "hd (segments s) = ''graphspaces''" unfolding hd_segments space_path_def starts_with_iff by auto
next
  assume h: "hd (segments s) = ''graphspaces''"
  define d where "d = dropWhile (\<lambda>c. c \<noteq> CHR ''/'') s"
  have s: "s = ''graphspaces'' @ d" using h unfolding hd_segments d_def by (metis takeWhile_dropWhile_id)
  show "space_path s"
  proof (cases d)
    case (Cons c t)
    then have "c = CHR ''/''" using hd_dropWhile [of "\<lambda>c. c \<noteq> CHR ''/''" s] d_def by auto
    then show ?thesis using s Cons by (simp add: space_path_def)
  qed (use s in \<open>simp add: space_path_def\<close>)
qed

text \<open>The path that \<open>request\<close> builds from a template whose parameters have values.\<close>

lemma filled_segments:
  assumes "plain_template t" "filled_path op t vals = Inr path" "\<forall>k \<in> set (find_params t). py_str (dget vals k) \<noteq> []"
  shows "segments path = map (fill_segment (\<lambda>k. quote (py_str (dget vals k)))) (segments t)" "t \<noteq> [] \<Longrightarrow> [] \<notin> set (segments path)"
proof -
  let ?f = "\<lambda>k. quote (py_str (dget vals k))"
  have plain: "list_all plain_segment (segments t)" using assms(1) by (simp add: plain_template_def)
  have path: "path = join ''/'' (map (fill_segment ?f) (segments t))"
    using assms(2) fill_join [OF plain, of ?f] by (simp add: filled_path_def res_simps join_segments)
  have "CHR ''/'' \<notin> set (fill_segment ?f seg)" if "seg \<in> set (segments t)" for seg
    using segments_no_slash [OF that] quote_no_slash by (auto simp: fill_segment_def split: option.splits)
  then show segs: "segments path = map (fill_segment ?f) (segments t)"
    unfolding path by (intro segments_join) auto
  assume "t \<noteq> []"
  then have "[] \<notin> set (segments t)" using assms(1) by (simp add: plain_template_def)
  moreover have "find_params t = List.map_filter hole (segments t)" using find_join [OF plain] by (simp add: join_segments)
  ultimately have "fill_segment ?f seg \<noteq> []" if "seg \<in> set (segments t)" for seg
    using that assms(3) by (cases "hole seg") (auto simp: fill_segment_def List.map_filter_def)
  then show "[] \<notin> set (segments path)" unfolding segs by force
qed

lemma decoded_segment: "plain_segment seg \<Longrightarrow> unquote (fill_segment (\<lambda>k. quote (py_str (dget vals k))) seg) = expected_segment vals seg"
  by (auto simp: fill_segment_def expected_segment_def plain_segment_def unquote_unreserved split: option.splits)

text \<open>The second adaption, on the filled path, changes nothing.\<close>

lemma adapt_template:
  assumes "adapt_path cfg p = Inr t" "plain_path p"
  shows "plain_template t" "hc_spaces_supported cfg \<or> \<not> space_path t"
proof -
  have "\<not> space_path (after_two p)" if "adaptable (after_two p)"
  proof
    assume "space_path (after_two p)"
    with that show False by (auto simp: adaptable_def space_path_def starts_with_iff)
  qed
  then show "plain_template t" "hc_spaces_supported cfg \<or> \<not> space_path t"
    using assms by (auto simp: adapt_path_def plain_path_def adaptable_def Let_def split: if_splits)
qed

lemma resolve_filled:
  assumes "plain_template t" "hc_spaces_supported cfg \<or> \<not> space_path t" "filled_path op t vals = Inr path"
    "\<forall>k \<in> set (find_params t). py_str (dget vals k) \<noteq> []"
  shows "resolve cfg (''/'' @ path) = Inr (strip_slashes_right (hc_url cfg) @ ''/'' @ path)"
proof -
  note segs = filled_segments [OF assms(1,3,4)]
  have hd: "hd (segments path) = hd (segments t)"
    using assms(1) by (simp add: segs(1) hd_map fill_segment_def plain_template_def)
  have ends: "strip_slashes_left path = path \<and> strip_slashes_right path = path"
  proof (cases "t = []")
    case True
    then have "path = []" using assms(3) by (simp add: filled_path_def res_simps)
    then show ?thesis by (simp add: strip_slashes_left_def strip_slashes_right_def)
  next
    case False
    then have ne: "[] \<notin> set (segments path)" by (rule segs(2))
    then have "hd (segments path) \<noteq> []" "last (segments path) \<noteq> []" by (metis hd_in_set last_in_set segments_nonempty)+
    then have p: "path \<noteq> []" "last path \<noteq> CHR ''/''" "hd path \<noteq> CHR ''/''"
      using last_segment [of path] by (auto simp: hd_segments takeWhile_eq_Nil_iff)
    then have "strip_slashes_left path = path" by (cases path) (auto simp: strip_slashes_left_def)
    moreover have "strip_slashes_right path = path"
      using p(1,2) by (cases path rule: rev_cases) (auto simp: strip_slashes_right_def)
    ultimately show ?thesis by simp
  qed
  have "adapt_path cfg path = Inr path"
    using assms(2) hd by (auto simp: adapt_path_def space_path_segments)
  moreover have "strip_slashes_left (''/'' @ path) = strip_slashes_left path" by (simp add: strip_slashes_left_def)
  ultimately show ?thesis using ends by (simp add: resolve_def)
qed

lemma request_path_decodes:
  assumes "map_of ENDPOINTS (rl_operation call) = Some ep" "rest_request_of ENDPOINTS s call = Inr rq"
    and "path_values (rs_cfg s) ep (rl_path call) = Inr vals" "adapt_path (rs_cfg s) (ep_path ep) = Inr template"
    and "\<forall>k \<in> set (find_params template). py_str (dget vals k) \<noteq> []"
  shows "\<exists>path. rr_url rq = strip_slashes_right (hc_url (rs_cfg s)) @ ''/'' @ path \<and>
    map unquote (segments path) = map (expected_segment vals) (segments template)"
proof -
  note plain = adapt_template [OF assms(4) catalog_entry [OF assms(1)]]
  from assms(1-4) obtain path where path: "filled_path (rl_operation call) template vals = Inr path"
    and url: "resolve (rs_cfg s) (''/'' @ path) = Inr (rr_url rq)"
    by (auto simp: rest_request_of_def Let_def bind_call_def lift_call_def session_request_def split: if_splits sum.splits)
  have "rr_url rq = strip_slashes_right (hc_url (rs_cfg s)) @ ''/'' @ path"
    using resolve_filled [OF plain path assms(5)] url by simp
  moreover have "map unquote (segments path) = map (expected_segment vals) (segments template)"
    using plain(1) decoded_segment by (simp add: filled_segments(1) [OF plain(1) path assms(5)] plain_template_def list_all_iff)
  ultimately show ?thesis by blast
qed


text \<open>A call with path parameters only.\<close>

definition plain_call :: "string \<Rightarrow> py_dict \<Rightarrow> py_dict \<Rightarrow> py option \<Rightarrow> rest_call" where
  "plain_call op path params body = \<lparr>rl_operation = op, rl_path = path, rl_params = params, rl_body = body, rl_data = None,
     rl_headers = [], rl_validator = None, rl_retries = True\<rparr>"

definition demo_session :: rest_session where
  "demo_session = \<lparr>rs_cfg = \<lparr>hc_url = ''http://h:1'', hc_graph = ''g'', hc_space = Some ''S'', hc_spaces_supported = True\<rparr>,
     rs_closed = False, rs_headers = [(''Content-Type'', ''application/json'')]\<rparr>"

definition slash_call :: rest_call where
  "slash_call = plain_call ''vertex.get'' [(''id'', PStr ''a/b'')] [] None"

definition vertex_entry :: endpoint where
  "vertex_entry = (operation ''GET'' (in_graph ''graph/vertices/{id}'') [])\<lparr>ep_vertex_path := [''id'']\<rparr>"

lemma vertex_entry: "map_of ENDPOINTS ''vertex.get'' = Some vertex_entry"
  by (rule operation_lookup [of "''vertex''" VERTEX_ENDPOINTS]) (simp_all add: ENDPOINT_GROUPS_def VERTEX_ENDPOINTS_def vertex_entry_def)


section \<open>One URL, one vertex\<close>

lemma int_not_quoted: "int_str i \<noteq> json_str True t"
proof
  assume "int_str i = json_str True t"
  then have "list_all number_char (json_str True t)" using int_str_number(1) by metis
  then show False by (simp add: json_str_def number_char_def is_digit_def code_def)
qed

lemma json_str_inj: "json_str ascii s = json_str ascii t \<Longrightarrow> s = t"
  using json_str_prefix [of ascii s "[]" t "[]"] by simp

lemma format_vertex_id_inj: "format_vertex_id v = Inr a \<Longrightarrow> format_vertex_id w = Inr a \<Longrightarrow> v = w"
  by (cases v; cases w)
    (auto simp: format_vertex_id_def int_not_quoted int_not_quoted [symmetric] split: if_splits dest: int_str_inj json_str_inj)

lemma vertex_values:
  assumes "rest_request_of ENDPOINTS s (plain_call ''vertex.get'' [(''id'', v)] [] None) = Inr rq"
  obtains a vals where "format_vertex_id v = Inr a" "path_values (rs_cfg s) vertex_entry [(''id'', v)] = Inr vals"
    "dget vals ''id'' = PStr a" "dget vals ''graph'' = PStr (hc_graph (rs_cfg s))"
    "dget vals ''graphspace'' = (case hc_space (rs_cfg s) of None \<Rightarrow> PNone | Some t \<Rightarrow> PStr t)"
proof -
  from assms obtain vals where vals: "path_values (rs_cfg s) vertex_entry [(''id'', v)] = Inr vals"
    by (auto simp: rest_request_of_def plain_call_def vertex_entry bind_call_def lift_call_def Let_def split: if_splits sum.splits)
  then obtain a where "format_vertex_id v = Inr a" "vals = [(''graphspace'', case hc_space (rs_cfg s) of None \<Rightarrow> PNone | Some t \<Rightarrow> PStr t),
      (''graph'', PStr (hc_graph (rs_cfg s))), (''id'', PStr a)]"
    by (auto simp: path_values_def vertex_entry_def res_simps has_key_def dget_def)
  with vals that show thesis by (auto simp: dget_def)
qed

lemma format_vertex_id_nonempty: "format_vertex_id v = Inr a \<Longrightarrow> a \<noteq> []"
  using int_str_number(2) by (auto simp: format_vertex_id_def json_str_def split: py.splits if_splits)

lemma vertex_template:
  assumes "adapt_path cfg (ep_path vertex_entry) = Inr template"
  shows "set (find_params template) \<subseteq> {''graphspace'', ''graph'', ''id''}" "last (segments template) = ''{id}''"
proof -
  have "template = in_graph ''graph/vertices/{id}'' \<or> template = after_two (in_graph ''graph/vertices/{id}'')"
    using assms by (auto simp: adapt_path_def vertex_entry_def Let_def split: if_splits)
  moreover have "set (find_params (in_graph ''graph/vertices/{id}'')) \<subseteq> {''graphspace'', ''graph'', ''id''}"
    "set (find_params (after_two (in_graph ''graph/vertices/{id}''))) \<subseteq> {''graphspace'', ''graph'', ''id''}"
    "last (segments (in_graph ''graph/vertices/{id}'')) = ''{id}''" "last (segments (after_two (in_graph ''graph/vertices/{id}''))) = ''{id}''"
    by code_simp+
  ultimately show "set (find_params template) \<subseteq> {''graphspace'', ''graph'', ''id''}" "last (segments template) = ''{id}''" by auto
qed

lemma vertex_last_segment:
  assumes "rest_request_of ENDPOINTS s (plain_call ''vertex.get'' [(''id'', v)] [] None) = Inr rq"
    and "hc_graph (rs_cfg s) \<noteq> []" "hc_space (rs_cfg s) \<noteq> Some []"
  obtains a path where "format_vertex_id v = Inr a" "rr_url rq = strip_slashes_right (hc_url (rs_cfg s)) @ ''/'' @ path"
    "unquote (last (segments path)) = a"
proof -
  obtain a vals where v: "format_vertex_id v = Inr a" "path_values (rs_cfg s) vertex_entry [(''id'', v)] = Inr vals"
    "dget vals ''id'' = PStr a" "dget vals ''graph'' = PStr (hc_graph (rs_cfg s))"
    "dget vals ''graphspace'' = (case hc_space (rs_cfg s) of None \<Rightarrow> PNone | Some t \<Rightarrow> PStr t)" by (rule vertex_values [OF assms(1)])
  from assms(1) obtain template where t: "adapt_path (rs_cfg s) (ep_path vertex_entry) = Inr template"
    by (auto simp: rest_request_of_def plain_call_def vertex_entry bind_call_def lift_call_def Let_def split: if_splits sum.splits)
  have n: "\<forall>k \<in> set (find_params template). py_str (dget vals k) \<noteq> []"
    using vertex_template(1) [OF t] v format_vertex_id_nonempty [OF v(1)] assms(2,3) by (auto split: option.splits)
  obtain path where path: "rr_url rq = strip_slashes_right (hc_url (rs_cfg s)) @ ''/'' @ path"
    "map unquote (segments path) = map (expected_segment vals) (segments template)"
    using request_path_decodes [OF _ assms(1) _ t n] v(2) vertex_entry by (auto simp: plain_call_def)
  have "unquote (last (segments path)) = expected_segment vals (last (segments template))"
    using arg_cong [OF path(2), of last] by (simp add: last_map)
  moreover have "hole ''{id}'' = Some ''id''" by code_simp
  ultimately show thesis using that [OF v(1) path(1)] v(3) by (simp add: expected_segment_def vertex_template(2) [OF t])
qed

text \<open>C37. The URLs of two requests for a vertex are the same exactly when the identifiers are, a number being different from
  the text of its digits.\<close>

theorem vertex_url_names_one_vertex:
  assumes "rest_request_of ENDPOINTS s (plain_call ''vertex.get'' [(''id'', v)] [] None) = Inr rq"
    and "rest_request_of ENDPOINTS s (plain_call ''vertex.get'' [(''id'', w)] [] None) = Inr rq'"
    and "hc_graph (rs_cfg s) \<noteq> []" "hc_space (rs_cfg s) \<noteq> Some []"
  shows "rr_url rq = rr_url rq' \<longleftrightarrow> v = w"
proof
  obtain a path where a: "format_vertex_id v = Inr a" "rr_url rq = strip_slashes_right (hc_url (rs_cfg s)) @ ''/'' @ path"
    "unquote (last (segments path)) = a" by (rule vertex_last_segment [OF assms(1,3,4)])
  obtain b path' where b: "format_vertex_id w = Inr b" "rr_url rq' = strip_slashes_right (hc_url (rs_cfg s)) @ ''/'' @ path'"
    "unquote (last (segments path')) = b" by (rule vertex_last_segment [OF assms(2,3,4)])
  assume "rr_url rq = rr_url rq'"
  then have "a = b" using a(2,3) b(2,3) by simp
  then show "v = w" using format_vertex_id_inj a(1) b(1) by blast
qed (use assms(1,2) in simp)

lemma demo_vertex_request:
  assumes "\<not> isl (rest_request_of [(''vertex.get'', vertex_entry)] demo_session (plain_call ''vertex.get'' [(''id'', v)] [] None))"
  obtains rq where "rest_request_of ENDPOINTS demo_session (plain_call ''vertex.get'' [(''id'', v)] [] None) = Inr rq"
proof -
  from assms obtain rq where "rest_request_of [(''vertex.get'', vertex_entry)] demo_session (plain_call ''vertex.get'' [(''id'', v)] [] None) = Inr rq"
    by (metis sum.collapse(2))
  with that show thesis by (simp add: rest_request_of_def plain_call_def vertex_entry)
qed

theorem vertex_url_names_one_vertex_witness:
  "\<exists>rq rq'. rest_request_of ENDPOINTS demo_session (plain_call ''vertex.get'' [(''id'', PInt 7)] [] None) = Inr rq \<and>
    rest_request_of ENDPOINTS demo_session (plain_call ''vertex.get'' [(''id'', PStr ''7'')] [] None) = Inr rq' \<and> rr_url rq \<noteq> rr_url rq'"
proof -
  have "\<not> isl (rest_request_of [(''vertex.get'', vertex_entry)] demo_session (plain_call ''vertex.get'' [(''id'', PInt 7)] [] None))" by code_simp
  then obtain rq where rq: "rest_request_of ENDPOINTS demo_session (plain_call ''vertex.get'' [(''id'', PInt 7)] [] None) = Inr rq"
    by (rule demo_vertex_request)
  have "\<not> isl (rest_request_of [(''vertex.get'', vertex_entry)] demo_session (plain_call ''vertex.get'' [(''id'', PStr ''7'')] [] None))" by code_simp
  then obtain rq' where rq': "rest_request_of ENDPOINTS demo_session (plain_call ''vertex.get'' [(''id'', PStr ''7'')] [] None) = Inr rq'"
    by (rule demo_vertex_request)
  have g: "hc_graph (rs_cfg demo_session) \<noteq> []" "hc_space (rs_cfg demo_session) \<noteq> Some []" by (simp_all add: demo_session_def)
  from vertex_url_names_one_vertex [OF rq rq' g] rq rq' show ?thesis by simp
qed

end
