(* ===== verification/Rest_Methods.thy ===== *)
theory Rest_Methods
  imports Rest_Catalog
begin

text \<open>
  The explicit REST resources of the Python client, \<open>api/rest.py\<close>. Its methods have one shape: each argument is passed on
  under its own name as a parameter of the path or of the query, or as the body. A method is therefore an entry that
  says which operation it requests with which arguments, together with the verb and the path that its docstring promises.
\<close>

section \<open>Methods\<close>

record rest_method =
  rm_name :: string
  rm_operation :: string
  rm_path :: "string list"
  rm_query :: "string list"
  rm_body :: bool
  rm_headers :: "string list"
  rm_extra :: bool
  rm_doc :: "string \<times> string"

definition api_method :: "string \<Rightarrow> string \<Rightarrow> string list \<Rightarrow> string list \<Rightarrow> bool \<Rightarrow> string \<times> string \<Rightarrow> rest_method" where
  "api_method nm op path query body doc = \<lparr>rm_name = nm, rm_operation = op, rm_path = path, rm_query = query, rm_body = body,
     rm_headers = [], rm_extra = False, rm_doc = doc\<rparr>"

text \<open>The arguments of a call: the values by name (\<open>PNone\<close> for one that is left out), the body, the header, and the further
  query of \<open>GremlinAPI.get\<close>.\<close>

record method_args =
  ma_value :: "string \<Rightarrow> py"
  ma_body :: "py option"
  ma_header :: "string option"
  ma_extra :: py_dict

definition method_call :: "rest_method \<Rightarrow> method_args \<Rightarrow> rest_call" where
  "method_call m args = \<lparr>rl_operation = rm_operation m, rl_path = map (\<lambda>k. (k, ma_value args k)) (rm_path m),
     rl_params = fold (\<lambda>(k, v). dset k v) (if rm_extra m then ma_extra args else []) (map (\<lambda>k. (k, ma_value args k)) (rm_query m)),
     rl_body = (if rm_body m then ma_body args else None), rl_data = None,
     rl_headers = map (\<lambda>h. (h, ma_header args)) (rm_headers m), rl_validator = None, rl_retries = True\<rparr>"

section \<open>Resources\<close>

definition ArthasAPI :: "rest_method list" where
  "ArthasAPI =
    [api_method ''start_arthas'' ''arthas.start_arthas'' [] [] False (''PUT'', ''arthas'')]"

definition AccessAPI :: "rest_method list" where
  "AccessAPI =
    [api_method ''create'' ''access.create'' [] [] True (''POST'', in_space ''auth/accesses''),
     api_method ''update'' ''access.update'' [''id''] [] True (''PUT'', in_space ''auth/accesses/{id}''),
     api_method ''list'' ''access.list'' [] [''group'', ''target'', ''limit''] False (''GET'', in_space ''auth/accesses''),
     api_method ''get'' ''access.get'' [''id''] [] False (''GET'', in_space ''auth/accesses/{id}''),
     api_method ''delete'' ''access.delete'' [''id''] [] False (''DELETE'', in_space ''auth/accesses/{id}'')]"

definition BelongAPI :: "rest_method list" where
  "BelongAPI =
    [api_method ''create'' ''belong.create'' [] [] True (''POST'', in_space ''auth/belongs''),
     api_method ''update'' ''belong.update'' [''id''] [] True (''PUT'', in_space ''auth/belongs/{id}''),
     api_method ''list'' ''belong.list'' [] [''user'', ''group'', ''limit''] False (''GET'', in_space ''auth/belongs''),
     api_method ''get'' ''belong.get'' [''id''] [] False (''GET'', in_space ''auth/belongs/{id}''),
     api_method ''delete'' ''belong.delete'' [''id''] [] False (''DELETE'', in_space ''auth/belongs/{id}'')]"

definition GraphSpaceGroupAPI :: "rest_method list" where
  "GraphSpaceGroupAPI =
    [api_method ''create'' ''graph_space_group.create'' [] [] True (''POST'', in_space ''auth/groups''),
     api_method ''update'' ''graph_space_group.update'' [''id''] [] True (''PUT'', in_space ''auth/groups/{id}''),
     api_method ''list'' ''graph_space_group.list'' [] [''limit''] False (''GET'', in_space ''auth/groups''),
     api_method ''get'' ''graph_space_group.get'' [''id''] [] False (''GET'', in_space ''auth/groups/{id}''),
     api_method ''delete'' ''graph_space_group.delete'' [''id''] [] False (''DELETE'', in_space ''auth/groups/{id}'')]"

definition GroupAPI :: "rest_method list" where
  "GroupAPI =
    [api_method ''create'' ''group.create'' [] [] True (''POST'', ''auth/groups''),
     api_method ''update'' ''group.update'' [''id''] [] True (''PUT'', ''auth/groups/{id}''),
     api_method ''list'' ''group.list'' [] [''limit''] False (''GET'', ''auth/groups''),
     api_method ''get'' ''group.get'' [''id''] [] False (''GET'', ''auth/groups/{id}''),
     api_method ''delete'' ''group.delete'' [''id''] [] False (''DELETE'', ''auth/groups/{id}'')]"

definition LoginAPI :: "rest_method list" where
  "LoginAPI =
    [api_method ''login'' ''login.login'' [] [] True (''POST'', ''auth/login''),
     (api_method ''logout'' ''login.logout'' [] [] False (''DELETE'', ''auth/logout''))\<lparr>rm_headers := [''Authorization'']\<rparr>,
     (api_method ''verify_token'' ''login.verify_token'' [] [] False (''GET'', ''auth/verify''))\<lparr>rm_headers := [''Authorization'']\<rparr>]"

definition ManagerAPI :: "rest_method list" where
  "ManagerAPI =
    [api_method ''create_manager'' ''manager.create_manager'' [] [] True (''POST'', in_space ''auth/managers''),
     api_method ''delete'' ''manager.delete'' [] [''user'', ''type''] False (''DELETE'', in_space ''auth/managers''),
     api_method ''list'' ''manager.list'' [] [''type''] False (''GET'', in_space ''auth/managers''),
     api_method ''check_role'' ''manager.check_role'' [] [''type''] False (''GET'', in_space ''auth/managers/check''),
     api_method ''get_roles_in_gs'' ''manager.get_roles_in_gs'' [] [''user''] False (''GET'', in_space ''auth/managers/role''),
     api_method ''check_default_role'' ''manager.check_default_role'' [] [''role'', ''graph''] False (''GET'', in_space ''auth/managers/default'')]"

definition ProjectAPI :: "rest_method list" where
  "ProjectAPI =
    [api_method ''create'' ''project.create'' [] [] True (''POST'', in_space ''auth/projects''),
     api_method ''update'' ''project.update'' [''id''] [''action''] True (''PUT'', in_space ''auth/projects/{id}''),
     api_method ''list'' ''project.list'' [] [''limit''] False (''GET'', in_space ''auth/projects''),
     api_method ''get'' ''project.get'' [''id''] [] False (''GET'', in_space ''auth/projects/{id}''),
     api_method ''delete'' ''project.delete'' [''id''] [] False (''DELETE'', in_space ''auth/projects/{id}'')]"

definition TargetAPI :: "rest_method list" where
  "TargetAPI =
    [api_method ''create'' ''target.create'' [] [] True (''POST'', in_space ''auth/targets''),
     api_method ''update'' ''target.update'' [''id''] [] True (''PUT'', in_space ''auth/targets/{id}''),
     api_method ''list'' ''target.list'' [] [''limit''] False (''GET'', in_space ''auth/targets''),
     api_method ''get'' ''target.get'' [''id''] [] False (''GET'', in_space ''auth/targets/{id}''),
     api_method ''delete'' ''target.delete'' [''id''] [] False (''DELETE'', in_space ''auth/targets/{id}'')]"

definition UserAPI :: "rest_method list" where
  "UserAPI =
    [api_method ''create'' ''user.create'' [] [] True (''POST'', in_space ''auth/users''),
     api_method ''update'' ''user.update'' [''id''] [] True (''PUT'', in_space ''auth/users/{id}''),
     api_method ''list'' ''user.list'' [] [''name'', ''limit''] False (''GET'', in_space ''auth/users''),
     api_method ''get'' ''user.get'' [''id''] [] False (''GET'', in_space ''auth/users/{id}''),
     api_method ''role'' ''user.role'' [''id''] [] False (''GET'', in_space ''auth/users/{id}/role''),
     api_method ''delete'' ''user.delete'' [''id''] [] False (''DELETE'', in_space ''auth/users/{id}'')]"

definition CypherAPI :: "rest_method list" where
  "CypherAPI =
    [api_method ''query'' ''cypher.query'' [] [''cypher''] False (''GET'', in_graph ''cypher''),
     api_method ''post'' ''cypher.post'' [] [] True (''POST'', in_graph ''cypher'')]"

definition EdgeAPI :: "rest_method list" where
  "EdgeAPI =
    [api_method ''create_batch'' ''edge.create_batch'' [] [''check_vertex''] True (''POST'', in_graph ''graph/edges/batch''),
     api_method ''update_batch'' ''edge.update_batch'' [] [] True (''PUT'', in_graph ''graph/edges/batch''),
     api_method ''update_by_id'' ''edge.update_by_id'' [''id''] [''action''] True (''PUT'', in_graph ''graph/edges/{id}''),
     api_method ''list'' ''edge.list'' [] [''vertex_id'', ''direction'', ''label'', ''properties'', ''keep_start_p'', ''offset'', ''page'', ''limit''] False (''GET'', in_graph ''graph/edges''),
     api_method ''get'' ''edge.get'' [''id''] [] False (''GET'', in_graph ''graph/edges/{id}''),
     api_method ''delete'' ''edge.delete'' [''id''] [''label''] False (''DELETE'', in_graph ''graph/edges/{id}''),
     api_method ''create'' ''edge.create'' [] [] True (''POST'', in_graph ''graph/edges'')]"

definition VertexAPI :: "rest_method list" where
  "VertexAPI =
    [api_method ''create_batch'' ''vertex.create_batch'' [] [] True (''POST'', in_graph ''graph/vertices/batch''),
     api_method ''update_batch'' ''vertex.update_batch'' [] [] True (''PUT'', in_graph ''graph/vertices/batch''),
     api_method ''update_by_id'' ''vertex.update_by_id'' [''id''] [''action''] True (''PUT'', in_graph ''graph/vertices/{id}''),
     api_method ''list'' ''vertex.list'' [] [''label'', ''properties'', ''keep_start_p'', ''offset'', ''page'', ''limit''] False (''GET'', in_graph ''graph/vertices''),
     api_method ''get'' ''vertex.get'' [''id''] [] False (''GET'', in_graph ''graph/vertices/{id}''),
     api_method ''delete'' ''vertex.delete'' [''id''] [''label''] False (''DELETE'', in_graph ''graph/vertices/{id}''),
     api_method ''create'' ''vertex.create'' [] [] True (''POST'', in_graph ''graph/vertices'')]"

definition GremlinAPI :: "rest_method list" where
  "GremlinAPI =
    [api_method ''post'' ''gremlin.post'' [] [] True (''POST'', ''gremlin''),
     (api_method ''get'' ''gremlin.get'' [] [''gremlin'', ''language''] False (''GET'', ''gremlin''))\<lparr>rm_extra := True\<rparr>]"

definition AlgorithmAPI :: "rest_method list" where
  "AlgorithmAPI =
    [api_method ''post'' ''algorithm.post'' [''name''] [] True (''POST'', in_graph ''jobs/algorithm/{name}'')]"

definition ComputerAPI :: "rest_method list" where
  "ComputerAPI =
    [api_method ''post'' ''computer.post'' [''name''] [] True (''POST'', in_graph ''jobs/computer/{name}'')]"

definition GremlinJobAPI :: "rest_method list" where
  "GremlinJobAPI =
    [api_method ''post'' ''gremlin_job.post'' [] [] True (''POST'', in_graph ''jobs/gremlin'')]"

definition RebuildAPI :: "rest_method list" where
  "RebuildAPI =
    [api_method ''vertex_label_rebuild'' ''rebuild.vertex_label_rebuild'' [''name''] [] False (''PUT'', in_graph ''jobs/rebuild/vertexlabels/{name}''),
     api_method ''edge_label_rebuild'' ''rebuild.edge_label_rebuild'' [''name''] [] False (''PUT'', in_graph ''jobs/rebuild/edgelabels/{name}''),
     api_method ''index_label_rebuild'' ''rebuild.index_label_rebuild'' [''name''] [] False (''PUT'', in_graph ''jobs/rebuild/indexlabels/{name}'')]"

definition TaskAPI :: "rest_method list" where
  "TaskAPI =
    [api_method ''list'' ''task.list'' [] [''status'', ''ids'', ''limit'', ''page''] False (''GET'', in_graph ''tasks''),
     api_method ''get'' ''task.get'' [''id''] [''with_result''] False (''GET'', in_graph ''tasks/{id}''),
     api_method ''delete'' ''task.delete'' [''id''] [''force''] False (''DELETE'', in_graph ''tasks/{id}''),
     api_method ''update'' ''task.update'' [''id''] [''action''] False (''PUT'', in_graph ''tasks/{id}'')]"

definition MetricsAPI :: "rest_method list" where
  "MetricsAPI =
    [api_method ''system'' ''metrics.system'' [] [] False (''GET'', ''metrics/system''),
     api_method ''backend'' ''metrics.backend'' [] [] False (''GET'', ''metrics/backend''),
     api_method ''gauges'' ''metrics.gauges'' [] [] False (''GET'', ''metrics/gauges''),
     api_method ''counters'' ''metrics.counters'' [] [] False (''GET'', ''metrics/counters''),
     api_method ''histograms'' ''metrics.histograms'' [] [] False (''GET'', ''metrics/histograms''),
     api_method ''meters'' ''metrics.meters'' [] [] False (''GET'', ''metrics/meters''),
     api_method ''timers'' ''metrics.timers'' [] [] False (''GET'', ''metrics/timers''),
     api_method ''all'' ''metrics.all'' [] [''type''] False (''GET'', ''metrics''),
     api_method ''statistics'' ''metrics.statistics'' [] [''type''] False (''GET'', ''metrics/statistics'')]"

definition GraphsAPI :: "rest_method list" where
  "GraphsAPI =
    [api_method ''list'' ''graphs.list'' [] [] False (''GET'', in_space ''graphs''),
     api_method ''list_profile'' ''graphs.list_profile'' [] [''prefix''] False (''GET'', in_space ''graphs/profile''),
     api_method ''get'' ''graphs.get'' [''name''] [] False (''GET'', in_space ''graphs/{name}''),
     api_method ''set_default'' ''graphs.set_default'' [''name''] [] False (''POST'', in_space ''graphs/{name}/default''),
     api_method ''unset_default'' ''graphs.unset_default'' [''name''] [] False (''DELETE'', in_space ''graphs/{name}/default''),
     api_method ''get_default'' ''graphs.get_default'' [] [] False (''GET'', in_space ''graphs/default''),
     api_method ''drop'' ''graphs.drop'' [''name''] [''confirm_message''] False (''DELETE'', in_space ''graphs/{name}''),
     api_method ''manage'' ''graphs.manage'' [''name''] [] True (''PUT'', in_space ''graphs/{name}''),
     api_method ''reload'' ''graphs.reload'' [] [] True (''PUT'', in_space ''graphs/manage''),
     api_method ''create'' ''graphs.create'' [''name''] [''clone_graph_name''] True (''POST'', in_space ''graphs/{name}''),
     api_method ''clone_schema'' ''graphs.clone_schema'' [''name''] [''source''] True (''POST'', in_space ''graphs/{name}/schema-clone''),
     api_method ''create_by_text'' ''graphs.create_by_text'' [''name''] [''clone_graph_name''] True (''POST'', in_space ''graphs/{name}''),
     api_method ''get_conf'' ''graphs.get_conf'' [''name''] [] False (''GET'', in_space ''graphs/{name}/conf''),
     api_method ''clear'' ''graphs.clear'' [''name''] [''confirm_message''] False (''DELETE'', in_space ''graphs/{name}/clear''),
     api_method ''create_snapshot'' ''graphs.create_snapshot'' [''name''] [] False (''PUT'', in_space ''graphs/{name}/snapshot_create''),
     api_method ''resume_snapshot'' ''graphs.resume_snapshot'' [''name''] [] False (''PUT'', in_space ''graphs/{name}/snapshot_resume''),
     api_method ''compact'' ''graphs.compact'' [''name''] [] False (''PUT'', in_space ''graphs/{name}/compact''),
     api_method ''mode_set'' ''graphs.mode_set'' [''name''] [] True (''PUT'', in_space ''graphs/{name}/mode''),
     api_method ''mode_get'' ''graphs.mode_get'' [''name''] [] False (''GET'', in_space ''graphs/{name}/mode''),
     api_method ''loading_mode_get'' ''graphs.loading_mode_get'' [''name''] [] False (''GET'', in_space ''graphs/{name}/mode/owners''),
     api_method ''loading_mode_set'' ''graphs.loading_mode_set'' [''name''] [] True (''PUT'', in_space ''graphs/{name}/mode/owners''),
     api_method ''graph_read_mode_set'' ''graphs.graph_read_mode_set'' [''name''] [] True (''PUT'', in_space ''graphs/{name}/graph_read_mode''),
     api_method ''graph_read_mode_get'' ''graphs.graph_read_mode_get'' [''name''] [] False (''GET'', in_space ''graphs/{name}/graph_read_mode'')]"

definition ProfileAPI :: "rest_method list" where
  "ProfileAPI =
    [api_method ''get_profile'' ''profile.get_profile'' [] [] False (''GET'', []),
     api_method ''show_all_apis'' ''profile.show_all_apis'' [] [] False (''GET'', ''apis'')]"

definition VersionAPI :: "rest_method list" where
  "VersionAPI =
    [api_method ''list'' ''version.list'' [] [] False (''GET'', ''versions'')]"

definition WhiteIpListAPI :: "rest_method list" where
  "WhiteIpListAPI =
    [api_method ''list'' ''white_ip_list.list'' [] [] False (''GET'', ''whiteiplist''),
     api_method ''update_white_ips'' ''white_ip_list.update_white_ips'' [] [] True (''POST'', ''whiteiplist''),
     api_method ''update_status'' ''white_ip_list.update_status'' [] [''status''] False (''PUT'', ''whiteiplist'')]"

definition RaftAPI :: "rest_method list" where
  "RaftAPI =
    [api_method ''list_peers'' ''raft.list_peers'' [] [''group''] False (''GET'', in_graph ''raft/list_peers''),
     api_method ''get_leader'' ''raft.get_leader'' [] [''group''] False (''GET'', in_graph ''raft/get_leader''),
     api_method ''transfer_leader'' ''raft.transfer_leader'' [] [''group'', ''endpoint''] False (''POST'', in_graph ''raft/transfer_leader''),
     api_method ''set_leader'' ''raft.set_leader'' [] [''group'', ''endpoint''] False (''POST'', in_graph ''raft/set_leader''),
     api_method ''add_peer'' ''raft.add_peer'' [] [''group'', ''endpoint''] False (''POST'', in_graph ''raft/add_peer''),
     api_method ''remove_peer'' ''raft.remove_peer'' [] [''group'', ''endpoint''] False (''POST'', in_graph ''raft/remove_peer'')]"

definition EdgeLabelAPI :: "rest_method list" where
  "EdgeLabelAPI =
    [api_method ''create'' ''edge_label.create'' [] [] True (''POST'', in_graph ''schema/edgelabels''),
     api_method ''update'' ''edge_label.update'' [''name''] [''action''] True (''PUT'', in_graph ''schema/edgelabels/{name}''),
     api_method ''list'' ''edge_label.list'' [] [''names''] False (''GET'', in_graph ''schema/edgelabels''),
     api_method ''get'' ''edge_label.get'' [''name''] [] False (''GET'', in_graph ''schema/edgelabels/{name}''),
     api_method ''delete'' ''edge_label.delete'' [''name''] [] False (''DELETE'', in_graph ''schema/edgelabels/{name}'')]"

definition IndexLabelAPI :: "rest_method list" where
  "IndexLabelAPI =
    [api_method ''create'' ''index_label.create'' [] [] True (''POST'', in_graph ''schema/indexlabels''),
     api_method ''update'' ''index_label.update'' [''name''] [''action''] True (''PUT'', in_graph ''schema/indexlabels/{name}''),
     api_method ''list'' ''index_label.list'' [] [''names''] False (''GET'', in_graph ''schema/indexlabels''),
     api_method ''get'' ''index_label.get'' [''name''] [] False (''GET'', in_graph ''schema/indexlabels/{name}''),
     api_method ''delete'' ''index_label.delete'' [''name''] [] False (''DELETE'', in_graph ''schema/indexlabels/{name}'')]"

definition PropertyKeyAPI :: "rest_method list" where
  "PropertyKeyAPI =
    [api_method ''create'' ''property_key.create'' [] [] True (''POST'', in_graph ''schema/propertykeys''),
     api_method ''update'' ''property_key.update'' [''name''] [''action''] True (''PUT'', in_graph ''schema/propertykeys/{name}''),
     api_method ''list'' ''property_key.list'' [] [''names''] False (''GET'', in_graph ''schema/propertykeys''),
     api_method ''get'' ''property_key.get'' [''name''] [] False (''GET'', in_graph ''schema/propertykeys/{name}''),
     api_method ''delete'' ''property_key.delete'' [''name''] [] False (''DELETE'', in_graph ''schema/propertykeys/{name}'')]"

definition SchemaAPI :: "rest_method list" where
  "SchemaAPI =
    [api_method ''list'' ''schema.list'' [] [] False (''GET'', in_graph ''schema'')]"

definition VertexLabelAPI :: "rest_method list" where
  "VertexLabelAPI =
    [api_method ''create'' ''vertex_label.create'' [] [] True (''POST'', in_graph ''schema/vertexlabels''),
     api_method ''update'' ''vertex_label.update'' [''name''] [''action''] True (''PUT'', in_graph ''schema/vertexlabels/{name}''),
     api_method ''list'' ''vertex_label.list'' [] [''names''] False (''GET'', in_graph ''schema/vertexlabels''),
     api_method ''get'' ''vertex_label.get'' [''name''] [] False (''GET'', in_graph ''schema/vertexlabels/{name}''),
     api_method ''delete'' ''vertex_label.delete'' [''name''] [] False (''DELETE'', in_graph ''schema/vertexlabels/{name}'')]"

definition GraphSpaceAPI :: "rest_method list" where
  "GraphSpaceAPI =
    [api_method ''list'' ''graph_space.list'' [] [] False (''GET'', ''graphspaces''),
     api_method ''get'' ''graph_space.get'' [] [] False (''GET'', ''graphspaces/{graphspace}''),
     api_method ''set_default_role'' ''graph_space.set_default_role'' [] [] True (''POST'', in_space ''role''),
     api_method ''check_default_role'' ''graph_space.check_default_role'' [] [''user'', ''role'', ''graph''] False (''GET'', in_space ''role''),
     api_method ''delete_default_role'' ''graph_space.delete_default_role'' [] [''user'', ''role'', ''graph''] False (''DELETE'', in_space ''role''),
     api_method ''list_profile'' ''graph_space.list_profile'' [] [''prefix''] False (''GET'', ''graphspaces/profile''),
     api_method ''create'' ''graph_space.create'' [] [] True (''POST'', ''graphspaces''),
     api_method ''manage'' ''graph_space.manage'' [''name''] [] True (''PUT'', ''graphspaces/{name}''),
     api_method ''delete'' ''graph_space.delete'' [''name''] [] False (''DELETE'', ''graphspaces/{name}'')]"

definition SchemaTemplateAPI :: "rest_method list" where
  "SchemaTemplateAPI =
    [api_method ''list'' ''schema_template.list'' [] [] False (''GET'', in_space ''schematemplates''),
     api_method ''get'' ''schema_template.get'' [''name''] [] False (''GET'', in_space ''schematemplates/{name}''),
     api_method ''create'' ''schema_template.create'' [] [] True (''POST'', in_space ''schematemplates''),
     api_method ''delete'' ''schema_template.delete'' [''name''] [] False (''DELETE'', in_space ''schematemplates/{name}''),
     api_method ''update'' ''schema_template.update'' [''name''] [] True (''PUT'', in_space ''schematemplates/{name}'')]"

definition AdamicAdarAPI :: "rest_method list" where
  "AdamicAdarAPI =
    [api_method ''get'' ''adamic_adar.get'' [] [''vertex'', ''other'', ''direction'', ''label'', ''max_degree'', ''limit''] False (''GET'', in_graph ''traversers/adamicadar'')]"

definition AllShortestPathsAPI :: "rest_method list" where
  "AllShortestPathsAPI =
    [api_method ''get'' ''all_shortest_paths.get'' [] [''source'', ''target'', ''direction'', ''label'', ''max_depth'', ''max_degree'', ''skip_degree'', ''with_vertex'', ''with_edge'', ''capacity''] False (''GET'', in_graph ''traversers/allshortestpaths'')]"

definition CountAPI :: "rest_method list" where
  "CountAPI =
    [api_method ''post'' ''count.post'' [] [] True (''POST'', in_graph ''traversers/count'')]"

definition CrosspointsAPI :: "rest_method list" where
  "CrosspointsAPI =
    [api_method ''get'' ''crosspoints.get'' [] [''source'', ''target'', ''direction'', ''label'', ''max_depth'', ''max_degree'', ''capacity'', ''limit''] False (''GET'', in_graph ''traversers/crosspoints'')]"

definition CustomizedCrosspointsAPI :: "rest_method list" where
  "CustomizedCrosspointsAPI =
    [api_method ''post'' ''customized_crosspoints.post'' [] [] True (''POST'', in_graph ''traversers/customizedcrosspoints'')]"

definition CustomizedPathsAPI :: "rest_method list" where
  "CustomizedPathsAPI =
    [api_method ''post'' ''customized_paths.post'' [] [] True (''POST'', in_graph ''traversers/customizedpaths'')]"

definition EdgeExistenceAPI :: "rest_method list" where
  "EdgeExistenceAPI =
    [api_method ''get'' ''edge_existence.get'' [] [''source'', ''target'', ''label'', ''sort_values'', ''limit''] False (''GET'', in_graph ''traversers/edgeexist'')]"

definition EdgesAPI :: "rest_method list" where
  "EdgesAPI =
    [api_method ''list'' ''edges.list'' [] [''ids''] False (''GET'', in_graph ''traversers/edges''),
     api_method ''shards'' ''edges.shards'' [] [''split_size''] False (''GET'', in_graph ''traversers/edges/shards''),
     api_method ''scan'' ''edges.scan'' [] [''start'', ''end'', ''page'', ''page_limit''] False (''GET'', in_graph ''traversers/edges/scan'')]"

definition FusiformSimilarityAPI :: "rest_method list" where
  "FusiformSimilarityAPI =
    [api_method ''post'' ''fusiform_similarity.post'' [] [] True (''POST'', in_graph ''traversers/fusiformsimilarity'')]"

definition JaccardSimilarityAPI :: "rest_method list" where
  "JaccardSimilarityAPI =
    [api_method ''get'' ''jaccard_similarity.get'' [] [''vertex'', ''other'', ''direction'', ''label'', ''max_degree''] False (''GET'', in_graph ''traversers/jaccardsimilarity''),
     api_method ''post'' ''jaccard_similarity.post'' [] [] True (''POST'', in_graph ''traversers/jaccardsimilarity'')]"

definition KneighborAPI :: "rest_method list" where
  "KneighborAPI =
    [api_method ''get'' ''kneighbor.get'' [] [''source'', ''direction'', ''label'', ''max_depth'', ''count_only'', ''max_degree'', ''limit''] False (''GET'', in_graph ''traversers/kneighbor''),
     api_method ''post'' ''kneighbor.post'' [] [] True (''POST'', in_graph ''traversers/kneighbor'')]"

definition KoutAPI :: "rest_method list" where
  "KoutAPI =
    [api_method ''get'' ''kout.get'' [] [''source'', ''direction'', ''label'', ''max_depth'', ''nearest'', ''count_only'', ''max_degree'', ''capacity'', ''limit''] False (''GET'', in_graph ''traversers/kout''),
     api_method ''post'' ''kout.post'' [] [] True (''POST'', in_graph ''traversers/kout'')]"

definition MultiNodeShortestPathAPI :: "rest_method list" where
  "MultiNodeShortestPathAPI =
    [api_method ''post'' ''multi_node_shortest_path.post'' [] [] True (''POST'', in_graph ''traversers/multinodeshortestpath'')]"

definition NeighborRankAPI :: "rest_method list" where
  "NeighborRankAPI =
    [api_method ''neighbor_rank'' ''neighbor_rank.neighbor_rank'' [] [] True (''POST'', in_graph ''traversers/neighborrank'')]"

definition PathsAPI :: "rest_method list" where
  "PathsAPI =
    [api_method ''get'' ''paths.get'' [] [''source'', ''target'', ''direction'', ''label'', ''max_depth'', ''max_degree'', ''capacity'', ''limit''] False (''GET'', in_graph ''traversers/paths''),
     api_method ''post'' ''paths.post'' [] [] True (''POST'', in_graph ''traversers/paths'')]"

definition PersonalRankAPI :: "rest_method list" where
  "PersonalRankAPI =
    [api_method ''personal_rank'' ''personal_rank.personal_rank'' [] [] True (''POST'', in_graph ''traversers/personalrank'')]"

definition RaysAPI :: "rest_method list" where
  "RaysAPI =
    [api_method ''get'' ''rays.get'' [] [''source'', ''direction'', ''label'', ''max_depth'', ''max_degree'', ''capacity'', ''limit'', ''with_vertex'', ''with_edge''] False (''GET'', in_graph ''traversers/rays'')]"

definition ResourceAllocationAPI :: "rest_method list" where
  "ResourceAllocationAPI =
    [api_method ''create'' ''resource_allocation.create'' [] [''vertex'', ''other'', ''direction'', ''label'', ''max_degree'', ''limit''] False (''GET'', in_graph ''traversers/resourceallocation'')]"

definition RingsAPI :: "rest_method list" where
  "RingsAPI =
    [api_method ''get'' ''rings.get'' [] [''source'', ''direction'', ''label'', ''max_depth'', ''source_in_ring'', ''max_degree'', ''capacity'', ''limit'', ''with_vertex'', ''with_edge''] False (''GET'', in_graph ''traversers/rings'')]"

definition SameNeighborsAPI :: "rest_method list" where
  "SameNeighborsAPI =
    [api_method ''get'' ''same_neighbors.get'' [] [''vertex'', ''other'', ''direction'', ''label'', ''max_degree'', ''limit''] False (''GET'', in_graph ''traversers/sameneighbors''),
     api_method ''same_neighbors'' ''same_neighbors.same_neighbors'' [] [] True (''POST'', in_graph ''traversers/sameneighbors'')]"

definition SameNeighborsBatchAPI :: "rest_method list" where
  "SameNeighborsBatchAPI =
    [api_method ''post'' ''same_neighbors_batch.post'' [] [] True (''POST'', in_graph ''traversers/sameneighborsbatch'')]"

definition ShortestPathAPI :: "rest_method list" where
  "ShortestPathAPI =
    [api_method ''get'' ''shortest_path.get'' [] [''source'', ''target'', ''direction'', ''label'', ''max_depth'', ''max_degree'', ''skip_degree'', ''with_vertex'', ''with_edge'', ''capacity''] False (''GET'', in_graph ''traversers/shortestpath'')]"

definition SingleSourceShortestPathAPI :: "rest_method list" where
  "SingleSourceShortestPathAPI =
    [api_method ''get'' ''single_source_shortest_path.get'' [] [''source'', ''direction'', ''label'', ''weight'', ''max_degree'', ''skip_degree'', ''with_vertex'', ''with_edge'', ''capacity'', ''limit''] False (''GET'', in_graph ''traversers/singlesourceshortestpath'')]"

definition TemplatePathsAPI :: "rest_method list" where
  "TemplatePathsAPI =
    [api_method ''post'' ''template_paths.post'' [] [] True (''POST'', in_graph ''traversers/templatepaths'')]"

definition VerticesAPI :: "rest_method list" where
  "VerticesAPI =
    [api_method ''list'' ''vertices.list'' [] [''ids''] False (''GET'', in_graph ''traversers/vertices''),
     api_method ''shards'' ''vertices.shards'' [] [''split_size''] False (''GET'', in_graph ''traversers/vertices/shards''),
     api_method ''scan'' ''vertices.scan'' [] [''start'', ''end'', ''page'', ''page_limit''] False (''GET'', in_graph ''traversers/vertices/scan'')]"

definition WeightedShortestPathAPI :: "rest_method list" where
  "WeightedShortestPathAPI =
    [api_method ''get'' ''weighted_shortest_path.get'' [] [''source'', ''target'', ''direction'', ''label'', ''weight'', ''max_degree'', ''skip_degree'', ''with_vertex'', ''with_edge'', ''capacity''] False (''GET'', in_graph ''traversers/weightedshortestpath'')]"

definition VariablesAPI :: "rest_method list" where
  "VariablesAPI =
    [api_method ''update'' ''variables.update'' [''key''] [] True (''PUT'', in_graph ''variables/{key}''),
     api_method ''list'' ''variables.list'' [] [] False (''GET'', in_graph ''variables''),
     api_method ''get'' ''variables.get'' [''key''] [] False (''GET'', in_graph ''variables/{key}''),
     api_method ''delete'' ''variables.delete'' [''key''] [] False (''DELETE'', in_graph ''variables/{key}'')]"

definition ExceptionTraceAPI :: "rest_method list" where
  "ExceptionTraceAPI =
    [api_method ''get'' ''exception_trace.get'' [] [] False (''GET'', ''exception/trace''),
     api_method ''trace'' ''exception_trace.trace'' [] [] True (''PUT'', ''exception/trace'')]"

definition RestManager :: "(string \<times> rest_method list) list" where
  "RestManager =
    [(''arthas'', ArthasAPI), (''access'', AccessAPI), (''belong'', BelongAPI),
     (''graph_space_group'', GraphSpaceGroupAPI), (''group'', GroupAPI), (''login'', LoginAPI),
     (''manager'', ManagerAPI), (''project'', ProjectAPI), (''target'', TargetAPI), (''user'', UserAPI),
     (''cypher'', CypherAPI), (''edge'', EdgeAPI), (''vertex'', VertexAPI), (''gremlin'', GremlinAPI),
     (''algorithm'', AlgorithmAPI), (''computer'', ComputerAPI), (''gremlin_job'', GremlinJobAPI),
     (''rebuild'', RebuildAPI), (''task'', TaskAPI), (''metrics'', MetricsAPI), (''graphs'', GraphsAPI),
     (''profile'', ProfileAPI), (''version'', VersionAPI), (''white_ip_list'', WhiteIpListAPI), (''raft'', RaftAPI),
     (''edge_label'', EdgeLabelAPI), (''index_label'', IndexLabelAPI), (''property_key'', PropertyKeyAPI),
     (''schema'', SchemaAPI), (''vertex_label'', VertexLabelAPI), (''graph_space'', GraphSpaceAPI),
     (''schema_template'', SchemaTemplateAPI), (''adamic_adar'', AdamicAdarAPI),
     (''all_shortest_paths'', AllShortestPathsAPI), (''count'', CountAPI), (''crosspoints'', CrosspointsAPI),
     (''customized_crosspoints'', CustomizedCrosspointsAPI), (''customized_paths'', CustomizedPathsAPI),
     (''edge_existence'', EdgeExistenceAPI), (''edges'', EdgesAPI),
     (''fusiform_similarity'', FusiformSimilarityAPI), (''jaccard_similarity'', JaccardSimilarityAPI),
     (''kneighbor'', KneighborAPI), (''kout'', KoutAPI), (''multi_node_shortest_path'', MultiNodeShortestPathAPI),
     (''neighbor_rank'', NeighborRankAPI), (''paths'', PathsAPI), (''personal_rank'', PersonalRankAPI),
     (''rays'', RaysAPI), (''resource_allocation'', ResourceAllocationAPI), (''rings'', RingsAPI),
     (''same_neighbors'', SameNeighborsAPI), (''same_neighbors_batch'', SameNeighborsBatchAPI),
     (''shortest_path'', ShortestPathAPI), (''single_source_shortest_path'', SingleSourceShortestPathAPI),
     (''template_paths'', TemplatePathsAPI), (''vertices'', VerticesAPI),
     (''weighted_shortest_path'', WeightedShortestPathAPI), (''variables'', VariablesAPI),
     (''exception_trace'', ExceptionTraceAPI)]"

section \<open>Methods and catalog\<close>

definition documented_in :: "catalog \<Rightarrow> rest_method \<Rightarrow> bool" where
  "documented_in t m \<longleftrightarrow> (case map_of t (rm_operation m) of None \<Rightarrow> False
    | Some ep \<Rightarrow> rm_doc m = (ep_method ep, ep_path ep) \<and> list_all (\<lambda>k. k \<in> set (ep_query ep)) (rm_query m) \<and> (rm_extra m \<longrightarrow> ep_passthrough ep) \<and>
        list_all (\<lambda>k. k = ''graphspace'' \<or> k = ''graph'' \<or> k \<in> set (rm_path m)) (find_params (ep_path ep)))"

lemma params_in_space: "find_params (in_space tail) = ''graphspace'' # find_params tail"
  by (simp add: in_space_def hole_at_def Let_def character_simps)

lemma params_in_graph: "find_params (in_graph tail) = ''graphspace'' # ''graph'' # find_params tail"
  by (simp add: in_graph_def hole_at_def Let_def character_simps)

lemmas resource_tables =
  ArthasAPI_def AccessAPI_def BelongAPI_def GraphSpaceGroupAPI_def GroupAPI_def LoginAPI_def ManagerAPI_def
  ProjectAPI_def TargetAPI_def UserAPI_def CypherAPI_def EdgeAPI_def VertexAPI_def GremlinAPI_def AlgorithmAPI_def
  ComputerAPI_def GremlinJobAPI_def RebuildAPI_def TaskAPI_def MetricsAPI_def GraphsAPI_def ProfileAPI_def
  VersionAPI_def WhiteIpListAPI_def RaftAPI_def EdgeLabelAPI_def IndexLabelAPI_def PropertyKeyAPI_def SchemaAPI_def
  VertexLabelAPI_def GraphSpaceAPI_def SchemaTemplateAPI_def AdamicAdarAPI_def AllShortestPathsAPI_def CountAPI_def
  CrosspointsAPI_def CustomizedCrosspointsAPI_def CustomizedPathsAPI_def EdgeExistenceAPI_def EdgesAPI_def
  FusiformSimilarityAPI_def JaccardSimilarityAPI_def KneighborAPI_def KoutAPI_def MultiNodeShortestPathAPI_def
  NeighborRankAPI_def PathsAPI_def PersonalRankAPI_def RaysAPI_def ResourceAllocationAPI_def RingsAPI_def
  SameNeighborsAPI_def SameNeighborsBatchAPI_def ShortestPathAPI_def SingleSourceShortestPathAPI_def
  TemplatePathsAPI_def VerticesAPI_def WeightedShortestPathAPI_def VariablesAPI_def ExceptionTraceAPI_def

lemma operation_simps: "ep_method (operation meth path query) = meth" "ep_query (operation meth path query) = query"
    "ep_passthrough (operation meth path query) = False"
  by (simp_all add: operation_def)

lemmas documented_simps = documented_in_def api_method_def operation_simps params_in_space params_in_graph hole_at_def Let_def character_simps

lemma documented_1:
  "list_all (documented_in ARTHAS_ENDPOINTS) ArthasAPI"
  "list_all (documented_in ACCESS_ENDPOINTS) AccessAPI"
  "list_all (documented_in BELONG_ENDPOINTS) BelongAPI"
  "list_all (documented_in GRAPH_SPACE_GROUP_ENDPOINTS) GraphSpaceGroupAPI"
  "list_all (documented_in GROUP_ENDPOINTS) GroupAPI"
  "list_all (documented_in LOGIN_ENDPOINTS) LoginAPI"
  "list_all (documented_in MANAGER_ENDPOINTS) ManagerAPI"
  "list_all (documented_in PROJECT_ENDPOINTS) ProjectAPI"
  "list_all (documented_in TARGET_ENDPOINTS) TargetAPI"
  "list_all (documented_in USER_ENDPOINTS) UserAPI"
  by (simp_all add: resource_tables endpoint_tables documented_simps)

lemma documented_2:
  "list_all (documented_in CYPHER_ENDPOINTS) CypherAPI"
  "list_all (documented_in EDGE_ENDPOINTS) EdgeAPI"
  "list_all (documented_in VERTEX_ENDPOINTS) VertexAPI"
  "list_all (documented_in GREMLIN_ENDPOINTS) GremlinAPI"
  "list_all (documented_in ALGORITHM_ENDPOINTS) AlgorithmAPI"
  "list_all (documented_in COMPUTER_ENDPOINTS) ComputerAPI"
  "list_all (documented_in GREMLIN_JOB_ENDPOINTS) GremlinJobAPI"
  "list_all (documented_in REBUILD_ENDPOINTS) RebuildAPI"
  "list_all (documented_in TASK_ENDPOINTS) TaskAPI"
  "list_all (documented_in METRICS_ENDPOINTS) MetricsAPI"
  by (simp_all add: resource_tables endpoint_tables documented_simps)

lemma documented_3:
  "list_all (documented_in GRAPHS_ENDPOINTS) GraphsAPI"
  "list_all (documented_in PROFILE_ENDPOINTS) ProfileAPI"
  "list_all (documented_in VERSION_ENDPOINTS) VersionAPI"
  "list_all (documented_in WHITE_IP_LIST_ENDPOINTS) WhiteIpListAPI"
  "list_all (documented_in RAFT_ENDPOINTS) RaftAPI"
  "list_all (documented_in EDGE_LABEL_ENDPOINTS) EdgeLabelAPI"
  "list_all (documented_in INDEX_LABEL_ENDPOINTS) IndexLabelAPI"
  "list_all (documented_in PROPERTY_KEY_ENDPOINTS) PropertyKeyAPI"
  "list_all (documented_in SCHEMA_ENDPOINTS) SchemaAPI"
  "list_all (documented_in VERTEX_LABEL_ENDPOINTS) VertexLabelAPI"
  by (simp_all add: resource_tables endpoint_tables documented_simps)

lemma documented_4:
  "list_all (documented_in GRAPH_SPACE_ENDPOINTS) GraphSpaceAPI"
  "list_all (documented_in SCHEMA_TEMPLATE_ENDPOINTS) SchemaTemplateAPI"
  "list_all (documented_in ADAMIC_ADAR_ENDPOINTS) AdamicAdarAPI"
  "list_all (documented_in ALL_SHORTEST_PATHS_ENDPOINTS) AllShortestPathsAPI"
  "list_all (documented_in COUNT_ENDPOINTS) CountAPI"
  "list_all (documented_in CROSSPOINTS_ENDPOINTS) CrosspointsAPI"
  "list_all (documented_in CUSTOMIZED_CROSSPOINTS_ENDPOINTS) CustomizedCrosspointsAPI"
  "list_all (documented_in CUSTOMIZED_PATHS_ENDPOINTS) CustomizedPathsAPI"
  "list_all (documented_in EDGE_EXISTENCE_ENDPOINTS) EdgeExistenceAPI"
  "list_all (documented_in EDGES_ENDPOINTS) EdgesAPI"
  by (simp_all add: resource_tables endpoint_tables documented_simps)

lemma documented_5:
  "list_all (documented_in FUSIFORM_SIMILARITY_ENDPOINTS) FusiformSimilarityAPI"
  "list_all (documented_in JACCARD_SIMILARITY_ENDPOINTS) JaccardSimilarityAPI"
  "list_all (documented_in KNEIGHBOR_ENDPOINTS) KneighborAPI"
  "list_all (documented_in KOUT_ENDPOINTS) KoutAPI"
  "list_all (documented_in MULTI_NODE_SHORTEST_PATH_ENDPOINTS) MultiNodeShortestPathAPI"
  "list_all (documented_in NEIGHBOR_RANK_ENDPOINTS) NeighborRankAPI"
  "list_all (documented_in PATHS_ENDPOINTS) PathsAPI"
  "list_all (documented_in PERSONAL_RANK_ENDPOINTS) PersonalRankAPI"
  "list_all (documented_in RAYS_ENDPOINTS) RaysAPI"
  "list_all (documented_in RESOURCE_ALLOCATION_ENDPOINTS) ResourceAllocationAPI"
  by (simp_all add: resource_tables endpoint_tables documented_simps)

lemma documented_6:
  "list_all (documented_in RINGS_ENDPOINTS) RingsAPI"
  "list_all (documented_in SAME_NEIGHBORS_ENDPOINTS) SameNeighborsAPI"
  "list_all (documented_in SAME_NEIGHBORS_BATCH_ENDPOINTS) SameNeighborsBatchAPI"
  "list_all (documented_in SHORTEST_PATH_ENDPOINTS) ShortestPathAPI"
  "list_all (documented_in SINGLE_SOURCE_SHORTEST_PATH_ENDPOINTS) SingleSourceShortestPathAPI"
  "list_all (documented_in TEMPLATE_PATHS_ENDPOINTS) TemplatePathsAPI"
  "list_all (documented_in VERTICES_ENDPOINTS) VerticesAPI"
  "list_all (documented_in WEIGHTED_SHORTEST_PATH_ENDPOINTS) WeightedShortestPathAPI"
  "list_all (documented_in VARIABLES_ENDPOINTS) VariablesAPI"
  "list_all (documented_in EXCEPTION_TRACE_ENDPOINTS) ExceptionTraceAPI"
  by (simp_all add: resource_tables endpoint_tables documented_simps)

lemma methods_documented:
  "list_all2 (\<lambda>(attr, ms) (g, t). attr = g \<and> list_all (documented_in t) ms) RestManager ENDPOINT_GROUPS"
  by (simp add: RestManager_def ENDPOINT_GROUPS_def documented_1 documented_2 documented_3 documented_4 documented_5 documented_6)

lemma method_entry:
  assumes "(attr, ms) \<in> set RestManager" "m \<in> set ms"
  obtains ep where "map_of ENDPOINTS (rm_operation m) = Some ep" "rm_doc m = (ep_method ep, ep_path ep)"
    "set (rm_query m) \<subseteq> set (ep_query ep)" "rm_extra m \<longrightarrow> ep_passthrough ep"
    "\<forall>k \<in> set (find_params (ep_path ep)). k = ''graphspace'' \<or> k = ''graph'' \<or> k \<in> set (rm_path m)"
proof -
  from assms(1) methods_documented obtain g t where t: "(g, t) \<in> set ENDPOINT_GROUPS" "list_all (documented_in t) ms"
    by (fastforce simp: list_all2_conv_all_nth in_set_conv_nth)
  with assms(2) have "documented_in t m" by (simp add: list_all_iff)
  then obtain ep where ep: "map_of t (rm_operation m) = Some ep" "rm_doc m = (ep_method ep, ep_path ep)"
    "list_all (\<lambda>k. k \<in> set (ep_query ep)) (rm_query m)" "rm_extra m \<longrightarrow> ep_passthrough ep"
    "list_all (\<lambda>k. k = ''graphspace'' \<or> k = ''graph'' \<or> k \<in> set (rm_path m)) (find_params (ep_path ep))"
    by (auto simp: documented_in_def split: option.splits)
  show thesis by (rule that [OF operation_lookup [OF t(1) ep(1)] ep(2)]) (use ep(3,4,5) in \<open>auto simp: list_all_iff\<close>)
qed

section \<open>What can go wrong in a call\<close>

text \<open>A vertex parameter whose value is not a text or an integer of 64 bits, or no list of such values.\<close>

definition is_vertex_id :: "py \<Rightarrow> bool" where
  "is_vertex_id v \<longleftrightarrow> (case v of PStr s \<Rightarrow> True | PInt i \<Rightarrow> JAVA_LONG_MIN \<le> i \<and> i \<le> JAVA_LONG_MAX | _ \<Rightarrow> False)"

definition vertex_ids :: "py \<Rightarrow> bool" where
  "vertex_ids v \<longleftrightarrow> (case v of PList vs \<Rightarrow> list_all is_vertex_id vs | PTuple vs \<Rightarrow> list_all is_vertex_id vs | v \<Rightarrow> is_vertex_id v)"

definition bad_vertex_argument :: "endpoint \<Rightarrow> rest_call \<Rightarrow> bool" where
  "bad_vertex_argument ep call \<longleftrightarrow>
     (\<exists>(k, v) \<in> set (rl_path call). k \<in> set (ep_vertex_path ep) \<and> \<not> is_vertex_id v) \<or>
     (\<exists>(k, v) \<in> set (rl_params call). k \<in> set (ep_vertex_query ep) \<and> \<not> vertex_ids v)"

lemma format_vertex_id_ok: "isl (format_vertex_id v) \<longleftrightarrow> \<not> is_vertex_id v"
  by (cases v) (auto simp: format_vertex_id_def is_vertex_id_def)

lemma vertex_keys_fail:
  assumes "format_vertex_keys ks vals = Inl e"
  shows "\<exists>k \<in> set ks. has_key vals k \<and> \<not> is_vertex_id (dget vals k)"
  using assms
proof (induction ks arbitrary: vals)
  case (Cons k ks)
  show ?case
  proof (cases "has_key vals k \<and> is_vertex_id (dget vals k)")
    case True
    then obtain t where t: "format_vertex_id (dget vals k) = Inr t" by (metis format_vertex_id_ok sum.collapse(2))
    with True Cons.prems have "format_vertex_keys ks (dset k (PStr t) vals) = Inl e" by simp
    then obtain j where "j \<in> set ks" "has_key (dset k (PStr t) vals) j" "\<not> is_vertex_id (dget (dset k (PStr t) vals) j)"
      using Cons.IH by blast
    then show ?thesis by (auto simp: has_key_def dget_def is_vertex_id_def split: if_splits)
  next
    case False
    then show ?thesis using Cons by (cases "has_key vals k") auto
  qed
qed simp

lemma vertex_keys_values:
  assumes "format_vertex_keys ks vals = Inr vals'" "dget vals k \<noteq> PNone"
  shows "dget vals' k \<noteq> PNone"
  using assms
proof (induction ks arbitrary: vals)
  case (Cons j ks)
  show ?case
  proof (cases "has_key vals j")
    case True
    with Cons.prems obtain t where "format_vertex_keys ks (dset j (PStr t) vals) = Inr vals'" by (auto simp: res_simps)
    moreover have "dget (dset j (PStr t) vals) k \<noteq> PNone" using Cons.prems(2) by (auto simp: dget_def)
    ultimately show ?thesis by (rule Cons.IH)
  next
    case False
    then show ?thesis using Cons by simp
  qed
qed simp

lemma encode_fails: "isl (encode_value ep k v) \<Longrightarrow> k \<in> set (ep_vertex_query ep) \<and> \<not> vertex_ids v"
proof -
  have item: "isl (encode_item ep k u) \<longleftrightarrow> k \<in> set (ep_vertex_query ep) \<and> \<not> is_vertex_id u" for u
  proof (cases "k \<in> set (ep_vertex_query ep)")
    case True
    then show ?thesis using format_vertex_id_ok [of u] by (cases "format_vertex_id u") (auto simp: encode_item_def)
  qed (simp add: encode_item_def split: py.splits)
  have items: "isl (map_res (encode_item ep k) us) \<Longrightarrow> \<exists>u \<in> set us. isl (encode_item ep k u)" for us
  proof (induction us)
    case (Cons u us)
    then show ?case by (cases "encode_item ep k u"; cases "map_res (encode_item ep k) us") auto
  qed simp
  have lists: "isl (and_then r (\<lambda>es. Inr (f es))) \<longleftrightarrow> isl r" for r :: "py list res" and f :: "py list \<Rightarrow> py" by (cases r) auto
  assume "isl (encode_value ep k v)"
  then show ?thesis
    using item [of v] items by (cases v) (auto simp: encode_value_def lists vertex_ids_def list_all_iff item)
qed

lemma query_fails:
  assumes "query_of ep op kvs = Inl e" "\<forall>(k, v) \<in> set kvs. k \<in> set (ep_query ep) \<or> ep_passthrough ep"
  shows "\<exists>(k, v) \<in> set kvs. k \<in> set (ep_vertex_query ep) \<and> \<not> vertex_ids v"
  using assms
proof (induction kvs)
  case (Cons kv kvs)
  obtain k v where kv: "kv = (k, v)" by (cases kv)
  show ?case
  proof (cases "v \<noteq> PNone \<and> isl (encode_value ep k v)")
    case True
    then show ?thesis using encode_fails by (auto simp: kv)
  next
    case False
    then have "query_of ep op kvs = Inl e"
      using Cons.prems by (cases "encode_value ep k v"; cases "query_of ep op kvs") (auto simp: kv split: if_splits)
    then show ?thesis using Cons by auto
  qed
qed simp

lemma fold_pairs_value:
  "dget (fold (\<lambda>(k, v). dset k v) (map (\<lambda>k. (k, f k)) ks) d) k = (if k \<in> set ks then f k else dget d k)"
proof (induction ks arbitrary: d)
  case (Cons j ks)
  then show ?case by (simp add: dget_def)
qed simp

lemma has_key_fold_pairs:
  "has_key (fold (\<lambda>(k, v). dset k v) (map (\<lambda>k. (k, f k)) ks) d) k \<longleftrightarrow> k \<in> set ks \<or> has_key d k"
proof (induction ks arbitrary: d)
  case (Cons j ks)
  then show ?case by (simp add: has_key_def)
qed simp

text \<open>The parameters of the adapted template are among those of the path in the catalog.\<close>

lemma params_after_slash:
  assumes "list_all plain_segment (segments p)"
  shows "list_all plain_segment (segments (snd (split_once (CHR ''/'') p)))"
    and "set (find_params (snd (split_once (CHR ''/'') p))) \<subseteq> set (find_params p)"
proof -
  define a d where "a = takeWhile (\<lambda>c. c \<noteq> CHR ''/'') p" and "d = dropWhile (\<lambda>c. c \<noteq> CHR ''/'') p"
  have p: "p = a @ d" by (simp add: a_def d_def)
  have a: "CHR ''/'' \<notin> set a" by (auto simp: a_def dest: set_takeWhileD)
  have tail: "snd (split_once (CHR ''/'') p) = drop 1 d" by (simp add: split_once_def d_def)
  have "list_all plain_segment (segments (drop 1 d)) \<and> set (find_params (drop 1 d)) \<subseteq> set (find_params p)"
  proof (cases d)
    case Nil
    then show ?thesis by (simp add: plain_segment_def hole_def)
  next
    case (Cons c r)
    then have "c = CHR ''/''" using hd_dropWhile [of "\<lambda>c. c \<noteq> CHR ''/''" p] by (auto simp: d_def)
    then have segs: "segments p = a # segments r" using a p Cons by (simp add: segments_append)
    with assms have r: "list_all plain_segment (segments r)" by simp
    have "find_params p = List.map_filter hole (segments p)" using find_join [OF assms] by (simp add: join_segments)
    moreover have "find_params r = List.map_filter hole (segments r)" using find_join [OF r] by (simp add: join_segments)
    ultimately show ?thesis using r Cons segs by (auto simp: List.map_filter_simps split: option.splits)
  qed
  then show "list_all plain_segment (segments (snd (split_once (CHR ''/'') p)))"
    "set (find_params (snd (split_once (CHR ''/'') p))) \<subseteq> set (find_params p)" by (simp_all add: tail)
qed

lemma template_params:
  assumes "adapt_path cfg p = Inr t" "plain_path p"
  shows "set (find_params t) \<subseteq> set (find_params p)" "hc_spaces_supported cfg \<or> ''graphspace'' \<notin> set (find_params t)"
proof -
  have "list_all plain_segment (segments p)" using assms(2) by (simp add: plain_path_def plain_template_def)
  then have "set (find_params (after_two p)) \<subseteq> set (find_params p)"
    using params_after_slash [of p] params_after_slash [of "snd (split_once (CHR ''/'') p)"] unfolding after_two_def by blast
  then show "set (find_params t) \<subseteq> set (find_params p)" "hc_spaces_supported cfg \<or> ''graphspace'' \<notin> set (find_params t)"
    using assms by (auto simp: adapt_path_def plain_path_def adaptable_def Let_def split: if_splits)
qed

lemma catalog_vertex_paths: "list_all (\<lambda>(op, ep). list_all (\<lambda>k. k = ''id'') (ep_vertex_path ep)) ENDPOINTS"
  by (simp add: ENDPOINTS_def ENDPOINT_GROUPS_def endpoint_tables operation_def)

lemma extra_params:
  "(k, v) \<in> set (fold (\<lambda>(k, v). dset k v) kvs d) \<Longrightarrow> (k, v) \<in> set d \<or> (k, v) \<in> set kvs"
proof (induction kvs arbitrary: d)
  case (Cons m kvs)
  have "(k, v) \<in> set (dset j u d) \<Longrightarrow> (k, v) = (j, u) \<or> (k, v) \<in> set d" for j u
    by (induction d) (auto split: if_splits)
  then show ?case using Cons by (cases m) fastforce
qed simp

section \<open>The methods keep their promises\<close>

definition method_result :: "rest_method \<Rightarrow> endpoint \<Rightarrow> rest_session \<Rightarrow> rest_call \<Rightarrow> rest_error + rest_request \<Rightarrow> bool" where
  "method_result m ep s call r \<longleftrightarrow> (case r of
      Inr rq \<Rightarrow> rr_method rq = fst (rm_doc m)
    | Inl (Unsupported_Operation msg) \<Rightarrow> \<not> hc_spaces_supported (rs_cfg s)
    | Inl (Bad_Call e) \<Rightarrow> bad_vertex_argument ep call
    | Inl (Client_Failure e) \<Rightarrow> False)"


definition variable_update :: rest_method where
  "variable_update = api_method ''update'' ''variables.update'' [''key''] [] True (''PUT'', in_graph ''variables/{key}'')"

definition variable_args :: method_args where
  "variable_args = \<lparr>ma_value = (\<lambda>k. PStr ''x''), ma_body = Some (PDict [(''data'', PInt 1)]), ma_header = None, ma_extra = []\<rparr>"


end
