(* ===== verification/Graph_Client.thy ===== *)
theory Graph_Client
  imports Rest_Methods
begin

text \<open>
  Model of \<open>GraphManager\<close> (\<open>api/graph.py\<close>) and of \<open>VertexData\<close> and \<open>EdgeData\<close> (\<open>structure/*_data.py\<close>) of the Python client,
  over the transport of \<open>Rest_Request\<close>. An element is the dictionary that \<open>to_dict\<close> returns.
\<close>

section \<open>Calls\<close>

record 'b client =
  cl_send :: "'b transport"
  cl_session :: rest_session

type_synonym ('b, 'a) client_call = "'b \<Rightarrow> (rest_error + 'a) \<times> 'b"

definition perform :: "'b client \<Rightarrow> rest_call \<Rightarrow> ('b, py) client_call" where
  "perform c call = rest_perform ENDPOINTS (cl_send c) (cl_session c) call"

text \<open>A pure step on the answer.\<close>

definition with_answer :: "('b, 'a) client_call \<Rightarrow> ('a \<Rightarrow> 'c res) \<Rightarrow> ('b, 'c) client_call" where
  "with_answer m f b = (case m b of (Inl e, b') \<Rightarrow> (Inl e, b') | (Inr v, b') \<Rightarrow> (lift_call (f v), b'))"

definition refuse_call :: "py_exc \<Rightarrow> ('b, 'a) client_call" where
  "refuse_call e b = (Inl (Bad_Call e), b)"

section \<open>Elements\<close>

text \<open>\<open>VertexData(dic)\<close> and \<open>EdgeData(dic)\<close>; the text of the exception for a value that is no object is the model's own.\<close>

definition element_data :: "py \<Rightarrow> py_dict res" where
  "element_data v = (case v of
      PDict d \<Rightarrow> if has_key d ''id'' then Inr d else Inl (KeyError ''id'')
    | v \<Rightarrow> Inl (TypeError (type_name v @ '' is no element'')))"

text \<open>\<open>item if isinstance(item, dict) else {"id": item}\<close>.\<close>

definition created_element :: "py \<Rightarrow> py_dict res" where
  "created_element v = (case v of PDict d \<Rightarrow> element_data v | v \<Rightarrow> Inr [(''id'', v)])"

text \<open>\<open>response[key]\<close>, iterated over, and \<open>response.get("page")\<close>, for a response that is an object.\<close>

definition elements_of :: "string \<Rightarrow> py \<Rightarrow> py_dict list res" where
  "elements_of key response = (case response of
      PDict d \<Rightarrow> and_then (key_val d key) (\<lambda>v. and_then (py_iter v) (map_res element_data))
    | v \<Rightarrow> Inl (TypeError (repr_str (type_name v) @ '' object is not subscriptable'')))"

definition page_of :: "string \<Rightarrow> py \<Rightarrow> (py_dict list \<times> py) res" where
  "page_of key response = and_then (elements_of key response) (\<lambda>es. Inr (es, case response of PDict d \<Rightarrow> dget d ''page'' | _ \<Rightarrow> PNone))"

section \<open>Pagination\<close>

definition page_token :: "py \<Rightarrow> py \<Rightarrow> py res" where
  "page_token page offset =
     (if offset \<noteq> PNone \<and> \<not> py_eq offset (PInt 0) then
        (if page \<noteq> PNone then Inl (ValueError ''page and nonzero offset cannot be combined'') else Inr PNone)
      else Inr (if page = PNone then PStr [] else page))"

definition positive_or_none :: "int \<Rightarrow> py" where
  "positive_or_none limit = (if limit > 0 then PInt limit else PNone)"

section \<open>Vertices\<close>

definition add_vertex :: "'b client \<Rightarrow> py \<Rightarrow> py \<Rightarrow> py \<Rightarrow> ('b, py_dict) client_call" where
  "add_vertex c label properties vid =
     with_answer (perform c (plain_call ''vertex.create'' [] []
       (Some (PDict ([(''label'', label), (''properties'', properties)] @ (if vid = PNone then [] else [(''id'', vid)])))))) element_data"

datatype vertex_item = Vertex_Entity py_dict | Vertex_Pair py py

fun vertex_body :: "vertex_item \<Rightarrow> py" where
  "vertex_body (Vertex_Entity d) = PDict d"
| "vertex_body (Vertex_Pair label properties) = PDict [(''label'', label), (''properties'', properties)]"

definition created_elements :: "py \<Rightarrow> py_dict list res" where
  "created_elements response = and_then (py_iter response) (map_res created_element)"

definition add_vertices :: "'b client \<Rightarrow> vertex_item list \<Rightarrow> ('b, py_dict list) client_call" where
  "add_vertices c items =
     with_answer (perform c (plain_call ''vertex.create_batch'' [] [] (Some (PList (map vertex_body items))))) created_elements"

definition update_batch :: "string \<Rightarrow> string \<Rightarrow> 'b client \<Rightarrow> py \<Rightarrow> py \<Rightarrow> bool \<Rightarrow> ('b, py) client_call" where
  "update_batch op key c elements strategies create =
     perform c (plain_call op [] [] (Some (PDict [(key, elements), (''update_strategies'', py_or strategies (PDict [])),
       (''create_if_not_exist'', PBool create)])))"

definition update_vertices :: "'b client \<Rightarrow> py \<Rightarrow> py \<Rightarrow> bool \<Rightarrow> ('b, py) client_call" where
  "update_vertices = update_batch ''vertex.update_batch'' ''vertices''"

definition change_properties :: "string \<Rightarrow> string \<Rightarrow> 'b client \<Rightarrow> py \<Rightarrow> py \<Rightarrow> ('b, py_dict) client_call" where
  "change_properties op action c i properties =
     with_answer (perform c (plain_call op [(''id'', i)] [(''action'', PStr action)] (Some (PDict [(''properties'', properties)])))) element_data"

definition append_vertex :: "'b client \<Rightarrow> py \<Rightarrow> py \<Rightarrow> ('b, py_dict) client_call" where
  "append_vertex = change_properties ''vertex.update_by_id'' ''append''"

definition eliminate_vertex :: "'b client \<Rightarrow> py \<Rightarrow> py \<Rightarrow> ('b, py_dict) client_call" where
  "eliminate_vertex = change_properties ''vertex.update_by_id'' ''eliminate''"

definition get_vertex_by_id :: "'b client \<Rightarrow> py \<Rightarrow> ('b, py_dict) client_call" where
  "get_vertex_by_id c i = with_answer (perform c (plain_call ''vertex.get'' [(''id'', i)] [] None)) element_data"

definition list_vertices :: "'b client \<Rightarrow> py \<Rightarrow> py \<Rightarrow> py \<Rightarrow> py \<Rightarrow> py \<Rightarrow> py \<Rightarrow> ('b, py) client_call" where
  "list_vertices c label properties page limit offset keep_start_p =
     perform c (plain_call ''vertex.list'' [] [(''label'', label), (''properties'', properties), (''page'', page), (''limit'', limit),
       (''offset'', offset), (''keep_start_p'', keep_start_p)] None)"

text \<open>The options \<open>offset\<close> and \<open>keep_start_p\<close> are \<open>PNone\<close> when they are not given.\<close>

definition get_vertex_by_page :: "'b client \<Rightarrow> py \<Rightarrow> int \<Rightarrow> py \<Rightarrow> py \<Rightarrow> py \<Rightarrow> py \<Rightarrow> ('b, py_dict list \<times> py) client_call" where
  "get_vertex_by_page c label limit page properties offset keep = (case page_token page offset of
      Inl e \<Rightarrow> refuse_call e
    | Inr token \<Rightarrow> with_answer (list_vertices c label properties token (PInt limit) offset keep) (page_of ''vertices''))"

definition get_vertex_by_condition_with_page ::
  "'b client \<Rightarrow> py \<Rightarrow> int \<Rightarrow> py \<Rightarrow> py \<Rightarrow> py \<Rightarrow> py \<Rightarrow> ('b, py_dict list \<times> py) client_call" where
  "get_vertex_by_condition_with_page c label limit page properties offset keep = (case page_token page offset of
      Inl e \<Rightarrow> refuse_call e
    | Inr token \<Rightarrow> with_answer (list_vertices c (py_or label PNone) properties token (positive_or_none limit) offset keep) (page_of ''vertices''))"

definition get_vertex_by_condition :: "'b client \<Rightarrow> py \<Rightarrow> int \<Rightarrow> py \<Rightarrow> py \<Rightarrow> py \<Rightarrow> py \<Rightarrow> ('b, py_dict list) client_call" where
  "get_vertex_by_condition c label limit page properties offset keep =
     with_answer (get_vertex_by_condition_with_page c label limit page properties offset keep) (\<lambda>r. Inr (fst r))"

definition remove_vertex_by_id :: "'b client \<Rightarrow> py \<Rightarrow> py \<Rightarrow> ('b, py) client_call" where
  "remove_vertex_by_id c i label = perform c (plain_call ''vertex.delete'' [(''id'', i)] [(''label'', label)] None)"

section \<open>Edges\<close>

definition add_edge :: "'b client \<Rightarrow> py \<Rightarrow> py \<Rightarrow> py \<Rightarrow> py \<Rightarrow> ('b, py_dict) client_call" where
  "add_edge c label out_id in_id properties =
     with_answer (perform c (plain_call ''edge.create'' [] []
       (Some (PDict [(''label'', label), (''outV'', out_id), (''inV'', in_id), (''properties'', properties)])))) element_data"

datatype edge_item = Edge_Entity py_dict | Edge_Fields py py py py py py

fun edge_body :: "edge_item \<Rightarrow> py" where
  "edge_body (Edge_Entity d) = PDict d"
| "edge_body (Edge_Fields label out_id in_id out_label in_label properties) =
     PDict [(''label'', label), (''outV'', out_id), (''inV'', in_id), (''outVLabel'', out_label), (''inVLabel'', in_label), (''properties'', properties)]"

definition add_edges :: "'b client \<Rightarrow> edge_item list \<Rightarrow> py \<Rightarrow> ('b, py_dict list) client_call" where
  "add_edges c items check_vertex =
     with_answer (perform c (plain_call ''edge.create_batch'' [] [(''check_vertex'', check_vertex)] (Some (PList (map edge_body items)))))
       created_elements"

definition update_edges :: "'b client \<Rightarrow> py \<Rightarrow> py \<Rightarrow> bool \<Rightarrow> ('b, py) client_call" where
  "update_edges = update_batch ''edge.update_batch'' ''edges''"

definition append_edge :: "'b client \<Rightarrow> py \<Rightarrow> py \<Rightarrow> ('b, py_dict) client_call" where
  "append_edge = change_properties ''edge.update_by_id'' ''append''"

definition eliminate_edge :: "'b client \<Rightarrow> py \<Rightarrow> py \<Rightarrow> ('b, py_dict) client_call" where
  "eliminate_edge = change_properties ''edge.update_by_id'' ''eliminate''"

definition get_edge_by_id :: "'b client \<Rightarrow> py \<Rightarrow> ('b, py_dict) client_call" where
  "get_edge_by_id c i = with_answer (perform c (plain_call ''edge.get'' [(''id'', i)] [] None)) element_data"

definition list_edges :: "'b client \<Rightarrow> py \<Rightarrow> py \<Rightarrow> py \<Rightarrow> py \<Rightarrow> py \<Rightarrow> py \<Rightarrow> py \<Rightarrow> py \<Rightarrow> ('b, py) client_call" where
  "list_edges c label vertex_id direction properties page limit offset keep_start_p =
     perform c (plain_call ''edge.list'' [] [(''vertex_id'', vertex_id), (''direction'', direction), (''label'', label),
       (''properties'', properties), (''page'', page), (''limit'', limit), (''offset'', offset), (''keep_start_p'', keep_start_p)] None)"

definition get_edge_by_page ::
  "'b client \<Rightarrow> py \<Rightarrow> py \<Rightarrow> py \<Rightarrow> int \<Rightarrow> py \<Rightarrow> py \<Rightarrow> py \<Rightarrow> py \<Rightarrow> ('b, py_dict list \<times> py) client_call" where
  "get_edge_by_page c label vertex_id direction limit page properties offset keep =
     (if vertex_id \<noteq> PNone \<and> \<not> truthy direction then refuse_call (ValueError ''direction is required when vertex_id is set'')
      else case page_token page offset of
        Inl e \<Rightarrow> refuse_call e
      | Inr token \<Rightarrow> with_answer (list_edges c label vertex_id direction properties token (positive_or_none limit) offset keep) (page_of ''edges''))"

definition remove_edge_by_id :: "'b client \<Rightarrow> py \<Rightarrow> py \<Rightarrow> ('b, py) client_call" where
  "remove_edge_by_id c i label = perform c (plain_call ''edge.delete'' [(''id'', i)] [(''label'', label)] None)"

section \<open>Batches, shards and scans\<close>

definition get_by_ids :: "string \<Rightarrow> string \<Rightarrow> 'b client \<Rightarrow> py list \<Rightarrow> ('b, py_dict list) client_call" where
  "get_by_ids op key c ids b = (if ids = [] then (Inr [], b)
     else with_answer (perform c (plain_call op [] [(''ids'', PList ids)] None)) (elements_of key) b)"

definition get_vertices_by_id :: "'b client \<Rightarrow> py list \<Rightarrow> ('b, py_dict list) client_call" where
  "get_vertices_by_id = get_by_ids ''vertices.list'' ''vertices''"

definition get_edges_by_id :: "'b client \<Rightarrow> py list \<Rightarrow> ('b, py_dict list) client_call" where
  "get_edges_by_id = get_by_ids ''edges.list'' ''edges''"

definition vertex_shards :: "'b client \<Rightarrow> py \<Rightarrow> ('b, py) client_call" where
  "vertex_shards c split_size = perform c (plain_call ''vertices.shards'' [] [(''split_size'', split_size)] None)"

definition edge_shards :: "'b client \<Rightarrow> py \<Rightarrow> ('b, py) client_call" where
  "edge_shards c split_size = perform c (plain_call ''edges.shards'' [] [(''split_size'', split_size)] None)"

definition scan :: "string \<Rightarrow> 'b client \<Rightarrow> py \<Rightarrow> py \<Rightarrow> py \<Rightarrow> py \<Rightarrow> ('b, py) client_call" where
  "scan op c from stop page page_limit =
     perform c (plain_call op [] [(''start'', from), (''end'', stop), (''page'', page), (''page_limit'', page_limit)] None)"

definition scan_vertices :: "'b client \<Rightarrow> py \<Rightarrow> py \<Rightarrow> py \<Rightarrow> py \<Rightarrow> ('b, py) client_call" where
  "scan_vertices = scan ''vertices.scan''"

definition scan_edges :: "'b client \<Rightarrow> py \<Rightarrow> py \<Rightarrow> py \<Rightarrow> py \<Rightarrow> ('b, py) client_call" where
  "scan_edges = scan ''edges.scan''"

end
