(* ===== verification/Graph_Query.thy ===== *)
theory Graph_Query
  imports Graph_Client Graph_Manage
begin

text \<open>
  Model of \<open>hugegraph_mcp/tools/query_graph_data.py\<close>: typed queries for vertices and edges over the graph manager of the
  Python client.
\<close>

section \<open>Requests\<close>

definition TARGETS :: "string list" where "TARGETS = [''vertex'', ''edge'']"
definition OPERATIONS :: "string list" where "OPERATIONS = [''get_by_id'', ''get_by_ids'', ''page'', ''condition'']"
definition DEFAULT_LIMIT :: int where "DEFAULT_LIMIT = 100"
definition MAX_LIMIT :: int where "MAX_LIMIT = 500"
definition VALID_DIRECTIONS :: "string list" where "VALID_DIRECTIONS = [''OUT'', ''IN'', ''BOTH'']"

record query_request =
  qr_target :: string
  qr_operation :: string
  qr_id :: py
  qr_ids :: py
  qr_label :: py
  qr_properties :: py
  qr_limit :: py
  qr_page :: py
  qr_vertex_id :: py
  qr_direction :: py

text \<open>The configuration, the exception of building the client if there is one, and the client.\<close>

record 'b query_env =
  qe_cfg :: MCPConfig
  qe_unavailable :: "hg_exception option"
  qe_client :: "'b client"

definition query_error_env :: "string \<Rightarrow> string \<Rightarrow> py_dict \<Rightarrow> noted" where
  "query_error_env message suggestion details = bare (envelope_err VALIDATION_ERROR message (Some suggestion) (PDict details))"

section \<open>Validation\<close>

definition is_blank :: "py \<Rightarrow> bool" where
  "is_blank v = (case v of PNone \<Rightarrow> True | PStr s \<Rightarrow> strip s = [] | _ \<Rightarrow> False)"

definition normalize_direction :: "py \<Rightarrow> string option" where
  "normalize_direction v = (if v = PNone then None
     else let u = upper (strip (py_str v)) in if u \<in> set VALID_DIRECTIONS then Some u else None)"

definition exception_text :: "py_exc \<Rightarrow> string" where
  "exception_text e = py_str (exc_reason e)"

text \<open>Both exceptions of \<open>format_vertex_id\<close> are caught.\<close>

definition validate_vertex_id :: "py \<Rightarrow> string \<Rightarrow> noted option" where
  "validate_vertex_id v field = (case format_vertex_id v of
      Inr s \<Rightarrow> None
    | Inl e \<Rightarrow> Some (query_error_env (''Invalid vertex id in '' @ field @ '': '' @ exception_text e)
        ''Pass a HugeGraph vertex id as a string, UUID, or Java signed 64-bit integer.''
        [(''field'', PStr field), (''id_type'', PStr (type_name v)), (''reason'', PStr (exception_text e))]))"

fun validate_vertex_ids :: "nat \<Rightarrow> py list \<Rightarrow> noted option" where
  "validate_vertex_ids i [] = None"
| "validate_vertex_ids i (v # vs) = (case validate_vertex_id v (''ids['' @ nat_str i @ '']'') of
      Some e \<Rightarrow> Some e | None \<Rightarrow> validate_vertex_ids (Suc i) vs)"

text \<open>An infinite float raises OverflowError, which is not caught.\<close>

definition validate_limit :: "py \<Rightarrow> noted option res" where
  "validate_limit limit = (if limit = PNone then Inr None else case py_int limit of
      Inl (OverflowError m) \<Rightarrow> Inl (OverflowError m)
    | Inl e \<Rightarrow> Inr (Some (query_error_env ''limit must be an integer.'' ''Pass an integer from 1 to 500.'' [(''limit'', limit)]))
    | Inr n \<Rightarrow> Inr (
        if n < 1 then Some (query_error_env ''limit must be at least 1.'' ''Pass an integer from 1 to 500.'' [(''limit'', limit)])
        else if n > MAX_LIMIT then Some (query_error_env ''limit exceeds maximum 500.'' ''Reduce limit or use page to continue reading.''
          [(''limit'', limit), (''max'', PInt MAX_LIMIT)])
        else None))"

definition validate_id :: "query_request \<Rightarrow> noted option" where
  "validate_id rq = (if qr_operation rq \<noteq> ''get_by_id'' then None
     else if is_blank (qr_id rq) then Some (query_error_env ''id is required for operation='get_by_id'.'' ''Pass the exact vertex or edge id.''
       [(''operation'', PStr (qr_operation rq))])
     else if qr_target rq = ''vertex'' then validate_vertex_id (qr_id rq) ''id'' else None)"

definition validate_ids :: "query_request \<Rightarrow> noted option" where
  "validate_ids rq = (if qr_operation rq \<noteq> ''get_by_ids'' then None
     else case qr_ids rq of
       PList (v # vs) \<Rightarrow>
         if list_ex is_blank (v # vs) then Some (query_error_env ''ids cannot contain empty values.'' ''Remove null or empty ids before querying.''
           [(''ids'', qr_ids rq)])
         else if int (length (v # vs)) > MAX_LIMIT then Some (query_error_env ''ids length exceeds maximum 500.''
           ''Split the request into smaller batches.'' [(''ids_length'', PInt (int (length (v # vs)))), (''max'', PInt MAX_LIMIT)])
         else if qr_target rq = ''vertex'' then validate_vertex_ids 0 (v # vs) else None
     | _ \<Rightarrow> Some (query_error_env ''ids must be a non-empty list for operation='get_by_ids'.'' ''Pass one or more exact vertex or edge ids.''
         [(''operation'', PStr (qr_operation rq))]))"

definition validate_filters :: "query_request \<Rightarrow> noted option" where
  "validate_filters rq =
     (if qr_operation rq = ''page'' \<and> qr_target rq = ''vertex'' \<and> is_blank (qr_label rq) then
        Some (query_error_env ''label is required for vertex page queries.'' ''Pass a vertex label or use operation='condition'.''
          [(''target'', PStr (qr_target rq)), (''operation'', PStr (qr_operation rq))])
      else if qr_properties rq \<noteq> PNone \<and> \<not> is_dict (qr_properties rq) then
        Some (query_error_env ''properties must be an object when provided.'' ''Pass exact-match property filters as a JSON object.''
          [(''properties_type'', PStr (type_name (qr_properties rq)))])
      else if qr_operation rq = ''condition'' \<and> \<not> truthy (qr_properties rq) then
        Some (query_error_env ''properties is required for operation='condition'.''
          ''Pass exact-match property filters, or use operation='page' for bounded scans.''
          [(''operation'', PStr (qr_operation rq)), (''properties'', qr_properties rq)])
      else None)"

definition validate_direction :: "query_request \<Rightarrow> noted option" where
  "validate_direction rq =
     (if \<not> (qr_target rq = ''edge'' \<and> qr_operation rq \<in> {''page'', ''condition''}) then None
      else let both = [(''vertex_id'', qr_vertex_id rq), (''direction'', qr_direction rq)]; given = qr_vertex_id rq \<noteq> PNone in
        if qr_operation rq = ''page'' \<and> given \<and> \<not> is_blank (qr_page rq) then
          Some (query_error_env ''vertex_id and page cannot be combined for edge page queries.''
            (''For a vertex-scoped query, pass vertex_id and direction without ''
              @ ''page. For ordinary pagination, pass page without vertex_id.'')
            [(''vertex_id'', qr_vertex_id rq), (''page'', qr_page rq)])
        else if given \<and> qr_direction rq = PNone then
          Some (query_error_env ''direction is required when querying edges by vertex_id.'' ''Pass direction='OUT', 'IN', or 'BOTH'.'' both)
        else if given \<and> normalize_direction (qr_direction rq) = None then
          Some (query_error_env (''Unsupported direction: '' @ py_repr (qr_direction rq) @ ''.'') ''Pass direction='OUT', 'IN', or 'BOTH'.'' both)
        else if \<not> given \<and> qr_direction rq \<noteq> PNone then
          Some (query_error_env ''direction requires vertex_id for edge queries.''
            ''Pass vertex_id together with direction, or omit direction.'' [(''direction'', qr_direction rq)])
        else None)"

text \<open>The first error, in the order of the code.\<close>

fun first_some :: "'a option list \<Rightarrow> 'a option" where
  "first_some [] = None"
| "first_some (x # xs) = (case x of None \<Rightarrow> first_some xs | Some v \<Rightarrow> Some v)"

definition validate_query :: "query_request \<Rightarrow> noted option res" where
  "validate_query rq =
     (if qr_target rq \<notin> set TARGETS then
        Inr (Some (query_error_env (''Unsupported target: '' @ repr_str (qr_target rq) @ ''.'') ''Use target='vertex' or target='edge'.''
          [(''target'', PStr (qr_target rq))]))
      else if qr_operation rq \<notin> set OPERATIONS then
        Inr (Some (query_error_env (''Unsupported operation: '' @ repr_str (qr_operation rq) @ ''.'')
          ''Use one of: get_by_id, get_by_ids, page, condition.'' [(''operation'', PStr (qr_operation rq))]))
      else and_then (validate_limit (qr_limit rq)) (\<lambda>e.
        Inr (first_some [e, validate_id rq, validate_ids rq, validate_filters rq, validate_direction rq])))"

section \<open>Execution\<close>

text \<open>The key under which two identifiers are the same.\<close>

definition id_dedupe_key :: "string \<Rightarrow> py \<Rightarrow> string" where
  "id_dedupe_key target item = sorted_json (PDict [(''target'', PStr target), (''type'', PStr (type_name item)), (''value'', item)])"

fun distinct_ids :: "string \<Rightarrow> string list \<Rightarrow> py list \<Rightarrow> py list" where
  "distinct_ids target seen [] = []"
| "distinct_ids target seen (v # vs) = (let k = id_dedupe_key target v in
     if k \<in> set seen then distinct_ids target seen vs else v # distinct_ids target (k # seen) vs)"

definition normalize_ids :: "string \<Rightarrow> py list \<Rightarrow> py list \<times> string list" where
  "normalize_ids target vs = (let kept = distinct_ids target [] vs; n = length vs - length kept in
     (kept, if n = 0 then [] else [''Ignored '' @ nat_str n @ '' duplicate id value(s).'']))"

definition query_ids :: "query_request \<Rightarrow> py list" where
  "query_ids rq = (case qr_ids rq of PList vs \<Rightarrow> vs | _ \<Rightarrow> [])"

definition bounded_limit :: "MCPConfig \<Rightarrow> py \<Rightarrow> int" where
  "bounded_limit cfg limit =
     min (min (if limit = PNone then DEFAULT_LIMIT else case py_int limit of Inr n \<Rightarrow> n | Inl e \<Rightarrow> DEFAULT_LIMIT) MAX_LIMIT) (cfg_max_result_items cfg)"

definition single :: "py_dict \<Rightarrow> (py_dict list \<times> py) res" where
  "single d = Inr ([d], PNone)"

definition many :: "py_dict list \<Rightarrow> (py_dict list \<times> py) res" where
  "many ds = Inr (ds, PNone)"

definition execute_vertex_query :: "'b client \<Rightarrow> query_request \<Rightarrow> py list \<Rightarrow> int \<Rightarrow> ('b, py_dict list \<times> py) client_call" where
  "execute_vertex_query c rq ids limit =
     (if qr_operation rq = ''get_by_id'' then with_answer (get_vertex_by_id c (qr_id rq)) single
      else if qr_operation rq = ''get_by_ids'' then with_answer (get_vertices_by_id c ids) many
      else if qr_operation rq = ''page'' then get_vertex_by_page c (qr_label rq) limit (qr_page rq) (qr_properties rq) PNone PNone
      else get_vertex_by_condition_with_page c (py_or (qr_label rq) (PStr [])) limit (qr_page rq) (qr_properties rq) PNone PNone)"

definition execute_edge_query :: "'b client \<Rightarrow> query_request \<Rightarrow> py list \<Rightarrow> int \<Rightarrow> ('b, py_dict list \<times> py) client_call" where
  "execute_edge_query c rq ids limit =
     (if qr_operation rq = ''get_by_id'' then with_answer (get_edge_by_id c (qr_id rq)) single
      else if qr_operation rq = ''get_by_ids'' then with_answer (get_edges_by_id c ids) many
      else get_edge_by_page c (qr_label rq) (qr_vertex_id rq)
        (case normalize_direction (qr_direction rq) of None \<Rightarrow> PNone | Some d \<Rightarrow> PStr d) limit (qr_page rq) (qr_properties rq) PNone PNone)"

definition execute_query :: "'b client \<Rightarrow> query_request \<Rightarrow> py list \<Rightarrow> int \<Rightarrow> ('b, py_dict list \<times> py) client_call" where
  "execute_query c rq = (if qr_target rq = ''vertex'' then execute_vertex_query c rq else execute_edge_query c rq)"

section \<open>Answers\<close>

definition rest_exception :: "rest_error \<Rightarrow> hg_exception" where
  "rest_exception e = (case e of Client_Failure x \<Rightarrow> x | Bad_Call x \<Rightarrow> OtherError (exception_text x) | Unsupported_Operation m \<Rightarrow> OtherError m)"

definition index_hint :: string where
  "index_hint = ''If a condition query needs an index, use operation='get_by_id' with an exact ID, ''
     @ ''or ask an administrator to create the index outside MCP.''"

definition query_error :: "hg_exception \<Rightarrow> noted" where
  "query_error e = (let c = classify_hugegraph_exception e in
     (bare (envelope_err (ec_type c) (''HugeGraph graph data query failed: '' @ hg_text e) (Some (ec_suggestion c))
       (PDict [(''error'', PStr (hg_text e)), (''reason'', PStr (ec_reason c))])))
     \<lparr>nt_retryable := ec_retryable c, nt_actions := [''Retry with exact id lookup if possible.'', index_hint]\<rparr>)"

definition query_data :: "query_request \<Rightarrow> py_dict list \<Rightarrow> py \<Rightarrow> int \<Rightarrow> py" where
  "query_data rq items next_page limit = PDict [(''target'', PStr (qr_target rq)), (''operation'', PStr (qr_operation rq)),
     (''items'', PList (map PDict items)), (''count'', PInt (int (length items))), (''page'', qr_page rq), (''next_page'', next_page),
     (''limit'', PInt limit)]"

definition query_answer :: "MCPConfig \<Rightarrow> query_request \<Rightarrow> py_dict list \<Rightarrow> py \<Rightarrow> int \<Rightarrow> string list \<Rightarrow> noted" where
  "query_answer cfg rq items next_page limit warnings = (let data = query_data rq items next_page limit in
     case gremlin_output_guard_error cfg data (int (length items)) (Some limit) ''Structured query'' of
       Some e \<Rightarrow> bare e
     | None \<Rightarrow> \<lparr>nt_response = envelope_ok data, nt_retryable = False, nt_warnings = warnings,
         nt_actions = [''Use mutate_graph_properties_tool dry_run before changing returned items.'', index_hint]\<rparr>)"

definition query_graph_data :: "'b query_env \<Rightarrow> query_request \<Rightarrow> 'b \<Rightarrow> noted res \<times> 'b" where
  "query_graph_data env rq b = (case validate_query rq of
      Inl e \<Rightarrow> (Inl e, b)
    | Inr (Some e) \<Rightarrow> (Inr e, b)
    | Inr None \<Rightarrow>
      let limit = bounded_limit (qe_cfg env) (qr_limit rq);
          (ids, warnings) = (if qr_operation rq = ''get_by_ids'' then normalize_ids (qr_target rq) (query_ids rq) else ([], [])) in
      if qr_operation rq = ''get_by_ids'' \<and> int (length ids) > limit then
        (Inr (query_error_env ''The number of distinct IDs exceeds the effective limit.''
          ''Split the IDs into smaller batches or increase limit within configured bounds.''
          [(''ids_length'', PInt (int (length ids))), (''limit'', PInt limit)]), b)
      else case qe_unavailable env of
        Some e \<Rightarrow> (Inr (query_error e), b)
      | None \<Rightarrow> (case execute_query (qe_client env) rq ids limit b of
          (Inl e, b') \<Rightarrow> (Inr (query_error (rest_exception e)), b')
        | (Inr (items, next_page), b') \<Rightarrow> (Inr (query_answer (qe_cfg env) rq items next_page limit warnings), b')))"

section \<open>What a query sends\<close>

text \<open>The client with a record of its requests.\<close>

definition traced_client :: "'b client \<Rightarrow> ('b \<times> rest_request list) client" where
  "traced_client c = \<lparr>cl_send = (\<lambda>rq (b, rqs). let (r, b') = cl_send c rq b in (r, (b', rqs @ [rq]))), cl_session = cl_session c\<rparr>"

definition reads_once :: "('b \<times> rest_request list, 'a) client_call \<Rightarrow> bool" where
  "reads_once m \<longleftrightarrow> (\<forall>b rqs r b' rqs'. m (b, rqs) = (r, (b', rqs')) \<longrightarrow>
     rqs' = rqs \<or> (\<exists>rq. rqs' = rqs @ [rq] \<and> rr_method rq = ''GET''))"

lemma request_method:
  assumes "rest_request_of cat s call = Inr rq" "map_of cat (rl_operation call) = Some ep"
  shows "rr_method rq = ep_method ep"
  using assms by (auto simp: rest_request_of_def Let_def bind_call_def lift_call_def session_request_def split: if_splits sum.splits)

lemma reads_once_perform:
  assumes "map_of ENDPOINTS (rl_operation call) = Some ep" "ep_method ep = ''GET''"
  shows "reads_once (perform (traced_client c) call)"
  unfolding reads_once_def
proof (intro allI impI)
  fix b rqs r b' rqs'
  assume run: "perform (traced_client c) call (b, rqs) = (r, (b', rqs'))"
  show "rqs' = rqs \<or> (\<exists>rq. rqs' = rqs @ [rq] \<and> rr_method rq = ''GET'')"
  proof (cases "rest_request_of ENDPOINTS (cl_session c) call")
    case (Inl e)
    then show ?thesis using run by (simp add: perform_def rest_perform_def traced_client_def)
  next
    case (Inr rq)
    then have "rqs' = rqs @ [rq]" using run
      by (auto simp: perform_def rest_perform_def traced_client_def rest_send_def split: prod.splits sum.splits)
    then show ?thesis using request_method [OF Inr assms(1)] assms(2) by simp
  qed
qed

lemma reads_once_with_answer [intro]: "reads_once m \<Longrightarrow> reads_once (with_answer m f)"
  unfolding reads_once_def with_answer_def by (fastforce split: prod.splits sum.splits)

lemma reads_once_refuse [intro]: "reads_once (refuse_call e)"
  by (simp add: reads_once_def refuse_call_def)

lemma read_operations:
  "\<exists>ep. map_of ENDPOINTS ''vertex.get'' = Some ep \<and> ep_method ep = ''GET''" "\<exists>ep. map_of ENDPOINTS ''vertex.list'' = Some ep \<and> ep_method ep = ''GET''"
  "\<exists>ep. map_of ENDPOINTS ''edge.get'' = Some ep \<and> ep_method ep = ''GET''" "\<exists>ep. map_of ENDPOINTS ''edge.list'' = Some ep \<and> ep_method ep = ''GET''"
  "\<exists>ep. map_of ENDPOINTS ''vertices.list'' = Some ep \<and> ep_method ep = ''GET''" "\<exists>ep. map_of ENDPOINTS ''edges.list'' = Some ep \<and> ep_method ep = ''GET''"
proof -
  have entry: "\<exists>ep. map_of ENDPOINTS op = Some ep \<and> ep_method ep = ''GET''"
    if "(g, t) \<in> set ENDPOINT_GROUPS" "map_option ep_method (map_of t op) = Some ''GET''" for g t op
    using that operation_lookup [OF that(1)] by auto
  show "\<exists>ep. map_of ENDPOINTS ''vertex.get'' = Some ep \<and> ep_method ep = ''GET''" "\<exists>ep. map_of ENDPOINTS ''vertex.list'' = Some ep \<and> ep_method ep = ''GET''"
    by (rule entry [of "''vertex''" VERTEX_ENDPOINTS]; simp add: ENDPOINT_GROUPS_def VERTEX_ENDPOINTS_def operation_def)+
  show "\<exists>ep. map_of ENDPOINTS ''edge.get'' = Some ep \<and> ep_method ep = ''GET''" "\<exists>ep. map_of ENDPOINTS ''edge.list'' = Some ep \<and> ep_method ep = ''GET''"
    by (rule entry [of "''edge''" EDGE_ENDPOINTS]; simp add: ENDPOINT_GROUPS_def EDGE_ENDPOINTS_def operation_def)+
  show "\<exists>ep. map_of ENDPOINTS ''vertices.list'' = Some ep \<and> ep_method ep = ''GET''"
    by (rule entry [of "''vertices''" VERTICES_ENDPOINTS]; simp add: ENDPOINT_GROUPS_def VERTICES_ENDPOINTS_def operation_def)
  show "\<exists>ep. map_of ENDPOINTS ''edges.list'' = Some ep \<and> ep_method ep = ''GET''"
    by (rule entry [of "''edges''" EDGES_ENDPOINTS]; simp add: ENDPOINT_GROUPS_def EDGES_ENDPOINTS_def operation_def)
qed

lemma reads_once_call:
  "\<exists>ep. map_of ENDPOINTS op = Some ep \<and> ep_method ep = ''GET'' \<Longrightarrow> reads_once (perform (traced_client c) (plain_call op path params body))"
  by (auto intro: reads_once_perform simp: plain_call_def)

lemma reads_once_ids: "\<exists>ep. map_of ENDPOINTS op = Some ep \<and> ep_method ep = ''GET'' \<Longrightarrow> reads_once (get_by_ids op key (traced_client c) ids)"
proof (cases "ids = []")
  case True
  then show ?thesis by (simp add: reads_once_def get_by_ids_def)
next
  case False
  assume "\<exists>ep. map_of ENDPOINTS op = Some ep \<and> ep_method ep = ''GET''"
  then have "reads_once (with_answer (perform (traced_client c) (plain_call op [] [(''ids'', PList ids)] None)) (elements_of key))"
    by (intro reads_once_with_answer reads_once_call)
  moreover have "get_by_ids op key (traced_client c) ids = with_answer (perform (traced_client c) (plain_call op [] [(''ids'', PList ids)] None)) (elements_of key)"
    using False by (simp add: get_by_ids_def fun_eq_iff)
  ultimately show ?thesis by simp
qed

lemma reads_once_query: "reads_once (execute_query (traced_client c) rq ids limit)"
proof -
  note calls = reads_once_call [OF read_operations(1)] reads_once_call [OF read_operations(2)] reads_once_call [OF read_operations(3)]
    reads_once_call [OF read_operations(4)] reads_once_ids [OF read_operations(5)] reads_once_ids [OF read_operations(6)]
  have "reads_once (execute_vertex_query (traced_client c) rq ids limit)"
    unfolding execute_vertex_query_def get_vertex_by_id_def get_vertices_by_id_def get_vertex_by_page_def list_vertices_def
      get_vertex_by_condition_with_page_def by (auto intro!: calls split: sum.split)
  moreover have "reads_once (execute_edge_query (traced_client c) rq ids limit)"
    unfolding execute_edge_query_def get_edge_by_id_def get_edges_by_id_def get_edge_by_page_def list_edges_def
    by (auto intro!: calls split: sum.split)
  ultimately show ?thesis by (simp add: execute_query_def)
qed

section \<open>Queries read once and answer within bounds\<close>

lemma not_ok_error: "nt_response (query_error_env m t d) \<noteq> envelope_ok data"
  by (simp add: query_error_env_def bare_def)

lemma vertex_ids_not_ok: "validate_vertex_ids i vs = Some e \<Longrightarrow> nt_response e \<noteq> envelope_ok data"
  by (induction vs arbitrary: i) (auto simp: validate_vertex_id_def not_ok_error split: sum.splits option.splits)

lemma validators_not_ok:
  "validate_id rq = Some e \<Longrightarrow> nt_response e \<noteq> envelope_ok data"
  "validate_ids rq = Some e \<Longrightarrow> nt_response e \<noteq> envelope_ok data"
  "validate_filters rq = Some e \<Longrightarrow> nt_response e \<noteq> envelope_ok data"
  "validate_direction rq = Some e \<Longrightarrow> nt_response e \<noteq> envelope_ok data"
  "validate_limit l = Inr (Some e) \<Longrightarrow> nt_response e \<noteq> envelope_ok data"
  by (auto simp: validate_id_def validate_vertex_id_def validate_ids_def validate_filters_def validate_direction_def validate_limit_def
      not_ok_error Let_def split: if_splits sum.splits py.splits list.splits py_exc.splits dest: vertex_ids_not_ok)

lemma validate_query_not_ok: "validate_query rq = Inr (Some e) \<Longrightarrow> nt_response e \<noteq> envelope_ok data"
  by (auto simp: validate_query_def res_simps not_ok_error split: if_splits option.splits dest: validators_not_ok)

lemma query_answer_bounded:
  assumes "nt_response (query_answer cfg rq items next_page limit warnings) = envelope_ok data"
  shows "data = query_data rq items next_page limit \<and> int (length items) \<le> min (cfg_max_result_items cfg) limit \<and>
    gremlin_result_byte_size data \<le> cfg_max_result_bytes cfg"
  using assms
  by (auto simp: query_answer_def Let_def gremlin_output_guard_error_def exceeded_limits_def bare_def split: option.splits if_splits)

lemma bounded_limit_le: "bounded_limit cfg limit \<le> MAX_LIMIT \<and> (limit = PInt n \<longrightarrow> bounded_limit cfg limit \<le> n)"
  by (auto simp: bounded_limit_def)

lemma query_cases:
  assumes "qe_client env = traced_client c" "query_graph_data env rq (b, rqs) = (Inr a, (b', rqs'))"
  obtains (same) "rqs' = rqs" "\<And>data. nt_response a \<noteq> envelope_ok data"
    | (asked) ids r warnings where "execute_query (traced_client c) rq ids (bounded_limit (qe_cfg env) (qr_limit rq)) (b, rqs) = (r, (b', rqs'))"
        "a = (case r of Inl e \<Rightarrow> query_error (rest_exception e) | Inr (items, next_page) \<Rightarrow>
           query_answer (qe_cfg env) rq items next_page (bounded_limit (qe_cfg env) (qr_limit rq)) warnings)"
proof (cases "validate_query rq")
  case (Inl e)
  then show thesis using assms(2) by (simp add: query_graph_data_def)
next
  case (Inr checked)
  show thesis
  proof (cases checked)
    case (Some e)
    then have "rqs' = rqs" "a = e" using assms(2) Inr by (simp_all add: query_graph_data_def)
    then show thesis using same validate_query_not_ok Inr Some by blast
  next
    case None
    obtain ids warnings where ids: "(if qr_operation rq = ''get_by_ids'' then normalize_ids (qr_target rq) (query_ids rq) else ([], [])) = (ids, warnings)"
      by fastforce
    note run = assms(2) [unfolded query_graph_data_def Inr None sum.case option.case Let_def ids prod.case]
    show thesis
    proof (cases "qr_operation rq = ''get_by_ids'' \<and> int (length ids) > (bounded_limit (qe_cfg env) (qr_limit rq))")
      case True
      with run have "rqs' = rqs" "\<exists>m t d. a = query_error_env m t d" by auto
      then show thesis using same not_ok_error by blast
    next
      case False
      show thesis
      proof (cases "qe_unavailable env")
        case (Some e)
        with run False have "rqs' = rqs" "a = query_error e" by auto
        then show thesis using same by (simp add: query_error_def bare_def Let_def)
      next
        case up: None
        obtain r b1 rqs1 where r: "execute_query (traced_client c) rq ids (bounded_limit (qe_cfg env) (qr_limit rq)) (b, rqs) = (r, (b1, rqs1))" by (metis prod.exhaust)
        from run False up r have "b1 = b'" "rqs1 = rqs'"
          "a = (case r of Inl e \<Rightarrow> query_error (rest_exception e) | Inr (items, next_page) \<Rightarrow> query_answer (qe_cfg env) rq items next_page (bounded_limit (qe_cfg env) (qr_limit rq)) warnings)"
          by (auto simp: assms(1) split: sum.splits prod.splits if_splits)
        with r asked show thesis by blast
      qed
    qed
  qed
qed

text \<open>C39. A structured query sends at most one request, a GET, whatever its arguments; and a successful answer holds at most
  the effective limit of items, which is at most 500, the configured maximum and the limit that was asked for, within the
  configured number of bytes.\<close>

theorem structured_query_reads_within_bounds:
  assumes "qe_client env = traced_client c" "query_graph_data env rq (b, rqs) = (Inr a, (b', rqs'))"
  shows "(rqs' = rqs \<or> (\<exists>q. rqs' = rqs @ [q] \<and> rr_method q = ''GET'')) \<and>
    (\<forall>data. nt_response a = envelope_ok data \<longrightarrow> (\<exists>items next_page limit. data = query_data rq items next_page limit \<and>
       int (length items) \<le> limit \<and> limit \<le> MAX_LIMIT \<and> int (length items) \<le> cfg_max_result_items (qe_cfg env) \<and>
       (\<forall>n. qr_limit rq = PInt n \<longrightarrow> limit \<le> n) \<and> gremlin_result_byte_size data \<le> cfg_max_result_bytes (qe_cfg env)))"
  using assms
proof (cases rule: query_cases)
  case same
  then show ?thesis by simp
next
  case (asked ids r warnings)
  have "rqs' = rqs \<or> (\<exists>q. rqs' = rqs @ [q] \<and> rr_method q = ''GET'')"
    using reads_once_query [of c rq ids "bounded_limit (qe_cfg env) (qr_limit rq)"] asked(1) unfolding reads_once_def by blast
  moreover have "\<exists>items next_page limit. data = query_data rq items next_page limit \<and>
     int (length items) \<le> limit \<and> limit \<le> MAX_LIMIT \<and> int (length items) \<le> cfg_max_result_items (qe_cfg env) \<and>
     (\<forall>n. qr_limit rq = PInt n \<longrightarrow> limit \<le> n) \<and> gremlin_result_byte_size data \<le> cfg_max_result_bytes (qe_cfg env)"
    if ok: "nt_response a = envelope_ok data" for data
  proof -
    from ok asked(2) obtain items next_page where "nt_response (query_answer (qe_cfg env) rq items next_page (bounded_limit (qe_cfg env) (qr_limit rq)) warnings) = envelope_ok data"
      by (auto simp: query_error_def bare_def Let_def split: sum.splits prod.splits)
    from query_answer_bounded [OF this] bounded_limit_le [of "qe_cfg env" "qr_limit rq"] show ?thesis
      by (intro exI [of _ items] exI [of _ next_page] exI [of _ "bounded_limit (qe_cfg env) (qr_limit rq)"]) auto
  qed
  ultimately show ?thesis by blast
qed

section \<open>A page of vertices\<close>

definition page_reply :: http_reply where
  "page_reply = \<lparr>rp_status = 200, rp_text = [], rp_content = [], rp_json = Some (PDict [(''vertices'', PList [PDict [(''id'', PInt 1)],
     PDict [(''id'', PInt 2)]]), (''page'', PStr ''p'')]), rp_raises = False, rp_truth = True\<rparr>"

definition page_env :: "(nat \<times> rest_request list) query_env" where
  "page_env = \<lparr>qe_cfg = demo_config, qe_unavailable = None,
     qe_client = traced_client \<lparr>cl_send = (\<lambda>rq n. (Inr page_reply, n + 1)), cl_session = demo_session\<rparr>\<rparr>"

definition page_request :: query_request where
  "page_request = \<lparr>qr_target = ''vertex'', qr_operation = ''page'', qr_id = PNone, qr_ids = PNone, qr_label = PStr ''p'', qr_properties = PNone,
     qr_limit = PInt 2, qr_page = PNone, qr_vertex_id = PNone, qr_direction = PNone\<rparr>"

lemma page_answered:
  "case query_graph_data page_env page_request (0, []) of (Inr a, (n, rqs)) \<Rightarrow> length rqs = 1 \<and> is_ok (nt_response a) | _ \<Rightarrow> False"
  by code_simp

theorem structured_query_reads_within_bounds_witness:
  "\<exists>a n q items next_page limit. query_graph_data page_env page_request (0, []) = (Inr a, (n, [q])) \<and> rr_method q = ''GET'' \<and>
    nt_response a = envelope_ok (query_data page_request items next_page limit) \<and> length items \<le> 2"
proof -
  obtain a n rqs where run: "query_graph_data page_env page_request (0, []) = (Inr a, (n, rqs))" and one: "length rqs = 1" "is_ok (nt_response a)"
    using page_answered by (auto split: prod.splits sum.splits)
  from one(2) obtain data where data: "nt_response a = envelope_ok data" by (cases "nt_response a") simp_all
  have client: "qe_client page_env = traced_client \<lparr>cl_send = (\<lambda>rq n. (Inr page_reply, n + 1)), cl_session = demo_session\<rparr>"
    by (simp add: page_env_def)
  have limit: "qr_limit page_request = PInt 2" by (simp add: page_request_def)
  note facts = structured_query_reads_within_bounds [OF client run]
  from facts one(1) obtain q where "rqs = [q]" "rr_method q = ''GET''" by auto
  moreover from facts data limit obtain items next_page l where "data = query_data page_request items next_page l" "int (length items) \<le> l" "l \<le> 2"
    by blast
  ultimately show ?thesis using run data by (intro exI conjI) (auto simp: data)
qed

end
