(* ===== verification/Client_Tasks.thy ===== *)
theory Client_Tasks
  imports Graph_Client
begin

text \<open>
  Model of \<open>TaskManager\<close> (\<open>api/task.py\<close>) and of \<open>OlapManager\<close> (\<open>api/olap.py\<close>) of the Python client: jobs that the server runs
  in the background, and the loop that waits for one. Readings of the clock are rational numbers; the limits on the time of a
  single request are left to the HTTP library, and the loop is a partial function whose value is \<open>None\<close> when it does not end.
\<close>

section \<open>The surroundings\<close>

text \<open>\<open>te_timed_out\<close> says which failures of the library are timeouts; \<open>te_loads\<close> is \<open>json.loads\<close>.\<close>

record 'b task_env =
  te_client :: "'b client"
  te_clock :: "'b \<Rightarrow> rat \<times> 'b"
  te_sleep :: "rat \<Rightarrow> 'b \<Rightarrow> 'b"
  te_timed_out :: "hg_exception \<Rightarrow> bool"
  te_loads :: "string \<Rightarrow> py option"

datatype task_error = Task_Timeout | Task_Failed py | Task_Cancelled py | Request_Failed rest_error

section \<open>Task requests\<close>

definition list_tasks :: "'b client \<Rightarrow> py \<Rightarrow> py \<Rightarrow> py \<Rightarrow> py \<Rightarrow> ('b, py) client_call" where
  "list_tasks c status limit ids page =
     (if truthy ids \<and> (status \<noteq> PNone \<or> page \<noteq> PNone) then refuse_call (ValueError ''ids cannot be combined with status or page'')
      else perform c (plain_call ''task.list'' [] [(''status'', status), (''limit'', limit), (''ids'', ids), (''page'', page)] None))"

definition get_task_call :: "py \<Rightarrow> bool \<Rightarrow> rest_call" where
  "get_task_call i with_result = plain_call ''task.get'' [(''id'', i)] [(''with_result'', PBool with_result)] None"

definition get_task :: "'b client \<Rightarrow> py \<Rightarrow> bool \<Rightarrow> ('b, py) client_call" where
  "get_task c i with_result = perform c (get_task_call i with_result)"

definition delete_task :: "'b client \<Rightarrow> py \<Rightarrow> bool \<Rightarrow> ('b, py) client_call" where
  "delete_task c i force = perform c (plain_call ''task.delete'' [(''id'', i)] [(''force'', PBool force)] None)"

definition cancel_task :: "'b client \<Rightarrow> py \<Rightarrow> ('b, py) client_call" where
  "cancel_task c i = perform c (plain_call ''task.update'' [(''id'', i)] [(''action'', PStr ''cancel'')] None)"

section \<open>Waiting\<close>

definition positive_number :: "string \<Rightarrow> py \<Rightarrow> rat res" where
  "positive_number what v = (case v of
      PFloat (Inf neg) \<Rightarrow> Inl (ValueError (what @ '' must be finite and positive''))
    | PFloat NaN \<Rightarrow> Inl (ValueError (what @ '' must be finite and positive''))
    | v \<Rightarrow> (case num_of v of
        None \<Rightarrow> Inl (TypeError (''must be real number, not '' @ type_name v))
      | Some q \<Rightarrow> if q \<le> 0 then Inl (ValueError (what @ '' must be finite and positive'')) else Inr q))"

definition validate_wait :: "py \<Rightarrow> py \<Rightarrow> (rat \<times> rat) res" where
  "validate_wait timeout poll = and_then (positive_number ''timeout'' timeout) (\<lambda>t.
     and_then (positive_number ''poll_interval'' poll) (\<lambda>p. Inr (t, p)))"

text \<open>\<open>str(task.get("task_status", "")).lower()\<close>; a reply that is no object raises.\<close>

definition task_status :: "py \<Rightarrow> string res" where
  "task_status task = (case task of
      PDict d \<Rightarrow> Inr (if has_key d ''task_status'' then lower (py_str (dget d ''task_status'')) else [])
    | v \<Rightarrow> Inl (AttributeError (repr_str (type_name v) @ '' object has no attribute '' @ repr_str ''get'')))"

text \<open>\<open>load\<close>: one reading of the task before the deadline; the request is not repeated by the library.\<close>

definition load_task :: "'b task_env \<Rightarrow> py \<Rightarrow> rat \<Rightarrow> bool \<Rightarrow> 'b \<Rightarrow> (task_error + py) \<times> 'b" where
  "load_task env i deadline with_result b = (case te_clock env b of (t, b1) \<Rightarrow>
     if deadline - t \<le> 0 then (Inl Task_Timeout, b1)
     else (case perform (te_client env) ((get_task_call i with_result)\<lparr>rl_retries := False\<rparr>) b1 of
       (Inl e, b2) \<Rightarrow> (case e of
           Client_Failure x \<Rightarrow> if te_timed_out env x then (case te_clock env b2 of (t', b3) \<Rightarrow>
               (Inl (if deadline \<le> t' then Task_Timeout else Request_Failed e), b3))
             else (Inl (Request_Failed e), b2)
         | _ \<Rightarrow> (Inl (Request_Failed e), b2))
     | (Inr task, b2) \<Rightarrow> (case te_clock env b2 of (t', b3) \<Rightarrow>
         (if deadline \<le> t' then Inl Task_Timeout else Inr task, b3))))"

definition no_status :: "py \<Rightarrow> task_error" where
  "no_status i = Request_Failed (Client_Failure (ResponseParseError (''Task '' @ py_str i @ '' response has no task_status'')))"

definition final_states :: "string list" where
  "final_states = [''success'', ''failed'', ''cancelled'']"

text \<open>One turn of the loop: \<open>None\<close> stands for going on after the pause.\<close>

definition poll_task :: "'b task_env \<Rightarrow> py \<Rightarrow> rat \<Rightarrow> 'b \<Rightarrow> (task_error + py) option \<times> 'b" where
  "poll_task env i deadline b = (case load_task env i deadline False b of
      (Inl e, b1) \<Rightarrow> (Some (Inl e), b1)
    | (Inr task, b1) \<Rightarrow> (case task_status task of
        Inl e \<Rightarrow> (Some (Inl (Request_Failed (Bad_Call e))), b1)
      | Inr st \<Rightarrow>
        if st = [] then (Some (Inl (no_status i)), b1)
        else if st \<in> set final_states then (case load_task env i deadline True b1 of
            (Inl e, b2) \<Rightarrow> (Some (Inl e), b2)
          | (Inr task', b2) \<Rightarrow> (case task_status task' of
              Inl e \<Rightarrow> (Some (Inl (Request_Failed (Bad_Call e))), b2)
            | Inr st' \<Rightarrow>
              (if st' = ''failed'' then Some (Inl (Task_Failed task'))
               else if st' = ''cancelled'' then Some (Inl (Task_Cancelled task'))
               else if st' = ''success'' then Some (Inr task') else None, b2)))
        else (None, b1)))"

definition pause :: "'b task_env \<Rightarrow> rat \<Rightarrow> rat \<Rightarrow> 'b \<Rightarrow> 'b" where
  "pause env poll deadline b = (case te_clock env b of (t, b1) \<Rightarrow> te_sleep env (min poll (max 0 (deadline - t))) b1)"

partial_function (option) wait_loop :: "'b task_env \<Rightarrow> py \<Rightarrow> rat \<Rightarrow> rat \<Rightarrow> 'b \<Rightarrow> ((task_error + py) \<times> 'b) option" where
  "wait_loop env i poll deadline b = (case poll_task env i deadline b of
      (Some r, b1) \<Rightarrow> Some (r, b1)
    | (None, b1) \<Rightarrow> wait_loop env i poll deadline (pause env poll deadline b1))"

definition wait_for_task :: "'b task_env \<Rightarrow> py \<Rightarrow> py \<Rightarrow> py \<Rightarrow> 'b \<Rightarrow> ((task_error + py) \<times> 'b) option" where
  "wait_for_task env i timeout poll b = (case validate_wait timeout poll of
      Inl e \<Rightarrow> Some (Inl (Request_Failed (Bad_Call e)), b)
    | Inr (t, p) \<Rightarrow> (case te_clock env b of (now, b1) \<Rightarrow> wait_loop env i p (now + t) b1))"

text \<open>\<open>TaskManager.result\<close>.\<close>

definition task_result :: "(string \<Rightarrow> py option) \<Rightarrow> py_dict \<Rightarrow> py" where
  "task_result loads task = (case dget task ''task_result'' of
      PStr s \<Rightarrow> (case loads s of Some v \<Rightarrow> v | None \<Rightarrow> PStr s)
    | v \<Rightarrow> v)"

section \<open>Full-graph algorithms\<close>

definition submit_algorithm :: "'b client \<Rightarrow> py \<Rightarrow> py \<Rightarrow> ('b, py_dict) client_call" where
  "submit_algorithm c name parameters =
     (case name of
        PStr s \<Rightarrow>
          if strip s = [] then refuse_call (ValueError ''algorithm name must be a non-empty string'')
          else (case (if parameters = PNone then Some [] else case parameters of PDict d \<Rightarrow> Some d | _ \<Rightarrow> None) of
            None \<Rightarrow> refuse_call (TypeError ''parameters must be a mapping'')
          | Some d \<Rightarrow> (\<lambda>b. case perform c (plain_call ''algorithm.post'' [(''name'', name)] [] (Some (PDict d))) b of
              (Inl e, b') \<Rightarrow> (Inl e, b')
            | (Inr receipt, b') \<Rightarrow> ((case receipt of
                PDict r \<Rightarrow> if has_key r ''task_id'' then Inr r
                  else Inl (Client_Failure (ResponseParseError ''Algorithm submission response has no task_id''))
              | _ \<Rightarrow> Inl (Client_Failure (ResponseParseError ''Algorithm submission response has no task_id''))), b')))
      | _ \<Rightarrow> refuse_call (ValueError ''algorithm name must be a non-empty string''))"

text \<open>The named methods submit under their own name.\<close>

definition ALGORITHM_METHODS :: "string list" where
  "ALGORITHM_METHODS = [''count_edge'', ''count_vertex'', ''subgraph_stat'', ''betweenness_centrality'', ''closeness_centrality'',
     ''degree_centrality'', ''eigenvector_centrality'', ''stress_centrality'', ''cluster_coefficient'', ''k_core'', ''louvain'', ''lpa'',
     ''triangle_count'', ''weak_connected_component'', ''rings'', ''page_rank'', ''fusiform_similarity'']"

definition run_algorithm :: "'b task_env \<Rightarrow> py \<Rightarrow> py \<Rightarrow> py \<Rightarrow> py \<Rightarrow> 'b \<Rightarrow> ((task_error + py) \<times> 'b) option" where
  "run_algorithm env name parameters timeout poll b = (case validate_wait timeout poll of
      Inl e \<Rightarrow> Some (Inl (Request_Failed (Bad_Call e)), b)
    | Inr tp \<Rightarrow> (case submit_algorithm (te_client env) name parameters b of
        (Inl e, b1) \<Rightarrow> Some (Inl (Request_Failed e), b1)
      | (Inr receipt, b1) \<Rightarrow> (case wait_for_task env (dget receipt ''task_id'') timeout poll b1 of
          None \<Rightarrow> None
        | Some (Inl e, b2) \<Rightarrow> Some (Inl e, b2)
        | Some (Inr task, b2) \<Rightarrow> Some (Inr (case task of PDict d \<Rightarrow> task_result (te_loads env) d | v \<Rightarrow> v), b2))))"

section \<open>Waiting ends\<close>

text \<open>A clock that reading does not change, that never goes back during a request, and that a pause advances by its length.\<close>

definition steady_clock :: "'b task_env \<Rightarrow> ('b \<Rightarrow> rat) \<Rightarrow> bool" where
  "steady_clock env now \<longleftrightarrow> (\<forall>b. te_clock env b = (now b, b)) \<and> (\<forall>call b. now b \<le> now (snd (perform (te_client env) call b))) \<and>
     (\<forall>d b. 0 \<le> d \<longrightarrow> now b + d \<le> now (te_sleep env d b))"

lemma load_task_time:
  assumes "steady_clock env now" "load_task env i deadline wr b = (r, b')"
  shows "now b \<le> now b'" "r = Inl Task_Timeout \<Longrightarrow> deadline \<le> now b'" "r = Inr task \<Longrightarrow> now b' < deadline"
proof -
  note clock = assms(1) [unfolded steady_clock_def]
  let ?call = "(get_task_call i wr)\<lparr>rl_retries := False\<rparr>"
  obtain q b2 where q: "perform (te_client env) ?call b = (q, b2)" by (cases "perform (te_client env) ?call b")
  then have later: "now b \<le> now b2" using clock by (metis snd_conv)
  show "now b \<le> now b'" "r = Inl Task_Timeout \<Longrightarrow> deadline \<le> now b'" "r = Inr task \<Longrightarrow> now b' < deadline"
    using assms(2) clock later q
    by (auto simp: load_task_def split: sum.splits rest_error.splits if_splits)
qed

lemma poll_task_time:
  assumes "steady_clock env now" "poll_task env i deadline b = (r, b')"
  shows "now b \<le> now b'" "r = Some (Inl Task_Timeout) \<Longrightarrow> deadline \<le> now b'" "r = None \<Longrightarrow> now b' < deadline"
    "r = Some (Inr task) \<Longrightarrow> task_status task = Inr ''success''"
proof -
  obtain q b1 where q: "load_task env i deadline False b = (q, b1)" by (cases "load_task env i deadline False b")
  obtain q' b2 where q': "load_task env i deadline True b1 = (q', b2)" by (cases "load_task env i deadline True b1")
  note t = load_task_time [OF assms(1) q] load_task_time [OF assms(1) q']
  show "now b \<le> now b'" "r = Some (Inl Task_Timeout) \<Longrightarrow> deadline \<le> now b'" "r = None \<Longrightarrow> now b' < deadline"
    "r = Some (Inr task) \<Longrightarrow> task_status task = Inr ''success''"
    using assms(2) q q' t by (auto simp: poll_task_def no_status_def split: sum.splits if_splits)
qed

text \<open>The number of pauses that are left at most.\<close>

definition pauses_left :: "rat \<Rightarrow> rat \<Rightarrow> rat \<Rightarrow> nat" where
  "pauses_left poll deadline t = nat \<lceil>(deadline - t) / poll\<rceil>"

lemma pause_progress:
  assumes "steady_clock env now" "0 < poll" "now b < deadline"
  shows "pauses_left poll deadline (now (pause env poll deadline b)) < pauses_left poll deadline (now b)"
proof -
  let ?d = "min poll (deadline - now b)" and ?t = "now (pause env poll deadline b)"
  have "pause env poll deadline b = te_sleep env ?d b"
    using assms(1,3) by (simp add: steady_clock_def pause_def)
  then have t: "now b + ?d \<le> ?t" using assms unfolding steady_clock_def by simp
  have pos: "0 < (deadline - now b) / poll" using assms(2,3) by simp
  show ?thesis
  proof (cases "poll \<le> deadline - now b")
    case True
    then have "deadline - ?t \<le> (deadline - now b) - poll" using t by simp
    then have "(deadline - ?t) / poll \<le> ((deadline - now b) - poll) / poll" using assms(2) by (intro divide_right_mono) auto
    also have "\<dots> = (deadline - now b) / poll - 1" using assms(2) by (simp add: diff_divide_distrib)
    finally have "(deadline - ?t) / poll \<le> (deadline - now b) / poll - 1" .
    then have "\<lceil>(deadline - ?t) / poll\<rceil> \<le> \<lceil>(deadline - now b) / poll\<rceil> - 1"
      using ceiling_mono by (simp add: ceiling_diff_one [symmetric] del: ceiling_diff_one)
    moreover have "0 < \<lceil>(deadline - now b) / poll\<rceil>" using pos by (simp only: zero_less_ceiling)
    ultimately show ?thesis unfolding pauses_left_def by linarith
  next
    case False
    then have "deadline - ?t \<le> 0" using t by simp
    then have "(deadline - ?t) / poll \<le> 0" using assms(2) by (simp add: divide_le_0_iff)
    moreover have "0 < \<lceil>(deadline - now b) / poll\<rceil>" using pos by (simp only: zero_less_ceiling)
    ultimately show ?thesis unfolding pauses_left_def by simp
  qed
qed

text \<open>C40. Waiting for a task always ends: when requests do not turn the clock back and a pause lasts as long as it should, the loop
  returns for every positive interval, whatever the server answers. If it returns a task, the last reading said success;
  if it reports a timeout, the deadline has passed.\<close>

theorem waiting_ends:
  assumes "steady_clock env now" "0 < poll"
  shows "\<exists>r b'. wait_loop env i poll deadline b = Some (r, b') \<and> (\<forall>task. r = Inr task \<longrightarrow> task_status task = Inr ''success'') \<and>
    (r = Inl Task_Timeout \<longrightarrow> deadline \<le> now b')"
proof (induction "pauses_left poll deadline (now b)" arbitrary: b rule: less_induct)
  case less
  obtain q b1 where q: "poll_task env i deadline b = (q, b1)" by (cases "poll_task env i deadline b")
  note time = poll_task_time [OF assms(1) q]
  show ?case
  proof (cases q)
    case (Some r)
    then have "wait_loop env i poll deadline b = Some (r, b1)" using q by (simp add: wait_loop.simps)
    then show ?thesis using time Some by auto
  next
    case None
    have "pauses_left poll deadline (now (pause env poll deadline b1)) < pauses_left poll deadline (now b1)"
      by (rule pause_progress [OF assms time(3) [OF None]])
    also have "\<dots> \<le> pauses_left poll deadline (now b)"
      unfolding pauses_left_def using time(1) assms(2) by (intro nat_mono ceiling_mono divide_right_mono) auto
    finally have "\<exists>r b'. wait_loop env i poll deadline (pause env poll deadline b1) = Some (r, b') \<and>
      (\<forall>task. r = Inr task \<longrightarrow> task_status task = Inr ''success'') \<and> (r = Inl Task_Timeout \<longrightarrow> deadline \<le> now b')"
      by (rule less)
    moreover have "wait_loop env i poll deadline b = wait_loop env i poll deadline (pause env poll deadline b1)"
      using q None by (simp add: wait_loop.simps [of env i poll deadline b])
    ultimately show ?thesis by simp
  qed
qed

text \<open>A server whose state is the time; the task runs until the time 3, and every request takes a tenth of a second.\<close>

definition task_env_demo :: "rat task_env" where
  "task_env_demo = \<lparr>te_client = \<lparr>cl_send = (\<lambda>rq t. (Inr \<lparr>rp_status = 200, rp_text = [], rp_content = [],
       rp_json = Some (PDict [(''task_status'', PStr (if t < 3 then ''RUNNING'' else ''SUCCESS''))]), rp_raises = False, rp_truth = True\<rparr>, t + 1 / 10)),
     cl_session = demo_session\<rparr>, te_clock = (\<lambda>t. (t, t)), te_sleep = (\<lambda>d t. t + d), te_timed_out = (\<lambda>e. False), te_loads = (\<lambda>s. None)\<rparr>"

lemma demo_clock: "steady_clock task_env_demo (\<lambda>t. t)"
  by (auto simp: steady_clock_def task_env_demo_def perform_def rest_perform_def rest_send_def split: sum.splits)

theorem waiting_ends_witness:
  "\<exists>r b'. wait_loop task_env_demo (PInt 7) 1 10 0 = Some (r, b') \<and> (r = Inl Task_Timeout \<longrightarrow> 10 \<le> b')"
  using waiting_ends [OF demo_clock, of 1 "PInt 7" 10 0] by auto

end
