(* ===== verification/Spec2Isabelle.thy ===== *)
theory Spec2Isabelle
  imports Write_Races Write_Liveness Gremlin_Scanner Confirmable Write_Adapters Graph_Manage_Safety
    Property_Mutations Schema_Manage Graph_Query Client_Tasks
begin

text \<open>
  A verification library for the write path and the read tools of the HugeGraph MCP server
  (\<open>hugegraph-mcp/hugegraph_mcp\<close> under \<open>src/\<close>) and for the Python client it talks to the graph server with
  (\<open>hugegraph-python-client/src/pyhugegraph\<close>).

  The program. An MCP client asks the server to read or to change a graph. Reads are Gremlin texts
  that must pass the policy of \<open>gremlin_policy.py\<close>. A write starts as graph data or as a change plan, which
  is mapped, validated against the live schema and looked up in the graph by a dry run (\<open>tools/graph_data_*.py\<close>),
  compiled to operations with stable identities (\<open>tools/graph_write_plan.py\<close>), stored, and executed by a separate
  confirmation. Two protocols exist. In the canonical one the plan is
  an immutable list of operations in a SQLite store (\<open>write_plan.py\<close>, \<open>plan_store.py\<close>); an executor
  (\<open>write_executor.py\<close>) takes a lease on the plan, claims one operation after the other, calls the
  adapter of its kind and records the receipt; a reconciler (\<open>reconciler.py\<close>) settles operations whose
  outcome is unknown by looking at the graph. In the legacy one a hash binds the plan to its target
  (\<open>plan_hash.py\<close>) and a ledger makes each confirmation single-use (\<open>confirmation_store.py\<close>,
  \<open>confirmable_workflow.py\<close>, \<open>write_contract.py\<close>). Every write passes the capability guard and the
  size limits (\<open>guard.py\<close>, \<open>write_limits.py\<close>), which read the configuration (\<open>config.py\<close>).

  The theories.
  \<^item> \<open>Py_Base\<close>: Python values, exceptions and the string operations in use; \<open>Json_Text\<close>: the text of
    \<open>json.dumps\<close>; \<open>Json_Unique\<close>: that text determines the value, by a prefix argument on delimited texts.
  \<^item> \<open>Write_Plan\<close> (\<open>write_plan.py\<close>): statuses, the state machine, plans and receipts with the checks of
    their constructors; \<open>mk_write_plan_iff\<close> says what a constructed plan satisfies.
  \<^item> \<open>Plan_Store\<close> (\<open>plan_store.py\<close>): the two tables and one function per transaction. A transaction
    that raises before its commit returns the database as it was. \<open>Store_Facts\<close> gives the effect of
    each transaction on the rows, \<open>Protocol\<close> the transition system of all processes that share the
    store (\<open>store_step\<close>, \<open>run\<close>) with its two invariants.
  \<^item> \<open>Executor\<close> (\<open>write_executor.py\<close>) and \<open>Reconciler\<close> (\<open>reconciler.py\<close>): the clients of the store, over
    the record \<open>PlanStore\<close> that stands for the Python protocol class. \<open>Plan_Contract\<close> states what they
    rely on as the locale \<open>plan_store\<close>, proves the client lemmas there and interprets it on SQLite.
  \<^item> \<open>Write_Lifecycle\<close>: the properties of the canonical protocol. \<open>Write_Liveness\<close>: a confirmation that nobody
    disturbs completes. \<open>Write_Races\<close>: schedules and inputs on which the code does not do what it means to do.
  \<^item> \<open>Config\<close> (\<open>config.py\<close>, \<open>toolsets.py\<close>), \<open>Backend_Capabilities\<close> (\<open>backend_capabilities.py\<close>), \<open>Response\<close> (\<open>envelope.py\<close>, the taxonomy only), \<open>Guard\<close>
    (\<open>guard.py\<close>, \<open>write_limits.py\<close>, \<open>error_mapping.py\<close>).
  \<^item> \<open>Confirmation_Store\<close>, \<open>Plan_Hash\<close>, \<open>Confirmable\<close>: the legacy protocol.
  \<^item> \<open>Gremlin_Policy\<close> (\<open>gremlin_policy.py\<close>): scanner, token analysis and classification; \<open>Gremlin_Scanner\<close> writes
    the scanner as the code does, with its loops, and shows that they end and agree. \<open>Gremlin_Text\<close>
    (\<open>tools/graph_data_gremlin.py\<close>): the generated queries, with emission lemmas that say what the scanner
    makes of each piece of such a text; \<open>Gremlin_Queries\<close> draws from them that no value can inject a
    call, \<open>Gremlin_Reads\<close> when a generated lookup passes the policy. \<open>Gremlin_Tools\<close>
    (\<open>gremlin_tools.py\<close>, and the reply validation of the Python client): reading and writing.
  \<^item> \<open>Write_Adapters\<close> (\<open>tools/graph_write_adapter.py\<close>): the adapters of the executor and the readers of
    the reconciler over the Gremlin tools; their receipts satisfy what \<open>Protocol\<close> assumes of them.
  \<^item> \<open>Schema_Utils\<close> (\<open>tools/schema_contract.py\<close>, \<open>tools/schema_utils.py\<close>), \<open>Property_Validation\<close>
    (\<open>tools/property_validation.py\<close>), \<open>Graph_Validate\<close>, \<open>Graph_Mapping\<close>, \<open>Graph_Dry_Run\<close>, \<open>Graph_Execute\<close>
    (\<open>tools/graph_data_validate.py\<close>, \<open>graph_data_mapping.py\<close>, \<open>graph_data_execute.py\<close>) and \<open>Graph_Write_Plan\<close>
    (\<open>tools/graph_write_plan.py\<close>): the way of a change plan from the request to its execution. \<open>Gremlin_Trace\<close> records the
    calls of the Gremlin tools and has the rules by which a computation only reads or writes once; \<open>Graph_Pipeline\<close> proves
    with them that a dry run only reads, and that the preview shows what the compiled plan does. \<open>Graph_Execute\<close> shows
    what the direct executor sends and that its result accounts for every operation.
  \<^item> \<open>Graph_Ingest\<close> (\<open>tools/ingest_graph_data.py\<close>): the import of vertices and edges, its digest and its
    report. \<open>Graph_Manage\<close> (\<open>tools/manage_graph_data.py\<close>): the handler that puts the steps together, with the
    world it changes (ledger, plan store, graph); \<open>Graph_Manage_Safety\<close>: what such a call may send to the graph.
  \<^item> \<open>Property_Mutations\<close> (\<open>tools/mutate_graph_properties.py\<close>): the preview of a change of properties, which
    cannot be confirmed.
  \<^item> \<open>Schema_Operations\<close> (the validation half of \<open>tools/manage_schema.py\<close>): a batch of schema operations that is
    found valid can be executed in order. \<open>Schema_Builders\<close> (\<open>api/schema_manage/*.py\<close>, \<open>api/common.py\<close> and
    \<open>utils/huge_decorator.py\<close> of the Python client): the fluent builders, whose state is the dictionary of
    parameters, and the request that each of them sends. \<open>Schema_Apply\<close>: the calls that an operation makes on a builder,
    the comparison of the live object with the operation and the create between two readings. \<open>Schema_Forwarding\<close>
    composes the three: a valid operation arrives in the body of the request field by field. \<open>Schema_Plans\<close>
    (\<open>tools/schema_write_adapter.py\<close>): schema creates under the canonical protocol. \<open>Schema_Manage\<close>: the dry run and
    the entry point, on the same world as \<open>Graph_Manage\<close>, and what a call may send.
  \<^item> The Python client. \<open>Rest_Request\<close> (\<open>api/common.py\<close>, \<open>utils/compat.py\<close>, \<open>utils/id_format.py\<close>,
    \<open>utils/huge_requests.py\<close>, \<open>utils/authentication.py\<close>): from an operation and its arguments to the request that
    reaches the HTTP library, with the lemmas that a quoted text is read back. \<open>Rest_Catalog\<close>
    (\<open>api/server_contract.json\<close>, \<open>api/endpoints.py\<close>): the table of all operations; the URL of a request decodes to its
    path parameters. \<open>Rest_Methods\<close> (\<open>api/rest.py\<close>): the low-level resources, a table of the arguments that each
    method passes on, checked against the catalog. \<open>Graph_Client\<close> (\<open>api/graph.py\<close>): the graph manager.
    \<open>Client_Tasks\<close> (\<open>api/task.py\<close>, \<open>api/olap.py\<close>): background jobs and the loop that waits for one.
  \<^item> \<open>Graph_Query\<close> (\<open>tools/query_graph_data.py\<close> of the server): structured reads over the graph manager.

  Conventions. A Python string is a list of characters with code points below 256, a dict is an
  association list in insertion order, an exception is a value of \<open>py_exc\<close> and a function that may
  raise returns a sum. Clock readings and random tokens are arguments or, in the executor, sequences
  of readings. SHA-256, \<open>float(text)\<close> and
  \<open>datetime.fromisoformat\<close> are parameters. Integers are unbounded as in Python. Every
  loop is a structural recursion, except the scanner, which recurses on the rest of the text; no fuel
  is used anywhere. The loops of \<open>Gremlin_Scanner\<close> and the waiting loop of \<open>Client_Tasks\<close> are partial functions whose value
  \<open>None\<close> stands for a loop that does not end; \<open>scanner_returns\<close> and \<open>waiting_ends\<close> exclude it, the second
  for a clock that advances with the pauses. The HTTP library is a parameter: a function from a request and the state of the
  outside world to a reply or an exception; the clock, the pause and \<open>json.loads\<close> of a task result are parameters too.

  Not modelled: failures of SQLite and of the file system, the migration of version 0 plan databases,
  the redaction of secrets in responses, logging, the MCP transport and the registration of the tools,
  the reading of the live schema, which is a parameter, the tools that inspect the graph, extract data or ask the AI service,
  and the LLM pipelines. Of the Python client: the probe of the server version, retries, redirects and the redaction of logs,
  and the managers that only rename operations of the catalog (\<open>traverser\<close>, \<open>auth\<close>, \<open>metrics\<close> and others).
  The machine-learning packages compute with floating-point tensors of third-party libraries.
\<close>

end
